(* ===== verification/Prelude.thy ===== *)
theory Prelude
  imports Main "HOL-Library.Word" "HOL-Library.Sublist"
begin

text \<open>
  Shared vocabulary of the development: Go's machine integers, nil-able maps, error
  values, and the effect monad in which the operator's code is written.

  \<^item> A Go \<open>int32\<close> is a \<open>32 word\<close>, an \<open>int\<close> or \<open>int64\<close> a \<open>64 word\<close>; both wrap.
    Go's signed division truncates towards zero and panics on a zero divisor.
  \<^item> A Go map is \<open>('k \<rightharpoonup> 'v) option\<close>: \<open>None\<close> is the nil map, which reads as empty and
    panics when written. A Go slice is a list; the code never tells a nil slice
    from an empty one apart in its result, so both are \<open>[]\<close>.
  \<^item> An effectful function is an \<open>io\<close>: it takes a state and either never returns
    (\<open>None\<close>) or returns an outcome, a value, an error or a panic, with a new state.
\<close>

section \<open>Collections of facts\<close>

named_theorems gomap_simps "reading and writing Go maps"
named_theorems io_simps "evaluation of the effect monad"
named_theorems name_defs "definitions of the resource-name functions"

section \<open>Machine integers\<close>

type_synonym int32 = "32 word"
type_synonym int64 = "64 word"

definition trunc_quot :: "int \<Rightarrow> int \<Rightarrow> int" where
  "trunc_quot a b = sgn a * sgn b * (\<bar>a\<bar> div \<bar>b\<bar>)"

definition div_int64 :: "int64 \<Rightarrow> int64 \<Rightarrow> int64 option" where
  "div_int64 a b = (if b = 0 then None else Some (word_of_int (trunc_quot (sint a) (sint b))))"

definition int_of_int32 :: "int32 \<Rightarrow> int64" where
  "int_of_int32 x = word_of_int (sint x)"

definition int32_of_int :: "int64 \<Rightarrow> int32" where
  "int32_of_int x = word_of_int (sint x)"

definition less_int64 :: "int64 \<Rightarrow> int64 \<Rightarrow> bool" where
  "less_int64 a b \<longleftrightarrow> sint a < sint b"

definition len :: "'a list \<Rightarrow> int64" where
  "len xs = word_of_int (int (length xs))"

lemma trunc_quot_nonneg: "0 \<le> a \<Longrightarrow> 0 < b \<Longrightarrow> trunc_quot a b = a div b"
  by (cases "a = 0") (simp_all add: trunc_quot_def)

lemma sint_word64_id: "- (2 ^ 63) \<le> k \<Longrightarrow> k < 2 ^ 63 \<Longrightarrow> sint (word_of_int k :: int64) = k"
  by (simp add: sint_word_ariths signed_of_int signed_take_bit_int_eq_self)

lemma sint_word32_id: "- (2 ^ 31) \<le> k \<Longrightarrow> k < 2 ^ 31 \<Longrightarrow> sint (word_of_int k :: int32) = k"
  by (simp add: sint_word_ariths signed_of_int signed_take_bit_int_eq_self)

lemma sint32_range: "- (2 ^ 31) \<le> sint (x :: int32)" "sint (x :: int32) < 2 ^ 31"
  using sint_greater_eq [of x] sint_less [of x] by simp_all

lemma sint64_range: "- (2 ^ 63) \<le> sint (x :: int64)" "sint (x :: int64) < 2 ^ 63"
  using sint_greater_eq [of x] sint_less [of x] by simp_all

lemma sint_int_of_int32 [simp]: "sint (int_of_int32 x) = sint x"
  unfolding int_of_int32_def by (rule sint_word64_id) (use sint32_range [of x] in simp_all)

lemma int32_of_int_of_int32 [simp]: "int32_of_int (int_of_int32 x) = x"
  by (simp add: int32_of_int_def)

lemma sint_len: "length xs < 2 ^ 63 \<Longrightarrow> sint (len xs) = int (length xs)"
  unfolding len_def by (rule sint_word64_id) (simp_all add: order.trans [of _ 0])

section \<open>Nil-able maps\<close>

type_synonym ('k, 'v) gomap = "('k \<rightharpoonup> 'v) option"

definition mget :: "('k, 'v) gomap \<Rightarrow> 'k \<Rightarrow> 'v option" where
  "mget m k = (case m of None \<Rightarrow> None | Some f \<Rightarrow> f k)"

definition mput :: "('k, 'v) gomap \<Rightarrow> 'k \<Rightarrow> 'v \<Rightarrow> ('k, 'v) gomap option" where
  "mput m k v = (case m of None \<Rightarrow> None | Some f \<Rightarrow> Some (Some (f(k \<mapsto> v))))"

definition mrange :: "('k, 'v) gomap \<Rightarrow> 'k \<rightharpoonup> 'v" where
  "mrange m = (case m of None \<Rightarrow> Map.empty | Some f \<Rightarrow> f)"

lemma mget_simps [simp, gomap_simps]: "mget None k = None" "mget (Some f) k = f k"
  by (simp_all add: mget_def)

lemma mrange_simps [simp, gomap_simps]: "mrange None = Map.empty" "mrange (Some f) = f"
  by (simp_all add: mrange_def)

lemma mrange_mget: "mrange m k = mget m k"
  by (cases m) simp_all

text \<open>\<open>copy_entries\<close> is the loop \<open>for k, v := range b { a[k] = v }\<close>, with the entries of \<open>b\<close> in the order visited.\<close>

fun copy_entries :: "('k \<times> 'v) list \<Rightarrow> ('k, 'v) gomap \<Rightarrow> ('k, 'v) gomap option" where
  "copy_entries [] labels = Some labels"
| "copy_entries ((key, value) # es) labels =
     (case mput labels key value of None \<Rightarrow> None | Some labels1 \<Rightarrow> copy_entries es labels1)"

lemma copy_entries_Some: "copy_entries es (Some m) = Some (Some (m ++ map_of (rev es)))"
  by (induction es arbitrary: m) (auto simp: mput_def map_add_def fun_eq_iff split: option.splits)

lemma map_of_rev: "distinct (map fst es) \<Longrightarrow> map_of (rev es) = map_of es"
  by (simp add: map_of_inject_set rev_map [symmetric])

section \<open>Errors and outcomes\<close>

datatype reason = NotFound | AlreadyExists | Unknown

record go_error =
  err_reason :: reason
  err_text :: string

definition new_error :: "string \<Rightarrow> go_error" where
  "new_error s = \<lparr>err_reason = Unknown, err_text = s\<rparr>"

definition is_not_found :: "go_error \<Rightarrow> bool" where
  "is_not_found e \<longleftrightarrow> err_reason e = NotFound"

definition is_already_exists :: "go_error \<Rightarrow> bool" where
  "is_already_exists e \<longleftrightarrow> err_reason e = AlreadyExists"

lemma reason_simps [simp]:
  "is_not_found e \<Longrightarrow> \<not> is_already_exists e"
  "\<not> is_not_found (new_error s)"
  "\<not> is_already_exists (new_error s)"
  "err_text (new_error s) = s"
  by (simp_all add: is_not_found_def is_already_exists_def new_error_def)

datatype 'a outcome = Ret 'a | Fail go_error | Panic string

type_synonym ('s, 'a) io = "'s \<Rightarrow> ('a outcome \<times> 's) option"

section \<open>The effect monad\<close>

definition io_ret :: "'a \<Rightarrow> ('s, 'a) io" where
  "io_ret a s = Some (Ret a, s)"

definition io_fail :: "go_error \<Rightarrow> ('s, 'a) io" where
  "io_fail e s = Some (Fail e, s)"

definition io_panic :: "string \<Rightarrow> ('s, 'a) io" where
  "io_panic p s = Some (Panic p, s)"

definition io_bind :: "('s, 'a) io \<Rightarrow> ('a \<Rightarrow> ('s, 'b) io) \<Rightarrow> ('s, 'b) io" where
  "io_bind m f s =
     (case m s of
        None \<Rightarrow> None
      | Some (r, s1) \<Rightarrow>
          (case r of
             Ret a \<Rightarrow> f a s1
           | Fail e \<Rightarrow> Some (Fail e, s1)
           | Panic p \<Rightarrow> Some (Panic p, s1)))"

text \<open>\<open>io_try\<close> hands the error to the code that inspects it, as \<open>x, err := f()\<close> does.\<close>

definition io_try :: "('s, 'a) io \<Rightarrow> ('s, go_error + 'a) io" where
  "io_try m s =
     (case m s of
        None \<Rightarrow> None
      | Some (r, s1) \<Rightarrow>
          (case r of
             Ret a \<Rightarrow> Some (Ret (Inr a), s1)
           | Fail e \<Rightarrow> Some (Ret (Inl e), s1)
           | Panic p \<Rightarrow> Some (Panic p, s1)))"

definition io_of :: "go_error + 'a \<Rightarrow> ('s, 'a) io" where
  "io_of r = (case r of Inl e \<Rightarrow> io_fail e | Inr a \<Rightarrow> io_ret a)"

definition io_get :: "('s \<Rightarrow> 'a) \<Rightarrow> ('s, 'a) io" where
  "io_get f s = Some (Ret (f s), s)"

definition io_mod :: "('s \<Rightarrow> 's) \<Rightarrow> ('s, unit) io" where
  "io_mod f s = Some (Ret (), f s)"

text \<open>\<open>io_fold\<close> is a \<open>for range\<close> loop whose body may fail: the first failure ends it.\<close>

fun io_fold :: "('a \<Rightarrow> 'b \<Rightarrow> ('s, 'b) io) \<Rightarrow> 'a list \<Rightarrow> 'b \<Rightarrow> ('s, 'b) io" where
  "io_fold f [] b = io_ret b"
| "io_fold f (x # xs) b = io_bind (f x b) (io_fold f xs)"

lemma io_ret_apply [io_simps]: "io_ret a s = Some (Ret a, s)"
  by (simp add: io_ret_def)

lemma io_fail_apply [io_simps]: "io_fail e s = Some (Fail e, s)"
  by (simp add: io_fail_def)

lemma io_panic_apply [io_simps]: "io_panic p s = Some (Panic p, s)"
  by (simp add: io_panic_def)

lemma io_get_apply [io_simps]: "io_get f s = Some (Ret (f s), s)"
  by (simp add: io_get_def)

lemma io_mod_apply [io_simps]: "io_mod f s = Some (Ret (), f s)"
  by (simp add: io_mod_def)

lemma io_of_simps [io_simps]: "io_of (Inl e) = io_fail e" "io_of (Inr a) = io_ret a"
  by (simp_all add: io_of_def)

lemma io_bind_ret [io_simps]: "io_bind (io_ret a) f = f a"
  by (simp add: fun_eq_iff io_bind_def io_ret_def)

lemma io_bind_fail [io_simps]: "io_bind (io_fail e) f = io_fail e"
  by (simp add: fun_eq_iff io_bind_def io_fail_def)

lemma io_bind_panic [io_simps]: "io_bind (io_panic p) f = io_panic p"
  by (simp add: fun_eq_iff io_bind_def io_panic_def)

lemma io_bind_assoc: "io_bind (io_bind m f) g = io_bind m (\<lambda>x. io_bind (f x) g)"
  by (simp add: fun_eq_iff io_bind_def split: option.splits outcome.splits)

lemma io_bind_Some [io_simps]:
  "m s = Some (Ret a, s1) \<Longrightarrow> io_bind m f s = f a s1"
  "m s = Some (Fail e, s1) \<Longrightarrow> io_bind m f s = Some (Fail e, s1)"
  "m s = Some (Panic p, s1) \<Longrightarrow> io_bind m f s = Some (Panic p, s1)"
  "m s = None \<Longrightarrow> io_bind m f s = None"
  by (simp_all add: io_bind_def)

lemma io_try_Some [io_simps]:
  "m s = Some (Ret a, s1) \<Longrightarrow> io_try m s = Some (Ret (Inr a), s1)"
  "m s = Some (Fail e, s1) \<Longrightarrow> io_try m s = Some (Ret (Inl e), s1)"
  "m s = Some (Panic p, s1) \<Longrightarrow> io_try m s = Some (Panic p, s1)"
  "m s = None \<Longrightarrow> io_try m s = None"
  by (simp_all add: io_try_def)

lemma io_bind_RetE:
  assumes "io_bind m f s = Some (Ret b, s2)"
  obtains a s1 where "m s = Some (Ret a, s1)" "f a s1 = Some (Ret b, s2)"
  using assms by (auto simp: io_bind_def split: option.splits outcome.splits)

lemma io_bind_FailE:
  assumes "io_bind m f s = Some (Fail e, s2)"
  obtains "m s = Some (Fail e, s2)"
  | a s1 where "m s = Some (Ret a, s1)" "f a s1 = Some (Fail e, s2)"
  using assms by (auto simp: io_bind_def split: option.splits outcome.splits)

section \<open>Loops that may not end\<close>

text \<open>
  \<open>loop body l\<close> is \<open>for { ... }\<close> with loop-carried state \<open>l\<close>: the body continues with
  \<open>Inl l'\<close> and breaks with \<open>Inr a\<close>. A loop that runs forever is \<open>None\<close>.
\<close>

partial_function (option) loop :: "('l \<Rightarrow> ('s, 'l + 'a) io) \<Rightarrow> 'l \<Rightarrow> 's \<Rightarrow> ('a outcome \<times> 's) option" where
  "loop body l s =
     (case body l s of
        None \<Rightarrow> None
      | Some (r, s1) \<Rightarrow>
          (case r of
             Ret x \<Rightarrow> (case x of Inl l1 \<Rightarrow> loop body l1 s1 | Inr a \<Rightarrow> Some (Ret a, s1))
           | Fail e \<Rightarrow> Some (Fail e, s1)
           | Panic p \<Rightarrow> Some (Panic p, s1)))"

text \<open>\<open>rounds n body l s\<close>: where \<open>n\<close> rounds that all continue lead.\<close>

fun rounds :: "nat \<Rightarrow> ('l \<Rightarrow> ('s, 'l + 'a) io) \<Rightarrow> 'l \<Rightarrow> 's \<Rightarrow> ('l \<times> 's) option" where
  "rounds 0 body l s = Some (l, s)"
| "rounds (Suc n) body l s =
     (case body l s of
        Some (Ret (Inl l1), s1) \<Rightarrow> rounds n body l1 s1
      | _ \<Rightarrow> None)"

lemma loop_continue: "body l s = Some (Ret (Inl l1), s1) \<Longrightarrow> loop body l s = loop body l1 s1"
  by (subst loop.simps) simp

lemma loop_break: "body l s = Some (Ret (Inr a), s1) \<Longrightarrow> loop body l s = Some (Ret a, s1)"
  by (subst loop.simps) simp

lemma loop_fail: "body l s = Some (Fail e, s1) \<Longrightarrow> loop body l s = Some (Fail e, s1)"
  by (subst loop.simps) simp

lemma loop_rounds: "rounds n body l s = Some (l1, s1) \<Longrightarrow> loop body l s = loop body l1 s1"
proof (induction n arbitrary: l s)
  case 0
  then show ?case by simp
next
  case (Suc n)
  then show ?case
    by (auto simp: loop_continue split: option.splits outcome.splits sum.splits)
qed

lemma loop_returns:
  "rounds n body l s = Some (l1, s1) \<Longrightarrow> body l1 s1 = Some (Ret (Inr a), s2) \<Longrightarrow>
     loop body l s = Some (Ret a, s2)"
  by (simp add: loop_rounds loop_break)

text \<open>Whatever the loop returns, the last round produced it after rounds that continued.\<close>

definition ends_with :: "('l \<Rightarrow> ('s, 'l + 'a) io) \<Rightarrow> 'l \<Rightarrow> 's \<Rightarrow> 'a outcome \<times> 's \<Rightarrow> bool" where
  "ends_with body l s res \<longleftrightarrow>
     (\<exists>n l1 s1. rounds n body l s = Some (l1, s1) \<and>
        (case fst res of
           Ret a \<Rightarrow> body l1 s1 = Some (Ret (Inr a), snd res)
         | Fail e \<Rightarrow> body l1 s1 = Some (Fail e, snd res)
         | Panic p \<Rightarrow> body l1 s1 = Some (Panic p, snd res)))"

lemma ends_with_stop:
  "rounds 0 body l s = Some (l, s) \<and>
   (case fst res of
      Ret a \<Rightarrow> body l s = Some (Ret (Inr a), snd res)
    | Fail e \<Rightarrow> body l s = Some (Fail e, snd res)
    | Panic p \<Rightarrow> body l s = Some (Panic p, snd res)) \<Longrightarrow> ends_with body l s res"
  unfolding ends_with_def by blast

lemma ends_with_step:
  assumes "body l s = Some (Ret (Inl l1), s1)" and "ends_with body l1 s1 res"
  shows "ends_with body l s res"
proof -
  from assms(2) obtain n l2 s2 where n: "rounds n body l1 s1 = Some (l2, s2)"
    and last: "case fst res of
           Ret a \<Rightarrow> body l2 s2 = Some (Ret (Inr a), snd res)
         | Fail e \<Rightarrow> body l2 s2 = Some (Fail e, snd res)
         | Panic p \<Rightarrow> body l2 s2 = Some (Panic p, snd res)"
    unfolding ends_with_def by blast
  from n assms(1) have "rounds (Suc n) body l s = Some (l2, s2)" by simp
  with last show ?thesis unfolding ends_with_def by blast
qed

lemma loop_ends_with: "loop body l s = Some res \<Longrightarrow> ends_with body l s res"
proof (rule loop.raw_induct [where P = "\<lambda>body l s res. ends_with body l s res"])
  fix lp :: "('l \<Rightarrow> ('s, 'l + 'a) io) \<Rightarrow> 'l \<Rightarrow> 's \<Rightarrow> ('a outcome \<times> 's) option"
  fix body :: "'l \<Rightarrow> ('s, 'l + 'a) io" and l s res
  assume IH: "\<And>body l s res. lp body l s = Some res \<Longrightarrow> ends_with body l s res"
    and eq: "(case body l s of
        None \<Rightarrow> None
      | Some (r, s1) \<Rightarrow>
          (case r of
             Ret x \<Rightarrow> (case x of Inl l1 \<Rightarrow> lp body l1 s1 | Inr a \<Rightarrow> Some (Ret a, s1))
           | Fail e \<Rightarrow> Some (Fail e, s1)
           | Panic p \<Rightarrow> Some (Panic p, s1))) = Some res"
  from eq obtain r s1 where b: "body l s = Some (r, s1)" by (auto split: option.splits)
  show "ends_with body l s res"
  proof (cases r)
    case (Ret x)
    show ?thesis
    proof (cases x)
      case (Inl l1)
      with b Ret eq have "lp body l1 s1 = Some res" by simp
      then have "ends_with body l1 s1 res" by (rule IH)
      with b Ret Inl show ?thesis by (auto intro: ends_with_step)
    next
      case (Inr a)
      with b Ret eq show ?thesis by (auto intro!: ends_with_stop)
    qed
  qed (use b eq in \<open>auto intro!: ends_with_stop\<close>)
qed

lemma loop_Ret_iff:
  "loop body l s = Some (Ret a, s2) \<longleftrightarrow>
     (\<exists>n l1 s1. rounds n body l s = Some (l1, s1) \<and> body l1 s1 = Some (Ret (Inr a), s2))"
  using loop_ends_with [of body l s "(Ret a, s2)"] loop_returns [of _ body l s]
  by (auto simp: ends_with_def)

end
