(* ===== verification/GoLib.thy ===== *)
theory GoLib
  imports Prelude "HOL-Library.List_Lexorder"
begin

text \<open>
  The parts of Go's standard library the source calls: \<open>strings\<close>, \<open>strconv\<close> and
  \<open>net/url\<close>. A Go string is a list of bytes, a HOL \<open>string\<close>. The functions follow
  the library's own code, restricted to the arguments the source passes.
\<close>

section \<open>strings\<close>

fun contains :: "string \<Rightarrow> string \<Rightarrow> bool" where
  "contains [] sub = (sub = [])"
| "contains (c # s) sub = (prefix sub (c # s) \<or> contains s sub)"

definition trim_prefix :: "string \<Rightarrow> string \<Rightarrow> string" where
  "trim_prefix s p = (if prefix p s then drop (length p) s else s)"

fun split_on :: "char \<Rightarrow> string \<Rightarrow> string list" where
  "split_on c [] = [[]]"
| "split_on c (x # s) =
     (if x = c then [] # split_on c s
      else (case split_on c s of [] \<Rightarrow> [[x]] | p # ps \<Rightarrow> (x # p) # ps))"

fun join :: "string \<Rightarrow> string list \<Rightarrow> string" where
  "join sep [] = []"
| "join sep [x] = x"
| "join sep (x # y # xs) = x @ sep @ join sep (y # xs)"

lemma split_on_not_Nil [simp]: "split_on c s \<noteq> []"
  by (induction s) (auto split: list.splits)

lemma split_on_no_sep: "c \<notin> set s \<Longrightarrow> split_on c s = [s]"
  by (induction s) auto

lemma split_on_append: "c \<notin> set s \<Longrightarrow> split_on c (s @ c # t) = s # split_on c t"
  by (induction s) auto

lemma join_split_on: "join [c] (split_on c s) = s"
proof (induction s)
  case Nil
  then show ?case by simp
next
  case (Cons x s)
  obtain p ps where "split_on c s = p # ps" by (cases "split_on c s") auto
  with Cons show ?case by (cases ps) auto
qed

lemma split_on_join:
  "xs \<noteq> [] \<Longrightarrow> \<forall>x \<in> set xs. c \<notin> set x \<Longrightarrow> split_on c (join [c] xs) = xs"
proof (induction xs rule: induct_list012)
  case (3 x y xs)
  then show ?case by (simp add: split_on_append)
qed (auto simp: split_on_no_sep)

lemma trim_prefix_append [simp]: "trim_prefix (p @ s) p = s"
  by (simp add: trim_prefix_def)

lemma contains_prefix: "prefix sub s \<Longrightarrow> contains s sub"
  by (cases s) auto

lemma contains_append [simp]: "contains (a @ sub @ b) sub"
  by (induction a) (simp_all add: contains_prefix)

definition newline :: string where
  "newline = [CHR 0x0A]"

section \<open>strconv\<close>

definition digit_char :: "nat \<Rightarrow> char" where
  "digit_char d = char_of (48 + d)"

fun digits :: "nat \<Rightarrow> string" where
  "digits n = (if n < 10 then [digit_char n] else digits (n div 10) @ [digit_char (n mod 10)])"

declare digits.simps [simp del]

definition itoa :: "int \<Rightarrow> string" where
  "itoa i = (if i < 0 then CHR ''-'' # digits (nat (- i)) else digits (nat i))"

definition parse_bool :: "string \<Rightarrow> bool option" where
  "parse_bool s =
     (if s \<in> {''1'', ''t'', ''T'', ''TRUE'', ''true'', ''True''} then Some True
      else if s \<in> {''0'', ''f'', ''F'', ''FALSE'', ''false'', ''False''} then Some False
      else None)"

definition format_bool :: "bool \<Rightarrow> string" where
  "format_bool b = (if b then ''true'' else ''false'')"

datatype num_error = ErrSyntax | ErrRange

definition code :: "char \<Rightarrow> nat" where
  "code c = of_char c"

text \<open>\<open>lower\<close> sets bit 5 of the byte, as \<open>c | ('x' - 'X')\<close> does.\<close>

definition lower :: "char \<Rightarrow> nat" where
  "lower c = (if even (code c div 32) then code c + 32 else code c)"

definition digit_value :: "char \<Rightarrow> nat option" where
  "digit_value c =
     (if code CHR ''0'' \<le> code c \<and> code c \<le> code CHR ''9'' then Some (code c - code CHR ''0'')
      else if code CHR ''a'' \<le> lower c \<and> lower c \<le> code CHR ''z''
        then Some (lower c - code CHR ''a'' + 10)
      else None)"

fun uint_digits :: "nat \<Rightarrow> bool \<Rightarrow> nat \<Rightarrow> bool \<Rightarrow> string \<Rightarrow> num_error + nat \<times> bool" where
  "uint_digits base base0 n us [] = Inr (n, us)"
| "uint_digits base base0 n us (c # cs) =
     (if c = CHR ''_'' \<and> base0 then uint_digits base base0 n True cs
      else (case digit_value c of
              None \<Rightarrow> Inl ErrSyntax
            | Some d \<Rightarrow>
                if base \<le> d then Inl ErrSyntax
                else if 2 ^ 64 \<le> n * base + d then Inl ErrRange
                else uint_digits base base0 (n * base + d) us cs))"

text \<open>\<open>underscoreOK\<close>: underscores separate digits; a base prefix counts as a digit.\<close>

fun underscore_run :: "bool \<Rightarrow> char \<Rightarrow> string \<Rightarrow> bool" where
  "underscore_run hex i [] = (i \<noteq> CHR ''_'')"
| "underscore_run hex i (c # cs) =
     (if (code CHR ''0'' \<le> code c \<and> code c \<le> code CHR ''9'') \<or>
         (hex \<and> code CHR ''a'' \<le> lower c \<and> lower c \<le> code CHR ''f'')
      then underscore_run hex CHR ''0'' cs
      else if c = CHR ''_'' then (if i \<noteq> CHR ''0'' then False else underscore_run hex c cs)
      else if i = CHR ''_'' then False
      else underscore_run hex CHR ''!'' cs)"

definition drop_sign :: "string \<Rightarrow> string" where
  "drop_sign s = (case s of c # cs \<Rightarrow> if c = CHR ''-'' \<or> c = CHR ''+'' then cs else s | [] \<Rightarrow> [])"

definition underscore_ok :: "string \<Rightarrow> bool" where
  "underscore_ok s0 =
     (let s = drop_sign s0 in
      if 2 \<le> length s \<and> s ! 0 = CHR ''0'' \<and>
         (lower (s ! 1) = code CHR ''b'' \<or> lower (s ! 1) = code CHR ''o'' \<or> lower (s ! 1) = code CHR ''x'')
      then underscore_run (lower (s ! 1) = code CHR ''x'') CHR ''0'' (drop 2 s)
      else underscore_run False CHR ''^'' s)"

definition base_prefix :: "string \<Rightarrow> nat \<times> string" where
  "base_prefix s =
     (if s \<noteq> [] \<and> s ! 0 = CHR ''0'' then
        (if 3 \<le> length s \<and> lower (s ! 1) = code CHR ''b'' then (2, drop 2 s)
         else if 3 \<le> length s \<and> lower (s ! 1) = code CHR ''o'' then (8, drop 2 s)
         else if 3 \<le> length s \<and> lower (s ! 1) = code CHR ''x'' then (16, drop 2 s)
         else (8, drop 1 s))
      else (10, s))"

text \<open>\<open>strconv.ParseUint(s, base, 64)\<close> for base 0 (detected) or a given base.\<close>

definition parse_uint :: "string \<Rightarrow> nat \<Rightarrow> num_error + nat" where
  "parse_uint s base =
     (if s = [] then Inl ErrSyntax
      else
        (let (b, ds) = (if base = 0 then base_prefix s else (base, s)) in
         case uint_digits b (base = 0) 0 False ds of
           Inl e \<Rightarrow> Inl e
         | Inr (n, us) \<Rightarrow> if us \<and> \<not> underscore_ok s then Inl ErrSyntax else Inr n))"

text \<open>\<open>strconv.ParseInt(s, base, 0)\<close> on a 64-bit platform.\<close>

definition parse_int :: "string \<Rightarrow> nat \<Rightarrow> num_error + int" where
  "parse_int s base =
     (if s = [] then Inl ErrSyntax
      else
        (let neg = (s ! 0 = CHR ''-'');
             ds = (if s ! 0 = CHR ''+'' \<or> s ! 0 = CHR ''-'' then drop 1 s else s) in
         case parse_uint ds base of
           Inl e \<Rightarrow> Inl e
         | Inr un \<Rightarrow>
             if \<not> neg \<and> 2 ^ 63 \<le> un then Inl ErrRange
             else if neg \<and> 2 ^ 63 < un then Inl ErrRange
             else Inr (if neg then - int un else int un)))"

lemma parse_int_range: "parse_int s base = Inr i \<Longrightarrow> - (2 ^ 63) \<le> i \<and> i < 2 ^ 63"
  by (auto simp: parse_int_def Let_def split: if_splits sum.splits)

section \<open>strconv: what is printed is read back\<close>

lemma code_digit_char [simp]: "d < 10 \<Longrightarrow> code (digit_char d) = 48 + d"
  by (simp add: code_def digit_char_def of_char_of)

lemma code_literals [simp]:
  "code CHR ''0'' = 48" "code CHR ''9'' = 57" "code CHR ''a'' = 97" "code CHR ''z'' = 122"
  "code CHR ''b'' = 98" "code CHR ''o'' = 111" "code CHR ''x'' = 120" "code CHR ''f'' = 102"
  "code CHR ''A'' = 65" "code CHR ''Z'' = 90"
  by (simp_all add: code_def)

lemma digit_value_digit_char [simp]: "d < 10 \<Longrightarrow> digit_value (digit_char d) = Some d"
  by (simp add: digit_value_def)

lemma digit_char_neq [simp]:
  "d < 10 \<Longrightarrow> code c < 48 \<or> 57 < code c \<Longrightarrow> digit_char d \<noteq> c"
  by (auto simp: dest: arg_cong [where f = code])

lemma digit_char_not_underscore [simp]: "d < 10 \<Longrightarrow> digit_char d \<noteq> CHR ''_''"
  by (rule digit_char_neq) (simp_all add: code_def)

lemma digit_char_not_sign [simp]:
  "d < 10 \<Longrightarrow> digit_char d \<noteq> CHR ''-''" "d < 10 \<Longrightarrow> digit_char d \<noteq> CHR ''+''"
  by (rule digit_char_neq; simp add: code_def)+

lemma uint_digits_append:
  "uint_digits b z n u (xs @ ys) =
     (case uint_digits b z n u xs of Inl e \<Rightarrow> Inl e | Inr (m, v) \<Rightarrow> uint_digits b z m v ys)"
  by (induction xs arbitrary: n u) (auto split: option.splits)

lemma uint_digits_digits:
  "n < 2 ^ 64 \<Longrightarrow> uint_digits 10 z 0 u (digits n) = Inr (n, u)"
proof (induction n rule: digits.induct)
  case (1 n)
  show ?case
  proof (cases "n < 10")
    case True
    then show ?thesis by (simp add: digits.simps [of n])
  next
    case False
    with 1 have "uint_digits 10 z 0 u (digits (n div 10)) = Inr (n div 10, u)" by auto
    moreover from 1 have "n div 10 * 10 + n mod 10 < 2 ^ 64" by simp
    ultimately show ?thesis
      using False by (simp add: digits.simps [of n] uint_digits_append)
  qed
qed

lemma digits_not_Nil [simp]: "digits n \<noteq> []"
  by (subst digits.simps) simp

lemma digits_hd: "\<exists>d < 10. digits n ! 0 = digit_char d"
proof (induction n rule: digits.induct)
  case (1 n)
  then show ?case
    by (cases "n < 10") (auto simp: digits.simps [of n] nth_append)
qed

lemma parse_int_itoa: "- (2 ^ 63) \<le> i \<Longrightarrow> i < 2 ^ 63 \<Longrightarrow> parse_int (itoa i) 10 = Inr i"
proof -
  assume lo: "- (2 ^ 63) \<le> i" and hi: "i < 2 ^ 63"
  have u: "parse_uint (digits n) 10 = Inr n" if "n < 2 ^ 64" for n
    using that by (simp add: parse_uint_def uint_digits_digits)
  show ?thesis
  proof (cases "i < 0")
    case True
    with lo have "nat (- i) < 2 ^ 64" by simp
    with True lo u [of "nat (- i)"] show ?thesis
      by (simp add: parse_int_def itoa_def)
  next
    case False
    with hi have b: "nat i < 2 ^ 64" by simp
    obtain d where "d < 10" "digits (nat i) ! 0 = digit_char d"
      using digits_hd [of "nat i"] by blast
    with False hi u [OF b] show ?thesis
      by (simp add: parse_int_def itoa_def)
  qed
qed

lemma itoa_inj: "- (2 ^ 63) \<le> i \<Longrightarrow> i < 2 ^ 63 \<Longrightarrow> - (2 ^ 63) \<le> j \<Longrightarrow> j < 2 ^ 63 \<Longrightarrow>
  itoa i = itoa j \<Longrightarrow> i = j"
  by (metis parse_int_itoa sum.inject(2))

section \<open>net/url\<close>

datatype url_mode = EncodeHost | EncodeUserPassword | EncodePath | EncodeQueryComponent

definition alphanum :: "char \<Rightarrow> bool" where
  "alphanum c \<longleftrightarrow>
     code CHR ''a'' \<le> code c \<and> code c \<le> code CHR ''z'' \<or>
     code CHR ''A'' \<le> code c \<and> code c \<le> code CHR ''Z'' \<or>
     code CHR ''0'' \<le> code c \<and> code c \<le> code CHR ''9''"

definition should_escape :: "char \<Rightarrow> url_mode \<Rightarrow> bool" where
  "should_escape c mode =
     (if alphanum c then False
      else if mode = EncodeHost \<and> c \<in> set ''!$&()*+,;=:[]<>'' \<union> {CHR 0x27, CHR 0x22} then False
      else if c \<in> set ''-_.~'' then False
      else if c \<in> set ''$&+,/:;=?@'' then
        (case mode of
           EncodePath \<Rightarrow> c = CHR ''?''
         | EncodeUserPassword \<Rightarrow> c \<in> set ''@/?:''
         | EncodeQueryComponent \<Rightarrow> True
         | EncodeHost \<Rightarrow> True)
      else True)"

definition hex_digit :: "nat \<Rightarrow> char" where
  "hex_digit d = (if d < 10 then digit_char d else char_of (55 + d))"

definition escape_char :: "url_mode \<Rightarrow> char \<Rightarrow> string" where
  "escape_char mode c =
     (if c = CHR '' '' \<and> mode = EncodeQueryComponent then ''+''
      else if should_escape c mode
        then [CHR ''%'', hex_digit (code c div 16), hex_digit (code c mod 16)]
      else [c])"

definition escape :: "url_mode \<Rightarrow> string \<Rightarrow> string" where
  "escape mode s = concat (map (escape_char mode) s)"

text \<open>The fields of \<open>url.URL\<close> the code sets; user and password come together or not at all.\<close>

record url =
  url_Scheme :: string
  url_User :: "(string \<times> string) option"
  url_Host :: string
  url_Path :: string
  url_RawQuery :: string

definition escaped_path :: "string \<Rightarrow> string" where
  "escaped_path p = (if p = ''*'' then ''*'' else escape EncodePath p)"

text \<open>\<open>URL.String\<close>, for a URL with no opaque part and a scheme.\<close>

definition url_string :: "url \<Rightarrow> string" where
  "url_string u =
     (let auth =
        (if url_Scheme u \<noteq> [] \<or> url_Host u \<noteq> [] \<or> url_User u \<noteq> None then
           (if url_Host u \<noteq> [] \<or> url_Path u \<noteq> [] \<or> url_User u \<noteq> None then ''//'' else []) @
           (case url_User u of
              None \<Rightarrow> []
            | Some (n, p) \<Rightarrow> escape EncodeUserPassword n @ '':'' @ escape EncodeUserPassword p @ ''@'') @
           escape EncodeHost (url_Host u)
         else []);
        path = escaped_path (url_Path u)
      in (if url_Scheme u \<noteq> [] then url_Scheme u @ '':'' else []) @ auth @
         (if path \<noteq> [] \<and> path ! 0 \<noteq> CHR ''/'' \<and> url_Host u \<noteq> [] then ''/'' else []) @ path @
         (if url_RawQuery u \<noteq> [] then ''?'' @ url_RawQuery u else []))"

text \<open>\<open>Values.Encode\<close>: the keys in sorted order; the code sets each key once.\<close>

definition query_encode :: "(string \<times> string) list \<Rightarrow> string" where
  "query_encode kvs =
     join ''&'' (map (\<lambda>(k, v). escape EncodeQueryComponent k @ ''='' @ escape EncodeQueryComponent v)
       (sort_key (\<lambda>kv. map code (fst kv)) kvs))"

end
