(* ===== verification/K8sTypes.thy ===== *)
theory K8sTypes
  imports GoLib
begin

text \<open>
  The Kubernetes API types the source builds and reads, with the fields it uses
  (\<open>metav1.ObjectMeta\<close>, \<open>metav1.Condition\<close>, \<open>resource.Quantity\<close>, \<open>corev1.Secret\<close>,
  \<open>Service\<close>, \<open>Endpoints\<close>, \<open>Pod\<close>, \<open>PersistentVolumeClaim\<close>). They are declared outside the
  repository; here they are plain data. A \<open>Quantity\<close> is observed through \<open>Value()\<close> and
  \<open>Format\<close> alone, so it is that pair; parsing one is a parameter of the model. Types whose
  values are only carried from one place to another are declared without a definition.
\<close>

record owner_reference =
  or_Kind :: string
  or_Name :: string
  or_UID :: string
  or_Controller :: bool

record object_meta =
  om_Name :: string
  om_Namespace :: string
  om_UID :: string
  om_Labels :: "(string, string) gomap"
  om_Finalizers :: "string list"
  om_OwnerReferences :: "owner_reference list"

definition empty_meta :: object_meta where
  "empty_meta = \<lparr>om_Name = [], om_Namespace = [], om_UID = [], om_Labels = None,
     om_Finalizers = [], om_OwnerReferences = []\<rparr>"

text \<open>A \<open>metav1.Time\<close> is compared with \<open>After\<close> only; the model keeps the instant as a number.\<close>

record condition =
  cond_Type :: string
  cond_Status :: string
  cond_Reason :: string
  cond_Message :: string
  cond_LastTransitionTime :: int

datatype quantity_format = DecimalExponent | BinarySI | DecimalSI

record quantity =
  q_Value :: int64
  q_Format :: quantity_format

definition new_quantity :: "int64 \<Rightarrow> quantity_format \<Rightarrow> quantity" where
  "new_quantity v f = \<lparr>q_Value = v, q_Format = f\<rparr>"

definition zero_quantity :: quantity where
  "zero_quantity = \<lparr>q_Value = 0, q_Format = DecimalSI\<rparr>"

type_synonym resource_list = "(string, quantity) gomap"

record resource_requirements =
  rr_Limits :: resource_list
  rr_Requests :: resource_list

definition no_requirements :: resource_requirements where
  "no_requirements = \<lparr>rr_Limits = None, rr_Requests = None\<rparr>"

record secret =
  sec_Meta :: object_meta
  sec_Type :: string
  sec_Data :: "(string, string) gomap"
  sec_StringData :: "(string, string) gomap"

definition empty_secret :: secret where
  "empty_secret = \<lparr>sec_Meta = empty_meta, sec_Type = [], sec_Data = None, sec_StringData = None\<rparr>"

record service =
  svc_ClusterIP :: string

definition empty_service :: service where
  "empty_service = \<lparr>svc_ClusterIP = []\<rparr>"

record endpoint_port =
  port_Name :: string
  port_Port :: int32

record endpoint_subset =
  sub_Addresses :: "string list"
  sub_Ports :: "endpoint_port list"

record endpoints =
  ep_Subsets :: "endpoint_subset list"

definition empty_endpoints :: endpoints where
  "empty_endpoints = \<lparr>ep_Subsets = []\<rparr>"

record pod_condition =
  pc_Type :: string
  pc_Status :: string

record pod =
  pod_Conditions :: "pod_condition list"

record claim_spec =
  pvc_AccessModes :: "string list"
  pvc_Resources :: resource_requirements
  pvc_StorageClassName :: "string option"

record volume_claim =
  pvc_Meta :: object_meta
  pvc_Spec :: claim_spec

record env_var =
  env_Name :: string
  env_Value :: string

record container =
  cont_Name :: string
  cont_Env :: "env_var list"

typedecl probe

typedecl affinity

typedecl toleration

typedecl topology_spread

typedecl pod_security_context

typedecl security_context

typedecl pod_volume

typedecl volume_mount

end
