(* ===== verification/ApiTypes.thy ===== *)
theory ApiTypes
  imports K8sTypes
begin

text \<open>
  The NineCluster API: \<open>api/v1alpha1/ninecluster_types.go\<close> (constants and structs) and
  \<open>ninecluster_metadata.go\<close> (the default cluster sets). A \<open>ClusterType\<close>, \<open>ClusterStorage\<close> or
  \<open>NineClusterType\<close> is an open string in Go, and a user may write any; so it is here.
\<close>

section \<open>Constants\<close>

abbreviation ClusterNameSuffix :: string where "ClusterNameSuffix \<equiv> ''-nine''"
abbreviation ClusterSign :: string where "ClusterSign \<equiv> ''nine''"
abbreviation DataHouseDir :: string where "DataHouseDir \<equiv> ''/nineinfra/datahouse''"
abbreviation DefaultMinioBucket :: string where "DefaultMinioBucket \<equiv> ''nineinfra''"
abbreviation DefaultMinioDataHouseFolder :: string where "DefaultMinioDataHouseFolder \<equiv> ''datahouse/''"
abbreviation DefaultDbType :: string where "DefaultDbType \<equiv> ''postgres''"

type_synonym NineClusterType = string
abbreviation NineClusterTypeStream :: NineClusterType where "NineClusterTypeStream \<equiv> ''stream''"
abbreviation NineClusterTypeBatch :: NineClusterType where "NineClusterTypeBatch \<equiv> ''batch''"

definition NineClusterTypeSupportedList :: "NineClusterType list" where
  "NineClusterTypeSupportedList = [NineClusterTypeStream, NineClusterTypeBatch]"

type_synonym ClusterType = string
abbreviation KyuubiClusterType :: ClusterType where "KyuubiClusterType \<equiv> ''kyuubi''"
abbreviation DorisClusterType :: ClusterType where "DorisClusterType \<equiv> ''doris''"
abbreviation DorisFEClusterType :: ClusterType where "DorisFEClusterType \<equiv> ''doris-fe''"
abbreviation DorisBEClusterType :: ClusterType where "DorisBEClusterType \<equiv> ''doris-be''"
abbreviation SparkClusterType :: ClusterType where "SparkClusterType \<equiv> ''spark''"
abbreviation MetaStoreClusterType :: ClusterType where "MetaStoreClusterType \<equiv> ''metastore''"
abbreviation DatabaseClusterType :: ClusterType where "DatabaseClusterType \<equiv> ''database''"
abbreviation MinioClusterType :: ClusterType where "MinioClusterType \<equiv> ''minio''"
abbreviation ZookeeperClusterType :: ClusterType where "ZookeeperClusterType \<equiv> ''zookeeper''"
abbreviation HdfsClusterType :: ClusterType where "HdfsClusterType \<equiv> ''hdfs''"
abbreviation HdfsNameNodeClusterType :: ClusterType where "HdfsNameNodeClusterType \<equiv> ''namenode''"
abbreviation HdfsDataNodeClusterType :: ClusterType where "HdfsDataNodeClusterType \<equiv> ''datanode''"
abbreviation HdfsJournalNodeClusterType :: ClusterType where "HdfsJournalNodeClusterType \<equiv> ''journalnode''"

abbreviation DbTypePostgres :: string where "DbTypePostgres \<equiv> ''postgres''"
abbreviation DbTypeMysql :: string where "DbTypeMysql \<equiv> ''mysql''"

type_synonym ClusterStorage = string
abbreviation NineClusterStorageMinio :: ClusterStorage where "NineClusterStorageMinio \<equiv> ''minio''"
abbreviation NineClusterStorageHdfs :: ClusterStorage where "NineClusterStorageHdfs \<equiv> ''hdfs''"

abbreviation NineClusterFeatureOlap :: string where "NineClusterFeatureOlap \<equiv> ''olap''"
abbreviation NineClusterFeatureStorage :: string where "NineClusterFeatureStorage \<equiv> ''storage''"
abbreviation NineClusterFeatureKyuubiHA :: string where "NineClusterFeatureKyuubiHA \<equiv> ''kyuubi-ha''"

abbreviation ClusterAuthTypeSimple :: string where "ClusterAuthTypeSimple \<equiv> ''simple''"
abbreviation ClusterAuthTypeJDBC :: string where "ClusterAuthTypeJDBC \<equiv> ''JDBC''"

definition NineInfraSupportedOlapList :: "ClusterType list" where
  "NineInfraSupportedOlapList = [DorisClusterType]"

definition NineInfraSupportedStorageList :: "ClusterStorage list" where
  "NineInfraSupportedStorageList = [NineClusterStorageMinio, NineClusterStorageHdfs]"

section \<open>Structs\<close>

record DatabaseCluster =
  db_ConnectionUrl :: string
  db_DbType :: string
  db_UserName :: string
  db_Password :: string

record MinioExposedInfo =
  me_Endpoint :: string
  me_AccessKey :: string
  me_SecretKey :: string

record HdfsExposedInfo =
  he_DefaultFS :: string
  he_HdfsSite :: "(string, string) gomap"
  he_CoreSite :: "(string, string) gomap"

record ResourceConfig =
  rc_Replicas :: int32
  rc_Disks :: int32
  rc_StorageClass :: string
  rc_ResourceRequirements :: resource_requirements

record ImageConfig =
  img_Repository :: string
  img_Tag :: string
  img_PullPolicy :: string
  img_PullSecrets :: string

record AuthConfig =
  auth_AuthType :: string
  auth_UserName :: string
  auth_Password :: string

record ClusterConfig =
  cc_Image :: ImageConfig
  cc_Auth :: AuthConfig
  cc_Conf :: "(string, string) gomap"
  cc_K8sConf :: "(string, string) gomap"

record ClusterInfo =
  ci_Version :: string
  ci_Type :: ClusterType
  ci_Name :: string
  ci_SubType :: string
  ci_Resource :: ResourceConfig
  ci_Configs :: ClusterConfig
  ci_ClusterRefs :: "ClusterType list"

record NineClusterSpec =
  ns_DataVolume :: int64
  ns_Type :: NineClusterType
  ns_Features :: "(string, string) gomap"
  ns_ClusterSet :: "ClusterInfo list"

record NineClusterStatus =
  nst_Conditions :: "condition list"

record NineCluster =
  nc_Meta :: object_meta
  nc_Spec :: NineClusterSpec
  nc_Status :: NineClusterStatus

section \<open>Zero values and field access\<close>

definition zero_resource :: ResourceConfig where
  "zero_resource = \<lparr>rc_Replicas = 0, rc_Disks = 0, rc_StorageClass = [],
     rc_ResourceRequirements = no_requirements\<rparr>"

definition zero_image :: ImageConfig where
  "zero_image = \<lparr>img_Repository = [], img_Tag = [], img_PullPolicy = [], img_PullSecrets = []\<rparr>"

definition zero_auth :: AuthConfig where
  "zero_auth = \<lparr>auth_AuthType = [], auth_UserName = [], auth_Password = []\<rparr>"

definition zero_config :: ClusterConfig where
  "zero_config = \<lparr>cc_Image = zero_image, cc_Auth = zero_auth, cc_Conf = None, cc_K8sConf = None\<rparr>"

definition zero_cluster :: ClusterInfo where
  "zero_cluster = \<lparr>ci_Version = [], ci_Type = [], ci_Name = [], ci_SubType = [],
     ci_Resource = zero_resource, ci_Configs = zero_config, ci_ClusterRefs = []\<rparr>"

abbreviation cluster_name :: "NineCluster \<Rightarrow> string" where
  "cluster_name c \<equiv> om_Name (nc_Meta c)"

abbreviation cluster_namespace :: "NineCluster \<Rightarrow> string" where
  "cluster_namespace c \<equiv> om_Namespace (nc_Meta c)"

abbreviation cluster_set :: "NineCluster \<Rightarrow> ClusterInfo list" where
  "cluster_set c \<equiv> ns_ClusterSet (nc_Spec c)"

definition with_cluster_set :: "NineCluster \<Rightarrow> ClusterInfo list \<Rightarrow> NineCluster" where
  "with_cluster_set c cs = c\<lparr>nc_Spec := (nc_Spec c)\<lparr>ns_ClusterSet := cs\<rparr>\<rparr>"

lemma with_cluster_set_simps [simp]:
  "cluster_set (with_cluster_set c cs) = cs"
  "nc_Meta (with_cluster_set c cs) = nc_Meta c"
  "nc_Status (with_cluster_set c cs) = nc_Status c"
  "ns_Type (nc_Spec (with_cluster_set c cs)) = ns_Type (nc_Spec c)"
  "ns_Features (nc_Spec (with_cluster_set c cs)) = ns_Features (nc_Spec c)"
  "ns_DataVolume (nc_Spec (with_cluster_set c cs)) = ns_DataVolume (nc_Spec c)"
  by (simp_all add: with_cluster_set_def)

section \<open>The default cluster sets\<close>

definition image_of :: "string \<Rightarrow> string \<Rightarrow> ClusterConfig" where
  "image_of repo tag = zero_config\<lparr>cc_Image :=
     \<lparr>img_Repository = repo, img_Tag = tag, img_PullPolicy = ''IfNotPresent'', img_PullSecrets = []\<rparr>\<rparr>"

definition kyuubi_default_conf :: "string \<rightharpoonup> string" where
  "kyuubi_default_conf =
     [''kyuubi.frontend.connection.url.use.hostname'' \<mapsto> ''false'',
      ''kyuubi.frontend.thrift.binary.bind.port'' \<mapsto> ''10009'',
      ''kyuubi.frontend.thrift.http.bind.port'' \<mapsto> ''10010'',
      ''kyuubi.frontend.rest.bind.port'' \<mapsto> ''10099'',
      ''kyuubi.frontend.mysql.bind.port'' \<mapsto> ''3309'',
      ''kyuubi.frontend.protocols'' \<mapsto> ''REST,THRIFT_BINARY'',
      ''kyuubi.metrics.enabled'' \<mapsto> ''false'']"

definition kyuubi_default :: ClusterInfo where
  "kyuubi_default = zero_cluster
     \<lparr>ci_Type := KyuubiClusterType, ci_Version := ''v1.8.0'',
      ci_Resource := zero_resource\<lparr>rc_Replicas := 1\<rparr>,
      ci_Configs := (image_of ''nineinfra/kyuubi'' ''v1.8.0'')\<lparr>cc_Conf := Some kyuubi_default_conf\<rparr>,
      ci_ClusterRefs := [SparkClusterType]\<rparr>"

definition metastore_default :: ClusterInfo where
  "metastore_default = zero_cluster
     \<lparr>ci_Type := MetaStoreClusterType, ci_Version := ''v3.1.3'',
      ci_Configs := image_of ''nineinfra/metastore'' ''v3.1.3''\<rparr>"

definition database_default :: ClusterInfo where
  "database_default = zero_cluster
     \<lparr>ci_Type := DatabaseClusterType, ci_SubType := DbTypePostgres, ci_Version := ''v16.0.0''\<rparr>"

definition NineDatahouseClusterset :: "ClusterInfo list" where
  "NineDatahouseClusterset = [kyuubi_default, metastore_default, database_default]"

definition storage_request :: "int \<Rightarrow> resource_requirements" where
  "storage_request gib = no_requirements\<lparr>rr_Requests :=
     Some [''storage'' \<mapsto> new_quantity (word_of_int (gib * 1024 * 1024 * 1024)) BinarySI]\<rparr>"

definition minio_default :: ClusterInfo where
  "minio_default = zero_cluster
     \<lparr>ci_Type := MinioClusterType, ci_Version := ''RELEASE.2023-09-07T02-05-02Z'',
      ci_Configs := image_of ''minio/minio'' ''RELEASE.2023-09-07T02-05-02Z''\<rparr>"

definition spark_default :: ClusterInfo where
  "spark_default = zero_cluster
     \<lparr>ci_Type := SparkClusterType, ci_Version := ''v3.2.4'',
      ci_Configs := image_of ''nineinfra/spark'' ''v3.2.4''\<rparr>"

definition doris_default :: ClusterInfo where
  "doris_default = zero_cluster
     \<lparr>ci_Type := DorisClusterType, ci_Version := ''v2.0.2'',
      ci_Configs := zero_config\<lparr>cc_Auth := zero_auth\<lparr>auth_UserName := ''root'', auth_Password := []\<rparr>\<rparr>,
      ci_ClusterRefs := [DorisFEClusterType, DorisBEClusterType]\<rparr>"

definition doris_fe_default :: ClusterInfo where
  "doris_fe_default = zero_cluster
     \<lparr>ci_Type := DorisFEClusterType, ci_Version := ''v2.0.2'',
      ci_Configs := image_of ''selectdb/doris.fe-ubuntu'' ''2.0.2'',
      ci_Resource := zero_resource\<lparr>rc_Replicas := 3, rc_ResourceRequirements := storage_request 20\<rparr>\<rparr>"

definition doris_be_default :: ClusterInfo where
  "doris_be_default = zero_cluster
     \<lparr>ci_Type := DorisBEClusterType, ci_Version := ''v2.0.2'',
      ci_Configs := image_of ''selectdb/doris.be-ubuntu'' ''2.0.2'',
      ci_Resource := zero_resource\<lparr>rc_Replicas := 3, rc_ResourceRequirements := storage_request 100\<rparr>\<rparr>"

definition zookeeper_default :: ClusterInfo where
  "zookeeper_default = zero_cluster
     \<lparr>ci_Type := ZookeeperClusterType, ci_Version := ''v3.8.3'',
      ci_Configs := image_of ''nineinfra/zookeeper'' ''v3.8.3''\<rparr>"

definition hdfs_default :: ClusterInfo where
  "hdfs_default = zero_cluster
     \<lparr>ci_Type := HdfsClusterType, ci_Version := ''v3.3.6'',
      ci_Configs := image_of ''nineinfra/hdfs'' ''v3.3.6'',
      ci_ClusterRefs := [HdfsNameNodeClusterType, HdfsDataNodeClusterType, HdfsJournalNodeClusterType]\<rparr>"

definition namenode_default :: ClusterInfo where
  "namenode_default = zero_cluster
     \<lparr>ci_Type := HdfsNameNodeClusterType, ci_Version := ''v3.3.6'',
      ci_Resource := zero_resource\<lparr>rc_Replicas := 2\<rparr>\<rparr>"

definition datanode_default :: ClusterInfo where
  "datanode_default = zero_cluster \<lparr>ci_Type := HdfsDataNodeClusterType, ci_Version := ''v3.3.6''\<rparr>"

definition journalnode_default :: ClusterInfo where
  "journalnode_default = zero_cluster
     \<lparr>ci_Type := HdfsJournalNodeClusterType, ci_Version := ''v3.3.6'',
      ci_Resource := zero_resource\<lparr>rc_Replicas := 3\<rparr>\<rparr>"

definition NineDatahouseFullClusterset :: "ClusterInfo list" where
  "NineDatahouseFullClusterset =
     [kyuubi_default, metastore_default, database_default, minio_default, spark_default,
      doris_default, doris_fe_default, doris_be_default, zookeeper_default, hdfs_default,
      namenode_default, datanode_default, journalnode_default]"

lemmas default_cluster_defs =
  kyuubi_default_def metastore_default_def database_default_def minio_default_def
  spark_default_def doris_default_def doris_fe_default_def doris_be_default_def
  zookeeper_default_def hdfs_default_def namenode_default_def datanode_default_def
  journalnode_default_def zero_cluster_def

lemma default_types [simp]:
  "ci_Type kyuubi_default = KyuubiClusterType"
  "ci_Type metastore_default = MetaStoreClusterType"
  "ci_Type database_default = DatabaseClusterType"
  "ci_Type minio_default = MinioClusterType"
  "ci_Type spark_default = SparkClusterType"
  "ci_Type doris_default = DorisClusterType"
  "ci_Type doris_fe_default = DorisFEClusterType"
  "ci_Type doris_be_default = DorisBEClusterType"
  "ci_Type zookeeper_default = ZookeeperClusterType"
  "ci_Type hdfs_default = HdfsClusterType"
  "ci_Type namenode_default = HdfsNameNodeClusterType"
  "ci_Type datanode_default = HdfsDataNodeClusterType"
  "ci_Type journalnode_default = HdfsJournalNodeClusterType"
  by (simp_all add: default_cluster_defs)

lemma full_set_types:
  "map ci_Type NineDatahouseFullClusterset =
     [KyuubiClusterType, MetaStoreClusterType, DatabaseClusterType, MinioClusterType,
      SparkClusterType, DorisClusterType, DorisFEClusterType, DorisBEClusterType,
      ZookeeperClusterType, HdfsClusterType, HdfsNameNodeClusterType, HdfsDataNodeClusterType,
      HdfsJournalNodeClusterType]"
  by (simp add: NineDatahouseFullClusterset_def)

lemma full_set_distinct: "distinct (map ci_Type NineDatahouseFullClusterset)"
  by (simp add: full_set_types)

end
