(* ===== verification/TenantTypes.thy ===== *)
theory TenantTypes
  imports K8sTypes
begin

text \<open>
  The MinIO Tenant API, \<open>pkg/minio/operator/apis/minio.min.io/v2/types.go\<close>: every struct, field by
  field. \<open>TypeMeta\<close> and the list type are left to the serialiser. A \<open>LocalObjectReference\<close> is its
  name, a nil slice of anything but pools is the empty list, and \<open>Pools\<close> is an option because
  validation tells a nil slice from an empty one. A nil map is \<open>None\<close>. The string types of the
  source stay strings, with its constants.
\<close>

section \<open>Parts of a specification\<close>

type_synonym TenantScheduler = string

record Bucket =
  bucket_Name :: string
  bucket_Region :: string
  bucket_ObjectLocking :: bool

record TenantDomains =
  td_Minio :: "string list"
  td_Console :: string

record Features =
  ft_BucketDNS :: bool
  ft_Domains :: "TenantDomains option"
  ft_EnableSFTP :: "bool option"

record Logging =
  log_JSON :: bool
  log_Anonymous :: bool
  log_Quiet :: bool

record ServiceMetadata =
  sm_MinIOServiceLabels :: "(string, string) gomap"
  sm_MinIOServiceAnnotations :: "(string, string) gomap"
  sm_ConsoleServiceLabels :: "(string, string) gomap"
  sm_ConsoleServiceAnnotations :: "(string, string) gomap"

record LocalCertificateReference =
  lcr_Name :: string
  lcr_Type :: string

record ExposeServices =
  es_MinIO :: bool
  es_Console :: bool

record CertificateConfig =
  cert_CommonName :: string
  cert_OrganizationName :: "string list"
  cert_DNSNames :: "string list"

record SideCars =
  sc_Containers :: "container list"
  sc_VolumeClaimTemplates :: "volume_claim list"
  sc_Volumes :: "pod_volume list"
  sc_Resources :: "resource_requirements option"

record AuditConfig =
  ac_DiskCapacityGB :: "int64 option"

record Pool =
  pool_Name :: string
  pool_Servers :: int32
  pool_VolumesPerServer :: int32
  pool_VolumeClaimTemplate :: "volume_claim option"
  pool_Resources :: resource_requirements
  pool_NodeSelector :: "(string, string) gomap"
  pool_Affinity :: "affinity option"
  pool_Tolerations :: "toleration list"
  pool_TopologySpreadConstraints :: "topology_spread list"
  pool_SecurityContext :: "pod_security_context option"
  pool_ContainerSecurityContext :: "security_context option"
  pool_Annotations :: "(string, string) gomap"
  pool_Labels :: "(string, string) gomap"
  pool_RuntimeClassName :: "string option"

record KESConfig =
  kes_Replicas :: int32
  kes_Image :: string
  kes_ImagePullPolicy :: string
  kes_ServiceAccountName :: string
  kes_Configuration :: "string option"
  kes_ExternalCertSecret :: "LocalCertificateReference option"
  kes_ClientCertSecret :: "LocalCertificateReference option"
  kes_GCPCredentialSecretName :: string
  kes_GCPWorkloadIdentityPool :: string
  kes_Annotations :: "(string, string) gomap"
  kes_Labels :: "(string, string) gomap"
  kes_Resources :: resource_requirements
  kes_NodeSelector :: "(string, string) gomap"
  kes_Tolerations :: "toleration list"
  kes_Affinity :: "affinity option"
  kes_TopologySpreadConstraints :: "topology_spread list"
  kes_KeyName :: string
  kes_SecurityContext :: "pod_security_context option"
  kes_Env :: "env_var list"

definition EqualImage :: "KESConfig option \<Rightarrow> string \<Rightarrow> bool" where
  "EqualImage c currentImage = (case c of None \<Rightarrow> False | Some k \<Rightarrow> kes_Image k = currentImage)"

section \<open>The specification\<close>

record TenantSpec =
  ts_Pools :: "Pool list option"
  ts_Image :: string
  ts_ImagePullSecret :: string
  ts_PodManagementPolicy :: string
  ts_CredsSecret :: "string option"
  ts_Env :: "env_var list"
  ts_ExternalCertSecret :: "LocalCertificateReference list"
  ts_ExternalCaCertSecret :: "LocalCertificateReference list"
  ts_ExternalClientCertSecret :: "LocalCertificateReference option"
  ts_ExternalClientCertSecrets :: "LocalCertificateReference list"
  ts_Mountpath :: string
  ts_Subpath :: string
  ts_RequestAutoCert :: "bool option"
  ts_Liveness :: "probe option"
  ts_Readiness :: "probe option"
  ts_Startup :: "probe option"
  ts_Features :: "Features option"
  ts_CertConfig :: "CertificateConfig option"
  ts_KES :: "KESConfig option"
  ts_PrometheusOperator :: bool
  ts_ServiceAccountName :: string
  ts_PriorityClassName :: string
  ts_ImagePullPolicy :: string
  ts_SideCars :: "SideCars option"
  ts_ExposeServices :: "ExposeServices option"
  ts_ServiceMetadata :: "ServiceMetadata option"
  ts_Users :: "string list"
  ts_Buckets :: "Bucket list"
  ts_Logging :: "Logging option"
  ts_Configuration :: "string option"
  ts_InitContainers :: "container list"
  ts_AdditionalVolumes :: "pod_volume list"
  ts_AdditionalVolumeMounts :: "volume_mount list"

section \<open>The status\<close>

record CustomCertificateConfig =
  ccc_CertName :: string
  ccc_Domains :: "string list"
  ccc_Expiry :: string
  ccc_ExpiresIn :: string
  ccc_SerialNo :: string

record CustomCertificates =
  cc_Client :: "CustomCertificateConfig list"
  cc_Minio :: "CustomCertificateConfig list"
  cc_MinioCAs :: "CustomCertificateConfig list"

record CertificateStatus =
  cs_AutoCertEnabled :: "bool option"
  cs_CustomCertificates :: "CustomCertificates option"

type_synonym PoolState = string

definition PoolNotCreated :: PoolState where "PoolNotCreated = ''PoolNotCreated''"
definition PoolCreated :: PoolState where "PoolCreated = ''PoolCreated''"
definition PoolInitialized :: PoolState where "PoolInitialized = ''PoolInitialized''"

record PoolStatus =
  ps_SSName :: string
  ps_State :: PoolState
  ps_LegacySecurityContext :: bool

type_synonym HealthStatus = string

definition HealthStatusGreen :: HealthStatus where "HealthStatusGreen = ''green''"
definition HealthStatusYellow :: HealthStatus where "HealthStatusYellow = ''yellow''"
definition HealthStatusRed :: HealthStatus where "HealthStatusRed = ''red''"

record TierUsage =
  tu_Name :: string
  tu_Type :: string
  tu_TotalSize :: int64

record TenantUsage =
  us_Capacity :: int64
  us_RawCapacity :: int64
  us_Usage :: int64
  us_RawUsage :: int64
  us_Tiers :: "TierUsage list"

record TenantStatus =
  tst_CurrentState :: string
  tst_AvailableReplicas :: int32
  tst_Revision :: int32
  tst_SyncVersion :: string
  tst_Certificates :: CertificateStatus
  tst_Pools :: "PoolStatus list"
  tst_WriteQuorum :: int32
  tst_DrivesOnline :: int32
  tst_DrivesOffline :: int32
  tst_DrivesHealing :: int32
  tst_HealthStatus :: HealthStatus
  tst_HealthMessage :: string
  tst_WaitingOnReady :: "int option"
  tst_Usage :: TenantUsage
  tst_ProvisionedUsers :: bool
  tst_ProvisionedBuckets :: bool

record Tenant =
  t_Meta :: object_meta
  t_Scheduler :: TenantScheduler
  t_Spec :: TenantSpec
  t_Status :: TenantStatus

section \<open>Zero values\<close>

definition zero_pool :: Pool where
  "zero_pool = \<lparr>pool_Name = [], pool_Servers = 0, pool_VolumesPerServer = 0,
     pool_VolumeClaimTemplate = None, pool_Resources = no_requirements, pool_NodeSelector = None,
     pool_Affinity = None, pool_Tolerations = [], pool_TopologySpreadConstraints = [],
     pool_SecurityContext = None, pool_ContainerSecurityContext = None, pool_Annotations = None,
     pool_Labels = None, pool_RuntimeClassName = None\<rparr>"

definition zero_tenant_spec :: TenantSpec where
  "zero_tenant_spec = \<lparr>ts_Pools = None, ts_Image = [], ts_ImagePullSecret = [],
     ts_PodManagementPolicy = [],
     ts_CredsSecret = None, ts_Env = [], ts_ExternalCertSecret = [], ts_ExternalCaCertSecret = [],
     ts_ExternalClientCertSecret = None, ts_ExternalClientCertSecrets = [], ts_Mountpath = [],
     ts_Subpath = [], ts_RequestAutoCert = None, ts_Liveness = None, ts_Readiness = None,
     ts_Startup = None, ts_Features = None, ts_CertConfig = None,
     ts_KES = None, ts_PrometheusOperator = False, ts_ServiceAccountName = [],
     ts_PriorityClassName = [],
     ts_ImagePullPolicy = [], ts_SideCars = None, ts_ExposeServices = None,
     ts_ServiceMetadata = None, ts_Users = [], ts_Buckets = [], ts_Logging = None,
     ts_Configuration = None, ts_InitContainers = [], ts_AdditionalVolumes = [],
     ts_AdditionalVolumeMounts = []\<rparr>"

definition zero_tenant_status :: TenantStatus where
  "zero_tenant_status = \<lparr>tst_CurrentState = [], tst_AvailableReplicas = 0, tst_Revision = 0,
     tst_SyncVersion = [],
     tst_Certificates = \<lparr>cs_AutoCertEnabled = None, cs_CustomCertificates = None\<rparr>,
     tst_Pools = [], tst_WriteQuorum = 0, tst_DrivesOnline = 0, tst_DrivesOffline = 0,
     tst_DrivesHealing = 0, tst_HealthStatus = [], tst_HealthMessage = [],
     tst_WaitingOnReady = None,
     tst_Usage = \<lparr>us_Capacity = 0, us_RawCapacity = 0, us_Usage = 0, us_RawUsage = 0, us_Tiers = []\<rparr>,
     tst_ProvisionedUsers = False, tst_ProvisionedBuckets = False\<rparr>"

end
