(* ===== verification/External.thy ===== *)
theory External
  imports ApiTypes TenantTypes
begin

text \<open>
  What the operator calls outside the repository: the Kubernetes API server behind the
  controller-runtime client and the typed clientsets, the PostgreSQL driver, the MinIO and
  HDFS clients, \<open>resource.ParseQuantity\<close>, \<open>ctrl.SetControllerReference\<close>, the clock, the random
  source. All of it is one record of parameters over an unspecified world \<open>'w\<close>: an
  operation may fail, and may find the world changed by others.

  The custom resources are the structs of the other operators, with the fields this
  operator fills in. The state an operation runs in is the world and the one mutable
  package variable the reconcilers share, \<open>MetastoreReplicas\<close> of \<open>metastore.go\<close>.
\<close>

section \<open>Custom resources\<close>

record kyuubi_spark =
  spark_Master :: string
  spark_Image :: ImageConfig
  spark_Namespace :: string
  spark_Defaults :: "(string, string) gomap"

record hdfs_sites =
  hs_CoreSite :: "(string, string) gomap"
  hs_HdfsSite :: "(string, string) gomap"

record minio_ref =
  mr_Endpoint :: string
  mr_AccessKey :: string
  mr_SecretKey :: string
  mr_SSLEnabled :: string
  mr_PathStyleAccess :: string

text \<open>A \<open>ClusterRef\<close> has a name, a type, and the one part that goes with it.\<close>

datatype ref_part =
    MetastorePart "(string, string) gomap"
  | SparkPart kyuubi_spark
  | HdfsPart hdfs_sites
  | DatabasePart DatabaseCluster
  | MinioPart minio_ref

record cluster_ref =
  ref_Name :: string
  ref_Type :: string
  ref_Part :: ref_part

record kyuubi_cluster =
  ky_Meta :: object_meta
  ky_Version :: string
  ky_Replicas :: int32
  ky_Image :: ImageConfig
  ky_Conf :: "(string, string) gomap"
  ky_ClusterRefs :: "cluster_ref list"

record metastore_cluster =
  ms_Meta :: object_meta
  ms_Version :: string
  ms_Replicas :: int32
  ms_Image :: ImageConfig
  ms_Conf :: "(string, string) gomap"
  ms_ClusterRefs :: "cluster_ref list"

record pg_cluster =
  pg_Meta :: object_meta
  pg_Instances :: int64
  pg_StorageClass :: string
  pg_StorageSize :: string
  pg_Parameters :: "(string, string) gomap"
  pg_HBA :: "string list"
  pg_SuperuserSecret :: string
  pg_EnableSuperuserAccess :: bool
  pg_InitDatabase :: string
  pg_InitSecret :: string

record doris_node =
  dn_Replicas :: int32
  dn_Image :: string
  dn_MountPath :: string
  dn_VolumeName :: string
  dn_Claim :: claim_spec

record doris_cluster =
  do_Meta :: object_meta
  do_ElectionNumber :: int32
  do_Fe :: doris_node
  do_Be :: doris_node
  do_AdminName :: string
  do_AdminPassword :: string

record zookeeper_cluster =
  zk_Meta :: object_meta
  zk_Version :: string
  zk_Replicas :: int32
  zk_Image :: ImageConfig
  zk_Conf :: "(string, string) gomap"

record hdfs_member =
  hm_Version :: string
  hm_Type :: string
  hm_Name :: string
  hm_Image :: ImageConfig
  hm_Resource :: ResourceConfig
  hm_Conf :: "(string, string) gomap"

definition zero_member :: hdfs_member where
  "zero_member = \<lparr>hm_Version = [], hm_Type = [], hm_Name = [], hm_Image = zero_image,
     hm_Resource = zero_resource, hm_Conf = None\<rparr>"

record hdfs_cluster =
  hd_Meta :: object_meta
  hd_Version :: string
  hd_Resource :: ResourceConfig
  hd_Image :: ImageConfig
  hd_Conf :: "(string, string) gomap"
  hd_K8sConf :: "(string, string) gomap"
  hd_Clusters :: "hdfs_member list"
  hd_ClusterRefs :: "hdfs_member list"

datatype cr_kind = KyuubiKind | MetastoreKind | PGKind | TenantKind | DorisKind | ZookeeperKind | HdfsKind

datatype custom_resource =
    KyuubiCR kyuubi_cluster
  | MetastoreCR metastore_cluster
  | PGCR pg_cluster
  | TenantCR Tenant
  | DorisCR doris_cluster
  | ZookeeperCR zookeeper_cluster
  | HdfsCR hdfs_cluster

fun cr_meta :: "custom_resource \<Rightarrow> object_meta" where
  "cr_meta (KyuubiCR k) = ky_Meta k"
| "cr_meta (MetastoreCR m) = ms_Meta m"
| "cr_meta (PGCR p) = pg_Meta p"
| "cr_meta (TenantCR t) = t_Meta t"
| "cr_meta (DorisCR d) = do_Meta d"
| "cr_meta (ZookeeperCR z) = zk_Meta z"
| "cr_meta (HdfsCR h) = hd_Meta h"

fun kind_of :: "custom_resource \<Rightarrow> cr_kind" where
  "kind_of (KyuubiCR _) = KyuubiKind"
| "kind_of (MetastoreCR _) = MetastoreKind"
| "kind_of (PGCR _) = PGKind"
| "kind_of (TenantCR _) = TenantKind"
| "kind_of (DorisCR _) = DorisKind"
| "kind_of (ZookeeperCR _) = ZookeeperKind"
| "kind_of (HdfsCR _) = HdfsKind"

section \<open>The parameters\<close>

record 'w external =
  \<comment> \<open>controller-runtime client: \<open>r.Get\<close>, \<open>r.Create\<close>, \<open>r.List\<close>, by namespace and name\<close>
  x_GetNineCluster :: "string \<Rightarrow> string \<Rightarrow> ('w, NineCluster) io"
  x_GetService :: "string \<Rightarrow> string \<Rightarrow> ('w, service) io"
  x_GetSecret :: "string \<Rightarrow> string \<Rightarrow> ('w, secret) io"
  x_CreateSecret :: "secret \<Rightarrow> ('w, unit) io"
  x_GetEndpoints :: "string \<Rightarrow> string \<Rightarrow> ('w, endpoints) io"
  x_ListPods :: "string \<Rightarrow> (string, string) gomap \<Rightarrow> ('w, pod list) io"
  x_SetControllerReference :: "object_meta \<Rightarrow> object_meta \<Rightarrow> go_error + object_meta"
  \<comment> \<open>typed clientsets: configuration, construction, get by name, create (of a nil object too)\<close>
  x_InClusterConfig :: "('w, unit) io"
  x_NewForConfig :: "cr_kind \<Rightarrow> ('w, unit) io"
  x_GetCR :: "cr_kind \<Rightarrow> string \<Rightarrow> string \<Rightarrow> ('w, unit) io"
  x_CreateCR :: "cr_kind \<Rightarrow> string \<Rightarrow> custom_resource option \<Rightarrow> ('w, unit) io"
  x_NewDirectPVClient :: "('w, unit) io"
  x_ListDirectPVNodes :: "('w, string list) io"
  \<comment> \<open>\<open>resource.ParseQuantity\<close>, the MD5 digest in hexadecimal, \<open>fmt.Sprint\<close> of a request\<close>
  x_ParseQuantity :: "string \<Rightarrow> go_error + quantity"
  x_MD5Hex :: "string \<Rightarrow> string"
  x_SprintRequest :: "string \<Rightarrow> string \<Rightarrow> string"
  \<comment> \<open>two configuration keys the HDFS operator defines\<close>
  x_RefClusterZKReplicasKey :: string
  x_RefClusterZKEndpointsKey :: string
  \<comment> \<open>the clock and the random source\<close>
  x_Sleep :: "nat \<Rightarrow> 'w \<Rightarrow> 'w"
  x_RandRead :: "nat \<Rightarrow> ('w, 8 word list) io"
  \<comment> \<open>\<open>database/sql\<close>: open a connection string, execute a statement with arguments\<close>
  x_SqlOpen :: "string \<Rightarrow> ('w, unit) io"
  x_DbExec :: "string \<Rightarrow> string \<Rightarrow> string list \<Rightarrow> ('w, unit) io"
  \<comment> \<open>the MinIO client of an endpoint and its credentials\<close>
  x_MinioNew :: "MinioExposedInfo \<Rightarrow> bool \<Rightarrow> ('w, unit) io"
  x_BucketExists :: "MinioExposedInfo \<Rightarrow> string \<Rightarrow> ('w, bool) io"
  x_MakeBucket :: "MinioExposedInfo \<Rightarrow> string \<Rightarrow> ('w, unit) io"
  x_StatObject :: "MinioExposedInfo \<Rightarrow> string \<Rightarrow> string \<Rightarrow> ('w, unit) io"
  x_PutObject :: "MinioExposedInfo \<Rightarrow> string \<Rightarrow> string \<Rightarrow> ('w, unit) io"
  \<comment> \<open>the HDFS client of a list of addresses; \<open>Stat\<close> answers whether it is a directory\<close>
  x_HdfsNewClient :: "string list \<Rightarrow> ('w, unit) io"
  x_HdfsStat :: "string list \<Rightarrow> string \<Rightarrow> ('w, bool) io"
  x_HdfsMkdirAll :: "string list \<Rightarrow> string \<Rightarrow> nat \<Rightarrow> ('w, unit) io"

section \<open>The operator's state\<close>

record 'w op_state =
  op_MetastoreReplicas :: int32
  op_world :: 'w

type_synonym ('w, 'a) op = "('w op_state, 'a) io"

definition ext_call :: "('w, 'a) io \<Rightarrow> ('w, 'a) op" where
  "ext_call m s =
     (case m (op_world s) of
        None \<Rightarrow> None
      | Some (r, w) \<Rightarrow> Some (r, s\<lparr>op_world := w\<rparr>))"

definition ext_sleep :: "'w external \<Rightarrow> nat \<Rightarrow> ('w, unit) op" where
  "ext_sleep X n = io_mod (\<lambda>s. s\<lparr>op_world := x_Sleep X n (op_world s)\<rparr>)"

text \<open>\<open>sleep_continue\<close>: \<open>time.Sleep(...); continue\<close>.\<close>

definition sleep_continue :: "'w external \<Rightarrow> nat \<Rightarrow> 'l \<Rightarrow> ('w, 'l + 'a) op" where
  "sleep_continue X n l = io_bind (ext_sleep X n) (\<lambda>_. io_ret (Inl l))"

definition loop_done :: "'a \<Rightarrow> ('w, 'l + 'a) op" where
  "loop_done a = io_ret (Inr a)"

lemma ext_call_Some [io_simps]:
  "m (op_world s) = Some (r, w) \<Longrightarrow> ext_call m s = Some (r, s\<lparr>op_world := w\<rparr>)"
  by (simp add: ext_call_def)

lemma ext_call_None [io_simps]: "m (op_world s) = None \<Longrightarrow> ext_call m s = None"
  by (simp add: ext_call_def)

lemma ext_call_replicas:
  "ext_call m s = Some (r, s1) \<Longrightarrow> op_MetastoreReplicas s1 = op_MetastoreReplicas s"
  by (auto simp: ext_call_def split: option.splits)

lemma sleep_continue_apply [io_simps]:
  "sleep_continue X n l s = Some (Ret (Inl l), s\<lparr>op_world := x_Sleep X n (op_world s)\<rparr>)"
  by (simp add: sleep_continue_def ext_sleep_def io_bind_def io_mod_def io_ret_def)

lemma loop_done_apply [io_simps]: "loop_done a s = Some (Ret (Inr a), s)"
  by (simp add: loop_done_def io_ret_def)

end
