(* ===== verification/Common.thy ===== *)
theory Common
  imports External
begin

text \<open>
  \<open>internal/controller/common.go\<close>, \<open>constants.go\<close> and the pure part of \<open>utils.go\<close>: resource
  names and labels, feature lookups, the storage arithmetic, the completion of a
  NineCluster's cluster set, and the two readiness checks.
\<close>

section \<open>Constants\<close>

abbreviation DefaultGloableNameSuffix :: string where "DefaultGloableNameSuffix \<equiv> ''nineinfra''"
abbreviation DefaultStorageClass :: string where "DefaultStorageClass \<equiv> ''nineinfra-default''"
abbreviation DefaultShuffleDiskSize :: string where "DefaultShuffleDiskSize \<equiv> ''200Gi''"
abbreviation DefaultShuffleDiskMountPath :: string where "DefaultShuffleDiskMountPath \<equiv> ''/opt/spark/mnt/dir1''"
abbreviation DefualtPasswordMD5Salt :: string where "DefualtPasswordMD5Salt \<equiv> ''nineinfra''"
abbreviation DefaultClusterLabelKey :: string where "DefaultClusterLabelKey \<equiv> ''cluster''"
abbreviation DefaultAppLabelKey :: string where "DefaultAppLabelKey \<equiv> ''app''"
abbreviation DefaultDiskNum :: int64 where "DefaultDiskNum \<equiv> 4"
abbreviation DefaultMaxWaitSeconds :: nat where "DefaultMaxWaitSeconds \<equiv> 600"
abbreviation DefaultClusterDomainName :: string where "DefaultClusterDomainName \<equiv> ''clusterDomain''"
abbreviation DefaultClusterDomain :: string where "DefaultClusterDomain \<equiv> ''cluster.local''"
abbreviation DefaultMinioNameSuffix :: string where "DefaultMinioNameSuffix \<equiv> ''-minio''"
abbreviation MinioErrorNotExist :: string where "MinioErrorNotExist \<equiv> ''The specified key does not exist''"
abbreviation PGResourceNameSuffix :: string where "PGResourceNameSuffix \<equiv> ''-pg''"
abbreviation DefaultPGSuperUserName :: string where "DefaultPGSuperUserName \<equiv> ''postgres''"
abbreviation DefaultPGSuperUserPassword :: string where "DefaultPGSuperUserPassword \<equiv> ''postgres''"
abbreviation DefaultPGServerPort :: int where "DefaultPGServerPort \<equiv> 5432"
abbreviation PGErrorDuplicateKey :: string where "PGErrorDuplicateKey \<equiv> ''duplicate key value violates unique constraint''"
abbreviation DefaultKyuubiAuthUserName :: string where "DefaultKyuubiAuthUserName \<equiv> ''kyuubi''"
abbreviation DefaultKyuubiAuthPassword :: string where "DefaultKyuubiAuthPassword \<equiv> ''kyuubi''"
abbreviation DefaultKyuubiAuthDatabase :: string where "DefaultKyuubiAuthDatabase \<equiv> ''kyuubi''"
abbreviation DefaultKyuubiZKNamespace :: string where "DefaultKyuubiZKNamespace \<equiv> ''kyuubi''"
abbreviation ZKResourceNameSuffix :: string where "ZKResourceNameSuffix \<equiv> ''-zookeeper''"
abbreviation DefaultZookeeperClusterSign :: string where "DefaultZookeeperClusterSign \<equiv> ''zookeeper''"
abbreviation DefaultZKClientPortName :: string where "DefaultZKClientPortName \<equiv> ''client''"
abbreviation HdfsResourceNameSuffix :: string where "HdfsResourceNameSuffix \<equiv> ''-hdfs''"
abbreviation HdfsRoleNameNode :: string where "HdfsRoleNameNode \<equiv> ''namenode''"
abbreviation MetastoreResourceNameSuffix :: string where "MetastoreResourceNameSuffix \<equiv> ''-metastore''"
abbreviation DefaultMetastoreClusterSign :: string where "DefaultMetastoreClusterSign \<equiv> ''metastore''"

section \<open>Names and labels\<close>

definition GenUniqueName4Cluster :: "NineCluster \<Rightarrow> ClusterType \<Rightarrow> string" where
  "GenUniqueName4Cluster cluster clusterType =
     DefaultGloableNameSuffix @ ''-'' @ cluster_namespace cluster @ ''-'' @ cluster_name cluster @
     ''-'' @ clusterType"

definition NineResourceName :: "NineCluster \<Rightarrow> string list \<Rightarrow> string" where
  "NineResourceName cluster suffixs = cluster_name cluster @ ClusterNameSuffix @ join ''-'' suffixs"

definition MinioNewUserName :: "NineCluster \<Rightarrow> string" where
  "MinioNewUserName cluster = cluster_name cluster @ ClusterNameSuffix @ DefaultMinioNameSuffix @ ''-user''"

definition MinioConfigName :: "NineCluster \<Rightarrow> string" where
  "MinioConfigName cluster = cluster_name cluster @ ClusterNameSuffix @ DefaultMinioNameSuffix @ ''-config''"

definition PGInitDBUserSecretName :: "NineCluster \<Rightarrow> string" where
  "PGInitDBUserSecretName cluster = cluster_name cluster @ ClusterNameSuffix @ PGResourceNameSuffix @ ''-user''"

definition PGSuperUserSecretName :: "NineCluster \<Rightarrow> string" where
  "PGSuperUserSecretName cluster =
     cluster_name cluster @ ClusterNameSuffix @ PGResourceNameSuffix @ ''-superuser''"

definition NineConstructLabels :: "NineCluster \<Rightarrow> (string, string) gomap" where
  "NineConstructLabels cluster =
     Some [DefaultClusterLabelKey \<mapsto> cluster_name cluster, DefaultAppLabelKey \<mapsto> ClusterSign]"

definition NineObjectMeta :: "NineCluster \<Rightarrow> string list \<Rightarrow> object_meta" where
  "NineObjectMeta cluster suffixs = empty_meta
     \<lparr>om_Name := NineResourceName cluster [] @ join ''-'' suffixs,
      om_Namespace := cluster_namespace cluster,
      om_Labels := NineConstructLabels cluster\<rparr>"

declare GenUniqueName4Cluster_def [name_defs] NineResourceName_def [name_defs]
  MinioNewUserName_def [name_defs] MinioConfigName_def [name_defs]
  PGInitDBUserSecretName_def [name_defs] PGSuperUserSecretName_def [name_defs]

definition GetK8sClientConfig :: "'w external \<Rightarrow> ('w, unit) op" where
  "GetK8sClientConfig X = ext_call (x_InClusterConfig X)"

section \<open>Lookups in the NineCluster\<close>

definition GetDefaultRefClusterInfo :: "ClusterType \<Rightarrow> ClusterInfo option" where
  "GetDefaultRefClusterInfo clusterType = find (\<lambda>v. ci_Type v = clusterType) NineDatahouseClusterset"

definition GetRefClusterInfo :: "NineCluster \<Rightarrow> ClusterType \<Rightarrow> ClusterInfo option" where
  "GetRefClusterInfo cluster clusterType =
     (case find (\<lambda>v. ci_Type v = clusterType) (cluster_set cluster) of
        Some v \<Rightarrow> Some v
      | None \<Rightarrow> GetDefaultRefClusterInfo clusterType)"

definition GetStorageClassName :: "ClusterInfo \<Rightarrow> string" where
  "GetStorageClassName cluster =
     (if rc_StorageClass (ci_Resource cluster) \<noteq> [] then rc_StorageClass (ci_Resource cluster)
      else DefaultStorageClass)"

definition CheckOlapSupported :: "ClusterType \<Rightarrow> bool" where
  "CheckOlapSupported c = list_ex (\<lambda>v. c = v) NineInfraSupportedOlapList"

definition CheckNineClusterTypeSupported :: "NineClusterType \<Rightarrow> bool" where
  "CheckNineClusterTypeSupported c = list_ex (\<lambda>v. c = v) NineClusterTypeSupportedList"

definition GetOlapClusterType :: "NineCluster \<Rightarrow> go_error + ClusterType" where
  "GetOlapClusterType cluster =
     (let unsupported = Inl (new_error (''no supported olap found,[['' @
            join '' '' NineInfraSupportedOlapList @ '']] supported now''))
      in case mget (ns_Features (nc_Spec cluster)) NineClusterFeatureOlap of
           Some c \<Rightarrow> if CheckOlapSupported c then Inr c else unsupported
         | None \<Rightarrow> unsupported)"

definition CheckStorageSupported :: "ClusterStorage \<Rightarrow> bool" where
  "CheckStorageSupported c = list_ex (\<lambda>v. c = v) NineInfraSupportedStorageList"

definition GetClusterStorage :: "NineCluster \<Rightarrow> ClusterStorage" where
  "GetClusterStorage cluster =
     (case mget (ns_Features (nc_Spec cluster)) NineClusterFeatureStorage of
        Some s \<Rightarrow> if CheckStorageSupported s then s else NineClusterStorageMinio
      | None \<Rightarrow> NineClusterStorageMinio)"

definition IsKyuubiNeedHA :: "NineCluster \<Rightarrow> bool" where
  "IsKyuubiNeedHA cluster =
     (case mget (ns_Features (nc_Spec cluster)) NineClusterFeatureKyuubiHA of
        Some value \<Rightarrow> (case parse_bool value of None \<Rightarrow> False | Some ha \<Rightarrow> ha)
      | None \<Rightarrow> False)"

definition GetDiskNum :: "ClusterInfo \<Rightarrow> int64" where
  "GetDiskNum cluster =
     (if rc_Disks (ci_Resource cluster) \<noteq> 0 then int_of_int32 (rc_Disks (ci_Resource cluster))
      else DefaultDiskNum)"

fun domain_of_first :: "ClusterType \<Rightarrow> ClusterInfo list \<Rightarrow> string" where
  "domain_of_first cType [] = DefaultClusterDomain"
| "domain_of_first cType (v # vs) =
     (if ci_Type v = cType then
        (case mget (cc_K8sConf (ci_Configs v)) DefaultClusterDomainName of
           Some value \<Rightarrow> value
         | None \<Rightarrow> domain_of_first cType vs)
      else domain_of_first cType vs)"

definition GetClusterDomain :: "NineCluster \<Rightarrow> ClusterType \<Rightarrow> string" where
  "GetClusterDomain cluster cType = domain_of_first cType (cluster_set cluster)"

section \<open>Storage arithmetic\<close>

definition GiB2Bytes :: "int64 \<Rightarrow> int64" where
  "GiB2Bytes datavolume = datavolume * 1024 * 1024 * 1024"

definition RequestStorage :: "quantity \<Rightarrow> resource_list" where
  "RequestStorage q = Some [''storage'' \<mapsto> q]"

definition CapacityPerVolume :: "'w external \<Rightarrow> string \<Rightarrow> int32 \<Rightarrow> quantity outcome" where
  "CapacityPerVolume X capacity volumes =
     (case x_ParseQuantity X capacity of
        Inl e \<Rightarrow> Fail e
      | Inr totalQuantity \<Rightarrow>
          (case div_int64 (q_Value totalQuantity) (int_of_int32 volumes) of
             None \<Rightarrow> Panic ''integer divide by zero''
           | Some v \<Rightarrow> Ret (new_quantity v (q_Format totalQuantity))))"

text \<open>
  Both callers write \<open>q, _ := CapacityPerVolume(...)\<close> and then read \<open>*q\<close>: an error leaves a
  nil pointer, which panics when read.
\<close>

definition deref_capacity :: "quantity outcome \<Rightarrow> ('s, quantity) io" where
  "deref_capacity r =
     (case r of
        Ret q \<Rightarrow> io_ret q
      | Fail e \<Rightarrow> io_panic ''nil pointer dereference''
      | Panic p \<Rightarrow> io_panic p)"

section \<open>Completing the cluster set\<close>

definition FillNineClusterType :: "NineCluster \<Rightarrow> go_error + NineCluster" where
  "FillNineClusterType cluster =
     (if ns_Type (nc_Spec cluster) = [] then
        Inr (cluster\<lparr>nc_Spec := (nc_Spec cluster)\<lparr>ns_Type := NineClusterTypeBatch\<rparr>\<rparr>)
      else if \<not> CheckNineClusterTypeSupported (ns_Type (nc_Spec cluster)) then
        Inl (new_error (''nine cluster type:'' @ ns_Type (nc_Spec cluster) @ '' not supported''))
      else Inr cluster)"

definition weNeedClusterTypes :: "NineCluster \<Rightarrow> ClusterType \<rightharpoonup> bool" where
  "weNeedClusterTypes cluster =
     (let olap = (case GetOlapClusterType cluster of Inl _ \<Rightarrow> [] | Inr c \<Rightarrow> c);
          storage = GetClusterStorage cluster;
          m = fold (\<lambda>v m. m(ci_Type v \<mapsto> True)) NineDatahouseClusterset Map.empty;
          m = (if ns_Type (nc_Spec cluster) = NineClusterTypeBatch
               then m(SparkClusterType \<mapsto> True) else m);
          m = (if IsKyuubiNeedHA cluster \<or> storage = NineClusterStorageHdfs
               then m(ZookeeperClusterType \<mapsto> True) else m);
          m = (if storage = NineClusterStorageMinio then m(MinioClusterType \<mapsto> True)
               else if storage = NineClusterStorageHdfs then
                 m(HdfsClusterType \<mapsto> True, HdfsNameNodeClusterType \<mapsto> True,
                   HdfsJournalNodeClusterType \<mapsto> True, HdfsDataNodeClusterType \<mapsto> True)
               else m)
      in if olap = DorisClusterType
         then m(DorisClusterType \<mapsto> True, DorisFEClusterType \<mapsto> True, DorisBEClusterType \<mapsto> True)
         else m)"

definition userSpecifyClusterTypes :: "ClusterInfo list \<Rightarrow> ClusterType \<rightharpoonup> bool" where
  "userSpecifyClusterTypes cs = fold (\<lambda>v m. m(ci_Type v \<mapsto> True)) cs Map.empty"

text \<open>\<open>FillClustersInfo\<close> updates the cluster set in place and always returns the nil error.\<close>

definition FillClustersInfo :: "NineCluster \<Rightarrow> go_error option \<times> NineCluster" where
  "FillClustersInfo cluster =
     (let need = weNeedClusterTypes cluster;
          specified = userSpecifyClusterTypes (cluster_set cluster);
          filled = fold (\<lambda>v cs. if need (ci_Type v) \<noteq> None \<and> specified (ci_Type v) = None
                                then cs @ [v] else cs)
                     NineDatahouseFullClusterset (cluster_set cluster)
      in (None, with_cluster_set cluster filled))"

section \<open>Readiness checks\<close>

definition CheckEndpointsReady ::
  "'w external \<Rightarrow> NineCluster \<Rightarrow> string \<Rightarrow> int64 \<Rightarrow> ('w, go_error option \<times> bool \<times> endpoints) op" where
  "CheckEndpointsReady X cluster name needReplicas =
     io_bind (io_try (ext_call (x_GetEndpoints X (cluster_namespace cluster) name))) (\<lambda>r.
       case r of
         Inl e \<Rightarrow> io_ret (if is_not_found e then None else Some e, False, empty_endpoints)
       | Inr ep \<Rightarrow>
           (case ep_Subsets ep of
              [] \<Rightarrow> io_ret (None, False, ep)
            | sub # _ \<Rightarrow>
                if less_int64 (len (sub_Addresses sub)) needReplicas then io_ret (None, False, ep)
                else io_ret (None, True, ep)))"

definition ready_count :: "pod list \<Rightarrow> int64" where
  "ready_count pods =
     fold (\<lambda>p n. fold (\<lambda>c n. if pc_Type c = ''Ready'' \<and> pc_Status c = ''True'' then n + 1 else n)
                   (pod_Conditions p) n) pods 0"

definition CheckPodsReady ::
  "'w external \<Rightarrow> NineCluster \<Rightarrow> (string, string) gomap \<Rightarrow> int64 \<Rightarrow> ('w, go_error option \<times> bool) op" where
  "CheckPodsReady X cluster podLabels needReplicas =
     io_bind (io_try (ext_call (x_ListPods X (cluster_namespace cluster) podLabels))) (\<lambda>r.
       case r of
         Inl e \<Rightarrow> io_ret (Some e, False)
       | Inr pods \<Rightarrow>
           if less_int64 (len pods) needReplicas then io_ret (None, False)
           else if less_int64 (ready_count pods) needReplicas then io_ret (None, False)
           else io_ret (None, True))"

section \<open>Facts about names\<close>

lemma NineObjectMeta_simps [simp]:
  "om_Name (NineObjectMeta c ss) = NineResourceName c ss"
  "om_Namespace (NineObjectMeta c ss) = cluster_namespace c"
  "om_Labels (NineObjectMeta c ss) = NineConstructLabels c"
  by (simp_all add: NineObjectMeta_def NineResourceName_def)

lemma NineResourceName_one: "NineResourceName c [s] = cluster_name c @ ClusterNameSuffix @ s"
  by (simp add: NineResourceName_def)

section \<open>Facts about the completed cluster set\<close>

lemma userSpecifyClusterTypes_iff:
  "userSpecifyClusterTypes cs t = None \<longleftrightarrow> t \<notin> ci_Type ` set cs"
proof -
  have "fold (\<lambda>v m. m(ci_Type v \<mapsto> True)) cs m t =
      (if t \<in> ci_Type ` set cs then Some True else m t)" for m
    by (induction cs arbitrary: m) auto
  then show ?thesis by (simp add: userSpecifyClusterTypes_def)
qed

lemma fold_append_filter: "fold (\<lambda>v cs. if P v then cs @ [v] else cs) xs ys = ys @ filter P xs"
  by (induction xs arbitrary: ys) auto

definition required_type :: "NineCluster \<Rightarrow> ClusterType \<Rightarrow> bool" where
  "required_type cluster t \<longleftrightarrow> weNeedClusterTypes cluster t \<noteq> None"

lemma FillClustersInfo_eq:
  "FillClustersInfo c =
     (None, with_cluster_set c (cluster_set c @
        filter (\<lambda>v. required_type c (ci_Type v) \<and> ci_Type v \<notin> ci_Type ` set (cluster_set c))
          NineDatahouseFullClusterset))"
  by (simp add: FillClustersInfo_def Let_def fold_append_filter userSpecifyClusterTypes_iff
      required_type_def)

lemma NineDatahouseClusterset_types:
  "fold (\<lambda>v m. m(ci_Type v \<mapsto> True)) NineDatahouseClusterset Map.empty =
     [KyuubiClusterType \<mapsto> True, MetaStoreClusterType \<mapsto> True, DatabaseClusterType \<mapsto> True]"
  by (simp add: NineDatahouseClusterset_def)

lemma required_type_full: "required_type c t \<Longrightarrow> t \<in> ci_Type ` set NineDatahouseFullClusterset"
proof -
  assume "required_type c t"
  then have "t \<in> set [KyuubiClusterType, MetaStoreClusterType, DatabaseClusterType, MinioClusterType,
      SparkClusterType, DorisClusterType, DorisFEClusterType, DorisBEClusterType,
      ZookeeperClusterType, HdfsClusterType, HdfsNameNodeClusterType, HdfsDataNodeClusterType,
      HdfsJournalNodeClusterType]"
    by (simp add: required_type_def weNeedClusterTypes_def NineDatahouseClusterset_types Let_def
        split: if_splits)
  then show ?thesis by (simp add: full_set_types flip: set_map)
qed

lemma filled_set:
  "cluster_set (snd (FillClustersInfo c)) =
     cluster_set c @ filter (\<lambda>v. required_type c (ci_Type v) \<and>
        ci_Type v \<notin> ci_Type ` set (cluster_set c)) NineDatahouseFullClusterset"
  by (simp add: FillClustersInfo_eq)

lemma filled_has_required:
  "required_type c t \<Longrightarrow> t \<in> ci_Type ` set (cluster_set (snd (FillClustersInfo c)))"
  using required_type_full [of c t] by (auto simp: filled_set)

lemma required_type_with_cluster_set [simp]:
  "required_type (with_cluster_set c cs) t = required_type c t"
  by (simp add: required_type_def weNeedClusterTypes_def GetOlapClusterType_def
      GetClusterStorage_def IsKyuubiNeedHA_def)

lemma required_type_filled [simp]:
  "required_type (snd (FillClustersInfo c)) t = required_type c t"
  by (simp add: FillClustersInfo_eq)

lemma GetRefClusterInfo_Some:
  "t \<in> ci_Type ` set (cluster_set c) \<Longrightarrow>
     \<exists>v \<in> set (cluster_set c). GetRefClusterInfo c t = Some v \<and> ci_Type v = t"
  by (auto simp: GetRefClusterInfo_def find_None_iff find_Some_iff split: option.splits
      dest!: nth_mem)

section \<open>Properties\<close>

definition missing_defaults :: "NineCluster \<Rightarrow> ClusterInfo list" where
  "missing_defaults c =
     filter (\<lambda>v. required_type c (ci_Type v) \<and> ci_Type v \<notin> ci_Type ` set (cluster_set c))
       NineDatahouseFullClusterset"

lemma FillClustersInfo_missing:
  "FillClustersInfo c = (None, with_cluster_set c (cluster_set c @ missing_defaults c))"
  by (simp add: FillClustersInfo_eq missing_defaults_def)

lemma types_filter:
  "ci_Type ` set (filter (\<lambda>v. P (ci_Type v)) xs) = {t \<in> ci_Type ` set xs. P t}"
  by auto

lemma missing_types:
  "ci_Type ` set (missing_defaults c) = {t. required_type c t} - ci_Type ` set (cluster_set c)"
  using required_type_full [of c]
  by (auto simp: missing_defaults_def
      types_filter [of "\<lambda>t. required_type c t \<and> t \<notin> ci_Type ` set (cluster_set c)"]
      simp del: set_filter)

lemma missing_of_filled: "missing_defaults (snd (FillClustersInfo c)) = []"
  using filled_has_required [of c] by (auto simp: missing_defaults_def filter_empty_conv)

lemma with_cluster_set_same: "with_cluster_set c (cluster_set c) = c"
  by (simp add: with_cluster_set_def)

text \<open>
  C2: completing the cluster set keeps what the user wrote, in front and unchanged, and adds
  behind it one default entry for each required type the user left out: no type twice, none
  that is not required, none missing. It never reports an error, touches nothing else, and
  doing it again changes nothing.
\<close>
theorem FillClustersInfo_exact:
  "\<exists>added.
     FillClustersInfo c = (None, with_cluster_set c (cluster_set c @ added)) \<and>
     set added \<subseteq> set NineDatahouseFullClusterset \<and> distinct (map ci_Type added) \<and>
     ci_Type ` set added = {t. required_type c t} - ci_Type ` set (cluster_set c) \<and>
     FillClustersInfo (snd (FillClustersInfo c)) = (None, snd (FillClustersInfo c))"
proof (intro exI [of _ "missing_defaults c"] conjI)
  show "distinct (map ci_Type (missing_defaults c))"
    using full_set_distinct by (simp add: missing_defaults_def distinct_map_filter)
  show "FillClustersInfo (snd (FillClustersInfo c)) = (None, snd (FillClustersInfo c))"
    by (simp add: FillClustersInfo_missing [of "snd (FillClustersInfo c)"] missing_of_filled
        with_cluster_set_same)
  show "set (missing_defaults c) \<subseteq> set NineDatahouseFullClusterset"
    by (auto simp: missing_defaults_def)
qed (simp_all add: FillClustersInfo_missing missing_types)

lemma GetClusterStorage_cases:
  "GetClusterStorage c = NineClusterStorageMinio \<or> GetClusterStorage c = NineClusterStorageHdfs"
  by (auto simp: GetClusterStorage_def CheckStorageSupported_def NineInfraSupportedStorageList_def
      split: option.splits)

lemma GetOlapClusterType_doris:
  "GetOlapClusterType c = Inr t \<longleftrightarrow>
     t = DorisClusterType \<and> mget (ns_Features (nc_Spec c)) NineClusterFeatureOlap = Some DorisClusterType"
  by (auto simp: GetOlapClusterType_def CheckOlapSupported_def NineInfraSupportedOlapList_def Let_def
      split: option.splits)

lemma required_type_iff:
  "required_type c t \<longleftrightarrow>
     t \<in> {KyuubiClusterType, MetaStoreClusterType, DatabaseClusterType} \<or>
     t = SparkClusterType \<and> ns_Type (nc_Spec c) = NineClusterTypeBatch \<or>
     t = ZookeeperClusterType \<and> (IsKyuubiNeedHA c \<or> GetClusterStorage c = NineClusterStorageHdfs) \<or>
     t = MinioClusterType \<and> GetClusterStorage c = NineClusterStorageMinio \<or>
     t \<in> {HdfsClusterType, HdfsNameNodeClusterType, HdfsJournalNodeClusterType, HdfsDataNodeClusterType} \<and>
       mget (ns_Features (nc_Spec c)) NineClusterFeatureStorage = Some NineClusterStorageHdfs \<or>
     t \<in> {DorisClusterType, DorisFEClusterType, DorisBEClusterType} \<and>
       mget (ns_Features (nc_Spec c)) NineClusterFeatureOlap = Some DorisClusterType"
proof -
  have hdfs: "GetClusterStorage c = NineClusterStorageHdfs \<longleftrightarrow>
      mget (ns_Features (nc_Spec c)) NineClusterFeatureStorage = Some NineClusterStorageHdfs"
    by (auto simp: GetClusterStorage_def CheckStorageSupported_def NineInfraSupportedStorageList_def
        split: option.splits)
  have olap: "(case GetOlapClusterType c of Inl _ \<Rightarrow> [] | Inr t \<Rightarrow> t) = DorisClusterType \<longleftrightarrow>
      mget (ns_Features (nc_Spec c)) NineClusterFeatureOlap = Some DorisClusterType"
  proof (cases "GetOlapClusterType c")
    case (Inl e)
    then show ?thesis using GetOlapClusterType_doris [of c DorisClusterType] by simp
  next
    case (Inr u)
    then show ?thesis using GetOlapClusterType_doris [of c u] by simp
  qed
  have upd: "(m(a \<mapsto> v)) x \<noteq> None \<longleftrightarrow> x = a \<or> m x \<noteq> None" for m :: "string \<rightharpoonup> bool" and a v x
    by simp
  have nothing: "Map.empty x \<noteq> None \<longleftrightarrow> False" for x by simp
  show ?thesis
  proof (cases "GetClusterStorage c = NineClusterStorageHdfs")
    case True
    then have "GetClusterStorage c \<noteq> NineClusterStorageMinio" by simp
    with True show ?thesis
      unfolding required_type_def weNeedClusterTypes_def NineDatahouseClusterset_types Let_def olap
        hdfs [symmetric]
      by (cases "ns_Type (nc_Spec c) = NineClusterTypeBatch"; cases "IsKyuubiNeedHA c";
          cases "mget (ns_Features (nc_Spec c)) NineClusterFeatureOlap = Some DorisClusterType";
          simp only: if_True if_False upd nothing simp_thms insert_iff empty_iff; simp only: disj_ac)
  next
    case False
    with GetClusterStorage_cases [of c] have "GetClusterStorage c = NineClusterStorageMinio" by blast
    with False show ?thesis
      unfolding required_type_def weNeedClusterTypes_def NineDatahouseClusterset_types Let_def olap
        hdfs [symmetric]
      by (cases "ns_Type (nc_Spec c) = NineClusterTypeBatch"; cases "IsKyuubiNeedHA c";
          cases "mget (ns_Features (nc_Spec c)) NineClusterFeatureOlap = Some DorisClusterType";
          simp only: if_True if_False upd nothing simp_thms insert_iff empty_iff; simp only: disj_ac)
  qed
qed

text \<open>
  C4: which types a cluster needs, as a table. Kyuubi, the metastore and its database always;
  Spark for a batch cluster; either MinIO or the four HDFS parts, after the storage feature,
  with MinIO for an absent or unknown value; ZooKeeper for HDFS or a highly available Kyuubi;
  the three Doris parts when the olap feature asks for Doris; nothing else.
\<close>
theorem required_types_table:
  "required_type c t \<longleftrightarrow>
     t \<in> {KyuubiClusterType, MetaStoreClusterType, DatabaseClusterType} \<or>
     t = SparkClusterType \<and> ns_Type (nc_Spec c) = NineClusterTypeBatch \<or>
     t = ZookeeperClusterType \<and> (IsKyuubiNeedHA c \<or> GetClusterStorage c = NineClusterStorageHdfs) \<or>
     t = MinioClusterType \<and> GetClusterStorage c = NineClusterStorageMinio \<or>
     t \<in> {HdfsClusterType, HdfsNameNodeClusterType, HdfsJournalNodeClusterType, HdfsDataNodeClusterType} \<and>
       mget (ns_Features (nc_Spec c)) NineClusterFeatureStorage = Some NineClusterStorageHdfs \<or>
     t \<in> {DorisClusterType, DorisFEClusterType, DorisBEClusterType} \<and>
       mget (ns_Features (nc_Spec c)) NineClusterFeatureOlap = Some DorisClusterType"
  by (rule required_type_iff)

text \<open>
  The lock name of an entry does not identify its cluster: two clusters of different
  namespaces and names can share it, because the parts are joined with the dash they may contain.
\<close>
theorem GenUniqueName4Cluster_collides:
  "\<exists>c d. (cluster_namespace c, cluster_name c) \<noteq> (cluster_namespace d, cluster_name d) \<and>
     (\<forall>t. GenUniqueName4Cluster c t = GenUniqueName4Cluster d t)"
proof -
  let ?c = "\<lambda>ns n. \<lparr>nc_Meta = empty_meta\<lparr>om_Name := n, om_Namespace := ns\<rparr>,
     nc_Spec = \<lparr>ns_DataVolume = 0, ns_Type = [], ns_Features = None, ns_ClusterSet = []\<rparr>,
     nc_Status = \<lparr>nst_Conditions = []\<rparr>\<rparr>"
  show ?thesis
    by (intro exI [of _ "?c ''team'' ''a-dwh''"] exI [of _ "?c ''team-a'' ''dwh''"])
      (simp add: GenUniqueName4Cluster_def)
qed

end
