(* ===== verification/Ensure.thy ===== *)
theory Ensure
  imports Common
begin

text \<open>
  The get-or-create tail the reconcilers share, and its contract.

  Every \<open>reconcileX\<close> of \<open>internal/controller\<close> ends alike: look the object up by name; an error
  other than not-found is returned; not-found creates the desired object; found leaves the
  world alone. \<open>ensure_cr\<close> is that tail for custom resources (with the client set-up
  before it), \<open>ensure_secret\<close> the one of the MinIO secrets, \<open>ensure_secret_tolerant\<close> the one of
  the PostgreSQL secrets, which accepts that another routine created the object first.

  The locale \<open>get_or_create\<close> states the contract over any look-up and create operation; the
  client lemmas (what success means, that a second run creates nothing) are proved in it once.
\<close>

section \<open>The contract\<close>

locale get_or_create =
  fixes look :: "('s, 'o) io"
    and make :: "'d \<Rightarrow> ('s, unit) io"
    and ensure :: "'d \<Rightarrow> ('s, unit) io"
  assumes found: "look s = Some (Ret x, s1) \<Longrightarrow> ensure d s = Some (Ret (), s1)"
    and absent: "look s = Some (Fail e, s1) \<Longrightarrow> is_not_found e \<Longrightarrow> ensure d s = make d s1"
    and failed: "look s = Some (Fail e, s1) \<Longrightarrow> \<not> is_not_found e \<Longrightarrow> ensure d s = Some (Fail e, s1)"
    and panicked: "look s = Some (Panic p, s1) \<Longrightarrow> ensure d s = Some (Panic p, s1)"
    and blocked: "look s = None \<Longrightarrow> ensure d s = None"
begin

lemma ensure_cases:
  assumes "ensure d s = Some (r, s2)"
  obtains (exists) x s1 where "look s = Some (Ret x, s1)" "r = Ret ()" "s2 = s1"
  | (created) e s1 where "look s = Some (Fail e, s1)" "is_not_found e" "make d s1 = Some (r, s2)"
  | (error) e where "look s = Some (Fail e, s2)" "\<not> is_not_found e" "r = Fail e"
  | (panic) p where "look s = Some (Panic p, s2)" "r = Panic p"
proof (cases "look s")
  case None
  with assms blocked show ?thesis by simp
next
  case (Some q)
  obtain o1 s1 where q: "q = (o1, s1)" by (cases q)
  show ?thesis
  proof (cases o1)
    case (Ret x)
    with assms Some q found [of s x s1 d] exists show ?thesis by simp
  next
    case (Fail e)
    show ?thesis
    proof (cases "is_not_found e")
      case True
      with assms Some q Fail absent [of s e s1 d] created show ?thesis by simp
    next
      case False
      with assms Some q Fail failed [of s e s1 d] error show ?thesis by simp
    qed
  next
    case (Panic p)
    with assms Some q panicked [of s p s1 d] panic show ?thesis by simp
  qed
qed

text \<open>
  \<open>there\<close> says the object is in the store. If a successful look-up sees it and a successful
  creation leaves it there, then a run that succeeds leaves it there.
\<close>

lemma ensure_establishes:
  assumes "ensure d s = Some (Ret (), s2)"
    and "\<And>s x s1. look s = Some (Ret x, s1) \<Longrightarrow> there s1"
    and "\<And>s s1. make d s = Some (Ret (), s1) \<Longrightarrow> there s1"
  shows "there s2"
  using assms(1) by (cases rule: ensure_cases) (auto intro: assms(2,3))

text \<open>A run that finds the object there never reaches the creation, whatever is desired.\<close>

lemma ensure_idle:
  assumes "there s" and "\<And>s. there s \<Longrightarrow> \<exists>x s1. look s = Some (Ret x, s1) \<and> there s1"
  shows "\<exists>s1. (\<forall>d. ensure d s = Some (Ret (), s1)) \<and> there s1"
proof -
  from assms obtain x s1 where "look s = Some (Ret x, s1)" "there s1" by blast
  then show ?thesis using found by blast
qed

end

section \<open>The three tails\<close>

definition ensure_cr ::
  "'w external \<Rightarrow> cr_kind \<Rightarrow> string \<Rightarrow> string \<Rightarrow> custom_resource option \<Rightarrow> ('w, unit) op" where
  "ensure_cr X kind ns name desired =
     io_bind (io_try (ext_call (x_GetCR X kind ns name))) (\<lambda>r.
       case r of
         Inl e \<Rightarrow> if is_not_found e then ext_call (x_CreateCR X kind ns desired) else io_fail e
       | Inr _ \<Rightarrow> io_ret ())"

definition client_of :: "'w external \<Rightarrow> cr_kind \<Rightarrow> ('w, unit) op" where
  "client_of X kind = io_bind (GetK8sClientConfig X) (\<lambda>_. ext_call (x_NewForConfig X kind))"

definition secret_key :: "secret \<Rightarrow> string \<times> string" where
  "secret_key sec = (om_Namespace (sec_Meta sec), om_Name (sec_Meta sec))"

definition get_secret :: "'w external \<Rightarrow> string \<times> string \<Rightarrow> ('w, secret) op" where
  "get_secret X key = ext_call (x_GetSecret X (fst key) (snd key))"

definition ensure_secret :: "'w external \<Rightarrow> string \<times> string \<Rightarrow> secret \<Rightarrow> ('w, unit) op" where
  "ensure_secret X key desired =
     io_bind (io_try (get_secret X key)) (\<lambda>r.
       case r of
         Inl e \<Rightarrow> if is_not_found e then ext_call (x_CreateSecret X desired) else io_fail e
       | Inr _ \<Rightarrow> io_ret ())"

text \<open>\<open>ctrl.SetControllerReference(cluster, obj, scheme)\<close> on a secret's metadata.\<close>

definition own_secret :: "'w external \<Rightarrow> NineCluster \<Rightarrow> secret \<Rightarrow> go_error + secret" where
  "own_secret X cluster sec =
     (case x_SetControllerReference X (nc_Meta cluster) (sec_Meta sec) of
        Inl e \<Rightarrow> Inl e
      | Inr m \<Rightarrow> Inr (sec\<lparr>sec_Meta := m\<rparr>))"

definition create_tolerant :: "'w external \<Rightarrow> secret \<Rightarrow> ('w, unit) op" where
  "create_tolerant X desired =
     io_bind (io_try (ext_call (x_CreateSecret X desired))) (\<lambda>r.
       case r of
         Inl e \<Rightarrow> if is_already_exists e then io_ret () else io_fail e
       | Inr _ \<Rightarrow> io_ret ())"

definition ensure_secret_tolerant :: "'w external \<Rightarrow> string \<times> string \<Rightarrow> secret \<Rightarrow> ('w, unit) op" where
  "ensure_secret_tolerant X key desired =
     io_bind (io_try (get_secret X key)) (\<lambda>r.
       case r of
         Inl e \<Rightarrow> if is_not_found e then create_tolerant X desired else io_fail e
       | Inr _ \<Rightarrow> io_ret ())"

interpretation cr: get_or_create
  "ext_call (x_GetCR X kind ns name)" "\<lambda>d. ext_call (x_CreateCR X kind ns d)"
  "ensure_cr X kind ns name" for X kind ns name
  by unfold_locales (simp_all add: ensure_cr_def io_bind_def io_try_def io_ret_def io_fail_def)

interpretation sec: get_or_create
  "get_secret X key" "\<lambda>d. ext_call (x_CreateSecret X d)" "ensure_secret X key" for X key
  by unfold_locales (simp_all add: ensure_secret_def io_bind_def io_try_def io_ret_def io_fail_def)

interpretation tolerant: get_or_create
  "get_secret X key" "create_tolerant X" "ensure_secret_tolerant X key" for X key
  by unfold_locales
    (simp_all add: ensure_secret_tolerant_def io_bind_def io_try_def io_ret_def io_fail_def)

section \<open>What the API server promises\<close>

text \<open>
  \<open>has w kind ns name\<close>: the object is in the store in world \<open>w\<close>. The hypothesis states the
  server's documented behaviour: a get that answers has seen the object, a create that
  succeeds has stored the object under its own name.
\<close>

definition cr_store :: "'w external \<Rightarrow> ('w \<Rightarrow> cr_kind \<Rightarrow> string \<Rightarrow> string \<Rightarrow> bool) \<Rightarrow> bool" where
  "cr_store X has \<longleftrightarrow>
     (\<forall>k ns n w w1. x_GetCR X k ns n w = Some (Ret (), w1) \<longrightarrow> has w1 k ns n) \<and>
     (\<forall>k ns obj w w1. x_CreateCR X k ns (Some obj) w = Some (Ret (), w1) \<longrightarrow>
        has w1 k ns (om_Name (cr_meta obj))) \<and>
     (\<forall>k ns w w1. x_CreateCR X k ns None w \<noteq> Some (Ret (), w1))"

lemma ensure_cr_establishes:
  assumes "cr_store X has" and "ensure_cr X kind ns name (Some d) s = Some (Ret (), s1)"
    and "om_Name (cr_meta d) = name"
  shows "has (op_world s1) kind ns name"
proof (rule cr.ensure_establishes [where there = "\<lambda>s. has (op_world s) kind ns name", OF assms(2)])
  fix t x t1
  assume "ext_call (x_GetCR X kind ns name) t = Some (Ret x, t1)"
  with assms(1) show "has (op_world t1) kind ns name"
    by (auto simp: ext_call_def cr_store_def split: option.splits)
next
  fix t t1
  assume "ext_call (x_CreateCR X kind ns (Some d)) t = Some (Ret (), t1)"
  with assms(1,3) show "has (op_world t1) kind ns name"
    by (auto simp: ext_call_def cr_store_def split: option.splits)
qed

text \<open>The tail with a nil object succeeds only where the object already was.\<close>

lemma ensure_cr_nil:
  assumes "cr_store X has" and "ensure_cr X kind ns name None s = Some (Ret (), s1)"
  shows "ext_call (x_GetCR X kind ns name) s = Some (Ret (), s1)"
  using assms(2)
proof (cases rule: cr.ensure_cases)
  case (exists x s1)
  then show ?thesis by simp
next
  case (created e t)
  with assms(1) show ?thesis
    by (auto simp: ext_call_def cr_store_def split: option.splits)
qed simp_all

lemma client_of_replicas:
  "client_of X kind s = Some (r, s1) \<Longrightarrow> op_MetastoreReplicas s1 = op_MetastoreReplicas s"
  by (auto simp: client_of_def GetK8sClientConfig_def io_bind_def dest!: ext_call_replicas
      split: option.splits outcome.splits)

text \<open>\<open>ctrl.SetControllerReference\<close> adds an owner reference; it renames nothing.\<close>

definition keeps_name :: "'w external \<Rightarrow> bool" where
  "keeps_name X \<longleftrightarrow>
     (\<forall>owner m m1. x_SetControllerReference X owner m = Inr m1 \<longrightarrow>
        om_Name m1 = om_Name m \<and> om_Namespace m1 = om_Namespace m)"

lemma keeps_nameD:
  "keeps_name X \<Longrightarrow> x_SetControllerReference X owner m = Inr m1 \<Longrightarrow> om_Name m1 = om_Name m"
  by (simp add: keeps_name_def)

text \<open>
  The same of secrets: a look-up that answers has seen the secret, a creation that succeeds, or is
  refused because the secret exists, leaves it in the store. \<open>hs w ns n\<close>: it is in the store.
\<close>

definition secret_store :: "'w external \<Rightarrow> ('w \<Rightarrow> string \<Rightarrow> string \<Rightarrow> bool) \<Rightarrow> bool" where
  "secret_store X hs \<longleftrightarrow>
     (\<forall>ns n w sec w1. x_GetSecret X ns n w = Some (Ret sec, w1) \<longrightarrow> hs w1 ns n) \<and>
     (\<forall>sec w r w1. x_CreateSecret X sec w = Some (r, w1) \<longrightarrow>
        r = Ret () \<or> (\<exists>e. r = Fail e \<and> is_already_exists e) \<longrightarrow>
        hs w1 (om_Namespace (sec_Meta sec)) (om_Name (sec_Meta sec)))"

lemma get_secret_sees:
  assumes "secret_store X hs" and "get_secret X key s = Some (Ret sec, s1)"
  shows "hs (op_world s1) (fst key) (snd key)"
  using assms by (auto simp: get_secret_def ext_call_def secret_store_def split: option.splits)

lemma create_secret_stores:
  assumes "secret_store X hs" and "ext_call (x_CreateSecret X d) s = Some (r, s1)"
    and "r = Ret () \<or> (\<exists>e. r = Fail e \<and> is_already_exists e)"
  shows "hs (op_world s1) (fst (secret_key d)) (snd (secret_key d))"
  using assms by (auto simp: ext_call_def secret_store_def secret_key_def split: option.splits)

lemma ensure_secret_stores:
  assumes "secret_store X hs"
  shows "ensure_secret X (secret_key d) d s = Some (Ret (), s1) \<Longrightarrow>
      hs (op_world s1) (fst (secret_key d)) (snd (secret_key d))"
    and "ensure_secret_tolerant X (secret_key d) d s = Some (Ret (), s1) \<Longrightarrow>
      hs (op_world s1) (fst (secret_key d)) (snd (secret_key d))"
proof -
  let ?there = "\<lambda>s. hs (op_world s) (fst (secret_key d)) (snd (secret_key d))"
  have made: "?there t1" if "create_tolerant X d t = Some (Ret (), t1)" for t t1
    using that create_secret_stores [OF assms, of d t]
    by (auto simp: create_tolerant_def io_bind_def io_try_def io_ret_def io_fail_def
        split: option.splits outcome.splits sum.splits if_splits)
  show "ensure_secret X (secret_key d) d s = Some (Ret (), s1) \<Longrightarrow> ?there s1"
    by (rule sec.ensure_establishes [where there = ?there])
      (auto intro: get_secret_sees [OF assms] create_secret_stores [OF assms])
  show "ensure_secret_tolerant X (secret_key d) d s = Some (Ret (), s1) \<Longrightarrow> ?there s1"
    by (rule tolerant.ensure_establishes [where there = ?there])
      (auto intro: get_secret_sees [OF assms] made)
qed

lemma own_secret_key: "keeps_name X \<Longrightarrow> own_secret X c sec = Inr d \<Longrightarrow> secret_key d = secret_key sec"
  by (auto simp: own_secret_def secret_key_def keeps_name_def split: sum.splits)

text \<open>The end of every reconciler: whatever is desired, success means the object is there.\<close>

lemma client_ensure_establishes:
  assumes "cr_store X has"
    and "io_bind (client_of X kind) (\<lambda>_. ensure_cr X kind ns name d) s = Some (Ret (), s1)"
    and "\<And>desired. d = Some desired \<Longrightarrow> om_Name (cr_meta desired) = name"
  shows "has (op_world s1) kind ns name"
proof -
  from assms(2) obtain t where t: "ensure_cr X kind ns name d t = Some (Ret (), s1)"
    by (auto elim!: io_bind_RetE)
  show ?thesis
  proof (cases d)
    case (Some desired)
    with assms(1,3) t show ?thesis by (auto intro: ensure_cr_establishes)
  next
    case None
    with assms(1) t have "ext_call (x_GetCR X kind ns name) t = Some (Ret (), s1)"
      by (auto intro: ensure_cr_nil)
    with assms(1) show ?thesis by (auto simp: ext_call_def cr_store_def split: option.splits)
  qed
qed

text \<open>
  \<open>finds X has\<close>: getting an object that is in the store answers and leaves it there, and so do
  the calls that set up a client.
\<close>

definition finds :: "'w external \<Rightarrow> ('w \<Rightarrow> cr_kind \<Rightarrow> string \<Rightarrow> string \<Rightarrow> bool) \<Rightarrow> bool" where
  "finds X has \<longleftrightarrow>
     (\<forall>w k ns n. has w k ns n \<longrightarrow> (\<exists>w1. x_GetCR X k ns n w = Some (Ret (), w1) \<and> has w1 k ns n)) \<and>
     (\<forall>w k ns n r w1. has w k ns n \<longrightarrow> x_InClusterConfig X w = Some (r, w1) \<longrightarrow> has w1 k ns n) \<and>
     (\<forall>w k k1 ns n r w1. has w k ns n \<longrightarrow> x_NewForConfig X k1 w = Some (r, w1) \<longrightarrow> has w1 k ns n)"

lemma ext_call_world: "ext_call m s = Some (r, t) \<Longrightarrow> m (op_world s) = Some (r, op_world t)"
  by (auto simp: ext_call_def split: option.splits)

lemma ensure_present:
  assumes "finds X has" and "has (op_world s) kind ns name"
  shows "ensure_cr X kind ns name d s = ensure_cr (X\<lparr>x_CreateCR := f\<rparr>) kind ns name d s"
proof -
  from assms obtain w1 where "x_GetCR X kind ns name (op_world s) = Some (Ret (), w1)"
    unfolding finds_def by blast
  then have "ext_call (x_GetCR X kind ns name) s = Some (Ret (), s\<lparr>op_world := w1\<rparr>)"
    by (rule ext_call_Some)
  then show ?thesis
    using cr.found [of X kind ns name s "()" _ d] cr.found [of "X\<lparr>x_CreateCR := f\<rparr>" kind ns name s "()" _ d]
    by simp
qed

lemma client_ensure_present:
  assumes "finds X has" and "has (op_world s) kind ns name"
  shows "io_bind (client_of X kind) (\<lambda>_. ensure_cr X kind ns name d) s =
     io_bind (client_of (X\<lparr>x_CreateCR := f\<rparr>) kind) (\<lambda>_. ensure_cr (X\<lparr>x_CreateCR := f\<rparr>) kind ns name d) s"
proof -
  have client: "client_of (X\<lparr>x_CreateCR := f\<rparr>) kind = client_of X kind"
    by (simp add: client_of_def GetK8sClientConfig_def)
  have "has (op_world t) kind ns name" if "client_of X kind s = Some (r, t)" for r t
  proof -
    from that obtain q t1 where "ext_call (x_InClusterConfig X) s = Some (q, t1)"
      "t = t1 \<or> ext_call (x_NewForConfig X kind) t1 = Some (r, t)"
      by (auto simp: client_of_def GetK8sClientConfig_def io_bind_def split: option.splits outcome.splits)
    then have "x_InClusterConfig X (op_world s) = Some (q, op_world t1)"
      "t = t1 \<or> x_NewForConfig X kind (op_world t1) = Some (r, op_world t)"
      by (auto dest: ext_call_world)
    with assms show ?thesis unfolding finds_def by metis
  qed
  then have "ensure_cr X kind ns name d t = ensure_cr (X\<lparr>x_CreateCR := f\<rparr>) kind ns name d t"
    if "client_of X kind s = Some (r, t)" for r t
    using that assms(1) by (blast intro: ensure_present)
  then show ?thesis
    unfolding client by (auto simp: io_bind_def split: option.splits outcome.splits)
qed

end
