(* ===== verification/Server.thy ===== *)
theory Server
  imports Ensure
begin

text \<open>
  A concrete environment: an API server that keeps its objects in lists, with idle databases
  and file systems beside it. The contracts assumed of the external code hold of it, so it
  shows them satisfiable, and the properties are run on it.
\<close>

record server_world =
  sw_nines :: "NineCluster list"
  sw_objects :: "(cr_kind \<times> string \<times> string) list"
  sw_secrets :: "((string \<times> string) \<times> secret) list"
  sw_services :: "((string \<times> string) \<times> service) list"
  sw_endpoints :: "((string \<times> string) \<times> endpoints) list"
  sw_pods :: "pod list"
  sw_nodes :: "string list"
  sw_clock :: nat

definition empty_world :: server_world where
  "empty_world = \<lparr>sw_nines = [], sw_objects = [], sw_secrets = [], sw_services = [],
     sw_endpoints = [], sw_pods = [], sw_nodes = [], sw_clock = 0\<rparr>"

definition not_found :: go_error where
  "not_found = \<lparr>err_reason = NotFound, err_text = ''not found''\<rparr>"

definition already_exists :: go_error where
  "already_exists = \<lparr>err_reason = AlreadyExists, err_text = ''already exists''\<rparr>"

definition answer :: "'a option \<Rightarrow> ('s, 'a) io" where
  "answer r = (case r of None \<Rightarrow> io_fail not_found | Some a \<Rightarrow> io_ret a)"

definition find_nine :: "string \<Rightarrow> string \<Rightarrow> (server_world, NineCluster) io" where
  "find_nine ns n w =
     answer (find (\<lambda>c. cluster_namespace c = ns \<and> cluster_name c = n) (sw_nines w)) w"

definition find_object :: "cr_kind \<Rightarrow> string \<Rightarrow> string \<Rightarrow> (server_world, unit) io" where
  "find_object k ns n w = answer (if (k, ns, n) \<in> set (sw_objects w) then Some () else None) w"

definition create_object ::
  "cr_kind \<Rightarrow> string \<Rightarrow> custom_resource option \<Rightarrow> (server_world, unit) io" where
  "create_object k ns obj w =
     (case obj of
        None \<Rightarrow> io_fail (new_error ''nil object'') w
      | Some d \<Rightarrow>
          (let key = (k, ns, om_Name (cr_meta d)) in
           if key \<in> set (sw_objects w) then io_fail already_exists w
           else io_ret () (w\<lparr>sw_objects := key # sw_objects w\<rparr>)))"

definition create_secret :: "secret \<Rightarrow> (server_world, unit) io" where
  "create_secret sec w =
     (if map_of (sw_secrets w) (secret_key sec) \<noteq> None then io_fail already_exists w
      else io_ret () (w\<lparr>sw_secrets := (secret_key sec, sec) # sw_secrets w\<rparr>))"

definition integer_quantity :: "string \<Rightarrow> go_error + quantity" where
  "integer_quantity t =
     (case parse_int t 10 of
        Inl _ \<Rightarrow> Inl (new_error ''quantities must match the regular expression'')
      | Inr i \<Rightarrow> Inr (new_quantity (word_of_int i) DecimalSI))"

definition server :: "server_world external" where
  "server =
     \<lparr>x_GetNineCluster = find_nine,
      x_GetService = (\<lambda>ns n w. answer (map_of (sw_services w) (ns, n)) w),
      x_GetSecret = (\<lambda>ns n w. answer (map_of (sw_secrets w) (ns, n)) w),
      x_CreateSecret = create_secret,
      x_GetEndpoints = (\<lambda>ns n w. answer (map_of (sw_endpoints w) (ns, n)) w),
      x_ListPods = (\<lambda>ns ls w. io_ret (sw_pods w) w),
      x_SetControllerReference = (\<lambda>owner m. Inr (m\<lparr>om_OwnerReferences :=
         [\<lparr>or_Kind = ''NineCluster'', or_Name = om_Name owner, or_UID = om_UID owner, or_Controller = True\<rparr>]\<rparr>)),
      x_InClusterConfig = io_ret (),
      x_NewForConfig = (\<lambda>k. io_ret ()),
      x_GetCR = find_object,
      x_CreateCR = create_object,
      x_NewDirectPVClient = io_ret (),
      x_ListDirectPVNodes = (\<lambda>w. io_ret (sw_nodes w) w),
      x_ParseQuantity = integer_quantity,
      x_MD5Hex = (\<lambda>t. t),
      x_SprintRequest = (\<lambda>ns n. ns @ ''/'' @ n),
      x_RefClusterZKReplicasKey = ''reference.zookeeper.replicas'',
      x_RefClusterZKEndpointsKey = ''reference.zookeeper.endpoints'',
      x_Sleep = (\<lambda>n w. w\<lparr>sw_clock := sw_clock w + n\<rparr>),
      x_RandRead = (\<lambda>n. io_ret (replicate n 7)),
      x_SqlOpen = (\<lambda>conn. io_ret ()),
      x_DbExec = (\<lambda>conn stmt args. io_ret ()),
      x_MinioNew = (\<lambda>info ssl. io_ret ()),
      x_BucketExists = (\<lambda>info b. io_ret True),
      x_MakeBucket = (\<lambda>info b. io_ret ()),
      x_StatObject = (\<lambda>info b f. io_ret ()),
      x_PutObject = (\<lambda>info b f. io_ret ()),
      x_HdfsNewClient = (\<lambda>as. io_ret ()),
      x_HdfsStat = (\<lambda>as d. io_ret True),
      x_HdfsMkdirAll = (\<lambda>as d m. io_ret ())\<rparr>"

definition in_world :: "server_world \<Rightarrow> server_world op_state" where
  "in_world w = \<lparr>op_MetastoreReplicas = 1, op_world = w\<rparr>"

definition stored :: "server_world \<Rightarrow> cr_kind \<Rightarrow> string \<Rightarrow> string \<Rightarrow> bool" where
  "stored w k ns n \<longleftrightarrow> (k, ns, n) \<in> set (sw_objects w)"

lemma server_simps [simp]:
  "x_GetNineCluster server = find_nine"
  "x_GetService server ns n w = answer (map_of (sw_services w) (ns, n)) w"
  "x_GetSecret server ns n w = answer (map_of (sw_secrets w) (ns, n)) w"
  "x_CreateSecret server = create_secret"
  "x_GetEndpoints server ns n w = answer (map_of (sw_endpoints w) (ns, n)) w"
  "x_ListPods server ns ls w = io_ret (sw_pods w) w"
  "x_SetControllerReference server owner m = Inr (m\<lparr>om_OwnerReferences :=
     [\<lparr>or_Kind = ''NineCluster'', or_Name = om_Name owner, or_UID = om_UID owner, or_Controller = True\<rparr>]\<rparr>)"
  "x_InClusterConfig server = io_ret ()"
  "x_NewForConfig server k = io_ret ()"
  "x_GetCR server = find_object"
  "x_CreateCR server = create_object"
  "x_NewDirectPVClient server = io_ret ()"
  "x_ListDirectPVNodes server w = io_ret (sw_nodes w) w"
  "x_ParseQuantity server = integer_quantity"
  "x_SprintRequest server ns n = ns @ ''/'' @ n"
  "x_Sleep server t w = w\<lparr>sw_clock := sw_clock w + t\<rparr>"
  "x_RandRead server t = io_ret (replicate t 7)"
  "x_SqlOpen server conn = io_ret ()"
  "x_DbExec server conn stmt args = io_ret ()"
  by (simp_all add: server_def)

lemma server_store: "cr_store server stored"
  by (auto simp: cr_store_def find_object_def create_object_def stored_def answer_def io_ret_def
      io_fail_def Let_def split: if_splits option.splits)

lemma server_keeps_name: "keeps_name server"
  by (simp add: keeps_name_def)

lemma server_finds: "finds server stored"
  by (simp add: finds_def find_object_def stored_def answer_def io_ret_def)

definition secret_stored :: "server_world \<Rightarrow> string \<Rightarrow> string \<Rightarrow> bool" where
  "secret_stored w ns n \<longleftrightarrow> map_of (sw_secrets w) (ns, n) \<noteq> None"

lemma server_secret_store: "secret_store server secret_stored"
  by (auto simp: secret_store_def secret_stored_def create_secret_def answer_def io_ret_def io_fail_def
      secret_key_def split: if_splits option.splits)

lemma integer_quantity_itoa:
  "integer_quantity (itoa (sint (v :: int64))) = Inr (new_quantity v DecimalSI)"
  using sint64_range [of v] by (simp add: integer_quantity_def parse_int_itoa)

section \<open>A small NineCluster\<close>

definition demo_cluster :: NineCluster where
  "demo_cluster =
     \<lparr>nc_Meta = empty_meta\<lparr>om_Name := ''demo'', om_Namespace := ''dwh''\<rparr>,
      nc_Spec = \<lparr>ns_DataVolume = 32, ns_Type = NineClusterTypeBatch, ns_Features = None, ns_ClusterSet = []\<rparr>,
      nc_Status = \<lparr>nst_Conditions = []\<rparr>\<rparr>"

lemma demo_cluster_simps [simp]:
  "cluster_name demo_cluster = ''demo''"
  "cluster_namespace demo_cluster = ''dwh''"
  "ns_Type (nc_Spec demo_cluster) = NineClusterTypeBatch"
  "ns_Features (nc_Spec demo_cluster) = None"
  "ns_DataVolume (nc_Spec demo_cluster) = 32"
  "cluster_set demo_cluster = []"
  by (simp_all add: demo_cluster_def)

end
