(* ===== verification/Waiting.thy ===== *)
theory Waiting
  imports Server
begin

text \<open>
  The waits of \<open>internal/controller\<close>. Components that depend on each other poll the API server
  for endpoints and ready pods, sleeping a second between rounds, without a limit. Here are
  what the readiness checks decide, and the meaning of such a loop when reading does not
  change the world and time does: it returns at the first second at which the check holds,
  and never returns when there is none.
\<close>

section \<open>Polling\<close>

definition polls ::
  "'w external \<Rightarrow> (unit \<Rightarrow> ('w, unit + 'a) op) \<Rightarrow> ('w op_state \<Rightarrow> 'a option) \<Rightarrow> bool" where
  "polls X body ready \<longleftrightarrow>
     (\<forall>s. body () s =
        (case ready s of None \<Rightarrow> sleep_continue X 1 () s | Some a \<Rightarrow> loop_done a s))"

text \<open>The state after \<open>n\<close> rounds of sleeping one second.\<close>

definition after_secs :: "'w external \<Rightarrow> nat \<Rightarrow> 'w op_state \<Rightarrow> 'w op_state" where
  "after_secs X n s = s\<lparr>op_world := (x_Sleep X 1 ^^ n) (op_world s)\<rparr>"

lemma after_secs_simps [simp]:
  "after_secs X 0 s = s"
  "after_secs X n (s\<lparr>op_world := x_Sleep X 1 (op_world s)\<rparr>) = after_secs X (Suc n) s"
  "op_MetastoreReplicas (after_secs X n s) = op_MetastoreReplicas s"
  by (simp_all add: after_secs_def funpow_swap1 del: One_nat_def)

lemma rounds_poll:
  assumes "polls X body ready"
  shows "rounds n body () s =
    (if \<forall>m<n. ready (after_secs X m s) = None then Some ((), after_secs X n s) else None)"
proof (induction n arbitrary: s)
  case 0
  then show ?case by simp
next
  case (Suc n)
  from assms have body: "body () s =
      (case ready s of None \<Rightarrow> sleep_continue X 1 () s | Some a \<Rightarrow> loop_done a s)"
    by (simp add: polls_def)
  show ?case
    by (cases "ready s")
      (simp_all add: body sleep_continue_apply loop_done_apply Suc.IH All_less_Suc2 del: One_nat_def)
qed

text \<open>The loop ends in the first state that is ready, with what that state shows.\<close>

lemma poll_result:
  assumes p: "polls X body ready"
  shows "loop body () s = Some (r, s1) \<longleftrightarrow>
    (\<exists>n a. r = Ret a \<and> s1 = after_secs X n s \<and> ready s1 = Some a \<and>
       (\<forall>m<n. ready (after_secs X m s) = None))"
proof
  have body: "body () t =
      (case ready t of None \<Rightarrow> sleep_continue X 1 () t | Some a \<Rightarrow> loop_done a t)" for t
    using p by (simp add: polls_def)
  { assume "loop body () s = Some (r, s1)"
    then have "ends_with body () s (r, s1)" by (rule loop_ends_with)
    then show "\<exists>n a. r = Ret a \<and> s1 = after_secs X n s \<and> ready s1 = Some a \<and>
         (\<forall>m<n. ready (after_secs X m s) = None)"
      unfolding ends_with_def rounds_poll [OF p]
      by (cases r) (auto simp: body sleep_continue_apply loop_done_apply split: if_splits option.splits)
  next
    assume "\<exists>n a. r = Ret a \<and> s1 = after_secs X n s \<and> ready s1 = Some a \<and>
         (\<forall>m<n. ready (after_secs X m s) = None)"
    then obtain n a where n: "r = Ret a" "s1 = after_secs X n s" "ready s1 = Some a"
      "\<forall>m<n. ready (after_secs X m s) = None"
      by blast
    then have "rounds n body () s = Some ((), s1)" by (simp add: rounds_poll [OF p])
    moreover have "body () s1 = Some (Ret (Inr a), s1)" by (simp add: body n(3) loop_done_apply)
    ultimately show "loop body () s = Some (r, s1)" unfolding n(1) by (rule loop_returns) }
qed

lemma poll_returns:
  assumes p: "polls X body ready"
  shows "loop body () s \<noteq> None \<longleftrightarrow> (\<exists>n. ready (after_secs X n s) \<noteq> None)"
proof
  assume "loop body () s \<noteq> None"
  then obtain r s1 where "loop body () s = Some (r, s1)" by auto
  then show "\<exists>n. ready (after_secs X n s) \<noteq> None"
    unfolding poll_result [OF p] by (metis option.distinct(1))
next
  assume "\<exists>n. ready (after_secs X n s) \<noteq> None"
  then obtain n where n: "ready (after_secs X n s) \<noteq> None"
    "\<forall>m<n. ready (after_secs X m s) = None"
    using exists_least_iff [of "\<lambda>n. ready (after_secs X n s) \<noteq> None"] by blast
  then obtain a where "ready (after_secs X n s) = Some a" by blast
  with n have "loop body () s = Some (Ret a, after_secs X n s)"
    unfolding poll_result [OF p] by auto
  then show "loop body () s \<noteq> None" by simp
qed

section \<open>What the checks decide\<close>

text \<open>
  \<open>steady_reads X\<close>: getting endpoints and listing pods answers with a value or an error and
  does not change the world.
\<close>

definition steady_reads :: "'w external \<Rightarrow> bool" where
  "steady_reads X \<longleftrightarrow>
     (\<forall>ns n w. \<exists>r. x_GetEndpoints X ns n w = Some (r, w) \<and> (\<forall>p. r \<noteq> Panic p)) \<and>
     (\<forall>ns ls w. \<exists>r. x_ListPods X ns ls w = Some (r, w) \<and> (\<forall>p. r \<noteq> Panic p))"

definition endpoints_ready :: "'w external \<Rightarrow> NineCluster \<Rightarrow> string \<Rightarrow> int64 \<Rightarrow> 'w \<Rightarrow> endpoints option" where
  "endpoints_ready X c name n w =
     (case x_GetEndpoints X (cluster_namespace c) name w of
        Some (Ret ep, _) \<Rightarrow>
          (case ep_Subsets ep of
             [] \<Rightarrow> None
           | sub # _ \<Rightarrow> if less_int64 (len (sub_Addresses sub)) n then None else Some ep)
      | _ \<Rightarrow> None)"

definition pods_ready :: "'w external \<Rightarrow> NineCluster \<Rightarrow> (string, string) gomap \<Rightarrow> int64 \<Rightarrow> 'w \<Rightarrow> bool" where
  "pods_ready X c labels n w =
     (case x_ListPods X (cluster_namespace c) labels w of
        Some (Ret pods, _) \<Rightarrow> \<not> less_int64 (len pods) n \<and> \<not> less_int64 (ready_count pods) n
      | _ \<Rightarrow> False)"

lemma CheckEndpointsReady_steady:
  assumes "steady_reads X"
  obtains e ep where
    "CheckEndpointsReady X c name n s =
       Some (Ret (e, endpoints_ready X c name n (op_world s) \<noteq> None, ep), s)"
    "endpoints_ready X c name n (op_world s) = None \<or> endpoints_ready X c name n (op_world s) = Some ep"
proof -
  from assms obtain r where r: "x_GetEndpoints X (cluster_namespace c) name (op_world s) = Some (r, op_world s)"
    "\<And>p. r \<noteq> Panic p"
    unfolding steady_reads_def by blast
  then have e: "ext_call (x_GetEndpoints X (cluster_namespace c) name) s = Some (r, s)"
    by (simp add: ext_call_Some)
  show thesis
  proof (cases r)
    case (Ret ep)
    with r e show thesis
      using that [of None ep]
      by (cases "ep_Subsets ep") (simp_all add: CheckEndpointsReady_def endpoints_ready_def io_simps)
  next
    case (Fail e')
    with r e show thesis
      using that [of _ empty_endpoints]
      by (auto simp: CheckEndpointsReady_def endpoints_ready_def io_simps)
  qed (use r in simp)
qed

lemma CheckPodsReady_steady:
  assumes "steady_reads X"
  obtains e where "CheckPodsReady X c ls n s = Some (Ret (e, pods_ready X c ls n (op_world s)), s)"
proof -
  from assms obtain r where r: "x_ListPods X (cluster_namespace c) ls (op_world s) = Some (r, op_world s)"
    "\<And>p. r \<noteq> Panic p"
    unfolding steady_reads_def by blast
  then have e: "ext_call (x_ListPods X (cluster_namespace c) ls) s = Some (r, s)"
    by (simp add: ext_call_Some)
  show thesis
    using r e that by (cases r) (auto simp: CheckPodsReady_def pods_ready_def io_simps)
qed

lemma endpoints_ready_Some:
  assumes "endpoints_ready X c name n w = Some ep"
  obtains sub rest where "ep_Subsets ep = sub # rest" "sint n \<le> sint (len (sub_Addresses sub))"
  using assms by (auto simp: endpoints_ready_def less_int64_def split: option.splits outcome.splits list.splits if_splits)

lemma len_lower: "0 \<le> k \<Longrightarrow> k \<le> sint (len xs) \<Longrightarrow> k \<le> int (length xs)"
  by (cases "length xs < 2 ^ 63") (auto simp: sint_len dest: order_trans [OF _ less_imp_le [OF sint64_range(2)]])

lemma server_steady: "steady_reads server"
  by (simp add: steady_reads_def answer_def io_ret_def io_fail_def split: option.splits)

end
