(* ===== verification/TenantUtils.thy ===== *)
theory TenantUtils
  imports External
begin

text \<open>
  \<open>pkg/minio/operator/apis/minio.min.io/v2/utils.go\<close>: random credentials.
  Bytes come from the random source, a parameter; each is reduced modulo the table's length.
\<close>

abbreviation accessKeyMaxLen :: nat where "accessKeyMaxLen \<equiv> 20"
abbreviation secretKeyMaxLen :: nat where "secretKeyMaxLen \<equiv> 40"

definition alphaNumericTable :: string where
  "alphaNumericTable = ''0123456789ABCDEFGHIJKLMNOPQRSTUVWXYZ''"

definition alphaNumericTableFull :: string where
  "alphaNumericTableFull = ''ABCDEFGHIJKLMNOPQRSTUVWXYZabcdefghijklmnopqrstuvwxyz0123456789''"

definition alphaNumericTableLen :: "8 word" where
  "alphaNumericTableLen = word_of_nat (length alphaNumericTable)"

definition alphaNumericTableFullLen :: "8 word" where
  "alphaNumericTableFullLen = word_of_nat (length alphaNumericTableFull)"

definition readBytes :: "'w external \<Rightarrow> nat \<Rightarrow> ('w, 8 word list) op" where
  "readBytes X sz =
     io_bind (ext_call (x_RandRead X sz)) (\<lambda>data.
       if length data \<noteq> sz
       then io_fail (new_error (''Not enough data. Expected to read: '' @ itoa (int sz) @
              '' bytes, got: '' @ itoa (int (length data)) @ '' bytes''))
       else io_ret data)"

definition key_string :: "string \<Rightarrow> 8 word \<Rightarrow> 8 word list \<Rightarrow> string" where
  "key_string table n bytes = map (\<lambda>b. table ! unat (b mod n)) bytes"

definition GenerateCredentials :: "'w external \<Rightarrow> ('w, string \<times> string) op" where
  "GenerateCredentials X =
     io_bind (readBytes X accessKeyMaxLen) (\<lambda>keyBytes.
       let accessKey = key_string alphaNumericTable alphaNumericTableLen keyBytes in
       io_bind (readBytes X secretKeyMaxLen) (\<lambda>keyBytes.
         let secretKey = key_string alphaNumericTableFull alphaNumericTableFullLen keyBytes in
         io_ret (accessKey, secretKey)))"

lemma table_lengths:
  "unat alphaNumericTableLen = length alphaNumericTable" "alphaNumericTableLen \<noteq> 0"
  "unat alphaNumericTableFullLen = length alphaNumericTableFull" "alphaNumericTableFullLen \<noteq> 0"
  by (simp_all add: alphaNumericTableLen_def alphaNumericTable_def alphaNumericTableFullLen_def
      alphaNumericTableFull_def)

lemma key_string_length [simp]: "length (key_string table n bytes) = length bytes"
  by (simp add: key_string_def)

lemma key_string_chars:
  assumes "unat n = length table" "n \<noteq> 0"
  shows "set (key_string table n bytes) \<subseteq> set table"
proof
  fix c assume "c \<in> set (key_string table n bytes)"
  then obtain b where "c = table ! unat (b mod n)" by (auto simp: key_string_def)
  moreover have "unat (b mod n) < length table"
  proof -
    from assms have "0 < length table" by (metis gr0I unat_eq_zero)
    with assms(1) show ?thesis by (simp add: unat_mod_distrib)
  qed
  ultimately show "c \<in> set table" by simp
qed

lemma readBytes_length: "readBytes X sz s = Some (Ret data, s1) \<Longrightarrow> length data = sz"
  by (auto simp: readBytes_def io_ret_def io_fail_def elim!: io_bind_RetE split: if_splits)

text \<open>The shape of every pair of credentials the generator returns.\<close>

lemma GenerateCredentials_shape:
  assumes "GenerateCredentials X s = Some (Ret (ak, sk), s1)"
  shows "length ak = accessKeyMaxLen \<and> set ak \<subseteq> set alphaNumericTable \<and>
         length sk = secretKeyMaxLen \<and> set sk \<subseteq> set alphaNumericTableFull"
proof -
  from assms obtain d1 d2 s2 s3 where
    d1: "readBytes X accessKeyMaxLen s = Some (Ret d1, s2)" and
    d2: "readBytes X secretKeyMaxLen s2 = Some (Ret d2, s3)" and
    ak: "ak = key_string alphaNumericTable alphaNumericTableLen d1" and
    sk: "sk = key_string alphaNumericTableFull alphaNumericTableFullLen d2"
    by (auto simp: GenerateCredentials_def Let_def io_ret_def elim!: io_bind_RetE)
  show ?thesis
    using readBytes_length [OF d1] readBytes_length [OF d2]
      key_string_chars [OF table_lengths(1,2)] key_string_chars [OF table_lengths(3,4)]
    by (simp add: ak sk)
qed

end
