(* ===== verification/Minio.thy ===== *)
theory Minio
  imports Waiting TenantUtils
begin

text \<open>
  \<open>internal/controller/minio.go\<close>: the MinIO tenant. \<open>reconcileMinioTenant\<close> writes the two
  secrets, sizes the volumes from the number of DirectPV nodes, and creates the Tenant;
  \<open>getMinioExposedInfo\<close> and \<open>createMinioBucketAndFolder\<close> are the waits other components make.
\<close>

definition minioFullEndpoint :: "string \<Rightarrow> bool \<Rightarrow> string" where
  "minioFullEndpoint endpoint sslEnable =
     (if sslEnable then ''https://'' @ endpoint else ''http://'' @ endpoint)"

section \<open>Waiting for the tenant\<close>

text \<open>
  The service found in an earlier round is kept by a later round whose look-up fails for
  another reason than not-found, so it is the loop-carried state.
\<close>

definition minio_wait_body ::
  "'w external \<Rightarrow> NineCluster \<Rightarrow> service \<Rightarrow> ('w, service + service \<times> secret) op" where
  "minio_wait_body X cluster svc =
     io_bind (io_try (ext_call (x_GetService X (cluster_namespace cluster) ''minio''))) (\<lambda>r.
       if (case r of Inl e \<Rightarrow> is_not_found e | Inr _ \<Rightarrow> False) then sleep_continue X 1 svc
       else
         (let svc' = (case r of Inl _ \<Rightarrow> svc | Inr found \<Rightarrow> found) in
          io_bind (io_try (get_secret X (cluster_namespace cluster, MinioNewUserName cluster))) (\<lambda>r2.
            case r2 of
              Inl e \<Rightarrow> if is_not_found e then sleep_continue X 1 svc' else loop_done (svc', empty_secret)
            | Inr found \<Rightarrow> loop_done (svc', found))))"

definition exposed_of :: "service \<Rightarrow> secret \<Rightarrow> MinioExposedInfo" where
  "exposed_of svc sec =
     \<lparr>me_Endpoint = svc_ClusterIP svc,
      me_AccessKey = (case mget (sec_Data sec) ''CONSOLE_ACCESS_KEY'' of None \<Rightarrow> [] | Some v \<Rightarrow> v),
      me_SecretKey = (case mget (sec_Data sec) ''CONSOLE_SECRET_KEY'' of None \<Rightarrow> [] | Some v \<Rightarrow> v)\<rparr>"

definition getMinioExposedInfo :: "'w external \<Rightarrow> NineCluster \<Rightarrow> ('w, MinioExposedInfo) op" where
  "getMinioExposedInfo X cluster =
     io_bind (loop (minio_wait_body X cluster) empty_service) (\<lambda>(svc, sec). io_ret (exposed_of svc sec))"

definition bucket_wait_body ::
  "'w external \<Rightarrow> MinioExposedInfo \<Rightarrow> string \<Rightarrow> unit \<Rightarrow> ('w, unit + unit) op" where
  "bucket_wait_body X info bucket u =
     io_bind (io_try (ext_call (x_BucketExists X info bucket))) (\<lambda>r.
       case r of
         Inl e \<Rightarrow> sleep_continue X 1 ()
       | Inr exists \<Rightarrow>
           if \<not> exists then
             io_bind (io_try (ext_call (x_MakeBucket X info bucket))) (\<lambda>r2.
               case r2 of Inl e \<Rightarrow> sleep_continue X 1 () | Inr _ \<Rightarrow> loop_done ())
           else loop_done ())"

definition createMinioBucketAndFolder ::
  "'w external \<Rightarrow> MinioExposedInfo \<Rightarrow> string \<Rightarrow> string \<Rightarrow> bool \<Rightarrow> ('w, unit) op" where
  "createMinioBucketAndFolder X info bucket folder sslEnable =
     io_bind (ext_call (x_MinioNew X info sslEnable)) (\<lambda>_.
     io_bind (loop (bucket_wait_body X info bucket) ()) (\<lambda>_.
     io_bind (io_try (ext_call (x_StatObject X info bucket folder))) (\<lambda>r.
       case r of
         Inl e \<Rightarrow>
           if \<not> contains (err_text e) MinioErrorNotExist then io_fail e
           else ext_call (x_PutObject X info bucket folder)
       | Inr _ \<Rightarrow> io_ret ())))"

section \<open>Secrets\<close>

text \<open>The error of \<open>GenerateCredentials\<close> is overwritten before it is read.\<close>

definition minio_credentials :: "'w external \<Rightarrow> ('w, string \<times> string) op" where
  "minio_credentials X =
     io_bind (io_try (GenerateCredentials X)) (\<lambda>r.
       io_ret (case r of Inl _ \<Rightarrow> ([], []) | Inr keys \<Rightarrow> keys))"

definition minio_user_secret :: "NineCluster \<Rightarrow> string \<times> string \<Rightarrow> secret" where
  "minio_user_secret cluster keys =
     \<lparr>sec_Meta = empty_meta\<lparr>om_Name := MinioNewUserName cluster,
        om_Namespace := cluster_namespace cluster, om_Labels := NineConstructLabels cluster\<rparr>,
      sec_Type = ''Opaque'',
      sec_Data = Some [''CONSOLE_ACCESS_KEY'' \<mapsto> fst keys, ''CONSOLE_SECRET_KEY'' \<mapsto> snd keys],
      sec_StringData = None\<rparr>"

definition reconcileMinioNewUserSecret :: "'w external \<Rightarrow> NineCluster \<Rightarrow> ('w, unit) op" where
  "reconcileMinioNewUserSecret X cluster =
     io_bind (minio_credentials X) (\<lambda>keys.
     io_bind (io_of (own_secret X cluster (minio_user_secret cluster keys))) (\<lambda>desired.
       ensure_secret X (secret_key desired) desired))"

definition minio_config_secret :: "NineCluster \<Rightarrow> secret" where
  "minio_config_secret cluster =
     \<lparr>sec_Meta = empty_meta\<lparr>om_Name := MinioConfigName cluster,
        om_Namespace := cluster_namespace cluster, om_Labels := NineConstructLabels cluster\<rparr>,
      sec_Type = ''Opaque'',
      sec_Data = Some [''config.env'' \<mapsto>
        ''export MINIO_ACCESS_KEY='' @ ''TIMJKQV5ZTSITBPK'' @ newline @
        ''export MINIO_SECRET_KEY='' @ ''5QGECCS3GGE05P2W5RCKVTKOBQ3G4QOX'' @ newline],
      sec_StringData = None\<rparr>"

definition reconcileMinioTenantConfigSecret :: "'w external \<Rightarrow> NineCluster \<Rightarrow> ('w, unit) op" where
  "reconcileMinioTenantConfigSecret X cluster =
     io_bind (io_of (own_secret X cluster (minio_config_secret cluster))) (\<lambda>desired.
       ensure_secret X (secret_key desired) desired)"

section \<open>The tenant\<close>

definition getDirectPVNodesCount :: "'w external \<Rightarrow> ('w, int32) op" where
  "getDirectPVNodesCount X =
     io_bind (GetK8sClientConfig X) (\<lambda>_.
     io_bind (ext_call (x_NewDirectPVClient X)) (\<lambda>_.
     io_bind (ext_call (x_ListDirectPVNodes X)) (\<lambda>items.
       let dpnodes = int32_of_int (len items) in
       if dpnodes = 0 then io_fail (new_error ''directpv node not found'')
       else io_ret dpnodes)))"

definition minio_tenant :: "NineCluster \<Rightarrow> ClusterInfo \<Rightarrow> int32 \<Rightarrow> quantity \<Rightarrow> Tenant" where
  "minio_tenant cluster minio dpnodes q =
     \<lparr>t_Meta = NineObjectMeta cluster [], t_Scheduler = [],
      t_Spec = zero_tenant_spec
        \<lparr>ts_Configuration := Some (MinioConfigName cluster),
         ts_RequestAutoCert := Some False,
         ts_Image := img_Repository (cc_Image (ci_Configs minio)) @ '':'' @ img_Tag (cc_Image (ci_Configs minio)),
         ts_ImagePullPolicy := img_PullPolicy (cc_Image (ci_Configs minio)),
         ts_Pools := Some [zero_pool
           \<lparr>pool_Servers := dpnodes,
            pool_VolumesPerServer := int32_of_int (GetDiskNum minio),
            pool_VolumeClaimTemplate := Some
              \<lparr>pvc_Meta = empty_meta\<lparr>om_Name := ''data''\<rparr>,
               pvc_Spec = \<lparr>pvc_AccessModes = [''ReadWriteOnce''],
                 pvc_Resources = no_requirements\<lparr>rr_Requests := RequestStorage q\<rparr>,
                 pvc_StorageClassName = Some (GetStorageClassName minio)\<rparr>\<rparr>\<rparr>],
         ts_Users := [MinioNewUserName cluster]\<rparr>,
      t_Status = zero_tenant_status\<rparr>"

definition own_tenant :: "'w external \<Rightarrow> NineCluster \<Rightarrow> Tenant \<Rightarrow> go_error + Tenant" where
  "own_tenant X cluster t =
     (case x_SetControllerReference X (nc_Meta cluster) (t_Meta t) of
        Inl e \<Rightarrow> Inl e
      | Inr m \<Rightarrow> Inr (t\<lparr>t_Meta := m\<rparr>))"

definition minio_capacity :: "'w external \<Rightarrow> NineCluster \<Rightarrow> ClusterInfo \<Rightarrow> int32 \<Rightarrow> quantity outcome" where
  "minio_capacity X cluster minio dpnodes =
     CapacityPerVolume X (itoa (sint (GiB2Bytes (ns_DataVolume (nc_Spec cluster)))))
       (dpnodes * int32_of_int (GetDiskNum minio))"

definition constructMinioTenant :: "'w external \<Rightarrow> NineCluster \<Rightarrow> ClusterInfo \<Rightarrow> ('w, Tenant) op" where
  "constructMinioTenant X cluster minio =
     io_bind (reconcileMinioTenantConfigSecret X cluster) (\<lambda>_.
     io_bind (reconcileMinioNewUserSecret X cluster) (\<lambda>_.
     io_bind (getDirectPVNodesCount X) (\<lambda>dpnodes.
     io_bind (deref_capacity (minio_capacity X cluster minio dpnodes)) (\<lambda>q.
       io_of (own_tenant X cluster (minio_tenant cluster minio dpnodes q))))))"

text \<open>
  An error of the construction is discarded: the desired tenant is then nil. Between the construction
  and the making of the client the code registers the tenant types in the scheme of their package
  (\<open>metav1.AddToGroupVersion\<close>, \<open>utilruntime.Must\<close>). That touches nothing an operation of this model reads: it is
  \<open>tenant_registration\<close> of \<open>Startup\<close>, which never panics and takes no kind away, and likewise
  \<open>directpv_registration\<close> before the nodes are listed.\<close>

definition reconcileMinioTenant :: "'w external \<Rightarrow> NineCluster \<Rightarrow> ClusterInfo \<Rightarrow> ('w, unit) op" where
  "reconcileMinioTenant X cluster minio =
     io_bind (io_try (constructMinioTenant X cluster minio)) (\<lambda>r.
     io_bind (client_of X TenantKind) (\<lambda>_.
       ensure_cr X TenantKind (cluster_namespace cluster) (NineResourceName cluster [])
         (case r of Inl _ \<Rightarrow> None | Inr t \<Rightarrow> Some (TenantCR t))))"

section \<open>Properties\<close>

lemma div_int64_bounds:
  assumes "0 \<le> sint a" "0 < sint b"
  obtains v where "div_int64 a b = Some v" "0 \<le> sint v" "sint v * sint b \<le> sint a"
    "sint a < (sint v + 1) * sint b"
proof -
  have b: "b \<noteq> 0" using assms(2) by auto
  let ?q = "sint a div sint b"
  have q: "trunc_quot (sint a) (sint b) = ?q" using assms by (rule trunc_quot_nonneg)
  have "?q \<le> sint a" using zdiv_mono2 [of "sint a" 1 "sint b"] assms by simp
  moreover have "0 \<le> ?q" using assms by (simp add: pos_imp_zdiv_nonneg_iff)
  ultimately have v: "sint (word_of_int ?q :: int64) = ?q"
    using sint64_range [of a] by (intro sint_word64_id) auto
  have "sint a = ?q * sint b + sint a mod sint b" by simp
  moreover have "0 \<le> sint a mod sint b" "sint a mod sint b < sint b" using assms(2) by simp_all
  ultimately have "?q * sint b \<le> sint a" "sint a < (?q + 1) * sint b"
    by (simp_all only: distrib_right)
  with b q v \<open>0 \<le> ?q\<close> show thesis
    by (intro that [of "word_of_int ?q"]) (simp_all add: div_int64_def)
qed

text \<open>
  Dividing a capacity among volumes rounds down to the byte: what the volumes hold together
  is at most the capacity and less than one byte per volume short of it. The format is kept.
\<close>
theorem CapacityPerVolume_bounds:
  assumes "x_ParseQuantity X capacity = Inr tq" and "0 \<le> sint (q_Value tq)" and "0 < sint volumes"
  shows "\<exists>q. CapacityPerVolume X capacity volumes = Ret q \<and> q_Format q = q_Format tq \<and>
     0 \<le> sint (q_Value q) \<and> sint (q_Value q) * sint volumes \<le> sint (q_Value tq) \<and>
     sint (q_Value tq) < (sint (q_Value q) + 1) * sint volumes"
proof -
  obtain v where "div_int64 (q_Value tq) (int_of_int32 volumes) = Some v" "0 \<le> sint v"
    "sint v * sint volumes \<le> sint (q_Value tq)" "sint (q_Value tq) < (sint v + 1) * sint volumes"
    using div_int64_bounds [of "q_Value tq" "int_of_int32 volumes"] assms(2,3) by auto
  with assms(1) show ?thesis by (simp add: CapacityPerVolume_def new_quantity_def)
qed

theorem CapacityPerVolume_bounds_witness:
  "\<exists>q. CapacityPerVolume server ''34359738368'' 12 = Ret q \<and> sint (q_Value q) * 12 \<le> 34359738368"
proof -
  have i: "itoa (sint (34359738368 :: int64)) = ''34359738368''"
    by (simp add: itoa_def digits.simps digit_char_def char_of_eq_iff)
  have "x_ParseQuantity server ''34359738368'' = Inr (new_quantity 34359738368 DecimalSI)"
    using integer_quantity_itoa [of 34359738368] unfolding i by simp
  from CapacityPerVolume_bounds [OF this, of 12] show ?thesis by (auto simp: new_quantity_def)
qed

lemma sint_word64_mult: "sint (word_of_int k :: int64) = k \<longleftrightarrow> - (2 ^ 63) \<le> k \<and> k < 2 ^ 63"
  using sint_word64_id [of k] sint64_range [of "word_of_int k"] by fastforce

text \<open>
  The conversion of a data volume from GiB to bytes is exact for volumes below 8 EiB in
  magnitude, and only for those: above, the product wraps.
\<close>
theorem GiB2Bytes_exact:
  "sint (GiB2Bytes d) = sint d * 2 ^ 30 \<longleftrightarrow> - (2 ^ 33) \<le> sint d \<and> sint d < 2 ^ 33"
proof -
  have "GiB2Bytes d = word_of_int (sint d) * word_of_int (2 ^ 30)"
    by (simp add: GiB2Bytes_def)
  also have "\<dots> = word_of_int (sint d * 2 ^ 30)"
    by (simp only: wi_hom_mult)
  finally have "GiB2Bytes d = word_of_int (sint d * 2 ^ 30)" .
  then show ?thesis by (simp only: sint_word64_mult, simp)
qed

text \<open>A parser of quantities reads back the decimal integers the operator prints.\<close>

definition reads_integers :: "'w external \<Rightarrow> bool" where
  "reads_integers X \<longleftrightarrow>
     (\<forall>v :: int64. \<exists>q. x_ParseQuantity X (itoa (sint v)) = Inr q \<and> q_Value q = v)"

lemma server_reads_integers: "reads_integers server"
  by (simp add: reads_integers_def integer_quantity_itoa new_quantity_def)

lemma minio_capacity_fits:
  assumes "reads_integers X"
    and "0 \<le> sint (ns_DataVolume (nc_Spec c))" and "sint (ns_DataVolume (nc_Spec c)) < 2 ^ 33"
    and "0 < sint dpnodes" and "0 < sint (GetDiskNum minio)"
    and "sint dpnodes * sint (GetDiskNum minio) < 2 ^ 31"
  obtains q where "minio_capacity X c minio dpnodes = Ret q"
    "sint (int32_of_int (GetDiskNum minio)) = sint (GetDiskNum minio)"
    "sint (q_Value q) * (sint dpnodes * sint (GetDiskNum minio)) \<le> sint (ns_DataVolume (nc_Spec c)) * 2 ^ 30"
    "sint (ns_DataVolume (nc_Spec c)) * 2 ^ 30 < (sint (q_Value q) + 1) * (sint dpnodes * sint (GetDiskNum minio))"
proof -
  let ?d = "ns_DataVolume (nc_Spec c)" and ?n = "GetDiskNum minio"
  let ?m = "dpnodes * int32_of_int ?n"
  have "GiB2Bytes ?d = word_of_int (sint ?d * 2 ^ 30)"
    by (simp add: GiB2Bytes_def)
  then have bytes: "sint (GiB2Bytes ?d) = sint ?d * 2 ^ 30"
    using assms(2,3) by (simp only: sint_word64_mult, simp)
  have "1 * sint ?n \<le> sint dpnodes * sint ?n" using assms(4,5) by (intro mult_right_mono) auto
  with assms(6) have n31: "sint ?n < 2 ^ 31" by linarith
  then have disks: "sint (int32_of_int ?n) = sint ?n"
    using assms(5) unfolding int32_of_int_def by (intro sint_word32_id) auto
  have "?m = word_of_int (sint dpnodes) * word_of_int (sint ?n)"
    by (simp add: int32_of_int_def)
  also have "\<dots> = word_of_int (sint dpnodes * sint ?n)" by (simp only: wi_hom_mult)
  finally have m: "sint ?m = sint dpnodes * sint ?n"
    using assms(4,5,6) sint_word32_id [of "sint dpnodes * sint ?n"]
    by (simp add: order.trans [of _ 0])
  obtain tq where tq: "x_ParseQuantity X (itoa (sint (GiB2Bytes ?d))) = Inr tq"
    "q_Value tq = GiB2Bytes ?d"
    using assms(1) unfolding reads_integers_def by blast
  obtain v where v: "div_int64 (q_Value tq) (int_of_int32 ?m) = Some v"
    "sint v * sint ?m \<le> sint (q_Value tq)" "sint (q_Value tq) < (sint v + 1) * sint ?m"
    using div_int64_bounds [of "q_Value tq" "int_of_int32 ?m"] tq(2) bytes assms(2,4,5) m by auto
  have "minio_capacity X c minio dpnodes = Ret (new_quantity v (q_Format tq))"
    by (simp only: minio_capacity_def CapacityPerVolume_def tq(1) v(1) sum.case option.case)
  moreover have "q_Value (new_quantity v (q_Format tq)) = v" by (simp add: new_quantity_def)
  ultimately show thesis
    using that [OF _ disks, of "new_quantity v (q_Format tq)"] v(2,3) unfolding tq(2) bytes m by simp
qed

text \<open>What a construction that returns has gone through.\<close>

lemma constructMinioTenant_parts:
  assumes "constructMinioTenant X c minio s = Some (Ret t, s1)"
  obtains dpnodes q s2 s3 where "getDirectPVNodesCount X s2 = Some (Ret dpnodes, s3)"
    "minio_capacity X c minio dpnodes = Ret q" "own_tenant X c (minio_tenant c minio dpnodes q) = Inr t"
  using assms
  by (auto simp: constructMinioTenant_def deref_capacity_def io_of_def io_ret_def io_fail_def io_panic_def
      elim!: io_bind_RetE split: outcome.splits sum.splits)

lemma nodes_counted:
  assumes "getDirectPVNodesCount X s = Some (Ret dpnodes, s1)"
  obtains nodes w w1 where "x_ListDirectPVNodes X w = Some (Ret nodes, w1)"
    "dpnodes = int32_of_int (len nodes)" "dpnodes \<noteq> 0"
  using assms
  by (auto simp: getDirectPVNodesCount_def Let_def io_ret_def io_fail_def ext_call_def
      elim!: io_bind_RetE split: option.splits if_splits)

text \<open>
  C26: the tenant's volumes fit the data volume the user asked for. The tenant that is constructed
  has one pool, for the nodes that were listed, with as many volumes per server as the entry has
  disks and a claim template that requests storage. For a volume below 8 EiB and fewer than
  \<open>2 ^ 31\<close> disks on these nodes, the storage requested, times servers, times volumes per server,
  is at most the data volume and short of it by less than a byte per volume.
\<close>
theorem minio_volumes_fit:
  assumes "reads_integers X"
    and "0 \<le> sint (ns_DataVolume (nc_Spec c))" and "sint (ns_DataVolume (nc_Spec c)) < 2 ^ 33"
    and "0 < sint (GetDiskNum minio)"
    and "constructMinioTenant X c minio s = Some (Ret t, s1)"
  shows "\<exists>w nodes w1 p claim q. x_ListDirectPVNodes X w = Some (Ret nodes, w1) \<and>
     ts_Pools (t_Spec t) = Some [p] \<and> pool_VolumeClaimTemplate p = Some claim \<and>
     rr_Requests (pvc_Resources (pvc_Spec claim)) = Some [''storage'' \<mapsto> q] \<and>
     (int (length nodes) * sint (GetDiskNum minio) < 2 ^ 31 \<longrightarrow>
        0 < length nodes \<and> sint (pool_Servers p) = int (length nodes) \<and>
        sint (pool_VolumesPerServer p) = sint (GetDiskNum minio) \<and>
        sint (q_Value q) * (sint (pool_Servers p) * sint (pool_VolumesPerServer p)) \<le>
          sint (ns_DataVolume (nc_Spec c)) * 2 ^ 30 \<and>
        sint (ns_DataVolume (nc_Spec c)) * 2 ^ 30 <
          (sint (q_Value q) + 1) * (sint (pool_Servers p) * sint (pool_VolumesPerServer p)))"
    (is "\<exists>w nodes w1 p claim q. ?fits w nodes w1 p claim q")
proof -
  from assms(5) obtain dpnodes q s2 s3 where count: "getDirectPVNodesCount X s2 = Some (Ret dpnodes, s3)"
    and q: "minio_capacity X c minio dpnodes = Ret q" and t: "own_tenant X c (minio_tenant c minio dpnodes q) = Inr t"
    by (rule constructMinioTenant_parts)
  from count obtain nodes w w1 where nodes: "x_ListDirectPVNodes X w = Some (Ret nodes, w1)"
    "dpnodes = int32_of_int (len nodes)" "dpnodes \<noteq> 0" by (rule nodes_counted)
  have spec: "t_Spec t = t_Spec (minio_tenant c minio dpnodes q)"
    using t by (auto simp: own_tenant_def split: sum.splits)
  have fits: "0 < length nodes \<and> sint dpnodes = int (length nodes) \<and>
      sint (int32_of_int (GetDiskNum minio)) = sint (GetDiskNum minio) \<and>
      sint (q_Value q) * (sint dpnodes * sint (int32_of_int (GetDiskNum minio))) \<le> sint (ns_DataVolume (nc_Spec c)) * 2 ^ 30 \<and>
      sint (ns_DataVolume (nc_Spec c)) * 2 ^ 30 < (sint (q_Value q) + 1) * (sint dpnodes * sint (int32_of_int (GetDiskNum minio)))"
    if few: "int (length nodes) * sint (GetDiskNum minio) < 2 ^ 31"
  proof -
    have "int (length nodes) * 1 \<le> int (length nodes) * sint (GetDiskNum minio)"
      using assms(4) by (intro mult_left_mono) auto
    with few have short: "int (length nodes) < 2 ^ 31" by linarith
    then have len: "sint dpnodes = int (length nodes)"
      using sint_word64_id [of "int (length nodes)"] sint_word32_id [of "int (length nodes)"]
      unfolding nodes(2) len_def int32_of_int_def by simp
    moreover have "sint dpnodes \<noteq> 0" using nodes(3) by (simp add: signed_eq_0_iff)
    ultimately have pos: "0 < sint dpnodes" by linarith
    obtain q1 where "minio_capacity X c minio dpnodes = Ret q1"
      and rest: "sint (int32_of_int (GetDiskNum minio)) = sint (GetDiskNum minio)"
      "sint (q_Value q1) * (sint dpnodes * sint (GetDiskNum minio)) \<le> sint (ns_DataVolume (nc_Spec c)) * 2 ^ 30"
      "sint (ns_DataVolume (nc_Spec c)) * 2 ^ 30 < (sint (q_Value q1) + 1) * (sint dpnodes * sint (GetDiskNum minio))"
      using minio_capacity_fits [OF assms(1-3) pos assms(4)] few unfolding len by blast
    with q have "q1 = q" by simp
    moreover have "0 < length nodes" using pos len by simp
    ultimately show ?thesis using len rest(2,3) unfolding rest(1) by blast
  qed
  obtain p claim where p: "ts_Pools (t_Spec t) = Some [p]" "pool_VolumeClaimTemplate p = Some claim"
    "rr_Requests (pvc_Resources (pvc_Spec claim)) = Some [''storage'' \<mapsto> q]"
    "pool_Servers p = dpnodes" "pool_VolumesPerServer p = int32_of_int (GetDiskNum minio)"
    by (simp add: spec minio_tenant_def RequestStorage_def)
  have "?fits w nodes w1 p claim q" using fits nodes(1) unfolding p by blast
  then show ?thesis by blast
qed

text \<open>Three nodes, and the tenant constructed for the default entry.\<close>

definition three_nodes :: "server_world external" where
  "three_nodes = server\<lparr>x_ListDirectPVNodes := io_ret [''node-1'', ''node-2'', ''node-3'']\<rparr>"

lemma nodes_construct:
  "\<exists>t s1. constructMinioTenant three_nodes demo_cluster minio_default s = Some (Ret t, s1)"
proof -
  have own: "\<exists>d. own_secret three_nodes demo_cluster sec = Inr d" for sec :: secret
    by (simp add: own_secret_def three_nodes_def)
  have ensure: "\<exists>s1. ensure_secret three_nodes (secret_key d) d s = Some (Ret (), s1)" for d s
    by (cases "map_of (sw_secrets (op_world s)) (secret_key d)")
      (simp_all add: three_nodes_def ensure_secret_def get_secret_def ext_call_def answer_def io_bind_def io_try_def
        create_secret_def not_found_def is_not_found_def io_ret_def io_fail_def)
  obtain s1 where config: "reconcileMinioTenantConfigSecret three_nodes demo_cluster s = Some (Ret (), s1)"
    using own [of "minio_config_secret demo_cluster"] ensure
    by (fastforce simp: reconcileMinioTenantConfigSecret_def io_of_def io_bind_def io_ret_def)
  obtain keys where keys: "minio_credentials three_nodes s1 = Some (Ret keys, s1)"
    by (simp add: three_nodes_def minio_credentials_def GenerateCredentials_def readBytes_def key_string_def io_simps
        io_bind_def ext_call_def io_ret_def io_try_def)
  from own obtain d where "own_secret three_nodes demo_cluster (minio_user_secret demo_cluster keys) = Inr d" by blast
  with keys ensure [of d s1] obtain s2 where
    user: "reconcileMinioNewUserSecret three_nodes demo_cluster s1 = Some (Ret (), s2)"
    by (auto simp: reconcileMinioNewUserSecret_def io_of_def io_bind_def io_ret_def)
  have "getDirectPVNodesCount three_nodes s2 = Some (Ret 3, s2)"
    by (simp add: getDirectPVNodesCount_def GetK8sClientConfig_def io_bind_def ext_call_def io_ret_def Let_def
        int32_of_int_def len_def three_nodes_def server_def)
  moreover have "\<exists>q. minio_capacity three_nodes demo_cluster minio_default 3 = Ret q"
    by (simp add: three_nodes_def minio_capacity_def CapacityPerVolume_def integer_quantity_itoa div_int64_def
        GetDiskNum_def minio_default_def zero_cluster_def zero_resource_def int32_of_int_def int_of_int32_def)
  moreover have "\<exists>u. own_tenant three_nodes demo_cluster t = Inr u" for t
    by (simp add: own_tenant_def three_nodes_def)
  ultimately show ?thesis
    using config user
    by (auto simp: constructMinioTenant_def io_bind_def deref_capacity_def io_ret_def io_of_def split: sum.splits)
      (metis sum.distinct(1))
qed

theorem minio_volumes_fit_witness:
  "\<exists>t s1 p (q :: quantity). constructMinioTenant three_nodes demo_cluster minio_default (in_world empty_world) = Some (Ret t, s1) \<and>
     ts_Pools (t_Spec t) = Some [p] \<and> sint (pool_Servers p) = 3 \<and> sint (q_Value q) * 12 \<le> 34359738368 \<and>
     34359738368 < (sint (q_Value q) + 1) * 12"
proof -
  obtain t s1 where t: "constructMinioTenant three_nodes demo_cluster minio_default (in_world empty_world) = Some (Ret t, s1)"
    using nodes_construct by blast
  have disks: "GetDiskNum minio_default = 4"
    by (simp add: GetDiskNum_def minio_default_def zero_cluster_def zero_resource_def)
  have reads: "reads_integers three_nodes"
    using server_reads_integers by (simp add: reads_integers_def three_nodes_def)
  have volume: "0 \<le> sint (ns_DataVolume (nc_Spec demo_cluster))"
    "sint (ns_DataVolume (nc_Spec demo_cluster)) < 2 ^ 33" "0 < sint (GetDiskNum minio_default)"
    by (simp_all add: disks)
  from minio_volumes_fit [OF reads volume t] obtain w nodes w1 p and q :: quantity where
    n: "x_ListDirectPVNodes three_nodes w = Some (Ret nodes, w1)" and p: "ts_Pools (t_Spec t) = Some [p]"
    and fits: "int (length nodes) * sint (GetDiskNum minio_default) < 2 ^ 31 \<longrightarrow>
      0 < length nodes \<and> sint (pool_Servers p) = int (length nodes) \<and>
      sint (pool_VolumesPerServer p) = sint (GetDiskNum minio_default) \<and>
      sint (q_Value q) * (sint (pool_Servers p) * sint (pool_VolumesPerServer p)) \<le>
        sint (ns_DataVolume (nc_Spec demo_cluster)) * 2 ^ 30 \<and>
      sint (ns_DataVolume (nc_Spec demo_cluster)) * 2 ^ 30 <
        (sint (q_Value q) + 1) * (sint (pool_Servers p) * sint (pool_VolumesPerServer p))"
    by blast
  from n have "length nodes = 3" by (auto simp: three_nodes_def io_ret_def)
  with fits have "sint (pool_Servers p) = 3 \<and> sint (q_Value q) * 12 \<le> 34359738368 \<and>
      34359738368 < (sint (q_Value q) + 1) * 12"
    by (auto simp: disks)
  with t p show ?thesis by blast
qed

section \<open>Properties of the credentials\<close>

text \<open>
  Generated credentials have their shape: an access key of twenty capitals and digits, a
  secret key of forty letters and digits. Fewer random bytes than asked for are an error.
\<close>
theorem GenerateCredentials_result:
  assumes "GenerateCredentials X s = Some (Ret (ak, sk), s1)"
  shows "length ak = accessKeyMaxLen \<and> set ak \<subseteq> set alphaNumericTable \<and>
         length sk = secretKeyMaxLen \<and> set sk \<subseteq> set alphaNumericTableFull"
  using assms by (rule GenerateCredentials_shape)

lemma server_credentials:
  "GenerateCredentials server (in_world empty_world) =
     Some (Ret (replicate 20 CHR ''7'', replicate 40 CHR ''H''), in_world empty_world)"
proof -
  have "alphaNumericTable ! unat (7 mod alphaNumericTableLen) = CHR ''7''"
    by (simp add: unat_mod_distrib table_lengths) (simp add: alphaNumericTable_def)
  moreover have "alphaNumericTableFull ! unat (7 mod alphaNumericTableFullLen) = CHR ''H''"
    by (simp add: unat_mod_distrib table_lengths) (simp add: alphaNumericTableFull_def)
  moreover have "ext_call (x_RandRead server n) (in_world empty_world) =
      Some (Ret (replicate n 7), in_world empty_world)" for n
    by (simp add: ext_call_def io_ret_def in_world_def)
  ultimately show ?thesis
    by (simp add: GenerateCredentials_def readBytes_def key_string_def io_simps io_bind_def)
qed

theorem GenerateCredentials_result_witness:
  "set (replicate 20 CHR ''7'') \<subseteq> set alphaNumericTable"
  using GenerateCredentials_result [OF server_credentials] by blast

text \<open>
  An error of the random source does not stop the MinIO reconciler: the credentials it goes
  on with, and stores, are two empty strings.
\<close>
theorem minio_credentials_swallow_errors:
  assumes "x_RandRead X accessKeyMaxLen (op_world s) = Some (Fail e, w)"
  shows "minio_credentials X s = Some (Ret ([], []), s\<lparr>op_world := w\<rparr>) \<and>
    sec_Data (minio_user_secret c ([], [])) =
      Some [''CONSOLE_ACCESS_KEY'' \<mapsto> [], ''CONSOLE_SECRET_KEY'' \<mapsto> []]"
  using assms
  by (simp add: minio_credentials_def GenerateCredentials_def readBytes_def ext_call_def io_bind_def
      io_try_def io_ret_def minio_user_secret_def)

theorem minio_credentials_swallow_errors_witness:
  "minio_credentials (server\<lparr>x_RandRead := \<lambda>n. io_fail (new_error ''entropy'')\<rparr>) (in_world empty_world) =
     Some (Ret ([], []), in_world empty_world)"
  using minio_credentials_swallow_errors [of "server\<lparr>x_RandRead := \<lambda>n. io_fail (new_error ''entropy'')\<rparr>"
      "in_world empty_world" "new_error ''entropy''" empty_world]
  by (simp add: io_fail_def in_world_def)

text \<open>The wait ends at once when both objects are there.\<close>

lemma getMinioExposedInfo_ready:
  assumes "x_GetService X (cluster_namespace c) ''minio'' (op_world s) = Some (Ret svc, op_world s)"
    and "x_GetSecret X (cluster_namespace c) (MinioNewUserName c) (op_world s) = Some (Ret sec, op_world s)"
  shows "getMinioExposedInfo X c s = Some (Ret (exposed_of svc sec), s)"
proof -
  have "ext_call (x_GetService X (cluster_namespace c) ''minio'') s = Some (Ret svc, s)"
    by (simp add: ext_call_def assms(1))
  moreover have "get_secret X (cluster_namespace c, MinioNewUserName c) s = Some (Ret sec, s)"
    by (simp add: get_secret_def ext_call_def assms(2))
  ultimately have "minio_wait_body X c empty_service s = Some (Ret (Inr (svc, sec)), s)"
    by (simp add: minio_wait_body_def io_bind_def io_try_def Let_def loop_done_apply)
  then have "loop (minio_wait_body X c) empty_service s = Some (Ret (svc, sec), s)" by (rule loop_break)
  then show ?thesis by (simp add: getMinioExposedInfo_def io_bind_def io_ret_def)
qed

text \<open>
  The credentials written for the tenant are the ones other components read back. When the
  MinIO service and the user secret this operator builds are in the store, the exposed
  information is the service's address and the two keys of the secret; and the tenant names
  that secret as its user and the configuration secret as its configuration.
\<close>
theorem minio_credentials_roundtrip:
  assumes "own_secret X c (minio_user_secret c keys) = Inr sec"
    and "x_GetService X (cluster_namespace c) ''minio'' (op_world s) = Some (Ret svc, op_world s)"
    and "x_GetSecret X (cluster_namespace c) (MinioNewUserName c) (op_world s) = Some (Ret sec, op_world s)"
  shows "getMinioExposedInfo X c s =
      Some (Ret \<lparr>me_Endpoint = svc_ClusterIP svc, me_AccessKey = fst keys, me_SecretKey = snd keys\<rparr>, s) \<and>
    ts_Users (t_Spec (minio_tenant c minio n q)) = [om_Name (sec_Meta (minio_user_secret c keys))] \<and>
    ts_Configuration (t_Spec (minio_tenant c minio n q)) = Some (om_Name (sec_Meta (minio_config_secret c)))"
proof -
  have "sec_Data sec = sec_Data (minio_user_secret c keys)"
    using assms(1) by (auto simp: own_secret_def split: sum.splits)
  then show ?thesis
    by (simp add: getMinioExposedInfo_ready [OF assms(2,3)] exposed_of_def minio_user_secret_def
        minio_tenant_def minio_config_secret_def)
qed

definition demo_secret :: secret where
  "demo_secret = (case own_secret server demo_cluster (minio_user_secret demo_cluster (''ak'', ''sk'')) of
     Inl _ \<Rightarrow> empty_secret | Inr sec \<Rightarrow> sec)"

definition minio_world :: server_world where
  "minio_world = empty_world
     \<lparr>sw_services := [((''dwh'', ''minio''), \<lparr>svc_ClusterIP = ''10.1.2.3''\<rparr>)],
      sw_secrets := [((''dwh'', MinioNewUserName demo_cluster), demo_secret)]\<rparr>"

theorem minio_credentials_roundtrip_witness:
  "getMinioExposedInfo server demo_cluster (in_world minio_world) =
     Some (Ret \<lparr>me_Endpoint = ''10.1.2.3'', me_AccessKey = ''ak'', me_SecretKey = ''sk''\<rparr>, in_world minio_world)"
proof -
  have "own_secret server demo_cluster (minio_user_secret demo_cluster (''ak'', ''sk'')) = Inr demo_secret"
    by (simp add: demo_secret_def own_secret_def)
  from minio_credentials_roundtrip [OF this, of "in_world minio_world" "\<lparr>svc_ClusterIP = ''10.1.2.3''\<rparr>"]
  show ?thesis by (simp add: minio_world_def in_world_def answer_def io_ret_def)
qed

text \<open>
  Any other failure of the two look-ups ends the wait as a success would: when neither the
  service nor the secret can be read, for a reason other than not-found, the callers get an
  endpoint and keys that are empty strings and no error.
\<close>
theorem getMinioExposedInfo_swallows_errors:
  assumes "x_GetService X (cluster_namespace c) ''minio'' (op_world s) = Some (Fail e, w)"
    and "\<not> is_not_found e"
    and "x_GetSecret X (cluster_namespace c) (MinioNewUserName c) w = Some (Fail e1, w1)"
    and "\<not> is_not_found e1"
  shows "getMinioExposedInfo X c s =
    Some (Ret \<lparr>me_Endpoint = [], me_AccessKey = [], me_SecretKey = []\<rparr>, s\<lparr>op_world := w1\<rparr>)"
proof -
  have "minio_wait_body X c empty_service s = Some (Ret (Inr (empty_service, empty_secret)), s\<lparr>op_world := w1\<rparr>)"
    by (simp add: minio_wait_body_def io_bind_def io_try_def Let_def loop_done_apply ext_call_def
        get_secret_def assms)
  then have "loop (minio_wait_body X c) empty_service s =
      Some (Ret (empty_service, empty_secret), s\<lparr>op_world := w1\<rparr>)" by (rule loop_break)
  then show ?thesis
    by (simp add: getMinioExposedInfo_def io_bind_def io_ret_def exposed_of_def empty_service_def empty_secret_def)
qed

definition forbidden_server :: "server_world external" where
  "forbidden_server = server
     \<lparr>x_GetService := \<lambda>ns n. io_fail (new_error ''forbidden''),
      x_GetSecret := \<lambda>ns n. io_fail (new_error ''forbidden'')\<rparr>"

theorem getMinioExposedInfo_swallows_errors_witness:
  "getMinioExposedInfo forbidden_server demo_cluster (in_world empty_world) =
     Some (Ret \<lparr>me_Endpoint = [], me_AccessKey = [], me_SecretKey = []\<rparr>, in_world empty_world)"
  using getMinioExposedInfo_swallows_errors [of forbidden_server demo_cluster "in_world empty_world"
      "new_error ''forbidden''" empty_world "new_error ''forbidden''" empty_world]
  by (simp add: forbidden_server_def io_fail_def in_world_def)

end
