(* ===== verification/Zookeeper.thy ===== *)
theory Zookeeper
  imports Waiting
begin

text \<open>\<open>internal/controller/zookeeper.go\<close>: the ZooKeeper cluster and the addresses it exposes.\<close>

abbreviation DefaultZKReplicas :: int64 where "DefaultZKReplicas \<equiv> 3"

definition zkResourceName :: "NineCluster \<Rightarrow> string" where
  "zkResourceName cluster = NineResourceName cluster [ZKResourceNameSuffix]"

definition zkSvcName :: "NineCluster \<Rightarrow> string" where
  "zkSvcName cluster = zkResourceName cluster"

definition constructZookeeperPodLabel :: "string \<Rightarrow> (string, string) gomap" where
  "constructZookeeperPodLabel name = Some [''cluster'' \<mapsto> name, ''app'' \<mapsto> DefaultZookeeperClusterSign]"

definition zk_wait_body :: "'w external \<Rightarrow> NineCluster \<Rightarrow> unit \<Rightarrow> ('w, unit + endpoints) op" where
  "zk_wait_body X cluster u =
     io_bind (CheckEndpointsReady X cluster (zkSvcName cluster) DefaultZKReplicas) (\<lambda>(_, result, e).
       if \<not> result then sleep_continue X 1 ()
       else
         io_bind (CheckPodsReady X cluster
                    (constructZookeeperPodLabel (NineResourceName cluster [])) DefaultZKReplicas) (\<lambda>(_, result).
           if \<not> result then sleep_continue X 1 () else loop_done e))"

text \<open>The last port of the first subset that is called \<open>client\<close>, 0 when there is none.\<close>

definition client_port :: "endpoint_port list \<Rightarrow> int32" where
  "client_port ports =
     fold (\<lambda>v p. if port_Name v = DefaultZKClientPortName then port_Port v else p) ports 0"

definition zk_addresses :: "endpoint_subset \<Rightarrow> string list" where
  "zk_addresses sub =
     map (\<lambda>ip. ip @ '':'' @ itoa (sint (client_port (sub_Ports sub)))) (sub_Addresses sub)"

definition getZookeeperExposedInfo :: "'w external \<Rightarrow> NineCluster \<Rightarrow> ('w, string list) op" where
  "getZookeeperExposedInfo X cluster =
     io_bind (loop (zk_wait_body X cluster) ()) (\<lambda>ep.
       case ep_Subsets ep of
         [] \<Rightarrow> io_panic ''index out of range''
       | sub # _ \<Rightarrow> io_ret (zk_addresses sub))"

definition zookeeper_desired :: "NineCluster \<Rightarrow> ClusterInfo \<Rightarrow> zookeeper_cluster" where
  "zookeeper_desired ninecluster cluster =
     \<lparr>zk_Meta = NineObjectMeta ninecluster [],
      zk_Version = ci_Version cluster,
      zk_Replicas = 3,
      zk_Image = (cc_Image (ci_Configs cluster))\<lparr>img_PullSecrets := []\<rparr>,
      zk_Conf = Some (Map.empty ++ mrange (cc_Conf (ci_Configs cluster)))\<rparr>"

definition constructZookeeperCluster ::
  "'w external \<Rightarrow> NineCluster \<Rightarrow> ClusterInfo \<Rightarrow> go_error + zookeeper_cluster" where
  "constructZookeeperCluster X ninecluster cluster =
     (case x_SetControllerReference X (nc_Meta ninecluster) (zk_Meta (zookeeper_desired ninecluster cluster)) of
        Inl e \<Rightarrow> Inl e
      | Inr m \<Rightarrow> Inr ((zookeeper_desired ninecluster cluster)\<lparr>zk_Meta := m\<rparr>))"

text \<open>A not-found error of the construction is swallowed: the reconciler waits for its next turn.\<close>

definition reconcileZookeeperCluster :: "'w external \<Rightarrow> NineCluster \<Rightarrow> ClusterInfo \<Rightarrow> ('w, unit) op" where
  "reconcileZookeeperCluster X ninecluster cluster =
     (case constructZookeeperCluster X ninecluster cluster of
        Inl e \<Rightarrow> if is_not_found e then io_ret () else io_fail e
      | Inr desired \<Rightarrow>
          io_bind (client_of X ZookeeperKind) (\<lambda>_.
            ensure_cr X ZookeeperKind (cluster_namespace ninecluster) (NineResourceName ninecluster [])
              (Some (ZookeeperCR desired))))"

section \<open>Properties\<close>

definition zk_ready :: "'w external \<Rightarrow> NineCluster \<Rightarrow> 'w op_state \<Rightarrow> endpoints option" where
  "zk_ready X c s =
     (if pods_ready X c (constructZookeeperPodLabel (NineResourceName c [])) DefaultZKReplicas (op_world s)
      then endpoints_ready X c (zkSvcName c) DefaultZKReplicas (op_world s) else None)"

lemma zk_polls:
  assumes "steady_reads X"
  shows "polls X (zk_wait_body X c) (zk_ready X c)"
  unfolding polls_def
proof
  fix s
  obtain e ep where e: "CheckEndpointsReady X c (zkSvcName c) DefaultZKReplicas s =
      Some (Ret (e, endpoints_ready X c (zkSvcName c) DefaultZKReplicas (op_world s) \<noteq> None, ep), s)"
    "endpoints_ready X c (zkSvcName c) DefaultZKReplicas (op_world s) = None \<or>
     endpoints_ready X c (zkSvcName c) DefaultZKReplicas (op_world s) = Some ep"
    using CheckEndpointsReady_steady [OF assms] by blast
  obtain e2 where p: "CheckPodsReady X c (constructZookeeperPodLabel (NineResourceName c [])) DefaultZKReplicas s =
      Some (Ret (e2, pods_ready X c (constructZookeeperPodLabel (NineResourceName c [])) DefaultZKReplicas (op_world s)), s)"
    using CheckPodsReady_steady [OF assms] by blast
  show "zk_wait_body X c () s =
      (case zk_ready X c s of None \<Rightarrow> sleep_continue X 1 () s | Some a \<Rightarrow> loop_done a s)"
    using e(2) by (auto simp: zk_wait_body_def zk_ready_def io_bind_Some e(1) p)
qed

text \<open>
  C27: the ZooKeeper wait ends exactly when, at some second, the service shows three addresses and
  three pods are ready; it ends at the first such second; and then the answer is the list of
  all addresses of the service's first subset, at least three, never an error or a panic.
\<close>
theorem getZookeeperExposedInfo_waits:
  assumes "steady_reads X"
  shows "(getZookeeperExposedInfo X c s \<noteq> None \<longleftrightarrow> (\<exists>n. zk_ready X c (after_secs X n s) \<noteq> None)) \<and>
    (\<forall>r s1. getZookeeperExposedInfo X c s = Some (r, s1) \<longrightarrow>
       (\<exists>n ep sub rest. s1 = after_secs X n s \<and> zk_ready X c s1 = Some ep \<and>
          (\<forall>m<n. zk_ready X c (after_secs X m s) = None) \<and> ep_Subsets ep = sub # rest \<and>
          r = Ret (zk_addresses sub) \<and> 3 \<le> length (zk_addresses sub)))"
proof (intro conjI allI impI)
  note p = zk_polls [OF assms, of c]
  have ready: "\<exists>sub rest. ep_Subsets ep = sub # rest \<and> 3 \<le> length (zk_addresses sub)"
    if "zk_ready X c t = Some ep" for t ep
  proof -
    from that have "endpoints_ready X c (zkSvcName c) DefaultZKReplicas (op_world t) = Some ep"
      by (simp add: zk_ready_def split: if_splits)
    then obtain sub rest where "ep_Subsets ep = sub # rest" "3 \<le> sint (len (sub_Addresses sub))"
      by (rule endpoints_ready_Some) simp
    then show ?thesis using len_lower [of 3 "sub_Addresses sub"] by (auto simp: zk_addresses_def)
  qed
  show "getZookeeperExposedInfo X c s \<noteq> None \<longleftrightarrow> (\<exists>n. zk_ready X c (after_secs X n s) \<noteq> None)"
    using poll_returns [OF p, of s] unfolding getZookeeperExposedInfo_def
    by (auto simp: io_bind_def io_panic_def io_ret_def split: option.splits outcome.splits list.splits)
  fix r s1
  assume "getZookeeperExposedInfo X c s = Some (r, s1)"
  then obtain q t where q: "loop (zk_wait_body X c) () s = Some (q, t)"
    "io_bind (loop (zk_wait_body X c) ()) (\<lambda>ep. case ep_Subsets ep of
         [] \<Rightarrow> io_panic ''index out of range'' | sub # _ \<Rightarrow> io_ret (zk_addresses sub)) s = Some (r, s1)"
    by (auto simp: getZookeeperExposedInfo_def io_bind_def split: option.splits)
  then obtain n ep where n: "q = Ret ep" "t = after_secs X n s" "zk_ready X c t = Some ep"
    "\<forall>m<n. zk_ready X c (after_secs X m s) = None"
    unfolding poll_result [OF p] by blast
  obtain sub rest where "ep_Subsets ep = sub # rest" "3 \<le> length (zk_addresses sub)"
    using ready [OF n(3)] by blast
  with q n show "\<exists>n ep sub rest. s1 = after_secs X n s \<and> zk_ready X c s1 = Some ep \<and>
          (\<forall>m<n. zk_ready X c (after_secs X m s) = None) \<and> ep_Subsets ep = sub # rest \<and>
          r = Ret (zk_addresses sub) \<and> 3 \<le> length (zk_addresses sub)"
    by (auto simp: io_bind_Some(1) io_ret_def)
qed

text \<open>A world in which the demo cluster's ZooKeeper is up.\<close>

definition ready_pod :: pod where
  "ready_pod = \<lparr>pod_Conditions = [\<lparr>pc_Type = ''Initialized'', pc_Status = ''True''\<rparr>,
     \<lparr>pc_Type = ''Ready'', pc_Status = ''True''\<rparr>]\<rparr>"

definition zk_world :: server_world where
  "zk_world = empty_world
     \<lparr>sw_endpoints := [((''dwh'', ''demo-nine-zookeeper''),
        \<lparr>ep_Subsets = [\<lparr>sub_Addresses = [''10.0.0.1'', ''10.0.0.2'', ''10.0.0.3''],
           sub_Ports = [\<lparr>port_Name = ''metrics'', port_Port = 7000\<rparr>,
             \<lparr>port_Name = ''client'', port_Port = 2181\<rparr>]\<rparr>]\<rparr>)],
      sw_pods := replicate 3 ready_pod\<rparr>"

lemma zk_world_ready: "zk_ready server demo_cluster (in_world zk_world) \<noteq> None"
  by (simp add: zk_ready_def pods_ready_def endpoints_ready_def zk_world_def in_world_def answer_def
      io_ret_def empty_world_def zkSvcName_def zkResourceName_def NineResourceName_def join.simps
      less_int64_def len_def ready_count_def ready_pod_def numeral_3_eq_3)

lemma getZookeeperExposedInfo_ready:
  assumes "steady_reads X" and "zk_ready X c s \<noteq> None"
  shows "\<exists>zks. getZookeeperExposedInfo X c s = Some (Ret zks, s)"
proof -
  from assms(2) obtain ep where ep: "zk_ready X c s = Some ep" by blast
  then have "loop (zk_wait_body X c) () s = Some (Ret ep, s)"
    unfolding poll_result [OF zk_polls [OF assms(1)]] by (auto intro!: exI [of _ 0])
  moreover from ep obtain sub rest where "ep_Subsets ep = sub # rest"
    by (auto simp: zk_ready_def split: if_splits elim: endpoints_ready_Some)
  ultimately show ?thesis by (simp add: getZookeeperExposedInfo_def io_bind_def io_ret_def)
qed

theorem getZookeeperExposedInfo_waits_witness:
  "getZookeeperExposedInfo server demo_cluster (in_world zk_world) \<noteq> None"
proof -
  have "\<exists>n. zk_ready server demo_cluster (after_secs server n (in_world zk_world)) \<noteq> None"
    using zk_world_ready by (metis after_secs_simps(1))
  then show ?thesis
    using getZookeeperExposedInfo_waits [OF server_steady, of demo_cluster "in_world zk_world"] by blast
qed

end
