(* ===== verification/Hdfs.thy ===== *)
theory Hdfs
  imports Minio Zookeeper
begin

text \<open>
  \<open>internal/controller/hdfs.go\<close>: the HDFS cluster, the client configuration derived from it,
  and the waits on it.

  \<open>constructHdfsCluster\<close> writes two keys into the \<open>Conf\<close> map of the ZooKeeper entry, and that map
  is the one of the NineCluster it was given: the model returns the NineCluster as the
  call leaves it. A nil \<open>Conf\<close> is replaced by a fresh map, which nobody shares.
\<close>

abbreviation DfsReplicationConfKey :: string where "DfsReplicationConfKey \<equiv> ''dfs.replication''"
abbreviation FSDefaultFSConfKey :: string where "FSDefaultFSConfKey \<equiv> ''fs.defaultFS''"
abbreviation DFSNameSpacesConfKey :: string where "DFSNameSpacesConfKey \<equiv> ''dfs.nameservices''"
abbreviation DefaultDfsReplication :: int64 where "DefaultDfsReplication \<equiv> 3"
abbreviation DefaultDataNodeReplicas :: int32 where "DefaultDataNodeReplicas \<equiv> 3"
abbreviation DefaultNameService :: string where "DefaultNameService \<equiv> ''nineinfra''"
abbreviation DefaultNameNodeRpcPort :: int where "DefaultNameNodeRpcPort \<equiv> 8020"
abbreviation DefaultNameNodeHaReplicas :: nat where "DefaultNameNodeHaReplicas \<equiv> 2"

section \<open>Reading the configuration\<close>

definition getDfsReplication :: "(string, string) gomap \<Rightarrow> int64" where
  "getDfsReplication conf =
     (case mget conf DfsReplicationConfKey of
        Some value \<Rightarrow> (case parse_int value 0 of Inr r \<Rightarrow> word_of_int r | Inl _ \<Rightarrow> DefaultDfsReplication)
      | None \<Rightarrow> DefaultDfsReplication)"

definition namenode_ha :: "ClusterInfo \<Rightarrow> bool" where
  "namenode_ha c \<longleftrightarrow> ci_Type c = HdfsNameNodeClusterType \<and> rc_Replicas (ci_Resource c) = 2"

definition checkHdfsNameNodeHA :: "NineCluster \<Rightarrow> bool" where
  "checkHdfsNameNodeHA cluster = list_ex namenode_ha (cluster_set cluster)"

definition getHdfsClusterInfo :: "NineCluster \<Rightarrow> ClusterInfo option" where
  "getHdfsClusterInfo cluster = find (\<lambda>v. ci_Type v = HdfsClusterType) (cluster_set cluster)"

text \<open>The value the user gives for a key in the HDFS entry's \<open>Conf\<close>, if any.\<close>

definition hdfs_conf_value :: "NineCluster \<Rightarrow> string \<Rightarrow> string option" where
  "hdfs_conf_value cluster key =
     (case getHdfsClusterInfo cluster of
        None \<Rightarrow> None
      | Some c \<Rightarrow> mget (cc_Conf (ci_Configs c)) key)"

text \<open>\<open>"%s-namenode-%d.%s-namenode.%s.svc.%s:%d"\<close>\<close>

definition namenode_address :: "NineCluster \<Rightarrow> nat \<Rightarrow> string" where
  "namenode_address cluster i =
     NineResourceName cluster [HdfsResourceNameSuffix] @ ''-namenode-'' @ itoa (int i) @ ''.'' @
     NineResourceName cluster [HdfsResourceNameSuffix] @ ''-namenode.'' @ cluster_namespace cluster @
     ''.svc.'' @ GetClusterDomain cluster HdfsClusterType @ '':'' @ itoa DefaultNameNodeRpcPort"

definition constructCoreSite :: "NineCluster \<Rightarrow> string \<rightharpoonup> string" where
  "constructCoreSite cluster =
     (case hdfs_conf_value cluster FSDefaultFSConfKey of
        Some value \<Rightarrow> [FSDefaultFSConfKey \<mapsto> value]
      | None \<Rightarrow>
          if checkHdfsNameNodeHA cluster then [FSDefaultFSConfKey \<mapsto> ''hdfs://'' @ DefaultNameService]
          else [FSDefaultFSConfKey \<mapsto> ''hdfs://'' @ namenode_address cluster 0])"

definition nameservice :: "NineCluster \<Rightarrow> string" where
  "nameservice cluster =
     (case hdfs_conf_value cluster DFSNameSpacesConfKey of
        Some value \<Rightarrow> value | None \<Rightarrow> DefaultNameService)"

definition ha_addresses :: "NineCluster \<Rightarrow> string \<Rightarrow> (string \<rightharpoonup> string) \<Rightarrow> string \<rightharpoonup> string" where
  "ha_addresses cluster ns site =
     fold (\<lambda>i m. m(''dfs.namenode.rpc-address.'' @ ns @ ''.nn'' @ itoa (int i) \<mapsto> namenode_address cluster i,
                   ''dfs.namenode.http-address.'' @ ns @ ''.nn'' @ itoa (int i) \<mapsto> namenode_address cluster i))
       [0..<DefaultNameNodeHaReplicas] site"

definition constructHdfsSite :: "NineCluster \<Rightarrow> string \<rightharpoonup> string" where
  "constructHdfsSite cluster =
     (let ns = nameservice cluster;
          site = [DFSNameSpacesConfKey \<mapsto> ns]
      in if checkHdfsNameNodeHA cluster then
           (if site (''dfs.ha.namenodes.'' @ ns) = None then
              (ha_addresses cluster ns (site(''dfs.ha.namenodes.'' @ ns \<mapsto> ''nn0,nn1'')))
                (''dfs.client.failover.proxy.provider.'' @ ns \<mapsto>
                   ''org.apache.hadoop.hdfs.server.namenode.ha.ConfiguredFailoverProxyProvider'')
            else site)
         else
           (if site (''dfs.namenode.rpc-address.'' @ ns) = None then
              site(''dfs.namenode.rpc-address.'' @ ns \<mapsto> namenode_address cluster 0)
            else site))"

section \<open>Waiting and preparing the data directory\<close>

definition site_value :: "(string, string) gomap \<Rightarrow> string \<Rightarrow> string" where
  "site_value site key = (case mget site key of None \<Rightarrow> [] | Some v \<Rightarrow> v)"

definition client_addresses :: "(string, string) gomap \<Rightarrow> string list" where
  "client_addresses site =
     (case mget site DFSNameSpacesConfKey of
        None \<Rightarrow> []
      | Some ns \<Rightarrow>
          (case mget site (''dfs.ha.namenodes.'' @ ns) of
             Some nameNodes \<Rightarrow>
               map (\<lambda>v. site_value site (''dfs.namenode.rpc-address.'' @ ns @ ''.'' @ v))
                 (split_on CHR '','' nameNodes)
           | None \<Rightarrow> [site_value site (''dfs.namenode.rpc-address.'' @ ns)]))"

abbreviation ErrNotExist :: string where "ErrNotExist \<equiv> ''file does not exist''"

definition data_dir_body ::
  "'w external \<Rightarrow> string list \<Rightarrow> string \<Rightarrow> nat \<Rightarrow> unit \<Rightarrow> ('w, unit + unit) op" where
  "data_dir_body X addresses dir mode u =
     io_bind (io_try (ext_call (x_HdfsStat X addresses dir))) (\<lambda>r.
       case r of
         Inl e \<Rightarrow>
           if \<not> contains (err_text e) ErrNotExist then sleep_continue X 1 ()
           else
             io_bind (io_try (ext_call (x_HdfsMkdirAll X addresses dir mode))) (\<lambda>r2.
               case r2 of Inl _ \<Rightarrow> sleep_continue X 1 () | Inr _ \<Rightarrow> loop_done ())
       | Inr isDir \<Rightarrow> if \<not> isDir then sleep_continue X 5 () else loop_done ())"

definition createHdfsDataDir ::
  "'w external \<Rightarrow> HdfsExposedInfo \<Rightarrow> string \<Rightarrow> nat \<Rightarrow> ('w, unit) op" where
  "createHdfsDataDir X hdfsInfo dir mode =
     (let addresses = client_addresses (he_HdfsSite hdfsInfo) in
      io_bind (ext_call (x_HdfsNewClient X addresses)) (\<lambda>_.
        loop (data_dir_body X addresses dir mode) ()))"

definition namenode_replicas :: "NineCluster \<Rightarrow> int64" where
  "namenode_replicas cluster =
     fold (\<lambda>c n. if ci_Type c = HdfsNameNodeClusterType then int_of_int32 (rc_Replicas (ci_Resource c)) else n)
       (cluster_set cluster) 0"

text \<open>
  The loop carries the seconds waited; its result is \<open>waitErr\<close>, which the code stores and
  never reads.
\<close>

definition namenode_wait_body ::
  "'w external \<Rightarrow> NineCluster \<Rightarrow> int64 \<Rightarrow> nat \<Rightarrow> ('w, nat + go_error option) op" where
  "namenode_wait_body X cluster needReplicas waitSeconds =
     io_bind (io_try (ext_call (x_GetEndpoints X (cluster_namespace cluster)
                (NineResourceName cluster [HdfsResourceNameSuffix, HdfsRoleNameNode])))) (\<lambda>r.
       if (case r of Inl e \<Rightarrow> is_not_found e | Inr _ \<Rightarrow> False) then
         (if waitSeconds + 1 < DefaultMaxWaitSeconds then sleep_continue X 1 (waitSeconds + 1)
          else loop_done (Some (new_error ''wait for journal node service timeout'')))
       else
         (let ep = (case r of Inl _ \<Rightarrow> empty_endpoints | Inr found \<Rightarrow> found) in
          case ep_Subsets ep of
            [] \<Rightarrow> sleep_continue X 1 waitSeconds
          | sub # _ \<Rightarrow>
              if less_int64 (len (sub_Addresses sub)) needReplicas then sleep_continue X 1 waitSeconds
              else loop_done None))"

definition getHdfsExposedInfo :: "'w external \<Rightarrow> NineCluster \<Rightarrow> ('w, HdfsExposedInfo) op" where
  "getHdfsExposedInfo X cluster =
     io_bind (loop (namenode_wait_body X cluster (namenode_replicas cluster)) 0) (\<lambda>waitErr.
       let hdfsSite = constructHdfsSite cluster; coreSite = constructCoreSite cluster in
       io_ret \<lparr>he_DefaultFS = (case coreSite FSDefaultFSConfKey of None \<Rightarrow> [] | Some v \<Rightarrow> v),
               he_HdfsSite = Some hdfsSite, he_CoreSite = Some coreSite\<rparr>)"

section \<open>The cluster\<close>

definition member_of :: "ClusterInfo \<Rightarrow> hdfs_member" where
  "member_of c =
     \<lparr>hm_Version = ci_Version c, hm_Type = ci_Type c, hm_Name = ci_Name c,
      hm_Image = cc_Image (ci_Configs c), hm_Resource = ci_Resource c,
      hm_Conf = cc_Conf (ci_Configs c)\<rparr>"

definition datanode_replicas :: "'w external \<Rightarrow> ClusterInfo \<Rightarrow> ('w, int32) op" where
  "datanode_replicas X c =
     (if rc_Replicas (ci_Resource c) = 0 then
        io_bind (io_try (getDirectPVNodesCount X)) (\<lambda>r.
          io_ret (case r of Inl _ \<Rightarrow> DefaultDataNodeReplicas | Inr dpns \<Rightarrow> dpns))
      else io_ret (rc_Replicas (ci_Resource c)))"

definition hdfs_capacity :: "'w external \<Rightarrow> NineCluster \<Rightarrow> ClusterInfo \<Rightarrow> int64 \<Rightarrow> int32 \<Rightarrow> quantity outcome" where
  "hdfs_capacity X ninecluster cluster dfsReplication replicas =
     CapacityPerVolume X
       (itoa (sint (GiB2Bytes (ns_DataVolume (nc_Spec ninecluster) * dfsReplication))))
       (replicas * int32_of_int (GetDiskNum cluster))"

definition build_member ::
  "'w external \<Rightarrow> NineCluster \<Rightarrow> ClusterInfo \<Rightarrow> int64 \<Rightarrow> ClusterInfo \<Rightarrow> ('w, hdfs_member) op" where
  "build_member X ninecluster cluster dfsReplication c =
     (if ci_Type c = HdfsDataNodeClusterType then
        io_bind (datanode_replicas X c) (\<lambda>replicas.
        io_bind (deref_capacity (hdfs_capacity X ninecluster cluster dfsReplication replicas)) (\<lambda>q.
          io_ret ((member_of c)\<lparr>hm_Resource := (ci_Resource c)
            \<lparr>rc_Replicas := replicas,
             rc_ResourceRequirements := no_requirements\<lparr>rr_Requests := RequestStorage q\<rparr>,
             rc_Disks := int32_of_int (GetDiskNum cluster)\<rparr>\<rparr>)))
      else io_ret (member_of c))"

definition member_step ::
  "'w external \<Rightarrow> NineCluster \<Rightarrow> ClusterInfo \<Rightarrow> int64 \<Rightarrow> ClusterType \<Rightarrow> ClusterInfo \<Rightarrow>
     hdfs_member list \<times> bool \<Rightarrow> ('w, hdfs_member list \<times> bool) op" where
  "member_step X ninecluster cluster dfsReplication ct c acc =
     io_bind (if ci_Type c = ct then
                io_bind (build_member X ninecluster cluster dfsReplication c) (\<lambda>m.
                  io_ret (fst acc @ [m]))
              else io_ret (fst acc)) (\<lambda>clusters.
       io_ret (clusters, snd acc \<or> namenode_ha c))"

definition hdfs_members ::
  "'w external \<Rightarrow> NineCluster \<Rightarrow> ClusterInfo \<Rightarrow> int64 \<Rightarrow> ('w, hdfs_member list \<times> bool) op" where
  "hdfs_members X ninecluster cluster dfsReplication =
     io_fold (\<lambda>ct. io_fold (member_step X ninecluster cluster dfsReplication ct) (cluster_set ninecluster))
       (ci_ClusterRefs cluster) ([], False)"

text \<open>The two keys written into a ZooKeeper \<open>Conf\<close>, and where a shared map shows them.\<close>

definition zk_conf :: "'w external \<Rightarrow> string list \<Rightarrow> (string, string) gomap \<Rightarrow> (string, string) gomap" where
  "zk_conf X zkIpAndPorts conf =
     Some ((mrange conf)(x_RefClusterZKReplicasKey X \<mapsto> itoa (int (length zkIpAndPorts)),
                         x_RefClusterZKEndpointsKey X \<mapsto> join '','' zkIpAndPorts))"

definition zk_shared ::
  "'w external \<Rightarrow> string list \<Rightarrow> ClusterType \<Rightarrow> (string, string) gomap \<Rightarrow> (string, string) gomap" where
  "zk_shared X zkIpAndPorts t conf =
     (if t = ZookeeperClusterType \<and> conf \<noteq> None then zk_conf X zkIpAndPorts conf else conf)"

definition zk_shared_cluster :: "'w external \<Rightarrow> string list \<Rightarrow> NineCluster \<Rightarrow> NineCluster" where
  "zk_shared_cluster X zkIpAndPorts ninecluster =
     with_cluster_set ninecluster
       (map (\<lambda>c. c\<lparr>ci_Configs := (ci_Configs c)
          \<lparr>cc_Conf := zk_shared X zkIpAndPorts (ci_Type c) (cc_Conf (ci_Configs c))\<rparr>\<rparr>)
        (cluster_set ninecluster))"

definition zk_reference :: "'w external \<Rightarrow> string list \<Rightarrow> ClusterInfo list \<Rightarrow> hdfs_member" where
  "zk_reference X zkIpAndPorts cs =
     fold (\<lambda>c zk. if ci_Type c = ZookeeperClusterType
                  then (member_of c)\<lparr>hm_Conf := zk_conf X zkIpAndPorts (cc_Conf (ci_Configs c))\<rparr>
                  else zk) cs zero_member"

definition hdfs_desired ::
  "NineCluster \<Rightarrow> ClusterInfo \<Rightarrow> hdfs_member list \<Rightarrow> hdfs_member \<Rightarrow> hdfs_cluster" where
  "hdfs_desired ninecluster cluster clusters zkCluster =
     \<lparr>hd_Meta = NineObjectMeta ninecluster [],
      hd_Version = ci_Version cluster,
      hd_Resource = ci_Resource cluster,
      hd_Image = cc_Image (ci_Configs cluster),
      hd_Conf = Some (Map.empty ++ mrange (cc_Conf (ci_Configs cluster))),
      hd_K8sConf = Some (Map.empty ++ mrange (cc_Conf (ci_Configs cluster))),
      hd_Clusters = clusters,
      hd_ClusterRefs = [zkCluster]\<rparr>"

text \<open>The result is the construction's own (an error or the desired cluster) and the NineCluster.\<close>

definition constructHdfsCluster ::
  "'w external \<Rightarrow> NineCluster \<Rightarrow> ClusterInfo \<Rightarrow> ('w, (go_error + hdfs_cluster) \<times> NineCluster) op" where
  "constructHdfsCluster X ninecluster cluster =
     (let dfsReplication = getDfsReplication (Some (Map.empty ++ mrange (cc_Conf (ci_Configs cluster)))) in
      io_bind (hdfs_members X ninecluster cluster dfsReplication) (\<lambda>(clusters, namenodeHA).
      io_bind (if namenodeHA then
                 io_bind (getZookeeperExposedInfo X ninecluster) (\<lambda>zks.
                   io_ret (map (\<lambda>m. m\<lparr>hm_Conf := zk_shared X zks (hm_Type m) (hm_Conf m)\<rparr>) clusters,
                           zk_reference X zks (cluster_set ninecluster),
                           zk_shared_cluster X zks ninecluster))
               else io_ret (clusters, zero_member, ninecluster)) (\<lambda>(clusters, zkCluster, ninecluster').
        let desired = hdfs_desired ninecluster cluster clusters zkCluster in
        io_ret (case x_SetControllerReference X (nc_Meta ninecluster) (hd_Meta desired) of
                  Inl e \<Rightarrow> Inl e
                | Inr m \<Rightarrow> Inr (desired\<lparr>hd_Meta := m\<rparr>), ninecluster'))))"

definition reconcileHdfsCluster ::
  "'w external \<Rightarrow> NineCluster \<Rightarrow> ClusterInfo \<Rightarrow> ('w, go_error option \<times> NineCluster) op" where
  "reconcileHdfsCluster X ninecluster cluster =
     io_bind (constructHdfsCluster X ninecluster cluster) (\<lambda>(r, ninecluster').
       case r of
         Inl e \<Rightarrow> io_ret (if is_not_found e then None else Some e, ninecluster')
       | Inr desired \<Rightarrow>
           io_bind (io_try (io_bind (client_of X HdfsKind) (\<lambda>_.
             ensure_cr X HdfsKind (cluster_namespace ninecluster) (NineResourceName ninecluster [])
               (Some (HdfsCR desired))))) (\<lambda>r2.
             io_ret (case r2 of Inl e \<Rightarrow> Some e | Inr _ \<Rightarrow> None, ninecluster')))"

section \<open>Properties\<close>

lemma site_keys [simp]:
  "''dfs.namenode.rpc-address.'' @ ns @ a = ''dfs.namenode.rpc-address.'' @ ns @ b \<longleftrightarrow> a = b"
  "''dfs.namenode.rpc-address.'' @ ns @ a \<noteq> ''dfs.ha.namenodes.'' @ b"
  by simp_all

lemma itoa_01: "itoa 0 = ''0''" "itoa 1 = ''1''"
  by (simp_all add: itoa_def digits.simps digit_char_def char_of_eq_iff)

lemma constructHdfsSite_ha:
  assumes "checkHdfsNameNodeHA c"
  shows "constructHdfsSite c DFSNameSpacesConfKey = Some (nameservice c)"
    "constructHdfsSite c (''dfs.ha.namenodes.'' @ nameservice c) = Some ''nn0,nn1''"
    "constructHdfsSite c (''dfs.namenode.rpc-address.'' @ nameservice c @ ''.nn0'') = Some (namenode_address c 0)"
    "constructHdfsSite c (''dfs.namenode.rpc-address.'' @ nameservice c @ ''.nn1'') = Some (namenode_address c 1)"
  using assms
  by (simp_all add: constructHdfsSite_def ha_addresses_def Let_def upt_rec itoa_01)

lemma constructHdfsSite_single:
  assumes "\<not> checkHdfsNameNodeHA c"
  shows "constructHdfsSite c DFSNameSpacesConfKey = Some (nameservice c)"
    "constructHdfsSite c (''dfs.ha.namenodes.'' @ nameservice c) = None"
    "constructHdfsSite c (''dfs.namenode.rpc-address.'' @ nameservice c) = Some (namenode_address c 0)"
  using assms by (simp_all add: constructHdfsSite_def Let_def)

lemma nameservice_default_fs:
  assumes "checkHdfsNameNodeHA c" and "hdfs_conf_value c FSDefaultFSConfKey = None"
  shows "constructCoreSite c FSDefaultFSConfKey = Some ''hdfs://nineinfra''"
  using assms by (simp add: constructCoreSite_def)

text \<open>
  C28: the client configuration written for HDFS is the one the operator's own client reads: from
  the site of a cluster the client finds the address of each name node, two with high availability
  and one without, under the name service the site names. The default file system agrees with the
  site only in part. A \<open>fs.defaultFS\<close> of the user is kept. Without it and without high
  availability it is the address of the one name node; with high availability it is
  \<open>hdfs://nineinfra\<close>, which is the name service of the site exactly when that is \<open>nineinfra\<close>, and so
  not when the user set \<open>dfs.nameservices\<close> to another one.
\<close>
theorem client_addresses_of_site:
  "client_addresses (Some (constructHdfsSite c)) =
     map (namenode_address c) (if checkHdfsNameNodeHA c then [0, 1] else [0]) \<and>
   constructHdfsSite c DFSNameSpacesConfKey = Some (nameservice c) \<and>
   nameservice c = (case hdfs_conf_value c DFSNameSpacesConfKey of None \<Rightarrow> ''nineinfra'' | Some ns \<Rightarrow> ns) \<and>
   (\<forall>v. hdfs_conf_value c FSDefaultFSConfKey = Some v \<longrightarrow> constructCoreSite c FSDefaultFSConfKey = Some v) \<and>
   (hdfs_conf_value c FSDefaultFSConfKey = None \<longrightarrow> \<not> checkHdfsNameNodeHA c \<longrightarrow>
      constructCoreSite c FSDefaultFSConfKey =
        Some (''hdfs://'' @ hd (client_addresses (Some (constructHdfsSite c))))) \<and>
   (hdfs_conf_value c FSDefaultFSConfKey = None \<longrightarrow> checkHdfsNameNodeHA c \<longrightarrow>
      constructCoreSite c FSDefaultFSConfKey = Some ''hdfs://nineinfra'' \<and>
      (map_option (\<lambda>ns. ''hdfs://'' @ ns) (constructHdfsSite c DFSNameSpacesConfKey) =
         constructCoreSite c FSDefaultFSConfKey \<longleftrightarrow> nameservice c = ''nineinfra''))"
proof -
  have split: "split_on CHR '','' ''nn0,nn1'' = [''nn0'', ''nn1'']"
    using split_on_join [of "[''nn0'', ''nn1'']" "CHR '',''"] by simp
  have addresses: "client_addresses (Some (constructHdfsSite c)) =
      map (namenode_address c) (if checkHdfsNameNodeHA c then [0, 1] else [0])"
    by (cases "checkHdfsNameNodeHA c")
      (simp_all add: client_addresses_def site_value_def split constructHdfsSite_ha [unfolded append.simps]
        constructHdfsSite_single [unfolded append.simps])
  moreover have site: "constructHdfsSite c DFSNameSpacesConfKey = Some (nameservice c)"
    using constructHdfsSite_ha(1) constructHdfsSite_single(1) by blast
  moreover have "nameservice c = (case hdfs_conf_value c DFSNameSpacesConfKey of None \<Rightarrow> ''nineinfra'' | Some ns \<Rightarrow> ns)"
    by (simp add: nameservice_def split: option.splits)
  ultimately show ?thesis
    using nameservice_default_fs by (simp add: constructCoreSite_def split: option.splits)
qed

text \<open>A user's name service, and what becomes of the default file system beside it.\<close>

definition ha_cluster :: NineCluster where
  "ha_cluster = with_cluster_set demo_cluster
     [hdfs_default\<lparr>ci_Configs := zero_config\<lparr>cc_Conf := Some [DFSNameSpacesConfKey \<mapsto> ''lake'']\<rparr>\<rparr>,
      namenode_default]"

theorem client_addresses_of_site_witness:
  "client_addresses (Some (constructHdfsSite ha_cluster)) = map (namenode_address ha_cluster) [0, 1] \<and>
   constructHdfsSite ha_cluster DFSNameSpacesConfKey = Some ''lake'' \<and>
   constructCoreSite ha_cluster FSDefaultFSConfKey = Some ''hdfs://nineinfra''"
proof -
  have ha: "checkHdfsNameNodeHA ha_cluster"
    by (simp add: checkHdfsNameNodeHA_def namenode_ha_def ha_cluster_def namenode_default_def
        zero_cluster_def zero_resource_def)
  have conf: "hdfs_conf_value ha_cluster key = (if key = DFSNameSpacesConfKey then Some ''lake'' else None)" for key
    by (simp add: hdfs_conf_value_def getHdfsClusterInfo_def ha_cluster_def hdfs_default_def
        zero_cluster_def zero_config_def)
  show ?thesis
    using client_addresses_of_site [of ha_cluster] ha by (simp add: conf)
qed

lemma namenode_wait_no_fail:
  "namenode_wait_body X c n k s \<noteq> Some (Fail e, s1)"
  by (auto simp: namenode_wait_body_def Let_def io_bind_def io_try_def sleep_continue_apply loop_done_apply
      split: option.splits outcome.splits sum.splits list.splits if_splits)

definition hdfs_info :: "NineCluster \<Rightarrow> HdfsExposedInfo" where
  "hdfs_info c =
     \<lparr>he_DefaultFS = (case constructCoreSite c FSDefaultFSConfKey of None \<Rightarrow> [] | Some v \<Rightarrow> v),
      he_HdfsSite = Some (constructHdfsSite c), he_CoreSite = Some (constructCoreSite c)\<rparr>"

lemma namenode_wait_absent:
  assumes "\<forall>w. x_GetEndpoints X (cluster_namespace c)
      (NineResourceName c [HdfsResourceNameSuffix, HdfsRoleNameNode]) w = Some (Fail e, w)"
    and "is_not_found e"
  shows "namenode_wait_body X c n k s =
    (if k + 1 < DefaultMaxWaitSeconds then Some (Ret (Inl (k + 1)), after_secs X 1 s)
     else Some (Ret (Inr (Some (new_error ''wait for journal node service timeout''))), s))"
proof -
  have "ext_call (x_GetEndpoints X (cluster_namespace c)
      (NineResourceName c [HdfsResourceNameSuffix, HdfsRoleNameNode])) s = Some (Fail e, s)"
    by (simp add: ext_call_def assms(1))
  with assms(2) show ?thesis
    by (simp add: namenode_wait_body_def io_bind_def io_try_def sleep_continue_apply loop_done_apply after_secs_def)
qed

lemma namenode_rounds:
  assumes "\<forall>w. x_GetEndpoints X (cluster_namespace c)
      (NineResourceName c [HdfsResourceNameSuffix, HdfsRoleNameNode]) w = Some (Fail e, w)"
    and "is_not_found e" and "k + m < DefaultMaxWaitSeconds"
  shows "rounds m (namenode_wait_body X c n) k s = Some (k + m, after_secs X m s)"
  using assms(3)
proof (induction m arbitrary: k s)
  case (Suc m)
  then have "rounds m (namenode_wait_body X c n) (k + 1) (after_secs X 1 s) =
      Some (k + 1 + m, after_secs X m (after_secs X 1 s))" by simp
  moreover have "after_secs X m (after_secs X 1 s) = after_secs X (Suc m) s"
    using after_secs_simps(2) [of X m s] by (simp add: after_secs_def)
  ultimately show ?case using Suc.prems by (simp add: namenode_wait_absent [OF assms(1,2), of n k s])
qed simp

text \<open>
  The wait for the name nodes never reports a failure. Whatever it ends with, short of a
  panic, is the configuration, without an error; and when the service never appears, that
  is what it returns after the 599 seconds of the timeout.
\<close>
theorem getHdfsExposedInfo_timeout_silent:
  "(\<forall>r s1. getHdfsExposedInfo X c s = Some (r, s1) \<longrightarrow> r = Ret (hdfs_info c) \<or> (\<exists>p. r = Panic p)) \<and>
   (\<forall>e. is_not_found e \<longrightarrow>
      (\<forall>w. x_GetEndpoints X (cluster_namespace c)
         (NineResourceName c [HdfsResourceNameSuffix, HdfsRoleNameNode]) w = Some (Fail e, w)) \<longrightarrow>
      getHdfsExposedInfo X c s = Some (Ret (hdfs_info c), after_secs X 599 s))"
proof (intro conjI allI impI)
  fix r s1
  assume "getHdfsExposedInfo X c s = Some (r, s1)"
  then obtain q t where q: "loop (namenode_wait_body X c (namenode_replicas c)) 0 s = Some (q, t)"
    and r: "(case q of Ret _ \<Rightarrow> r = Ret (hdfs_info c) | Fail e \<Rightarrow> r = Fail e | Panic p \<Rightarrow> r = Panic p)"
    by (auto simp: getHdfsExposedInfo_def io_bind_def hdfs_info_def Let_def io_ret_def
        split: option.splits outcome.splits)
  have "q \<noteq> Fail e" for e
    using loop_ends_with [OF q] by (auto simp: ends_with_def namenode_wait_no_fail)
  with r show "r = Ret (hdfs_info c) \<or> (\<exists>p. r = Panic p)" by (cases q) auto
next
  fix e
  assume e: "is_not_found e" and absent: "\<forall>w. x_GetEndpoints X (cluster_namespace c)
         (NineResourceName c [HdfsResourceNameSuffix, HdfsRoleNameNode]) w = Some (Fail e, w)"
  have "rounds 599 (namenode_wait_body X c (namenode_replicas c)) 0 s = Some (599, after_secs X 599 s)"
    using namenode_rounds [OF absent e, of 0 599] by simp
  then have "loop (namenode_wait_body X c (namenode_replicas c)) 0 s =
      Some (Ret (Some (new_error ''wait for journal node service timeout'')), after_secs X 599 s)"
    by (rule loop_returns) (simp add: namenode_wait_absent [OF absent e])
  then show "getHdfsExposedInfo X c s = Some (Ret (hdfs_info c), after_secs X 599 s)"
    by (simp add: getHdfsExposedInfo_def io_bind_def hdfs_info_def Let_def io_ret_def)
qed

definition lost_server :: "server_world external" where
  "lost_server = server\<lparr>x_GetEndpoints := \<lambda>ns n. io_fail not_found\<rparr>"

theorem getHdfsExposedInfo_timeout_silent_witness:
  "getHdfsExposedInfo lost_server demo_cluster (in_world empty_world) =
     Some (Ret (hdfs_info demo_cluster), after_secs lost_server 599 (in_world empty_world))"
proof -
  have "is_not_found not_found" by (simp add: is_not_found_def not_found_def)
  moreover have "\<forall>w. x_GetEndpoints lost_server ns n w = Some (Fail not_found, w)" for ns n
    by (simp add: lost_server_def io_fail_def)
  ultimately show ?thesis
    using getHdfsExposedInfo_timeout_silent [of lost_server demo_cluster "in_world empty_world"] by blast
qed

section \<open>Properties of the cluster\<close>

text \<open>\<open>made_from m u\<close>: the member \<open>m\<close> of the HDFS cluster is the entry \<open>u\<close>, up to its configuration.\<close>

definition made_from :: "hdfs_member \<Rightarrow> ClusterInfo \<Rightarrow> bool" where
  "made_from m u \<longleftrightarrow>
     hm_Type m = ci_Type u \<and> hm_Name m = ci_Name u \<and> hm_Version m = ci_Version u \<and>
     hm_Image m = cc_Image (ci_Configs u) \<and>
     (hm_Resource m = ci_Resource u \<or> ci_Type u = HdfsDataNodeClusterType) \<and>
     (rc_Replicas (ci_Resource u) = 0 \<or> rc_Replicas (hm_Resource m) = rc_Replicas (ci_Resource u))"

lemma build_member_made:
  assumes "build_member X c v r u s = Some (Ret m, s1)"
  shows "made_from m u"
proof (cases "ci_Type u = HdfsDataNodeClusterType")
  case True
  with assms obtain n q t where "datanode_replicas X u s = Some (Ret n, t)"
    "m = (member_of u)\<lparr>hm_Resource := (ci_Resource u)
            \<lparr>rc_Replicas := n,
             rc_ResourceRequirements := no_requirements\<lparr>rr_Requests := RequestStorage q\<rparr>,
             rc_Disks := int32_of_int (GetDiskNum v)\<rparr>\<rparr>"
    by (auto simp: build_member_def io_ret_def elim!: io_bind_RetE)
  then show ?thesis
    using True by (auto simp: made_from_def member_of_def datanode_replicas_def io_ret_def split: if_splits)
next
  case False
  with assms show ?thesis by (auto simp: build_member_def made_from_def member_of_def io_ret_def)
qed

lemma inner_members:
  assumes "io_fold (member_step X c v r t) us acc s = Some (Ret acc1, s1)"
  shows "\<exists>ms. fst acc1 = fst acc @ ms \<and> list_all2 made_from ms (filter (\<lambda>u. ci_Type u = t) us) \<and>
     snd acc1 = (snd acc \<or> list_ex namenode_ha us)"
  using assms
proof (induction us arbitrary: acc s)
  case Nil
  then show ?case by (simp add: io_ret_def)
next
  case (Cons u us)
  from Cons.prems obtain acc2 s2 where step: "member_step X c v r t u acc s = Some (Ret acc2, s2)"
    and rest: "io_fold (member_step X c v r t) us acc2 s2 = Some (Ret acc1, s1)"
    by (auto elim: io_bind_RetE)
  from Cons.IH [OF rest] obtain ms where ms: "fst acc1 = fst acc2 @ ms"
    "list_all2 made_from ms (filter (\<lambda>u. ci_Type u = t) us)"
    "snd acc1 = (snd acc2 \<or> list_ex namenode_ha us)" by blast
  show ?case
  proof (cases "ci_Type u = t")
    case True
    with step obtain m where "build_member X c v r u s = Some (Ret m, s2)"
      "acc2 = (fst acc @ [m], snd acc \<or> namenode_ha u)"
      by (auto simp: member_step_def io_ret_def elim!: io_bind_RetE)
    with ms True build_member_made [of X c v r u s m s2] show ?thesis
      by (intro exI [of _ "m # ms"]) auto
  next
    case False
    with step have "acc2 = (fst acc, snd acc \<or> namenode_ha u)"
      by (auto simp: member_step_def io_ret_def io_bind_def)
    with ms False show ?thesis by (intro exI [of _ ms]) auto
  qed
qed

lemma hdfs_members_made:
  assumes "hdfs_members X c v r s = Some (Ret (ms, ha), s1)"
  shows "list_all2 made_from ms (concat (map (\<lambda>t. filter (\<lambda>u. ci_Type u = t) (cluster_set c)) (ci_ClusterRefs v))) \<and>
     ha = (ci_ClusterRefs v \<noteq> [] \<and> checkHdfsNameNodeHA c)"
proof -
  have "\<exists>ms. fst acc1 = fst acc @ ms \<and>
      list_all2 made_from ms (concat (map (\<lambda>t. filter (\<lambda>u. ci_Type u = t) (cluster_set c)) ts)) \<and>
      snd acc1 = (snd acc \<or> ts \<noteq> [] \<and> list_ex namenode_ha (cluster_set c))"
    if "io_fold (\<lambda>t. io_fold (member_step X c v r t) (cluster_set c)) ts acc s = Some (Ret acc1, s1)"
    for ts acc acc1 s s1
    using that
  proof (induction ts arbitrary: acc s)
    case Nil
    then show ?case by (simp add: io_ret_def)
  next
    case (Cons t ts)
    from Cons.prems obtain acc2 s2 where
      step: "io_fold (member_step X c v r t) (cluster_set c) acc s = Some (Ret acc2, s2)"
      and rest: "io_fold (\<lambda>t. io_fold (member_step X c v r t) (cluster_set c)) ts acc2 s2 = Some (Ret acc1, s1)"
      by (auto elim: io_bind_RetE)
    from inner_members [OF step] Cons.IH [OF rest] show ?case
      by (force intro: list_all2_appendI)
  qed
  from this [OF assms [unfolded hdfs_members_def]] show ?thesis
    by (auto simp: checkHdfsNameNodeHA_def)
qed

lemma made_from_zk_shared:
  "list_all2 made_from (map (\<lambda>m. m\<lparr>hm_Conf := f m\<rparr>) ms) us \<longleftrightarrow> list_all2 made_from ms us"
  by (simp add: list_all2_conv_all_nth made_from_def)

lemma constructHdfsCluster_parts:
  assumes "constructHdfsCluster X c v s = Some (Ret (Inr d, c1), s1)"
  shows "list_all2 made_from (hd_Clusters d)
       (concat (map (\<lambda>t. filter (\<lambda>u. ci_Type u = t) (cluster_set c)) (ci_ClusterRefs v))) \<and>
    (if ci_ClusterRefs v \<noteq> [] \<and> checkHdfsNameNodeHA c
     then \<exists>zks. c1 = zk_shared_cluster X zks c \<and> hd_ClusterRefs d = [zk_reference X zks (cluster_set c)] \<and>
        (\<exists>t. getZookeeperExposedInfo X c t = Some (Ret zks, s1))
     else c1 = c)"
proof -
  from assms obtain ms ha s2 where m: "hdfs_members X c v (getDfsReplication (Some (Map.empty ++ mrange (cc_Conf (ci_Configs v))))) s
      = Some (Ret (ms, ha), s2)"
    and rest: "io_bind (if ha then
                 io_bind (getZookeeperExposedInfo X c) (\<lambda>zks.
                   io_ret (map (\<lambda>m. m\<lparr>hm_Conf := zk_shared X zks (hm_Type m) (hm_Conf m)\<rparr>) ms,
                           zk_reference X zks (cluster_set c), zk_shared_cluster X zks c))
               else io_ret (ms, zero_member, c)) (\<lambda>(clusters, zkCluster, ninecluster').
        let desired = hdfs_desired c v clusters zkCluster in
        io_ret (case x_SetControllerReference X (nc_Meta c) (hd_Meta desired) of
                  Inl e \<Rightarrow> Inl e
                | Inr m \<Rightarrow> Inr (desired\<lparr>hd_Meta := m\<rparr>), ninecluster')) s2 = Some (Ret (Inr d, c1), s1)"
    unfolding constructHdfsCluster_def Let_def by (auto elim: io_bind_RetE)
  note made = hdfs_members_made [OF m]
  show ?thesis
  proof (cases ha)
    case True
    with rest obtain zks where zks: "getZookeeperExposedInfo X c s2 = Some (Ret zks, s1)"
      "hd_Clusters d = map (\<lambda>m. m\<lparr>hm_Conf := zk_shared X zks (hm_Type m) (hm_Conf m)\<rparr>) ms"
      "hd_ClusterRefs d = [zk_reference X zks (cluster_set c)]" "c1 = zk_shared_cluster X zks c"
      by (auto simp: Let_def io_ret_def hdfs_desired_def elim!: io_bind_RetE split: sum.splits)
    with made True show ?thesis by (auto simp: made_from_zk_shared)
  next
    case False
    with rest have "hd_Clusters d = ms" "c1 = c"
      by (auto simp: Let_def io_ret_def hdfs_desired_def io_bind_def split: sum.splits)
    with made False show ?thesis by auto
  qed
qed

text \<open>
  The HDFS cluster is made of the entries it refers to: for each referenced type in turn, each
  entry of that type in the cluster set, in order, with its type, name, version, image, and
  its own replicas where it gives any; only a data node's resources are computed.
\<close>
theorem constructHdfsCluster_members:
  assumes "constructHdfsCluster X c v s = Some (Ret (Inr d, c1), s1)"
  shows "list_all2 made_from (hd_Clusters d)
    (concat (map (\<lambda>t. filter (\<lambda>u. ci_Type u = t) (cluster_set c)) (ci_ClusterRefs v)))"
  using constructHdfsCluster_parts [OF assms] by blast

lemma server_hdfs_empty:
  "\<exists>d. constructHdfsCluster server (with_cluster_set demo_cluster [journalnode_default])
     (hdfs_default\<lparr>ci_ClusterRefs := [HdfsJournalNodeClusterType]\<rparr>) (in_world empty_world) =
     Some (Ret (Inr d, with_cluster_set demo_cluster [journalnode_default]), in_world empty_world)"
  by (simp add: constructHdfsCluster_def hdfs_members_def member_step_def build_member_def Let_def
      io_bind_def io_ret_def namenode_ha_def)

theorem constructHdfsCluster_members_witness:
  "\<exists>d c1 s1 m. constructHdfsCluster server (with_cluster_set demo_cluster [journalnode_default])
     (hdfs_default\<lparr>ci_ClusterRefs := [HdfsJournalNodeClusterType]\<rparr>) (in_world empty_world) =
     Some (Ret (Inr d, c1), s1) \<and> hd_Clusters d = [m] \<and> made_from m journalnode_default"
proof -
  obtain d where d: "constructHdfsCluster server (with_cluster_set demo_cluster [journalnode_default])
     (hdfs_default\<lparr>ci_ClusterRefs := [HdfsJournalNodeClusterType]\<rparr>) (in_world empty_world) =
     Some (Ret (Inr d, with_cluster_set demo_cluster [journalnode_default]), in_world empty_world)"
    using server_hdfs_empty by blast
  from constructHdfsCluster_members [OF this] show ?thesis
    by (auto simp: d list_all2_Cons2)
qed

text \<open>
  Building a highly available HDFS cluster changes the NineCluster the other reconcilers
  share. The two ZooKeeper keys are written into the configuration map of every ZooKeeper
  entry of the cluster set that has one; nothing else changes, and without high
  availability nothing at all.
\<close>
theorem constructHdfsCluster_shares_conf:
  assumes "constructHdfsCluster X c v s = Some (Ret (Inr d, c1), s1)"
  shows "nc_Meta c1 = nc_Meta c \<and> map ci_Type (cluster_set c1) = map ci_Type (cluster_set c) \<and>
    (if ci_ClusterRefs v \<noteq> [] \<and> checkHdfsNameNodeHA c
     then \<exists>zks. map (\<lambda>u. cc_Conf (ci_Configs u)) (cluster_set c1) =
        map (\<lambda>u. if ci_Type u = ZookeeperClusterType \<and> cc_Conf (ci_Configs u) \<noteq> None
                then Some ((mrange (cc_Conf (ci_Configs u)))
                  (x_RefClusterZKReplicasKey X \<mapsto> itoa (int (length zks)),
                   x_RefClusterZKEndpointsKey X \<mapsto> join '','' zks))
                else cc_Conf (ci_Configs u)) (cluster_set c)
     else c1 = c)"
proof (cases "ci_ClusterRefs v \<noteq> [] \<and> checkHdfsNameNodeHA c")
  case True
  with constructHdfsCluster_parts [OF assms] obtain zks where "c1 = zk_shared_cluster X zks c" by auto
  with True show ?thesis
    by (simp only: if_True simp_thms)
      (intro conjI exI [of _ zks], auto simp: zk_shared_cluster_def zk_shared_def zk_conf_def)
next
  case False
  with constructHdfsCluster_parts [OF assms] have "c1 = c" by (simp only: if_False)
  with False show ?thesis by (simp only: if_False simp_thms)
qed

definition ha_zk_cluster :: NineCluster where
  "ha_zk_cluster = with_cluster_set demo_cluster
     [namenode_default, zookeeper_default\<lparr>ci_Configs := zero_config\<lparr>cc_Conf := Some Map.empty\<rparr>\<rparr>]"

definition ha_hdfs :: ClusterInfo where
  "ha_hdfs = hdfs_default\<lparr>ci_ClusterRefs := [HdfsNameNodeClusterType]\<rparr>"

lemma ha_zk_ready: "zk_ready server ha_zk_cluster (in_world zk_world) \<noteq> None"
proof -
  have "zk_ready server ha_zk_cluster (in_world zk_world) = zk_ready server demo_cluster (in_world zk_world)"
    by (simp add: zk_ready_def pods_ready_def endpoints_ready_def ha_zk_cluster_def zkSvcName_def
        zkResourceName_def NineResourceName_def)
  then show ?thesis using zk_world_ready by simp
qed

lemma server_hdfs_ha:
  "\<exists>d c1. constructHdfsCluster server ha_zk_cluster ha_hdfs (in_world zk_world) = Some (Ret (Inr d, c1), in_world zk_world)"
proof -
  obtain zks where zks: "getZookeeperExposedInfo server ha_zk_cluster (in_world zk_world) = Some (Ret zks, in_world zk_world)"
    using getZookeeperExposedInfo_ready [OF server_steady] ha_zk_ready by blast
  have "hdfs_members server ha_zk_cluster ha_hdfs r (in_world zk_world) =
      Some (Ret ([member_of namenode_default], True), in_world zk_world)" for r
    by (simp add: hdfs_members_def member_step_def build_member_def ha_zk_cluster_def ha_hdfs_def
        io_bind_def io_ret_def namenode_ha_def namenode_default_def zero_cluster_def zero_resource_def)
  then show ?thesis
    by (simp add: constructHdfsCluster_def Let_def io_bind_def io_ret_def zks)
qed

theorem constructHdfsCluster_shares_conf_witness:
  "\<exists>d c1. constructHdfsCluster server ha_zk_cluster ha_hdfs (in_world zk_world) = Some (Ret (Inr d, c1), in_world zk_world) \<and>
     cc_Conf (ci_Configs (cluster_set c1 ! 1)) \<noteq> Some Map.empty"
proof -
  obtain d c1 where d: "constructHdfsCluster server ha_zk_cluster ha_hdfs (in_world zk_world) =
      Some (Ret (Inr d, c1), in_world zk_world)" using server_hdfs_ha by blast
  have set: "cluster_set ha_zk_cluster =
      [namenode_default, zookeeper_default\<lparr>ci_Configs := zero_config\<lparr>cc_Conf := Some Map.empty\<rparr>\<rparr>]"
    by (simp add: ha_zk_cluster_def)
  have ha: "checkHdfsNameNodeHA ha_zk_cluster"
    by (simp add: set checkHdfsNameNodeHA_def namenode_ha_def namenode_default_def zero_cluster_def zero_resource_def)
  have zk: "ci_Type (zookeeper_default\<lparr>ci_Configs := k\<rparr>) = ZookeeperClusterType"
    "ci_Type (namenode_default) = HdfsNameNodeClusterType" for k
    by (simp_all add: zookeeper_default_def)
  obtain zks where "map (\<lambda>u. cc_Conf (ci_Configs u)) (cluster_set c1) =
      [cc_Conf (ci_Configs namenode_default), Some [''reference.zookeeper.replicas'' \<mapsto> itoa (int (length zks)),
         ''reference.zookeeper.endpoints'' \<mapsto> join '','' zks]]"
    using constructHdfsCluster_shares_conf [OF d] ha
    by (auto simp: set ha_hdfs_def zk server_def)
  then have "cc_Conf (ci_Configs (cluster_set c1 ! 1)) =
      Some [''reference.zookeeper.replicas'' \<mapsto> itoa (int (length zks)),
            ''reference.zookeeper.endpoints'' \<mapsto> join '','' zks]"
    by (auto simp: map_eq_Cons_conv)
  then have "cc_Conf (ci_Configs (cluster_set c1 ! 1)) \<noteq> Some Map.empty" by simp
  with d show ?thesis by blast
qed

end
