(* ===== verification/Postgres.thy ===== *)
theory Postgres
  imports Waiting
begin

text \<open>
  \<open>internal/controller/postgresql.go\<close>: the PostgreSQL cluster. Names, connection strings, the
  wait for the read-write service, the SQL the other components run, the two secrets and
  the cluster itself.
\<close>

abbreviation PGInitDBName :: string where "PGInitDBName \<equiv> ''hive''"
abbreviation PGInitDBUserName :: string where "PGInitDBUserName \<equiv> ''hive''"
abbreviation PGInitDBPassword :: string where "PGInitDBPassword \<equiv> ''hive''"
abbreviation DefaultPgReplicas :: int64 where "DefaultPgReplicas \<equiv> 3"

section \<open>Names and connection strings\<close>

definition getPGSuperUserNameAndPassword :: "ClusterInfo \<Rightarrow> string \<times> string" where
  "getPGSuperUserNameAndPassword pg =
     (let auth = cc_Auth (ci_Configs pg) in
      if auth_AuthType auth = ClusterAuthTypeSimple \<and> auth_UserName auth \<noteq> [] \<and> auth_Password auth \<noteq> []
      then (auth_UserName auth, auth_Password auth)
      else (DefaultPGSuperUserName, DefaultPGSuperUserPassword))"

definition pgResourceName :: "NineCluster \<Rightarrow> string" where
  "pgResourceName cluster = NineResourceName cluster [PGResourceNameSuffix]"

definition pgRWSvcName :: "NineCluster \<Rightarrow> string" where
  "pgRWSvcName cluster = pgResourceName cluster @ ''-rw''"

definition pgRWSvcNameInCluster :: "NineCluster \<Rightarrow> string \<Rightarrow> string" where
  "pgRWSvcNameInCluster cluster svcName = svcName @ ''.'' @ cluster_namespace cluster @ ''.svc''"

definition pgJDBCInitDBConnetionURL :: "NineCluster \<Rightarrow> string" where
  "pgJDBCInitDBConnetionURL cluster =
     ''jdbc:postgresql://'' @ pgRWSvcName cluster @ '':5432/'' @ PGInitDBName"

definition constructPgPodLabel :: "string \<Rightarrow> (string, string) gomap" where
  "constructPgPodLabel name = Some [''cnpg.io/cluster'' \<mapsto> name]"

definition BuildPGUri :: "string \<Rightarrow> string \<Rightarrow> string \<Rightarrow> string \<Rightarrow> string" where
  "BuildPGUri username password host dbname =
     url_string \<lparr>url_Scheme = ''postgresql'', url_User = Some (username, password),
       url_Host = host, url_Path = dbname, url_RawQuery = []\<rparr>"

definition jdbc_query :: "string \<Rightarrow> string \<Rightarrow> string" where
  "jdbc_query username password = query_encode [(''user'', username), (''password'', password)]"

definition BuildPGJdbcWithCluster :: "NineCluster \<Rightarrow> string \<Rightarrow> string \<Rightarrow> string \<Rightarrow> string" where
  "BuildPGJdbcWithCluster cluster username password dbname =
     url_string \<lparr>url_Scheme = ''jdbc:postgresql'', url_User = None, url_Host = pgRWSvcName cluster,
       url_Path = dbname,
       url_RawQuery = (if username \<noteq> [] \<and> password \<noteq> [] then jdbc_query username password else [])\<rparr>"

definition BuildPGJdbc :: "string \<Rightarrow> string \<Rightarrow> string \<Rightarrow> string \<Rightarrow> string" where
  "BuildPGJdbc username password host dbname =
     url_string \<lparr>url_Scheme = ''jdbc:postgresql'', url_User = None, url_Host = host,
       url_Path = dbname, url_RawQuery = jdbc_query username password\<rparr>"

section \<open>Waiting and running SQL\<close>

definition pg_wait_body :: "'w external \<Rightarrow> NineCluster \<Rightarrow> unit \<Rightarrow> ('w, unit + unit) op" where
  "pg_wait_body X cluster u =
     io_bind (CheckEndpointsReady X cluster (pgRWSvcName cluster) 1) (\<lambda>(_, result, _).
       if \<not> result then sleep_continue X 1 ()
       else
         io_bind (CheckPodsReady X cluster
                    (constructPgPodLabel (NineResourceName cluster [PGResourceNameSuffix]))
                    DefaultPgReplicas) (\<lambda>(_, result).
           if \<not> result then sleep_continue X 1 () else loop_done ()))"

definition getPGRWSvcNameWithSync :: "'w external \<Rightarrow> NineCluster \<Rightarrow> ('w, string) op" where
  "getPGRWSvcNameWithSync X cluster =
     io_bind (loop (pg_wait_body X cluster) ()) (\<lambda>_.
       io_ret (pgRWSvcNameInCluster cluster (pgRWSvcName cluster)))"

definition executeSql ::
  "'w external \<Rightarrow> NineCluster \<Rightarrow> string \<Rightarrow> string \<Rightarrow> string \<Rightarrow> string \<Rightarrow> string list \<Rightarrow> ('w, unit) op" where
  "executeSql X cluster dbUser dbPWD dbName sqlStr sqlArgs =
     io_bind (getPGRWSvcNameWithSync X cluster) (\<lambda>svcName.
       let connStr = ''host='' @ svcName @ '' port='' @ itoa DefaultPGServerPort @ '' user='' @ dbUser @
             '' password='' @ dbPWD @ '' dbname='' @ dbName @ '' sslmode=disable'' in
       io_bind (ext_call (x_SqlOpen X connStr)) (\<lambda>_.
         ext_call (x_DbExec X connStr sqlStr sqlArgs)))"

text \<open>A statement whose failure \<open>already exists\<close> is accepted.\<close>

definition exec_if_absent :: "'w external \<Rightarrow> string \<Rightarrow> string \<Rightarrow> ('w, unit) op" where
  "exec_if_absent X connStr stmt =
     io_bind (io_try (ext_call (x_DbExec X connStr stmt []))) (\<lambda>r.
       case r of
         Inl e \<Rightarrow> if \<not> contains (err_text e) ''already exists'' then io_fail e else io_ret ()
       | Inr _ \<Rightarrow> io_ret ())"

definition createDatabase ::
  "'w external \<Rightarrow> NineCluster \<Rightarrow> string \<Rightarrow> string \<Rightarrow> string \<Rightarrow> ('w, unit) op" where
  "createDatabase X cluster dbUser dbPWD dbName =
     io_bind (getPGRWSvcNameWithSync X cluster) (\<lambda>svcName.
       let connStr = ''host='' @ svcName @ '' port='' @ itoa DefaultPGServerPort @ '' user='' @ ''postgres'' @
             '' password='' @ DefaultPGSuperUserPassword @ '' sslmode=disable'' in
       io_bind (ext_call (x_SqlOpen X connStr)) (\<lambda>_.
       io_bind (exec_if_absent X connStr
                  (''CREATE USER '' @ dbUser @ '' WITH PASSWORD '' @ [CHR 0x27] @ dbPWD @ [CHR 0x27])) (\<lambda>_.
         exec_if_absent X connStr (''CREATE DATABASE '' @ dbName @ '' WITH OWNER '' @ dbUser))))"

definition getDatabaseExposedInfo :: "'w external \<Rightarrow> NineCluster \<Rightarrow> ('w, DatabaseCluster) op" where
  "getDatabaseExposedInfo X cluster =
     io_bind (getPGRWSvcNameWithSync X cluster) (\<lambda>_.
       io_ret \<lparr>db_ConnectionUrl = pgJDBCInitDBConnetionURL cluster, db_DbType = DbTypePostgres,
               db_UserName = PGInitDBUserName, db_Password = PGInitDBPassword\<rparr>)"

section \<open>Secrets\<close>

definition pg_init_secret :: "NineCluster \<Rightarrow> secret" where
  "pg_init_secret cluster =
     \<lparr>sec_Meta = empty_meta\<lparr>om_Name := PGInitDBUserSecretName cluster,
        om_Namespace := cluster_namespace cluster, om_Labels := NineConstructLabels cluster\<rparr>,
      sec_Type = ''Opaque'',
      sec_Data = Some [''username'' \<mapsto> PGInitDBUserName, ''password'' \<mapsto> PGInitDBPassword],
      sec_StringData = None\<rparr>"

definition reconcilePGInitDBUserSecret :: "'w external \<Rightarrow> NineCluster \<Rightarrow> ('w, unit) op" where
  "reconcilePGInitDBUserSecret X cluster =
     io_bind (io_of (own_secret X cluster (pg_init_secret cluster))) (\<lambda>desired.
       ensure_secret_tolerant X (secret_key desired) desired)"

definition pg_superuser_secret :: "NineCluster \<Rightarrow> ClusterInfo \<Rightarrow> secret" where
  "pg_superuser_secret cluster database =
     (let (superUserName, superUserPassword) = getPGSuperUserNameAndPassword database;
          dbname = ''*'';
          host = pgRWSvcName cluster;
          port = itoa DefaultPGServerPort
      in \<lparr>sec_Meta = empty_meta\<lparr>om_Name := PGSuperUserSecretName cluster,
            om_Namespace := cluster_namespace cluster, om_Labels := NineConstructLabels cluster\<rparr>,
          sec_Type = ''kubernetes.io/basic-auth'',
          sec_Data = None,
          sec_StringData = Some
            [''username'' \<mapsto> superUserName,
             ''password'' \<mapsto> superUserPassword,
             ''user'' \<mapsto> superUserName,
             ''dbname'' \<mapsto> dbname,
             ''host'' \<mapsto> host,
             ''port'' \<mapsto> port,
             ''pgpass'' \<mapsto> host @ '':'' @ port @ '':'' @ dbname @ '':'' @ superUserName @ '':'' @
                superUserPassword @ [CHR 0x0A],
             ''uri'' \<mapsto> BuildPGUri superUserName superUserPassword host dbname,
             ''jdbc-uri'' \<mapsto> BuildPGJdbc superUserName superUserPassword host dbname]\<rparr>)"

definition reconcilePGSuperUserSecret :: "'w external \<Rightarrow> NineCluster \<Rightarrow> ClusterInfo \<Rightarrow> ('w, unit) op" where
  "reconcilePGSuperUserSecret X cluster database =
     io_bind (io_of (own_secret X cluster (pg_superuser_secret cluster database))) (\<lambda>desired.
       ensure_secret_tolerant X (secret_key desired) desired)"

section \<open>The cluster\<close>

definition pg_desired :: "NineCluster \<Rightarrow> ClusterInfo \<Rightarrow> pg_cluster" where
  "pg_desired cluster pg =
     \<lparr>pg_Meta = NineObjectMeta cluster [PGResourceNameSuffix],
      pg_Instances = DefaultPgReplicas,
      pg_StorageClass = GetStorageClassName pg,
      pg_StorageSize = ''10Gi'',
      pg_Parameters = Some
        [''idle_in_transaction_session_timeout'' \<mapsto> ''120000'',
         ''idle_session_timeout'' \<mapsto> ''60000'',
         ''tcp_keepalives_idle'' \<mapsto> ''120'',
         ''tcp_keepalives_interval'' \<mapsto> ''20'',
         ''tcp_keepalives_count'' \<mapsto> ''10'',
         ''max_connections'' \<mapsto> ''300''],
      pg_HBA = [''host all all 0.0.0.0/0 trust''],
      pg_SuperuserSecret = PGSuperUserSecretName cluster,
      pg_EnableSuperuserAccess = True,
      pg_InitDatabase = PGInitDBName,
      pg_InitSecret = PGInitDBUserSecretName cluster\<rparr>"

definition constructPGCluster :: "'w external \<Rightarrow> NineCluster \<Rightarrow> ClusterInfo \<Rightarrow> go_error + pg_cluster" where
  "constructPGCluster X cluster pg =
     (case x_SetControllerReference X (nc_Meta cluster) (pg_Meta (pg_desired cluster pg)) of
        Inl e \<Rightarrow> Inl e
      | Inr m \<Rightarrow> Inr ((pg_desired cluster pg)\<lparr>pg_Meta := m\<rparr>))"

definition reconcilePGCluster :: "'w external \<Rightarrow> NineCluster \<Rightarrow> ClusterInfo \<Rightarrow> ('w, unit) op" where
  "reconcilePGCluster X cluster pg =
     io_bind (reconcilePGInitDBUserSecret X cluster) (\<lambda>_.
     io_bind (reconcilePGSuperUserSecret X cluster pg) (\<lambda>_.
     io_bind (io_of (constructPGCluster X cluster pg)) (\<lambda>desiredPG.
     io_bind (client_of X PGKind) (\<lambda>_.
       ensure_cr X PGKind (cluster_namespace cluster) (pgResourceName cluster)
         (Some (PGCR desiredPG))))))"

section \<open>Properties\<close>

definition pg_ready :: "'w external \<Rightarrow> NineCluster \<Rightarrow> 'w op_state \<Rightarrow> unit option" where
  "pg_ready X c s =
     (if endpoints_ready X c (pgRWSvcName c) 1 (op_world s) \<noteq> None \<and>
         pods_ready X c (constructPgPodLabel (NineResourceName c [PGResourceNameSuffix])) DefaultPgReplicas (op_world s)
      then Some () else None)"

lemma pg_polls:
  assumes "steady_reads X"
  shows "polls X (pg_wait_body X c) (pg_ready X c)"
  unfolding polls_def
proof
  fix s
  obtain e ep where e: "CheckEndpointsReady X c (pgRWSvcName c) 1 s =
      Some (Ret (e, endpoints_ready X c (pgRWSvcName c) 1 (op_world s) \<noteq> None, ep), s)"
    using CheckEndpointsReady_steady [OF assms] by blast
  obtain e2 where p: "CheckPodsReady X c (constructPgPodLabel (NineResourceName c [PGResourceNameSuffix])) DefaultPgReplicas s =
      Some (Ret (e2, pods_ready X c (constructPgPodLabel (NineResourceName c [PGResourceNameSuffix])) DefaultPgReplicas (op_world s)), s)"
    using CheckPodsReady_steady [OF assms] by blast
  show "pg_wait_body X c () s =
      (case pg_ready X c s of None \<Rightarrow> sleep_continue X 1 () s | Some a \<Rightarrow> loop_done a s)"
    by (auto simp: pg_wait_body_def pg_ready_def io_bind_Some e p)
qed

text \<open>
  The PostgreSQL wait ends exactly when, at some second, the read-write service has an
  address and three pods of the cluster are ready; it ends at the first such second and
  answers with the name of that service in the cluster's namespace.
\<close>
theorem getPGRWSvcNameWithSync_waits:
  assumes "steady_reads X"
  shows "getPGRWSvcNameWithSync X c s = Some (r, s1) \<longleftrightarrow>
    r = Ret (pgRWSvcName c @ ''.'' @ cluster_namespace c @ ''.svc'') \<and>
    (\<exists>n. s1 = after_secs X n s \<and> pg_ready X c s1 \<noteq> None \<and>
       (\<forall>m<n. pg_ready X c (after_secs X m s) = None))"
proof -
  note p = pg_polls [OF assms, of c]
  have "getPGRWSvcNameWithSync X c s = Some (r, s1) \<longleftrightarrow>
      r = Ret (pgRWSvcName c @ ''.'' @ cluster_namespace c @ ''.svc'') \<and>
      loop (pg_wait_body X c) () s = Some (Ret (), s1)"
  proof (cases "loop (pg_wait_body X c) () s")
    case None
    then show ?thesis by (simp add: getPGRWSvcNameWithSync_def io_bind_def)
  next
    case (Some q)
    then obtain t where "q = (Ret (), t)" using poll_result [OF p, of s "fst q" "snd q"] by (cases q) auto
    with Some show ?thesis
      by (auto simp: getPGRWSvcNameWithSync_def io_bind_def io_ret_def pgRWSvcNameInCluster_def)
  qed
  then show ?thesis unfolding poll_result [OF p] by auto
qed

lemma getPGRWSvcNameWithSync_ready:
  assumes "steady_reads X" and "pg_ready X c s \<noteq> None"
  shows "\<exists>name. getPGRWSvcNameWithSync X c s = Some (Ret name, s)"
proof -
  from assms(2) have "loop (pg_wait_body X c) () s = Some (Ret (), s)"
    unfolding poll_result [OF pg_polls [OF assms(1)]] by (auto intro!: exI [of _ 0])
  then show ?thesis by (simp add: getPGRWSvcNameWithSync_def io_bind_def io_ret_def)
qed

definition pg_world :: server_world where
  "pg_world = empty_world
     \<lparr>sw_endpoints := [((''dwh'', ''demo-nine-pg-rw''),
        \<lparr>ep_Subsets = [\<lparr>sub_Addresses = [''10.0.0.9''], sub_Ports = []\<rparr>]\<rparr>)],
      sw_pods := replicate 3 \<lparr>pod_Conditions = [\<lparr>pc_Type = ''Ready'', pc_Status = ''True''\<rparr>]\<rparr>\<rparr>"

theorem getPGRWSvcNameWithSync_waits_witness:
  "getPGRWSvcNameWithSync server demo_cluster (in_world pg_world) =
     Some (Ret ''demo-nine-pg-rw.dwh.svc'', in_world pg_world)"
proof -
  have "pg_ready server demo_cluster (in_world pg_world) \<noteq> None"
    by (simp add: pg_ready_def pods_ready_def endpoints_ready_def pg_world_def in_world_def answer_def
        io_ret_def empty_world_def pgRWSvcName_def pgResourceName_def NineResourceName_def join.simps
        less_int64_def len_def ready_count_def numeral_3_eq_3)
  then show ?thesis
    unfolding getPGRWSvcNameWithSync_waits [OF server_steady]
    by (auto simp: pgRWSvcName_def pgResourceName_def NineResourceName_def join.simps intro!: exI [of _ 0])
qed

text \<open>
  The super user's configured password reaches the secret and not the connection. The secret
  of a database entry with a name and a password of its own carries both; the statements that
  create users and databases connect with the default password whatever the entries say.
\<close>
theorem superuser_password_split:
  assumes "auth_AuthType (cc_Auth (ci_Configs v)) = ClusterAuthTypeSimple"
    and "auth_UserName (cc_Auth (ci_Configs v)) \<noteq> []" and "auth_Password (cc_Auth (ci_Configs v)) \<noteq> []"
  shows "mget (sec_StringData (pg_superuser_secret c v)) ''username'' = Some (auth_UserName (cc_Auth (ci_Configs v))) \<and>
    mget (sec_StringData (pg_superuser_secret c v)) ''password'' = Some (auth_Password (cc_Auth (ci_Configs v))) \<and>
    createDatabase X (with_cluster_set c [v]) u p n = createDatabase X (with_cluster_set c []) u p n"
proof -
  have "CheckEndpointsReady X (with_cluster_set c vs) = CheckEndpointsReady X c"
    "CheckPodsReady X (with_cluster_set c vs) = CheckPodsReady X c"
    "NineResourceName (with_cluster_set c vs) = NineResourceName c" for vs
    by (simp_all add: CheckEndpointsReady_def CheckPodsReady_def NineResourceName_def fun_eq_iff)
  then have "pg_wait_body X (with_cluster_set c vs) = pg_wait_body X c" for vs
    unfolding pg_wait_body_def pgRWSvcName_def pgResourceName_def by (intro ext) metis
  then have "createDatabase X (with_cluster_set c vs) u p n = createDatabase X c u p n" for vs
    by (simp add: createDatabase_def getPGRWSvcNameWithSync_def pgRWSvcNameInCluster_def pgRWSvcName_def
        pgResourceName_def NineResourceName_def)
  with assms show ?thesis
    by (simp add: pg_superuser_secret_def getPGSuperUserNameAndPassword_def Let_def)
qed

theorem superuser_password_split_witness:
  "mget (sec_StringData (pg_superuser_secret demo_cluster (database_default
     \<lparr>ci_Configs := zero_config\<lparr>cc_Auth := \<lparr>auth_AuthType = ''simple'', auth_UserName = ''root'', auth_Password = ''s3cret''\<rparr>\<rparr>\<rparr>)))
     ''password'' = Some ''s3cret''"
  using superuser_password_split [of "database_default
     \<lparr>ci_Configs := zero_config\<lparr>cc_Auth := \<lparr>auth_AuthType = ''simple'', auth_UserName = ''root'', auth_Password = ''s3cret''\<rparr>\<rparr>\<rparr>"
     demo_cluster server] by simp

lemma hex_digit_code: "d < 16 \<Longrightarrow> code (hex_digit d) = (if d < 10 then 48 + d else 55 + d)"
  by (simp add: hex_digit_def code_def digit_char_def of_char_of)

lemma hex_digit_safe: "d < 16 \<Longrightarrow> hex_digit d \<notin> set ''@/?:''"
  using hex_digit_code [of d] by (auto simp: code_def split: if_splits)

lemma separators_escaped: "b \<in> set ''@/?:'' \<Longrightarrow> should_escape b EncodeUserPassword"
  by (auto simp: should_escape_def alphanum_def code_def)

lemma escape_char_safe:
  assumes "b \<in> set (escape_char EncodeUserPassword a)"
  shows "b \<notin> set ''@/?:''"
proof (cases "should_escape a EncodeUserPassword")
  case True
  have "code a < 256" unfolding code_def by (rule nat_of_char_less_256)
  then have "code a div 16 < 16" by (simp add: less_mult_imp_div_less)
  moreover from True assms have "b = CHR ''%'' \<or> b = hex_digit (code a div 16) \<or> b = hex_digit (code a mod 16)"
    by (simp add: escape_char_def)
  ultimately show ?thesis using hex_digit_safe [of "code a div 16"] hex_digit_safe [of "code a mod 16"] by auto
next
  case False
  with assms have "b = a" by (simp add: escape_char_def)
  with False separators_escaped show ?thesis by blast
qed

lemma escape_safe: "set (escape EncodeUserPassword t) \<inter> set ''@/?:'' = {}"
  using escape_char_safe by (fastforce simp: escape_def simp del: list.set)

text \<open>
  No user name or password can forge another part of the connection URI: whatever they
  contain, the user part has no character that ends it or separates the password, the
  first colon after the scheme is the separator, and host and database come after the at sign.
\<close>
theorem BuildPGUri_parts:
  assumes "host \<noteq> []"
  shows "\<exists>u p rest. BuildPGUri username password host dbname = ''postgresql://'' @ u @ '':'' @ p @ ''@'' @ rest \<and>
     set u \<inter> set ''@/?:'' = {} \<and> set p \<inter> set ''@/?:'' = {} \<and>
     rest = escape EncodeHost host @
       (if escaped_path dbname \<noteq> [] \<and> escaped_path dbname ! 0 \<noteq> CHR ''/'' then ''/'' else []) @ escaped_path dbname"
  using assms
  by (intro exI [of _ "escape EncodeUserPassword username"] exI [of _ "escape EncodeUserPassword password"]
        exI [of _ "escape EncodeHost host @ (if escaped_path dbname \<noteq> [] \<and> escaped_path dbname ! 0 \<noteq> CHR ''/''
          then ''/'' else []) @ escaped_path dbname"])
    (use escape_safe in \<open>simp add: BuildPGUri_def url_string_def Let_def\<close>)

theorem BuildPGUri_parts_witness:
  "\<exists>u p rest. BuildPGUri ''ro@ot'' ''a:b/c'' ''demo-nine-pg-rw'' ''*'' =
       ''postgresql://'' @ u @ '':'' @ p @ ''@'' @ rest \<and>
     set u \<inter> set ''@/?:'' = {} \<and> set p \<inter> set ''@/?:'' = {}"
  using BuildPGUri_parts [of "''demo-nine-pg-rw''" "''ro@ot''" "''a:b/c''" "''*''"] by blast

end
