(* ===== verification/Metastore.thy ===== *)
theory Metastore
  imports Hdfs Postgres
begin

text \<open>
  \<open>internal/controller/metastore.go\<close>: the Hive metastore. It waits for the database and for
  the storage, and others wait for it. \<open>MetastoreReplicas\<close> is a package variable: it is part of
  the operator's state, set by one reconcile and read by every later one.
\<close>

definition metastoreResourceName :: "NineCluster \<Rightarrow> string" where
  "metastoreResourceName cluster = NineResourceName cluster [MetastoreResourceNameSuffix]"

definition metastoreSvcName :: "NineCluster \<Rightarrow> string" where
  "metastoreSvcName cluster = metastoreResourceName cluster"

definition constructMetastorePodLabel :: "string \<Rightarrow> (string, string) gomap" where
  "constructMetastorePodLabel name = Some [''cluster'' \<mapsto> name, ''app'' \<mapsto> DefaultMetastoreClusterSign]"

definition initMetastore :: "ClusterInfo \<Rightarrow> ('w, unit) op" where
  "initMetastore metastore =
     io_mod (\<lambda>s. if rc_Replicas (ci_Resource metastore) \<noteq> 0
                 then s\<lparr>op_MetastoreReplicas := rc_Replicas (ci_Resource metastore)\<rparr> else s)"

definition constructMetastoreClusterRefs :: "'w external \<Rightarrow> NineCluster \<Rightarrow> ('w, cluster_ref list) op" where
  "constructMetastoreClusterRefs X cluster =
     io_bind (getDatabaseExposedInfo X cluster) (\<lambda>dbc.
       let crs = [\<lparr>ref_Name = ''database'', ref_Type = ''database'', ref_Part = DatabasePart dbc\<rparr>] in
       if GetClusterStorage cluster = NineClusterStorageHdfs then
         io_bind (getHdfsExposedInfo X cluster) (\<lambda>hdfsExposedInfo.
         io_bind (createHdfsDataDir X hdfsExposedInfo DataHouseDir 511) (\<lambda>_.
           io_ret (crs @ [\<lparr>ref_Name = ''hdfs'', ref_Type = ''hdfs'',
             ref_Part = HdfsPart \<lparr>hs_CoreSite = Some (constructCoreSite cluster),
                                  hs_HdfsSite = Some (constructHdfsSite cluster)\<rparr>\<rparr>])))
       else if GetClusterStorage cluster = NineClusterStorageMinio then
         io_bind (getMinioExposedInfo X cluster) (\<lambda>minioExposedInfo.
         io_bind (createMinioBucketAndFolder X minioExposedInfo DefaultMinioBucket
                    DefaultMinioDataHouseFolder False) (\<lambda>_.
           io_ret (crs @ [\<lparr>ref_Name = ''minio'', ref_Type = ''minio'',
             ref_Part = MinioPart
               \<lparr>mr_Endpoint = minioFullEndpoint (me_Endpoint minioExposedInfo) False,
                mr_AccessKey = me_AccessKey minioExposedInfo,
                mr_SecretKey = me_SecretKey minioExposedInfo,
                mr_SSLEnabled = ''false'', mr_PathStyleAccess = ''true''\<rparr>\<rparr>])))
       else io_ret crs)"

definition constructHiveSite :: "NineCluster \<Rightarrow> string \<rightharpoonup> string" where
  "constructHiveSite cluster =
     (if GetClusterStorage cluster = NineClusterStorageMinio then
        [''hive.metastore.warehouse.dir'' \<mapsto> ''s3a:/'' @ DataHouseDir]
      else if GetClusterStorage cluster = NineClusterStorageHdfs then
        [''hive.metastore.warehouse.dir'' \<mapsto> ''hdfs://'' @ ''nineinfra'' @ DataHouseDir]
      else Map.empty)"

definition metastore_replicas_now :: "('w, int32) op" where
  "metastore_replicas_now = io_get op_MetastoreReplicas"

definition metastore_wait_body :: "'w external \<Rightarrow> NineCluster \<Rightarrow> unit \<Rightarrow> ('w, unit + endpoints) op" where
  "metastore_wait_body X cluster u =
     io_bind metastore_replicas_now (\<lambda>n.
     io_bind (CheckPodsReady X cluster (constructMetastorePodLabel (NineResourceName cluster []))
                (int_of_int32 n)) (\<lambda>(_, ready).
       if \<not> ready then sleep_continue X 1 ()
       else
         io_bind metastore_replicas_now (\<lambda>n.
         io_bind (CheckEndpointsReady X cluster (metastoreSvcName cluster) (int_of_int32 n)) (\<lambda>(_, ready, e).
           if \<not> ready then sleep_continue X 1 () else loop_done e))))"

text \<open>The service name and the first port of the first subset.\<close>

definition getMetastoreExposedInfo :: "'w external \<Rightarrow> NineCluster \<Rightarrow> ('w, string \<times> int32) op" where
  "getMetastoreExposedInfo X cluster =
     io_bind (loop (metastore_wait_body X cluster) ()) (\<lambda>ep.
       case ep_Subsets ep of
         [] \<Rightarrow> io_panic ''index out of range''
       | sub # _ \<Rightarrow>
           (case sub_Ports sub of
              [] \<Rightarrow> io_panic ''index out of range''
            | p # _ \<Rightarrow> io_ret (metastoreSvcName cluster, port_Port p)))"

definition metastore_desired ::
  "NineCluster \<Rightarrow> ClusterInfo \<Rightarrow> int32 \<Rightarrow> cluster_ref list \<Rightarrow> metastore_cluster" where
  "metastore_desired cluster metastore replicas clusterRefs =
     \<lparr>ms_Meta = NineObjectMeta cluster [],
      ms_Version = ci_Version metastore,
      ms_Replicas = replicas,
      ms_Image = (cc_Image (ci_Configs metastore))\<lparr>img_PullSecrets := []\<rparr>,
      ms_Conf = Some (constructHiveSite cluster ++ mrange (cc_Conf (ci_Configs metastore))),
      ms_ClusterRefs = clusterRefs\<rparr>"

definition constructMetastoreCluster ::
  "'w external \<Rightarrow> NineCluster \<Rightarrow> ClusterInfo \<Rightarrow> ('w, metastore_cluster) op" where
  "constructMetastoreCluster X cluster metastore =
     io_bind (constructMetastoreClusterRefs X cluster) (\<lambda>clusterRefs.
     io_bind metastore_replicas_now (\<lambda>replicas.
       let desired = metastore_desired cluster metastore replicas clusterRefs in
       case x_SetControllerReference X (nc_Meta cluster) (ms_Meta desired) of
         Inl e \<Rightarrow> io_fail e
       | Inr m \<Rightarrow> io_ret (desired\<lparr>ms_Meta := m\<rparr>)))"

definition reconcileMetastoreCluster :: "'w external \<Rightarrow> NineCluster \<Rightarrow> ClusterInfo \<Rightarrow> ('w, unit) op" where
  "reconcileMetastoreCluster X cluster metastore =
     io_bind (initMetastore metastore) (\<lambda>_.
     io_bind (io_try (constructMetastoreCluster X cluster metastore)) (\<lambda>r.
       case r of
         Inl e \<Rightarrow> if is_not_found e then io_ret () else io_fail e
       | Inr desired \<Rightarrow>
           io_bind (client_of X MetastoreKind) (\<lambda>_.
             ensure_cr X MetastoreKind (cluster_namespace cluster) (NineResourceName cluster [])
               (Some (MetastoreCR desired)))))"

section \<open>Properties\<close>

definition metastore_ready :: "'w external \<Rightarrow> NineCluster \<Rightarrow> 'w op_state \<Rightarrow> endpoints option" where
  "metastore_ready X c s =
     (if pods_ready X c (constructMetastorePodLabel (NineResourceName c []))
           (int_of_int32 (op_MetastoreReplicas s)) (op_world s)
      then endpoints_ready X c (metastoreSvcName c) (int_of_int32 (op_MetastoreReplicas s)) (op_world s)
      else None)"

lemma metastore_polls:
  fixes X :: "'w external"
  assumes "steady_reads X"
  shows "polls X (metastore_wait_body X c) (metastore_ready X c)"
  unfolding polls_def
proof
  fix s :: "'w op_state"
  let ?n = "int_of_int32 (op_MetastoreReplicas s)"
  obtain e ep where e: "CheckEndpointsReady X c (metastoreSvcName c) ?n s =
      Some (Ret (e, endpoints_ready X c (metastoreSvcName c) ?n (op_world s) \<noteq> None, ep), s)"
    "endpoints_ready X c (metastoreSvcName c) ?n (op_world s) = None \<or>
     endpoints_ready X c (metastoreSvcName c) ?n (op_world s) = Some ep"
    using CheckEndpointsReady_steady [OF assms] by blast
  obtain e2 where p: "CheckPodsReady X c (constructMetastorePodLabel (NineResourceName c [])) ?n s =
      Some (Ret (e2, pods_ready X c (constructMetastorePodLabel (NineResourceName c [])) ?n (op_world s)), s)"
    using CheckPodsReady_steady [OF assms] by blast
  have r: "metastore_replicas_now s = Some (Ret (op_MetastoreReplicas s), s)"
    by (simp add: metastore_replicas_now_def io_get_def)
  show "metastore_wait_body X c () s =
      (case metastore_ready X c s of None \<Rightarrow> sleep_continue X 1 () s | Some a \<Rightarrow> loop_done a s)"
    using e(2) by (auto simp: metastore_wait_body_def metastore_ready_def io_bind_Some e(1) p r)
qed

text \<open>
  The wait for the metastore ends exactly when, at some second, as many of its pods and
  addresses are ready as the shared variable \<open>MetastoreReplicas\<close> says; then the answer is the
  service and its first port, and a panic when the first subset lists no port.
\<close>
theorem getMetastoreExposedInfo_waits:
  assumes "steady_reads X"
  shows "getMetastoreExposedInfo X c s = Some (r, s1) \<longleftrightarrow>
    (\<exists>n ep. s1 = after_secs X n s \<and> metastore_ready X c s1 = Some ep \<and>
       (\<forall>m<n. metastore_ready X c (after_secs X m s) = None) \<and>
       (r = (case ep_Subsets ep of
              [] \<Rightarrow> Panic ''index out of range''
            | sub # _ \<Rightarrow>
                (case sub_Ports sub of
                   [] \<Rightarrow> Panic ''index out of range''
                 | p # _ \<Rightarrow> Ret (metastoreSvcName c, port_Port p)))))"
proof -
  note p = metastore_polls [OF assms, of c]
  have "getMetastoreExposedInfo X c s = Some (r, s1) \<longleftrightarrow>
      (\<exists>ep. loop (metastore_wait_body X c) () s = Some (Ret ep, s1) \<and>
       r = (case ep_Subsets ep of
              [] \<Rightarrow> Panic ''index out of range''
            | sub # _ \<Rightarrow>
                (case sub_Ports sub of
                   [] \<Rightarrow> Panic ''index out of range''
                 | p # _ \<Rightarrow> Ret (metastoreSvcName c, port_Port p))))"
  proof (cases "loop (metastore_wait_body X c) () s")
    case None
    then show ?thesis by (simp add: getMetastoreExposedInfo_def io_bind_def)
  next
    case (Some q)
    then obtain ep t where "q = (Ret ep, t)" using poll_result [OF p, of s "fst q" "snd q"] by (cases q) auto
    with Some show ?thesis
      by (auto simp: getMetastoreExposedInfo_def io_bind_def io_ret_def io_panic_def split: list.splits)
  qed
  then show ?thesis unfolding poll_result [OF p] by auto
qed

definition metastore_world :: server_world where
  "metastore_world = empty_world
     \<lparr>sw_endpoints := [((''dwh'', ''demo-nine-metastore''),
        \<lparr>ep_Subsets = [\<lparr>sub_Addresses = [''10.0.0.5''], sub_Ports = [\<lparr>port_Name = ''thrift'', port_Port = 9083\<rparr>]\<rparr>]\<rparr>)],
      sw_pods := [ready_pod]\<rparr>"

theorem getMetastoreExposedInfo_waits_witness:
  "getMetastoreExposedInfo server demo_cluster (in_world metastore_world) =
     Some (Ret (''demo-nine-metastore'', 9083), in_world metastore_world)"
proof -
  have "metastore_ready server demo_cluster (in_world metastore_world) =
      Some (snd (hd (sw_endpoints metastore_world)))"
    by (simp add: metastore_ready_def pods_ready_def endpoints_ready_def metastore_world_def in_world_def answer_def
        io_ret_def empty_world_def metastoreSvcName_def metastoreResourceName_def NineResourceName_def
        join.simps less_int64_def len_def ready_count_def ready_pod_def int_of_int32_def)
  then show ?thesis
    unfolding getMetastoreExposedInfo_waits [OF server_steady]
    by (intro exI [of _ 0] exI [of _ "snd (hd (sw_endpoints metastore_world))"])
      (simp add: metastore_world_def metastoreSvcName_def metastoreResourceName_def NineResourceName_def)
qed

lemma initMetastore_run:
  "initMetastore v s = Some (Ret (), if rc_Replicas (ci_Resource v) \<noteq> 0
     then s\<lparr>op_MetastoreReplicas := rc_Replicas (ci_Resource v)\<rparr> else s)"
  by (simp add: initMetastore_def io_mod_def)

text \<open>
  The number of metastore replicas leaks from one cluster to the next. After any reconcile has
  set it, the construction for an entry that gives no number uses that number, not the default of one.
\<close>
theorem metastore_replicas_leak:
  assumes "rc_Replicas (ci_Resource v1) = n" and "n \<noteq> 0" and "rc_Replicas (ci_Resource v2) = 0"
    and "constructMetastoreClusterRefs X c2 (s\<lparr>op_MetastoreReplicas := n\<rparr>) = Some (Ret refs, s\<lparr>op_MetastoreReplicas := n\<rparr>)"
    and "x_SetControllerReference X (nc_Meta c2) (NineObjectMeta c2 []) = Inr m"
  shows "\<exists>d. io_bind (initMetastore v1) (\<lambda>_. io_bind (initMetastore v2) (\<lambda>_. constructMetastoreCluster X c2 v2)) s =
      Some (Ret d, s\<lparr>op_MetastoreReplicas := n\<rparr>) \<and> ms_Replicas d = n"
  using assms
  by (simp add: io_bind_def initMetastore_run constructMetastoreCluster_def metastore_replicas_now_def io_get_def
      metastore_desired_def Let_def io_ret_def)

text \<open>A world in which the database and MinIO of the demo cluster are up.\<close>

definition full_world :: server_world where
  "full_world = pg_world\<lparr>sw_services := sw_services minio_world, sw_secrets := sw_secrets minio_world\<rparr>"

definition full_state :: "server_world op_state" where
  "full_state = (in_world full_world)\<lparr>op_MetastoreReplicas := 3\<rparr>"

lemma server_refs:
  "\<exists>refs. constructMetastoreClusterRefs server demo_cluster full_state = Some (Ret refs, full_state)"
proof -
  have w: "op_world full_state = full_world" by (simp add: full_state_def in_world_def)
  have "pg_ready server demo_cluster full_state \<noteq> None"
    by (simp add: pg_ready_def pods_ready_def endpoints_ready_def w full_world_def pg_world_def answer_def
        io_ret_def empty_world_def pgRWSvcName_def pgResourceName_def NineResourceName_def join.simps
        less_int64_def len_def ready_count_def numeral_3_eq_3)
  from getPGRWSvcNameWithSync_ready [OF server_steady this]
  have db: "\<exists>dbc. getDatabaseExposedInfo server demo_cluster full_state = Some (Ret dbc, full_state)"
    by (auto simp: getDatabaseExposedInfo_def io_bind_def io_ret_def)
  have up: "full_state\<lparr>op_world := full_world\<rparr> = full_state" by (simp add: w [symmetric])
  have "sw_services full_world = [((''dwh'', ''minio''), \<lparr>svc_ClusterIP = ''10.1.2.3''\<rparr>)]"
    "sw_secrets full_world = [((''dwh'', MinioNewUserName demo_cluster), demo_secret)]"
    by (simp_all add: full_world_def minio_world_def)
  then have "ext_call (x_GetService server ''dwh'' ''minio'') full_state =
      Some (Ret \<lparr>svc_ClusterIP = ''10.1.2.3''\<rparr>, full_state)"
    "get_secret server (''dwh'', MinioNewUserName demo_cluster) full_state = Some (Ret demo_secret, full_state)"
    by (simp_all add: get_secret_def ext_call_def w up answer_def io_ret_def)
  then have body: "minio_wait_body server demo_cluster empty_service full_state =
      Some (Ret (Inr (\<lparr>svc_ClusterIP = ''10.1.2.3''\<rparr>, demo_secret)), full_state)"
    by (simp add: minio_wait_body_def io_bind_def io_try_def Let_def loop_done_apply)
  from body have "loop (minio_wait_body server demo_cluster) empty_service full_state =
      Some (Ret (\<lparr>svc_ClusterIP = ''10.1.2.3''\<rparr>, demo_secret), full_state)" by (rule loop_break)
  then have minio: "\<exists>info. getMinioExposedInfo server demo_cluster full_state = Some (Ret info, full_state)"
    by (simp add: getMinioExposedInfo_def io_bind_def io_ret_def)
  have call: "ext_call (x_MinioNew server i b) full_state = Some (Ret (), full_state)"
    "ext_call (x_BucketExists server i t) full_state = Some (Ret True, full_state)"
    "ext_call (x_StatObject server i t f) full_state = Some (Ret (), full_state)" for i b t f
    by (simp_all add: ext_call_def server_def io_ret_def)
  have "loop (bucket_wait_body server i t) () full_state = Some (Ret (), full_state)" for i t
    by (rule loop_break) (simp add: bucket_wait_body_def io_bind_def io_try_def call loop_done_apply)
  then have bucket: "createMinioBucketAndFolder server i b f e full_state = Some (Ret (), full_state)" for i b f e
    by (simp add: createMinioBucketAndFolder_def io_bind_def io_try_def call io_ret_def)
  have "GetClusterStorage demo_cluster = NineClusterStorageMinio"
    by (simp add: GetClusterStorage_def)
  with db minio show ?thesis
    by (auto simp: constructMetastoreClusterRefs_def io_bind_def bucket io_ret_def Let_def)
qed

theorem metastore_replicas_leak_witness:
  "\<exists>d s1. io_bind (initMetastore (metastore_default\<lparr>ci_Resource := zero_resource\<lparr>rc_Replicas := 3\<rparr>\<rparr>))
       (\<lambda>_. io_bind (initMetastore metastore_default) (\<lambda>_. constructMetastoreCluster server demo_cluster metastore_default))
       (in_world full_world) = Some (Ret d, s1) \<and> ms_Replicas d = 3"
proof -
  obtain refs where "constructMetastoreClusterRefs server demo_cluster full_state = Some (Ret refs, full_state)"
    using server_refs by blast
  then show ?thesis
    using metastore_replicas_leak [of "metastore_default\<lparr>ci_Resource := zero_resource\<lparr>rc_Replicas := 3\<rparr>\<rparr>" 3
        metastore_default server demo_cluster "in_world full_world" refs]
    by (auto simp: full_state_def metastore_default_def zero_cluster_def zero_resource_def)
qed

end
