(* ===== verification/Kyuubi.thy ===== *)
theory Kyuubi
  imports Metastore
begin

text \<open>
  \<open>internal/controller/kyuubi.go\<close>: the Kyuubi cluster, which needs the metastore, the database
  (for its own authentication), Spark's settings and, with high availability, ZooKeeper.
\<close>

definition getKyuubiReplicas :: "NineCluster \<Rightarrow> ClusterInfo \<Rightarrow> int32" where
  "getKyuubiReplicas cluster kyuubi =
     (let replicas = rc_Replicas (ci_Resource kyuubi) in
      if IsKyuubiNeedHA cluster then 2 else if replicas = 0 then 1 else replicas)"

definition constructMetastoreConf :: "'w external \<Rightarrow> NineCluster \<Rightarrow> ('w, string \<rightharpoonup> string) op" where
  "constructMetastoreConf X cluster =
     io_bind (getMetastoreExposedInfo X cluster) (\<lambda>(serviceName, port).
       io_ret ((constructHiveSite cluster)(''hive.metastore.uris'' \<mapsto>
         ''thrift://'' @ serviceName @ ''.'' @ cluster_namespace cluster @ ''.svc.'' @
         GetClusterDomain cluster MetaStoreClusterType @ '':'' @ itoa (sint port))))"

definition getAuthConfig :: "ClusterInfo \<Rightarrow> AuthConfig" where
  "getAuthConfig kyuubi =
     (if auth_AuthType (cc_Auth (ci_Configs kyuubi)) = [] then
        \<lparr>auth_AuthType = ClusterAuthTypeJDBC, auth_UserName = DefaultKyuubiAuthUserName,
         auth_Password = DefaultKyuubiAuthPassword\<rparr>
      else cc_Auth (ci_Configs kyuubi))"

definition quote :: string where
  "quote = [CHR 0x27]"

definition create_users_table :: string where
  "create_users_table = ''CREATE TABLE IF NOT EXISTS users (username TEXT PRIMARY KEY,passwd TEXT)''"

definition insert_user :: string where
  "insert_user = ''INSERT INTO users (username, passwd) VALUES ($1, $2)''"

definition configJdbcAuth :: "'w external \<Rightarrow> NineCluster \<Rightarrow> AuthConfig \<Rightarrow> ('w, unit) op" where
  "configJdbcAuth X cluster authConfig =
     (if auth_AuthType authConfig = ClusterAuthTypeJDBC then
        (let dbUser = DefaultKyuubiAuthUserName; dbPassword = DefaultKyuubiAuthPassword;
             dbName = DefaultKyuubiAuthDatabase
         in io_bind (createDatabase X cluster dbUser dbPassword dbName) (\<lambda>_.
            io_bind (executeSql X cluster dbUser dbPassword dbName create_users_table []) (\<lambda>_.
            let passwd = x_MD5Hex X (DefualtPasswordMD5Salt @ auth_Password authConfig) in
            io_bind (io_try (executeSql X cluster dbUser dbPassword dbName insert_user
                               [auth_UserName authConfig, passwd])) (\<lambda>r.
              case r of
                Inl e \<Rightarrow> if \<not> contains (err_text e) PGErrorDuplicateKey then io_fail e else io_ret ()
              | Inr _ \<Rightarrow> io_ret ()))))
      else io_ret ())"

definition auth_query :: string where
  "auth_query = ''SELECT 1 FROM users WHERE username=${user} AND passwd=MD5(CONCAT('' @ quote @
     ''nineinfra'' @ quote @ '',${password}))''"

definition kyuubi_base_conf :: "NineCluster \<Rightarrow> AuthConfig \<Rightarrow> string \<rightharpoonup> string" where
  "kyuubi_base_conf cluster authConfig =
     (if auth_AuthType authConfig = ClusterAuthTypeJDBC then
        [''kyuubi.kubernetes.namespace'' \<mapsto> cluster_namespace cluster,
         ''kyuubi.authentication'' \<mapsto> ''JDBC'',
         ''kyuubi.authentication.jdbc.driver.class'' \<mapsto> ''org.postgresql.Driver'',
         ''kyuubi.authentication.jdbc.url'' \<mapsto> BuildPGJdbcWithCluster cluster [] [] DefaultKyuubiAuthDatabase,
         ''kyuubi.authentication.jdbc.user'' \<mapsto> DefaultKyuubiAuthUserName,
         ''kyuubi.authentication.jdbc.password'' \<mapsto> DefaultKyuubiAuthPassword,
         ''kyuubi.authentication.jdbc.query'' \<mapsto> auth_query]
      else [''kyuubi.kubernetes.namespace'' \<mapsto> cluster_namespace cluster])"

definition constructKyuubiConf :: "'w external \<Rightarrow> NineCluster \<Rightarrow> ClusterInfo \<Rightarrow> ('w, string \<rightharpoonup> string) op" where
  "constructKyuubiConf X cluster kyuubi =
     (let authConfig = getAuthConfig kyuubi in
      io_bind (configJdbcAuth X cluster authConfig) (\<lambda>_.
      let kyuubiConf = kyuubi_base_conf cluster authConfig in
      io_bind (if IsKyuubiNeedHA cluster then
                 io_bind (getZookeeperExposedInfo X cluster) (\<lambda>zkIpAndPorts.
                   io_ret (kyuubiConf
                     (''kyuubi.ha.namespace'' \<mapsto> DefaultKyuubiZKNamespace,
                      ''kyuubi.ha.client.class'' \<mapsto>
                        ''org.apache.kyuubi.ha.client.zookeeper.ZookeeperDiscoveryClient'',
                      ''kyuubi.ha.addresses'' \<mapsto> join '','' zkIpAndPorts)))
               else io_ret kyuubiConf) (\<lambda>kyuubiConf.
        io_ret (kyuubiConf ++ mrange (cc_Conf (ci_Configs kyuubi))))))"

definition shuffle_key :: "string \<Rightarrow> string" where
  "shuffle_key s =
     ''spark.kubernetes.executor.volumes.persistentVolumeClaim.spark-local-dir-1.'' @ s"

definition with_shuffle_disk :: "ClusterInfo \<Rightarrow> (string \<rightharpoonup> string) \<Rightarrow> string \<rightharpoonup> string" where
  "with_shuffle_disk kyuubi sparkConf =
     (if sparkConf (shuffle_key ''options.sizeLimit'') = None then
        sparkConf
          (shuffle_key ''options.claimName'' \<mapsto> ''OnDemand'',
           shuffle_key ''options.storageClass'' \<mapsto> GetStorageClassName kyuubi,
           shuffle_key ''options.sizeLimit'' \<mapsto> DefaultShuffleDiskSize,
           shuffle_key ''mount.path'' \<mapsto> DefaultShuffleDiskMountPath,
           shuffle_key ''mount.readOnly'' \<mapsto> ''false'')
      else sparkConf)"

definition spark_minio_conf :: "MinioExposedInfo \<Rightarrow> string \<rightharpoonup> string" where
  "spark_minio_conf info =
     [''spark.hadoop.fs.s3a.access.key'' \<mapsto> me_AccessKey info,
      ''spark.hadoop.fs.s3a.secret.key'' \<mapsto> me_SecretKey info,
      ''spark.hadoop.fs.s3a.path.style.access'' \<mapsto> ''true'',
      ''spark.hadoop.fs.s3a.connection.ssl.enabled'' \<mapsto> ''false'',
      ''spark.hadoop.fs.s3a.endpoint'' \<mapsto> minioFullEndpoint (me_Endpoint info) False]"

text \<open>\<open>GetRefClusterInfo\<close> returns a pointer, which the callers read without a nil check.\<close>

definition deref_spark :: "NineCluster \<Rightarrow> ('w, ClusterInfo) op" where
  "deref_spark cluster =
     (case GetRefClusterInfo cluster SparkClusterType of
        None \<Rightarrow> io_panic ''nil pointer dereference''
      | Some spark \<Rightarrow> io_ret spark)"

definition constructSparkConf :: "'w external \<Rightarrow> NineCluster \<Rightarrow> ClusterInfo \<Rightarrow> ('w, string \<rightharpoonup> string) op" where
  "constructSparkConf X cluster kyuubi =
     io_bind (if GetClusterStorage cluster = NineClusterStorageMinio then
                io_bind (getMinioExposedInfo X cluster) (\<lambda>info. io_ret (spark_minio_conf info))
              else io_ret Map.empty) (\<lambda>sparkConf.
     io_bind (deref_spark cluster) (\<lambda>spark.
       io_ret (with_shuffle_disk kyuubi (sparkConf ++ mrange (cc_Conf (ci_Configs spark))))))"

definition spark_ref :: "NineCluster \<Rightarrow> ClusterInfo \<Rightarrow> (string \<rightharpoonup> string) \<Rightarrow> cluster_ref" where
  "spark_ref cluster spark sparkConf =
     \<lparr>ref_Name = ''spark'', ref_Type = ''spark'',
      ref_Part = SparkPart
        \<lparr>spark_Master = ''k8s'',
         spark_Image = (cc_Image (ci_Configs spark))\<lparr>img_PullSecrets := []\<rparr>,
         spark_Namespace = cluster_namespace cluster,
         spark_Defaults = Some sparkConf\<rparr>\<rparr>"

definition hdfs_ref :: "NineCluster \<Rightarrow> cluster_ref" where
  "hdfs_ref cluster =
     \<lparr>ref_Name = ''hdfs'', ref_Type = ''hdfs'',
      ref_Part = HdfsPart \<lparr>hs_CoreSite = Some (constructCoreSite cluster),
                           hs_HdfsSite = Some (constructHdfsSite cluster)\<rparr>\<rparr>"

definition constructKyuubiClusterRefs ::
  "'w external \<Rightarrow> NineCluster \<Rightarrow> ClusterInfo \<Rightarrow> ('w, cluster_ref list) op" where
  "constructKyuubiClusterRefs X cluster kyuubi =
     io_bind (constructMetastoreConf X cluster) (\<lambda>metastoreConf.
       let clusterRefs = [\<lparr>ref_Name = ''metastore'', ref_Type = ''metastore'',
                           ref_Part = MetastorePart (Some metastoreConf)\<rparr>] in
       io_bind (if ns_Type (nc_Spec cluster) = NineClusterTypeBatch then
                  io_bind (constructSparkConf X cluster kyuubi) (\<lambda>sparkConf.
                  io_bind (deref_spark cluster) (\<lambda>spark.
                    io_ret (clusterRefs @ [spark_ref cluster spark sparkConf])))
                else io_ret clusterRefs) (\<lambda>clusterRefs.
         io_ret (if GetClusterStorage cluster = NineClusterStorageHdfs
                 then clusterRefs @ [hdfs_ref cluster] else clusterRefs)))"

definition kyuubi_desired ::
  "NineCluster \<Rightarrow> ClusterInfo \<Rightarrow> (string \<rightharpoonup> string) \<Rightarrow> cluster_ref list \<Rightarrow> kyuubi_cluster" where
  "kyuubi_desired cluster kyuubi kyuubiConf clusterRefs =
     \<lparr>ky_Meta = NineObjectMeta cluster [],
      ky_Version = ci_Version kyuubi,
      ky_Replicas = getKyuubiReplicas cluster kyuubi,
      ky_Image = (cc_Image (ci_Configs kyuubi))\<lparr>img_PullSecrets := []\<rparr>,
      ky_Conf = Some kyuubiConf,
      ky_ClusterRefs = clusterRefs\<rparr>"

definition constructKyuubiCluster ::
  "'w external \<Rightarrow> NineCluster \<Rightarrow> ClusterInfo \<Rightarrow> ('w, kyuubi_cluster) op" where
  "constructKyuubiCluster X cluster kyuubi =
     io_bind (constructKyuubiConf X cluster kyuubi) (\<lambda>kyuubiConf.
     io_bind (constructKyuubiClusterRefs X cluster kyuubi) (\<lambda>clusterRefs.
       let desired = kyuubi_desired cluster kyuubi kyuubiConf clusterRefs in
       case x_SetControllerReference X (nc_Meta cluster) (ky_Meta desired) of
         Inl e \<Rightarrow> io_fail e
       | Inr m \<Rightarrow> io_ret (desired\<lparr>ky_Meta := m\<rparr>)))"

definition reconcileKyuubiCluster :: "'w external \<Rightarrow> NineCluster \<Rightarrow> ClusterInfo \<Rightarrow> ('w, unit) op" where
  "reconcileKyuubiCluster X cluster kyuubi =
     io_bind (io_try (constructKyuubiCluster X cluster kyuubi)) (\<lambda>r.
       case r of
         Inl e \<Rightarrow> if is_not_found e then io_ret () else io_fail e
       | Inr desired \<Rightarrow>
           io_bind (client_of X KyuubiKind) (\<lambda>_.
             ensure_cr X KyuubiKind (cluster_namespace cluster) (NineResourceName cluster [])
               (Some (KyuubiCR desired))))"

section \<open>Properties\<close>

text \<open>
  A Kyuubi cluster never asks for zero replicas: two with high availability, the entry's own
  number without, and one when the entry gives none.
\<close>
theorem getKyuubiReplicas_positive:
  "getKyuubiReplicas c v \<noteq> 0 \<and>
   (getKyuubiReplicas c v = rc_Replicas (ci_Resource v) \<or>
    getKyuubiReplicas c v = (if IsKyuubiNeedHA c then 2 else 1))"
  by (simp add: getKyuubiReplicas_def Let_def)

text \<open>
  The user has the last word on Kyuubi's configuration: every key of the entry's own
  configuration keeps its value, and of the others exactly the derived ones are there, with
  the ZooKeeper addresses when Kyuubi is highly available.
\<close>
theorem constructKyuubiConf_user_wins:
  assumes "constructKyuubiConf X c v s = Some (Ret conf, s1)"
  shows "\<exists>derived. (\<forall>k. conf k = (case mget (cc_Conf (ci_Configs v)) k of Some u \<Rightarrow> Some u | None \<Rightarrow> derived k)) \<and>
    derived ''kyuubi.kubernetes.namespace'' = Some (cluster_namespace c) \<and>
    (if IsKyuubiNeedHA c
     then \<exists>zks t. getZookeeperExposedInfo X c t = Some (Ret zks, s1) \<and>
       derived ''kyuubi.ha.addresses'' = Some (join '','' zks)
     else derived ''kyuubi.ha.addresses'' = None)"
proof -
  have base: "kyuubi_base_conf c a ''kyuubi.kubernetes.namespace'' = Some (cluster_namespace c)"
    "kyuubi_base_conf c a ''kyuubi.ha.addresses'' = None" for a
    by (simp_all add: kyuubi_base_conf_def)
  have add: "(d ++ mrange m) k = (case mget m k of Some u \<Rightarrow> Some u | None \<Rightarrow> d k)" for d :: "string \<rightharpoonup> string" and m k
    by (simp add: map_add_def mrange_mget)
  show ?thesis
  proof (cases "IsKyuubiNeedHA c")
    case True
    with assms obtain zks t where "getZookeeperExposedInfo X c t = Some (Ret zks, s1)"
      "conf = (kyuubi_base_conf c (getAuthConfig v))
                     (''kyuubi.ha.namespace'' \<mapsto> DefaultKyuubiZKNamespace,
                      ''kyuubi.ha.client.class'' \<mapsto>
                        ''org.apache.kyuubi.ha.client.zookeeper.ZookeeperDiscoveryClient'',
                      ''kyuubi.ha.addresses'' \<mapsto> join '','' zks) ++ mrange (cc_Conf (ci_Configs v))"
      by (auto simp: constructKyuubiConf_def Let_def io_ret_def elim!: io_bind_RetE)
    with True show ?thesis
      by (intro exI [of _ "(kyuubi_base_conf c (getAuthConfig v))
                     (''kyuubi.ha.namespace'' \<mapsto> DefaultKyuubiZKNamespace,
                      ''kyuubi.ha.client.class'' \<mapsto>
                        ''org.apache.kyuubi.ha.client.zookeeper.ZookeeperDiscoveryClient'',
                      ''kyuubi.ha.addresses'' \<mapsto> join '','' zks)"])
        (auto simp: add base)
  next
    case False
    with assms have "conf = kyuubi_base_conf c (getAuthConfig v) ++ mrange (cc_Conf (ci_Configs v))"
      by (auto simp: constructKyuubiConf_def Let_def io_ret_def elim!: io_bind_RetE)
    with False show ?thesis
      by (intro exI [of _ "kyuubi_base_conf c (getAuthConfig v)"]) (simp add: add base)
  qed
qed

definition plain_kyuubi :: ClusterInfo where
  "plain_kyuubi = kyuubi_default\<lparr>ci_Configs := zero_config
     \<lparr>cc_Auth := zero_auth\<lparr>auth_AuthType := ''none''\<rparr>,
      cc_Conf := Some [''kyuubi.kubernetes.namespace'' \<mapsto> ''engines'']\<rparr>\<rparr>"

theorem constructKyuubiConf_user_wins_witness:
  "\<exists>conf. constructKyuubiConf server demo_cluster plain_kyuubi (in_world empty_world) =
       Some (Ret conf, in_world empty_world) \<and> conf ''kyuubi.kubernetes.namespace'' = Some ''engines''"
proof -
  have "\<not> IsKyuubiNeedHA demo_cluster" by (simp add: IsKyuubiNeedHA_def)
  then obtain conf where c: "constructKyuubiConf server demo_cluster plain_kyuubi (in_world empty_world) =
       Some (Ret conf, in_world empty_world)"
    by (simp add: constructKyuubiConf_def Let_def getAuthConfig_def plain_kyuubi_def zero_config_def
        configJdbcAuth_def io_bind_def io_ret_def)
  have "mget (cc_Conf (ci_Configs plain_kyuubi)) ''kyuubi.kubernetes.namespace'' = Some ''engines''"
    by (simp add: plain_kyuubi_def)
  with constructKyuubiConf_user_wins [OF c] c show ?thesis by auto
qed

lemma shuffle_key_inj [simp]: "shuffle_key a = shuffle_key b \<longleftrightarrow> a = b"
  by (simp add: shuffle_key_def)

text \<open>
  Every Spark executor gets a bounded local disk. The configuration built for Spark always
  sets the size limit of the shuffle volume; the user's own limit is kept, with every other
  key the user sets, and without one all five keys of the volume are the operator's.
\<close>
theorem constructSparkConf_shuffle_disk:
  assumes "constructSparkConf X c v s = Some (Ret conf, s1)" and "GetRefClusterInfo c SparkClusterType = Some spark"
  shows "conf (shuffle_key ''options.sizeLimit'') \<noteq> None \<and>
    (case mget (cc_Conf (ci_Configs spark)) (shuffle_key ''options.sizeLimit'') of
       Some limit \<Rightarrow> (\<forall>k u. mget (cc_Conf (ci_Configs spark)) k = Some u \<longrightarrow> conf k = Some u)
     | None \<Rightarrow>
         conf (shuffle_key ''options.sizeLimit'') = Some DefaultShuffleDiskSize \<and>
         conf (shuffle_key ''options.storageClass'') = Some (GetStorageClassName v) \<and>
         conf (shuffle_key ''options.claimName'') = Some ''OnDemand'' \<and>
         conf (shuffle_key ''mount.path'') = Some DefaultShuffleDiskMountPath \<and>
         conf (shuffle_key ''mount.readOnly'') = Some ''false'')"
proof -
  have "\<exists>base. conf = with_shuffle_disk v (base ++ mrange (cc_Conf (ci_Configs spark))) \<and>
      (base = Map.empty \<or> (\<exists>info. base = spark_minio_conf info))"
  proof (cases "GetClusterStorage c = NineClusterStorageMinio")
    case True
    with assms obtain info where
      "conf = with_shuffle_disk v (spark_minio_conf info ++ mrange (cc_Conf (ci_Configs spark)))"
      by (auto simp: constructSparkConf_def deref_spark_def io_ret_def elim!: io_bind_RetE)
    then show ?thesis by blast
  next
    case False
    with assms have "conf = with_shuffle_disk v (Map.empty ++ mrange (cc_Conf (ci_Configs spark)))"
      by (auto simp: constructSparkConf_def deref_spark_def io_ret_def elim!: io_bind_RetE)
    then show ?thesis by blast
  qed
  then obtain base where conf: "conf = with_shuffle_disk v (base ++ mrange (cc_Conf (ci_Configs spark)))"
    and base: "base = Map.empty \<or> (\<exists>info. base = spark_minio_conf info)" by blast
  from base have none: "base (shuffle_key ''options.sizeLimit'') = None"
    by (auto simp: spark_minio_conf_def shuffle_key_def)
  show ?thesis
  proof (cases "mget (cc_Conf (ci_Configs spark)) (shuffle_key ''options.sizeLimit'')")
    case None
    with none show ?thesis by (simp add: conf with_shuffle_disk_def map_add_def mrange_mget)
  next
    case (Some limit)
    then show ?thesis by (simp add: conf with_shuffle_disk_def map_add_def mrange_mget)
  qed
qed

definition hdfs_spark_cluster :: NineCluster where
  "hdfs_spark_cluster = demo_cluster\<lparr>nc_Spec := (nc_Spec demo_cluster)
     \<lparr>ns_Features := Some [NineClusterFeatureStorage \<mapsto> NineClusterStorageHdfs], ns_ClusterSet := [spark_default]\<rparr>\<rparr>"

theorem constructSparkConf_shuffle_disk_witness:
  "\<exists>conf. constructSparkConf server hdfs_spark_cluster kyuubi_default (in_world empty_world) =
       Some (Ret conf, in_world empty_world) \<and> conf (shuffle_key ''options.sizeLimit'') = Some ''200Gi''"
proof -
  have ref: "GetRefClusterInfo hdfs_spark_cluster SparkClusterType = Some spark_default"
    by (simp add: GetRefClusterInfo_def hdfs_spark_cluster_def)
  have "GetClusterStorage hdfs_spark_cluster = NineClusterStorageHdfs"
    by (simp add: GetClusterStorage_def hdfs_spark_cluster_def CheckStorageSupported_def
        NineInfraSupportedStorageList_def)
  with ref obtain conf where c: "constructSparkConf server hdfs_spark_cluster kyuubi_default (in_world empty_world) =
       Some (Ret conf, in_world empty_world)"
    by (simp add: constructSparkConf_def deref_spark_def io_bind_def io_ret_def)
  have "cc_Conf (ci_Configs spark_default) = None"
    by (simp add: spark_default_def image_of_def zero_config_def)
  with constructSparkConf_shuffle_disk [OF c ref] c show ?thesis by auto
qed

end
