(* ===== verification/Doris.thy ===== *)
theory Doris
  imports Server
begin

text \<open>\<open>internal/controller/doris.go\<close>: the Doris cluster, built from its front-end and back-end entries.\<close>

abbreviation DorisResourceNameSuffix :: string where "DorisResourceNameSuffix \<equiv> ''-doris''"
abbreviation DefaultDorisBeStorageMountPath :: string where
  "DefaultDorisBeStorageMountPath \<equiv> ''/opt/apache-doris/be/storage''"
abbreviation DefaultDorisFeStorageMountPath :: string where
  "DefaultDorisFeStorageMountPath \<equiv> ''/opt/apache-doris/fe/doris-meta ''"
abbreviation DefaultDorisBeStoragePVName :: string where "DefaultDorisBeStoragePVName \<equiv> ''bestorage''"
abbreviation DefaultDorisFeStoragePVName :: string where "DefaultDorisFeStoragePVName \<equiv> ''femeta''"
abbreviation DefaultDorisAdminUser :: string where "DefaultDorisAdminUser \<equiv> ''root''"
abbreviation DefaultDorisAdminPassword :: string where "DefaultDorisAdminPassword \<equiv> ''''"

text \<open>
  The nested loops over the references and the cluster set; each hit overwrites, so the
  last match counts. \<open>None\<close> is a part not found.
\<close>

definition fe_be_step ::
  "ClusterType \<Rightarrow> ClusterInfo \<Rightarrow> ClusterInfo option \<times> ClusterInfo option \<Rightarrow>
     ClusterInfo option \<times> ClusterInfo option" where
  "fe_be_step cType v found =
     (if cType = ci_Type v then
        (if cType = DorisFEClusterType then (Some v, snd found)
         else if cType = DorisBEClusterType then (fst found, Some v)
         else found)
      else found)"

definition getFEAndBEClusterInfo ::
  "NineCluster \<Rightarrow> ClusterInfo \<Rightarrow> go_error + ClusterInfo \<times> ClusterInfo" where
  "getFEAndBEClusterInfo cluster doris =
     (case fold (\<lambda>cType found. fold (fe_be_step cType) (cluster_set cluster) found)
             (ci_ClusterRefs doris) (None, None) of
        (Some fe, Some be) \<Rightarrow> Inr (fe, be)
      | _ \<Rightarrow> Inl (new_error ''invalid parameters,please supply valid fe and be info''))"

definition getAdminUserInfo :: "ClusterInfo \<Rightarrow> string \<times> string" where
  "getAdminUserInfo doris =
     (let auth = cc_Auth (ci_Configs doris);
          userName = (if auth_UserName auth = [] then DefaultDorisAdminUser else auth_UserName auth);
          password = (if auth_Password auth = [] then DefaultDorisAdminPassword else auth_Password auth)
      in (userName, password))"

definition doris_replicas :: "ClusterInfo \<Rightarrow> int32" where
  "doris_replicas c = (if rc_Replicas (ci_Resource c) \<noteq> 0 then rc_Replicas (ci_Resource c) else 3)"

definition doris_claim :: "ClusterInfo \<Rightarrow> claim_spec" where
  "doris_claim c =
     \<lparr>pvc_AccessModes = [''ReadWriteOnce''],
      pvc_Resources = no_requirements\<lparr>rr_Requests := Some [''storage'' \<mapsto>
        (case mget (rr_Requests (rc_ResourceRequirements (ci_Resource c))) ''storage'' of
           None \<Rightarrow> zero_quantity | Some q \<Rightarrow> q)]\<rparr>,
      pvc_StorageClassName = Some (GetStorageClassName c)\<rparr>"

definition doris_part :: "ClusterInfo \<Rightarrow> string \<Rightarrow> string \<Rightarrow> doris_node" where
  "doris_part c mountPath volumeName =
     \<lparr>dn_Replicas = doris_replicas c,
      dn_Image = img_Repository (cc_Image (ci_Configs c)) @ '':'' @ img_Tag (cc_Image (ci_Configs c)),
      dn_MountPath = mountPath, dn_VolumeName = volumeName, dn_Claim = doris_claim c\<rparr>"

definition doris_desired :: "NineCluster \<Rightarrow> ClusterInfo \<Rightarrow> ClusterInfo \<Rightarrow> ClusterInfo \<Rightarrow> doris_cluster" where
  "doris_desired cluster doris fecluster becluster =
     \<lparr>do_Meta = NineObjectMeta cluster [DorisResourceNameSuffix],
      do_ElectionNumber = doris_replicas fecluster,
      do_Fe = doris_part fecluster DefaultDorisFeStorageMountPath DefaultDorisFeStoragePVName,
      do_Be = doris_part becluster DefaultDorisBeStorageMountPath DefaultDorisBeStoragePVName,
      do_AdminName = fst (getAdminUserInfo doris),
      do_AdminPassword = snd (getAdminUserInfo doris)\<rparr>"

definition constructDorisCluster ::
  "'w external \<Rightarrow> NineCluster \<Rightarrow> ClusterInfo \<Rightarrow> go_error + doris_cluster" where
  "constructDorisCluster X cluster doris =
     (case getFEAndBEClusterInfo cluster doris of
        Inl e \<Rightarrow> Inl e
      | Inr (fe, be) \<Rightarrow>
          (case x_SetControllerReference X (nc_Meta cluster) (do_Meta (doris_desired cluster doris fe be)) of
             Inl e \<Rightarrow> Inl e
           | Inr m \<Rightarrow> Inr ((doris_desired cluster doris fe be)\<lparr>do_Meta := m\<rparr>)))"

text \<open>The construction's error is discarded: the desired cluster is then nil.\<close>

definition reconcileDorisCluster :: "'w external \<Rightarrow> NineCluster \<Rightarrow> ClusterInfo \<Rightarrow> ('w, unit) op" where
  "reconcileDorisCluster X cluster doris =
     io_bind (client_of X DorisKind) (\<lambda>_.
       ensure_cr X DorisKind (cluster_namespace cluster) (NineResourceName cluster [DorisResourceNameSuffix])
         (case constructDorisCluster X cluster doris of Inl _ \<Rightarrow> None | Inr d \<Rightarrow> Some (DorisCR d)))"

section \<open>Properties\<close>

lemma fe_be_inner:
  "fold (fe_be_step t) us found =
     (if t = DorisFEClusterType \<and> filter (\<lambda>u. ci_Type u = t) us \<noteq> []
        then (Some (last (filter (\<lambda>u. ci_Type u = t) us)), snd found)
      else if t = DorisBEClusterType \<and> filter (\<lambda>u. ci_Type u = t) us \<noteq> []
        then (fst found, Some (last (filter (\<lambda>u. ci_Type u = t) us)))
      else found)"
  by (induction us arbitrary: found) (auto simp: fe_be_step_def)

definition last_of :: "ClusterType \<Rightarrow> ClusterInfo list \<Rightarrow> ClusterInfo option" where
  "last_of t us =
     (if filter (\<lambda>u. ci_Type u = t) us = [] then None else Some (last (filter (\<lambda>u. ci_Type u = t) us)))"

lemma fe_be_inner_last_of:
  "fold (fe_be_step t) us (fe, be) =
     (if t = DorisFEClusterType \<and> last_of t us \<noteq> None then last_of t us else fe,
      if t = DorisBEClusterType \<and> last_of t us \<noteq> None then last_of t us else be)"
  by (auto simp: fe_be_inner last_of_def)

lemma fe_be_outer:
  "fold (\<lambda>t found. fold (fe_be_step t) us found) ts (fe, be) =
     (if DorisFEClusterType \<in> set ts \<and> last_of DorisFEClusterType us \<noteq> None
        then last_of DorisFEClusterType us else fe,
      if DorisBEClusterType \<in> set ts \<and> last_of DorisBEClusterType us \<noteq> None
        then last_of DorisBEClusterType us else be)"
proof (induction ts arbitrary: fe be)
  case (Cons t ts)
  show ?case
    by (cases "t = DorisFEClusterType"; cases "t = DorisBEClusterType")
      (simp_all add: fe_be_inner_last_of Cons.IH)
qed simp

text \<open>
  The front end and the back end of a Doris entry are the last entries of the two types in
  the cluster set, when the entry refers to both types and both are there, in whatever order;
  in every other case the look-up is the error that asks for both.
\<close>
theorem getFEAndBEClusterInfo_last:
  "getFEAndBEClusterInfo c v =
     (if {DorisFEClusterType, DorisBEClusterType} \<subseteq> set (ci_ClusterRefs v) \<inter> ci_Type ` set (cluster_set c)
      then Inr (last (filter (\<lambda>u. ci_Type u = DorisFEClusterType) (cluster_set c)),
                last (filter (\<lambda>u. ci_Type u = DorisBEClusterType) (cluster_set c)))
      else Inl (new_error ''invalid parameters,please supply valid fe and be info''))"
proof -
  have "last_of t us = None \<longleftrightarrow> t \<notin> ci_Type ` set us"
    "last_of t us \<noteq> None \<Longrightarrow> last_of t us = Some (last (filter (\<lambda>u. ci_Type u = t) us))" for t us
    by (auto simp: last_of_def filter_empty_conv split: if_splits)
  then show ?thesis
    by (auto simp: getFEAndBEClusterInfo_def fe_be_outer split: option.splits)
qed

end
