(* ===== verification/Controller.thy ===== *)
theory Controller
  imports Kyuubi Doris "HOL-Library.Multiset"
begin

text \<open>
  \<open>internal/controller/ninecluster_controller.go\<close>: what one request starts, and the goroutines
  and locks that carry it.

  \<open>Reconcile\<close> completes the cluster and calls \<open>reconcileCluster\<close> for each of its entries.
  That registers a mutex under the entry's unique name and starts a goroutine, which tries
  the mutex, gives up if it is taken, starts a second goroutine for the entry's reconciler,
  and unlocks. \<open>go_step\<close> is this machine: its state is the table of mutexes and the bag of
  goroutines, its steps are the atomic actions of the goroutines, in any order. The second
  goroutine runs the reconciler \<open>reconcile_of\<close>, which may wait for ever: the parameter \<open>ends\<close> of
  the step says which reconcilers return, and \<open>Platform\<close> sets it to those that do in the world
  as it is. A state is reachable if it is for any of these parameters.
\<close>

section \<open>The reconcilers by type\<close>

definition reconcileDatabaseCluster :: "'w external \<Rightarrow> NineCluster \<Rightarrow> ClusterInfo \<Rightarrow> ('w, unit) op" where
  "reconcileDatabaseCluster X cluster database =
     (let database = (if ci_SubType database = [] then database\<lparr>ci_SubType := DefaultDbType\<rparr> else database)
      in if ci_SubType database = DbTypePostgres then reconcilePGCluster X cluster database
         else io_ret ())"

definition hdfs_result :: "go_error option \<times> NineCluster \<Rightarrow> ('s, unit) io" where
  "hdfs_result r = (case fst r of None \<Rightarrow> io_ret () | Some e \<Rightarrow> io_fail e)"

text \<open>The \<open>switch clus.Type\<close>; no case, no second goroutine.\<close>

definition reconcile_of :: "'w external \<Rightarrow> NineCluster \<Rightarrow> ClusterInfo \<Rightarrow> ('w, unit) op option" where
  "reconcile_of X cluster clus =
     (if ci_Type clus = KyuubiClusterType then Some (reconcileKyuubiCluster X cluster clus)
      else if ci_Type clus = MetaStoreClusterType then Some (reconcileMetastoreCluster X cluster clus)
      else if ci_Type clus = MinioClusterType then Some (reconcileMinioTenant X cluster clus)
      else if ci_Type clus = DatabaseClusterType then Some (reconcileDatabaseCluster X cluster clus)
      else if ci_Type clus = DorisClusterType then Some (reconcileDorisCluster X cluster clus)
      else if ci_Type clus = ZookeeperClusterType then Some (reconcileZookeeperCluster X cluster clus)
      else if ci_Type clus = HdfsClusterType then
        Some (io_bind (reconcileHdfsCluster X cluster clus) hdfs_result)
      else None)"

definition dispatched :: "ClusterType \<Rightarrow> bool" where
  "dispatched t \<longleftrightarrow>
     t \<in> {KyuubiClusterType, MetaStoreClusterType, MinioClusterType, DatabaseClusterType,
          DorisClusterType, ZookeeperClusterType, HdfsClusterType}"

lemma reconcile_of_dispatched: "reconcile_of X c v \<noteq> None \<longleftrightarrow> dispatched (ci_Type v)"
  by (simp add: reconcile_of_def dispatched_def)

section \<open>Goroutines and locks\<close>

text \<open>
  \<open>Ready\<close> is the first goroutine before its \<open>TryLock\<close>, \<open>Locked\<close> after it, \<open>Unlocking\<close> when its
  function returns and the deferred \<open>Unlock\<close> is due; \<open>Inner\<close> is the second goroutine. A goroutine
  that ends leaves the bag. Each carries the key of its mutex and what it captured.
\<close>

datatype goroutine =
    Ready string NineCluster ClusterInfo
  | Locked string NineCluster ClusterInfo
  | Unlocking string NineCluster ClusterInfo
  | Inner string NineCluster ClusterInfo

fun go_key :: "goroutine \<Rightarrow> string" where
  "go_key (Ready k _ _) = k"
| "go_key (Locked k _ _) = k"
| "go_key (Unlocking k _ _) = k"
| "go_key (Inner k _ _) = k"

fun holds :: "string \<Rightarrow> goroutine \<Rightarrow> bool" where
  "holds k (Locked k1 _ _) = (k1 = k)"
| "holds k (Unlocking k1 _ _) = (k1 = k)"
| "holds k _ = False"

fun runs :: "string \<Rightarrow> goroutine \<Rightarrow> bool" where
  "runs k (Inner k1 _ _) = (k1 = k)"
| "runs k _ = False"

record sys =
  sy_locks :: "string \<rightharpoonup> bool"
  sy_routines :: "goroutine multiset"

definition idle_sys :: sys where
  "idle_sys = \<lparr>sy_locks = Map.empty, sy_routines = {#}\<rparr>"

text \<open>\<open>clusterReconcileLocks\<close>: a mutex is put in at its first use and never taken out.\<close>

definition getUniqueClusterLock :: "NineCluster \<Rightarrow> ClusterInfo \<Rightarrow> sys \<Rightarrow> string \<times> sys" where
  "getUniqueClusterLock cluster clus s =
     (let uniqueName = GenUniqueName4Cluster cluster (ci_Type clus) in
      (uniqueName,
       if sy_locks s uniqueName = None then s\<lparr>sy_locks := (sy_locks s)(uniqueName \<mapsto> False)\<rparr> else s))"

definition reconcileRoutine :: "NineCluster \<Rightarrow> ClusterInfo \<Rightarrow> string \<Rightarrow> sys \<Rightarrow> sys" where
  "reconcileRoutine cluster clus mutex s =
     s\<lparr>sy_routines := add_mset (Ready mutex cluster clus) (sy_routines s)\<rparr>"

definition reconcileCluster :: "NineCluster \<Rightarrow> ClusterInfo \<Rightarrow> sys \<Rightarrow> sys" where
  "reconcileCluster cluster clus s =
     (let (clusterLock, s1) = getUniqueClusterLock cluster clus s in
      reconcileRoutine cluster clus clusterLock s1)"

text \<open>The second goroutine an entry gets, if its type has a reconciler.\<close>

definition spawned :: "string \<Rightarrow> NineCluster \<Rightarrow> ClusterInfo \<Rightarrow> goroutine multiset" where
  "spawned k cluster clus = (if dispatched (ci_Type clus) then {#Inner k cluster clus#} else {#})"

inductive go_step :: "(NineCluster \<Rightarrow> ClusterInfo \<Rightarrow> bool) \<Rightarrow> sys \<Rightarrow> sys \<Rightarrow> bool" for ends where
  try_lock: "s = \<lparr>sy_locks = L, sy_routines = add_mset (Ready k c v) R\<rparr> \<Longrightarrow> L k = Some False \<Longrightarrow>
     go_step ends s \<lparr>sy_locks = L(k \<mapsto> True), sy_routines = add_mset (Locked k c v) R\<rparr>"
| give_up: "s = \<lparr>sy_locks = L, sy_routines = add_mset (Ready k c v) R\<rparr> \<Longrightarrow> L k = Some True \<Longrightarrow>
     go_step ends s \<lparr>sy_locks = L, sy_routines = R\<rparr>"
| dispatch: "s = \<lparr>sy_locks = L, sy_routines = add_mset (Locked k c v) R\<rparr> \<Longrightarrow>
     go_step ends s \<lparr>sy_locks = L, sy_routines = add_mset (Unlocking k c v) (spawned k c v + R)\<rparr>"
| unlock: "s = \<lparr>sy_locks = L, sy_routines = add_mset (Unlocking k c v) R\<rparr> \<Longrightarrow>
     go_step ends s \<lparr>sy_locks = L(k \<mapsto> False), sy_routines = R\<rparr>"
| inner_end: "s = \<lparr>sy_locks = L, sy_routines = add_mset (Inner k c v) R\<rparr> \<Longrightarrow> ends c v \<Longrightarrow>
     go_step ends s \<lparr>sy_locks = L, sy_routines = R\<rparr>"

inductive_cases go_stepE: "go_step ends s t"

lemma go_step_mono: "go_step A s t \<Longrightarrow> (\<And>c v. A c v \<Longrightarrow> B c v) \<Longrightarrow> go_step B s t"
  by (erule go_stepE) (auto intro: go_step.intros)

text \<open>Between the steps of goroutines, requests start new ones.\<close>

inductive reachable :: "sys \<Rightarrow> bool" where
  start: "reachable idle_sys"
| call: "reachable s \<Longrightarrow> reachable (reconcileCluster cluster clus s)"
| step: "reachable s \<Longrightarrow> go_step ends s t \<Longrightarrow> reachable t"

section \<open>Requests\<close>

definition renconcileDataHouse :: "NineCluster \<Rightarrow> sys \<Rightarrow> sys" where
  "renconcileDataHouse cluster s =
     (let cluster = snd (FillClustersInfo cluster) in
      fold (reconcileCluster cluster) (cluster_set cluster) s)"

definition reconcileClusters :: "NineCluster \<Rightarrow> sys \<Rightarrow> go_error option \<times> sys" where
  "reconcileClusters cluster s =
     (case FillNineClusterType cluster of
        Inl e \<Rightarrow> (Some e, s)
      | Inr cluster \<Rightarrow>
          (None, if ns_Type (nc_Spec cluster) = NineClusterTypeBatch then renconcileDataHouse cluster s else s))"

record 'w ctl =
  ct_world :: 'w
  ct_sys :: sys

definition Reconcile :: "'w external \<Rightarrow> string \<Rightarrow> string \<Rightarrow> ('w ctl, unit) io" where
  "Reconcile X namespace name s =
     (case x_GetNineCluster X namespace name (ct_world s) of
        None \<Rightarrow> None
      | Some (Panic p, w) \<Rightarrow> Some (Panic p, s\<lparr>ct_world := w\<rparr>)
      | Some (Fail e, w) \<Rightarrow> Some (Fail e, s\<lparr>ct_world := w\<rparr>)
      | Some (Ret cluster, w) \<Rightarrow>
          (let requestArray = split_on CHR ''/'' (x_SprintRequest X namespace name) in
           if length requestArray < 2 then Some (Panic ''index out of range'', s\<lparr>ct_world := w\<rparr>)
           else if requestArray ! 1 = cluster_name cluster then
             (case reconcileClusters cluster (ct_sys s) of
                (Some e, y) \<Rightarrow> Some (Fail e, \<lparr>ct_world = w, ct_sys = y\<rparr>)
              | (None, y) \<Rightarrow> Some (Ret (), \<lparr>ct_world = w, ct_sys = y\<rparr>))
           else Some (Ret (), s\<lparr>ct_world := w\<rparr>)))"

section \<open>Invariants of the machine\<close>

definition holders :: "string \<Rightarrow> goroutine multiset \<Rightarrow> nat" where
  "holders k R = size (filter_mset (holds k) R)"

lemma holders_simps [simp]:
  "holders k {#} = 0"
  "holders k (add_mset g R) = (if holds k g then Suc (holders k R) else holders k R)"
  "holders k (R + S) = holders k R + holders k S"
  "holders k (spawned k1 c v) = 0"
  by (simp_all add: holders_def spawned_def)

definition lock_inv :: "sys \<Rightarrow> bool" where
  "lock_inv s \<longleftrightarrow>
     (\<forall>k. holders k (sy_routines s) = (if sy_locks s k = Some True then 1 else 0)) \<and>
     (\<forall>g \<in># sy_routines s. sy_locks s (go_key g) \<noteq> None)"

lemma lock_inv_idle: "lock_inv idle_sys"
  by (simp add: lock_inv_def idle_sys_def)

lemma reconcileCluster_eq:
  "reconcileCluster c v s =
     (let k = GenUniqueName4Cluster c (ci_Type v) in
      \<lparr>sy_locks = (if sy_locks s k = None then (sy_locks s)(k \<mapsto> False) else sy_locks s),
       sy_routines = add_mset (Ready k c v) (sy_routines s)\<rparr>)"
  by (cases s) (simp add: reconcileCluster_def getUniqueClusterLock_def reconcileRoutine_def Let_def)

lemma lock_inv_call: "lock_inv s \<Longrightarrow> lock_inv (reconcileCluster c v s)"
  by (auto simp: reconcileCluster_eq Let_def lock_inv_def split: if_splits)

lemma holds_key: "holds k g \<Longrightarrow> go_key g = k"
  by (cases g) simp_all

lemma spawned_key: "g \<in># spawned k c v \<Longrightarrow> go_key g = k"
  by (auto simp: spawned_def split: if_splits)

lemma lock_inv_step:
  assumes "go_step ends s t" and "lock_inv s"
  shows "lock_inv t"
  using assms(1)
proof cases
  case (try_lock L k c v R)
  with assms(2) show ?thesis by (auto simp: lock_inv_def)
next
  case (give_up L k c v R)
  with assms(2) show ?thesis by (auto simp: lock_inv_def)
next
  case (dispatch L k c v R)
  have "sy_locks t (go_key g) \<noteq> None" if "g \<in># sy_routines t" for g
    using that dispatch assms(2) by (auto simp: lock_inv_def dest: spawned_key)
  moreover have "holders k' (sy_routines t) = holders k' (sy_routines s)" for k'
    using dispatch by simp
  moreover have "sy_locks t = sy_locks s" using dispatch by simp
  ultimately show ?thesis using assms(2) unfolding lock_inv_def by simp
next
  case (unlock L k c v R)
  with assms(2) have one: "holders k' (add_mset (Unlocking k c v) R) =
      (if L k' = Some True then 1 else 0)" for k'
    by (simp add: lock_inv_def)
  have "holders k' R = (if (L(k \<mapsto> False)) k' = Some True then 1 else 0)" for k'
    using one [of k'] by (auto split: if_splits)
  with unlock assms(2) show ?thesis by (auto simp: lock_inv_def)
next
  case (inner_end L k c v R)
  with assms(2) show ?thesis by (auto simp: lock_inv_def)
qed

lemma reachable_inv: "reachable s \<Longrightarrow> lock_inv s"
  by (induction rule: reachable.induct) (auto intro: lock_inv_idle lock_inv_call lock_inv_step)

section \<open>Every goroutine ends\<close>

fun go_weight :: "goroutine \<Rightarrow> nat" where
  "go_weight (Ready _ _ _) = 4"
| "go_weight (Locked _ _ _) = 3"
| "go_weight (Unlocking _ _ _) = 1"
| "go_weight (Inner _ _ _) = 1"

definition weight :: "sys \<Rightarrow> nat" where
  "weight s = sum_mset (image_mset go_weight (sy_routines s))"

lemma spawned_weight: "sum_mset (image_mset go_weight (spawned k c v)) \<le> 1"
  by (simp add: spawned_def)

lemma go_step_weight: "go_step ends s t \<Longrightarrow> weight t < weight s"
  using spawned_weight by (auto elim!: go_stepE simp: weight_def less_Suc_eq_le)

lemma weight_zero: "weight s = 0 \<longleftrightarrow> sy_routines s = {#}"
proof -
  have "go_weight g \<noteq> 0" for g by (cases g) simp_all
  then have "sum_mset (image_mset go_weight R) = 0 \<longleftrightarrow> R = {#}" for R by (cases R) simp_all
  then show ?thesis by (simp only: weight_def)
qed

text \<open>
  In a reachable state a goroutine that has not ended can take a step, unless it is a reconciler
  that does not return.
\<close>

lemma go_step_enabled:
  assumes "lock_inv s" and "g \<in># sy_routines s" and "\<And>k c v. g = Inner k c v \<Longrightarrow> ends c v"
  shows "\<exists>t. go_step ends s t"
proof -
  obtain R where R: "sy_routines s = add_mset g R" using assms(2) by (metis multi_member_split)
  then have s: "s = \<lparr>sy_locks = sy_locks s, sy_routines = add_mset g R\<rparr>" by simp
  show ?thesis
  proof (cases g)
    case (Ready k c v)
    with assms R have "sy_locks s k \<noteq> None" by (auto simp: lock_inv_def)
    then obtain b where "sy_locks s k = Some b" by blast
    with s Ready show ?thesis by (cases b) (auto intro: go_step.try_lock go_step.give_up)
  next
    case (Locked k c v)
    with s show ?thesis by (auto intro: go_step.dispatch)
  next
    case (Unlocking k c v)
    with s show ?thesis by (auto intro: go_step.unlock)
  next
    case (Inner k c v)
    with s assms(3) show ?thesis by (auto intro: go_step.inner_end)
  qed
qed

text \<open>Conversely a state whose goroutines are all such reconcilers is at rest.\<close>

lemma go_step_disabled:
  assumes "\<And>g. g \<in># sy_routines s \<Longrightarrow> \<exists>k c v. g = Inner k c v \<and> \<not> ends c v"
  shows "\<not> go_step ends s t"
proof
  assume "go_step ends s t"
  then show False by cases (use assms in fastforce)+
qed

text \<open>A second goroutine is one for an entry with a reconciler.\<close>

fun inner_dispatched :: "goroutine \<Rightarrow> bool" where
  "inner_dispatched (Inner _ _ v) = dispatched (ci_Type v)"
| "inner_dispatched _ = True"

lemma spawned_dispatched: "g \<in># spawned k c v \<Longrightarrow> inner_dispatched g"
  by (auto simp: spawned_def split: if_splits)

lemma inner_dispatched_step:
  "go_step ends s t \<Longrightarrow> \<forall>g \<in># sy_routines s. inner_dispatched g \<Longrightarrow> g \<in># sy_routines t \<Longrightarrow> inner_dispatched g"
  by (erule go_stepE) (auto dest: spawned_dispatched)

lemma reachable_inner: "reachable s \<Longrightarrow> g \<in># sy_routines s \<Longrightarrow> inner_dispatched g"
proof (induction arbitrary: g rule: reachable.induct)
  case start
  then show ?case by (simp add: idle_sys_def)
next
  case (call s cluster clus)
  then show ?case by (auto simp: reconcileCluster_eq Let_def)
next
  case (step s ends t)
  then show ?case by (blast dest: inner_dispatched_step)
qed

section \<open>What the success of a reconciler means\<close>

lemma reconcileDorisCluster_success:
  assumes "cr_store X has" "keeps_name X" "reconcileDorisCluster X c v s = Some (Ret (), s1)"
  shows "has (op_world s1) DorisKind (cluster_namespace c) (NineResourceName c [DorisResourceNameSuffix])"
  using assms(3) unfolding reconcileDorisCluster_def
  by (rule client_ensure_establishes [OF assms(1)])
    (use assms(2) in \<open>auto simp: constructDorisCluster_def doris_desired_def keeps_nameD split: sum.splits\<close>)

lemma constructMinioTenant_name:
  assumes "keeps_name X" "constructMinioTenant X c v s = Some (Ret t, s1)"
  shows "om_Name (t_Meta t) = NineResourceName c []"
  using assms(2)
  by (auto simp: constructMinioTenant_def own_tenant_def minio_tenant_def io_of_def io_ret_def io_fail_def
      keeps_nameD [OF assms(1)] elim!: io_bind_RetE split: sum.splits)

lemma reconcileMinioTenant_success:
  assumes "cr_store X has" "keeps_name X" "reconcileMinioTenant X c v s = Some (Ret (), s1)"
  shows "has (op_world s1) TenantKind (cluster_namespace c) (NineResourceName c [])"
proof -
  from assms(3) obtain r t where r: "io_try (constructMinioTenant X c v) s = Some (Ret r, t)"
    and e: "io_bind (client_of X TenantKind) (\<lambda>_.
       ensure_cr X TenantKind (cluster_namespace c) (NineResourceName c [])
         (case r of Inl _ \<Rightarrow> None | Inr t \<Rightarrow> Some (TenantCR t))) t = Some (Ret (), s1)"
    unfolding reconcileMinioTenant_def by (rule io_bind_RetE)
  have "om_Name (t_Meta x) = NineResourceName c []" if "r = Inr x" for x
    using r that constructMinioTenant_name [OF assms(2)]
    by (auto simp: io_try_def split: option.splits outcome.splits)
  then show ?thesis
    by (intro client_ensure_establishes [OF assms(1) e]) (auto split: sum.splits)
qed

lemma reconcilePGCluster_success:
  assumes "cr_store X has" "keeps_name X" "reconcilePGCluster X c v s = Some (Ret (), s1)"
  shows "has (op_world s1) PGKind (cluster_namespace c) (pgResourceName c)"
proof -
  from assms(3) obtain d t where d: "constructPGCluster X c v = Inr d"
    and e: "ensure_cr X PGKind (cluster_namespace c) (pgResourceName c) (Some (PGCR d)) t = Some (Ret (), s1)"
    by (auto simp: reconcilePGCluster_def io_of_def io_ret_def io_fail_def elim!: io_bind_RetE split: sum.splits)
  from d have "om_Name (pg_Meta d) = pgResourceName c"
    using assms(2) by (auto simp: constructPGCluster_def pg_desired_def pgResourceName_def keeps_nameD split: sum.splits)
  then show ?thesis by (intro ensure_cr_establishes [OF assms(1) e]) simp
qed

text \<open>The construct-or-postpone shape of the Kyuubi, metastore and ZooKeeper reconcilers.\<close>

lemma postponing_success:
  assumes "cr_store X has"
    and "io_bind (io_try construct) (\<lambda>r.
       case r of
         Inl e \<Rightarrow> if is_not_found e then io_ret () else io_fail e
       | Inr desired \<Rightarrow>
           io_bind (client_of X kind) (\<lambda>_. ensure_cr X kind ns name (Some (wrap desired)))) s
       = Some (Ret (), s1)"
    and "\<And>d t. construct s = Some (Ret d, t) \<Longrightarrow> om_Name (cr_meta (wrap d)) = name"
  shows "has (op_world s1) kind ns name \<or> (\<exists>e. construct s = Some (Fail e, s1) \<and> is_not_found e)"
proof -
  from assms(2) obtain r t where r: "io_try construct s = Some (Ret r, t)"
    and k: "(case r of
         Inl e \<Rightarrow> if is_not_found e then io_ret () else io_fail e
       | Inr desired \<Rightarrow>
           io_bind (client_of X kind) (\<lambda>_. ensure_cr X kind ns name (Some (wrap desired)))) t
       = Some (Ret (), s1)"
    by (rule io_bind_RetE)
  show ?thesis
  proof (cases r)
    case (Inl e)
    with r k have "construct s = Some (Fail e, s1) \<and> is_not_found e"
      by (auto simp: io_try_def io_ret_def io_fail_def split: option.splits outcome.splits if_splits)
    then show ?thesis by blast
  next
    case (Inr d)
    with r have "construct s = Some (Ret d, t)"
      by (auto simp: io_try_def split: option.splits outcome.splits)
    then have "om_Name (cr_meta (wrap d)) = name" by (rule assms(3))
    moreover from k Inr have "io_bind (client_of X kind) (\<lambda>_. ensure_cr X kind ns name (Some (wrap d))) t
        = Some (Ret (), s1)" by simp
    ultimately show ?thesis using client_ensure_establishes [OF assms(1)] by blast
  qed
qed

lemma reconcileKyuubiCluster_success:
  assumes "cr_store X has" "keeps_name X" "reconcileKyuubiCluster X c v s = Some (Ret (), s1)"
  shows "has (op_world s1) KyuubiKind (cluster_namespace c) (NineResourceName c []) \<or>
    (\<exists>e. constructKyuubiCluster X c v s = Some (Fail e, s1) \<and> is_not_found e)"
  using assms(3) unfolding reconcileKyuubiCluster_def
  by (rule postponing_success [OF assms(1)])
    (use keeps_nameD [OF assms(2)] in \<open>auto simp: constructKyuubiCluster_def kyuubi_desired_def Let_def io_ret_def io_fail_def
      elim!: io_bind_RetE split: sum.splits\<close>)

lemma reconcileMetastoreCluster_success:
  assumes "cr_store X has" "keeps_name X" "reconcileMetastoreCluster X c v s = Some (Ret (), s1)"
  shows "has (op_world s1) MetastoreKind (cluster_namespace c) (NineResourceName c []) \<or>
    (\<exists>e t. initMetastore v s = Some (Ret (), t) \<and> constructMetastoreCluster X c v t = Some (Fail e, s1) \<and>
      is_not_found e)"
proof -
  from assms(3) obtain t where init: "initMetastore v s = Some (Ret (), t)" and
    run: "io_bind (io_try (constructMetastoreCluster X c v)) (\<lambda>r.
       case r of
         Inl e \<Rightarrow> if is_not_found e then io_ret () else io_fail e
       | Inr desired \<Rightarrow>
           io_bind (client_of X MetastoreKind) (\<lambda>_.
             ensure_cr X MetastoreKind (cluster_namespace c) (NineResourceName c [])
               (Some (MetastoreCR desired)))) t = Some (Ret (), s1)"
    unfolding reconcileMetastoreCluster_def by (rule io_bind_RetE) (rule that; simp)
  from run have "has (op_world s1) MetastoreKind (cluster_namespace c) (NineResourceName c []) \<or>
    (\<exists>e. constructMetastoreCluster X c v t = Some (Fail e, s1) \<and> is_not_found e)"
    by (rule postponing_success [OF assms(1)])
      (use keeps_nameD [OF assms(2)] in \<open>auto simp: constructMetastoreCluster_def metastore_desired_def Let_def
        io_ret_def io_fail_def elim!: io_bind_RetE split: sum.splits\<close>)
  with init show ?thesis by blast
qed

lemma reconcileZookeeperCluster_success:
  assumes "cr_store X has" "keeps_name X" "reconcileZookeeperCluster X c v s = Some (Ret (), s1)"
  shows "has (op_world s1) ZookeeperKind (cluster_namespace c) (NineResourceName c []) \<or>
    (\<exists>e. constructZookeeperCluster X c v = Inl e \<and> is_not_found e)"
proof (cases "constructZookeeperCluster X c v")
  case (Inl e)
  with assms(3) show ?thesis
    by (auto simp: reconcileZookeeperCluster_def io_fail_def split: if_splits)
next
  case (Inr d)
  then have "om_Name (zk_Meta d) = NineResourceName c []"
    using keeps_nameD [OF assms(2)]
    by (auto simp: constructZookeeperCluster_def zookeeper_desired_def split: sum.splits)
  then show ?thesis
    using Inr assms(3) client_ensure_establishes [OF assms(1), of ZookeeperKind _ _ "Some (ZookeeperCR d)"]
    by (auto simp: reconcileZookeeperCluster_def)
qed

lemma reconcileHdfsCluster_success:
  assumes "cr_store X has" "keeps_name X" "reconcileHdfsCluster X c v s = Some (Ret (None, c1), s1)"
  shows "has (op_world s1) HdfsKind (cluster_namespace c) (NineResourceName c []) \<or>
    (\<exists>e. constructHdfsCluster X c v s = Some (Ret (Inl e, c1), s1) \<and> is_not_found e)"
proof -
  from assms(3) obtain r c2 t where t: "constructHdfsCluster X c v s = Some (Ret (r, c2), t)"
    and k: "(case r of
         Inl e \<Rightarrow> io_ret (if is_not_found e then None else Some e, c2)
       | Inr desired \<Rightarrow>
           io_bind (io_try (io_bind (client_of X HdfsKind) (\<lambda>_.
             ensure_cr X HdfsKind (cluster_namespace c) (NineResourceName c [])
               (Some (HdfsCR desired))))) (\<lambda>r2.
             io_ret (case r2 of Inl e \<Rightarrow> Some e | Inr _ \<Rightarrow> None, c2))) t = Some (Ret (None, c1), s1)"
    unfolding reconcileHdfsCluster_def by (auto elim: io_bind_RetE)
  show ?thesis
  proof (cases r)
    case (Inl e)
    with t k show ?thesis by (auto simp: io_ret_def split: if_splits)
  next
    case (Inr d)
    with t have "om_Name (hd_Meta d) = NineResourceName c []"
      using keeps_nameD [OF assms(2)]
      by (auto simp: constructHdfsCluster_def hdfs_desired_def Let_def io_ret_def elim!: io_bind_RetE
          split: sum.splits prod.splits)
    moreover from k Inr have "io_bind (client_of X HdfsKind) (\<lambda>_.
             ensure_cr X HdfsKind (cluster_namespace c) (NineResourceName c []) (Some (HdfsCR d))) t
        = Some (Ret (), s1)"
      by (auto simp: io_try_def io_ret_def elim!: io_bind_RetE split: option.splits outcome.splits sum.splits)
    ultimately show ?thesis using client_ensure_establishes [OF assms(1)] by force
  qed
qed

section \<open>Properties of the reconcilers\<close>

text \<open>The object each entry stands for.\<close>

definition object_of :: "NineCluster \<Rightarrow> ClusterType \<Rightarrow> cr_kind \<times> string" where
  "object_of c t =
     (if t = MinioClusterType then (TenantKind, NineResourceName c [])
      else if t = DatabaseClusterType then (PGKind, NineResourceName c [PGResourceNameSuffix])
      else if t = DorisClusterType then (DorisKind, NineResourceName c [DorisResourceNameSuffix])
      else if t = ZookeeperClusterType then (ZookeeperKind, NineResourceName c [])
      else if t = HdfsClusterType then (HdfsKind, NineResourceName c [])
      else if t = MetaStoreClusterType then (MetastoreKind, NineResourceName c [])
      else (KyuubiKind, NineResourceName c []))"

text \<open>
  C5: when the reconciler of a MinIO, PostgreSQL or Doris entry returns without an error, the
  entry's object is in the API server's store, under the entry's own kind and name, whatever
  errors of the construction were discarded on the way.
\<close>
theorem reconcile_establishes:
  assumes "cr_store X has" and "keeps_name X"
    and "ci_Type v \<in> {MinioClusterType, DatabaseClusterType, DorisClusterType}"
    and "ci_SubType v \<in> {[], DbTypePostgres}"
    and "reconcile_of X c v = Some run" and "run s = Some (Ret (), s1)"
  shows "has (op_world s1) (fst (object_of c (ci_Type v))) (cluster_namespace c) (snd (object_of c (ci_Type v)))"
proof -
  consider "ci_Type v = MinioClusterType" | "ci_Type v = DatabaseClusterType" | "ci_Type v = DorisClusterType"
    using assms(3) by blast
  then show ?thesis
  proof cases
    case 1
    with assms(5,6) reconcileMinioTenant_success [OF assms(1,2)] show ?thesis
      by (auto simp: reconcile_of_def object_of_def)
  next
    case 2
    with assms(4,5,6) reconcilePGCluster_success [OF assms(1,2)] show ?thesis
      by (auto simp: reconcile_of_def object_of_def reconcileDatabaseCluster_def pgResourceName_def Let_def)
  next
    case 3
    with assms(5,6) reconcileDorisCluster_success [OF assms(1,2)] show ?thesis
      by (auto simp: reconcile_of_def object_of_def)
  qed
qed

lemma server_secret_tolerant:
  "\<exists>s1. ensure_secret_tolerant server (secret_key d) d s = Some (Ret (), s1)"
  by (cases "map_of (sw_secrets (op_world s)) (secret_key d)")
    (simp_all add: ensure_secret_tolerant_def get_secret_def ext_call_def answer_def io_bind_def io_try_def
      create_tolerant_def create_secret_def not_found_def is_not_found_def io_ret_def io_fail_def)

lemma server_ensure_cr:
  "om_Name (cr_meta d) = name \<Longrightarrow> \<exists>s1. ensure_cr server k ns name (Some d) s = Some (Ret (), s1)"
  by (auto simp: ensure_cr_def ext_call_def find_object_def answer_def io_bind_def io_try_def
      create_object_def not_found_def is_not_found_def io_ret_def io_fail_def)

lemma server_client: "client_of server k s = Some (Ret (), s)"
  by (simp add: client_of_def GetK8sClientConfig_def io_bind_def ext_call_def io_ret_def)

lemma server_own_secret: "\<exists>d. own_secret server c sec = Inr d"
  by (simp add: own_secret_def)

lemma server_pg: "\<exists>s1. reconcilePGCluster server c v s = Some (Ret (), s1)"
proof -
  obtain d1 where d1: "own_secret server c (pg_init_secret c) = Inr d1" using server_own_secret by blast
  obtain d2 where d2: "own_secret server c (pg_superuser_secret c v) = Inr d2" using server_own_secret by blast
  obtain d where d: "constructPGCluster server c v = Inr d" "om_Name (pg_Meta d) = pgResourceName c"
    by (simp add: constructPGCluster_def pg_desired_def pgResourceName_def)
  obtain s1 where s1: "ensure_secret_tolerant server (secret_key d1) d1 s = Some (Ret (), s1)"
    using server_secret_tolerant by blast
  obtain s2 where s2: "ensure_secret_tolerant server (secret_key d2) d2 s1 = Some (Ret (), s2)"
    using server_secret_tolerant by blast
  obtain s3 where s3: "ensure_cr server PGKind (cluster_namespace c) (pgResourceName c) (Some (PGCR d)) s2
      = Some (Ret (), s3)"
    using server_ensure_cr [of "PGCR d" "pgResourceName c"] d(2) by (metis cr_meta.simps(3))
  show ?thesis
    by (simp add: reconcilePGCluster_def reconcilePGInitDBUserSecret_def reconcilePGSuperUserSecret_def
        io_simps io_bind_def d1 d2 d(1) s1 s2 s3 server_client)
qed

theorem reconcile_establishes_witness:
  "\<exists>run s1. reconcile_of server demo_cluster database_default = Some run \<and>
     run (in_world empty_world) = Some (Ret (), s1) \<and>
     stored (op_world s1) PGKind ''dwh'' ''demo-nine-pg''"
proof -
  let ?run = "reconcileDatabaseCluster server demo_cluster database_default"
  have r: "reconcile_of server demo_cluster database_default = Some ?run"
    by (simp add: reconcile_of_def)
  obtain s1 where s1: "?run (in_world empty_world) = Some (Ret (), s1)"
    using server_pg [of demo_cluster database_default]
    by (auto simp: reconcileDatabaseCluster_def Let_def database_default_def)
  have "stored (op_world s1) (fst (object_of demo_cluster (ci_Type database_default)))
      (cluster_namespace demo_cluster) (snd (object_of demo_cluster (ci_Type database_default)))"
    by (rule reconcile_establishes [OF server_store server_keeps_name _ _ r s1])
      (simp_all add: database_default_def zero_cluster_def)
  then have "stored (op_world s1) PGKind ''dwh'' ''demo-nine-pg''"
    by (simp add: object_of_def NineResourceName_def join.simps)
  with r s1 show ?thesis by blast
qed

definition construction_failed ::
  "'w external \<Rightarrow> NineCluster \<Rightarrow> ClusterInfo \<Rightarrow> go_error \<Rightarrow> 'w op_state \<Rightarrow> bool" where
  "construction_failed X c v e s1 \<longleftrightarrow>
     ci_Type v = KyuubiClusterType \<and> (\<exists>t. constructKyuubiCluster X c v t = Some (Fail e, s1)) \<or>
     ci_Type v = MetaStoreClusterType \<and> (\<exists>t. constructMetastoreCluster X c v t = Some (Fail e, s1)) \<or>
     ci_Type v = ZookeeperClusterType \<and> constructZookeeperCluster X c v = Inl e \<or>
     ci_Type v = HdfsClusterType \<and> (\<exists>t c1. constructHdfsCluster X c v t = Some (Ret (Inl e, c1), s1))"

text \<open>
  C6: when the reconciler of a Kyuubi, metastore, ZooKeeper or HDFS entry returns without an
  error, the entry's object is in the store, or its construction ended in a not-found error,
  the one error these reconcilers take for a reason to wait for their next turn.
\<close>
theorem reconcile_establishes_or_postpones:
  assumes "cr_store X has" and "keeps_name X"
    and "ci_Type v \<in> {KyuubiClusterType, MetaStoreClusterType, ZookeeperClusterType, HdfsClusterType}"
    and "reconcile_of X c v = Some run" and "run s = Some (Ret (), s1)"
  shows "has (op_world s1) (fst (object_of c (ci_Type v))) (cluster_namespace c) (snd (object_of c (ci_Type v))) \<or>
    (\<exists>e. is_not_found e \<and> construction_failed X c v e s1)"
proof -
  consider "ci_Type v = KyuubiClusterType" | "ci_Type v = MetaStoreClusterType"
    | "ci_Type v = ZookeeperClusterType" | "ci_Type v = HdfsClusterType"
    using assms(3) by blast
  then show ?thesis
  proof cases
    case 1
    with assms(4,5) have "reconcileKyuubiCluster X c v s = Some (Ret (), s1)"
      by (auto simp: reconcile_of_def)
    from reconcileKyuubiCluster_success [OF assms(1,2) this] 1 show ?thesis
      by (auto simp: object_of_def construction_failed_def)
  next
    case 2
    with assms(4,5) have "reconcileMetastoreCluster X c v s = Some (Ret (), s1)"
      by (auto simp: reconcile_of_def)
    from reconcileMetastoreCluster_success [OF assms(1,2) this] 2 show ?thesis
      by (auto simp: object_of_def construction_failed_def)
  next
    case 3
    with assms(4,5) have "reconcileZookeeperCluster X c v s = Some (Ret (), s1)"
      by (auto simp: reconcile_of_def)
    from reconcileZookeeperCluster_success [OF assms(1,2) this] 3 show ?thesis
      by (auto simp: object_of_def construction_failed_def)
  next
    case 4
    with assms(4,5) have "io_bind (reconcileHdfsCluster X c v) hdfs_result s = Some (Ret (), s1)"
      by (auto simp: reconcile_of_def)
    then obtain c1 where "reconcileHdfsCluster X c v s = Some (Ret (None, c1), s1)"
      by (auto simp: hdfs_result_def io_ret_def io_fail_def elim!: io_bind_RetE split: option.splits)
    from reconcileHdfsCluster_success [OF assms(1,2) this] 4 show ?thesis
      by (auto simp: object_of_def construction_failed_def)
  qed
qed

lemma server_zookeeper: "\<exists>s1. reconcileZookeeperCluster server c v s = Some (Ret (), s1)"
proof -
  obtain d where d: "constructZookeeperCluster server c v = Inr d" "om_Name (zk_Meta d) = NineResourceName c []"
    by (simp add: constructZookeeperCluster_def zookeeper_desired_def)
  obtain s3 where "ensure_cr server ZookeeperKind (cluster_namespace c) (NineResourceName c [])
      (Some (ZookeeperCR d)) s = Some (Ret (), s3)"
    using server_ensure_cr [of "ZookeeperCR d"] d(2) by (metis cr_meta.simps(6))
  then show ?thesis by (simp add: reconcileZookeeperCluster_def d(1) io_bind_def server_client)
qed

theorem reconcile_establishes_or_postpones_witness:
  "\<exists>run s1. reconcile_of server demo_cluster zookeeper_default = Some run \<and>
     run (in_world empty_world) = Some (Ret (), s1) \<and>
     stored (op_world s1) ZookeeperKind ''dwh'' ''demo-nine''"
proof -
  let ?run = "reconcileZookeeperCluster server demo_cluster zookeeper_default"
  have r: "reconcile_of server demo_cluster zookeeper_default = Some ?run"
    by (simp add: reconcile_of_def)
  obtain s1 where s1: "?run (in_world empty_world) = Some (Ret (), s1)"
    using server_zookeeper by blast
  have "stored (op_world s1) ZookeeperKind ''dwh'' ''demo-nine''"
    using reconcile_establishes_or_postpones [OF server_store server_keeps_name _ r s1]
    by (simp add: object_of_def NineResourceName_def construction_failed_def constructZookeeperCluster_def)
  with r s1 show ?thesis by blast
qed

text \<open>
  A reconciler that finds its object creates nothing. For the ZooKeeper and Doris
  entries, when the object is in the store, the whole run is the same whatever the
  creation would do.
\<close>
theorem reconcile_present_creates_nothing:
  assumes "finds X has" and "ci_Type v \<in> {ZookeeperClusterType, DorisClusterType}"
    and "has (op_world s) (fst (object_of c (ci_Type v))) (cluster_namespace c) (snd (object_of c (ci_Type v)))"
  shows "map_option (\<lambda>run. run s) (reconcile_of X c v) =
     map_option (\<lambda>run. run s) (reconcile_of (X\<lparr>x_CreateCR := create\<rparr>) c v)"
proof -
  consider "ci_Type v = ZookeeperClusterType" | "ci_Type v = DorisClusterType" using assms(2) by blast
  then show ?thesis
  proof cases
    case 1
    have "constructZookeeperCluster (X\<lparr>x_CreateCR := create\<rparr>) c v = constructZookeeperCluster X c v"
      by (simp add: constructZookeeperCluster_def)
    with 1 assms(3) client_ensure_present [OF assms(1), of s ZookeeperKind "cluster_namespace c"
        "NineResourceName c []" _ create] show ?thesis
      by (auto simp: reconcile_of_def reconcileZookeeperCluster_def object_of_def split: sum.splits)
  next
    case 2
    have "constructDorisCluster (X\<lparr>x_CreateCR := create\<rparr>) c v = constructDorisCluster X c v"
      by (simp add: constructDorisCluster_def split: sum.splits)
    with 2 assms(3) client_ensure_present [OF assms(1), of s DorisKind "cluster_namespace c"
        "NineResourceName c [DorisResourceNameSuffix]" _ create] show ?thesis
      by (simp add: reconcile_of_def reconcileDorisCluster_def object_of_def)
  qed
qed

theorem reconcile_present_creates_nothing_witness:
  "map_option (\<lambda>run. run (in_world (empty_world\<lparr>sw_objects := [(DorisKind, ''dwh'', ''demo-nine-doris'')]\<rparr>)))
       (reconcile_of server demo_cluster doris_default) =
   map_option (\<lambda>run. run (in_world (empty_world\<lparr>sw_objects := [(DorisKind, ''dwh'', ''demo-nine-doris'')]\<rparr>)))
       (reconcile_of (server\<lparr>x_CreateCR := \<lambda>k ns d. io_panic ''created''\<rparr>) demo_cluster doris_default)"
  by (rule reconcile_present_creates_nothing [OF server_finds])
    (simp_all add: stored_def in_world_def object_of_def NineResourceName_def join.simps empty_world_def)

section \<open>Properties of the locks\<close>

text \<open>
  C7: in every reachable state a mutex is held by exactly one goroutine if it is locked and
  by none if it is not, and the mutex of every goroutine is in the table, so that a \<open>TryLock\<close>
  never meets a nil mutex.
\<close>
theorem locks_exclusive:
  assumes "reachable s"
  shows "size {#g \<in># sy_routines s. holds k g#} = (if sy_locks s k = Some True then 1 else 0) \<and>
    (\<forall>g \<in># sy_routines s. sy_locks s (go_key g) \<noteq> None)"
  using reachable_inv [OF assms] by (simp add: lock_inv_def holders_def)

lemma demo_call:
  "reachable (reconcileCluster demo_cluster zookeeper_default idle_sys)"
  by (intro reachable.call reachable.start)

theorem locks_exclusive_witness:
  "size {#g \<in># sy_routines (reconcileCluster demo_cluster zookeeper_default idle_sys).
      holds (GenUniqueName4Cluster demo_cluster ZookeeperClusterType) g#} = 0"
  using locks_exclusive [OF demo_call, of "GenUniqueName4Cluster demo_cluster ZookeeperClusterType"]
  by (simp add: reconcileCluster_eq idle_sys_def Let_def)

lemma spawned_again:
  assumes "dispatched (ci_Type v)" and "reachable s" and "sy_locks s (GenUniqueName4Cluster c (ci_Type v)) \<noteq> Some True"
  shows "\<exists>t. reachable t \<and> sy_locks t (GenUniqueName4Cluster c (ci_Type v)) = Some False \<and>
    sy_routines t = add_mset (Inner (GenUniqueName4Cluster c (ci_Type v)) c v) (sy_routines s)"
proof -
  let ?k = "GenUniqueName4Cluster c (ci_Type v)"
  let ?L = "(sy_locks s)(?k \<mapsto> False)"
  let ?R = "sy_routines s"
  have "reachable \<lparr>sy_locks = ?L, sy_routines = add_mset (Ready ?k c v) ?R\<rparr>"
    using reachable.call [OF assms(2), of c v] assms(3)
    by (auto simp: reconcileCluster_eq Let_def fun_upd_idem split: if_splits)
  then have "reachable \<lparr>sy_locks = ?L(?k \<mapsto> True), sy_routines = add_mset (Locked ?k c v) ?R\<rparr>"
    using go_step.try_lock [OF refl, where L = ?L and k = ?k and c = c and v = v and R = ?R and
        ends = "\<lambda>_ _. False"] by (auto intro: reachable.step)
  then have "reachable \<lparr>sy_locks = ?L(?k \<mapsto> True),
      sy_routines = add_mset (Unlocking ?k c v) (spawned ?k c v + ?R)\<rparr>"
    by (rule reachable.step) (auto intro: go_step.dispatch)
  then have "reachable \<lparr>sy_locks = (?L(?k \<mapsto> True))(?k \<mapsto> False), sy_routines = spawned ?k c v + ?R\<rparr>"
    using go_step.unlock [OF refl, where L = "?L(?k \<mapsto> True)" and k = ?k and c = c and v = v and
        R = "spawned ?k c v + ?R" and ends = "\<lambda>_ _. False"]
    by (auto intro: reachable.step)
  with assms(1) show ?thesis by (auto simp: spawned_def)
qed

text \<open>
  C15: the mutex does not cover the reconciler it is meant to guard. It is released when the
  second goroutine has been started, so for any entry with a reconciler and any number, a
  reachable state has that many reconcilers of the entry running at once.
\<close>
theorem reconcilers_overlap:
  fixes v :: ClusterInfo
  assumes "dispatched (ci_Type v)"
  shows "\<exists>s. reachable s \<and>
    size {#g \<in># sy_routines s. runs (GenUniqueName4Cluster c (ci_Type v)) g#} = n"
proof -
  let ?k = "GenUniqueName4Cluster c (ci_Type v)"
  have "\<exists>s. reachable s \<and> sy_locks s ?k \<noteq> Some True \<and> sy_routines s = replicate_mset n (Inner ?k c v)"
  proof (induction n)
    case 0
    show ?case by (rule exI [of _ idle_sys]) (use reachable.start in \<open>simp add: idle_sys_def\<close>)
  next
    case (Suc n)
    then obtain s where s: "reachable s" "sy_locks s ?k \<noteq> Some True"
      "sy_routines s = replicate_mset n (Inner ?k c v)" by blast
    from spawned_again [OF assms s(1,2)] s(3) show ?case by auto
  qed
  then obtain s where "reachable s" "sy_routines s = replicate_mset n (Inner ?k c v)" by blast
  moreover have "filter_mset (runs ?k) (replicate_mset m (Inner ?k c v)) = replicate_mset m (Inner ?k c v)" for m
    by (induction m) simp_all
  ultimately show ?thesis by (intro exI [of _ s]) simp
qed

theorem reconcilers_overlap_witness:
  "\<exists>s. reachable s \<and>
    size {#g \<in># sy_routines s. runs (GenUniqueName4Cluster demo_cluster (ci_Type zookeeper_default)) g#} = 2"
  by (rule reconcilers_overlap) (simp add: dispatched_def)

section \<open>Properties of a request\<close>

lemma started_routines:
  "sy_routines (fold (reconcileCluster c) vs s) =
     sy_routines s + mset (map (\<lambda>v. Ready (GenUniqueName4Cluster c (ci_Type v)) c v) vs)"
  by (induction vs arbitrary: s) (simp_all add: reconcileCluster_eq Let_def)

lemma started_locks:
  "sy_locks (fold (reconcileCluster c) vs s) k =
     (if sy_locks s k = None \<and> k \<in> GenUniqueName4Cluster c ` ci_Type ` set vs then Some False else sy_locks s k)"
  by (induction vs arbitrary: s) (auto simp: reconcileCluster_eq Let_def)

lemma request_name:
  assumes "CHR ''/'' \<notin> set namespace" "CHR ''/'' \<notin> set name"
  shows "split_on CHR ''/'' (namespace @ ''/'' @ name) = [namespace, name]"
  using split_on_join [of "[namespace, name]" "CHR ''/''"] assms by simp

text \<open>
  C1: a request for a batch cluster, or one of no type, starts one goroutine for each entry of
  the completed cluster set, each with the completed cluster and under the entry's own
  mutex; it adds the mutexes it lacks, unlocked, and disturbs no other goroutine or mutex.
  The request is printed as namespace, slash, name.
\<close>
theorem Reconcile_batch:
  assumes "x_GetNineCluster X namespace name (ct_world s) = Some (Ret c, w)"
    and "x_SprintRequest X namespace name = namespace @ ''/'' @ name"
    and "CHR ''/'' \<notin> set namespace" and "CHR ''/'' \<notin> set name"
    and "cluster_name c = name" and "ns_Type (nc_Spec c) \<in> {[], NineClusterTypeBatch}"
  shows "\<exists>c1 s1. Reconcile X namespace name s = Some (Ret (), \<lparr>ct_world = w, ct_sys = s1\<rparr>) \<and>
    ns_Type (nc_Spec c1) = NineClusterTypeBatch \<and> nc_Meta c1 = nc_Meta c \<and>
    take (length (cluster_set c)) (cluster_set c1) = cluster_set c \<and>
    ci_Type ` set (cluster_set c1) = ci_Type ` set (cluster_set c) \<union> {t. required_type c1 t} \<and>
    sy_routines s1 = sy_routines (ct_sys s) +
      mset (map (\<lambda>v. Ready (GenUniqueName4Cluster c (ci_Type v)) c1 v) (cluster_set c1)) \<and>
    sy_locks s1 = (\<lambda>k. if sy_locks (ct_sys s) k = None \<and>
        k \<in> GenUniqueName4Cluster c ` ci_Type ` set (cluster_set c1) then Some False else sy_locks (ct_sys s) k)"
proof -
  obtain c0 where c0: "FillNineClusterType c = Inr c0" "ns_Type (nc_Spec c0) = NineClusterTypeBatch"
    "nc_Meta c0 = nc_Meta c" "cluster_set c0 = cluster_set c"
    using assms(6) by (auto simp: FillNineClusterType_def CheckNineClusterTypeSupported_def
        NineClusterTypeSupportedList_def)
  let ?c1 = "snd (FillClustersInfo c0)"
  have meta: "nc_Meta ?c1 = nc_Meta c" by (simp add: FillClustersInfo_missing c0)
  then have key: "GenUniqueName4Cluster ?c1 = GenUniqueName4Cluster c"
    by (simp add: GenUniqueName4Cluster_def fun_eq_iff)
  have types: "ci_Type ` set (cluster_set ?c1) = ci_Type ` set (cluster_set c) \<union> {t. required_type ?c1 t}"
    using missing_types [of c0] by (auto simp: FillClustersInfo_missing c0 image_Un)
  have prefix: "take (length (cluster_set c)) (cluster_set ?c1) = cluster_set c"
    by (simp add: FillClustersInfo_missing c0)
  let ?s1 = "fold (reconcileCluster ?c1) (cluster_set ?c1) (ct_sys s)"
  have "reconcileClusters c (ct_sys s) = (None, ?s1)"
    by (simp add: reconcileClusters_def renconcileDataHouse_def Let_def c0(1,2))
  then have "Reconcile X namespace name s = Some (Ret (), \<lparr>ct_world = w, ct_sys = ?s1\<rparr>)"
    by (simp only: Reconcile_def assms(1,2,5) request_name [OF assms(3,4)] Let_def) (simp add: assms(5))
  moreover have "ns_Type (nc_Spec ?c1) = NineClusterTypeBatch"
    by (simp add: FillClustersInfo_missing c0)
  ultimately show ?thesis
    using meta types prefix started_routines [of ?c1 "cluster_set ?c1" "ct_sys s"]
      started_locks [of ?c1 "cluster_set ?c1" "ct_sys s"]
    unfolding key by blast
qed

definition idle_ctl :: "server_world ctl" where
  "idle_ctl = \<lparr>ct_world = empty_world\<lparr>sw_nines := [demo_cluster]\<rparr>, ct_sys = idle_sys\<rparr>"

theorem Reconcile_batch_witness:
  "\<exists>s1 c1 v. Reconcile server ''dwh'' ''demo'' idle_ctl = Some (Ret (), s1) \<and>
     Ready (GenUniqueName4Cluster demo_cluster KyuubiClusterType) c1 v \<in># sy_routines (ct_sys s1)"
proof -
  have get: "x_GetNineCluster server ''dwh'' ''demo'' (ct_world idle_ctl) = Some (Ret demo_cluster, ct_world idle_ctl)"
    by (simp add: idle_ctl_def find_nine_def answer_def io_ret_def)
  obtain c1 s1 where r: "Reconcile server ''dwh'' ''demo'' idle_ctl =
      Some (Ret (), \<lparr>ct_world = ct_world idle_ctl, ct_sys = s1\<rparr>)"
    and types: "ci_Type ` set (cluster_set c1) = ci_Type ` set (cluster_set demo_cluster) \<union> {t. required_type c1 t}"
    and rs: "sy_routines s1 = sy_routines (ct_sys idle_ctl) +
      mset (map (\<lambda>v. Ready (GenUniqueName4Cluster demo_cluster (ci_Type v)) c1 v) (cluster_set c1))"
    using Reconcile_batch [OF get] by auto
  have "required_type c1 KyuubiClusterType"
    by (simp add: required_type_iff)
  with types have "KyuubiClusterType \<in> ci_Type ` set (cluster_set c1)" by blast
  then obtain v where "v \<in> set (cluster_set c1)" "ci_Type v = KyuubiClusterType" by auto
  with rs have "Ready (GenUniqueName4Cluster demo_cluster KyuubiClusterType) c1 v \<in># sy_routines s1"
    by (auto intro!: image_eqI [of _ _ v])
  with r show ?thesis by auto
qed

text \<open>
  C40: the requests that start nothing: a failed look-up ends the request with its error, a
  deleted object's not-found error among them; an unknown cluster type is an error; and a
  stream cluster is accepted and ignored.
\<close>
theorem Reconcile_starts_nothing:
  assumes "x_SprintRequest X namespace name = namespace @ ''/'' @ name"
    and "CHR ''/'' \<notin> set namespace" and "CHR ''/'' \<notin> set name"
  shows "(\<forall>e w. x_GetNineCluster X namespace name (ct_world s) = Some (Fail e, w) \<longrightarrow>
       Reconcile X namespace name s = Some (Fail e, s\<lparr>ct_world := w\<rparr>)) \<and>
    (\<forall>c w. x_GetNineCluster X namespace name (ct_world s) = Some (Ret c, w) \<longrightarrow> cluster_name c = name \<longrightarrow>
       ns_Type (nc_Spec c) \<notin> {[], NineClusterTypeBatch} \<longrightarrow>
       Reconcile X namespace name s =
         (if ns_Type (nc_Spec c) = NineClusterTypeStream then Some (Ret (), s\<lparr>ct_world := w\<rparr>)
          else Some (Fail (new_error (''nine cluster type:'' @ ns_Type (nc_Spec c) @ '' not supported'')),
                     s\<lparr>ct_world := w\<rparr>)))"
proof (intro conjI allI impI)
  fix e w
  assume "x_GetNineCluster X namespace name (ct_world s) = Some (Fail e, w)"
  then show "Reconcile X namespace name s = Some (Fail e, s\<lparr>ct_world := w\<rparr>)" by (simp add: Reconcile_def)
next
  fix c w
  assume get: "x_GetNineCluster X namespace name (ct_world s) = Some (Ret c, w)"
    and name: "cluster_name c = name" and type: "ns_Type (nc_Spec c) \<notin> {[], NineClusterTypeBatch}"
  have "Reconcile X namespace name s =
      (case reconcileClusters c (ct_sys s) of
         (Some e, y) \<Rightarrow> Some (Fail e, \<lparr>ct_world = w, ct_sys = y\<rparr>)
       | (None, y) \<Rightarrow> Some (Ret (), \<lparr>ct_world = w, ct_sys = y\<rparr>))"
    by (simp only: Reconcile_def get name assms(1) request_name [OF assms(2,3)] Let_def) (simp add: name)
  with type show "Reconcile X namespace name s =
         (if ns_Type (nc_Spec c) = NineClusterTypeStream then Some (Ret (), s\<lparr>ct_world := w\<rparr>)
          else Some (Fail (new_error (''nine cluster type:'' @ ns_Type (nc_Spec c) @ '' not supported'')),
                     s\<lparr>ct_world := w\<rparr>))"
    by (cases s) (auto simp: reconcileClusters_def FillNineClusterType_def CheckNineClusterTypeSupported_def
        NineClusterTypeSupportedList_def)
qed

theorem Reconcile_starts_nothing_witness:
  "Reconcile server ''dwh'' ''gone'' idle_ctl = Some (Fail not_found, idle_ctl)"
proof -
  have "x_GetNineCluster server ''dwh'' ''gone'' (ct_world idle_ctl) = Some (Fail not_found, ct_world idle_ctl)"
    by (simp add: idle_ctl_def find_nine_def answer_def io_fail_def)
  then show ?thesis
    using Reconcile_starts_nothing [of server "''dwh''" "''gone''" idle_ctl] by simp
qed

text \<open>
  Spark's entry is read through a pointer that is never checked. Building Spark's
  configuration panics exactly when neither the cluster set nor the defaults have the entry,
  and after the completion of a batch cluster it is always there.
\<close>
theorem spark_entry_found:
  "(deref_spark c s = Some (Panic ''nil pointer dereference'', s) \<longleftrightarrow>
      SparkClusterType \<notin> ci_Type ` set (cluster_set c)) \<and>
   (ns_Type (nc_Spec c) = NineClusterTypeBatch \<longrightarrow>
      (\<exists>v \<in> set (cluster_set (snd (FillClustersInfo c))).
         ci_Type v = SparkClusterType \<and> deref_spark (snd (FillClustersInfo c)) s = Some (Ret v, s)))"
proof (intro conjI impI)
  show "deref_spark c s = Some (Panic ''nil pointer dereference'', s) \<longleftrightarrow>
      SparkClusterType \<notin> ci_Type ` set (cluster_set c)"
  proof (cases "SparkClusterType \<in> ci_Type ` set (cluster_set c)")
    case True
    from GetRefClusterInfo_Some [OF this] True show ?thesis
      by (auto simp: deref_spark_def io_ret_def)
  next
    case False
    then have "find (\<lambda>v. ci_Type v = SparkClusterType) (cluster_set c) = None"
      unfolding find_None_iff by (metis image_eqI)
    then have "GetRefClusterInfo c SparkClusterType = None"
      by (simp add: GetRefClusterInfo_def GetDefaultRefClusterInfo_def NineDatahouseClusterset_def)
    with False show ?thesis by (simp add: deref_spark_def io_panic_def)
  qed
  assume "ns_Type (nc_Spec c) = NineClusterTypeBatch"
  then have "required_type c SparkClusterType"
    by (simp add: required_type_iff)
  then have "SparkClusterType \<in> ci_Type ` set (cluster_set (snd (FillClustersInfo c)))"
    by (rule filled_has_required)
  from GetRefClusterInfo_Some [OF this] show "\<exists>v \<in> set (cluster_set (snd (FillClustersInfo c))).
      ci_Type v = SparkClusterType \<and> deref_spark (snd (FillClustersInfo c)) s = Some (Ret v, s)"
    by (auto simp: deref_spark_def io_ret_def)
qed

theorem spark_entry_found_witness:
  "\<exists>v. ci_Type v = SparkClusterType \<and>
     deref_spark (snd (FillClustersInfo demo_cluster)) (in_world empty_world) = Some (Ret v, in_world empty_world)"
  using spark_entry_found [of demo_cluster] by auto

end
