(* ===== verification/Liveness.thy ===== *)
theory Liveness
  imports Controller
begin

text \<open>
  Do the reconcilers come back? They poll each other's objects without a limit, so the answer
  depends on the outside. The locale \<open>calm\<close> states what it has to do: every call returns, with
  whatever outcome, and there is a bound \<open>due\<close> on the seconds until what a NineCluster waits for
  is there, which passing time lowers and no call raises. Then every reconciler returns. The
  locale is interpreted on a server whose services appear only after half a minute.

  Conversely, a database that never gets ready blocks the components that ask for it for ever.
\<close>

section \<open>The contract of the outside\<close>

definition slept :: "'w external \<Rightarrow> nat \<Rightarrow> 'w op_state \<Rightarrow> 'w op_state" where
  "slept X n s = s\<lparr>op_world := x_Sleep X n (op_world s)\<rparr>"

text \<open>A call that comes back, keeps the invariant and postpones nothing.\<close>

definition answers ::
  "('w op_state \<Rightarrow> bool) \<Rightarrow> ('w op_state \<Rightarrow> nat) \<Rightarrow> ('w, 'a) io \<Rightarrow> bool" where
  "answers P due m \<longleftrightarrow>
     (\<forall>s. P s \<longrightarrow> (\<exists>r s1. ext_call m s = Some (r, s1) \<and> P s1 \<and> due s1 \<le> due s))"

text \<open>What it means that a component a reconciler waits for is ready, in a state.\<close>

fun component_ready :: "'w external \<Rightarrow> NineCluster \<Rightarrow> cr_kind \<Rightarrow> 'w op_state \<Rightarrow> bool" where
  "component_ready X c PGKind s \<longleftrightarrow> pg_ready X c s \<noteq> None"
| "component_ready X c ZookeeperKind s \<longleftrightarrow> zk_ready X c s \<noteq> None"
| "component_ready X c MetastoreKind s \<longleftrightarrow> metastore_ready X c s \<noteq> None"
| "component_ready X c HdfsKind s \<longleftrightarrow>
     endpoints_ready X c (NineResourceName c [HdfsResourceNameSuffix, HdfsRoleNameNode])
       (namenode_replicas c) (op_world s) \<noteq> None \<and>
     (\<forall>addrs d m s1 e. ext_call (x_HdfsStat X addrs d) s \<noteq> Some (Ret False, s1) \<and>
       (ext_call (x_HdfsStat X addrs d) s = Some (Fail e, s1) \<longrightarrow> contains (err_text e) ErrNotExist) \<and>
       ext_call (x_HdfsMkdirAll X addrs d m) s \<noteq> Some (Fail e, s1))"
| "component_ready X c TenantKind s \<longleftrightarrow>
     (\<forall>e s1. is_not_found e \<longrightarrow>
       ext_call (x_GetService X (cluster_namespace c) ''minio'') s \<noteq> Some (Fail e, s1) \<and>
       ext_call (x_GetSecret X (cluster_namespace c) (MinioNewUserName c)) s \<noteq> Some (Fail e, s1)) \<and>
     (\<forall>info b e s1. ext_call (x_BucketExists X info b) s \<noteq> Some (Fail e, s1) \<and>
       ext_call (x_MakeBucket X info b) s \<noteq> Some (Fail e, s1))"
| "component_ready X c _ s \<longleftrightarrow> True"

definition settled ::
  "'w external \<Rightarrow> NineCluster \<Rightarrow> ('w op_state \<Rightarrow> bool) \<Rightarrow> ('w op_state \<Rightarrow> nat) \<Rightarrow> cr_kind \<Rightarrow> bool" where
  "settled X c P due k \<longleftrightarrow> (\<forall>s. P s \<longrightarrow> due s = 0 \<longrightarrow> component_ready X c k s)"

lemma settledD: "settled X c P due k \<Longrightarrow> P s \<Longrightarrow> due s = 0 \<Longrightarrow> component_ready X c k s"
  by (simp add: settled_def)

text \<open>The components whose readiness the reconciler of an entry waits for.\<close>

definition needs :: "NineCluster \<Rightarrow> ClusterInfo \<Rightarrow> cr_kind set" where
  "needs c v =
     (if ci_Type v = KyuubiClusterType then
        {MetastoreKind}
        \<union> (if auth_AuthType (getAuthConfig v) = ClusterAuthTypeJDBC then {PGKind} else {})
        \<union> (if IsKyuubiNeedHA c then {ZookeeperKind} else {})
        \<union> (if GetClusterStorage c = NineClusterStorageMinio then {TenantKind} else {})
      else if ci_Type v = MetaStoreClusterType then
        {PGKind}
        \<union> (if GetClusterStorage c = NineClusterStorageMinio then {TenantKind} else {})
        \<union> (if GetClusterStorage c = NineClusterStorageHdfs then {HdfsKind} else {})
      else if ci_Type v = HdfsClusterType \<and> checkHdfsNameNodeHA c then {ZookeeperKind}
      else {})"

locale answering =
  fixes X :: "'w external" and P :: "'w op_state \<Rightarrow> bool" and due :: "'w op_state \<Rightarrow> nat"
  assumes get_service: "answers P due (x_GetService X ns n)"
    and get_secret: "answers P due (x_GetSecret X ns n)"
    and create_secret: "answers P due (x_CreateSecret X sec)"
    and get_endpoints: "answers P due (x_GetEndpoints X ns n)"
    and list_pods: "answers P due (x_ListPods X ns ls)"
    and in_cluster: "answers P due (x_InClusterConfig X)"
    and new_client: "answers P due (x_NewForConfig X k)"
    and get_cr: "answers P due (x_GetCR X k ns n)"
    and create_cr: "answers P due (x_CreateCR X k ns obj)"
    and new_directpv: "answers P due (x_NewDirectPVClient X)"
    and list_directpv: "answers P due (x_ListDirectPVNodes X)"
    and rand_read: "answers P due (x_RandRead X sz)"
    and sql_open: "answers P due (x_SqlOpen X conn)"
    and db_exec: "answers P due (x_DbExec X conn stmt args)"
    and minio_new: "answers P due (x_MinioNew X info ssl)"
    and bucket_exists: "answers P due (x_BucketExists X info b)"
    and make_bucket: "answers P due (x_MakeBucket X info b)"
    and stat_object: "answers P due (x_StatObject X info b f)"
    and put_object: "answers P due (x_PutObject X info b f)"
    and hdfs_client: "answers P due (x_HdfsNewClient X addrs)"
    and hdfs_stat: "answers P due (x_HdfsStat X addrs d)"
    and hdfs_mkdir: "answers P due (x_HdfsMkdirAll X addrs d m)"
    and time_passes: "P s \<Longrightarrow> 0 < secs \<Longrightarrow>
      P (slept X secs s) \<and> due (slept X secs s) \<le> due s \<and> (0 < due s \<longrightarrow> due (slept X secs s) < due s)"
begin

text \<open>
  \<open>comes_back b m\<close>: from a good state the operation ends in a good state that is no later, if it
  returns; and if \<open>b\<close>, it does return.
\<close>

definition comes_back :: "bool \<Rightarrow> ('w, 'a) op \<Rightarrow> bool" where
  "comes_back b m \<longleftrightarrow> (\<forall>s. P s \<longrightarrow>
     (b \<longrightarrow> m s \<noteq> None) \<and> (\<forall>r s1. m s = Some (r, s1) \<longrightarrow> P s1 \<and> due s1 \<le> due s))"

text \<open>A round of a wait returns, and when it asks for another one time has passed.\<close>

definition a_round :: "('w, 'l + 'a) op \<Rightarrow> bool" where
  "a_round m \<longleftrightarrow> (\<forall>s. P s \<longrightarrow> (\<exists>r s1. m s = Some (r, s1) \<and> P s1 \<and> due s1 \<le> due s \<and>
     (\<forall>l. r = Ret (Inl l) \<longrightarrow> due s1 < due s)))"

lemma comes_back_True:
  "comes_back True m \<longleftrightarrow> (\<forall>s. P s \<longrightarrow> (\<exists>r s1. m s = Some (r, s1) \<and> P s1 \<and> due s1 \<le> due s))"
proof (intro iffI allI impI)
  fix s assume "comes_back True m" and s: "P s"
  then have "m s \<noteq> None" by (simp add: comes_back_def)
  then obtain r s1 where "m s = Some (r, s1)" by auto
  with \<open>comes_back True m\<close> s show "\<exists>r s1. m s = Some (r, s1) \<and> P s1 \<and> due s1 \<le> due s"
    by (auto simp: comes_back_def)
qed (auto simp: comes_back_def)

lemma comes_backE:
  assumes "comes_back True m" and "P s"
  obtains r s1 where "m s = Some (r, s1)" "P s1" "due s1 \<le> due s"
  using assms unfolding comes_back_True by blast

lemma comes_backD: "comes_back b m \<Longrightarrow> P s \<Longrightarrow> m s = Some (r, s1) \<Longrightarrow> P s1 \<and> due s1 \<le> due s"
  by (simp add: comes_back_def)

lemma comes_back_call: "answers P due m \<Longrightarrow> comes_back b (ext_call m)"
  by (fastforce simp: answers_def comes_back_def)

lemma comes_back_basic:
  "comes_back b (io_ret a)" "comes_back b (io_fail e)" "comes_back b (io_panic p)" "comes_back b (io_get f)"
  by (simp_all add: comes_back_def io_simps)

lemma comes_backI:
  assumes "\<And>s. P s \<Longrightarrow> b \<Longrightarrow> m s \<noteq> None"
    and "\<And>s r s1. P s \<Longrightarrow> m s = Some (r, s1) \<Longrightarrow> P s1 \<and> due s1 \<le> due s"
  shows "comes_back b m"
  unfolding comes_back_def using assms by blast

text \<open>What follows needs to come back only from the results the first part can have.\<close>

lemma comes_back_bind_post:
  assumes "comes_back b m" and "\<And>a. Q a \<Longrightarrow> comes_back b (f a)"
    and "\<And>s a s1. m s = Some (Ret a, s1) \<Longrightarrow> Q a"
  shows "comes_back b (io_bind m f)"
proof (rule comes_backI)
  fix s assume s: "P s"
  { assume b
    with assms(1) s have "m s \<noteq> None" by (simp add: comes_back_def)
    then obtain r1 s1 where m: "m s = Some (r1, s1)" by auto
    show "io_bind m f s \<noteq> None"
    proof (cases r1)
      case (Ret a)
      with assms(3) m have "Q a" by blast
      then have "comes_back b (f a)" by (rule assms(2))
      with \<open>b\<close> comes_backD [OF assms(1) s m] have "f a s1 \<noteq> None" by (simp add: comes_back_def)
      with m Ret show ?thesis by (simp add: io_bind_Some)
    qed (use m in \<open>simp_all add: io_bind_Some\<close>) }
  fix r s2 assume run: "io_bind m f s = Some (r, s2)"
  then obtain r1 s1 where m: "m s = Some (r1, s1)"
    by (auto simp: io_bind_def split: option.splits)
  note one = comes_backD [OF assms(1) s m]
  show "P s2 \<and> due s2 \<le> due s"
  proof (cases r1)
    case (Ret a)
    with run m have f: "f a s1 = Some (r, s2)" by (simp add: io_bind_Some)
    from Ret assms(3) m have "Q a" by blast
    then have "comes_back b (f a)" by (rule assms(2))
    then have "P s2 \<and> due s2 \<le> due s1" using one f by (blast dest: comes_backD)
    with one show ?thesis by linarith
  qed (use run m one in \<open>simp_all add: io_bind_Some\<close>)
qed

lemma comes_back_bind:
  assumes "comes_back b m" and "\<And>a. comes_back b (f a)"
  shows "comes_back b (io_bind m f)"
  using assms by (rule comes_back_bind_post) simp

lemma comes_back_try:
  assumes "comes_back b m"
  shows "comes_back b (io_try m)"
proof (rule comes_backI)
  fix s assume s: "P s"
  show "b \<Longrightarrow> io_try m s \<noteq> None"
    using assms s by (auto simp: comes_back_def io_try_def split: option.splits outcome.splits)
  fix r s1 assume "io_try m s = Some (r, s1)"
  then obtain r1 where "m s = Some (r1, s1)"
    by (auto simp: io_try_def split: option.splits outcome.splits)
  with assms s show "P s1 \<and> due s1 \<le> due s" by (rule comes_backD)
qed

lemma comes_back_fold: "(\<And>x z. comes_back b (f x z)) \<Longrightarrow> comes_back b (io_fold f xs z)"
  by (induction xs arbitrary: z) (simp_all add: comes_back_basic comes_back_bind)

lemma comes_back_of: "comes_back b (io_of r)"
  by (cases r) (simp_all add: io_of_simps comes_back_basic)

lemmas call_backs = comes_back_call [OF get_service] comes_back_call [OF get_secret]
  comes_back_call [OF create_secret] comes_back_call [OF get_endpoints] comes_back_call [OF list_pods]
  comes_back_call [OF in_cluster] comes_back_call [OF new_client] comes_back_call [OF get_cr]
  comes_back_call [OF create_cr] comes_back_call [OF new_directpv] comes_back_call [OF list_directpv]
  comes_back_call [OF rand_read] comes_back_call [OF sql_open] comes_back_call [OF db_exec]
  comes_back_call [OF minio_new] comes_back_call [OF bucket_exists] comes_back_call [OF make_bucket]
  comes_back_call [OF stat_object] comes_back_call [OF put_object] comes_back_call [OF hdfs_client]
  comes_back_call [OF hdfs_stat] comes_back_call [OF hdfs_mkdir]

lemmas backs = comes_back_basic comes_back_bind comes_back_try comes_back_fold comes_back_of call_backs

text \<open>A wait ends because its rounds use up the time that is due.\<close>

lemma rounds_end:
  assumes "\<And>l. a_round (body l)"
  shows "comes_back True (loop body l)"
  unfolding comes_back_True
proof (intro allI impI)
  fix s assume "P s"
  then show "\<exists>r s1. loop body l s = Some (r, s1) \<and> P s1 \<and> due s1 \<le> due s"
  proof (induction "due s" arbitrary: l s rule: less_induct)
    case less
    from assms [of l] less.prems obtain r s1 where b: "body l s = Some (r, s1)" "P s1" "due s1 \<le> due s"
      "\<forall>l1. r = Ret (Inl l1) \<longrightarrow> due s1 < due s"
      unfolding a_round_def by blast
    show ?case
    proof (cases r)
      case (Ret x)
      show ?thesis
      proof (cases x)
        case (Inl l1)
        with b Ret have "loop body l s = loop body l1 s1" by (simp add: loop_continue)
        moreover have "\<exists>r s2. loop body l1 s1 = Some (r, s2) \<and> P s2 \<and> due s2 \<le> due s1"
          using b Ret Inl by (intro less.hyps) auto
        ultimately show ?thesis using b(3) by (auto intro: order_trans)
      next
        case (Inr a)
        with b Ret show ?thesis by (simp add: loop_break)
      qed
    next
      case (Fail e)
      with b show ?thesis by (simp add: loop_fail)
    next
      case (Panic p)
      with b show ?thesis by (subst loop.simps) simp
    qed
  qed
qed

text \<open>Whatever ends a wait, its rounds have kept the state good.\<close>

lemma rounds_keep:
  assumes "\<And>l. comes_back b (body l)"
  shows "rounds n body l s = Some (l1, s1) \<Longrightarrow> P s \<Longrightarrow> P s1 \<and> due s1 \<le> due s"
proof (induction n arbitrary: l s)
  case (Suc n)
  then obtain l2 s2 where b: "body l s = Some (Ret (Inl l2), s2)" "rounds n body l2 s2 = Some (l1, s1)"
    by (auto split: option.splits outcome.splits sum.splits)
  have "P s2 \<and> due s2 \<le> due s" using comes_backD [OF assms Suc.prems(2) b(1)] .
  with Suc.IH [OF b(2)] show ?case by auto
qed simp

lemma loop_keeps:
  assumes "\<And>l. comes_back b (body l)"
  shows "comes_back False (loop body l)"
  unfolding comes_back_def
proof (intro allI impI conjI)
  fix s r s1 assume "P s" and "loop body l s = Some (r, s1)"
  then obtain n l1 s2 q where n: "rounds n body l s = Some (l1, s2)" and q: "body l1 s2 = Some (q, s1)"
    unfolding ends_with_def by (cases r; auto dest!: loop_ends_with simp: ends_with_def)
  from rounds_keep [OF assms n \<open>P s\<close>] comes_backD [OF assms _ q]
  show "P s1" "due s1 \<le> due s" by auto
qed simp

text \<open>
  A round is made of a part that comes back, and sleeps, and of what happens when nothing is due
  any more: then it must not ask for another one.
\<close>

definition early :: "('w, 'l + 'a) op \<Rightarrow> bool" where
  "early m \<longleftrightarrow> (\<forall>s. P s \<longrightarrow> (\<exists>r s1. m s = Some (r, s1) \<and> P s1 \<and> due s1 \<le> due s \<and>
     (\<forall>l. r = Ret (Inl l) \<longrightarrow> due s1 < due s \<or> due s = 0)))"

definition prompt :: "('w, 'l + 'a) op \<Rightarrow> bool" where
  "prompt m \<longleftrightarrow> (\<forall>s l s1. P s \<longrightarrow> due s = 0 \<longrightarrow> m s \<noteq> Some (Ret (Inl l), s1))"

lemma a_round_parts: "early m \<Longrightarrow> prompt m \<Longrightarrow> a_round m"
  unfolding early_def prompt_def a_round_def by blast

lemma earlyE:
  assumes "early m" and "P s"
  obtains r s1 where "m s = Some (r, s1)" "P s1" "due s1 \<le> due s"
    "\<And>l. r = Ret (Inl l) \<Longrightarrow> due s1 < due s \<or> due s = 0"
  using assms unfolding early_def by blast

lemma early_back: "early m \<Longrightarrow> comes_back True m"
  unfolding early_def comes_back_True by blast

lemma comes_back_loop:
  assumes "\<And>l. early (body l)" and "b \<Longrightarrow> (\<And>l. prompt (body l))"
  shows "comes_back b (loop body l)"
proof (cases b)
  case True
  with assms show ?thesis using rounds_end a_round_parts by (metis (full_types))
next
  case False
  have "comes_back False (loop body l)" by (rule loop_keeps [of True], rule early_back, rule assms(1))
  with False show ?thesis by simp
qed

lemma early_sleep: "0 < n \<Longrightarrow> early (sleep_continue X n l)"
  using time_passes by (simp add: early_def sleep_continue_apply slept_def) blast

lemma early_done: "early (loop_done a)"
  by (simp add: early_def loop_done_apply)

lemma early_bind:
  assumes "comes_back True m" and "\<And>a. early (f a)"
  shows "early (io_bind m f)"
  unfolding early_def
proof (intro allI impI)
  fix s assume "P s"
  with assms(1) obtain r s1 where m: "m s = Some (r, s1)" "P s1" "due s1 \<le> due s"
    by (rule comes_backE)
  show "\<exists>r s1. io_bind m f s = Some (r, s1) \<and> P s1 \<and> due s1 \<le> due s \<and>
     (\<forall>l. r = Ret (Inl l) \<longrightarrow> due s1 < due s \<or> due s = 0)"
  proof (cases r)
    case (Ret a)
    from assms(2) [of a] m(2) obtain r2 s2 where f: "f a s1 = Some (r2, s2)" "P s2" "due s2 \<le> due s1"
      "\<And>l. r2 = Ret (Inl l) \<Longrightarrow> due s2 < due s1 \<or> due s1 = 0"
      by (rule earlyE) blast
    have "due s2 < due s \<or> due s = 0" if "r2 = Ret (Inl l)" for l
      using f(4) [OF that] f(3) m(3) by linarith
    with f m Ret show ?thesis by (auto simp: io_bind_Some)
  qed (use m in \<open>auto simp: io_bind_Some\<close>)
qed

lemma comes_back_CheckEndpointsReady: "comes_back b (CheckEndpointsReady X c name n)"
  unfolding CheckEndpointsReady_def by (intro backs) (auto intro!: backs split: sum.splits list.splits)

lemma comes_back_CheckPodsReady: "comes_back b (CheckPodsReady X c ls n)"
  unfolding CheckPodsReady_def by (intro backs) (auto intro!: backs split: sum.splits)

lemma endpoints_there:
  assumes "P s" and "due s = 0" and "endpoints_ready X c name n (op_world s) \<noteq> None"
  obtains e ep s1 where "CheckEndpointsReady X c name n s = Some (Ret (e, True, ep), s1)" "P s1" "due s1 = 0"
proof -
  obtain r s1 where s1: "CheckEndpointsReady X c name n s = Some (r, s1)" "P s1" "due s1 \<le> due s"
    using comes_back_CheckEndpointsReady assms(1) by (rule comes_backE)
  from assms(3) obtain ep w where "x_GetEndpoints X (cluster_namespace c) name (op_world s) = Some (Ret ep, w)"
    "\<exists>sub rest. ep_Subsets ep = sub # rest \<and> \<not> less_int64 (len (sub_Addresses sub)) n"
    by (auto simp: endpoints_ready_def split: option.splits outcome.splits list.splits if_splits)
  with s1(1) have "\<exists>e ep. r = Ret (e, True, ep)"
    by (auto simp: CheckEndpointsReady_def io_simps)
  with s1 assms(2) that show thesis by auto
qed

lemma pods_there:
  assumes "P s" and "due s = 0" and "pods_ready X c ls n (op_world s)"
  obtains e s1 where "CheckPodsReady X c ls n s = Some (Ret (e, True), s1)" "P s1" "due s1 = 0"
proof -
  obtain r s1 where s1: "CheckPodsReady X c ls n s = Some (r, s1)" "P s1" "due s1 \<le> due s"
    using comes_back_CheckPodsReady assms(1) by (rule comes_backE)
  from assms(3) obtain pods w where "x_ListPods X (cluster_namespace c) ls (op_world s) = Some (Ret pods, w)"
    "\<not> less_int64 (len pods) n \<and> \<not> less_int64 (ready_count pods) n"
    by (auto simp: pods_ready_def split: option.splits outcome.splits)
  with s1(1) have "\<exists>e. r = Ret (e, True)"
    by (auto simp: CheckPodsReady_def io_simps)
  with s1 assms(2) that show thesis by auto
qed

lemma pg_early: "early (pg_wait_body X c l)"
  unfolding pg_wait_body_def
  by (auto intro!: early_bind early_sleep early_done comes_back_CheckEndpointsReady
      comes_back_CheckPodsReady split: prod.splits)

lemma pg_prompt:
  assumes "settled X c P due PGKind"
  shows "prompt (pg_wait_body X c l)"
  unfolding prompt_def
proof (intro allI impI)
  fix s l1 s3 assume s: "P s" "due s = 0"
  then have "endpoints_ready X c (pgRWSvcName c) 1 (op_world s) \<noteq> None"
    using settledD [OF assms s] by (simp add: pg_ready_def split: if_splits)
  with s obtain e ep s1 where e: "CheckEndpointsReady X c (pgRWSvcName c) 1 s = Some (Ret (e, True, ep), s1)"
    and s1: "P s1" "due s1 = 0" by (rule endpoints_there)
  then have "pods_ready X c (constructPgPodLabel (NineResourceName c [PGResourceNameSuffix]))
      DefaultPgReplicas (op_world s1)"
    using settledD [OF assms s1] by (simp add: pg_ready_def split: if_splits)
  with s1 obtain e2 s2 where "CheckPodsReady X c (constructPgPodLabel (NineResourceName c [PGResourceNameSuffix]))
      DefaultPgReplicas s1 = Some (Ret (e2, True), s2)" by (rule pods_there)
  with e show "pg_wait_body X c l s \<noteq> Some (Ret (Inl l1), s3)"
    by (simp add: pg_wait_body_def io_bind_Some loop_done_apply)
qed

lemma zk_early: "early (zk_wait_body X c l)"
  unfolding zk_wait_body_def
  by (auto intro!: early_bind early_sleep early_done comes_back_CheckEndpointsReady
      comes_back_CheckPodsReady split: prod.splits)

lemma zk_prompt:
  assumes "settled X c P due ZookeeperKind"
  shows "prompt (zk_wait_body X c l)"
  unfolding prompt_def
proof (intro allI impI)
  fix s l1 s3 assume s: "P s" "due s = 0"
  then have "endpoints_ready X c (zkSvcName c) DefaultZKReplicas (op_world s) \<noteq> None"
    using settledD [OF assms s] by (simp add: zk_ready_def split: if_splits)
  with s obtain e ep s1 where
    e: "CheckEndpointsReady X c (zkSvcName c) DefaultZKReplicas s = Some (Ret (e, True, ep), s1)"
    and s1: "P s1" "due s1 = 0" by (rule endpoints_there)
  then have "pods_ready X c (constructZookeeperPodLabel (NineResourceName c []))
      DefaultZKReplicas (op_world s1)"
    using settledD [OF assms s1] by (simp add: zk_ready_def split: if_splits)
  with s1 obtain e2 s2 where "CheckPodsReady X c (constructZookeeperPodLabel (NineResourceName c []))
      DefaultZKReplicas s1 = Some (Ret (e2, True), s2)" by (rule pods_there)
  with e show "zk_wait_body X c l s \<noteq> Some (Ret (Inl l1), s3)"
    by (simp add: zk_wait_body_def io_bind_Some loop_done_apply)
qed

lemma metastore_early: "early (metastore_wait_body X c l)"
  unfolding metastore_wait_body_def metastore_replicas_now_def
  by (auto intro!: early_bind early_sleep early_done comes_back_CheckEndpointsReady
      comes_back_CheckPodsReady comes_back_basic split: prod.splits)

lemma metastore_prompt:
  assumes "settled X c P due MetastoreKind"
  shows "prompt (metastore_wait_body X c l)"
  unfolding prompt_def
proof (intro allI impI)
  fix s l1 s3 assume s: "P s" "due s = 0"
  let ?n = "\<lambda>s. int_of_int32 (op_MetastoreReplicas s)"
  have now: "metastore_replicas_now s = Some (Ret (op_MetastoreReplicas s), s)" for s :: "'a op_state"
    by (simp add: metastore_replicas_now_def io_get_def)
  from s have "pods_ready X c (constructMetastorePodLabel (NineResourceName c [])) (?n s) (op_world s)"
    using settledD [OF assms s] by (simp add: metastore_ready_def split: if_splits)
  with s obtain e s1 where
    e: "CheckPodsReady X c (constructMetastorePodLabel (NineResourceName c [])) (?n s) s = Some (Ret (e, True), s1)"
    and s1: "P s1" "due s1 = 0" by (rule pods_there)
  then have "endpoints_ready X c (metastoreSvcName c) (?n s1) (op_world s1) \<noteq> None"
    using settledD [OF assms s1] by (simp add: metastore_ready_def split: if_splits)
  with s1 obtain e2 ep s2 where
    "CheckEndpointsReady X c (metastoreSvcName c) (?n s1) s1 = Some (Ret (e2, True, ep), s2)"
    by (rule endpoints_there)
  with e show "metastore_wait_body X c l s \<noteq> Some (Ret (Inl l1), s3)"
    by (simp add: metastore_wait_body_def io_bind_Some now loop_done_apply)
qed

lemma namenode_early: "early (namenode_wait_body X c (namenode_replicas c) k)"
  unfolding namenode_wait_body_def Let_def
  by (auto intro!: early_bind early_sleep early_done backs split: sum.splits list.splits)

lemma namenode_prompt:
  assumes "settled X c P due HdfsKind"
  shows "prompt (namenode_wait_body X c (namenode_replicas c) k)"
  unfolding prompt_def
proof (intro allI impI)
  fix s l1 s3 assume s: "P s" "due s = 0"
  let ?name = "NineResourceName c [HdfsResourceNameSuffix, HdfsRoleNameNode]"
  from settledD [OF assms s] obtain ep w where
    "x_GetEndpoints X (cluster_namespace c) ?name (op_world s) = Some (Ret ep, w)"
    "\<exists>sub rest. ep_Subsets ep = sub # rest \<and> \<not> less_int64 (len (sub_Addresses sub)) (namenode_replicas c)"
    by (auto simp: endpoints_ready_def split: option.splits outcome.splits list.splits if_splits)
  then show "namenode_wait_body X c (namenode_replicas c) k s \<noteq> Some (Ret (Inl l1), s3)"
    by (auto simp: namenode_wait_body_def io_simps)
qed

lemma bucket_early: "early (bucket_wait_body X info b l)"
  unfolding bucket_wait_body_def
  by (auto intro!: early_bind early_sleep early_done backs split: sum.splits)

lemma bucket_prompt:
  assumes "settled X c P due TenantKind"
  shows "prompt (bucket_wait_body X info b l)"
  unfolding prompt_def
proof (intro allI impI)
  fix s l1 s3 assume s: "P s" "due s = 0"
  obtain r s1 where r: "ext_call (x_BucketExists X info b) s = Some (r, s1)" and s1: "P s1" "due s1 \<le> due s"
    using comes_back_call [OF bucket_exists] s(1) by (rule comes_backE)
  obtain r2 s2 where r2: "ext_call (x_MakeBucket X info b) s1 = Some (r2, s2)"
    using comes_back_call [OF make_bucket] s1(1) by (rule comes_backE)
  have "r \<noteq> Fail e" "r2 \<noteq> Fail e" for e
    using settledD [OF assms s] settledD [OF assms, of s1] s1 s(2) r r2 by auto
  with r r2 show "bucket_wait_body X info b l s \<noteq> Some (Ret (Inl l1), s3)"
    by (cases r; cases r2) (auto simp: bucket_wait_body_def io_simps)
qed

lemma dir_early: "early (data_dir_body X addrs d m l)"
  unfolding data_dir_body_def
  by (auto intro!: early_bind early_sleep early_done backs split: sum.splits)

lemma dir_prompt:
  assumes "settled X c P due HdfsKind"
  shows "prompt (data_dir_body X addrs d m l)"
  unfolding prompt_def
proof (intro allI impI)
  fix s l1 s3 assume s: "P s" "due s = 0"
  obtain r s1 where r: "ext_call (x_HdfsStat X addrs d) s = Some (r, s1)" and s1: "P s1" "due s1 \<le> due s"
    using comes_back_call [OF hdfs_stat] s(1) by (rule comes_backE)
  obtain r2 s2 where r2: "ext_call (x_HdfsMkdirAll X addrs d m) s1 = Some (r2, s2)"
    using comes_back_call [OF hdfs_mkdir] s1(1) by (rule comes_backE)
  have "r2 \<noteq> Fail e" "r \<noteq> Ret False" "r = Fail e \<Longrightarrow> contains (err_text e) ErrNotExist" for e
    using settledD [OF assms s] settledD [OF assms, of s1] s1 s(2) r r2 by auto
  with r r2 show "data_dir_body X addrs d m l s \<noteq> Some (Ret (Inl l1), s3)"
    by (cases r; cases r2) (auto simp: data_dir_body_def io_simps)
qed

lemma minio_early: "early (minio_wait_body X c svc)"
  unfolding minio_wait_body_def Let_def get_secret_def
  by (auto intro!: early_bind early_sleep early_done backs split: sum.splits)

lemma minio_prompt:
  assumes "settled X c P due TenantKind"
  shows "prompt (minio_wait_body X c svc)"
  unfolding prompt_def
proof (intro allI impI)
  fix s l1 s3 assume s: "P s" "due s = 0"
  obtain r s1 where r: "ext_call (x_GetService X (cluster_namespace c) ''minio'') s = Some (r, s1)"
    and s1: "P s1" "due s1 \<le> due s"
    using comes_back_call [OF get_service] s(1) by (rule comes_backE)
  obtain r2 s2 where r2: "ext_call (x_GetSecret X (cluster_namespace c) (MinioNewUserName c)) s1 = Some (r2, s2)"
    using comes_back_call [OF get_secret] s1(1) by (rule comes_backE)
  have "r = Fail e \<Longrightarrow> \<not> is_not_found e" "r2 = Fail e \<Longrightarrow> \<not> is_not_found e" for e
    using settledD [OF assms s] settledD [OF assms, of s1] s1 s(2) r r2 by auto
  with r r2 show "minio_wait_body X c svc s \<noteq> Some (Ret (Inl l1), s3)"
    by (cases r; cases r2) (auto simp: minio_wait_body_def get_secret_def Let_def io_simps)
qed

text \<open>From the waits up to the reconcilers.\<close>

lemma waits_come_back:
  "(b \<Longrightarrow> settled X c P due PGKind) \<Longrightarrow> comes_back b (loop (pg_wait_body X c) l0)"
  "(b \<Longrightarrow> settled X c P due ZookeeperKind) \<Longrightarrow> comes_back b (loop (zk_wait_body X c) l0)"
  "(b \<Longrightarrow> settled X c P due MetastoreKind) \<Longrightarrow> comes_back b (loop (metastore_wait_body X c) l0)"
  "(b \<Longrightarrow> settled X c P due HdfsKind) \<Longrightarrow>
     comes_back b (loop (namenode_wait_body X c (namenode_replicas c)) k)"
  "(b \<Longrightarrow> settled X c P due TenantKind) \<Longrightarrow> comes_back b (loop (bucket_wait_body X info bucket) l0)"
  "(b \<Longrightarrow> settled X c P due HdfsKind) \<Longrightarrow> comes_back b (loop (data_dir_body X addrs d m) l0)"
  "(b \<Longrightarrow> settled X c P due TenantKind) \<Longrightarrow> comes_back b (loop (minio_wait_body X c) svc)"
  by (rule comes_back_loop,
      rule pg_early zk_early metastore_early namenode_early bucket_early dir_early minio_early,
      blast intro: pg_prompt zk_prompt metastore_prompt namenode_prompt bucket_prompt dir_prompt minio_prompt)+

lemma comes_back_infos:
  "(b \<Longrightarrow> settled X c P due PGKind) \<Longrightarrow> comes_back b (getPGRWSvcNameWithSync X c)"
  "(b \<Longrightarrow> settled X c P due ZookeeperKind) \<Longrightarrow> comes_back b (getZookeeperExposedInfo X c)"
  "(b \<Longrightarrow> settled X c P due MetastoreKind) \<Longrightarrow> comes_back b (getMetastoreExposedInfo X c)"
  "(b \<Longrightarrow> settled X c P due HdfsKind) \<Longrightarrow> comes_back b (getHdfsExposedInfo X c)"
  "(b \<Longrightarrow> settled X c P due TenantKind) \<Longrightarrow> comes_back b (getMinioExposedInfo X c)"
  "(b \<Longrightarrow> settled X c P due PGKind) \<Longrightarrow> comes_back b (getDatabaseExposedInfo X c)"
  unfolding getPGRWSvcNameWithSync_def getZookeeperExposedInfo_def getMetastoreExposedInfo_def
    getHdfsExposedInfo_def getMinioExposedInfo_def getDatabaseExposedInfo_def Let_def
  by (auto intro!: comes_back_bind waits_come_back comes_back_basic split: list.splits prod.splits)

lemma comes_back_sql:
  "(b \<Longrightarrow> settled X c P due PGKind) \<Longrightarrow> comes_back b (executeSql X c user pw db stmt args)"
  "(b \<Longrightarrow> settled X c P due PGKind) \<Longrightarrow> comes_back b (createDatabase X c user pw db)"
  unfolding executeSql_def createDatabase_def exec_if_absent_def Let_def
  by (auto intro!: comes_back_bind comes_back_try comes_back_infos call_backs comes_back_basic
      split: sum.splits)

lemma comes_back_dir:
  assumes "b \<Longrightarrow> settled X c P due HdfsKind"
  shows "comes_back b (createHdfsDataDir X hinfo d m)"
  unfolding createHdfsDataDir_def Let_def
  by (intro comes_back_bind call_backs waits_come_back(6) [OF assms])

lemma comes_back_bucket:
  assumes "b \<Longrightarrow> settled X c P due TenantKind"
  shows "comes_back b (createMinioBucketAndFolder X info bucket f ssl)"
  unfolding createMinioBucketAndFolder_def
  by (auto intro!: comes_back_bind comes_back_try waits_come_back(5) [OF assms] call_backs comes_back_basic
      split: sum.splits)

lemma comes_back_tails:
  "comes_back b (client_of X k)"
  "comes_back b (ensure_cr X k ns n d)"
  "comes_back b (ensure_secret X key sec)"
  "comes_back b (ensure_secret_tolerant X key sec)"
  unfolding client_of_def GetK8sClientConfig_def ensure_cr_def ensure_secret_def
    ensure_secret_tolerant_def create_tolerant_def get_secret_def
  by (auto intro!: comes_back_bind comes_back_try call_backs comes_back_basic split: sum.splits)

lemma comes_back_nodes: "comes_back b (getDirectPVNodesCount X)"
  unfolding getDirectPVNodesCount_def GetK8sClientConfig_def Let_def
  by (auto intro!: comes_back_bind call_backs comes_back_basic)

lemma comes_back_deref: "comes_back b (deref_capacity q)" "comes_back b (deref_spark c)"
  by (simp_all add: deref_capacity_def deref_spark_def comes_back_basic split: outcome.splits option.splits)

lemma comes_back_minio: "comes_back b (reconcileMinioTenant X c v)"
  unfolding reconcileMinioTenant_def constructMinioTenant_def reconcileMinioTenantConfigSecret_def
    reconcileMinioNewUserSecret_def minio_credentials_def GenerateCredentials_def readBytes_def Let_def
  by (auto intro!: comes_back_bind comes_back_try comes_back_of comes_back_tails comes_back_nodes
      comes_back_deref call_backs comes_back_basic split: sum.splits)

lemma comes_back_pg: "comes_back b (reconcileDatabaseCluster X c v)"
  unfolding reconcileDatabaseCluster_def reconcilePGCluster_def reconcilePGInitDBUserSecret_def
    reconcilePGSuperUserSecret_def Let_def
  by (auto intro!: comes_back_bind comes_back_of comes_back_tails comes_back_basic)

lemma comes_back_zk: "comes_back b (reconcileZookeeperCluster X c v)"
  unfolding reconcileZookeeperCluster_def
  by (auto intro!: comes_back_bind comes_back_tails comes_back_basic split: sum.splits)

lemma comes_back_doris: "comes_back b (reconcileDorisCluster X c v)"
  unfolding reconcileDorisCluster_def
  by (auto intro!: comes_back_bind comes_back_tails comes_back_basic split: sum.splits)

lemma comes_back_kyuubi:
  assumes "b \<Longrightarrow> settled X c P due MetastoreKind"
    and "b \<Longrightarrow> auth_AuthType (getAuthConfig v) = ClusterAuthTypeJDBC \<Longrightarrow> settled X c P due PGKind"
    and "b \<Longrightarrow> IsKyuubiNeedHA c \<Longrightarrow> settled X c P due ZookeeperKind"
    and "b \<Longrightarrow> GetClusterStorage c = NineClusterStorageMinio \<Longrightarrow> settled X c P due TenantKind"
  shows "comes_back b (reconcileKyuubiCluster X c v)"
proof -
  have "comes_back b (configJdbcAuth X c (getAuthConfig v))"
    using assms(2) unfolding configJdbcAuth_def Let_def
    by (auto intro!: comes_back_bind comes_back_try comes_back_sql comes_back_basic split: sum.splits)
  then have "comes_back b (constructKyuubiConf X c v)"
    using assms(3) unfolding constructKyuubiConf_def Let_def
    by (auto intro!: comes_back_bind comes_back_infos comes_back_basic)
  moreover have "comes_back b (constructKyuubiClusterRefs X c v)"
    using assms(1,4) unfolding constructKyuubiClusterRefs_def constructMetastoreConf_def constructSparkConf_def Let_def
    by (auto intro!: comes_back_bind comes_back_infos comes_back_deref comes_back_basic split: prod.splits)
  ultimately show ?thesis
    unfolding reconcileKyuubiCluster_def constructKyuubiCluster_def Let_def
    by (auto intro!: comes_back_bind comes_back_try comes_back_tails comes_back_basic split: sum.splits)
qed

lemma comes_back_hdfs:
  assumes "b \<Longrightarrow> checkHdfsNameNodeHA c \<Longrightarrow> settled X c P due ZookeeperKind"
  shows "comes_back b (io_bind (reconcileHdfsCluster X c v) hdfs_result)"
proof -
  let ?m = "hdfs_members X c v (getDfsReplication (Some (Map.empty ++ mrange (cc_Conf (ci_Configs v)))))"
  have "comes_back b ?m"
    unfolding hdfs_members_def member_step_def build_member_def datanode_replicas_def
    by (auto intro!: comes_back_bind comes_back_try comes_back_fold comes_back_nodes comes_back_deref
        comes_back_basic)
  then have "comes_back b (constructHdfsCluster X c v)"
    unfolding constructHdfsCluster_def Let_def
  proof (rule comes_back_bind_post [where Q = "\<lambda>a. snd a \<longrightarrow> checkHdfsNameNodeHA c"])
    fix s a s1 assume "?m s = Some (Ret a, s1)"
    then show "snd a \<longrightarrow> checkHdfsNameNodeHA c"
      using hdfs_members_made [of X c v _ s "fst a" "snd a" s1] by (cases a) auto
  qed (use assms in \<open>auto intro!: comes_back_bind comes_back_infos comes_back_basic split: prod.splits\<close>)
  then show ?thesis
    unfolding reconcileHdfsCluster_def hdfs_result_def
    by (auto intro!: comes_back_bind comes_back_try comes_back_tails comes_back_basic
        split: sum.splits prod.splits option.splits)
qed

text \<open>The metastore's reconciler first sets the shared number of replicas.\<close>

definition replicas_free :: "ClusterInfo \<Rightarrow> bool" where
  "replicas_free v \<longleftrightarrow> (\<forall>s. P s \<longrightarrow> ci_Type v = MetaStoreClusterType \<longrightarrow> rc_Replicas (ci_Resource v) \<noteq> 0 \<longrightarrow>
     P (s\<lparr>op_MetastoreReplicas := rc_Replicas (ci_Resource v)\<rparr>) \<and>
     due (s\<lparr>op_MetastoreReplicas := rc_Replicas (ci_Resource v)\<rparr>) \<le> due s)"

lemma comes_back_metastore:
  assumes "ci_Type v = MetaStoreClusterType" and "replicas_free v"
    and "b \<Longrightarrow> settled X c P due PGKind"
    and "b \<Longrightarrow> GetClusterStorage c = NineClusterStorageMinio \<Longrightarrow> settled X c P due TenantKind"
    and "b \<Longrightarrow> GetClusterStorage c = NineClusterStorageHdfs \<Longrightarrow> settled X c P due HdfsKind"
  shows "comes_back b (reconcileMetastoreCluster X c v)"
proof -
  have "comes_back b (initMetastore v)"
    using assms(1,2) by (simp add: initMetastore_def comes_back_def io_mod_apply replicas_free_def)
  moreover have "comes_back b (constructMetastoreClusterRefs X c)"
    using assms(3-) unfolding constructMetastoreClusterRefs_def Let_def
    by (auto intro!: comes_back_bind comes_back_infos comes_back_dir [of _ c] comes_back_bucket [of _ c]
        comes_back_basic)
  ultimately show ?thesis
    unfolding reconcileMetastoreCluster_def constructMetastoreCluster_def metastore_replicas_now_def Let_def
    by (auto intro!: comes_back_bind comes_back_try comes_back_tails comes_back_basic split: sum.splits)
qed

text \<open>The reconciler of an entry comes back if what it needs settles.\<close>

lemma reconciler_comes_back:
  assumes "reconcile_of X c v = Some run" and "replicas_free v"
    and "\<And>k. b \<Longrightarrow> k \<in> needs c v \<Longrightarrow> settled X c P due k"
  shows "comes_back b run"
proof -
  have "comes_back b (reconcileKyuubiCluster X c v)" if "ci_Type v = KyuubiClusterType"
    using assms(3) that by (intro comes_back_kyuubi) (auto simp: needs_def)
  moreover have "comes_back b (reconcileMetastoreCluster X c v)" if "ci_Type v = MetaStoreClusterType"
    using assms(2,3) that by (intro comes_back_metastore) (auto simp: needs_def)
  moreover have "comes_back b (io_bind (reconcileHdfsCluster X c v) hdfs_result)" if "ci_Type v = HdfsClusterType"
    using assms(3) that by (intro comes_back_hdfs) (auto simp: needs_def)
  ultimately show ?thesis
    using assms(1) comes_back_minio comes_back_pg comes_back_doris comes_back_zk
    by (auto simp: reconcile_of_def split: if_splits)
qed

end

text \<open>An outside that settles everything.\<close>

locale calm = answering X P due
  for X :: "'w external" and c :: NineCluster
    and P :: "'w op_state \<Rightarrow> bool" and due :: "'w op_state \<Rightarrow> nat" +
  assumes all_settled: "settled X c P due k"
begin

lemma reconciler_returns: "reconcile_of X c v = Some run \<Longrightarrow> replicas_free v \<Longrightarrow> comes_back True run"
  by (rule reconciler_comes_back) (assumption | rule all_settled)+

end

section \<open>A server that is late\<close>

definition three_endpoints :: endpoints where
  "three_endpoints = \<lparr>ep_Subsets = [\<lparr>sub_Addresses = [''10.0.0.1'', ''10.0.0.2'', ''10.0.0.3''],
     sub_Ports = [\<lparr>port_Name = ''client'', port_Port = 2181\<rparr>]\<rparr>]\<rparr>"

text \<open>Services and endpoints exist from the thirtieth second on.\<close>

definition late :: "'a \<Rightarrow> (server_world, 'a) io" where
  "late a w = answer (if sw_clock w < 30 then None else Some a) w"

definition late_server :: "server_world external" where
  "late_server = server
     \<lparr>x_GetService := \<lambda>ns n. late \<lparr>svc_ClusterIP = ''10.1.2.3''\<rparr>,
      x_GetEndpoints := \<lambda>ns n. late three_endpoints\<rparr>"

definition late_state :: "server_world op_state \<Rightarrow> bool" where
  "late_state s \<longleftrightarrow> op_MetastoreReplicas s = 1 \<and>
     sw_pods (op_world s) = replicate 3 ready_pod \<and>
     map_of (sw_secrets (op_world s)) (''dwh'', MinioNewUserName demo_cluster) \<noteq> None"

definition late_due :: "server_world op_state \<Rightarrow> nat" where
  "late_due s = 30 - sw_clock (op_world s)"

text \<open>A call whose effect on the world is nothing, or an entry in one of its lists.\<close>

definition harmless :: "(server_world, 'a) io \<Rightarrow> bool" where
  "harmless m \<longleftrightarrow> (\<forall>w. \<exists>r w1. m w = Some (r, w1) \<and> sw_clock w1 = sw_clock w \<and> sw_pods w1 = sw_pods w \<and>
     (\<forall>k. map_of (sw_secrets w) k \<noteq> None \<longrightarrow> map_of (sw_secrets w1) k \<noteq> None))"

lemma harmless_answers: "harmless m \<Longrightarrow> answers late_state late_due m"
  unfolding harmless_def answers_def
proof (intro allI impI)
  fix s assume h: "\<forall>w. \<exists>r w1. m w = Some (r, w1) \<and> sw_clock w1 = sw_clock w \<and> sw_pods w1 = sw_pods w \<and>
     (\<forall>k. map_of (sw_secrets w) k \<noteq> None \<longrightarrow> map_of (sw_secrets w1) k \<noteq> None)"
    and s: "late_state s"
  from h obtain r w1 where "m (op_world s) = Some (r, w1)" "sw_clock w1 = sw_clock (op_world s)"
    "sw_pods w1 = sw_pods (op_world s)"
    "\<forall>k. map_of (sw_secrets (op_world s)) k \<noteq> None \<longrightarrow> map_of (sw_secrets w1) k \<noteq> None" by blast
  with s show "\<exists>r s1. ext_call m s = Some (r, s1) \<and> late_state s1 \<and> late_due s1 \<le> late_due s"
    by (auto simp: ext_call_def late_state_def late_due_def)
qed

lemma harmless_basic:
  "harmless (io_ret a)" "harmless (\<lambda>w. io_ret (f w) w)" "harmless (\<lambda>w. answer (g w) w)"
  "harmless (late x)" "harmless (find_object k ns n)" "harmless (create_object k ns obj)"
  "harmless (create_secret sec)"
  by (auto simp: harmless_def io_ret_def io_fail_def answer_def late_def find_object_def
      create_object_def create_secret_def Let_def split: option.splits)

lemma late_ready:
  assumes "late_state s" and "late_due s = 0"
  shows "pods_ready late_server c ls 3 (op_world s)" "pods_ready late_server c ls 1 (op_world s)"
    "endpoints_ready late_server c name 3 (op_world s) = Some three_endpoints"
    "endpoints_ready late_server c name 1 (op_world s) = Some three_endpoints"
    "endpoints_ready late_server c name 0 (op_world s) = Some three_endpoints"
  using assms
  by (simp_all add: pods_ready_def endpoints_ready_def late_server_def late_state_def late_due_def
      late_def answer_def io_ret_def less_int64_def len_def ready_count_def ready_pod_def
      three_endpoints_def numeral_3_eq_3)

interpretation late: calm late_server demo_cluster late_state late_due
proof (unfold_locales, goal_cases)
  case (23 s secs)
  then show ?case
    by (auto simp: slept_def late_state_def late_due_def late_server_def)
next
  case (24 k)
  have "component_ready late_server demo_cluster k s" if "late_state s" "late_due s = 0" for s
  proof (cases k)
    case TenantKind
    with that show ?thesis
      by (auto simp: late_due_def late_state_def late_server_def server_def late_def answer_def ext_call_def io_ret_def)
  next
    case HdfsKind
    with that show ?thesis
      by (simp add: late_ready namenode_replicas_def)
        (simp add: late_server_def server_def ext_call_def io_ret_def)
  qed (use that late_ready [of s] in
      \<open>simp_all add: pg_ready_def zk_ready_def metastore_ready_def late_state_def int_of_int32_def\<close>)
  then show ?case by (simp add: settled_def)
qed (simp_all add: late_server_def server_def harmless_answers harmless_basic)

section \<open>Properties\<close>

text \<open>
  C10: no reconciler waits for ever as long as the outside does its part. If every call returns,
  with a value, an error or a panic, and the services, endpoints, pods, secrets, buckets and
  directories the NineCluster waits for are there after some time that no call prolongs, then the
  reconciler of every entry returns, whatever the entry asks for. For the metastore this needs
  that readiness survives the number of replicas it sets.\<close>
theorem reconcilers_return:
  assumes "calm X c P due" and "P s" and "reconcile_of X c v = Some run"
    and "\<And>s. ci_Type v = MetaStoreClusterType \<Longrightarrow> rc_Replicas (ci_Resource v) \<noteq> 0 \<Longrightarrow> P s \<Longrightarrow>
      P (s\<lparr>op_MetastoreReplicas := rc_Replicas (ci_Resource v)\<rparr>) \<and>
      due (s\<lparr>op_MetastoreReplicas := rc_Replicas (ci_Resource v)\<rparr>) \<le> due s"
  shows "\<exists>r s1. run s = Some (r, s1) \<and> P s1 \<and> due s1 \<le> due s"
proof -
  have "answering.replicas_free P due v"
    using assms(4) by (simp add: answering.replicas_free_def [OF calm.axioms(1) [OF assms(1)]])
  then have "answering.comes_back P due True run"
    using calm.reconciler_returns [OF assms(1,3)] by blast
  then show ?thesis
    using assms(2) unfolding answering.comes_back_True [OF calm.axioms(1) [OF assms(1)]] by blast
qed

definition late_world :: server_world where
  "late_world = empty_world
     \<lparr>sw_pods := replicate 3 ready_pod,
      sw_secrets := [((''dwh'', MinioNewUserName demo_cluster), empty_secret)]\<rparr>"

theorem reconcilers_return_witness:
  "\<exists>r s1. reconcileKyuubiCluster late_server demo_cluster kyuubi_default (in_world late_world) = Some (r, s1) \<and>
     late_state s1"
proof -
  have run: "reconcile_of late_server demo_cluster kyuubi_default =
      Some (reconcileKyuubiCluster late_server demo_cluster kyuubi_default)"
    and other: "ci_Type kyuubi_default \<noteq> MetaStoreClusterType"
    by (simp_all add: reconcile_of_def kyuubi_default_def)
  have "late_state (in_world late_world)"
    by (simp add: late_state_def late_world_def in_world_def)
  from reconcilers_return [OF late.calm_axioms this run] other show ?thesis by blast
qed

lemma pg_never_ready:
  assumes "steady_reads X" and "\<And>n. pg_ready X c (after_secs X n s) = None"
  shows "getPGRWSvcNameWithSync X c s = None"
proof -
  have "loop (pg_wait_body X c) () s = None"
    using poll_returns [OF pg_polls [OF assms(1)], of c s] assms(2) by (simp del: not_None_eq)
  then show ?thesis by (simp add: getPGRWSvcNameWithSync_def io_bind_Some)
qed

lemma pg_ready_world: "op_world s = op_world t \<Longrightarrow> pg_ready X c s = pg_ready X c t"
  by (simp add: pg_ready_def)

text \<open>
  C11: a database that never gets ready blocks the components that ask for it for ever: the
  reconciler of the metastore does not return at all, and that of Kyuubi does not either unless
  it authenticates its users otherwise. There is no time-out.\<close>
theorem database_blocks:
  assumes "steady_reads X" and "\<And>n. pg_ready X c (after_secs X n s) = None"
  shows "reconcileMetastoreCluster X c v s = None \<and>
    (auth_AuthType (getAuthConfig k) = ClusterAuthTypeJDBC \<longrightarrow> reconcileKyuubiCluster X c k s = None)"
proof -
  obtain t where init: "initMetastore v s = Some (Ret (), t)" and t: "op_world t = op_world s"
    by (simp add: initMetastore_def io_mod_apply)
  have "pg_ready X c (after_secs X n t) = None" for n
    using assms(2) [of n] t pg_ready_world [of "after_secs X n t" "after_secs X n s" X c]
    by (simp add: after_secs_def)
  with assms(1) have "getPGRWSvcNameWithSync X c t = None" by (rule pg_never_ready)
  then have "constructMetastoreCluster X c v t = None"
    by (simp add: constructMetastoreCluster_def constructMetastoreClusterRefs_def
        getDatabaseExposedInfo_def io_bind_Some)
  then have "reconcileMetastoreCluster X c v s = None"
    by (simp add: reconcileMetastoreCluster_def io_bind_Some init io_try_Some)
  moreover have "reconcileKyuubiCluster X c k s = None" if "auth_AuthType (getAuthConfig k) = ClusterAuthTypeJDBC"
  proof -
    have "getPGRWSvcNameWithSync X c s = None" using assms by (rule pg_never_ready)
    then have "configJdbcAuth X c (getAuthConfig k) s = None"
      using that by (simp add: configJdbcAuth_def createDatabase_def Let_def io_bind_Some)
    then show ?thesis
      by (simp add: reconcileKyuubiCluster_def constructKyuubiCluster_def constructKyuubiConf_def
          Let_def io_bind_Some io_try_Some)
  qed
  ultimately show ?thesis by blast
qed

theorem database_blocks_witness:
  "reconcileMetastoreCluster server demo_cluster metastore_default (in_world empty_world) = None \<and>
   reconcileKyuubiCluster server demo_cluster kyuubi_default (in_world empty_world) = None"
proof -
  have "x_Sleep server 1 = (\<lambda>w. w\<lparr>sw_clock := sw_clock w + 1\<rparr>)" by (simp add: fun_eq_iff)
  then have "sw_endpoints ((x_Sleep server 1 ^^ n) empty_world) = []" for n
    by (induction n) (simp_all add: empty_world_def del: server_simps One_nat_def)
  then have never: "pg_ready server demo_cluster (after_secs server n (in_world empty_world)) = None" for n
    by (simp add: pg_ready_def endpoints_ready_def after_secs_def in_world_def answer_def io_fail_def)
  have "auth_AuthType (getAuthConfig kyuubi_default) = ClusterAuthTypeJDBC"
    by (simp add: getAuthConfig_def kyuubi_default_def image_of_def zero_config_def zero_auth_def)
  then show ?thesis using database_blocks [OF server_steady never] by blast
qed

end
