(* ===== verification/Platform.thy ===== *)
theory Platform
  imports Liveness
begin

text \<open>
  One request from beginning to end: the goroutines of \<open>Controller\<close> together with the world their
  reconcilers run in. A second goroutine ends when its reconciler returns, with the world that
  reconciler leaves; one whose waits cannot end in the world as it is has no step and lets the
  others go first. So what is left at rest are reconcilers that wait for ever, and under the
  contract \<open>calm\<close> of \<open>Liveness\<close> there are none.

  Metastore and Kyuubi wait for what other reconcilers create, so a request could block itself;
  \<open>rising\<close> is what the outside has to do for the objects and secrets that are there, and the
  theorem says that the waits of a request are not circular and that it leaves in the store what
  it is for, the operator's own secrets with it.

  Each reconciler runs with the cluster as it was when its goroutine was started: what HDFS writes
  into a shared configuration map is not passed on here.
\<close>

section \<open>The machine\<close>

text \<open>The log keeps of each reconciler the state it was run in and its outcome.\<close>

record 'w platform =
  pf_state :: "'w op_state"
  pf_sys :: sys
  pf_log :: "(NineCluster \<times> ClusterInfo \<times> 'w op_state \<times> unit outcome) multiset"

fun is_inner :: "goroutine \<Rightarrow> bool" where
  "is_inner (Inner _ _ _) = True"
| "is_inner _ = False"

text \<open>\<open>returns X st c v\<close>: the reconciler of the entry comes back when it is run in \<open>st\<close>.\<close>

definition returns :: "'w external \<Rightarrow> 'w op_state \<Rightarrow> NineCluster \<Rightarrow> ClusterInfo \<Rightarrow> bool" where
  "returns X st c v \<longleftrightarrow> (\<exists>run. reconcile_of X c v = Some run \<and> run st \<noteq> None)"

inductive platform_step :: "'w external \<Rightarrow> 'w platform \<Rightarrow> 'w platform \<Rightarrow> bool" for X where
  wire: "go_step (\<lambda>_ _. False) s t \<Longrightarrow>
    platform_step X \<lparr>pf_state = st, pf_sys = s, pf_log = G\<rparr> \<lparr>pf_state = st, pf_sys = t, pf_log = G\<rparr>"
| work: "reconcile_of X c v = Some run \<Longrightarrow> run st = Some (r, st1) \<Longrightarrow>
    platform_step X
      \<lparr>pf_state = st, pf_sys = \<lparr>sy_locks = L, sy_routines = add_mset (Inner k c v) R\<rparr>, pf_log = G\<rparr>
      \<lparr>pf_state = st1, pf_sys = \<lparr>sy_locks = L, sy_routines = R\<rparr>, pf_log = add_mset (c, v, st, r) G\<rparr>"

lemma wire_step: "go_step (\<lambda>_ _. False) (pf_sys p) t \<Longrightarrow> platform_step X p (p\<lparr>pf_sys := t\<rparr>)"
  using platform_step.wire [of "pf_sys p" t X "pf_state p" "pf_log p"] by (cases p) simp

text \<open>It is the machine of goroutines whose reconcilers end where they return, and has no fewer steps.\<close>

lemma platform_go_step:
  assumes "platform_step X p q"
  shows "go_step (returns X (pf_state p)) (pf_sys p) (pf_sys q)"
  using assms
proof cases
  case (work c v run st r st1 L k R G)
  then have "returns X st c v" by (simp add: returns_def)
  with work show ?thesis by (simp add: go_step.inner_end [OF refl])
qed (auto intro: go_step_mono)

lemma platform_step_iff:
  "(\<exists>q. platform_step X p q) \<longleftrightarrow> (\<exists>t. go_step (returns X (pf_state p)) (pf_sys p) t)"
proof
  assume "\<exists>t. go_step (returns X (pf_state p)) (pf_sys p) t"
  then obtain t where "go_step (returns X (pf_state p)) (pf_sys p) t" by blast
  then show "\<exists>q. platform_step X p q"
  proof cases
    case (inner_end L k c v R)
    then obtain run r st1 where "reconcile_of X c v = Some run" "run (pf_state p) = Some (r, st1)"
      by (auto simp: returns_def)
    from platform_step.work [OF this, of L k R "pf_log p"] inner_end show ?thesis by (cases p) auto
  qed (blast intro: wire_step go_step.intros)+
qed (blast dest: platform_go_step)

lemma platform_reachable: "(platform_step X)\<^sup>*\<^sup>* p q \<Longrightarrow> reachable (pf_sys p) \<Longrightarrow> reachable (pf_sys q)"
  by (induction rule: rtranclp_induct) (auto dest: platform_go_step intro: reachable.step)

lemma no_infinite_run: "\<not> (\<forall>n. platform_step X (f n) (f (Suc n)))"
proof
  assume f: "\<forall>n. platform_step X (f n) (f (Suc n))"
  have "weight (pf_sys (f n)) + n \<le> weight (pf_sys (f 0))" for n
  proof (induction n)
    case (Suc n)
    from f have "go_step (returns X (pf_state (f n))) (pf_sys (f n)) (pf_sys (f (Suc n)))"
      by (blast intro: platform_go_step)
    with go_step_weight [OF this] Suc show ?case by linarith
  qed simp
  from this [of "Suc (weight (pf_sys (f 0)))"] show False by simp
qed

lemma comes_to_rest: "\<exists>q. (platform_step X)\<^sup>*\<^sup>* p q \<and> \<not> (\<exists>r. platform_step X q r)"
proof (induction "weight (pf_sys p)" arbitrary: p rule: less_induct)
  case less
  show ?case
  proof (cases "\<exists>r. platform_step X p r")
    case True
    then obtain r where r: "platform_step X p r" by blast
    then have "weight (pf_sys r) < weight (pf_sys p)" by (blast dest: platform_go_step go_step_weight)
    with less obtain q where "(platform_step X)\<^sup>*\<^sup>* r q" "\<not> (\<exists>u. platform_step X q u)" by blast
    with r show ?thesis by (meson converse_rtranclp_into_rtranclp)
  qed blast
qed

section \<open>What is left at rest\<close>

fun go_cluster :: "goroutine \<Rightarrow> NineCluster" where
  "go_cluster (Ready _ c _) = c"
| "go_cluster (Locked _ c _) = c"
| "go_cluster (Unlocking _ c _) = c"
| "go_cluster (Inner _ c _) = c"

fun go_entry :: "goroutine \<Rightarrow> ClusterInfo" where
  "go_entry (Ready _ _ v) = v"
| "go_entry (Locked _ _ v) = v"
| "go_entry (Unlocking _ _ v) = v"
| "go_entry (Inner _ _ v) = v"

text \<open>A goroutine carries the cluster and the entry of the one it comes from.\<close>

lemma go_step_origin:
  "go_step ends s t \<Longrightarrow> g \<in># sy_routines t \<Longrightarrow>
     \<exists>h \<in># sy_routines s. go_cluster g = go_cluster h \<and> go_entry g = go_entry h"
  by (erule go_stepE) (auto simp: spawned_def split: if_splits)

lemma at_rest:
  assumes "reachable (pf_sys q)" and "\<not> (\<exists>r. platform_step X q r)"
  shows "\<forall>g \<in># sy_routines (pf_sys q). \<exists>k c v run. g = Inner k c v \<and> reconcile_of X c v = Some run \<and> run (pf_state q) = None"
proof
  fix g assume g: "g \<in># sy_routines (pf_sys q)"
  from assms(2) have "\<not> (\<exists>t. go_step (returns X (pf_state q)) (pf_sys q) t)" by (simp add: platform_step_iff)
  with go_step_enabled [OF reachable_inv [OF assms(1)] g] obtain k c v where
    v: "g = Inner k c v" "\<not> returns X (pf_state q) c v" by blast
  with reachable_inner [OF assms(1) g] reconcile_of_dispatched [of X c v] obtain run where
    "reconcile_of X c v = Some run" by auto
  with v show "\<exists>k c v run. g = Inner k c v \<and> reconcile_of X c v = Some run \<and> run (pf_state q) = None"
    unfolding returns_def by blast
qed

lemma at_rest_free:
  assumes "reachable (pf_sys q)" and "\<forall>g \<in># sy_routines (pf_sys q). is_inner g"
  shows "sy_locks (pf_sys q) k \<noteq> Some True"
proof
  assume "sy_locks (pf_sys q) k = Some True"
  with reachable_inv [OF assms(1)] have "holders k (sy_routines (pf_sys q)) = 1"
    by (auto simp: lock_inv_def)
  then obtain g where "g \<in># sy_routines (pf_sys q)" "holds k g"
    by (auto simp: holders_def dest!: size_eq_Suc_imp_elem)
  with assms(2) show False by (cases g) auto
qed

text \<open>The outside serves a goroutine: what its cluster waits for settles, whatever it sets.\<close>

definition served :: "'w external \<Rightarrow> ('w op_state \<Rightarrow> bool) \<Rightarrow> ('w op_state \<Rightarrow> nat) \<Rightarrow> NineCluster \<Rightarrow> ClusterInfo \<Rightarrow> bool" where
  "served X P due c v \<longleftrightarrow> calm X c P due \<and>
     (\<forall>s. ci_Type v = MetaStoreClusterType \<longrightarrow> rc_Replicas (ci_Resource v) \<noteq> 0 \<longrightarrow> P s \<longrightarrow>
        P (s\<lparr>op_MetastoreReplicas := rc_Replicas (ci_Resource v)\<rparr>) \<and>
        due (s\<lparr>op_MetastoreReplicas := rc_Replicas (ci_Resource v)\<rparr>) \<le> due s)"

lemma served_returns:
  assumes "served X P due c v" and "reconcile_of X c v = Some run" and "P s"
  obtains r s1 where "run s = Some (r, s1)" "P s1"
proof -
  have calm: "calm X c P due" using assms(1) by (simp add: served_def)
  note answering = calm.axioms(1) [OF calm]
  have "answering.replicas_free P due v"
    using assms(1) by (simp add: answering.replicas_free_def [OF answering] served_def)
  then have "answering.comes_back P due True run"
    using calm.reconciler_returns [OF calm assms(2)] by blast
  from answering.comes_backE [OF answering this assms(3)] that show thesis by blast
qed

lemma served_step:
  assumes "platform_step X p q" and "P (pf_state p)"
    and "\<forall>g \<in># sy_routines (pf_sys p). served X P due (go_cluster g) (go_entry g)"
  shows "P (pf_state q) \<and> (\<forall>g \<in># sy_routines (pf_sys q). served X P due (go_cluster g) (go_entry g))"
proof
  show "\<forall>g \<in># sy_routines (pf_sys q). served X P due (go_cluster g) (go_entry g)"
    using go_step_origin [OF platform_go_step [OF assms(1)]] assms(3) by metis
  from assms(1) show "P (pf_state q)"
  proof cases
    case (work c v run st r st1 L k R G)
    with assms(3) have "served X P due c v" by simp
    from served_returns [OF this work(3), of st] work assms(2) show ?thesis by auto
  qed (use assms(2) in simp)
qed

lemma served_run:
  assumes "(platform_step X)\<^sup>*\<^sup>* p q" and "P (pf_state p)"
    and "\<forall>g \<in># sy_routines (pf_sys p). served X P due (go_cluster g) (go_entry g)"
  shows "P (pf_state q) \<and> (\<forall>g \<in># sy_routines (pf_sys q). served X P due (go_cluster g) (go_entry g))"
  using assms by (induction rule: rtranclp_induct) (auto dest: served_step)

text \<open>
  C8: what becomes of the goroutines when no new request comes in. No run of them is infinite.
  Where one comes to rest every mutex is free, and a goroutine that is left is a second one whose
  reconciler never returns in the world as it is: no goroutine waits for a mutex. And if the
  outside does its part for the cluster of each goroutine, in the sense of \<open>calm\<close>, then none is
  left: all have ended.
\<close>
theorem goroutines_end:
  assumes "reachable (pf_sys p)"
  shows "\<not> (\<exists>f. f 0 = p \<and> (\<forall>n. platform_step X (f n) (f (Suc n)))) \<and>
    (\<forall>q. (platform_step X)\<^sup>*\<^sup>* p q \<longrightarrow> \<not> (\<exists>r. platform_step X q r) \<longrightarrow>
       (\<forall>k. sy_locks (pf_sys q) k \<noteq> Some True) \<and>
       (\<forall>g \<in># sy_routines (pf_sys q). \<exists>k c v run.
          g = Inner k c v \<and> reconcile_of X c v = Some run \<and> run (pf_state q) = None) \<and>
       (\<forall>P due. P (pf_state p) \<longrightarrow>
          (\<forall>g \<in># sy_routines (pf_sys p). served X P due (go_cluster g) (go_entry g)) \<longrightarrow>
          sy_routines (pf_sys q) = {#} \<and> P (pf_state q)))"
proof (intro conjI allI impI)
  show "\<not> (\<exists>f. f 0 = p \<and> (\<forall>n. platform_step X (f n) (f (Suc n))))"
    using no_infinite_run by blast
next
  fix q assume run: "(platform_step X)\<^sup>*\<^sup>* p q" and quiet: "\<not> (\<exists>r. platform_step X q r)"
  have reach: "reachable (pf_sys q)" using platform_reachable [OF run assms] .
  note left = at_rest [OF reach quiet]
  then show "\<forall>g \<in># sy_routines (pf_sys q). \<exists>k c v run.
      g = Inner k c v \<and> reconcile_of X c v = Some run \<and> run (pf_state q) = None" .
  from left have "\<forall>g \<in># sy_routines (pf_sys q). is_inner g" by auto
  from at_rest_free [OF reach this] show "sy_locks (pf_sys q) k \<noteq> Some True" for k .
  fix P due
  assume "P (pf_state p)" and "\<forall>g \<in># sy_routines (pf_sys p). served X P due (go_cluster g) (go_entry g)"
  from served_run [OF run this] have served: "P (pf_state q)"
    "\<And>g. g \<in># sy_routines (pf_sys q) \<Longrightarrow> served X P due (go_cluster g) (go_entry g)" by blast+
  then show "P (pf_state q)" by simp
  have False if "g \<in># sy_routines (pf_sys q)" for g
  proof -
    from left that obtain k c v run where v: "g = Inner k c v" "reconcile_of X c v = Some run" "run (pf_state q) = None"
      by blast
    with served(2) [OF that] served_returns [of X P due c v run "pf_state q"] served(1) show False by auto
  qed
  then show "sy_routines (pf_sys q) = {#}" by auto
qed

text \<open>The goroutine of a Kyuubi entry on the server that is late.\<close>

definition kyuubi_started :: "server_world platform" where
  "kyuubi_started = \<lparr>pf_state = in_world late_world,
     pf_sys = reconcileCluster demo_cluster kyuubi_default idle_sys, pf_log = {#}\<rparr>"

theorem goroutines_end_witness:
  "\<exists>q. (platform_step late_server)\<^sup>*\<^sup>* kyuubi_started q \<and> sy_routines (pf_sys q) = {#} \<and> late_state (pf_state q)"
proof -
  have reach: "reachable (pf_sys kyuubi_started)"
    by (simp add: kyuubi_started_def) (intro reachable.call reachable.start)
  obtain q where q: "(platform_step late_server)\<^sup>*\<^sup>* kyuubi_started q" "\<not> (\<exists>r. platform_step late_server q r)"
    using comes_to_rest by blast
  have "late_state (pf_state kyuubi_started)"
    by (simp add: kyuubi_started_def late_state_def late_world_def in_world_def)
  moreover have "\<forall>g \<in># sy_routines (pf_sys kyuubi_started). served late_server late_state late_due (go_cluster g) (go_entry g)"
    using late.calm_axioms
    by (simp add: kyuubi_started_def reconcileCluster_eq idle_sys_def Let_def served_def kyuubi_default_def)
  ultimately show ?thesis using goroutines_end [OF reach, of late_server] q by blast
qed

section \<open>Who waits for whom\<close>

text \<open>The type of entry whose reconciler creates the objects of a kind.\<close>

fun provider :: "cr_kind \<Rightarrow> ClusterType" where
  "provider KyuubiKind = KyuubiClusterType"
| "provider MetastoreKind = MetaStoreClusterType"
| "provider PGKind = DatabaseClusterType"
| "provider TenantKind = MinioClusterType"
| "provider DorisKind = DorisClusterType"
| "provider ZookeeperKind = ZookeeperClusterType"
| "provider HdfsKind = HdfsClusterType"

lemma object_of_provider: "fst (object_of c (provider k)) = k"
  by (cases k) (simp_all add: object_of_def)

lemma provider_dispatched: "dispatched (provider k)"
  by (cases k) (simp_all add: dispatched_def)

lemma range_provider: "range provider = {t. dispatched t}"
proof
  show "range provider \<subseteq> {t. dispatched t}"
    by (auto simp: provider_dispatched)
  have "provider k \<in> range provider" for k by simp
  from this [of KyuubiKind] this [of MetastoreKind] this [of TenantKind] this [of PGKind]
    this [of DorisKind] this [of ZookeeperKind] this [of HdfsKind]
  show "{t. dispatched t} \<subseteq> range provider" by (auto simp: dispatched_def simp del: rangeI)
qed

definition rank :: "ClusterType \<Rightarrow> nat" where
  "rank t = (if t = KyuubiClusterType then 3 else if t = MetaStoreClusterType then 2
     else if t = HdfsClusterType then 1 else 0)"

lemma needs_rank: "k \<in> needs c v \<Longrightarrow> rank (provider k) < rank (ci_Type v)"
  by (auto simp: needs_def rank_def split: if_splits)

lemma storage_required:
  "GetClusterStorage c = NineClusterStorageHdfs \<Longrightarrow> required_type c HdfsClusterType"
  "GetClusterStorage c = NineClusterStorageMinio \<Longrightarrow> required_type c MinioClusterType"
  by (auto simp: required_type_iff GetClusterStorage_def split: option.splits if_splits)

lemma always_required: "required_type c MetaStoreClusterType" "required_type c DatabaseClusterType"
  by (simp_all only: required_type_iff insert_iff simp_thms)

lemma ha_required: "IsKyuubiNeedHA c \<Longrightarrow> required_type c ZookeeperClusterType"
  by (simp only: required_type_iff simp_thms)

text \<open>
  The completion brings in what the entries wait for, except ZooKeeper for an HDFS entry whose
  name nodes are two although the storage is another one.
\<close>

lemma needs_provided:
  assumes "c = snd (FillClustersInfo c0)" and "k \<in> needs c v"
    and "ci_Type v = HdfsClusterType \<Longrightarrow> checkHdfsNameNodeHA c \<Longrightarrow>
      ZookeeperClusterType \<in> ci_Type ` set (cluster_set c)"
  shows "provider k \<in> ci_Type ` set (cluster_set c)"
proof -
  have "t \<in> ci_Type ` set (cluster_set c)" if "required_type c t" for t
    using that filled_has_required [of c0 t] by (simp add: assms(1))
  then show ?thesis
    using assms(2,3) storage_required [of c] always_required [of c] ha_required [of c]
    by (cases k) (simp_all add: needs_def split: if_splits)
qed

section \<open>What the outside has to do\<close>

definition in_store ::
  "('w \<Rightarrow> cr_kind \<Rightarrow> string \<Rightarrow> string \<Rightarrow> bool) \<Rightarrow> NineCluster \<Rightarrow> ClusterType \<Rightarrow> 'w op_state \<Rightarrow> bool" where
  "in_store has c t s \<longleftrightarrow>
     has (op_world s) (fst (object_of c t)) (cluster_namespace c) (snd (object_of c t))"

text \<open>The secrets the operator itself writes for an entry.\<close>

definition secrets_of :: "NineCluster \<Rightarrow> ClusterType \<Rightarrow> string set" where
  "secrets_of c t =
     (if t = MinioClusterType then {MinioConfigName c, MinioNewUserName c}
      else if t = DatabaseClusterType then {PGInitDBUserSecretName c, PGSuperUserSecretName c} else {})"

text \<open>What a reconciler delivers: the entry's object and its secrets.\<close>

definition delivered ::
  "('w \<Rightarrow> cr_kind \<Rightarrow> string \<Rightarrow> string \<Rightarrow> bool) \<Rightarrow> ('w \<Rightarrow> string \<Rightarrow> string \<Rightarrow> bool) \<Rightarrow>
     NineCluster \<Rightarrow> ClusterType \<Rightarrow> 'w op_state \<Rightarrow> bool" where
  "delivered has hs c t s \<longleftrightarrow>
     in_store has c t s \<and> (\<forall>n \<in> secrets_of c t. hs (op_world s) (cluster_namespace c) n)"

definition kept ::
  "('w \<Rightarrow> cr_kind \<Rightarrow> string \<Rightarrow> string \<Rightarrow> bool) \<Rightarrow> ('w \<Rightarrow> string \<Rightarrow> string \<Rightarrow> bool) \<Rightarrow>
     NineCluster \<Rightarrow> cr_kind set \<Rightarrow> string set \<Rightarrow> 'w op_state \<Rightarrow> bool" where
  "kept has hs c K S s \<longleftrightarrow>
     (\<forall>k \<in> K. in_store has c (provider k) s) \<and> (\<forall>n \<in> S. hs (op_world s) (cluster_namespace c) n)"

lemma kept_delivered:
  "kept has hs c K (\<Union>k \<in> K. secrets_of c (provider k)) s \<longleftrightarrow> (\<forall>k \<in> K. delivered has hs c (provider k) s)"
  by (auto simp: kept_def delivered_def)

lemma delivered_kept: "\<exists>k. \<forall>s. delivered has hs c t s \<longleftrightarrow> kept has hs c {k} (secrets_of c t) s"
proof -
  have "\<exists>k. object_of c t = object_of c (provider k)"
  proof (cases "dispatched t")
    case True
    then have "t \<in> range provider" by (simp add: range_provider)
    then show ?thesis by auto
  next
    case False
    then have "object_of c t = object_of c (provider KyuubiKind)"
      by (simp add: object_of_def dispatched_def)
    then show ?thesis by blast
  qed
  then show ?thesis by (auto simp: delivered_def kept_def in_store_def)
qed

text \<open>
  \<open>due K S\<close> bounds the seconds until the components \<open>K\<close> are ready, once their objects and the
  secrets \<open>S\<close> are in the store: from then on no call raises it or takes one of them away, and when
  it is zero those components whose secrets are among \<open>S\<close> are ready.
\<close>

locale rising =
  fixes X :: "'w external" and c :: NineCluster and P :: "'w op_state \<Rightarrow> bool"
    and due :: "cr_kind set \<Rightarrow> string set \<Rightarrow> 'w op_state \<Rightarrow> nat"
    and has :: "'w \<Rightarrow> cr_kind \<Rightarrow> string \<Rightarrow> string \<Rightarrow> bool"
    and hs :: "'w \<Rightarrow> string \<Rightarrow> string \<Rightarrow> bool"
  assumes answering: "answering X (\<lambda>s. P s \<and> kept has hs c K S s) (due K S)"
    and ready: "k \<in> K \<Longrightarrow> secrets_of c (provider k) \<subseteq> S \<Longrightarrow>
      settled X c (\<lambda>s. P s \<and> kept has hs c K S s) (due K S) k"
    and replicas: "v \<in> set (cluster_set c) \<Longrightarrow> ci_Type v = MetaStoreClusterType \<Longrightarrow>
      rc_Replicas (ci_Resource v) \<noteq> 0 \<Longrightarrow> P s \<Longrightarrow>
      P (s\<lparr>op_MetastoreReplicas := rc_Replicas (ci_Resource v)\<rparr>) \<and>
      due K S (s\<lparr>op_MetastoreReplicas := rc_Replicas (ci_Resource v)\<rparr>) \<le> due K S s"
    and objects: "cr_store X has" and secrets: "secret_store X hs" and names: "keeps_name X"
begin

lemma free: "v \<in> set (cluster_set c) \<Longrightarrow>
    answering.replicas_free (\<lambda>s. P s \<and> kept has hs c K S s) (due K S) v"
  unfolding answering.replicas_free_def [OF answering]
  using replicas by (auto simp: kept_def in_store_def)

lemma reconciler_runs:
  assumes "v \<in> set (cluster_set c)" and "reconcile_of X c v = Some run"
    and "P s" and "\<forall>k \<in> needs c v. delivered has hs c (provider k) s"
  obtains r s1 where "run s = Some (r, s1)"
proof -
  let ?K = "needs c v" and ?S = "\<Union>k \<in> needs c v. secrets_of c (provider k)"
  have "answering.comes_back (\<lambda>s. P s \<and> kept has hs c ?K ?S s) (due ?K ?S) True run"
  proof (rule answering.reconciler_comes_back [OF answering assms(2) free [OF assms(1)]])
    fix k assume "k \<in> needs c v"
    then show "settled X c (\<lambda>s. P s \<and> kept has hs c ?K ?S s) (due ?K ?S) k" by (intro ready) blast+
  qed
  moreover have "kept has hs c ?K ?S s" using assms(4) by (simp only: kept_delivered)
  ultimately show thesis
    using assms(3) that by (auto elim: answering.comes_backE [OF answering])
qed

text \<open>An operation that leaves what is in the store, and one that leaves certain secrets there.\<close>

definition keeping :: "('w, 'a) op \<Rightarrow> bool" where
  "keeping m \<longleftrightarrow> (\<forall>K S s r s1. P s \<longrightarrow> kept has hs c K S s \<longrightarrow> m s = Some (r, s1) \<longrightarrow> P s1 \<and> kept has hs c K S s1)"

definition leaves :: "string set \<Rightarrow> ('w, 'a) op \<Rightarrow> bool" where
  "leaves S m \<longleftrightarrow> (\<forall>s a s1. P s \<longrightarrow> m s = Some (Ret a, s1) \<longrightarrow> P s1 \<and> kept has hs c {} S s1)"

lemma keepingI:
  assumes "\<And>K S. answering.comes_back (\<lambda>s. P s \<and> kept has hs c K S s) (due K S) False m"
  shows "keeping m"
  unfolding keeping_def using answering.comes_backD [OF answering assms] by blast

lemma leaves_first:
  assumes "leaves S m" and "\<And>a. keeping (f a)"
  shows "leaves S (io_bind m f)"
  unfolding leaves_def
proof (intro allI impI)
  fix s a s2 assume "P s" and "io_bind m f s = Some (Ret a, s2)"
  then obtain b s1 where "m s = Some (Ret b, s1)" "f b s1 = Some (Ret a, s2)" by (auto elim: io_bind_RetE)
  with assms \<open>P s\<close> show "P s2 \<and> kept has hs c {} S s2" unfolding leaves_def keeping_def by metis
qed

lemma leaves_then:
  assumes "keeping m" and "\<And>a. leaves S (f a)"
  shows "leaves S (io_bind m f)"
  unfolding leaves_def
proof (intro allI impI)
  fix s a s2 assume "P s" and "io_bind m f s = Some (Ret a, s2)"
  then obtain b s1 where run: "m s = Some (Ret b, s1)" "f b s1 = Some (Ret a, s2)" by (auto elim: io_bind_RetE)
  have "kept has hs c {} {} s" by (simp add: kept_def)
  with assms(1) run(1) \<open>P s\<close> have "P s1" unfolding keeping_def by blast
  with assms(2) run(2) show "P s2 \<and> kept has hs c {} S s2" unfolding leaves_def by blast
qed

lemma leaves_two: "leaves S m \<Longrightarrow> leaves T m \<Longrightarrow> leaves (S \<union> T) m"
  unfolding leaves_def kept_def by blast

lemma leaves_secret:
  assumes "\<And>s r s1. m s = Some (r, s1) \<Longrightarrow> P s \<Longrightarrow> P s1"
    and "\<And>s a s1. m s = Some (Ret a, s1) \<Longrightarrow> hs (op_world s1) (cluster_namespace c) n"
  shows "leaves {n} m"
  using assms by (auto simp: leaves_def kept_def)

lemma keeping_P: "keeping m \<Longrightarrow> m s = Some (r, s1) \<Longrightarrow> P s \<Longrightarrow> P s1"
  unfolding keeping_def using kept_def by blast

end

section \<open>What a request keeps\<close>

text \<open>A goroutine of the cluster: for one of its entries and under that entry's mutex.\<close>

definition of_cluster :: "NineCluster \<Rightarrow> goroutine \<Rightarrow> bool" where
  "of_cluster c g \<longleftrightarrow> go_cluster g = c \<and> go_entry g \<in> set (cluster_set c) \<and>
     go_key g = GenUniqueName4Cluster c (ci_Type (go_entry g)) \<and>
     (is_inner g \<longrightarrow> dispatched (ci_Type (go_entry g)))"

text \<open>The reconciler of an entry has begun if it runs or has ended.\<close>

definition begun ::
  "NineCluster \<Rightarrow> goroutine multiset \<Rightarrow> (NineCluster \<times> ClusterInfo \<times> 'w op_state \<times> unit outcome) multiset \<Rightarrow> ClusterInfo \<Rightarrow> bool" where
  "begun c R G v \<longleftrightarrow> (\<exists>k. Inner k c v \<in># R) \<or> (\<exists>st r. (c, v, st, r) \<in># G)"

definition coming ::
  "NineCluster \<Rightarrow> goroutine multiset \<Rightarrow> (NineCluster \<times> ClusterInfo \<times> 'w op_state \<times> unit outcome) multiset \<Rightarrow> ClusterInfo \<Rightarrow> bool" where
  "coming c R G v \<longleftrightarrow> (\<exists>k. Ready k c v \<in># R \<or> Locked k c v \<in># R) \<or> begun c R G v"

definition request_inv ::
  "NineCluster \<Rightarrow> goroutine multiset \<Rightarrow> (NineCluster \<times> ClusterInfo \<times> 'w op_state \<times> unit outcome) multiset \<Rightarrow> bool" where
  "request_inv c R G \<longleftrightarrow>
     (\<forall>g \<in># R. of_cluster c g) \<and>
     (\<forall>u \<in> set (cluster_set c). dispatched (ci_Type u) \<longrightarrow>
        (\<exists>v \<in> set (cluster_set c). ci_Type v = ci_Type u \<and> coming c R G v)) \<and>
     (\<forall>k v. Unlocking k c v \<in># R \<longrightarrow> dispatched (ci_Type v) \<longrightarrow> begun c R G v)"

lemma request_invE:
  assumes "request_inv c R G" and "u \<in> set (cluster_set c)" and "dispatched (ci_Type u)"
  obtains v where "v \<in> set (cluster_set c)" "ci_Type v = ci_Type u" "coming c R G v"
  using assms unfolding request_inv_def by blast

lemma request_change:
  assumes "request_inv c R G" and "\<And>g. g \<in># R1 \<Longrightarrow> of_cluster c g"
    and "\<And>u. u \<in> set (cluster_set c) \<Longrightarrow> dispatched (ci_Type u) \<Longrightarrow> coming c R G u \<Longrightarrow>
      \<exists>v \<in> set (cluster_set c). ci_Type v = ci_Type u \<and> coming c R1 G1 v"
    and "\<And>k u. Unlocking k c u \<in># R1 \<Longrightarrow> dispatched (ci_Type u) \<Longrightarrow> begun c R1 G1 u"
  shows "request_inv c R1 G1"
proof -
  have "\<exists>v \<in> set (cluster_set c). ci_Type v = ci_Type u \<and> coming c R1 G1 v"
    if u: "u \<in> set (cluster_set c)" "dispatched (ci_Type u)" for u
  proof -
    from request_invE [OF assms(1) u] obtain v where
      v: "v \<in> set (cluster_set c)" "ci_Type v = ci_Type u" "coming c R G v" .
    with assms(3) [of v] u(2) show ?thesis by auto
  qed
  with assms(2,4) show ?thesis unfolding request_inv_def by blast
qed

lemma request_own: "request_inv c R G \<Longrightarrow> g \<in># R \<Longrightarrow> of_cluster c g"
  by (simp add: request_inv_def)

lemma request_unlocking:
  "request_inv c R G \<Longrightarrow> Unlocking k c v \<in># R \<Longrightarrow> dispatched (ci_Type v) \<Longrightarrow> begun c R G v"
  by (simp add: request_inv_def)

lemma key_inj: "GenUniqueName4Cluster c t = GenUniqueName4Cluster c u \<Longrightarrow> t = u"
  by (simp add: GenUniqueName4Cluster_def)

lemma request_start:
  "request_inv c (mset (map (\<lambda>v. Ready (GenUniqueName4Cluster c (ci_Type v)) c v) (cluster_set c))) {#}"
  by (auto simp: request_inv_def of_cluster_def coming_def)

text \<open>Who gives up leaves the entry to the goroutine that holds its mutex.\<close>

lemma give_up_holder:
  assumes "lock_inv \<lparr>sy_locks = L, sy_routines = add_mset (Ready k c v) R\<rparr>" and "L k = Some True"
    and "request_inv c (add_mset (Ready k c v) R) G" and "dispatched (ci_Type v)"
  shows "\<exists>u \<in> set (cluster_set c). ci_Type u = ci_Type v \<and> coming c R G u"
proof -
  have "holders k R = 1" using assms(1,2) by (auto simp: lock_inv_def dest: spec [of _ k])
  then obtain g where g: "g \<in># R" "holds k g"
    by (auto simp: holders_def dest!: size_eq_Suc_imp_elem)
  then have "of_cluster c g" "of_cluster c (Ready k c v)" using assms(3) by (auto simp: request_inv_def)
  with g holds_key [OF g(2)] have u: "go_entry g \<in> set (cluster_set c)" "ci_Type (go_entry g) = ci_Type v" "go_cluster g = c"
    by (auto simp: of_cluster_def dest: key_inj)
  have "coming c R G (go_entry g)"
  proof (cases g)
    case (Locked k1 c1 v1)
    with g u show ?thesis by (auto simp: coming_def)
  next
    case (Unlocking k1 c1 v1)
    with g u assms(3,4) have "begun c (add_mset (Ready k c v) R) G v1" by (auto simp: request_inv_def)
    with Unlocking show ?thesis by (auto simp: coming_def begun_def)
  qed (use g in simp_all)
  with u show ?thesis by blast
qed

lemma request_step:
  assumes "go_step (\<lambda>_ _. False) s t" and "lock_inv s" and inv: "request_inv c (sy_routines s) G"
  shows "request_inv c (sy_routines t) G"
  using assms(1)
proof cases
  case (try_lock L k d v R)
  with request_own [OF inv] have "of_cluster c (Ready k d v)" by simp
  then have d: "d = c" "of_cluster c (Locked k c v)" by (auto simp: of_cluster_def)
  show ?thesis
  proof (rule request_change [OF inv])
    show "\<exists>v \<in> set (cluster_set c). ci_Type v = ci_Type u \<and> coming c (sy_routines t) G v"
      if "u \<in> set (cluster_set c)" "coming c (sy_routines s) G u" for u
      using that try_lock d by (intro bexI [of _ u]) (auto simp: coming_def begun_def)
    show "begun c (sy_routines t) G u" if "Unlocking k1 c u \<in># sy_routines t" "dispatched (ci_Type u)" for k1 u
      using request_unlocking [OF inv, of k1 u] that try_lock by (auto simp: begun_def)
  qed (use request_own [OF inv] try_lock d in auto)
next
  case (give_up L k d v R)
  with request_own [OF inv] have "of_cluster c (Ready k d v)" by simp
  then have d: "d = c" by (simp add: of_cluster_def)
  show ?thesis
  proof (rule request_change [OF inv])
    show "\<exists>v \<in> set (cluster_set c). ci_Type v = ci_Type u \<and> coming c (sy_routines t) G v"
      if u: "u \<in> set (cluster_set c)" "dispatched (ci_Type u)" "coming c (sy_routines s) G u" for u
    proof (cases "u = v")
      case True
      with give_up_holder [of L k c v R G] give_up assms(2) inv d u(2) show ?thesis by simp
    next
      case False
      with u give_up show ?thesis by (intro bexI [of _ u]) (auto simp: coming_def begun_def)
    qed
    show "begun c (sy_routines t) G u" if "Unlocking k1 c u \<in># sy_routines t" "dispatched (ci_Type u)" for k1 u
      using request_unlocking [OF inv, of k1 u] that give_up by (auto simp: begun_def)
  qed (use request_own [OF inv] give_up in auto)
next
  case (dispatch L k d v R)
  with request_own [OF inv] have g: "of_cluster c (Locked k d v)" by simp
  then have d: "d = c" by (simp add: of_cluster_def)
  have own: "of_cluster c h" if "h \<in># spawned k c v" for h
    using that g d by (auto simp: spawned_def of_cluster_def split: if_splits)
  have more: "begun c (sy_routines t) G u" if "begun c (sy_routines s) G u \<or> u = v \<and> dispatched (ci_Type v)" for u
    using that dispatch d by (auto simp: begun_def spawned_def)
  show ?thesis
  proof (rule request_change [OF inv])
    show "\<exists>v \<in> set (cluster_set c). ci_Type v = ci_Type u \<and> coming c (sy_routines t) G v"
      if "u \<in> set (cluster_set c)" "dispatched (ci_Type u)" "coming c (sy_routines s) G u" for u
      using that more [of u] dispatch d by (intro bexI [of _ u]) (auto simp: coming_def)
    show "begun c (sy_routines t) G u" if "Unlocking k1 c u \<in># sy_routines t" "dispatched (ci_Type u)" for k1 u
    proof (rule more, cases "u = v")
      case False
      with that dispatch have "Unlocking k1 c u \<in># sy_routines s"
        by (auto simp: spawned_def split: if_splits)
      with request_unlocking [OF inv] that(2)
      show "begun c (sy_routines s) G u \<or> u = v \<and> dispatched (ci_Type v)" by blast
    qed (use that in simp)
  qed (use request_own [OF inv] dispatch d own g in \<open>auto simp: of_cluster_def\<close>)
next
  case (unlock L k d v R)
  show ?thesis
  proof (rule request_change [OF inv])
    show "\<exists>v \<in> set (cluster_set c). ci_Type v = ci_Type u \<and> coming c (sy_routines t) G v"
      if "u \<in> set (cluster_set c)" "coming c (sy_routines s) G u" for u
      using that unlock by (intro bexI [of _ u]) (auto simp: coming_def begun_def)
    show "begun c (sy_routines t) G u" if "Unlocking k1 c u \<in># sy_routines t" "dispatched (ci_Type u)" for k1 u
      using request_unlocking [OF inv, of k1 u] that unlock by (auto simp: begun_def)
  qed (use request_own [OF inv] unlock in auto)
qed simp

lemma request_end:
  assumes inv: "request_inv c (add_mset (Inner k d v) R) G"
  shows "request_inv c R (add_mset (d, v, st, r) G)"
proof -
  have "of_cluster c (Inner k d v)" using request_own [OF inv] by simp
  then have d: "d = c" by (simp add: of_cluster_def)
  have more: "begun c R (add_mset (d, v, st, r) G) u" if "begun c (add_mset (Inner k d v) R) G u" for u
    using that d by (auto simp: begun_def)
  show ?thesis
  proof (rule request_change [OF inv])
    show "\<exists>v1 \<in> set (cluster_set c). ci_Type v1 = ci_Type u \<and> coming c R (add_mset (d, v, st, r) G) v1"
      if "u \<in> set (cluster_set c)" "coming c (add_mset (Inner k d v) R) G u" for u
      using that more [of u] by (intro bexI [of _ u]) (auto simp: coming_def)
    show "begun c R (add_mset (d, v, st, r) G) u" if "Unlocking k1 c u \<in># R" "dispatched (ci_Type u)" for k1 u
      using request_unlocking [OF inv, of k1 u] that more by simp
  qed (use request_own [OF inv] in auto)
qed

section \<open>What the reconcilers deliver\<close>

text \<open>
  A reconciler falls short when it ends with an error or a panic, and when its construction ended
  in an error that it does not return: a not-found error of the four that postpone, any error of
  the MinIO tenant's.
\<close>

definition construction_fails :: "'w external \<Rightarrow> NineCluster \<Rightarrow> ClusterInfo \<Rightarrow> 'w op_state \<Rightarrow> bool" where
  "construction_fails X c v s \<longleftrightarrow>
     ci_Type v = KyuubiClusterType \<and> (\<exists>e t. constructKyuubiCluster X c v s = Some (Fail e, t) \<and> is_not_found e) \<or>
     ci_Type v = MetaStoreClusterType \<and>
       (\<exists>u e t. initMetastore v s = Some (Ret (), u) \<and> constructMetastoreCluster X c v u = Some (Fail e, t) \<and>
          is_not_found e) \<or>
     ci_Type v = ZookeeperClusterType \<and> (\<exists>e. constructZookeeperCluster X c v = Inl e \<and> is_not_found e) \<or>
     ci_Type v = HdfsClusterType \<and>
       (\<exists>e c1 t. constructHdfsCluster X c v s = Some (Ret (Inl e, c1), t) \<and> is_not_found e) \<or>
     ci_Type v = MinioClusterType \<and> (\<exists>e t. constructMinioTenant X c v s = Some (Fail e, t))"

definition fell_short :: "'w external \<Rightarrow> NineCluster \<Rightarrow> ClusterInfo \<Rightarrow> 'w op_state \<Rightarrow> unit outcome \<Rightarrow> bool" where
  "fell_short X c v s r \<longleftrightarrow> r \<noteq> Ret () \<or> construction_fails X c v s"

text \<open>PostgreSQL is the one database there is a reconciler for.\<close>

definition database_known :: "ClusterInfo \<Rightarrow> bool" where
  "database_known v \<longleftrightarrow> (ci_Type v = DatabaseClusterType \<longrightarrow> ci_SubType v \<in> {[], DbTypePostgres})"

lemma postgres_run:
  assumes "reconcile_of X c v = Some run" and "ci_Type v = DatabaseClusterType" and "database_known v"
  obtains u where "run = reconcilePGCluster X c u"
  using assms by (auto simp: reconcile_of_def database_known_def reconcileDatabaseCluster_def Let_def)

lemma success_stored:
  assumes "cr_store X has" and "keeps_name X" and "reconcile_of X c v = Some run" and "run s = Some (Ret (), s1)"
    and "database_known v" and "\<not> construction_fails X c v s"
  shows "in_store has c (ci_Type v) s1"
proof -
  note store = assms(1,2)
  have "dispatched (ci_Type v)" using assms(3) reconcile_of_dispatched by (metis option.distinct(1))
  then consider "ci_Type v = MinioClusterType" | "ci_Type v = DatabaseClusterType" | "ci_Type v = DorisClusterType"
    | "ci_Type v = KyuubiClusterType" | "ci_Type v = MetaStoreClusterType"
    | "ci_Type v = ZookeeperClusterType" | "ci_Type v = HdfsClusterType"
    by (auto simp: dispatched_def)
  then show ?thesis
  proof cases
    case 1
    with assms(3,4) reconcileMinioTenant_success [OF store] show ?thesis
      by (auto simp: reconcile_of_def object_of_def in_store_def)
  next
    case 2
    from postgres_run [OF assms(3) this assms(5)] obtain u where "run = reconcilePGCluster X c u" .
    with 2 assms(4) reconcilePGCluster_success [OF store] show ?thesis
      by (auto simp: object_of_def in_store_def pgResourceName_def)
  next
    case 3
    with assms(3,4) reconcileDorisCluster_success [OF store] show ?thesis
      by (auto simp: reconcile_of_def object_of_def in_store_def)
  next
    case 4
    with assms(3,4) have "reconcileKyuubiCluster X c v s = Some (Ret (), s1)" by (auto simp: reconcile_of_def)
    from reconcileKyuubiCluster_success [OF store this] 4 assms(6) show ?thesis
      by (auto simp: object_of_def in_store_def construction_fails_def)
  next
    case 5
    with assms(3,4) have "reconcileMetastoreCluster X c v s = Some (Ret (), s1)" by (auto simp: reconcile_of_def)
    from reconcileMetastoreCluster_success [OF store this] 5 assms(6) show ?thesis
      by (auto simp: object_of_def in_store_def construction_fails_def)
  next
    case 6
    with assms(3,4) have "reconcileZookeeperCluster X c v s = Some (Ret (), s1)" by (auto simp: reconcile_of_def)
    from reconcileZookeeperCluster_success [OF store this] 6 assms(6) show ?thesis
      by (auto simp: object_of_def in_store_def construction_fails_def)
  next
    case 7
    with assms(3,4) have "io_bind (reconcileHdfsCluster X c v) hdfs_result s = Some (Ret (), s1)"
      by (auto simp: reconcile_of_def)
    then obtain c1 where "reconcileHdfsCluster X c v s = Some (Ret (None, c1), s1)"
      by (auto simp: hdfs_result_def io_ret_def io_fail_def elim!: io_bind_RetE split: option.splits)
    from reconcileHdfsCluster_success [OF store this] 7 assms(6) show ?thesis
      by (auto simp: object_of_def in_store_def construction_fails_def)
  qed
qed

text \<open>The four writers of secrets.\<close>

lemma secrets_written:
  assumes "secret_store X hs" and "keeps_name X"
  shows "reconcileMinioTenantConfigSecret X c s = Some (Ret (), s1) \<Longrightarrow>
      hs (op_world s1) (cluster_namespace c) (MinioConfigName c)"
    and "reconcileMinioNewUserSecret X c s = Some (Ret (), s1) \<Longrightarrow>
      hs (op_world s1) (cluster_namespace c) (MinioNewUserName c)"
    and "reconcilePGInitDBUserSecret X c s = Some (Ret (), s1) \<Longrightarrow>
      hs (op_world s1) (cluster_namespace c) (PGInitDBUserSecretName c)"
    and "reconcilePGSuperUserSecret X c v s = Some (Ret (), s1) \<Longrightarrow>
      hs (op_world s1) (cluster_namespace c) (PGSuperUserSecretName c)"
proof -
  have own: "hs (op_world s1) (fst (secret_key sec)) (snd (secret_key sec))"
    if "io_bind (io_of (own_secret X c sec)) (\<lambda>d. tail (secret_key d) d) s = Some (Ret (), s1)"
      "tail = ensure_secret X \<or> tail = ensure_secret_tolerant X" for sec tail s s1
    using that own_secret_key [OF assms(2)] ensure_secret_stores [OF assms(1)]
    by (auto simp: io_of_def io_ret_def io_fail_def elim!: io_bind_RetE split: sum.splits) metis+
  show "reconcileMinioTenantConfigSecret X c s = Some (Ret (), s1) \<Longrightarrow>
      hs (op_world s1) (cluster_namespace c) (MinioConfigName c)"
    using own [of "minio_config_secret c" "ensure_secret X"]
    by (simp add: reconcileMinioTenantConfigSecret_def secret_key_def minio_config_secret_def)
  show "hs (op_world s1) (cluster_namespace c) (MinioNewUserName c)"
    if "reconcileMinioNewUserSecret X c s = Some (Ret (), s1)"
  proof -
    from that obtain keys t where
      "io_bind (io_of (own_secret X c (minio_user_secret c keys))) (\<lambda>d. ensure_secret X (secret_key d) d) t =
         Some (Ret (), s1)"
      unfolding reconcileMinioNewUserSecret_def by (rule io_bind_RetE)
    from own [where tail = "ensure_secret X" and sec = "minio_user_secret c keys", OF this] show ?thesis
      by (simp add: secret_key_def minio_user_secret_def)
  qed
  show "reconcilePGInitDBUserSecret X c s = Some (Ret (), s1) \<Longrightarrow>
      hs (op_world s1) (cluster_namespace c) (PGInitDBUserSecretName c)"
    using own [of "pg_init_secret c" "ensure_secret_tolerant X"]
    by (simp add: reconcilePGInitDBUserSecret_def secret_key_def pg_init_secret_def)
  show "reconcilePGSuperUserSecret X c v s = Some (Ret (), s1) \<Longrightarrow>
      hs (op_world s1) (cluster_namespace c) (PGSuperUserSecretName c)"
    using own [of "pg_superuser_secret c v" "ensure_secret_tolerant X"]
    by (simp add: reconcilePGSuperUserSecret_def secret_key_def pg_superuser_secret_def Let_def split_def)
qed

context answering begin

lemma comes_back_writers:
  "comes_back b (reconcileMinioTenantConfigSecret X c)" "comes_back b (reconcileMinioNewUserSecret X c)"
  "comes_back b (reconcilePGInitDBUserSecret X c)" "comes_back b (reconcilePGSuperUserSecret X c v)"
  unfolding reconcileMinioTenantConfigSecret_def reconcileMinioNewUserSecret_def reconcilePGInitDBUserSecret_def
    reconcilePGSuperUserSecret_def minio_credentials_def GenerateCredentials_def readBytes_def Let_def
  by (auto intro!: comes_back_bind comes_back_try comes_back_of comes_back_tails call_backs comes_back_basic
      split: sum.splits)

lemma comes_back_rests:
  "comes_back b (io_bind (getDirectPVNodesCount X) (\<lambda>n. io_bind (deref_capacity (q n)) (\<lambda>a. io_of (t n a))))"
  "comes_back b (io_bind (client_of X kind) (\<lambda>_. ensure_cr X kind ns name d))"
  "comes_back b (io_bind (io_of (constructPGCluster X c v)) (\<lambda>d.
     io_bind (client_of X kind) (\<lambda>_. ensure_cr X kind ns name (Some (PGCR d)))))"
  by (auto intro!: comes_back_bind comes_back_of comes_back_tails comes_back_nodes comes_back_deref)

end

context rising begin

lemmas backs = answering.comes_back_writers [OF answering] answering.comes_back_rests [OF answering]

lemma keeping_parts:
  "keeping (reconcileMinioTenantConfigSecret X c)" "keeping (reconcileMinioNewUserSecret X c)"
  "keeping (reconcilePGInitDBUserSecret X c)" "keeping (reconcilePGSuperUserSecret X c v)"
  "keeping (io_bind (getDirectPVNodesCount X) (\<lambda>n. io_bind (deref_capacity (q n)) (\<lambda>a. io_of (t n a))))"
  "keeping (io_bind (client_of X kind) (\<lambda>_. ensure_cr X kind ns name d))"
  "keeping (io_bind (io_of (constructPGCluster X c u)) (\<lambda>d.
     io_bind (client_of X kind) (\<lambda>_. ensure_cr X kind ns name (Some (PGCR d)))))"
  by (rule keepingI, rule backs)+

lemma leaves_parts:
  "leaves {MinioConfigName c} (reconcileMinioTenantConfigSecret X c)"
  "leaves {MinioNewUserName c} (reconcileMinioNewUserSecret X c)"
  "leaves {PGInitDBUserSecretName c} (reconcilePGInitDBUserSecret X c)"
  "leaves {PGSuperUserSecretName c} (reconcilePGSuperUserSecret X c v)"
  by (rule leaves_secret, erule (1) keeping_P [OF keeping_parts(1)] keeping_P [OF keeping_parts(2)]
      keeping_P [OF keeping_parts(3)] keeping_P [OF keeping_parts(4)],
      simp add: secrets_written [OF secrets names])+

lemma leaves_minio: "leaves {MinioConfigName c, MinioNewUserName c} (constructMinioTenant X c v)"
proof -
  let ?rest = "io_bind (getDirectPVNodesCount X) (\<lambda>dpnodes.
     io_bind (deref_capacity (minio_capacity X c v dpnodes)) (\<lambda>q. io_of (own_tenant X c (minio_tenant c v dpnodes q))))"
  have m: "constructMinioTenant X c v = io_bind (reconcileMinioTenantConfigSecret X c) (\<lambda>_.
      io_bind (reconcileMinioNewUserSecret X c) (\<lambda>_. ?rest))"
    by (simp add: constructMinioTenant_def)
  have "keeping (io_bind (reconcileMinioNewUserSecret X c) (\<lambda>_. ?rest))"
    by (rule keepingI) (intro answering.comes_back_bind [OF answering] backs)
  then have "leaves {MinioConfigName c} (constructMinioTenant X c v)"
    unfolding m by (rule leaves_first [OF leaves_parts(1)])
  moreover have "leaves {MinioNewUserName c} (constructMinioTenant X c v)"
    unfolding m by (intro leaves_then [OF keeping_parts(1)] leaves_first [OF leaves_parts(2)] keeping_parts(5))
  ultimately show ?thesis using leaves_two by (metis insert_is_Un)
qed

lemma leaves_pg: "leaves {PGInitDBUserSecretName c, PGSuperUserSecretName c} (reconcilePGCluster X c v)"
proof -
  let ?rest = "io_bind (io_of (constructPGCluster X c v)) (\<lambda>d.
     io_bind (client_of X PGKind) (\<lambda>_. ensure_cr X PGKind (cluster_namespace c) (pgResourceName c) (Some (PGCR d))))"
  have m: "reconcilePGCluster X c v = io_bind (reconcilePGInitDBUserSecret X c) (\<lambda>_.
      io_bind (reconcilePGSuperUserSecret X c v) (\<lambda>_. ?rest))"
    by (simp add: reconcilePGCluster_def)
  have "keeping (io_bind (reconcilePGSuperUserSecret X c v) (\<lambda>_. ?rest))"
    by (rule keepingI) (intro answering.comes_back_bind [OF answering] backs)
  then have "leaves {PGInitDBUserSecretName c} (reconcilePGCluster X c v)"
    unfolding m by (rule leaves_first [OF leaves_parts(3)])
  moreover have "leaves {PGSuperUserSecretName c} (reconcilePGCluster X c v)"
    unfolding m by (intro leaves_then [OF keeping_parts(3)] leaves_first [OF leaves_parts(4)] keeping_parts(7))
  ultimately show ?thesis using leaves_two by (metis insert_is_Un)
qed

text \<open>What is in the store stays there through a reconciler, and one that does not fall short delivers.\<close>

lemma reconciler_keeps:
  assumes "v \<in> set (cluster_set c)" and "reconcile_of X c v = Some run"
  shows "keeping run"
  by (rule keepingI, rule answering.reconciler_comes_back [OF answering assms(2) free [OF assms(1)]]) simp

lemma reconciler_delivers:
  assumes "v \<in> set (cluster_set c)" and "reconcile_of X c v = Some run" and "P s" and "run s = Some (r, s1)"
    and "database_known v" and "\<not> fell_short X c v s r"
  shows "delivered has hs c (ci_Type v) s1"
proof -
  have run: "run s = Some (Ret (), s1)" and good: "\<not> construction_fails X c v s"
    using assms(4,6) by (simp_all add: fell_short_def)
  have "kept has hs c {} (secrets_of c (ci_Type v)) s1"
  proof -
    consider "ci_Type v = MinioClusterType" | "ci_Type v = DatabaseClusterType"
      | "ci_Type v \<notin> {MinioClusterType, DatabaseClusterType}" by blast
    then show ?thesis
    proof cases
      case 1
      with assms(2) run have "reconcileMinioTenant X c v s = Some (Ret (), s1)" by (auto simp: reconcile_of_def)
      then obtain q t where q: "io_try (constructMinioTenant X c v) s = Some (Ret q, t)"
        and rest: "io_bind (client_of X TenantKind) (\<lambda>_.
          ensure_cr X TenantKind (cluster_namespace c) (NineResourceName c [])
            (case q of Inl _ \<Rightarrow> None | Inr t \<Rightarrow> Some (TenantCR t))) t = Some (Ret (), s1)"
        unfolding reconcileMinioTenant_def by (rule io_bind_RetE)
      from q good 1 obtain a where "constructMinioTenant X c v s = Some (Ret a, t)"
        by (auto simp: io_try_def construction_fails_def split: option.splits outcome.splits)
      with leaves_minio assms(3) have "P t \<and> kept has hs c {} (secrets_of c (ci_Type v)) t"
        using 1 unfolding leaves_def secrets_of_def by auto
      with keeping_parts(6) rest show ?thesis unfolding keeping_def by blast
    next
      case 2
      from postgres_run [OF assms(2) this assms(5)] obtain u where "run = reconcilePGCluster X c u" .
      with leaves_pg [of u] assms(3) run 2 show ?thesis unfolding leaves_def secrets_of_def by auto
    qed (simp add: kept_def secrets_of_def)
  qed
  with success_stored [OF objects names assms(2) run assms(5) good] show ?thesis
    by (simp add: delivered_def kept_def)
qed

end

section \<open>The waits are not circular\<close>

text \<open>Every reconciler in the log that did not fall short has delivered, and that stays.\<close>

definition all_delivered ::
  "'w external \<Rightarrow> ('w \<Rightarrow> cr_kind \<Rightarrow> string \<Rightarrow> string \<Rightarrow> bool) \<Rightarrow> ('w \<Rightarrow> string \<Rightarrow> string \<Rightarrow> bool) \<Rightarrow> NineCluster \<Rightarrow>
     'w platform \<Rightarrow> bool" where
  "all_delivered X has hs c p \<longleftrightarrow>
     (\<forall>v st r. (c, v, st, r) \<in># pf_log p \<longrightarrow> fell_short X c v st r \<or> delivered has hs c (ci_Type v) (pf_state p))"

context rising begin

text \<open>
  If every reconciler that has ended has delivered, one that waits for nothing but those can
  return: the one of least rank among those that are left.
\<close>

lemma progress:
  assumes "P (pf_state p)" and "lock_inv (pf_sys p)" and inv: "request_inv c (sy_routines (pf_sys p)) (pf_log p)"
    and "sy_routines (pf_sys p) \<noteq> {#}"
    and left: "\<And>v st r. (c, v, st, r) \<in># pf_log p \<Longrightarrow> delivered has hs c (ci_Type v) (pf_state p)"
    and provided: "\<And>v k. v \<in> set (cluster_set c) \<Longrightarrow> k \<in> needs c v \<Longrightarrow> provider k \<in> ci_Type ` set (cluster_set c)"
  shows "\<exists>q. platform_step X p q"
proof (cases "\<exists>g. g \<in># sy_routines (pf_sys p) \<and> \<not> is_inner g")
  case True
  then obtain g where g: "g \<in># sy_routines (pf_sys p)" "\<not> is_inner g" by blast
  then have "\<exists>t. go_step (\<lambda>_ _. False) (pf_sys p) t"
    by (intro go_step_enabled [OF assms(2)]) auto
  then show ?thesis by (blast intro: wire_step)
next
  case False
  define A where "A = {v. \<exists>k. Inner k c v \<in># sy_routines (pf_sys p)}"
  from assms(4) obtain g where g: "g \<in># sy_routines (pf_sys p)" by blast
  with False have "is_inner g" by blast
  with request_own [OF inv g] g have "go_entry g \<in> A" by (cases g) (auto simp: A_def of_cluster_def)
  then obtain v where v: "v \<in> A" and least: "\<And>u. u \<in> A \<Longrightarrow> rank (ci_Type v) \<le> rank (ci_Type u)"
    using ex_has_least_nat [of "\<lambda>v. v \<in> A" _ "\<lambda>v. rank (ci_Type v)"] by blast
  from v obtain k where k: "Inner k c v \<in># sy_routines (pf_sys p)" by (auto simp: A_def)
  with request_own [OF inv] have own: "v \<in> set (cluster_set c)" "dispatched (ci_Type v)"
    by (auto simp: of_cluster_def dest!: request_own [OF inv])
  have "delivered has hs c (provider n) (pf_state p)" if n: "n \<in> needs c v" for n
  proof -
    from provided [OF own(1) n] obtain u where "u \<in> set (cluster_set c)" "ci_Type u = provider n" by auto
    then obtain w where w: "ci_Type w = provider n" "coming c (sy_routines (pf_sys p)) (pf_log p) w"
      using request_invE [OF inv, of u] provider_dispatched [of n] by metis
    have "w \<notin> A" using least [of w] needs_rank [OF n] w(1) by auto
    with w(2) False obtain st r where "(c, w, st, r) \<in># pf_log p" by (fastforce simp: coming_def begun_def A_def)
    with left w(1) show ?thesis by metis
  qed
  moreover obtain run where run: "reconcile_of X c v = Some run"
    using own(2) reconcile_of_dispatched [of X c v] by blast
  ultimately obtain r st1 where "run (pf_state p) = Some (r, st1)"
    using reconciler_runs [OF own(1) run assms(1)] by blast
  with run have "returns X (pf_state p) c v" by (simp add: returns_def)
  with k have "\<exists>t. go_step (returns X (pf_state p)) (pf_sys p) t"
    by (intro go_step_enabled [OF assms(2)]) auto
  then show ?thesis by (simp add: platform_step_iff)
qed

lemma step_keeps:
  assumes "platform_step X p q" and "P (pf_state p)" and "lock_inv (pf_sys p)"
    and "request_inv c (sy_routines (pf_sys p)) (pf_log p)" and "all_delivered X has hs c p"
    and "\<And>v. v \<in> set (cluster_set c) \<Longrightarrow> database_known v"
  shows "P (pf_state q) \<and> lock_inv (pf_sys q) \<and> request_inv c (sy_routines (pf_sys q)) (pf_log q) \<and>
    all_delivered X has hs c q"
  using assms(1)
proof cases
  case (wire s t st G)
  with assms show ?thesis by (simp add: lock_inv_step request_step all_delivered_def)
next
  case (work d v run st r st1 L k R G)
  with request_own [OF assms(4)] have "of_cluster c (Inner k d v)" by simp
  then have d: "d = c" "v \<in> set (cluster_set c)" by (simp_all add: of_cluster_def)
  have keeps: "keeping run" using reconciler_keeps d work(3) by simp
  with work assms(2) have "P st1" by (auto dest: keeping_P)
  moreover have "lock_inv (pf_sys q)"
    using lock_inv_step [OF platform_go_step [OF assms(1)] assms(3)] .
  moreover have "delivered has hs c t st1" if "delivered has hs c t st" for t
  proof -
    obtain k1 where k1: "\<And>s. delivered has hs c t s \<longleftrightarrow> kept has hs c {k1} (secrets_of c t) s"
      using delivered_kept by blast
    have "P st" using work(1) assms(2) by simp
    moreover have "kept has hs c {k1} (secrets_of c t) st" using that by (simp only: k1)
    ultimately have "kept has hs c {k1} (secrets_of c t) st1"
      using keeps work(4) unfolding keeping_def by blast
    then show ?thesis by (simp only: k1)
  qed
  moreover have "fell_short X c v st r \<or> delivered has hs c (ci_Type v) st1"
    using reconciler_delivers [OF d(2), of run st r st1] assms(6) [OF d(2)] work d(1) assms(2) by auto
  moreover have "request_inv c (sy_routines (pf_sys q)) (pf_log q)"
    using work assms(4) request_end [of c k d v R G st r] by simp
  ultimately show ?thesis
    using work(1,2) assms(5) d(1) by (auto simp: all_delivered_def)
qed

lemma run_keeps:
  assumes "(platform_step X)\<^sup>*\<^sup>* p q" and "P (pf_state p)" and "lock_inv (pf_sys p)"
    and "request_inv c (sy_routines (pf_sys p)) (pf_log p)" and "all_delivered X has hs c p"
    and "\<And>v. v \<in> set (cluster_set c) \<Longrightarrow> database_known v"
  shows "P (pf_state q) \<and> lock_inv (pf_sys q) \<and> request_inv c (sy_routines (pf_sys q)) (pf_log q) \<and>
    all_delivered X has hs c q"
  using assms(1-5) by (induction rule: rtranclp_induct) (blast dest: step_keeps assms(6))+

end

text \<open>The state in which a request has just been answered.\<close>

definition requested :: "'w op_state \<Rightarrow> NineCluster \<Rightarrow> 'w platform" where
  "requested st c0 = \<lparr>pf_state = st, pf_sys = renconcileDataHouse c0 idle_sys, pf_log = {#}\<rparr>"

lemma requested_inv:
  assumes "c = snd (FillClustersInfo c0)"
  shows "lock_inv (pf_sys (requested st c0)) \<and>
    request_inv c (sy_routines (pf_sys (requested st c0))) (pf_log (requested st c0))"
proof -
  have "lock_inv (fold (reconcileCluster d) vs s)" if "lock_inv s" for d vs s
    using that by (induction vs arbitrary: s) (simp_all add: lock_inv_call)
  then show ?thesis
    using request_start [of c] lock_inv_idle
    by (simp add: requested_def renconcileDataHouse_def Let_def started_routines assms idle_sys_def)
qed

text \<open>
  C9: a request does not block itself and delivers. Under an outside where a component gets ready
  once its object and the secrets the operator writes for it are there, the goroutines of a batch
  request have no infinite run, and wherever they come to rest either all have ended and the
  store has, for every entry with a reconciler, its object, and for MinIO and PostgreSQL both
  secrets; or a reconciler has fallen short: it ended with an error or a panic, or its
  construction failed with an error it does not return. The waits of metastore, Kyuubi and HDFS
  on what other reconcilers create are never circular, whichever of several entries of one type
  wins their mutex. The one thing the completion does not bring in is ZooKeeper for two name
  nodes under another storage; databases are PostgreSQL.\<close>
theorem request_comes_to_rest:
  assumes "rising X c P due has hs" and "c = snd (FillClustersInfo c0)" and "P st"
    and "\<And>v. v \<in> set (cluster_set c) \<Longrightarrow> ci_Type v = HdfsClusterType \<Longrightarrow> checkHdfsNameNodeHA c \<Longrightarrow>
      ZookeeperClusterType \<in> ci_Type ` set (cluster_set c)"
    and "\<And>v. v \<in> set (cluster_set c) \<Longrightarrow> database_known v"
    and "(platform_step X)\<^sup>*\<^sup>* (requested st c0) p"
  shows "\<not> (\<exists>f. f 0 = p \<and> (\<forall>n. platform_step X (f n) (f (Suc n)))) \<and>
    ((\<exists>q. platform_step X p q) \<or>
     (\<exists>v st1 r. (c, v, st1, r) \<in># pf_log p \<and> fell_short X c v st1 r) \<or>
     sy_routines (pf_sys p) = {#} \<and>
       (\<forall>v \<in> set (cluster_set c). dispatched (ci_Type v) \<longrightarrow> delivered has hs c (ci_Type v) (pf_state p)))"
proof (intro conjI disjCI)
  show "\<not> (\<exists>f. f 0 = p \<and> (\<forall>n. platform_step X (f n) (f (Suc n))))"
    using no_infinite_run by blast
next
  assume other: "\<not> ((\<exists>v st1 r. (c, v, st1, r) \<in># pf_log p \<and> fell_short X c v st1 r) \<or>
    sy_routines (pf_sys p) = {#} \<and>
      (\<forall>v \<in> set (cluster_set c). dispatched (ci_Type v) \<longrightarrow> delivered has hs c (ci_Type v) (pf_state p)))"
  have p: "P (pf_state p)" "lock_inv (pf_sys p)" "request_inv c (sy_routines (pf_sys p)) (pf_log p)"
    "all_delivered X has hs c p"
    using rising.run_keeps [OF assms(1,6)] requested_inv [OF assms(2), of st] assms(3,5)
    by (simp_all add: requested_def all_delivered_def)
  with other have good: "\<And>v st1 r. (c, v, st1, r) \<in># pf_log p \<Longrightarrow> delivered has hs c (ci_Type v) (pf_state p)"
    unfolding all_delivered_def by blast
  have "delivered has hs c (ci_Type v) (pf_state p)"
    if "sy_routines (pf_sys p) = {#}" "v \<in> set (cluster_set c)" "dispatched (ci_Type v)" for v
    using request_invE [OF p(3) that(2,3)] that(1) good by (metis begun_def coming_def empty_iff set_mset_empty)
  with other have "sy_routines (pf_sys p) \<noteq> {#}" by blast
  moreover have "provider k \<in> ci_Type ` set (cluster_set c)" if "v \<in> set (cluster_set c)" "k \<in> needs c v" for v k
    using needs_provided [OF assms(2) that(2)] assms(4) that(1) by blast
  ultimately show "\<exists>q. platform_step X p q"
    using rising.progress [OF assms(1) p(1-3)] good by blast
qed

section \<open>A server where components rise\<close>

text \<open>Which component answers behind an endpoint of the demo cluster, and runs under which labels.\<close>

definition behind :: "string \<Rightarrow> cr_kind" where
  "behind n =
     (if n = pgRWSvcName demo_cluster then PGKind
      else if n = metastoreSvcName demo_cluster then MetastoreKind
      else if n = zkSvcName demo_cluster then ZookeeperKind
      else if n = ''minio'' then TenantKind
      else HdfsKind)"

definition under :: "(string, string) gomap \<Rightarrow> cr_kind" where
  "under ls =
     (if mget ls ''app'' = Some DefaultMetastoreClusterSign then MetastoreKind
      else if mget ls ''app'' = Some DefaultZookeeperClusterSign then ZookeeperKind
      else PGKind)"

text \<open>
  A component is up from the thirtieth second on, if its object and its secrets are there: then
  its endpoints answer and its pods are ready. Nothing is there from the start.
\<close>

definition up :: "cr_kind \<Rightarrow> server_world \<Rightarrow> bool" where
  "up k w \<longleftrightarrow> 30 \<le> sw_clock w \<and> stored w k ''dwh'' (snd (object_of demo_cluster (provider k))) \<and>
     (\<forall>n \<in> secrets_of demo_cluster (provider k). secret_stored w ''dwh'' n)"

definition risen :: "string \<Rightarrow> 'a \<Rightarrow> (server_world, 'a) io" where
  "risen n a w = answer (if up (behind n) w then Some a else None) w"

definition rising_server :: "server_world external" where
  "rising_server = server
     \<lparr>x_GetService := \<lambda>ns n. risen n \<lparr>svc_ClusterIP = ''10.1.2.3''\<rparr>,
      x_GetEndpoints := \<lambda>ns n. risen n three_endpoints,
      x_ListPods := \<lambda>ns ls w. io_ret (if up (under ls) w then replicate 3 ready_pod else []) w\<rparr>"

definition one_replica :: "server_world op_state \<Rightarrow> bool" where
  "one_replica s \<longleftrightarrow> op_MetastoreReplicas s = 1"

abbreviation risen_due :: "cr_kind set \<Rightarrow> string set \<Rightarrow> server_world op_state \<Rightarrow> nat" where
  "risen_due K S \<equiv> late_due"

text \<open>Calls that remove no object and no secret and take no time.\<close>

definition storing :: "(server_world, 'a) io \<Rightarrow> bool" where
  "storing m \<longleftrightarrow> (\<forall>w. \<exists>r w1. m w = Some (r, w1) \<and> sw_clock w1 = sw_clock w \<and>
     set (sw_objects w) \<subseteq> set (sw_objects w1) \<and>
     (\<forall>ns n. secret_stored w ns n \<longrightarrow> secret_stored w1 ns n))"

lemma storing_basic:
  "storing (io_ret a)" "storing (\<lambda>w. io_ret (f w) w)" "storing (\<lambda>w. answer (g w) w)"
  "storing (risen n x)" "storing (find_object k ns n)" "storing (create_object k ns obj)"
  "storing (create_secret sec)"
  by (auto simp: storing_def io_ret_def io_fail_def answer_def risen_def find_object_def
      create_object_def create_secret_def secret_stored_def Let_def split: option.splits if_splits)

lemma storing_answers:
  assumes "storing m"
  shows "answers (\<lambda>s. one_replica s \<and> kept stored secret_stored c K S s) late_due m"
  unfolding answers_def
proof (intro allI impI)
  fix s assume s: "one_replica s \<and> kept stored secret_stored c K S s"
  from assms obtain r w1 where m: "m (op_world s) = Some (r, w1)" "sw_clock w1 = sw_clock (op_world s)"
    "set (sw_objects (op_world s)) \<subseteq> set (sw_objects w1)"
    "\<forall>ns n. secret_stored (op_world s) ns n \<longrightarrow> secret_stored w1 ns n"
    unfolding storing_def by blast
  from m(1) have "ext_call m s = Some (r, s\<lparr>op_world := w1\<rparr>)" by (rule ext_call_Some)
  with m(2-) s show "\<exists>r s1. ext_call m s = Some (r, s1) \<and>
      (one_replica s1 \<and> kept stored secret_stored c K S s1) \<and> late_due s1 \<le> late_due s"
    by (auto simp: one_replica_def kept_def in_store_def stored_def late_due_def)
qed

definition demo_filled :: NineCluster where
  "demo_filled = snd (FillClustersInfo demo_cluster)"

lemma demo_filled_simps:
  "cluster_name demo_filled = ''demo''" "cluster_namespace demo_filled = ''dwh''"
  "object_of demo_filled = object_of demo_cluster" "secrets_of demo_filled = secrets_of demo_cluster"
  "pgRWSvcName demo_filled = pgRWSvcName demo_cluster"
  "metastoreSvcName demo_filled = metastoreSvcName demo_cluster"
  "zkSvcName demo_filled = zkSvcName demo_cluster"
  "MinioNewUserName demo_filled = MinioNewUserName demo_cluster"
  by (simp_all add: demo_filled_def FillClustersInfo_eq object_of_def secrets_of_def NineResourceName_def fun_eq_iff
      pgRWSvcName_def metastoreSvcName_def zkSvcName_def zkResourceName_def MinioNewUserName_def metastoreResourceName_def
      pgResourceName_def MinioConfigName_def PGInitDBUserSecretName_def PGSuperUserSecretName_def)

lemma demo_filled_types: "ci_Type ` set (cluster_set demo_filled) = {t. required_type demo_cluster t}"
  using missing_types [of demo_cluster]
  by (simp add: demo_filled_def FillClustersInfo_missing)

lemma behind_names:
  "behind (pgRWSvcName demo_cluster) = PGKind"
  "behind (metastoreSvcName demo_cluster) = MetastoreKind"
  "behind (zkSvcName demo_cluster) = ZookeeperKind"
  "behind ''minio'' = TenantKind"
  "behind (NineResourceName demo_cluster [HdfsResourceNameSuffix, HdfsRoleNameNode]) = HdfsKind"
  by (simp_all add: behind_def pgRWSvcName_def pgResourceName_def metastoreSvcName_def
      metastoreResourceName_def zkSvcName_def zkResourceName_def NineResourceName_def join.simps)

lemma under_labels:
  "under (constructPgPodLabel n) = PGKind"
  "under (constructMetastorePodLabel n) = MetastoreKind"
  "under (constructZookeeperPodLabel n) = ZookeeperKind"
  by (simp_all add: under_def constructPgPodLabel_def constructMetastorePodLabel_def constructZookeeperPodLabel_def)

lemma kept_up:
  assumes "late_due s = 0" and "kept stored secret_stored demo_filled K S s" and "k \<in> K"
    and "secrets_of demo_cluster (provider k) \<subseteq> S"
  shows "up k (op_world s)"
  using assms by (auto simp: up_def kept_def in_store_def late_due_def demo_filled_simps object_of_provider)

lemma up_ready:
  "up (under ls) w \<Longrightarrow> pods_ready rising_server c ls 3 w" "up (under ls) w \<Longrightarrow> pods_ready rising_server c ls 1 w"
  "up (behind n) w \<Longrightarrow> endpoints_ready rising_server c n 3 w = Some three_endpoints"
  "up (behind n) w \<Longrightarrow> endpoints_ready rising_server c n 1 w = Some three_endpoints"
  "up (behind n) w \<Longrightarrow> endpoints_ready rising_server c n 0 w = Some three_endpoints"
  "up (behind n) w \<Longrightarrow> risen n x w = Some (Ret x, w)"
  by (simp_all add: pods_ready_def endpoints_ready_def rising_server_def risen_def answer_def io_ret_def
      less_int64_def len_def ready_count_def ready_pod_def three_endpoints_def numeral_3_eq_3)

lemma demo_filled_namenodes: "namenode_replicas demo_filled = 0" "GetClusterStorage demo_cluster = NineClusterStorageMinio"
proof -
  show m: "GetClusterStorage demo_cluster = NineClusterStorageMinio"
    by (simp add: GetClusterStorage_def)
  have none: "HdfsNameNodeClusterType \<notin> ci_Type ` set (cluster_set demo_filled)"
    by (simp add: demo_filled_types required_type_iff)
  have "fold (\<lambda>c n. if ci_Type c = HdfsNameNodeClusterType then int_of_int32 (rc_Replicas (ci_Resource c)) else n)
       vs z = z" if "set vs \<subseteq> set (cluster_set demo_filled)" for vs z
    using that
  proof (induction vs arbitrary: z)
    case (Cons a vs)
    then have "ci_Type a \<in> ci_Type ` set (cluster_set demo_filled)" by simp
    with none have "ci_Type a \<noteq> HdfsNameNodeClusterType" by metis
    with Cons show ?case by simp
  qed simp
  then show "namenode_replicas demo_filled = 0" by (simp add: namenode_replicas_def)
qed

lemma demo_filled_entry: "v \<in> set (cluster_set demo_filled) \<Longrightarrow> v \<in> set NineDatahouseFullClusterset"
  by (simp add: demo_filled_def FillClustersInfo_missing missing_defaults_def)

lemma demo_ready:
  assumes "one_replica s" and "up k (op_world s)"
  shows "component_ready rising_server demo_filled k s"
proof (cases k)
  case TenantKind
  with assms(2) have user: "secret_stored (op_world s) ''dwh'' (MinioNewUserName demo_cluster)"
    by (simp add: up_def secrets_of_def)
  from TenantKind assms(2) have "up (behind ''minio'') (op_world s)" by (simp add: behind_names)
  then have "risen ''minio'' x (op_world s) = Some (Ret x, op_world s)" for x :: service by (rule up_ready(6))
  with user TenantKind show ?thesis
    by (auto simp: rising_server_def server_def secret_stored_def answer_def ext_call_def io_ret_def demo_filled_simps)
next
  case HdfsKind
  with assms(2) up_ready(5) [of "NineResourceName demo_cluster [HdfsResourceNameSuffix, HdfsRoleNameNode]"] behind_names
  show ?thesis
    by (simp add: demo_filled_namenodes NineResourceName_def demo_filled_simps)
      (simp add: rising_server_def server_def ext_call_def io_ret_def)
next
  case PGKind
  with assms(2) up_ready show ?thesis
    by (simp add: pg_ready_def demo_filled_simps behind_names under_labels)
next
  case ZookeeperKind
  with assms(2) up_ready show ?thesis
    by (simp add: zk_ready_def demo_filled_simps behind_names under_labels)
next
  case MetastoreKind
  with assms up_ready show ?thesis
    by (simp add: metastore_ready_def demo_filled_simps behind_names under_labels one_replica_def int_of_int32_def)
qed simp_all

interpretation risen: rising rising_server demo_filled one_replica risen_due stored secret_stored
proof (unfold_locales, goal_cases)
  case (23 K S s secs)
  then show ?case
    by (auto simp: slept_def one_replica_def late_due_def rising_server_def kept_def in_store_def stored_def
        secret_stored_def)
next
  case (24 k K S)
  then show ?case
    by (auto simp: settled_def demo_filled_simps intro!: demo_ready dest: kept_up)
next
  case (25 v s K S)
  then have "v = metastore_default"
    using demo_filled_entry [of v] by (auto simp: NineDatahouseFullClusterset_def)
  with 25 show ?case by (simp add: metastore_default_def zero_cluster_def zero_resource_def)
next
  case 26
  show ?case using server_store by (simp add: cr_store_def rising_server_def)
next
  case 27
  show ?case using server_secret_store by (simp add: secret_store_def rising_server_def)
next
  case 28
  show ?case using server_keeps_name by (simp add: keeps_name_def rising_server_def)
qed (simp_all add: rising_server_def server_def storing_answers storing_basic)

text \<open>
  The demo request comes to rest in a world that has nothing but a node, and where no reconciler
  fell short the credentials of MinIO are there, and the object of Kyuubi.
\<close>

definition node_world :: server_world where
  "node_world = empty_world\<lparr>sw_nodes := [''node-1'']\<rparr>"

theorem request_comes_to_rest_witness:
  "\<exists>p. (platform_step rising_server)\<^sup>*\<^sup>* (requested (in_world node_world) demo_cluster) p \<and>
     ((\<exists>v st r. (demo_filled, v, st, r) \<in># pf_log p \<and> fell_short rising_server demo_filled v st r) \<or>
      sy_routines (pf_sys p) = {#} \<and>
      secret_stored (op_world (pf_state p)) ''dwh'' (MinioNewUserName demo_cluster) \<and>
      stored (op_world (pf_state p)) KyuubiKind ''dwh'' ''demo-nine'')"
proof -
  obtain p where p: "(platform_step rising_server)\<^sup>*\<^sup>* (requested (in_world node_world) demo_cluster) p"
    "\<not> (\<exists>q. platform_step rising_server p q)" using comes_to_rest by blast
  have one: "one_replica (in_world node_world)" by (simp add: one_replica_def in_world_def)
  have "HdfsClusterType \<notin> ci_Type ` set (cluster_set demo_filled)"
    by (simp add: demo_filled_types required_type_iff)
  then have hdfs: "ZookeeperClusterType \<in> ci_Type ` set (cluster_set demo_filled)"
    if "v \<in> set (cluster_set demo_filled)" "ci_Type v = HdfsClusterType" "checkHdfsNameNodeHA demo_filled" for v
    using that by force
  have known: "database_known v" if "v \<in> set (cluster_set demo_filled)" for v
    using demo_filled_entry [OF that]
    by (auto simp: NineDatahouseFullClusterset_def database_known_def database_default_def zero_cluster_def)
  have "KyuubiClusterType \<in> ci_Type ` set (cluster_set demo_filled)"
    "MinioClusterType \<in> ci_Type ` set (cluster_set demo_filled)"
    unfolding demo_filled_types by (simp_all add: required_type_iff demo_filled_namenodes)
  then obtain k m where km: "k \<in> set (cluster_set demo_filled)" "ci_Type k = KyuubiClusterType"
    "m \<in> set (cluster_set demo_filled)" "ci_Type m = MinioClusterType" by auto
  note rest = request_comes_to_rest [OF risen.rising_axioms demo_filled_def one _ _ p(1)]
  have "(\<exists>v st r. (demo_filled, v, st, r) \<in># pf_log p \<and> fell_short rising_server demo_filled v st r) \<or>
    sy_routines (pf_sys p) = {#} \<and> (\<forall>v \<in> set (cluster_set demo_filled). dispatched (ci_Type v) \<longrightarrow>
      delivered stored secret_stored demo_filled (ci_Type v) (pf_state p))"
    using rest hdfs known p(2) by blast
  then show ?thesis
  proof
    assume rest: "sy_routines (pf_sys p) = {#} \<and> (\<forall>v \<in> set (cluster_set demo_filled). dispatched (ci_Type v) \<longrightarrow>
      delivered stored secret_stored demo_filled (ci_Type v) (pf_state p))"
    with km have "delivered stored secret_stored demo_filled KyuubiClusterType (pf_state p)"
      "delivered stored secret_stored demo_filled MinioClusterType (pf_state p)"
      by (auto simp: dispatched_def dest!: bspec)
    then have "secret_stored (op_world (pf_state p)) ''dwh'' (MinioNewUserName demo_cluster)"
      "stored (op_world (pf_state p)) KyuubiKind ''dwh'' ''demo-nine''"
      by (simp_all add: delivered_def in_store_def secrets_of_def demo_filled_simps object_of_def NineResourceName_def join.simps)
    with p(1) rest show ?thesis by blast
  qed (use p(1) in blast)
qed

section \<open>The one wait nobody ends\<close>

lemma zk_never:
  assumes "steady_reads X" and "\<And>t. zk_ready X c t = None"
  shows "getZookeeperExposedInfo X c s = None"
proof -
  have "loop (zk_wait_body X c) () s = None"
    using poll_returns [OF zk_polls [OF assms(1)], of c s] assms(2) by (simp del: not_None_eq)
  then show ?thesis by (simp add: getZookeeperExposedInfo_def io_bind_Some)
qed

lemma io_fold_returns:
  assumes "\<And>x a s. x \<in> set xs \<Longrightarrow> \<exists>b t. f x a s = Some (Ret b, t)"
  shows "\<exists>b t. io_fold f xs a s = Some (Ret b, t)"
  using assms
proof (induction xs arbitrary: a s)
  case (Cons x xs)
  from Cons.prems [of x a s] obtain b t where "f x a s = Some (Ret b, t)" by auto
  moreover from Cons have "\<exists>d u. io_fold f xs b t = Some (Ret d, u)" by simp
  ultimately show ?case by (simp add: io_bind_Some)
qed (simp add: io_ret_def)

text \<open>The members can be built if the data nodes can be counted and make at least one volume.\<close>

definition data_nodes_fit :: "'w external \<Rightarrow> NineCluster \<Rightarrow> ClusterInfo \<Rightarrow> bool" where
  "data_nodes_fit X c v \<longleftrightarrow>
     (\<forall>u \<in> set (cluster_set c). ci_Type u = HdfsDataNodeClusterType \<longrightarrow>
        (\<forall>s. \<exists>n t. datanode_replicas X u s = Some (Ret n, t) \<and> n * int32_of_int (GetDiskNum v) \<noteq> 0))"

lemma members_built:
  assumes "reads_integers X" and "data_nodes_fit X c v"
  shows "\<exists>ms ha t. hdfs_members X c v r s = Some (Ret (ms, ha), t)"
proof -
  have capacity: "\<exists>q. hdfs_capacity X c v r n = Ret q" if "n * int32_of_int (GetDiskNum v) \<noteq> 0" for n
  proof -
    obtain q where "x_ParseQuantity X (itoa (sint (GiB2Bytes (ns_DataVolume (nc_Spec c) * r)))) = Inr q"
      using assms(1) unfolding reads_integers_def by blast
    moreover have "sint (n * int32_of_int (GetDiskNum v)) \<noteq> 0" using that by (simp add: signed_eq_0_iff)
    then have "int_of_int32 (n * int32_of_int (GetDiskNum v)) \<noteq> 0"
      by (metis sint_int_of_int32 signed_0)
    ultimately show ?thesis by (simp add: hdfs_capacity_def CapacityPerVolume_def div_int64_def)
  qed
  have "\<exists>m t. build_member X c v r u s = Some (Ret m, t)" if "u \<in> set (cluster_set c)" for u s
  proof (cases "ci_Type u = HdfsDataNodeClusterType")
    case True
    with assms(2) that obtain n t where n: "datanode_replicas X u s = Some (Ret n, t)"
      "n * int32_of_int (GetDiskNum v) \<noteq> 0" unfolding data_nodes_fit_def by blast
    from capacity [OF n(2)] obtain q where "hdfs_capacity X c v r n = Ret q" by blast
    with n(1) True show ?thesis by (simp add: build_member_def io_bind_Some deref_capacity_def io_ret_def)
  qed (simp add: build_member_def io_ret_def)
  then have "\<exists>b t. member_step X c v r ct u a s = Some (Ret b, t)" if "u \<in> set (cluster_set c)" for ct u a s
  proof (cases "ci_Type u = ct")
    case True
    from that \<open>\<And>u s. u \<in> set (cluster_set c) \<Longrightarrow> \<exists>m t. build_member X c v r u s = Some (Ret m, t)\<close>
    obtain m t where "build_member X c v r u s = Some (Ret m, t)" by blast
    with True show ?thesis by (simp add: member_step_def io_bind_def io_ret_def)
  qed (simp add: member_step_def io_bind_def io_ret_def)
  then have "\<exists>b t. hdfs_members X c v r s = Some (Ret b, t)"
    unfolding hdfs_members_def by (intro io_fold_returns)
  then show ?thesis by auto
qed

text \<open>
  C12: an HDFS entry with two name nodes in a NineCluster of another storage gets no ZooKeeper: the
  completion asks for it only for the HDFS storage or a Kyuubi with high availability. The
  reconciler of that entry then waits for ever: once it has built the members it polls for a
  ZooKeeper that nobody creates, and neither returns nor fails.\<close>
theorem hdfs_without_zookeeper:
  assumes "c = snd (FillClustersInfo c0)" and "GetClusterStorage c0 = NineClusterStorageMinio"
    and "\<not> IsKyuubiNeedHA c0" and "ZookeeperClusterType \<notin> ci_Type ` set (cluster_set c0)"
    and "checkHdfsNameNodeHA c" and "ci_ClusterRefs v \<noteq> []"
    and "steady_reads X" and "\<And>t. zk_ready X c t = None"
    and "reads_integers X" and "data_nodes_fit X c v"
  shows "ZookeeperClusterType \<notin> ci_Type ` set (cluster_set c) \<and> reconcileHdfsCluster X c v s = None"
proof
  have "\<not> required_type c0 ZookeeperClusterType"
    using assms(2,3) by (simp add: required_type_iff)
  then show "ZookeeperClusterType \<notin> ci_Type ` set (cluster_set c)"
    using missing_types [of c0] assms(1,4) by (auto simp: FillClustersInfo_missing image_Un)
next
  let ?m = "hdfs_members X c v (getDfsReplication (Some (Map.empty ++ mrange (cc_Conf (ci_Configs v)))))"
  obtain ms ha t where m: "?m s = Some (Ret (ms, ha), t)" using members_built [OF assms(9,10)] by blast
  have "ha" using hdfs_members_made [OF m] assms(5,6) by simp
  with m have "constructHdfsCluster X c v s = None"
    using zk_never [OF assms(7,8)] by (simp add: constructHdfsCluster_def Let_def io_bind_Some)
  then show "reconcileHdfsCluster X c v s = None"
    by (simp add: reconcileHdfsCluster_def io_bind_Some)
qed

text \<open>A server without endpoints, and a demo cluster whose HDFS entry asks for two name nodes.\<close>

definition bare_server :: "server_world external" where
  "bare_server = server\<lparr>x_GetEndpoints := \<lambda>ns n. io_fail not_found\<rparr>"

definition two_namenodes :: ClusterInfo where
  "two_namenodes = namenode_default\<lparr>ci_Resource := zero_resource\<lparr>rc_Replicas := 2\<rparr>\<rparr>"

theorem hdfs_without_zookeeper_witness:
  "reconcileHdfsCluster bare_server
     (snd (FillClustersInfo (with_cluster_set demo_cluster [hdfs_default, two_namenodes]))) hdfs_default
     (in_world empty_world) = None"
proof -
  let ?c0 = "with_cluster_set demo_cluster [hdfs_default, two_namenodes]"
  have "steady_reads bare_server"
    by (simp add: steady_reads_def bare_server_def io_fail_def io_ret_def)
  moreover have "zk_ready bare_server c t = None" for c t
    by (simp add: zk_ready_def endpoints_ready_def bare_server_def io_fail_def)
  moreover have storage: "GetClusterStorage ?c0 = NineClusterStorageMinio" "\<not> IsKyuubiNeedHA ?c0"
    by (simp_all add: GetClusterStorage_def IsKyuubiNeedHA_def)
  moreover have "ZookeeperClusterType \<notin> ci_Type ` set (cluster_set ?c0)"
    by (simp add: two_namenodes_def)
  moreover have "checkHdfsNameNodeHA (snd (FillClustersInfo ?c0))"
    by (simp add: checkHdfsNameNodeHA_def FillClustersInfo_missing namenode_ha_def two_namenodes_def)
  moreover have "ci_ClusterRefs hdfs_default \<noteq> []"
    by (simp add: hdfs_default_def)
  moreover have "reads_integers bare_server"
    using server_reads_integers by (simp add: reads_integers_def bare_server_def)
  moreover have "HdfsDataNodeClusterType \<notin> ci_Type ` set (cluster_set (snd (FillClustersInfo ?c0)))"
    using missing_types [of ?c0] storage
    by (auto simp: FillClustersInfo_missing image_Un required_type_iff two_namenodes_def)
  then have "data_nodes_fit bare_server (snd (FillClustersInfo ?c0)) hdfs_default"
    unfolding data_nodes_fit_def by (metis image_eqI)
  ultimately show ?thesis
    using hdfs_without_zookeeper [OF refl, of ?c0 hdfs_default bare_server "in_world empty_world"] by blast
qed

end
