(* ===== verification/Race.thy ===== *)
theory Race
  imports Controller
begin

text \<open>
  What the tails of overlapping reconcilers do to each other. The mutexes of the controller do
  not keep two reconcilers of one entry apart, so their look-ups and creations interleave.
  \<open>race_step\<close> is that machine: any number of routines, each at its look-up or at its creation, and
  one of them makes its next call. A routine left alone does what the sequential tail does. The
  locale \<open>race\<close> shows what any interleaving does over a store whose look-ups and creations are
  truthful, \<open>strict_race\<close> that a store that refuses to create what it has creates everything once,
  and \<open>reliable_race\<close> what comes out if no call fails for another reason. They hold for the custom
  resources and the secrets of any API server that keeps the contracts \<open>cr_server\<close> and
  \<open>secret_server\<close>, for the tails that report the refusal and for the ones that tolerate it, and are
  interpreted on the server of \<open>Server\<close>.
\<close>

section \<open>The machine\<close>

text \<open>\<open>Over j made r\<close>: the routine of job \<open>j\<close> ended with \<open>r\<close>, after a creation or without one.\<close>

datatype 'j tail = Looking 'j | Making 'j | Over 'j bool "unit outcome"

fun after_look :: "'j \<Rightarrow> 'o outcome \<Rightarrow> 'j tail" where
  "after_look j (Ret _) = Over j False (Ret ())"
| "after_look j (Fail e) = (if is_not_found e then Making j else Over j False (Fail e))"
| "after_look j (Panic p) = Over j False (Panic p)"

inductive race_step ::
  "('j \<Rightarrow> ('w, 'o) io) \<Rightarrow> ('j \<Rightarrow> ('w, unit) io) \<Rightarrow> 'w \<times> 'j tail multiset \<Rightarrow> 'w \<times> 'j tail multiset \<Rightarrow> bool"
  for look put where
  look: "look j w = Some (r, w1) \<Longrightarrow>
    race_step look put (w, add_mset (Looking j) T) (w1, add_mset (after_look j r) T)"
| put: "put j w = Some (r, w1) \<Longrightarrow>
    race_step look put (w, add_mset (Making j) T) (w1, add_mset (Over j True r) T)"

inductive_cases race_stepE: "race_step look put (w, T) (w1, T1)"

fun job :: "'j tail \<Rightarrow> 'j" where
  "job (Looking j) = j"
| "job (Making j) = j"
| "job (Over j _ _) = j"

fun is_over :: "'j tail \<Rightarrow> bool" where
  "is_over (Over _ _ _) = True"
| "is_over _ = False"

fun calls_left :: "'j tail \<Rightarrow> nat" where
  "calls_left (Looking _) = 2"
| "calls_left (Making _) = 1"
| "calls_left (Over _ _ _) = 0"

lemma race_step_jobs:
  "race_step look put (w, T) (w1, T1) \<Longrightarrow> image_mset job T1 = image_mset job T"
proof (erule race_stepE)
  fix j r T2
  assume "T = add_mset (Looking j) T2" "T1 = add_mset (after_look j r) T2"
  then show "image_mset job T1 = image_mset job T" by (cases r) simp_all
qed simp

lemma race_step_calls:
  "race_step look put (w, T) (w1, T1) \<Longrightarrow>
     sum_mset (image_mset calls_left T1) < sum_mset (image_mset calls_left T)"
proof (erule race_stepE)
  fix j r T2
  assume "T = add_mset (Looking j) T2" "T1 = add_mset (after_look j r) T2"
  then show "sum_mset (image_mset calls_left T1) < sum_mset (image_mset calls_left T)"
    by (cases r) simp_all
qed simp

section \<open>One routine alone\<close>

text \<open>\<open>sequel look put j\<close>: the tail as one operation.\<close>

definition sequel :: "('j \<Rightarrow> ('w, 'o) io) \<Rightarrow> ('j \<Rightarrow> ('w, unit) io) \<Rightarrow> 'j \<Rightarrow> ('w, unit) io" where
  "sequel look put j =
     io_bind (io_try (look j)) (\<lambda>r.
       case r of
         Inl e \<Rightarrow> if is_not_found e then put j else io_fail e
       | Inr _ \<Rightarrow> io_ret ())"

lemma race_over: "\<not> race_step look put (w, {#Over j b r#}) y"
  by (cases y) (auto elim!: race_stepE)

lemma race_over_star:
  "(race_step look put)\<^sup>*\<^sup>* (w, {#Over j b r#}) y \<longleftrightarrow> y = (w, {#Over j b r#})"
  by (metis converse_rtranclpE race_over rtranclp.rtrancl_refl)

lemma race_making:
  "(race_step look put)\<^sup>*\<^sup>* (w, {#Making j#}) (w1, {#Over j b r#}) \<longleftrightarrow> b \<and> put j w = Some (r, w1)"
proof
  assume "(race_step look put)\<^sup>*\<^sup>* (w, {#Making j#}) (w1, {#Over j b r#})"
  then show "b \<and> put j w = Some (r, w1)"
  proof (cases rule: converse_rtranclpE)
    case (step y)
    then obtain q w2 where q: "put j w = Some (q, w2)" "y = (w2, {#Over j True q#})"
      by (cases y) (auto elim!: race_stepE)
    from step(2) have "y = (w1, {#Over j b r#})"
      unfolding q(2) race_over_star by simp
    with q show ?thesis by simp
  qed simp
next
  assume "b \<and> put j w = Some (r, w1)"
  then show "(race_step look put)\<^sup>*\<^sup>* (w, {#Making j#}) (w1, {#Over j b r#})"
    by (auto intro: race_step.put)
qed

lemma race_alone:
  "(\<exists>b. (race_step look put)\<^sup>*\<^sup>* (w, {#Looking j#}) (w1, {#Over j b r#})) \<longleftrightarrow>
     sequel look put j w = Some (r, w1)"
proof (cases "look j w")
  case None
  then have "\<not> race_step look put (w, {#Looking j#}) y" for y
    by (cases y) (auto elim!: race_stepE)
  then have "\<not> (race_step look put)\<^sup>*\<^sup>* (w, {#Looking j#}) (w1, {#Over j b r#})" for b
    by (auto elim: converse_rtranclpE)
  with None show ?thesis by (simp add: sequel_def io_bind_def io_try_def)
next
  case (Some q)
  obtain o1 w2 where q: "q = (o1, w2)" by (cases q)
  have only: "race_step look put (w, {#Looking j#}) y \<longleftrightarrow> y = (w2, {#after_look j o1#})" for y
    using Some q by (cases y) (auto elim!: race_stepE intro: race_step.look)
  have "(race_step look put)\<^sup>*\<^sup>* (w, {#Looking j#}) (w1, {#Over j b r#}) \<longleftrightarrow>
      (race_step look put)\<^sup>*\<^sup>* (w2, {#after_look j o1#}) (w1, {#Over j b r#})" for b
    using only by (auto elim: converse_rtranclpE intro: converse_rtranclp_into_rtranclp)
  then show ?thesis
    using Some q
    by (cases o1) (auto simp: race_making race_over_star sequel_def io_bind_def io_try_def io_ret_def io_fail_def)
qed

lemma race_step_over:
  "race_step look put (w, T) (w1, T1) \<Longrightarrow> Over j True r \<in># T1 \<Longrightarrow>
     Over j True r \<in># T \<or> put j w = Some (r, w1)"
proof (erule race_stepE)
  fix i q T2
  assume "Over j True r \<in># T1" "T = add_mset (Looking i) T2" "T1 = add_mset (after_look i q) T2"
  then show ?thesis by (cases q) auto
qed auto

lemma over_stays:
  "(race_step look put)\<^sup>*\<^sup>* (w, T) (w1, T1) \<Longrightarrow> Over j b r \<in># T \<Longrightarrow> Over j b r \<in># T1"
proof (induction "(w1, T1)" arbitrary: w1 T1 rule: rtranclp_induct)
  case (step y)
  then show ?case by (cases y) (auto elim!: race_stepE)
qed simp

section \<open>Any number of routines\<close>

text \<open>An outcome that says that the object is there: success, or a creation refused because it exists.\<close>

fun says_there :: "'j tail \<Rightarrow> bool" where
  "says_there (Over j b r) \<longleftrightarrow> r = Ret () \<or> b \<and> (\<exists>e. r = Fail e \<and> is_already_exists e)"
| "says_there _ \<longleftrightarrow> False"

fun made_it :: "('j \<Rightarrow> bool) \<Rightarrow> 'j tail \<Rightarrow> bool" where
  "made_it is_key (Over j b r) \<longleftrightarrow> b \<and> r = Ret () \<and> is_key j"
| "made_it is_key _ \<longleftrightarrow> False"

text \<open>
  The store \<open>has\<close>: a look-up leaves it as it is and answers only for what is there; a creation
  adds its object or nothing, and when it succeeds, or is refused because the object exists, the
  object is there. Calls may fail, panic or hang.
\<close>

locale race =
  fixes look :: "'j \<Rightarrow> ('w, 'o) io" and put :: "'j \<Rightarrow> ('w, unit) io"
    and has :: "'w \<Rightarrow> 'k set" and key :: "'j \<Rightarrow> 'k"
  assumes look_says: "look j w = Some (q, w1) \<Longrightarrow> has w1 = has w \<and> (\<forall>x. q = Ret x \<longrightarrow> key j \<in> has w)"
    and put_says: "put j w = Some (r, w1) \<Longrightarrow> has w1 \<in> {has w, insert (key j) (has w)} \<and>
      (r = Ret () \<or> (\<exists>e. r = Fail e \<and> is_already_exists e) \<longrightarrow> key j \<in> has w1)"
begin

definition inv :: "'k set \<Rightarrow> 'w \<times> 'j tail multiset \<Rightarrow> bool" where
  "inv K s \<longleftrightarrow> K \<subseteq> has (fst s) \<and> has (fst s) \<subseteq> K \<union> key ` job ` set_mset (snd s) \<and>
     (\<forall>t \<in># snd s. says_there t \<longrightarrow> key (job t) \<in> has (fst s))"

lemma inv_start: "inv (has w) (w, image_mset Looking J)"
  by (auto simp: inv_def)

lemma inv_step:
  assumes "race_step look put s s1" and "inv K s"
  shows "inv K s1"
  using assms(1)
proof cases
  case (look j w r w1 T)
  with look_says [of j w r w1] assms(2) show ?thesis by (cases r) (auto simp: inv_def)
next
  case (put j w r w1 T)
  with put_says [of j w r w1] assms(2) show ?thesis by (auto simp: inv_def)
qed

lemma inv_run: "(race_step look put)\<^sup>*\<^sup>* (w, image_mset Looking J) s \<Longrightarrow> inv (has w) s"
  by (induction rule: rtranclp_induct) (auto intro: inv_start inv_step)

lemma jobs_run:
  "(race_step look put)\<^sup>*\<^sup>* (w, image_mset Looking J) s \<Longrightarrow> image_mset job (snd s) = J"
proof (induction rule: rtranclp_induct)
  case base
  then show ?case by (simp add: multiset.map_comp comp_def)
next
  case (step s s1)
  then show ?case by (cases s; cases s1) (auto dest: race_step_jobs)
qed

text \<open>At any time the store holds what it held, and nothing but what the jobs ask for beside it.\<close>

lemma outcome:
  assumes "(race_step look put)\<^sup>*\<^sup>* (w, image_mset Looking J) (w1, T)"
  shows "image_mset job T = J \<and> has w \<subseteq> has w1 \<and> has w1 \<subseteq> has w \<union> key ` set_mset J \<and>
    (\<forall>t \<in># T. says_there t \<longrightarrow> key (job t) \<in> has w1)"
proof -
  have jobs: "image_mset job T = J" using jobs_run [OF assms(1)] by simp
  moreover have "set_mset J = job ` set_mset T" using jobs by (metis set_image_mset)
  ultimately show ?thesis using inv_run [OF assms(1)] by (auto simp: inv_def)
qed

lemma put_run:
  assumes "(race_step look put)\<^sup>*\<^sup>* (w, image_mset Looking J) (w1, T)" and "Over j True r \<in># T"
  shows "\<exists>w w1. put j w = Some (r, w1)"
  using assms
proof (induction "(w1, T)" arbitrary: w1 T rule: rtranclp_induct)
  case (step y)
  obtain w2 T2 where y: "y = (w2, T2)" by (cases y)
  with race_step_over [of look put w2 T2 w1 T j r] step(2,4)
  have "Over j True r \<in># T2 \<or> put j w2 = Some (r, w1)" by simp
  with step(3) [OF y] show ?case by blast
qed auto

end

text \<open>
  A store that adds what it reports as created and nothing else, and creates only what is missing:
  then each missing object is created by exactly one routine.
\<close>

locale strict_race = race look put has key
  for look :: "'j \<Rightarrow> ('w, 'o) io" and put :: "'j \<Rightarrow> ('w, unit) io"
    and has :: "'w \<Rightarrow> 'k set" and key :: "'j \<Rightarrow> 'k" +
  assumes put_strict: "put j w = Some (r, w1) \<Longrightarrow>
      (r = Ret () \<longrightarrow> key j \<notin> has w) \<and> (r \<noteq> Ret () \<longrightarrow> has w1 = has w)"
begin

definition made :: "'k \<Rightarrow> 'j tail multiset \<Rightarrow> nat" where
  "made k T = size (filter_mset (made_it (\<lambda>j. key j = k)) T)"

lemma made_simps [simp]:
  "made k {#} = 0"
  "made k (add_mset t T) = (if made_it (\<lambda>j. key j = k) t then Suc (made k T) else made k T)"
  "made k (image_mset Looking J) = 0"
  by (simp_all add: made_def) (induction J; simp)

definition once_inv :: "'k set \<Rightarrow> 'w \<times> 'j tail multiset \<Rightarrow> bool" where
  "once_inv K s \<longleftrightarrow> K \<subseteq> has (fst s) \<and> (\<forall>k. made k (snd s) = (if k \<in> has (fst s) - K then 1 else 0))"

lemma once_step:
  assumes "race_step look put s s1" and "once_inv K s"
  shows "once_inv K s1"
  using assms(1)
proof cases
  case (look j w r w1 T)
  have "\<not> made_it p (after_look j r)" for p by (cases r) auto
  with look look_says [of j w r w1] assms(2) show ?thesis by (simp add: once_inv_def)
next
  case (put j w r w1 T)
  show ?thesis
  proof (cases "r = Ret ()")
    case True
    with put put_strict [of j w r w1] put_says [of j w r w1]
    have "key j \<notin> has w" "has w1 = insert (key j) (has w)" by auto
    with put True assms(2) show ?thesis by (auto simp: once_inv_def)
  next
    case False
    with put put_strict [of j w r w1] have "has w1 = has w" by auto
    with put False assms(2) show ?thesis by (simp add: once_inv_def)
  qed
qed

lemma made_once:
  assumes "(race_step look put)\<^sup>*\<^sup>* (w, image_mset Looking J) (w1, T)"
  shows "made k T = (if k \<in> has w1 - has w then 1 else 0)"
proof -
  have "once_inv (has w) (w1, T)"
    using assms
  proof (induction rule: rtranclp_induct)
    case base
    then show ?case by (simp add: once_inv_def)
  next
    case (step s s1)
    then show ?case by (blast intro: once_step)
  qed
  then show ?thesis by (simp add: once_inv_def)
qed

end

text \<open>A store whose calls return and fail for no other reason than what is there.\<close>

locale reliable_race = race look put has key
  for look :: "'j \<Rightarrow> ('w, 'o) io" and put :: "'j \<Rightarrow> ('w, unit) io"
    and has :: "'w \<Rightarrow> 'k set" and key :: "'j \<Rightarrow> 'k" +
  fixes refused :: "unit outcome \<Rightarrow> bool"
  assumes look_ok: "\<exists>r w1. look j w = Some (r, w1) \<and> ((\<exists>x. r = Ret x) \<or> (\<exists>e. r = Fail e \<and> is_not_found e))"
    and put_ok: "\<exists>r w1. put j w = Some (r, w1) \<and> (r = Ret () \<or> refused r)"
    and refusals: "refused r \<Longrightarrow> \<exists>e. r = Fail e \<and> is_already_exists e"
begin

fun over_well :: "'j tail \<Rightarrow> bool" where
  "over_well (Over j b r) \<longleftrightarrow> r = Ret () \<or> b \<and> refused r"
| "over_well _ \<longleftrightarrow> True"

lemma well_step:
  assumes "race_step look put s s1" and "\<forall>t \<in># snd s. over_well t"
  shows "\<forall>t \<in># snd s1. over_well t"
  using assms(1)
proof cases
  case (look j w r w1 T)
  with look_ok [of j w] have "over_well (after_look j r)" by auto
  with look assms(2) show ?thesis by auto
next
  case (put j w r w1 T)
  with put_ok [of j w] have "over_well (Over j True r)" by auto
  with put assms(2) show ?thesis by auto
qed

lemma all_well:
  "(race_step look put)\<^sup>*\<^sup>* (w, image_mset Looking J) s \<Longrightarrow> \<forall>t \<in># snd s. over_well t"
  by (induction rule: rtranclp_induct) (use well_step in auto)

lemma well_there: "over_well t \<Longrightarrow> is_over t \<Longrightarrow> says_there t"
  using refusals by (cases t) auto

lemma finished:
  assumes "(race_step look put)\<^sup>*\<^sup>* (w, image_mset Looking J) (w1, T)" and "\<forall>t \<in># T. is_over t"
  shows "has w1 = has w \<union> key ` set_mset J \<and> (\<forall>j b r. Over j b r \<in># T \<longrightarrow> r = Ret () \<or> b \<and> refused r)"
proof -
  note out = outcome [OF assms(1)] and well = all_well [OF assms(1)]
  from well assms(2) have "\<forall>t \<in># T. says_there t" by (auto intro: well_there)
  with out have "key ` job ` set_mset T \<subseteq> has w1" by auto
  moreover have "set_mset J = job ` set_mset T" using out by (metis set_image_mset)
  ultimately have "has w1 = has w \<union> key ` set_mset J" using out by auto
  moreover have "r = Ret () \<or> b \<and> refused r" if "Over j b r \<in># T" for j b r
    using well that by fastforce
  ultimately show ?thesis by blast
qed

lemma enabled:
  assumes "t \<in># T" and "\<not> is_over t"
  shows "\<exists>s1. race_step look put (w, T) s1"
proof -
  obtain R where R: "T = add_mset t R" using assms(1) by (metis multi_member_split)
  show ?thesis
  proof (cases t)
    case (Looking j)
    with R look_ok [of j w] show ?thesis by (blast intro: race_step.look)
  next
    case (Making j)
    with R put_ok [of j w] show ?thesis by (blast intro: race_step.put)
  qed (use assms(2) in simp)
qed

lemma runs_out: "\<exists>w1 T1. (race_step look put)\<^sup>*\<^sup>* (w, T) (w1, T1) \<and> (\<forall>t \<in># T1. is_over t)"
proof (induction "sum_mset (image_mset calls_left T)" arbitrary: w T rule: less_induct)
  case less
  show ?case
  proof (cases "\<forall>t \<in># T. is_over t")
    case True
    then show ?thesis by blast
  next
    case False
    then obtain w1 T1 where s: "race_step look put (w, T) (w1, T1)"
      using enabled by (metis surj_pair)
    with less race_step_calls [OF s] show ?thesis
      by (meson converse_rtranclp_into_rtranclp)
  qed
qed

end

section \<open>Custom resources\<close>

text \<open>A job is the creation of an object of a kind in a namespace, under the object's own name.\<close>

type_synonym cr_job = "cr_kind \<times> string \<times> custom_resource"

fun cr_key :: "cr_job \<Rightarrow> cr_kind \<times> string \<times> string" where
  "cr_key (k, ns, d) = (k, ns, om_Name (cr_meta d))"

fun cr_look :: "'w external \<Rightarrow> cr_job \<Rightarrow> ('w, unit) op" where
  "cr_look X (k, ns, d) = ext_call (x_GetCR X k ns (om_Name (cr_meta d)))"

fun cr_put :: "'w external \<Rightarrow> cr_job \<Rightarrow> ('w, unit) op" where
  "cr_put X (k, ns, d) = ext_call (x_CreateCR X k ns (Some d))"

lemma sequel_cr: "sequel (cr_look X) (cr_put X) (k, ns, d) = ensure_cr X k ns (om_Name (cr_meta d)) (Some d)"
  by (simp add: sequel_def ensure_cr_def cong: sum.case_cong if_cong)

text \<open>
  What the API server promises of the objects it has: a get changes none and answers only for one
  that is there; a create that succeeds has added an object that was missing, one that does not
  has added none, and it says that the object exists only if it does. And a reliable server: its
  calls return, and fail only because an object is missing or there.
\<close>

definition cr_server :: "'w external \<Rightarrow> ('w \<Rightarrow> (cr_kind \<times> string \<times> string) set) \<Rightarrow> bool" where
  "cr_server X objects \<longleftrightarrow>
     (\<forall>k ns n w r w1. x_GetCR X k ns n w = Some (r, w1) \<longrightarrow>
        objects w1 = objects w \<and> (r = Ret () \<longrightarrow> (k, ns, n) \<in> objects w)) \<and>
     (\<forall>k ns d w r w1. x_CreateCR X k ns (Some d) w = Some (r, w1) \<longrightarrow>
        (if r = Ret () then (k, ns, om_Name (cr_meta d)) \<notin> objects w \<and>
           objects w1 = insert (k, ns, om_Name (cr_meta d)) (objects w)
         else objects w1 = objects w \<and>
           (\<forall>e. r = Fail e \<longrightarrow> is_already_exists e \<longrightarrow> (k, ns, om_Name (cr_meta d)) \<in> objects w)))"

definition cr_reliable :: "'w external \<Rightarrow> bool" where
  "cr_reliable X \<longleftrightarrow>
     (\<forall>k ns n w. \<exists>r w1. x_GetCR X k ns n w = Some (r, w1) \<and> (r = Ret () \<or> (\<exists>e. r = Fail e \<and> is_not_found e))) \<and>
     (\<forall>k ns d w. \<exists>r w1. x_CreateCR X k ns (Some d) w = Some (r, w1) \<and>
        (r = Ret () \<or> (\<exists>e. r = Fail e \<and> is_already_exists e)))"

abbreviation refusal :: "unit outcome \<Rightarrow> bool" where
  "refusal r \<equiv> \<exists>e. r = Fail e \<and> is_already_exists e"

lemma cr_strict:
  fixes X :: "'w external"
  assumes "cr_server X objects"
  shows "strict_race (cr_look X) (cr_put X) (\<lambda>s. objects (op_world s)) cr_key"
proof unfold_locales
  fix j :: cr_job and s s1 :: "'w op_state" and r
  obtain k ns d where j: "j = (k, ns, d)" by (cases j)
  show "cr_look X j s = Some (r, s1) \<Longrightarrow> objects (op_world s1) = objects (op_world s) \<and>
      (\<forall>x. r = Ret x \<longrightarrow> cr_key j \<in> objects (op_world s))"
    using assms by (auto simp: j cr_server_def dest!: ext_call_world)
  show "cr_put X j s = Some (r, s1) \<Longrightarrow>
      objects (op_world s1) \<in> {objects (op_world s), insert (cr_key j) (objects (op_world s))} \<and>
      (r = Ret () \<or> refusal r \<longrightarrow> cr_key j \<in> objects (op_world s1))"
    "cr_put X j s = Some (r, s1) \<Longrightarrow> (r = Ret () \<longrightarrow> cr_key j \<notin> objects (op_world s)) \<and>
      (r \<noteq> Ret () \<longrightarrow> objects (op_world s1) = objects (op_world s))"
    using assms by (fastforce simp: j cr_server_def dest!: ext_call_world split: if_splits)+
qed

lemma cr_reliable_race:
  fixes X :: "'w external"
  assumes "cr_server X objects" and "cr_reliable X"
  shows "reliable_race (cr_look X) (cr_put X) (\<lambda>s. objects (op_world s)) cr_key refusal"
proof (intro reliable_race.intro strict_race.axioms(1) cr_strict assms(1) reliable_race_axioms.intro)
  fix j :: cr_job and s :: "'w op_state"
  obtain k ns d where j: "j = (k, ns, d)" by (cases j)
  from assms(2) obtain r w1 where "x_GetCR X k ns (om_Name (cr_meta d)) (op_world s) = Some (r, w1)"
    "r = Ret () \<or> (\<exists>e. r = Fail e \<and> is_not_found e)" unfolding cr_reliable_def by blast
  then show "\<exists>r s1. cr_look X j s = Some (r, s1) \<and> ((\<exists>x. r = Ret x) \<or> (\<exists>e. r = Fail e \<and> is_not_found e))"
    using ext_call_Some [of "x_GetCR X k ns (om_Name (cr_meta d))" s r w1] unfolding j cr_look.simps by blast
  from assms(2) obtain r w1 where "x_CreateCR X k ns (Some d) (op_world s) = Some (r, w1)"
    "r = Ret () \<or> refusal r" unfolding cr_reliable_def by blast
  then show "\<exists>r s1. cr_put X j s = Some (r, s1) \<and> (r = Ret () \<or> refusal r)"
    using ext_call_Some [of "x_CreateCR X k ns (Some d)" s r w1] unfolding j cr_put.simps by blast
qed

definition objects_of :: "server_world \<Rightarrow> (cr_kind \<times> string \<times> string) set" where
  "objects_of w = set (sw_objects w)"

lemma server_objects: "cr_server server objects_of" "cr_reliable server"
  by (auto simp: cr_server_def cr_reliable_def objects_of_def find_object_def create_object_def answer_def io_ret_def
      io_fail_def Let_def not_found_def already_exists_def is_not_found_def is_already_exists_def split: if_splits)

interpretation crs: strict_race "cr_look server" "cr_put server" "\<lambda>s. objects_of (op_world s)" cr_key
  by (rule cr_strict [OF server_objects(1)])

interpretation reliable_crs:
  reliable_race "cr_look server" "cr_put server" "\<lambda>s. objects_of (op_world s)" cr_key refusal
  by (rule cr_reliable_race [OF server_objects])

section \<open>Secrets\<close>

fun secret_look :: "'w external \<Rightarrow> secret \<Rightarrow> ('w, secret) op" where
  "secret_look X d = get_secret X (secret_key d)"

fun secret_put :: "'w external \<Rightarrow> secret \<Rightarrow> ('w, unit) op" where
  "secret_put X d = ext_call (x_CreateSecret X d)"

lemma sequel_secret:
  "sequel (secret_look X) (secret_put X) d = ensure_secret X (secret_key d) d"
  "sequel (secret_look X) (create_tolerant X) d = ensure_secret_tolerant X (secret_key d) d"
  by (simp_all add: sequel_def ensure_secret_def ensure_secret_tolerant_def cong: sum.case_cong if_cong)

text \<open>The same promises for secrets.\<close>

definition secret_server :: "'w external \<Rightarrow> ('w \<Rightarrow> (string \<times> string) set) \<Rightarrow> bool" where
  "secret_server X keys \<longleftrightarrow>
     (\<forall>ns n w r w1. x_GetSecret X ns n w = Some (r, w1) \<longrightarrow>
        keys w1 = keys w \<and> (\<forall>sec. r = Ret sec \<longrightarrow> (ns, n) \<in> keys w)) \<and>
     (\<forall>d w r w1. x_CreateSecret X d w = Some (r, w1) \<longrightarrow>
        (if r = Ret () then secret_key d \<notin> keys w \<and> keys w1 = insert (secret_key d) (keys w)
         else keys w1 = keys w \<and> (\<forall>e. r = Fail e \<longrightarrow> is_already_exists e \<longrightarrow> secret_key d \<in> keys w)))"

definition secret_reliable :: "'w external \<Rightarrow> bool" where
  "secret_reliable X \<longleftrightarrow>
     (\<forall>ns n w. \<exists>r w1. x_GetSecret X ns n w = Some (r, w1) \<and>
        ((\<exists>sec. r = Ret sec) \<or> (\<exists>e. r = Fail e \<and> is_not_found e))) \<and>
     (\<forall>d w. \<exists>r w1. x_CreateSecret X d w = Some (r, w1) \<and> (r = Ret () \<or> refusal r))"

lemma get_secret_world:
  "get_secret X key s = Some (r, s1) \<Longrightarrow> x_GetSecret X (fst key) (snd key) (op_world s) = Some (r, op_world s1)"
  unfolding get_secret_def by (rule ext_call_world)

lemma create_tolerant_cases:
  assumes "create_tolerant X d s = Some (r, s1)"
  obtains q where "ext_call (x_CreateSecret X d) s = Some (q, s1)" "r = (if refusal q then Ret () else q)"
  using assms by (auto simp: create_tolerant_def io_bind_def io_try_def io_ret_def io_fail_def
      split: option.splits outcome.splits sum.splits if_splits)

lemma secret_strict:
  fixes X :: "'w external"
  assumes "secret_server X keys"
  shows "strict_race (secret_look X) (secret_put X) (\<lambda>s. keys (op_world s)) secret_key"
proof unfold_locales
  fix d :: secret and s s1 :: "'w op_state"
  show "secret_look X d s = Some (r, s1) \<Longrightarrow> keys (op_world s1) = keys (op_world s) \<and>
      (\<forall>x. r = Ret x \<longrightarrow> secret_key d \<in> keys (op_world s))" for r
    using assms get_secret_world [of X "secret_key d" s r s1]
    unfolding secret_server_def secret_look.simps prod.collapse [symmetric] by (metis prod.collapse)
  fix r show "secret_put X d s = Some (r, s1) \<Longrightarrow>
      keys (op_world s1) \<in> {keys (op_world s), insert (secret_key d) (keys (op_world s))} \<and>
      (r = Ret () \<or> refusal r \<longrightarrow> secret_key d \<in> keys (op_world s1))"
    "secret_put X d s = Some (r, s1) \<Longrightarrow> (r = Ret () \<longrightarrow> secret_key d \<notin> keys (op_world s)) \<and>
      (r \<noteq> Ret () \<longrightarrow> keys (op_world s1) = keys (op_world s))"
    using assms by (fastforce simp: secret_server_def dest!: ext_call_world split: if_splits)+
qed

lemmas secret_race_says = race.look_says [OF strict_race.axioms(1) [OF secret_strict]]
  race.put_says [OF strict_race.axioms(1) [OF secret_strict]]

lemma secret_tolerant:
  fixes X :: "'w external"
  assumes "secret_server X keys"
  shows "race (secret_look X) (create_tolerant X) (\<lambda>s. keys (op_world s)) secret_key"
proof unfold_locales
  fix d :: secret and s s1 :: "'w op_state"
  show "secret_look X d s = Some (r, s1) \<Longrightarrow> keys (op_world s1) = keys (op_world s) \<and>
      (\<forall>x. r = Ret x \<longrightarrow> secret_key d \<in> keys (op_world s))" for r
    by (rule secret_race_says(1) [OF assms])
  fix r assume "create_tolerant X d s = Some (r, s1)"
  then obtain q where q: "secret_put X d s = Some (q, s1)" "r = (if refusal q then Ret () else q)"
    by (auto elim: create_tolerant_cases)
  from secret_race_says(2) [OF assms q(1)] q(2)
  show "keys (op_world s1) \<in> {keys (op_world s), insert (secret_key d) (keys (op_world s))} \<and>
      (r = Ret () \<or> refusal r \<longrightarrow> secret_key d \<in> keys (op_world s1))"
    by (auto split: if_splits)
qed

lemma tolerant_never_refuses: "create_tolerant X d s = Some (r, s1) \<Longrightarrow> \<not> refusal r"
  by (erule create_tolerant_cases) (auto split: if_splits)

lemma secret_calls_ok:
  assumes "secret_reliable X"
  shows "\<exists>r s1. secret_look X d s = Some (r, s1) \<and> ((\<exists>x. r = Ret x) \<or> (\<exists>e. r = Fail e \<and> is_not_found e))"
    and "\<exists>r s1. secret_put X d s = Some (r, s1) \<and> (r = Ret () \<or> refusal r)"
    and "\<exists>r s1. create_tolerant X d s = Some (r, s1) \<and> (r = Ret () \<or> False)"
proof -
  from assms obtain r w1 where "x_GetSecret X (fst (secret_key d)) (snd (secret_key d)) (op_world s) = Some (r, w1)"
    "(\<exists>x. r = Ret x) \<or> (\<exists>e. r = Fail e \<and> is_not_found e)" unfolding secret_reliable_def by blast
  then show "\<exists>r s1. secret_look X d s = Some (r, s1) \<and> ((\<exists>x. r = Ret x) \<or> (\<exists>e. r = Fail e \<and> is_not_found e))"
    using ext_call_Some [of "x_GetSecret X (fst (secret_key d)) (snd (secret_key d))" s r w1]
    unfolding secret_look.simps get_secret_def by blast
  from assms obtain r w1 where "x_CreateSecret X d (op_world s) = Some (r, w1)" and r: "r = Ret () \<or> refusal r"
    unfolding secret_reliable_def by blast
  then have c: "ext_call (x_CreateSecret X d) s = Some (r, s\<lparr>op_world := w1\<rparr>)" by (blast intro: ext_call_Some)
  with r show "\<exists>r s1. secret_put X d s = Some (r, s1) \<and> (r = Ret () \<or> refusal r)" by auto
  from c r show "\<exists>r s1. create_tolerant X d s = Some (r, s1) \<and> (r = Ret () \<or> False)"
    by (auto simp: create_tolerant_def io_bind_def io_try_def io_ret_def)
qed

lemma secret_reliable_races:
  assumes "secret_server X keys" and "secret_reliable X"
  shows "reliable_race (secret_look X) (secret_put X) (\<lambda>s. keys (op_world s)) secret_key refusal"
    and "reliable_race (secret_look X) (create_tolerant X) (\<lambda>s. keys (op_world s)) secret_key (\<lambda>_. False)"
  by (intro reliable_race.intro reliable_race_axioms.intro strict_race.axioms(1) secret_strict secret_tolerant
      assms(1) secret_calls_ok [OF assms(2)]; simp)+

definition secret_names :: "server_world \<Rightarrow> (string \<times> string) set" where
  "secret_names w = fst ` set (sw_secrets w)"

lemma server_secrets: "secret_server server secret_names" "secret_reliable server"
proof -
  have there: "key \<in> secret_names w \<longleftrightarrow> map_of (sw_secrets w) key \<noteq> None" for key w
    by (simp only: secret_names_def map_of_eq_None_iff not_not)
  have more: "secret_names (w\<lparr>sw_secrets := (key, sec) # sw_secrets w\<rparr>) = insert key (secret_names w)" for key sec w
    by (simp add: secret_names_def)
  show "secret_server server secret_names"
    by (auto simp: secret_server_def create_secret_def answer_def io_ret_def io_fail_def there more
        split: if_splits option.splits)
  show "secret_reliable server"
    by (auto simp: secret_reliable_def create_secret_def answer_def io_ret_def io_fail_def not_found_def
        already_exists_def is_not_found_def is_already_exists_def split: option.splits)
qed

interpretation secrets: strict_race "secret_look server" "secret_put server" "\<lambda>s. secret_names (op_world s)" secret_key
  by (rule secret_strict [OF server_secrets(1)])

interpretation reliable_secrets:
  reliable_race "secret_look server" "secret_put server" "\<lambda>s. secret_names (op_world s)" secret_key refusal
  by (rule secret_reliable_races [OF server_secrets])

interpretation tolerant_secrets:
  reliable_race "secret_look server" "create_tolerant server" "\<lambda>s. secret_names (op_world s)" secret_key "\<lambda>_. False"
  by (rule secret_reliable_races [OF server_secrets])

text \<open>Two routines can both miss a secret, and then the second creation is refused.\<close>

lemma both_miss:
  assumes "secret_server X keys" and "secret_reliable X" and absent: "secret_key d \<notin> keys (op_world s)"
  shows "\<exists>s1 e. (race_step (secret_look X) (secret_put X))\<^sup>*\<^sup>* (s, add_mset (Looking d) (add_mset (Looking d) L))
      (s1, add_mset (Over d True (Fail e)) (add_mset (Over d True (Ret ())) L)) \<and> is_already_exists e"
proof -
  let ?step = "race_step (secret_look X) (secret_put X)"
  have miss: "\<exists>e t1. secret_look X d t = Some (Fail e, t1) \<and> is_not_found e \<and> keys (op_world t1) = keys (op_world t)"
    if "secret_key d \<notin> keys (op_world t)" for t
    using secret_calls_ok(1) [OF assms(2), of d t] secret_race_says(1) [OF assms(1), of d t] that by blast
  from miss [OF absent] obtain e0 t1 where
    t1: "secret_look X d s = Some (Fail e0, t1)" "is_not_found e0" "keys (op_world t1) = keys (op_world s)" by blast
  with miss [of t1] absent obtain e1 t2 where
    t2: "secret_look X d t1 = Some (Fail e1, t2)" "is_not_found e1" "keys (op_world t2) = keys (op_world s)" by auto
  have put_strict: "secret_put X d t = Some (r, u) \<Longrightarrow> r = Ret () \<Longrightarrow> secret_key d \<notin> keys (op_world t)"
    "secret_put X d t = Some (r, u) \<Longrightarrow> r \<noteq> Ret () \<Longrightarrow> keys (op_world u) = keys (op_world t)" for r t u
    using strict_race.put_strict [OF secret_strict [OF assms(1)], of d t r u] by blast+
  obtain r3 t3 where t3: "secret_put X d t2 = Some (r3, t3)" "r3 = Ret () \<or> refusal r3"
    using secret_calls_ok(2) [OF assms(2)] by blast
  note says3 = secret_race_says(2) [OF assms(1) t3(1)]
  have r3: "r3 = Ret ()"
    using t3(2) says3 put_strict(2) [OF t3(1)] t2(3) absent by auto
  obtain r4 t4 where t4: "secret_put X d t3 = Some (r4, t4)" "r4 = Ret () \<or> refusal r4"
    using secret_calls_ok(2) [OF assms(2)] by blast
  with put_strict(1) [OF t4(1)] says3 r3 obtain e4 where e4: "r4 = Fail e4" "is_already_exists e4" by auto
  have "?step (s, add_mset (Looking d) (add_mset (Looking d) L)) (t1, add_mset (Making d) (add_mset (Looking d) L))"
    using race_step.look [where look = "secret_look X", OF t1(1), of "secret_put X" "add_mset (Looking d) L"] t1(2) by simp
  moreover have "?step (t1, add_mset (Making d) (add_mset (Looking d) L)) (t2, add_mset (Making d) (add_mset (Making d) L))"
    using race_step.look [where look = "secret_look X", OF t2(1), of "secret_put X" "add_mset (Making d) L"] t2(2)
    by (simp add: add_mset_commute)
  moreover have "?step (t2, add_mset (Making d) (add_mset (Making d) L)) (t3, add_mset (Over d True (Ret ())) (add_mset (Making d) L))"
    using race_step.put [where put = "secret_put X", OF t3(1)] r3 by simp
  moreover have "?step (t3, add_mset (Over d True (Ret ())) (add_mset (Making d) L))
      (t4, add_mset (Over d True (Fail e4)) (add_mset (Over d True (Ret ())) L))"
    using race_step.put [where put = "secret_put X", OF t4(1), of "secret_look X" "add_mset (Over d True (Ret ())) L"] e4(1)
    by (simp add: add_mset_commute)
  ultimately show ?thesis
    using e4(2) by (meson converse_rtranclp_into_rtranclp rtranclp.rtrancl_refl)
qed

section \<open>What interleaving does to the reconcilers\<close>

text \<open>
  A routine that is left alone does, call by call, what the sequential tails do: it ends with an
  outcome and in a state exactly when the tail for custom resources, the one of the MinIO
  secrets or the one of the PostgreSQL secrets returns that outcome in that state.\<close>
lemma tail_alone:
  "(\<exists>b. (race_step (cr_look X) (cr_put X))\<^sup>*\<^sup>* (s, {#Looking (k, ns, d)#}) (s1, {#Over (k, ns, d) b r#})) \<longleftrightarrow>
     ensure_cr X k ns (om_Name (cr_meta d)) (Some d) s = Some (r, s1)"
  "(\<exists>b. (race_step (secret_look X) (secret_put X))\<^sup>*\<^sup>* (s, {#Looking sec#}) (s1, {#Over sec b r#})) \<longleftrightarrow>
     ensure_secret X (secret_key sec) sec s = Some (r, s1)"
  "(\<exists>b. (race_step (secret_look X) (create_tolerant X))\<^sup>*\<^sup>* (s, {#Looking sec#}) (s1, {#Over sec b r#})) \<longleftrightarrow>
     ensure_secret_tolerant X (secret_key sec) sec s = Some (r, s1)"
  by (simp_all only: race_alone sequel_cr sequel_secret)

text \<open>
  C16: overlapping reconcilers create every object once, on any API server whose gets and creates
  are truthful. However the calls of any number of tails \<open>ensure_cr\<close> interleave, at any time the
  store holds what it held and beside it only what they ask for; each object that was added was
  created by exactly one routine, one that was there by none; and who reports success, or that
  the object exists, reports what is so. If the server is reliable, the routines can always go on
  until all have ended, and then everything asked for is there and every routine reports success
  or that the object exists. A routine alone is the code's \<open>ensure_cr\<close>.\<close>
theorem create_race:
  assumes "cr_server X objects"
    and "(race_step (cr_look X) (cr_put X))\<^sup>*\<^sup>* (s, image_mset Looking J) (s1, T)"
  shows "image_mset job T = J \<and> objects (op_world s) \<subseteq> objects (op_world s1) \<and>
    objects (op_world s1) \<subseteq> objects (op_world s) \<union> cr_key ` set_mset J \<and>
    (\<forall>k. size {#t \<in># T. made_it (\<lambda>j. cr_key j = k) t#} =
       (if k \<in> objects (op_world s1) - objects (op_world s) then 1 else 0)) \<and>
    (\<forall>t \<in># T. says_there t \<longrightarrow> cr_key (job t) \<in> objects (op_world s1)) \<and>
    (cr_reliable X \<longrightarrow>
       ((\<exists>y. race_step (cr_look X) (cr_put X) (s1, T) y) \<or> (\<forall>t \<in># T. is_over t)) \<and>
       ((\<forall>t \<in># T. is_over t) \<longrightarrow>
          objects (op_world s1) = objects (op_world s) \<union> cr_key ` set_mset J \<and>
          (\<forall>j b r. Over j b r \<in># T \<longrightarrow> r = Ret () \<or> b \<and> (\<exists>e. r = Fail e \<and> is_already_exists e)))) \<and>
    (\<forall>k ns d t r u.
       (\<exists>b. (race_step (cr_look X) (cr_put X))\<^sup>*\<^sup>* (t, {#Looking (k, ns, d)#}) (u, {#Over (k, ns, d) b r#})) \<longleftrightarrow>
         ensure_cr X k ns (om_Name (cr_meta d)) (Some d) t = Some (r, u))"
proof -
  note strict = cr_strict [OF assms(1)]
  note outcome = race.outcome [OF strict_race.axioms(1) [OF strict] assms(2)]
  note once = strict_race.made_once [OF strict assms(2), unfolded strict_race.made_def [OF strict]]
  have "cr_reliable X \<longrightarrow>
      ((\<exists>y. race_step (cr_look X) (cr_put X) (s1, T) y) \<or> (\<forall>t \<in># T. is_over t)) \<and>
      ((\<forall>t \<in># T. is_over t) \<longrightarrow>
         objects (op_world s1) = objects (op_world s) \<union> cr_key ` set_mset J \<and>
         (\<forall>j b r. Over j b r \<in># T \<longrightarrow> r = Ret () \<or> b \<and> refusal r))"
  proof (intro impI conjI)
    assume "cr_reliable X"
    note reliable = cr_reliable_race [OF assms(1) this]
    show "(\<exists>y. race_step (cr_look X) (cr_put X) (s1, T) y) \<or> (\<forall>t \<in># T. is_over t)"
      using reliable_race.enabled [OF reliable] by blast
    assume "\<forall>t \<in># T. is_over t"
    note fin = reliable_race.finished [OF reliable assms(2) this]
    show "objects (op_world s1) = objects (op_world s) \<union> cr_key ` set_mset J"
      "\<forall>j b r. Over j b r \<in># T \<longrightarrow> r = Ret () \<or> b \<and> refusal r"
      by (rule conjunct1 [OF fin], rule conjunct2 [OF fin])
  qed
  then show ?thesis
    by (intro conjI allI conjunct1 [OF outcome] conjunct1 [OF conjunct2 [OF outcome]]
        conjunct1 [OF conjunct2 [OF conjunct2 [OF outcome]]] conjunct2 [OF conjunct2 [OF conjunct2 [OF outcome]]]
        once tail_alone(1))
qed

definition demo_job :: cr_job where
  "demo_job = (TenantKind, ''dwh'', TenantCR (minio_tenant demo_cluster minio_default 4 (new_quantity 1 BinarySI)))"

lemma demo_job_key: "cr_key demo_job = (TenantKind, ''dwh'', NineResourceName demo_cluster [])"
  by (simp add: demo_job_def minio_tenant_def NineObjectMeta_def)

theorem create_race_witness:
  "\<exists>s1 T. (race_step (cr_look server) (cr_put server))\<^sup>*\<^sup>*
       (in_world empty_world, image_mset Looking {#demo_job, demo_job#}) (s1, T) \<and>
     objects_of (op_world s1) = {cr_key demo_job} \<and>
     size {#t \<in># T. made_it (\<lambda>j. cr_key j = cr_key demo_job) t#} = 1"
proof -
  obtain s1 T where run: "(race_step (cr_look server) (cr_put server))\<^sup>*\<^sup>*
      (in_world empty_world, image_mset Looking {#demo_job, demo_job#}) (s1, T)" and T: "\<forall>t \<in># T. is_over t"
    using reliable_crs.runs_out by blast
  note race = create_race [OF server_objects(1) run]
  have empty: "objects_of (op_world (in_world empty_world)) = {}"
    by (simp add: objects_of_def in_world_def empty_world_def)
  note all = conjunct1 [OF conjunct2 [OF conjunct2 [OF conjunct2 [OF conjunct2 [OF conjunct2 [OF race]]]]]]
  note once = conjunct1 [OF conjunct2 [OF conjunct2 [OF conjunct2 [OF race]]]]
  from all server_objects(2) T have objects: "objects_of (op_world s1) = {cr_key demo_job}" by (simp add: empty)
  with spec [OF once, of "cr_key demo_job"] have
    "size {#t \<in># T. made_it (\<lambda>j. cr_key j = cr_key demo_job) t#} = 1" by (simp add: empty)
  with run objects show ?thesis by blast
qed

text \<open>
  C17: the secrets of PostgreSQL survive the same race and those of MinIO need not, on any API
  server whose gets and creates of secrets are truthful. Of any number of interleaved tails that
  accept an existing secret, none ends with AlreadyExists, whoever reports success has its secret
  in the store, and if the server is reliable all that end report success and all their secrets
  are there. The tails of MinIO are truthful, too, and a reliable server has every secret at the
  end; but when two or more of them race for a missing secret, whatever the others do, there is
  an interleaving in which one of them ends with AlreadyExists. Routines alone are the code's
  \<open>ensure_secret_tolerant\<close> and \<open>ensure_secret\<close>.\<close>
theorem secret_race:
  fixes X :: "'w external"
  assumes "secret_server X keys"
  shows "(\<forall>s J s1 T. (race_step (secret_look X) (create_tolerant X))\<^sup>*\<^sup>* (s, image_mset Looking J) (s1, T) \<longrightarrow>
       keys (op_world s) \<subseteq> keys (op_world s1) \<and>
       keys (op_world s1) \<subseteq> keys (op_world s) \<union> secret_key ` set_mset J \<and>
       (\<forall>d b r. Over d b r \<in># T \<longrightarrow>
          (r = Ret () \<longrightarrow> secret_key d \<in> keys (op_world s1)) \<and>
          (b \<longrightarrow> \<not> (\<exists>e. r = Fail e \<and> is_already_exists e)) \<and>
          (secret_reliable X \<longrightarrow> (\<forall>t \<in># T. is_over t) \<longrightarrow> r = Ret ()))) \<and>
    (\<forall>s J s1 T. (race_step (secret_look X) (secret_put X))\<^sup>*\<^sup>* (s, image_mset Looking J) (s1, T) \<longrightarrow>
       (\<forall>t \<in># T. says_there t \<longrightarrow> secret_key (job t) \<in> keys (op_world s1)) \<and>
       (secret_reliable X \<longrightarrow> (\<forall>t \<in># T. is_over t) \<longrightarrow>
          keys (op_world s1) = keys (op_world s) \<union> secret_key ` set_mset J)) \<and>
    (secret_reliable X \<longrightarrow> (\<forall>s d J. secret_key d \<notin> keys (op_world s) \<longrightarrow>
       (\<exists>s1 T e. (race_step (secret_look X) (secret_put X))\<^sup>*\<^sup>*
            (s, image_mset Looking (add_mset d (add_mset d J))) (s1, T) \<and>
          (\<forall>t \<in># T. is_over t) \<and> Over d True (Fail e) \<in># T \<and> is_already_exists e))) \<and>
    (\<forall>d t r u.
       ((\<exists>b. (race_step (secret_look X) (secret_put X))\<^sup>*\<^sup>* (t, {#Looking d#}) (u, {#Over d b r#})) \<longleftrightarrow>
          ensure_secret X (secret_key d) d t = Some (r, u)) \<and>
       ((\<exists>b. (race_step (secret_look X) (create_tolerant X))\<^sup>*\<^sup>* (t, {#Looking d#}) (u, {#Over d b r#})) \<longleftrightarrow>
          ensure_secret_tolerant X (secret_key d) d t = Some (r, u)))"
proof (intro conjI)
  note tolerant = secret_tolerant [OF assms] and strict = strict_race.axioms(1) [OF secret_strict [OF assms]]
  note reliable = secret_reliable_races [OF assms]
  show "\<forall>s J s1 T. (race_step (secret_look X) (create_tolerant X))\<^sup>*\<^sup>* (s, image_mset Looking J) (s1, T) \<longrightarrow>
       keys (op_world s) \<subseteq> keys (op_world s1) \<and>
       keys (op_world s1) \<subseteq> keys (op_world s) \<union> secret_key ` set_mset J \<and>
       (\<forall>d b r. Over d b r \<in># T \<longrightarrow>
          (r = Ret () \<longrightarrow> secret_key d \<in> keys (op_world s1)) \<and>
          (b \<longrightarrow> \<not> refusal r) \<and>
          (secret_reliable X \<longrightarrow> (\<forall>t \<in># T. is_over t) \<longrightarrow> r = Ret ()))"
  proof (intro allI impI)
    fix s J s1 T
    assume run: "(race_step (secret_look X) (create_tolerant X))\<^sup>*\<^sup>* (s, image_mset Looking J) (s1, T)"
    note out = race.outcome [OF tolerant run]
    have "(r = Ret () \<longrightarrow> secret_key d \<in> keys (op_world s1)) \<and> (b \<longrightarrow> \<not> refusal r) \<and>
        (secret_reliable X \<longrightarrow> (\<forall>t \<in># T. is_over t) \<longrightarrow> r = Ret ())" if "Over d b r \<in># T" for d b r
    proof (intro conjI impI)
      show "r = Ret () \<Longrightarrow> secret_key d \<in> keys (op_world s1)" using out that by fastforce
      assume b
      with that have "Over d True r \<in># T" by simp
      from race.put_run [OF tolerant run this] show "\<not> refusal r" by (auto dest!: tolerant_never_refuses)
    next
      show "secret_reliable X \<Longrightarrow> \<forall>t \<in># T. is_over t \<Longrightarrow> r = Ret ()"
        using reliable_race.finished [OF reliable(2) run] that by blast
    qed
    with out show "keys (op_world s) \<subseteq> keys (op_world s1) \<and>
       keys (op_world s1) \<subseteq> keys (op_world s) \<union> secret_key ` set_mset J \<and>
       (\<forall>d b r. Over d b r \<in># T \<longrightarrow>
          (r = Ret () \<longrightarrow> secret_key d \<in> keys (op_world s1)) \<and>
          (b \<longrightarrow> \<not> refusal r) \<and>
          (secret_reliable X \<longrightarrow> (\<forall>t \<in># T. is_over t) \<longrightarrow> r = Ret ()))" by blast
  qed
  show "\<forall>s J s1 T. (race_step (secret_look X) (secret_put X))\<^sup>*\<^sup>* (s, image_mset Looking J) (s1, T) \<longrightarrow>
       (\<forall>t \<in># T. says_there t \<longrightarrow> secret_key (job t) \<in> keys (op_world s1)) \<and>
       (secret_reliable X \<longrightarrow> (\<forall>t \<in># T. is_over t) \<longrightarrow>
          keys (op_world s1) = keys (op_world s) \<union> secret_key ` set_mset J)"
    using race.outcome [OF strict] reliable_race.finished [OF reliable(1)] by blast
  show "secret_reliable X \<longrightarrow> (\<forall>s d J. secret_key d \<notin> keys (op_world s) \<longrightarrow>
       (\<exists>s1 T e. (race_step (secret_look X) (secret_put X))\<^sup>*\<^sup>*
            (s, image_mset Looking (add_mset d (add_mset d J))) (s1, T) \<and>
          (\<forall>t \<in># T. is_over t) \<and> Over d True (Fail e) \<in># T \<and> is_already_exists e))"
  proof (intro allI impI)
    fix s :: "'w op_state" and d J
    assume ok: "secret_reliable X" and absent: "secret_key d \<notin> keys (op_world s)"
    from both_miss [OF assms ok absent, of "image_mset Looking J"] obtain s1 e where
      lost: "(race_step (secret_look X) (secret_put X))\<^sup>*\<^sup>* (s, image_mset Looking (add_mset d (add_mset d J)))
        (s1, add_mset (Over d True (Fail e)) (add_mset (Over d True (Ret ())) (image_mset Looking J)))"
      "is_already_exists e" by auto
    obtain s2 T where fin: "(race_step (secret_look X) (secret_put X))\<^sup>*\<^sup>*
        (s1, add_mset (Over d True (Fail e)) (add_mset (Over d True (Ret ())) (image_mset Looking J))) (s2, T)"
      "\<forall>t \<in># T. is_over t" using reliable_race.runs_out [OF reliable(1) [OF ok]] by blast
    have "Over d True (Fail e) \<in># T" by (rule over_stays [OF fin(1)]) simp
    with lost fin show "\<exists>s1 T e. (race_step (secret_look X) (secret_put X))\<^sup>*\<^sup>*
        (s, image_mset Looking (add_mset d (add_mset d J))) (s1, T) \<and>
      (\<forall>t \<in># T. is_over t) \<and> Over d True (Fail e) \<in># T \<and> is_already_exists e"
      by (meson rtranclp_trans)
  qed
qed (simp add: tail_alone(2,3))

theorem secret_race_witness:
  "\<exists>s1 T e. (race_step (secret_look server) (secret_put server))\<^sup>*\<^sup>*
     (in_world empty_world, image_mset Looking {#minio_config_secret demo_cluster, minio_config_secret demo_cluster#})
     (s1, T) \<and> Over (minio_config_secret demo_cluster) True (Fail e) \<in># T \<and> is_already_exists e"
proof -
  have "secret_key (minio_config_secret demo_cluster) \<notin> secret_names (op_world (in_world empty_world))"
    by (simp add: secret_names_def in_world_def empty_world_def)
  with conjunct1 [OF conjunct2 [OF conjunct2 [OF secret_race [OF server_secrets(1)]]], rule_format,
      OF server_secrets(2), of "minio_config_secret demo_cluster" "in_world empty_world" "{#}"]
  show ?thesis by auto
qed

text \<open>
  C18: what the lost race costs. When another routine stores the configuration secret between the
  look-up and the creation, the error ends the construction of the tenant and is discarded: the
  reconciler goes on without a tenant, and if the store has none it asks the server to create
  nothing, which it can not report as a success.\<close>
theorem minio_lost_race:
  assumes "own_secret X c (minio_config_secret c) = Inr d"
    and "get_secret X (secret_key d) s = Some (Fail e, s1)" and "is_not_found e"
    and "ext_call (x_CreateSecret X d) s1 = Some (Fail e1, s2)"
  shows "constructMinioTenant X c minio s = Some (Fail e1, s2) \<and>
    reconcileMinioTenant X c minio s =
      io_bind (client_of X TenantKind) (\<lambda>_.
        ensure_cr X TenantKind (cluster_namespace c) (NineResourceName c []) None) s2 \<and>
    (cr_store X has \<longrightarrow> reconcileMinioTenant X c minio s = Some (Ret (), s3) \<longrightarrow>
      has (op_world s3) TenantKind (cluster_namespace c) (NineResourceName c []))"
proof -
  have "constructMinioTenant X c minio s = Some (Fail e1, s2)"
    using assms
    by (simp add: constructMinioTenant_def reconcileMinioTenantConfigSecret_def io_of_simps io_bind_Some
        sec.absent io_ret_def)
  moreover from this have run: "reconcileMinioTenant X c minio s =
      io_bind (client_of X TenantKind) (\<lambda>_.
        ensure_cr X TenantKind (cluster_namespace c) (NineResourceName c []) None) s2"
    by (simp add: reconcileMinioTenant_def io_try_def io_bind_Some)
  moreover have "has (op_world s3) TenantKind (cluster_namespace c) (NineResourceName c [])"
    if "cr_store X has" "reconcileMinioTenant X c minio s = Some (Ret (), s3)"
    using client_ensure_establishes [OF that(1) that(2) [unfolded run]] by simp
  ultimately show ?thesis by blast
qed

text \<open>A server on which the other routine is always faster.\<close>

definition busy_server :: "server_world external" where
  "busy_server = server\<lparr>x_CreateSecret := (\<lambda>sec. io_fail already_exists)\<rparr>"

theorem minio_lost_race_witness:
  "constructMinioTenant busy_server demo_cluster minio_default (in_world empty_world) =
     Some (Fail already_exists, in_world empty_world)"
proof -
  obtain d where d: "own_secret busy_server demo_cluster (minio_config_secret demo_cluster) = Inr d"
    by (simp add: own_secret_def busy_server_def)
  have "get_secret busy_server (secret_key d) (in_world empty_world) = Some (Fail not_found, in_world empty_world)"
    by (simp add: busy_server_def get_secret_def ext_call_def in_world_def empty_world_def answer_def io_fail_def)
  moreover have "ext_call (x_CreateSecret busy_server d) (in_world empty_world) =
      Some (Fail already_exists, in_world empty_world)"
    by (simp add: busy_server_def ext_call_def io_fail_def in_world_def)
  ultimately show ?thesis
    using minio_lost_race [OF d, of "in_world empty_world" not_found "in_world empty_world" already_exists
        "in_world empty_world"]
    by (simp add: not_found_def is_not_found_def)
qed

end
