(* ===== verification/Runes.thy ===== *)
theory Runes
  imports GoLib
begin

text \<open>
  Go's view of a string as code points: \<open>[]rune(s)\<close> with the decoding table of
  \<open>unicode/utf8\<close> (an ill-formed byte is one rune \<open>U+FFFD\<close>), and \<open>strings.Title\<close> on
  ASCII text.
\<close>

section \<open>Decoding UTF-8\<close>

definition rune_error :: nat where
  "rune_error = 0xFFFD"

fun nth_in :: "nat \<Rightarrow> nat \<Rightarrow> nat \<Rightarrow> string \<Rightarrow> bool" where
  "nth_in i lo hi s = (i < length s \<and> lo \<le> code (s ! i) \<and> code (s ! i) \<le> hi)"

text \<open>The accepted range of the second byte depends on the first one.\<close>

definition second_lo :: "nat \<Rightarrow> nat" where
  "second_lo x = (if x = 0xE0 then 0xA0 else if x = 0xF0 then 0x90 else 0x80)"

definition second_hi :: "nat \<Rightarrow> nat" where
  "second_hi x = (if x = 0xED then 0x9F else if x = 0xF4 then 0x8F else 0xBF)"

definition low6 :: "string \<Rightarrow> nat \<Rightarrow> nat" where
  "low6 s i = code (s ! i) - 0x80"

text \<open>\<open>DecodeRuneInString\<close> on a non-empty string: the rune and its width.\<close>

definition decode_rune :: "string \<Rightarrow> nat \<times> nat" where
  "decode_rune s =
     (let x = code (s ! 0) in
      if x < 0x80 then (x, 1)
      else if 0xC2 \<le> x \<and> x \<le> 0xDF \<and> nth_in 1 0x80 0xBF s
        then ((x - 0xC0) * 64 + low6 s 1, 2)
      else if 0xE0 \<le> x \<and> x \<le> 0xEF \<and> nth_in 1 (second_lo x) (second_hi x) s \<and> nth_in 2 0x80 0xBF s
        then ((x - 0xE0) * 4096 + low6 s 1 * 64 + low6 s 2, 3)
      else if 0xF0 \<le> x \<and> x \<le> 0xF4 \<and> nth_in 1 (second_lo x) (second_hi x) s \<and>
              nth_in 2 0x80 0xBF s \<and> nth_in 3 0x80 0xBF s
        then ((x - 0xF0) * 262144 + low6 s 1 * 4096 + low6 s 2 * 64 + low6 s 3, 4)
      else (rune_error, 1))"

lemma decode_rune_width: "s \<noteq> [] \<Longrightarrow> 1 \<le> snd (decode_rune s) \<and> snd (decode_rune s) \<le> length s"
  by (auto simp: decode_rune_def Let_def Suc_le_eq)

lemma decode_rune_ascii [simp]: "code c < 128 \<Longrightarrow> decode_rune (c # s) = (code c, 1)"
  by (simp add: decode_rune_def)

function runes :: "string \<Rightarrow> nat list" where
  "runes s =
     (if s = [] then []
      else (let (r, w) = decode_rune s in r # runes (drop w s)))"
  by pat_completeness auto

termination runes
proof (relation "measure length")
  fix s :: string and x r w
  assume "s \<noteq> []" and "x = decode_rune s" and "(r, w) = x"
  then have "1 \<le> w" "w \<le> length s"
    using decode_rune_width [of s] by (metis snd_conv)+
  with \<open>s \<noteq> []\<close> show "(drop w s, s) \<in> measure length" by simp
qed simp

declare runes.simps [simp del]

lemma runes_Nil [simp]: "runes [] = []"
  by (simp add: runes.simps)

lemma runes_empty_iff [simp]: "runes s = [] \<longleftrightarrow> s = []"
  by (subst runes.simps) (simp add: split_def Let_def)

lemma length_runes: "length (runes s) \<le> length s"
proof (induction s rule: runes.induct)
  case (1 s)
  show ?case
  proof (cases "s = []")
    case False
    obtain r w where d: "decode_rune s = (r, w)" by fastforce
    with False decode_rune_width [OF False] have w: "1 \<le> w" "w \<le> length s" by auto
    with 1 False d have "length (runes (drop w s)) \<le> length s - w" by simp
    with w d False show ?thesis by (subst runes.simps) simp
  qed simp
qed

definition ascii :: "string \<Rightarrow> bool" where
  "ascii s \<longleftrightarrow> list_all (\<lambda>c. code c < 128) s"

lemma runes_ascii: "ascii s \<Longrightarrow> runes s = map code s"
proof (induction s)
  case (Cons c s)
  then show ?case by (subst runes.simps) (simp add: ascii_def)
qed simp

section \<open>strings.Title on ASCII text\<close>

definition lower_case :: "char \<Rightarrow> bool" where
  "lower_case c \<longleftrightarrow> code CHR ''a'' \<le> code c \<and> code c \<le> code CHR ''z''"

definition to_upper :: "char \<Rightarrow> char" where
  "to_upper c = (if lower_case c then char_of (code c - 32) else c)"

text \<open>\<open>isSeparator\<close>: letters, digits and the underscore do not end a word.\<close>

definition is_separator :: "char \<Rightarrow> bool" where
  "is_separator c \<longleftrightarrow> code c < 128 \<and> \<not> alphanum c \<and> c \<noteq> CHR ''_''"

fun title_from :: "char \<Rightarrow> string \<Rightarrow> string" where
  "title_from prev [] = []"
| "title_from prev (c # cs) = (if is_separator prev then to_upper c else c) # title_from c cs"

definition title :: "string \<Rightarrow> string" where
  "title s = title_from CHR '' '' s"

text \<open>A text without separators is one word: only its first byte may change.\<close>

lemma title_from_word:
  "\<not> is_separator c \<Longrightarrow> list_all (\<lambda>x. \<not> is_separator x) s \<Longrightarrow> title_from c s = s"
  by (induction s arbitrary: c) auto

lemma space_is_separator [simp]: "is_separator CHR '' ''"
  by (simp add: is_separator_def alphanum_def code_def)

lemma title_word:
  "list_all (\<lambda>x. \<not> is_separator x) (c # s) \<Longrightarrow> title (c # s) = to_upper c # s"
  by (simp add: title_def title_from_word)

lemma code_char_of [simp]: "n < 256 \<Longrightarrow> code (char_of n) = n"
  by (simp add: code_def of_char_of)

lemma char_of_code [simp]: "char_of (code c) = c"
  by (simp add: code_def char_of_char)

lemma code_less_256 [simp]: "code c < 256"
  by (simp add: code_def nat_of_char_less_256)

lemma code_inject [simp]: "code a = code b \<longleftrightarrow> a = b"
  by (metis char_of_code)

lemma to_upper_separator [simp]: "is_separator (to_upper c) = is_separator c"
proof (cases "lower_case c")
  case True
  then have "code (to_upper c) = code c - 32" "97 \<le> code c" "code c \<le> 122"
    by (auto simp: to_upper_def lower_case_def order.strict_trans1 [of _ 122])
  then have "alphanum (to_upper c)" "alphanum c"
    by (auto simp: alphanum_def)
  then show ?thesis by (simp add: is_separator_def)
qed (simp add: to_upper_def)

lemma title_from_separators:
  "list_all (\<lambda>x. \<not> is_separator x) (title_from c s) = list_all (\<lambda>x. \<not> is_separator x) s"
  by (induction s arbitrary: c) auto

lemma title_eq_word:
  assumes "title s = c # w" and "list_all (\<lambda>x. \<not> is_separator x) (c # w)"
  obtains b where "s = b # w" "to_upper b = c"
proof -
  have "list_all (\<lambda>x. \<not> is_separator x) s"
    using assms by (metis title_def title_from_separators)
  moreover from assms(1) obtain b v where "s = b # v"
    by (cases s) (auto simp: title_def)
  ultimately show thesis
    using assms(1) title_word [of b v] by (auto intro: that)
qed

lemma to_upper_cases: "to_upper b = c \<Longrightarrow> b = c \<or> (lower_case b \<and> code b = code c + 32)"
  by (auto simp: to_upper_def lower_case_def order.strict_trans1 [of _ 122] split: if_splits)

end
