(* ===== verification/Labels.thy ===== *)
theory Labels
  imports K8sTypes Runes
begin

text \<open>
  DirectPV labels: \<open>pkg/minio/directpv/apis/directpv.min.io/v1beta1/label.go\<close> and the names
  of \<open>consts.go\<close> and \<open>register.go\<close> they are built from. The validators of
  \<open>k8s.io/apimachinery\<close> are parameters: \<open>label_errs v\<close> lists what is wrong with a label
  value and \<open>key_errs k\<close> what is wrong with a qualified name. A Go map iterates in no
  fixed order, so a function that ranges over one takes its entries in the order visited.
  Log lines are left out.

  The locale \<open>labelled\<close> is the contract that drives and volumes share: how \<open>SetLabel\<close>,
  \<open>RemoveLabel\<close> and \<open>getLabel\<close> act on the labels of an object, and what follows from it.
\<close>

named_theorems label_keys "definitions of the label keys"

section \<open>Names\<close>

definition AppName :: string where "AppName = ''directpv''"
definition AppPrettyName :: string where "AppPrettyName = ''DirectPV''"
definition GroupName :: string where "GroupName = AppName @ ''.min.io''"
definition LatestAPIVersion :: string where "LatestAPIVersion = ''v1beta1''"
definition Group :: string where "Group = GroupName"
definition Version :: string where "Version = ''v1beta1''"
definition ControllerName :: string where "ControllerName = AppName @ ''-controller''"
definition DriverName :: string where "DriverName = AppName @ ''-driver''"
definition DriveKind :: string where "DriveKind = AppPrettyName @ ''Drive''"
definition VolumeKind :: string where "VolumeKind = AppPrettyName @ ''Volume''"
definition NodeKind :: string where "NodeKind = AppPrettyName @ ''Node''"
definition InitRequestKind :: string where "InitRequestKind = AppPrettyName @ ''InitRequest''"
definition NodeControllerName :: string where "NodeControllerName = ''node-controller''"

lemmas label_names [label_keys] =
  AppName_def AppPrettyName_def GroupName_def LatestAPIVersion_def Group_def Version_def

section \<open>Label keys\<close>

definition NodeLabelKey :: string where "NodeLabelKey = GroupName @ ''/node''"
definition DriveNameLabelKey :: string where "DriveNameLabelKey = GroupName @ ''/drive-name''"
definition AccessTierLabelKey :: string where "AccessTierLabelKey = GroupName @ ''/access-tier''"
definition DriveLabelKey :: string where "DriveLabelKey = GroupName @ ''/drive''"
definition VersionLabelKey :: string where "VersionLabelKey = GroupName @ ''/version''"
definition CreatedByLabelKey :: string where "CreatedByLabelKey = GroupName @ ''/created-by''"
definition PodNameLabelKey :: string where "PodNameLabelKey = GroupName @ ''/pod.name''"
definition PodNSLabelKey :: string where "PodNSLabelKey = GroupName @ ''/pod.namespace''"
definition MigratedLabelKey :: string where "MigratedLabelKey = GroupName @ ''/migrated''"
definition RequestIDLabelKey :: string where "RequestIDLabelKey = GroupName @ ''/request-id''"
definition SuspendLabelKey :: string where "SuspendLabelKey = GroupName @ ''/suspend''"
definition VolumeClaimIDLabelKeyPrefix :: string where
  "VolumeClaimIDLabelKeyPrefix = GroupName @ ''/volume-claim-id-''"
definition ClaimIDLabelKey :: string where "ClaimIDLabelKey = GroupName @ ''/claim-id''"

lemmas label_key_defs [label_keys] =
  NodeLabelKey_def DriveNameLabelKey_def AccessTierLabelKey_def DriveLabelKey_def
  VersionLabelKey_def CreatedByLabelKey_def PodNameLabelKey_def PodNSLabelKey_def
  MigratedLabelKey_def RequestIDLabelKey_def SuspendLabelKey_def
  VolumeClaimIDLabelKeyPrefix_def ClaimIDLabelKey_def

lemma label_keys_distinct:
  "distinct [NodeLabelKey, DriveNameLabelKey, AccessTierLabelKey, DriveLabelKey, VersionLabelKey,
     CreatedByLabelKey, PodNameLabelKey, PodNSLabelKey, MigratedLabelKey, RequestIDLabelKey,
     SuspendLabelKey, ClaimIDLabelKey]"
  by (simp add: label_keys)

section \<open>Label values\<close>

definition alphanum_rune :: "nat \<Rightarrow> bool" where
  "alphanum_rune r \<longleftrightarrow>
     (code CHR ''A'' \<le> r \<and> r \<le> code CHR ''Z'') \<or> (code CHR ''a'' \<le> r \<and> r \<le> code CHR ''z'') \<or>
     (code CHR ''0'' \<le> r \<and> r \<le> code CHR ''9'')"

definition normalize_rune :: "nat \<Rightarrow> nat \<Rightarrow> char" where
  "normalize_rune i r =
     (if alphanum_rune r then char_of r
      else if i \<noteq> 0 \<and> r \<noteq> code CHR ''.'' \<and> r \<noteq> code CHR ''_'' \<and> r \<noteq> code CHR ''-'' then CHR ''-''
      else CHR ''x'')"

definition normalizeLabelValue :: "string \<Rightarrow> string" where
  "normalizeLabelValue v =
     (let value = (if 63 < length v then take 63 v else v) in
      map (\<lambda>(i, r). normalize_rune i r) (enumerate 0 (runes value)))"

definition ToLabelValue :: "(string \<Rightarrow> string list) \<Rightarrow> string \<Rightarrow> string" where
  "ToLabelValue label_errs value =
     (if label_errs value = [] then value else normalizeLabelValue value)"

definition ToLabelSelector :: "(string \<times> string list) list \<Rightarrow> string" where
  "ToLabelSelector labels =
     join '','' (concat (map (\<lambda>(key, values).
       if values \<noteq> [] then [key @ '' in ('' @ join '','' values @ '')''] else []) labels))"

definition NewLabelKey :: "(string \<Rightarrow> string list) \<Rightarrow> string \<Rightarrow> go_error + string" where
  "NewLabelKey key_errs labelK =
     (let k = (if \<not> prefix GroupName labelK then GroupName @ ''/'' @ labelK else labelK) in
      if key_errs k \<noteq> [] then Inl (new_error (''invalid label key; '' @ join '', '' (key_errs k)))
      else Inr k)"

definition NewLabelValue :: "(string \<Rightarrow> string list) \<Rightarrow> string \<Rightarrow> go_error + string" where
  "NewLabelValue label_errs v =
     (if label_errs v \<noteq> []
      then Inl (new_error (''invalid label value; '' @ join '', '' (label_errs v)))
      else Inr v)"

text \<open>
  What Kubernetes documents of label values: at most 63 characters, empty or beginning and
  ending with an alphanumeric character, with dashes, underscores and dots between.
\<close>

definition label_char :: "char \<Rightarrow> bool" where
  "label_char c \<longleftrightarrow> alphanum c \<or> c \<in> set ''-_.''"

definition k8s_label_value :: "string \<Rightarrow> bool" where
  "k8s_label_value v \<longleftrightarrow>
     v = [] \<or> (length v \<le> 63 \<and> list_all label_char v \<and> alphanum (hd v) \<and> alphanum (last v))"

definition documented_validator :: "(string \<Rightarrow> string list) \<Rightarrow> bool" where
  "documented_validator label_errs \<longleftrightarrow> (\<forall>v. label_errs v = [] \<longleftrightarrow> k8s_label_value v)"

definition doc_errs :: "string \<Rightarrow> string list" where
  "doc_errs v = (if k8s_label_value v then [] else [''a valid label must be ...''])"

lemma doc_errs_documented: "documented_validator doc_errs"
  by (simp add: documented_validator_def doc_errs_def)

lemma documented_valid: "documented_validator errs \<Longrightarrow> errs v = [] \<longleftrightarrow> k8s_label_value v"
  by (simp add: documented_validator_def)

section \<open>What normalisation yields\<close>

lemma alphanum_rune_code: "alphanum_rune (code c) = alphanum c"
  by (auto simp: alphanum_rune_def alphanum_def)

lemma alphanum_char_of: "alphanum_rune r \<Longrightarrow> alphanum (char_of r)"
proof -
  assume a: "alphanum_rune r"
  then have "r < 256" by (auto simp: alphanum_rune_def)
  then have "code (char_of r) = r" by simp
  with a show ?thesis by (metis alphanum_rune_code)
qed

lemma alphanum_x [simp]: "alphanum CHR ''x''"
  by (simp add: alphanum_def)

lemma not_alphanum_dash [simp]: "\<not> alphanum CHR ''-''"
  by (simp add: alphanum_def code_def)

lemma normalize_rune_char: "alphanum (normalize_rune i r) \<or> (i \<noteq> 0 \<and> normalize_rune i r = CHR ''-'')"
  by (auto simp: normalize_rune_def alphanum_char_of)

lemma length_normalizeLabelValue: "length (normalizeLabelValue v) \<le> 63"
proof -
  have "length (take 63 v) \<le> 63" by simp
  with length_runes [of "take 63 v"] length_runes [of v] show ?thesis
    by (auto simp: normalizeLabelValue_def Let_def)
qed

lemma normalizeLabelValue_Nil_iff [simp]: "normalizeLabelValue v = [] \<longleftrightarrow> v = []"
proof -
  have "enumerate 0 xs = [] \<longleftrightarrow> xs = []" for xs :: "nat list" by (cases xs) simp_all
  then show ?thesis by (simp add: normalizeLabelValue_def Let_def)
qed

lemma normalizeLabelValue_chars:
  "c \<in> set (normalizeLabelValue v) \<Longrightarrow> alphanum c \<or> c = CHR ''-''"
  using normalize_rune_char by (auto simp: normalizeLabelValue_def Let_def)

lemma normalizeLabelValue_hd: "v \<noteq> [] \<Longrightarrow> alphanum (hd (normalizeLabelValue v))"
proof -
  assume v: "v \<noteq> []"
  have "alphanum (hd (map (\<lambda>(i, r). normalize_rune i r) (enumerate 0 rs)))" if "rs \<noteq> []" for rs
    using that normalize_rune_char [of 0] by (cases rs) auto
  with v show ?thesis by (simp add: normalizeLabelValue_def Let_def)
qed

text \<open>Normalising letters, digits and dashes turns the dashes into \<open>x\<close>.\<close>

definition no_dash :: "char \<Rightarrow> char" where
  "no_dash c = (if c = CHR ''-'' then CHR ''x'' else c)"

lemma map_enumerate_const: "\<forall>i x. x \<in> set xs \<longrightarrow> f (i, x) = g x \<Longrightarrow> map f (enumerate n xs) = map g xs"
  by (induction xs arbitrary: n) auto

lemma normalizeLabelValue_again:
  assumes "length w \<le> 63" and "\<forall>c \<in> set w. alphanum c \<or> c = CHR ''-''"
  shows "normalizeLabelValue w = map no_dash w"
proof -
  have a: "code c < 128" if "c \<in> set w" for c
  proof -
    from assms(2) that have "alphanum c \<or> c = CHR ''-''" by blast
    then show ?thesis by (auto simp: alphanum_def code_def)
  qed
  then have r: "runes w = map code w" by (simp add: runes_ascii ascii_def list_all_iff)
  have "normalizeLabelValue w = map (\<lambda>(i, r). normalize_rune i r) (enumerate 0 (map code w))"
    using assms(1) r by (simp add: normalizeLabelValue_def Let_def)
  also have "\<dots> = map (\<lambda>r. no_dash (char_of r)) (map code w)"
  proof (rule map_enumerate_const, safe)
    fix i :: nat and r assume "r \<in> set (map code w)"
    then obtain c where c: "c \<in> set w" "r = code c" by auto
    with assms(2) have "alphanum c \<or> c = CHR ''-''" by blast
    with c show "normalize_rune i r = no_dash (char_of r)"
      by (auto simp: normalize_rune_def no_dash_def alphanum_rune_code)
  qed
  also have "\<dots> = map no_dash w" by simp
  finally show ?thesis .
qed

lemma k8s_label_value_alphanum:
  "length w \<le> 63 \<Longrightarrow> \<forall>c \<in> set w. alphanum c \<Longrightarrow> k8s_label_value w"
  by (auto simp: k8s_label_value_def label_char_def list_all_iff)

text \<open>A normalised value is a valid label exactly when it does not end in a dash.\<close>

lemma normalized_valid_iff:
  assumes "v \<noteq> []"
  shows "k8s_label_value (normalizeLabelValue v) \<longleftrightarrow> last (normalizeLabelValue v) \<noteq> CHR ''-''"
proof -
  let ?w = "normalizeLabelValue v"
  have ne: "?w \<noteq> []" using assms by simp
  then have "last ?w \<in> set ?w" by simp
  from normalizeLabelValue_chars [OF this]
  have "alphanum (last ?w) \<longleftrightarrow> last ?w \<noteq> CHR ''-''" by auto
  moreover have "list_all label_char ?w"
    using normalizeLabelValue_chars by (auto simp: list_all_iff label_char_def)
  ultimately show ?thesis
    using ne assms length_normalizeLabelValue [of v] normalizeLabelValue_hd [OF assms]
    by (simp add: k8s_label_value_def)
qed

lemma ToLabelValue_twice:
  assumes "documented_validator errs"
  shows "ToLabelValue errs (ToLabelValue errs v) =
    (if k8s_label_value (ToLabelValue errs v) then ToLabelValue errs v
     else map no_dash (ToLabelValue errs v))"
proof (cases "errs v = []")
  case True
  with assms show ?thesis by (simp add: ToLabelValue_def documented_valid)
next
  case False
  then have "ToLabelValue errs v = normalizeLabelValue v" by (simp add: ToLabelValue_def)
  moreover have "normalizeLabelValue (normalizeLabelValue v) = map no_dash (normalizeLabelValue v)"
    using length_normalizeLabelValue [of v] normalizeLabelValue_chars [of _ v]
    by (intro normalizeLabelValue_again) auto
  ultimately show ?thesis using assms by (simp add: ToLabelValue_def documented_valid)
qed

section \<open>Objects with labels\<close>

definition label_or_empty :: "string option \<Rightarrow> string" where
  "label_or_empty l = (case l of None \<Rightarrow> [] | Some v \<Rightarrow> v)"

lemma label_or_empty_simps [simp]: "label_or_empty None = []" "label_or_empty (Some v) = v"
  by (simp_all add: label_or_empty_def)

lemma ToLabelValue_Nil [simp]: "ToLabelValue errs [] = []"
  by (simp add: ToLabelValue_def)

text \<open>The contract of \<open>SetLabel\<close>, \<open>RemoveLabel\<close> and \<open>getLabel\<close>.\<close>

locale labelled =
  fixes labels :: "'a \<Rightarrow> (string, string) gomap"
    and set_label :: "string \<Rightarrow> string \<Rightarrow> 'a \<Rightarrow> bool \<times> 'a"
    and remove_label :: "string \<Rightarrow> 'a \<Rightarrow> bool \<times> 'a"
    and get_label :: "(string \<Rightarrow> string list) \<Rightarrow> string \<Rightarrow> 'a \<Rightarrow> string"
  assumes set_labels: "labels (snd (set_label k v x)) = Some ((mrange (labels x))(k \<mapsto> v))"
    and set_changed: "fst (set_label k v x) \<longleftrightarrow> mget (labels x) k \<noteq> Some v"
    and remove_labels: "labels (snd (remove_label k x)) = Some ((mrange (labels x))(k := None))"
    and remove_found: "fst (remove_label k x) \<longleftrightarrow> mget (labels x) k \<noteq> None"
    and get_is: "get_label errs k x = ToLabelValue errs (label_or_empty (mget (labels x) k))"
begin

lemma get_set_same: "get_label errs k (snd (set_label k v x)) = ToLabelValue errs v"
  by (simp add: get_is set_labels)

lemma get_set_other: "k \<noteq> j \<Longrightarrow> get_label errs k (snd (set_label j v x)) = get_label errs k x"
  by (simp add: get_is set_labels mrange_mget)

lemma get_remove_same: "get_label errs k (snd (remove_label k x)) = []"
  by (simp add: get_is remove_labels)

lemma get_remove_other: "k \<noteq> j \<Longrightarrow> get_label errs k (snd (remove_label j x)) = get_label errs k x"
  by (simp add: get_is remove_labels mrange_mget)

lemma set_again: "\<not> fst (set_label k v (snd (set_label k v x)))"
  by (simp add: set_changed set_labels)

lemma remove_after_set:
  "mget (labels x) k = None \<Longrightarrow>
     mrange (labels (snd (remove_label k (snd (set_label k v x))))) = mrange (labels x)"
  by (auto simp: remove_labels set_labels mrange_mget)

lemma valid_round_trip:
  "documented_validator errs \<Longrightarrow> k8s_label_value v \<Longrightarrow>
     get_label errs k (snd (set_label k (ToLabelValue errs v) x)) = v"
  by (simp add: get_set_same ToLabelValue_def documented_valid)

lemma read_back:
  "documented_validator errs \<Longrightarrow>
     get_label errs k (snd (set_label k (ToLabelValue errs v) x)) =
       (if k8s_label_value (ToLabelValue errs v) then ToLabelValue errs v
        else map no_dash (ToLabelValue errs v))"
  by (simp add: get_set_same ToLabelValue_twice)

end

text \<open>Suspension is a label whose value is \<open>true\<close>.\<close>

locale suspendable = labelled +
  fixes suspend :: "(string \<Rightarrow> string list) \<Rightarrow> 'a \<Rightarrow> bool \<times> 'a"
    and resume :: "'a \<Rightarrow> bool \<times> 'a"
    and is_suspended :: "(string \<Rightarrow> string list) \<Rightarrow> 'a \<Rightarrow> bool"
  assumes suspend_is: "suspend errs x = set_label SuspendLabelKey (ToLabelValue errs (format_bool True)) x"
    and resume_is: "resume x = remove_label SuspendLabelKey x"
    and is_suspended_is: "is_suspended errs x \<longleftrightarrow> get_label errs SuspendLabelKey x = format_bool True"
begin

lemma suspended_after_suspend:
  "documented_validator errs \<Longrightarrow> is_suspended errs (snd (suspend errs x))"
  by (simp add: is_suspended_is suspend_is valid_round_trip k8s_label_value_def format_bool_def
      label_char_def alphanum_def code_def)

lemma running_after_resume: "\<not> is_suspended errs (snd (resume x))"
  by (simp add: is_suspended_is resume_is get_remove_same format_bool_def)

lemma suspend_keeps_others:
  "k \<noteq> SuspendLabelKey \<Longrightarrow> get_label errs k (snd (suspend errs x)) = get_label errs k x"
  by (simp add: suspend_is get_set_other)

lemma resume_found: "fst (resume (snd (suspend errs x)))"
  by (simp add: resume_is remove_found suspend_is set_labels)

lemma resume_undoes:
  "mget (labels x) SuspendLabelKey = None \<Longrightarrow>
     mrange (labels (snd (resume (snd (suspend errs x))))) = mrange (labels x)"
  by (simp add: resume_is suspend_is remove_after_set)

end

section \<open>Properties\<close>

text \<open>
  Conversion to a label value keeps every valid value; an invalid one becomes at most
  63 letters, digits and dashes that begin with a letter or digit, which Kubernetes accepts
  exactly when it does not end in a dash. Converting the result once more always gives a
  value Kubernetes accepts.\<close>
theorem ToLabelValue_result:
  assumes "documented_validator errs"
  shows "(k8s_label_value v \<longrightarrow> ToLabelValue errs v = v) \<and>
    (\<not> k8s_label_value v \<longrightarrow>
       length (ToLabelValue errs v) \<le> 63 \<and>
       list_all (\<lambda>c. alphanum c \<or> c = CHR ''-'') (ToLabelValue errs v) \<and>
       alphanum (hd (ToLabelValue errs v)) \<and>
       (k8s_label_value (ToLabelValue errs v) \<longleftrightarrow> last (ToLabelValue errs v) \<noteq> CHR ''-'')) \<and>
    k8s_label_value (ToLabelValue errs (ToLabelValue errs v))"
proof -
  have valid: "k8s_label_value v \<longrightarrow> ToLabelValue errs v = v"
    using assms by (simp add: ToLabelValue_def documented_valid)
  have ne: "\<not> k8s_label_value v \<longrightarrow> v \<noteq> [] \<and> ToLabelValue errs v = normalizeLabelValue v"
    using assms by (auto simp: ToLabelValue_def documented_valid k8s_label_value_def)
  have shape: "\<not> k8s_label_value v \<longrightarrow> length (normalizeLabelValue v) \<le> 63 \<and>
      (\<forall>c \<in> set (normalizeLabelValue v). alphanum c \<or> c = CHR ''-'')"
    using length_normalizeLabelValue normalizeLabelValue_chars by blast
  then have "\<not> k8s_label_value v \<longrightarrow> k8s_label_value (map no_dash (normalizeLabelValue v))"
    by (auto intro!: k8s_label_value_alphanum simp: no_dash_def)
  then have twice: "k8s_label_value (ToLabelValue errs (ToLabelValue errs v))"
    using valid ne ToLabelValue_twice [OF assms, of v] by (cases "k8s_label_value v") auto
  show ?thesis
    using valid ne shape twice normalizeLabelValue_hd [of v] normalized_valid_iff [of v]
    by (auto simp: list_all_iff)
qed

theorem ToLabelValue_result_witness:
  "ToLabelValue doc_errs ''a b '' = ''a-b-'' \<and> \<not> k8s_label_value (ToLabelValue doc_errs ''a b '') \<and>
   ToLabelValue doc_errs (ToLabelValue doc_errs ''a b '') = ''axbx'' \<and>
   ToLabelValue doc_errs ''node-1'' = ''node-1''"
proof -
  note T = ToLabelValue_result [OF doc_errs_documented]
  have i: "\<not> k8s_label_value ''a b ''" "\<not> k8s_label_value ''a-b-''" "k8s_label_value ''node-1''"
    by (simp_all add: k8s_label_value_def label_char_def alphanum_def code_def)
  have n: "runes ''a b '' = map code ''a b ''" "runes ''a-b-'' = map code ''a-b-''"
    by (simp_all add: runes_ascii ascii_def code_def)
  have a: "ToLabelValue doc_errs ''a b '' = ''a-b-''"
    using i(1) by (simp add: ToLabelValue_def doc_errs_def normalizeLabelValue_def n
        normalize_rune_def alphanum_rune_def code_def char_of_eq_iff)
  have b: "ToLabelValue doc_errs ''a-b-'' = ''axbx''"
    using i(2) by (simp add: ToLabelValue_def doc_errs_def normalizeLabelValue_def n
        normalize_rune_def alphanum_rune_def code_def char_of_eq_iff)
  from T [of "''a b ''"] T [of "''node-1''"] i a b show ?thesis by simp
qed

end
