(* ===== verification/DirectPVTypes.thy ===== *)
theory DirectPVTypes
  imports Labels "HOL-Library.FSet"
begin

text \<open>
  The vocabulary and the helpers of DirectPV's API package,
  \<open>pkg/minio/directpv/apis/directpv.min.io/v1beta1/types.go\<close> and \<open>utils.go\<close>: statuses, access
  tiers, condition types, device names, UUIDs, string sets, and the update of a condition
  list that drives and volumes share. Go's named string types are strings here. The
  conversions return their status together with an error; the callers' view, a status or
  an error, is a sum. YAML, JSON, files and terminal output are in \<open>SafeFile\<close>.
\<close>

section \<open>Statuses and access tiers\<close>

definition DriveStatusReady :: string where "DriveStatusReady = ''Ready''"
definition DriveStatusLost :: string where "DriveStatusLost = ''Lost''"
definition DriveStatusError :: string where "DriveStatusError = ''Error''"
definition DriveStatusRemoved :: string where "DriveStatusRemoved = ''Removed''"
definition DriveStatusMoving :: string where "DriveStatusMoving = ''Moving''"

definition drive_statuses :: "string list" where
  "drive_statuses = [DriveStatusReady, DriveStatusLost, DriveStatusError, DriveStatusRemoved,
     DriveStatusMoving]"

definition ToDriveStatus :: "string \<Rightarrow> go_error + string" where
  "ToDriveStatus value =
     (let status = title value in
      if status \<in> set drive_statuses then Inr status
      else Inl (new_error (''unknown drive status '' @ value)))"

definition VolumeStatusPending :: string where "VolumeStatusPending = ''Pending''"
definition VolumeStatusReady :: string where "VolumeStatusReady = ''Ready''"

definition ToVolumeStatus :: "string \<Rightarrow> go_error + string" where
  "ToVolumeStatus value =
     (let status = title value in
      if status \<in> {VolumeStatusReady, VolumeStatusPending} then Inr status
      else Inl (new_error (''unknown volume status '' @ value)))"

definition AccessTierDefault :: string where "AccessTierDefault = ''Default''"
definition AccessTierWarm :: string where "AccessTierWarm = ''Warm''"
definition AccessTierHot :: string where "AccessTierHot = ''Hot''"
definition AccessTierCold :: string where "AccessTierCold = ''Cold''"

definition access_tiers :: "string list" where
  "access_tiers = [AccessTierDefault, AccessTierWarm, AccessTierHot, AccessTierCold]"

fun access_tiers_from :: "string list \<Rightarrow> string list \<Rightarrow> go_error + string list" where
  "access_tiers_from [] accessTiers = Inr accessTiers"
| "access_tiers_from (value # values) accessTiers =
     (let at = title value in
      if at \<in> set access_tiers then access_tiers_from values (accessTiers @ [at])
      else Inl (new_error (''unknown access tier value '' @ value)))"

definition StringsToAccessTiers :: "string list \<Rightarrow> go_error + string list" where
  "StringsToAccessTiers values = access_tiers_from values []"

definition AccessTiersToStrings :: "string list \<Rightarrow> string list" where
  "AccessTiersToStrings accessTiers = map (\<lambda>accessTier. accessTier) accessTiers"

section \<open>Conditions\<close>

definition ConditionTrue :: string where "ConditionTrue = ''True''"

definition VolumeConditionTypeLost :: string where "VolumeConditionTypeLost = ''Lost''"
definition VolumeConditionReasonDriveLost :: string where
  "VolumeConditionReasonDriveLost = ''DriveLost''"
definition VolumeConditionMessageDriveLost :: string where
  "VolumeConditionMessageDriveLost = ''Associated drive was removed. Refer https://github.com/minio/directpv/blob/master/docs/troubleshooting.md''"

definition DriveConditionTypeMountError :: string where
  "DriveConditionTypeMountError = ''MountError''"
definition DriveConditionTypeMultipleMatches :: string where
  "DriveConditionTypeMultipleMatches = ''MultipleMatches''"
definition DriveConditionTypeIOError :: string where
  "DriveConditionTypeIOError = ''IOError''"
definition DriveConditionTypeRelabelError :: string where
  "DriveConditionTypeRelabelError = ''RelabelError''"

definition DriveConditionReasonMountError :: string where
  "DriveConditionReasonMountError = ''DriveHasMountError''"
definition DriveConditionReasonMultipleMatches :: string where
  "DriveConditionReasonMultipleMatches = ''DriveHasMultipleMatches''"
definition DriveConditionReasonIOError :: string where
  "DriveConditionReasonIOError = ''DriveHasIOError''"
definition DriveConditionReasonRelabelError :: string where
  "DriveConditionReasonRelabelError = ''DriveHasRelabelError''"
definition DriveConditionMessageIOError :: string where
  "DriveConditionMessageIOError = ''Drive has I/O error''"

definition InitStatusPending :: string where "InitStatusPending = ''Pending''"

text \<open>
  \<open>upsert_condition c\<close> is the loop of \<open>setErrorCondition\<close> and \<open>SetDriveLost\<close>: the first
  condition of the same type is replaced, else the condition is appended.
\<close>

fun upsert_condition :: "condition \<Rightarrow> condition list \<Rightarrow> condition list" where
  "upsert_condition c [] = [c]"
| "upsert_condition c (d # ds) =
     (if cond_Type d = cond_Type c then c # ds else d # upsert_condition c ds)"

definition one_per_type :: "condition list \<Rightarrow> bool" where
  "one_per_type cs \<longleftrightarrow> distinct (map cond_Type cs)"

lemma upsert_types:
  "cond_Type ` set (upsert_condition c cs) = insert (cond_Type c) (cond_Type ` set cs)"
  by (induction cs) auto

lemma upsert_one_per_type: "one_per_type cs \<Longrightarrow> one_per_type (upsert_condition c cs)"
  unfolding one_per_type_def
proof (induction cs)
  case (Cons d cs)
  have "cond_Type d \<notin> cond_Type ` set (upsert_condition c cs)" if "cond_Type d \<noteq> cond_Type c"
    using that Cons.prems by (simp add: upsert_types)
  with Cons show ?case by auto
qed simp

lemma upsert_member: "c \<in> set (upsert_condition c cs)"
  by (induction cs) auto

lemma upsert_set:
  "one_per_type cs \<Longrightarrow>
     set (upsert_condition c cs) = insert c {d \<in> set cs. cond_Type d \<noteq> cond_Type c}"
  unfolding one_per_type_def by (induction cs) (auto simp: image_iff)

lemma upsert_again:
  "cond_Type c = cond_Type d \<Longrightarrow> upsert_condition d (upsert_condition c cs) = upsert_condition d cs"
  by (induction cs) auto

section \<open>Strings\<close>

definition uuid_shape :: "bool list" where
  "uuid_shape =
     replicate 8 True @ [False] @ replicate 4 True @ [False] @ replicate 4 True @ [False] @
     replicate 4 True @ [False] @ replicate 12 True"

definition hex_lower :: "char \<Rightarrow> bool" where
  "hex_lower c \<longleftrightarrow>
     (code CHR ''0'' \<le> code c \<and> code c \<le> code CHR ''9'') \<or>
     (code CHR ''a'' \<le> code c \<and> code c \<le> code CHR ''f'')"

definition IsUUID :: "string \<Rightarrow> bool" where
  "IsUUID v = list_all2 (\<lambda>digit c. if digit then hex_lower c else c = CHR ''-'') uuid_shape v"

fun Contains :: "'a list \<Rightarrow> 'a \<Rightarrow> bool" where
  "Contains [] v = False"
| "Contains (s # ss) v = (if v = s then True else Contains ss v)"

lemma Contains_iff [simp]: "Contains xs v \<longleftrightarrow> v \<in> set xs"
  by (induction xs) auto

definition TrimDevPrefix :: "string \<Rightarrow> string" where
  "TrimDevPrefix name = trim_prefix name ''/dev/''"

definition AddDevPrefix :: "string \<Rightarrow> string" where
  "AddDevPrefix name = (if prefix ''/dev/'' name then name else ''/dev/'' @ name)"

lemma trim_add_dev: "\<not> prefix ''/dev/'' name \<Longrightarrow> TrimDevPrefix (AddDevPrefix name) = name"
  unfolding TrimDevPrefix_def AddDevPrefix_def by (simp only: trim_prefix_append if_False)

lemma add_trim_dev: "prefix ''/dev/'' name \<Longrightarrow>
  \<not> prefix ''/dev/'' (TrimDevPrefix name) \<Longrightarrow> AddDevPrefix (TrimDevPrefix name) = name"
  by (auto simp: TrimDevPrefix_def AddDevPrefix_def trim_prefix_def prefix_def)

lemma add_dev_idempotent: "AddDevPrefix (AddDevPrefix name) = AddDevPrefix name"
  unfolding AddDevPrefix_def by (auto simp: prefix_def)

section \<open>StringSet\<close>

text \<open>A \<open>StringSet\<close> is a map to the empty struct: its finite set of keys; \<open>None\<close> is nil.\<close>

type_synonym StringSet = "string fset option"

definition set_keys :: "StringSet \<Rightarrow> string fset" where
  "set_keys s = (case s of None \<Rightarrow> {||} | Some ks \<Rightarrow> ks)"

definition StringSet_Set :: "StringSet \<Rightarrow> string \<Rightarrow> StringSet option" where
  "StringSet_Set s v = (case s of None \<Rightarrow> None | Some ks \<Rightarrow> Some (Some (finsert v ks)))"

definition StringSet_Exist :: "StringSet \<Rightarrow> string \<Rightarrow> bool" where
  "StringSet_Exist s v \<longleftrightarrow> v |\<in>| set_keys s"

definition StringSet_Equal :: "StringSet \<Rightarrow> StringSet \<Rightarrow> bool" where
  "StringSet_Equal s s2 =
     (if fcard (set_keys s) \<noteq> fcard (set_keys s2) then False
      else fBall (set_keys s) (\<lambda>v. v |\<in>| set_keys s2))"

text \<open>\<open>ToSlice\<close> ranges over the map: the order of the visit is its argument.\<close>

definition StringSet_ToSlice :: "string list \<Rightarrow> string list" where
  "StringSet_ToSlice order = fold (\<lambda>v values. values @ [v]) order []"

lemma to_slice: "fset_of_list order = set_keys s \<Longrightarrow> distinct order \<Longrightarrow>
  distinct (StringSet_ToSlice order) \<and> (v \<in> set (StringSet_ToSlice order) \<longleftrightarrow> StringSet_Exist s v)"
proof -
  assume order: "fset_of_list order = set_keys s" "distinct order"
  have "fold (\<lambda>v values. values @ [v]) order acc = acc @ order" for acc
    by (induction order arbitrary: acc) simp_all
  with order show ?thesis
    by (simp add: StringSet_ToSlice_def StringSet_Exist_def fset_of_list_elem flip: order(1))
qed

lemma exist_set: "StringSet_Set s v = Some s1 \<Longrightarrow> StringSet_Exist s1 w \<longleftrightarrow> w = v \<or> StringSet_Exist s w"
  by (auto simp: StringSet_Set_def StringSet_Exist_def set_keys_def split: option.splits)

lemma equal_iff: "StringSet_Equal s s2 \<longleftrightarrow> set_keys s = set_keys s2"
proof
  assume "StringSet_Equal s s2"
  then have "fcard (set_keys s2) \<le> fcard (set_keys s)" "set_keys s |\<subseteq>| set_keys s2"
    by (auto simp: StringSet_Equal_def split: if_splits)
  then show "set_keys s = set_keys s2" by (simp add: fcard_seteq)
qed (simp add: StringSet_Equal_def)

section \<open>Statuses: which texts are read\<close>

text \<open>A status is read from its own spelling and from the one with a small first letter.\<close>

definition small :: "string \<Rightarrow> string" where
  "small w = (case w of [] \<Rightarrow> [] | c # cs \<Rightarrow> char_of (code c + 32) # cs)"

lemma title_reads_word:
  assumes "list_all alphanum (c # w)" and "code c < 97" and "57 < code c"
  shows "title v = c # w \<longleftrightarrow> v = c # w \<or> v = small (c # w)"
proof
  have sep: "list_all (\<lambda>x. \<not> is_separator x) (c # w)"
    using assms(1) by (auto simp: list_all_iff is_separator_def)
  have "alphanum c" using assms(1) by simp
  then have upper: "65 \<le> code c" "code c \<le> 90" using assms(2,3) by (auto simp: alphanum_def)
  {
    assume "title v = c # w"
    then obtain b where b: "v = b # w" "to_upper b = c" using sep by (rule title_eq_word)
    from to_upper_cases [OF b(2)] show "v = c # w \<or> v = small (c # w)"
    proof
      assume "lower_case b \<and> code b = code c + 32"
      then have "b = char_of (code c + 32)" by (metis char_of_code)
      with b show ?thesis by (simp add: small_def)
    qed (use b in simp)
  next
    assume v: "v = c # w \<or> v = small (c # w)"
    let ?b = "char_of (code c + 32) :: char"
    have code_b: "code ?b = code c + 32" using upper by simp
    then have "alphanum ?b" using upper by (simp add: alphanum_def)
    then have sep_b: "list_all (\<lambda>x. \<not> is_separator x) (?b # w)"
      using sep by (simp add: is_separator_def)
    have "to_upper c = c" using upper by (simp add: to_upper_def lower_case_def)
    moreover have "to_upper ?b = c"
      using upper code_b by (simp add: to_upper_def lower_case_def)
    ultimately show "title v = c # w"
      using v title_word [OF sep] title_word [OF sep_b] by (auto simp: small_def)
  }
qed

lemmas status_defs = DriveStatusReady_def DriveStatusLost_def DriveStatusError_def
  DriveStatusRemoved_def DriveStatusMoving_def VolumeStatusPending_def VolumeStatusReady_def
  AccessTierDefault_def AccessTierWarm_def AccessTierHot_def AccessTierCold_def

lemma title_reads_status:
  "s \<in> set (drive_statuses @ access_tiers @ [VolumeStatusPending, VolumeStatusReady]) \<Longrightarrow>
     title v = s \<longleftrightarrow> v = s \<or> v = small s"
  by (auto simp: drive_statuses_def access_tiers_def status_defs)
     (auto simp: title_reads_word alphanum_def code_def)

lemma ToDriveStatus_iff:
  "ToDriveStatus v = Inr s \<longleftrightarrow> s \<in> set drive_statuses \<and> (v = s \<or> v = small s)"
  using title_reads_status [of s v] by (auto simp: ToDriveStatus_def Let_def)

lemma access_tiers_from_Inr:
  "access_tiers_from vs acc = Inr ts \<longleftrightarrow>
     ts = acc @ map title vs \<and> list_all (\<lambda>v. title v \<in> set access_tiers) vs"
  by (induction vs arbitrary: acc) (auto simp: Let_def)

lemma access_tiers_round_trip:
  "list_all (\<lambda>t. t \<in> set access_tiers) ts \<Longrightarrow> StringsToAccessTiers (AccessTiersToStrings ts) = Inr ts"
proof -
  assume t: "list_all (\<lambda>t. t \<in> set access_tiers) ts"
  then have "\<forall>v \<in> set ts. title v = v" using title_reads_status by (auto simp: list_all_iff)
  with t show ?thesis
    by (simp add: StringsToAccessTiers_def AccessTiersToStrings_def access_tiers_from_Inr
        list_all_iff map_idI)
qed

end
