(* ===== verification/Drive.thy ===== *)
theory Drive
  imports DirectPVTypes
begin

text \<open>
  DirectPV drives: \<open>pkg/minio/directpv/apis/directpv.min.io/v1beta1/drive.go\<close>. A method with a
  pointer receiver takes the drive and returns it updated, after its result where it has
  one; a method with a value receiver works on a copy and returns its result alone. The
  clock is an argument (\<open>now\<close>).

  The finalizers of a drive are its own protection and one entry per volume. The second
  half shows that the finalizer operations implement a list of volumes without
  duplicates, that labels obey the contract \<open>labelled\<close>, and that the condition list keeps
  one condition per type.
\<close>

section \<open>Data\<close>

definition driveFinalizerDataProtection :: string where
  "driveFinalizerDataProtection = Group @ ''/data-protection''"

definition driveFinalizerVolumePrefix :: string where
  "driveFinalizerVolumePrefix = Group @ ''.volume/''"

record DriveSpec =
  dsp_Unschedulable :: bool
  dsp_Relabel :: bool

record DriveStatus =
  dst_TotalCapacity :: int64
  dst_AllocatedCapacity :: int64
  dst_FreeCapacity :: int64
  dst_FSUUID :: string
  dst_Status :: string
  dst_Topology :: "(string, string) gomap"
  dst_Make :: string
  dst_Conditions :: "condition list"

record DirectPVDrive =
  drive_APIVersion :: string
  drive_Kind :: string
  drive_Meta :: object_meta
  drive_Spec :: DriveSpec
  drive_Status :: DriveStatus

definition NewDirectPVDrive ::
  "string \<Rightarrow> DriveStatus \<Rightarrow> string \<Rightarrow> string \<Rightarrow> string \<Rightarrow> DirectPVDrive" where
  "NewDirectPVDrive driveID status nodeID driveName accessTier =
     \<lparr>drive_APIVersion = Group @ ''/'' @ Version, drive_Kind = DriveKind,
      drive_Meta = empty_meta
        \<lparr>om_Name := driveID,
         om_Finalizers := [driveFinalizerDataProtection],
         om_Labels := Some
           [NodeLabelKey \<mapsto> nodeID, DriveNameLabelKey \<mapsto> driveName,
            AccessTierLabelKey \<mapsto> accessTier, VersionLabelKey \<mapsto> Version,
            CreatedByLabelKey \<mapsto> DriverName]\<rparr>,
      drive_Spec = \<lparr>dsp_Unschedulable = False, dsp_Relabel = False\<rparr>,
      drive_Status = status\<rparr>"

definition drive_labels :: "DirectPVDrive \<Rightarrow> (string, string) gomap" where
  "drive_labels d = om_Labels (drive_Meta d)"

definition with_drive_labels :: "(string, string) gomap \<Rightarrow> DirectPVDrive \<Rightarrow> DirectPVDrive" where
  "with_drive_labels m d = d\<lparr>drive_Meta := (drive_Meta d)\<lparr>om_Labels := m\<rparr>\<rparr>"

definition drive_finalizers :: "DirectPVDrive \<Rightarrow> string list" where
  "drive_finalizers d = om_Finalizers (drive_Meta d)"

definition with_drive_finalizers :: "string list \<Rightarrow> DirectPVDrive \<Rightarrow> DirectPVDrive" where
  "with_drive_finalizers fs d = d\<lparr>drive_Meta := (drive_Meta d)\<lparr>om_Finalizers := fs\<rparr>\<rparr>"

section \<open>Scheduling and identity\<close>

definition Drive_Unschedulable :: "DirectPVDrive \<Rightarrow> DirectPVDrive" where
  "Drive_Unschedulable d = d\<lparr>drive_Spec := (drive_Spec d)\<lparr>dsp_Unschedulable := True\<rparr>\<rparr>"

definition Drive_Schedulable :: "DirectPVDrive \<Rightarrow> DirectPVDrive" where
  "Drive_Schedulable d = d\<lparr>drive_Spec := (drive_Spec d)\<lparr>dsp_Unschedulable := False\<rparr>\<rparr>"

definition Drive_IsUnschedulable :: "DirectPVDrive \<Rightarrow> bool" where
  "Drive_IsUnschedulable d = dsp_Unschedulable (drive_Spec d)"

definition Drive_GetDriveID :: "DirectPVDrive \<Rightarrow> string" where
  "Drive_GetDriveID d = om_Name (drive_Meta d)"

section \<open>Volumes and finalizers\<close>

definition GetVolumeCount :: "DirectPVDrive \<Rightarrow> int64" where
  "GetVolumeCount d = len (drive_finalizers d) - 1"

definition VolumeExist :: "DirectPVDrive \<Rightarrow> string \<Rightarrow> bool" where
  "VolumeExist d volume = Contains (drive_finalizers d) (driveFinalizerVolumePrefix @ volume)"

fun volume_names :: "string list \<Rightarrow> string list \<Rightarrow> string list" where
  "volume_names [] names = names"
| "volume_names (finalizer # fs) names =
     (if prefix driveFinalizerVolumePrefix finalizer
      then volume_names fs (names @ [trim_prefix finalizer driveFinalizerVolumePrefix])
      else volume_names fs names)"

definition GetVolumes :: "DirectPVDrive \<Rightarrow> string list" where
  "GetVolumes d = volume_names (drive_finalizers d) []"

definition ResetFinalizers :: "DirectPVDrive \<Rightarrow> DirectPVDrive" where
  "ResetFinalizers d = with_drive_finalizers [driveFinalizerDataProtection] d"

definition RemoveFinalizers :: "DirectPVDrive \<Rightarrow> bool \<times> DirectPVDrive" where
  "RemoveFinalizers d =
     (if length (drive_finalizers d) = 1 \<and> drive_finalizers d ! 0 = driveFinalizerDataProtection
      then (True, with_drive_finalizers [] d)
      else (False, d))"

definition AddVolumeFinalizer :: "string \<Rightarrow> DirectPVDrive \<Rightarrow> bool \<times> DirectPVDrive" where
  "AddVolumeFinalizer volume d =
     (let value = driveFinalizerVolumePrefix @ volume in
      if list_ex (\<lambda>finalizer. finalizer = value) (drive_finalizers d) then (False, d)
      else (True, with_drive_finalizers (drive_finalizers d @ [value]) d))"

fun drop_finalizer :: "string \<Rightarrow> string list \<Rightarrow> bool \<Rightarrow> string list \<Rightarrow> bool \<times> string list" where
  "drop_finalizer value [] found finalizers = (found, finalizers)"
| "drop_finalizer value (finalizer # fs) found finalizers =
     (if finalizer = value then drop_finalizer value fs True finalizers
      else drop_finalizer value fs found (finalizers @ [finalizer]))"

definition RemoveVolumeFinalizer :: "string \<Rightarrow> DirectPVDrive \<Rightarrow> bool \<times> DirectPVDrive" where
  "RemoveVolumeFinalizer volume d =
     (let value = driveFinalizerVolumePrefix @ volume;
          (found, finalizers) = drop_finalizer value (drive_finalizers d) False []
      in (found, if found then with_drive_finalizers finalizers d else d))"

section \<open>Labels\<close>

definition Drive_GetLabels :: "DirectPVDrive \<Rightarrow> (string \<rightharpoonup> string) \<times> DirectPVDrive" where
  "Drive_GetLabels d =
     (case drive_labels d of
        None \<Rightarrow> (Map.empty, with_drive_labels (Some Map.empty) d)
      | Some values \<Rightarrow> (values, d))"

definition Drive_getLabel :: "(string \<Rightarrow> string list) \<Rightarrow> string \<Rightarrow> DirectPVDrive \<Rightarrow> string" where
  "Drive_getLabel errs key d = ToLabelValue errs (label_or_empty (fst (Drive_GetLabels d) key))"

definition Drive_SetLabel :: "string \<Rightarrow> string \<Rightarrow> DirectPVDrive \<Rightarrow> bool \<times> DirectPVDrive" where
  "Drive_SetLabel key value d =
     (let (values, d1) = Drive_GetLabels d in
      if values key = Some value then (False, d1)
      else (True, with_drive_labels (Some (values(key \<mapsto> value))) d1))"

definition Drive_RemoveLabel :: "string \<Rightarrow> DirectPVDrive \<Rightarrow> bool \<times> DirectPVDrive" where
  "Drive_RemoveLabel key d =
     (let (labels, d1) = Drive_GetLabels d in
      (labels key \<noteq> None, with_drive_labels (Some (labels(key := None))) d1))"

definition Drive_SetDriveName ::
  "(string \<Rightarrow> string list) \<Rightarrow> string \<Rightarrow> DirectPVDrive \<Rightarrow> DirectPVDrive" where
  "Drive_SetDriveName errs name d = snd (Drive_SetLabel DriveNameLabelKey (ToLabelValue errs name) d)"

definition Drive_GetDriveName :: "(string \<Rightarrow> string list) \<Rightarrow> DirectPVDrive \<Rightarrow> string" where
  "Drive_GetDriveName errs d = Drive_getLabel errs DriveNameLabelKey d"

definition Drive_SetNodeID ::
  "(string \<Rightarrow> string list) \<Rightarrow> string \<Rightarrow> DirectPVDrive \<Rightarrow> DirectPVDrive" where
  "Drive_SetNodeID errs name d = snd (Drive_SetLabel NodeLabelKey (ToLabelValue errs name) d)"

definition Drive_GetNodeID :: "(string \<Rightarrow> string list) \<Rightarrow> DirectPVDrive \<Rightarrow> string" where
  "Drive_GetNodeID errs d = Drive_getLabel errs NodeLabelKey d"

definition HasVolumeClaimID :: "string \<Rightarrow> DirectPVDrive \<Rightarrow> bool \<times> DirectPVDrive" where
  "HasVolumeClaimID claimID d =
     (if claimID = [] then (False, d)
      else (let (labels, d1) = Drive_GetLabels d in
            (label_or_empty (labels (VolumeClaimIDLabelKeyPrefix @ claimID)) = format_bool True, d1)))"

definition SetVolumeClaimID :: "string \<Rightarrow> DirectPVDrive \<Rightarrow> DirectPVDrive" where
  "SetVolumeClaimID claimID d =
     (if claimID = [] then d
      else snd (Drive_SetLabel (VolumeClaimIDLabelKeyPrefix @ claimID) (format_bool True) d))"

definition RemoveVolumeClaimID :: "string \<Rightarrow> DirectPVDrive \<Rightarrow> DirectPVDrive" where
  "RemoveVolumeClaimID claimID d =
     (if claimID = [] then d
      else snd (Drive_RemoveLabel (VolumeClaimIDLabelKeyPrefix @ claimID) d))"

definition Drive_GetAccessTier :: "(string \<Rightarrow> string list) \<Rightarrow> DirectPVDrive \<Rightarrow> string" where
  "Drive_GetAccessTier errs d = Drive_getLabel errs AccessTierLabelKey d"

definition Drive_SetMigratedLabel :: "DirectPVDrive \<Rightarrow> DirectPVDrive" where
  "Drive_SetMigratedLabel d = snd (Drive_SetLabel MigratedLabelKey ''true'' d)"

definition Drive_IsMigrated :: "(string \<Rightarrow> string list) \<Rightarrow> DirectPVDrive \<Rightarrow> bool" where
  "Drive_IsMigrated errs d \<longleftrightarrow> Drive_getLabel errs MigratedLabelKey d = ''true''"

definition Drive_IsSuspended :: "(string \<Rightarrow> string list) \<Rightarrow> DirectPVDrive \<Rightarrow> bool" where
  "Drive_IsSuspended errs d \<longleftrightarrow> Drive_getLabel errs SuspendLabelKey d = format_bool True"

definition Drive_Suspend :: "(string \<Rightarrow> string list) \<Rightarrow> DirectPVDrive \<Rightarrow> bool \<times> DirectPVDrive" where
  "Drive_Suspend errs d = Drive_SetLabel SuspendLabelKey (ToLabelValue errs (format_bool True)) d"

definition Drive_Resume :: "DirectPVDrive \<Rightarrow> bool \<times> DirectPVDrive" where
  "Drive_Resume d = Drive_RemoveLabel SuspendLabelKey d"

section \<open>Error conditions\<close>

definition setErrorCondition ::
  "int \<Rightarrow> string \<Rightarrow> string \<Rightarrow> string \<Rightarrow> DirectPVDrive \<Rightarrow> DirectPVDrive" where
  "setErrorCondition now errType reason message d =
     (let c = \<lparr>cond_Type = errType, cond_Status = ConditionTrue, cond_Reason = reason,
               cond_Message = message, cond_LastTransitionTime = now\<rparr> in
      d\<lparr>drive_Status := (drive_Status d)
          \<lparr>dst_Conditions := upsert_condition c (dst_Conditions (drive_Status d))\<rparr>\<rparr>)"

definition SetMountErrorCondition :: "int \<Rightarrow> string \<Rightarrow> DirectPVDrive \<Rightarrow> DirectPVDrive" where
  "SetMountErrorCondition now message =
     setErrorCondition now DriveConditionTypeMountError DriveConditionReasonMountError message"

definition SetMultipleMatchesErrorCondition :: "int \<Rightarrow> string \<Rightarrow> DirectPVDrive \<Rightarrow> DirectPVDrive" where
  "SetMultipleMatchesErrorCondition now message =
     setErrorCondition now DriveConditionTypeMultipleMatches DriveConditionReasonMultipleMatches message"

definition SetIOErrorCondition :: "int \<Rightarrow> DirectPVDrive \<Rightarrow> DirectPVDrive" where
  "SetIOErrorCondition now =
     setErrorCondition now DriveConditionTypeIOError DriveConditionReasonIOError
       DriveConditionMessageIOError"

definition SetRelabelErrorCondition :: "int \<Rightarrow> string \<Rightarrow> DirectPVDrive \<Rightarrow> DirectPVDrive" where
  "SetRelabelErrorCondition now message =
     setErrorCondition now DriveConditionTypeRelabelError DriveConditionReasonRelabelError message"

definition drive_error_types :: "string list" where
  "drive_error_types =
     [DriveConditionTypeMountError, DriveConditionTypeMultipleMatches, DriveConditionTypeIOError,
      DriveConditionTypeRelabelError]"

fun latest_condition :: "condition option \<Rightarrow> condition list \<Rightarrow> condition option" where
  "latest_condition latest [] = latest"
| "latest_condition latest (c # cs) =
     (if cond_Type c \<in> set drive_error_types
      then (case latest of
              None \<Rightarrow> latest_condition (Some c) cs
            | Some l \<Rightarrow>
                if cond_LastTransitionTime l < cond_LastTransitionTime c
                then latest_condition (Some c) cs else latest_condition latest cs)
      else latest_condition latest cs)"

definition GetLatestErrorConditionType :: "DirectPVDrive \<Rightarrow> string" where
  "GetLatestErrorConditionType d =
     (case latest_condition None (dst_Conditions (drive_Status d)) of
        None \<Rightarrow> [] | Some c \<Rightarrow> cond_Type c)"

section \<open>Labels of drives obey the contract\<close>

lemma drive_labels_with [simp]: "drive_labels (with_drive_labels m d) = m"
  by (simp add: drive_labels_def with_drive_labels_def)

lemma Drive_GetLabels_values: "fst (Drive_GetLabels d) = mrange (drive_labels d)"
  by (simp add: Drive_GetLabels_def mrange_def split: option.splits)

lemma Drive_GetLabels_labels: "drive_labels (snd (Drive_GetLabels d)) = Some (mrange (drive_labels d))"
  by (simp add: Drive_GetLabels_def split: option.splits)

lemma Drive_SetLabel_parts:
  "fst (Drive_SetLabel k v d) \<longleftrightarrow> mget (drive_labels d) k \<noteq> Some v"
  "drive_labels (snd (Drive_SetLabel k v d)) = Some ((mrange (drive_labels d))(k \<mapsto> v))"
  using Drive_GetLabels_values [of d] Drive_GetLabels_labels [of d]
  by (auto simp: Drive_SetLabel_def split_def Let_def mrange_mget fun_upd_idem_iff)

lemma Drive_RemoveLabel_parts:
  "fst (Drive_RemoveLabel k d) \<longleftrightarrow> mget (drive_labels d) k \<noteq> None"
  "drive_labels (snd (Drive_RemoveLabel k d)) = Some ((mrange (drive_labels d))(k := None))"
  using Drive_GetLabels_values [of d]
  by (auto simp: Drive_RemoveLabel_def split_def mrange_mget)

interpretation dl: suspendable drive_labels Drive_SetLabel Drive_RemoveLabel Drive_getLabel
  Drive_Suspend Drive_Resume Drive_IsSuspended
  by unfold_locales
    (simp_all add: Drive_SetLabel_parts Drive_RemoveLabel_parts Drive_getLabel_def
      Drive_GetLabels_values mrange_mget Drive_Suspend_def Drive_Resume_def Drive_IsSuspended_def)

section \<open>Finalizers as a list of volumes\<close>

definition volume_finalizers :: "string list \<Rightarrow> string list" where
  "volume_finalizers vs = driveFinalizerDataProtection # map ((@) driveFinalizerVolumePrefix) vs"

definition holds :: "DirectPVDrive \<Rightarrow> string list \<Rightarrow> bool" where
  "holds d vs \<longleftrightarrow> drive_finalizers d = volume_finalizers vs \<and> distinct vs"

lemma drive_finalizers_with [simp]: "drive_finalizers (with_drive_finalizers fs d) = fs"
  by (simp add: drive_finalizers_def with_drive_finalizers_def)

lemma protection_not_volume: "\<not> prefix driveFinalizerVolumePrefix driveFinalizerDataProtection"
  by (simp add: driveFinalizerVolumePrefix_def driveFinalizerDataProtection_def label_keys)

lemma protection_neq [simp]:
  "driveFinalizerDataProtection \<noteq> driveFinalizerVolumePrefix @ v"
  "driveFinalizerVolumePrefix @ v \<noteq> driveFinalizerDataProtection"
  using protection_not_volume by (metis prefixI)+

lemma volume_names_acc: "volume_names fs acc = acc @ volume_names fs []"
proof (induction fs arbitrary: acc)
  case (Cons f fs)
  show ?case
    using Cons [of "acc @ [trim_prefix f driveFinalizerVolumePrefix]"] Cons [of acc]
      Cons [of "[trim_prefix f driveFinalizerVolumePrefix]"] by simp
qed simp

lemma volume_names_volumes: "volume_names (map ((@) driveFinalizerVolumePrefix) vs) [] = vs"
proof (induction vs)
  case (Cons v vs)
  then show ?case
    using volume_names_acc [of "map ((@) driveFinalizerVolumePrefix) vs" "[v]"] by simp
qed simp

lemma drop_finalizer_eq:
  "drop_finalizer v fs found acc = (found \<or> v \<in> set fs, acc @ filter (\<lambda>f. f \<noteq> v) fs)"
  by (induction fs arbitrary: found acc) auto

lemma holds_new: "holds (NewDirectPVDrive i st n dn tier) []"
  by (simp add: holds_def volume_finalizers_def NewDirectPVDrive_def drive_finalizers_def)

lemma holds_GetVolumes: "holds d vs \<Longrightarrow> GetVolumes d = vs"
  by (simp add: holds_def GetVolumes_def volume_finalizers_def protection_not_volume
      volume_names_volumes)

lemma holds_VolumeExist: "holds d vs \<Longrightarrow> VolumeExist d v \<longleftrightarrow> v \<in> set vs"
  by (auto simp: holds_def VolumeExist_def volume_finalizers_def)

lemma holds_GetVolumeCount: "holds d vs \<Longrightarrow> GetVolumeCount d = len vs"
  by (simp add: holds_def GetVolumeCount_def volume_finalizers_def len_def)

lemma AddVolumeFinalizer_holds:
  "holds d vs \<Longrightarrow> fst (AddVolumeFinalizer v d) \<longleftrightarrow> v \<notin> set vs"
  "holds d vs \<Longrightarrow> holds (snd (AddVolumeFinalizer v d)) (if v \<in> set vs then vs else vs @ [v])"
  by (auto simp: holds_def AddVolumeFinalizer_def volume_finalizers_def Let_def list_ex_iff)

lemma drop_volume: "filter (\<lambda>f. f \<noteq> driveFinalizerVolumePrefix @ v) (volume_finalizers vs) =
    volume_finalizers (filter (\<lambda>w. w \<noteq> v) vs)"
  by (simp add: volume_finalizers_def filter_map comp_def)

lemma volume_finalizer_iff: "driveFinalizerVolumePrefix @ v \<in> set (volume_finalizers vs) \<longleftrightarrow> v \<in> set vs"
  by (auto simp: volume_finalizers_def)

lemma RemoveVolumeFinalizer_holds:
  assumes "holds d vs"
  shows "fst (RemoveVolumeFinalizer v d) \<longleftrightarrow> v \<in> set vs"
    and "holds (snd (RemoveVolumeFinalizer v d)) (filter (\<lambda>w. w \<noteq> v) vs)"
proof -
  have f: "drive_finalizers d = volume_finalizers vs" and d: "distinct vs"
    using assms by (simp_all add: holds_def)
  show "fst (RemoveVolumeFinalizer v d) \<longleftrightarrow> v \<in> set vs"
    by (simp add: RemoveVolumeFinalizer_def Let_def drop_finalizer_eq f volume_finalizer_iff)
  have "v \<notin> set vs \<Longrightarrow> filter (\<lambda>w. w \<noteq> v) vs = vs" by (auto simp: filter_id_conv)
  with f d show "holds (snd (RemoveVolumeFinalizer v d)) (filter (\<lambda>w. w \<noteq> v) vs)"
    by (simp add: RemoveVolumeFinalizer_def Let_def drop_finalizer_eq f volume_finalizer_iff holds_def
        drop_volume)
qed

lemma ResetFinalizers_holds: "holds (ResetFinalizers d) []"
  by (simp add: holds_def ResetFinalizers_def volume_finalizers_def)

lemma RemoveFinalizers_holds:
  "holds d vs \<Longrightarrow>
     RemoveFinalizers d = (if vs = [] then (True, with_drive_finalizers [] d) else (False, d))"
  by (cases vs) (simp_all add: holds_def RemoveFinalizers_def volume_finalizers_def)

text \<open>The volumes placed on and taken off a drive, and the list of volumes they stand for.\<close>

datatype volume_op = Place string | Take string | Reset

fun do_volume_op :: "DirectPVDrive \<Rightarrow> volume_op \<Rightarrow> DirectPVDrive" where
  "do_volume_op d (Place v) = snd (AddVolumeFinalizer v d)"
| "do_volume_op d (Take v) = snd (RemoveVolumeFinalizer v d)"
| "do_volume_op d Reset = ResetFinalizers d"

fun spec_volume_op :: "string list \<Rightarrow> volume_op \<Rightarrow> string list" where
  "spec_volume_op vs (Place v) = (if v \<in> set vs then vs else vs @ [v])"
| "spec_volume_op vs (Take v) = filter (\<lambda>w. w \<noteq> v) vs"
| "spec_volume_op vs Reset = []"

lemma do_volume_op_holds: "holds d vs \<Longrightarrow> holds (do_volume_op d x) (spec_volume_op vs x)"
  by (cases x) (simp_all only: do_volume_op.simps spec_volume_op.simps AddVolumeFinalizer_holds
      RemoveVolumeFinalizer_holds ResetFinalizers_holds)

lemma volume_ops_hold: "holds d vs \<Longrightarrow> holds (foldl do_volume_op d ops) (foldl spec_volume_op vs ops)"
  by (induction ops arbitrary: d vs) (simp_all add: do_volume_op_holds)

section \<open>The latest error\<close>

datatype drive_error = Mount string | Matches string | InputOutput | Relabeling string

fun report :: "DirectPVDrive \<Rightarrow> int \<times> drive_error \<Rightarrow> DirectPVDrive" where
  "report d (now, Mount m) = SetMountErrorCondition now m d"
| "report d (now, Matches m) = SetMultipleMatchesErrorCondition now m d"
| "report d (now, InputOutput) = SetIOErrorCondition now d"
| "report d (now, Relabeling m) = SetRelabelErrorCondition now m d"

fun error_type :: "drive_error \<Rightarrow> string" where
  "error_type (Mount m) = DriveConditionTypeMountError"
| "error_type (Matches m) = DriveConditionTypeMultipleMatches"
| "error_type InputOutput = DriveConditionTypeIOError"
| "error_type (Relabeling m) = DriveConditionTypeRelabelError"

abbreviation drive_conditions :: "DirectPVDrive \<Rightarrow> condition list" where
  "drive_conditions d \<equiv> dst_Conditions (drive_Status d)"

lemma error_type_known [simp]: "error_type e \<in> set drive_error_types"
  by (cases e) (simp_all add: drive_error_types_def)

fun error_reason :: "drive_error \<Rightarrow> string" where
  "error_reason (Mount m) = DriveConditionReasonMountError"
| "error_reason (Matches m) = DriveConditionReasonMultipleMatches"
| "error_reason InputOutput = DriveConditionReasonIOError"
| "error_reason (Relabeling m) = DriveConditionReasonRelabelError"

fun error_message :: "drive_error \<Rightarrow> string" where
  "error_message (Mount m) = m"
| "error_message (Matches m) = m"
| "error_message InputOutput = DriveConditionMessageIOError"
| "error_message (Relabeling m) = m"

definition reported :: "int \<Rightarrow> drive_error \<Rightarrow> condition" where
  "reported now e = \<lparr>cond_Type = error_type e, cond_Status = ConditionTrue,
     cond_Reason = error_reason e, cond_Message = error_message e, cond_LastTransitionTime = now\<rparr>"

lemma reported_simps [simp]:
  "cond_Type (reported now e) = error_type e" "cond_LastTransitionTime (reported now e) = now"
  by (simp_all add: reported_def)

lemma report_conditions:
  "drive_conditions (report d (now, e)) = upsert_condition (reported now e) (drive_conditions d)"
  by (cases e) (simp_all add: setErrorCondition_def Let_def SetMountErrorCondition_def
      SetMultipleMatchesErrorCondition_def SetIOErrorCondition_def SetRelabelErrorCondition_def
      reported_def)

lemma latest_stays:
  "\<forall>d \<in> set cs. cond_LastTransitionTime d \<le> cond_LastTransitionTime c \<Longrightarrow>
     latest_condition (Some c) cs = Some c"
  by (induction cs) auto

lemma latest_found:
  assumes "c \<in> set cs" and "cond_Type c \<in> set drive_error_types"
    and "\<forall>d \<in> set cs. d \<noteq> c \<longrightarrow> cond_LastTransitionTime d < cond_LastTransitionTime c"
    and "\<forall>l. latest = Some l \<longrightarrow> cond_LastTransitionTime l < cond_LastTransitionTime c"
  shows "latest_condition latest cs = Some c"
  using assms
proof (induction cs arbitrary: latest)
  case (Cons d ds)
  show ?case
  proof (cases "d = c")
    case True
    then have "latest_condition latest (d # ds) = latest_condition (Some c) ds"
      using Cons.prems(2,4) by (auto split: option.splits)
    also have "\<dots> = Some c" using Cons.prems(3) by (intro latest_stays) (auto intro: less_imp_le)
    finally show ?thesis .
  next
    case False
    with Cons show ?thesis by (auto split: option.splits)
  qed
qed simp

text \<open>Everything recorded so far is of a known type, one per type, and not later than \<open>t\<close>.\<close>

definition recorded :: "int \<Rightarrow> DirectPVDrive \<Rightarrow> bool" where
  "recorded t d \<longleftrightarrow> one_per_type (drive_conditions d) \<and>
     (\<forall>c \<in> set (drive_conditions d). cond_Type c \<in> set drive_error_types \<and>
        cond_LastTransitionTime c \<le> t)"

lemma recorded_report: "recorded t d \<Longrightarrow> t \<le> now \<Longrightarrow> recorded now (report d (now, e))"
  unfolding recorded_def report_conditions by (auto simp: upsert_one_per_type upsert_set)

lemma latest_report:
  assumes "recorded t d" and "t < now"
  shows "GetLatestErrorConditionType (report d (now, e)) = error_type e"
proof -
  from assms(1) have one: "one_per_type (drive_conditions d)"
    and old: "\<forall>x \<in> set (drive_conditions d). cond_LastTransitionTime x \<le> t"
    by (auto simp: recorded_def)
  have "latest_condition None (upsert_condition (reported now e) (drive_conditions d)) =
      Some (reported now e)"
    using assms(2) old by (intro latest_found) (auto simp: upsert_set [OF one] upsert_member)
  then show ?thesis by (simp add: GetLatestErrorConditionType_def report_conditions)
qed

lemma recorded_run:
  assumes "recorded t d" and "sorted (t # map fst es)"
  shows "recorded (last (t # map fst es)) (foldl report d es)"
  using assms
proof (induction es arbitrary: t d)
  case (Cons x es)
  obtain now e where x: "x = (now, e)" by fastforce
  from Cons.prems x have "recorded now (report d (now, e))" by (intro recorded_report) auto
  with Cons.IH [of now "report d (now, e)"] Cons.prems x show ?case by auto
qed simp

lemma recorded_count: "recorded t d \<Longrightarrow> length (drive_conditions d) \<le> 4"
proof -
  assume r: "recorded t d"
  then have "set (map cond_Type (drive_conditions d)) \<subseteq> set drive_error_types"
    by (auto simp: recorded_def)
  then have "card (set (map cond_Type (drive_conditions d))) \<le> card (set drive_error_types)"
    by (rule card_mono [rotated]) simp
  also have "\<dots> \<le> length drive_error_types" by (rule card_length)
  finally have "card (set (map cond_Type (drive_conditions d))) \<le> 4"
    by (simp add: drive_error_types_def)
  moreover have "card (set (map cond_Type (drive_conditions d))) = length (drive_conditions d)"
    using r distinct_card [of "map cond_Type (drive_conditions d)"]
    by (simp add: recorded_def one_per_type_def)
  ultimately show ?thesis by simp
qed

section \<open>Properties\<close>

abbreviation drive_after ::
  "string \<Rightarrow> DriveStatus \<Rightarrow> string \<Rightarrow> string \<Rightarrow> string \<Rightarrow> volume_op list \<Rightarrow> DirectPVDrive" where
  "drive_after i st n dn tier ops \<equiv> foldl do_volume_op (NewDirectPVDrive i st n dn tier) ops"

abbreviation volumes_after :: "volume_op list \<Rightarrow> string list" where
  "volumes_after ops \<equiv> foldl spec_volume_op [] ops"

lemma holds_after: "holds (drive_after i st n dn tier ops) (volumes_after ops)"
  by (intro volume_ops_hold holds_new)

text \<open>
  C29: the finalizers of a drive implement a list of volumes without duplicates. After any
  sequence of additions, removals and resets on a new drive, the names, the count and the
  membership test agree with that list, an addition reports whether the volume was new and a
  removal whether it was there.\<close>
theorem drive_volumes_refine:
  "GetVolumes (drive_after i st n dn tier ops) = volumes_after ops \<and>
   distinct (volumes_after ops) \<and>
   GetVolumeCount (drive_after i st n dn tier ops) = len (volumes_after ops) \<and>
   VolumeExist (drive_after i st n dn tier ops) v = (v \<in> set (volumes_after ops)) \<and>
   fst (AddVolumeFinalizer v (drive_after i st n dn tier ops)) = (v \<notin> set (volumes_after ops)) \<and>
   fst (RemoveVolumeFinalizer v (drive_after i st n dn tier ops)) = (v \<in> set (volumes_after ops))"
proof -
  note h = holds_after [of i st n dn tier ops]
  then have "distinct (volumes_after ops)" by (simp add: holds_def)
  then show ?thesis
    by (simp add: holds_GetVolumes [OF h] holds_GetVolumeCount [OF h] holds_VolumeExist [OF h]
        AddVolumeFinalizer_holds(1) [OF h] RemoveVolumeFinalizer_holds(1) [OF h])
qed

text \<open>
  C30: a drive gives up its own protection exactly when no volume is left on it; while one is,
  \<open>RemoveFinalizers\<close> changes nothing. Once the protection is gone the drive reports a volume
  count of minus one.\<close>
theorem RemoveFinalizers_guard:
  "RemoveFinalizers (drive_after i st n dn tier ops) =
     (if volumes_after ops = [] then (True, with_drive_finalizers [] (drive_after i st n dn tier ops))
      else (False, drive_after i st n dn tier ops)) \<and>
   GetVolumeCount (snd (RemoveFinalizers (drive_after i st n dn tier ops))) =
     (if volumes_after ops = [] then - 1 else len (volumes_after ops))"
proof -
  note h = holds_after [of i st n dn tier ops]
  show ?thesis
    using RemoveFinalizers_holds [OF h] holds_GetVolumeCount [OF h]
    by (simp add: GetVolumeCount_def len_def)
qed

text \<open>
  Errors reported one after the other on a drive without conditions leave one condition per
  error type, so at most four, and the latest error type read is that of the last report.\<close>
theorem latest_error_is_last:
  assumes "drive_conditions d = []" and "es \<noteq> []" and "sorted_wrt (<) (map fst es)"
  shows "GetLatestErrorConditionType (foldl report d es) = error_type (snd (last es)) \<and>
    one_per_type (drive_conditions (foldl report d es)) \<and>
    length (drive_conditions (foldl report d es)) \<le> 4"
proof -
  obtain xs now e where es: "es = xs @ [(now, e)]"
    using assms(2) by (metis rev_exhaust surj_pair)
  define t where "t = (if xs = [] then now - 1 else fst (hd xs))"
  have t0: "recorded t d" using assms(1) by (simp add: recorded_def one_per_type_def)
  have sorted: "sorted (t # map fst xs)"
    using assms(3) strict_sorted_imp_sorted [of "map fst xs"]
    by (cases xs) (auto simp: es t_def sorted_wrt_append)
  have "last (t # map fst xs) < now"
    using assms(3) by (auto simp: es t_def sorted_wrt_append last_map)
  with recorded_run [OF t0 sorted]
  have "GetLatestErrorConditionType (foldl report d es) = error_type e"
    and r: "recorded now (foldl report d es)"
    by (auto simp: es intro: latest_report recorded_report)
  with recorded_count [OF r] show ?thesis by (simp add: es recorded_def)
qed

definition sample_status :: DriveStatus where
  "sample_status = \<lparr>dst_TotalCapacity = 1000, dst_AllocatedCapacity = 0, dst_FreeCapacity = 1000,
     dst_FSUUID = ''u1'', dst_Status = DriveStatusReady, dst_Topology = None, dst_Make = [],
     dst_Conditions = []\<rparr>"

definition sample_drive :: DirectPVDrive where
  "sample_drive = NewDirectPVDrive ''d1'' sample_status ''node-1'' ''sda'' AccessTierDefault"

theorem latest_error_is_last_witness:
  "GetLatestErrorConditionType
     (foldl report sample_drive [(1, InputOutput), (2, Mount ''m''), (3, InputOutput)]) = ''IOError''"
  using latest_error_is_last [of sample_drive "[(1, InputOutput), (2, Mount ''m''), (3, InputOutput)]"]
  by (simp add: sample_drive_def NewDirectPVDrive_def sample_status_def
      DriveConditionTypeIOError_def)

text \<open>
  A drive name or node id that is a valid label is read back as it was set, and setting
  one leaves the other. Any other name is normalised when it is set and once more when it is
  read: what is read differs from what is stored exactly when the stored value ends in a dash.\<close>
theorem drive_names_read_back:
  assumes "documented_validator errs"
  shows "(k8s_label_value name \<longrightarrow> Drive_GetDriveName errs (Drive_SetDriveName errs name d) = name) \<and>
    (k8s_label_value name \<longrightarrow> Drive_GetNodeID errs (Drive_SetNodeID errs name d) = name) \<and>
    Drive_GetNodeID errs (Drive_SetDriveName errs name d) = Drive_GetNodeID errs d \<and>
    Drive_GetDriveName errs (Drive_SetNodeID errs name d) = Drive_GetDriveName errs d \<and>
    mget (drive_labels (Drive_SetDriveName errs name d)) DriveNameLabelKey = Some (ToLabelValue errs name) \<and>
    (Drive_GetDriveName errs (Drive_SetDriveName errs name d) \<noteq> ToLabelValue errs name \<longleftrightarrow>
       ToLabelValue errs name \<noteq> [] \<and> last (ToLabelValue errs name) = CHR ''-'')"
proof -
  have keys: "NodeLabelKey \<noteq> DriveNameLabelKey" by (simp add: label_keys)
  let ?v = "ToLabelValue errs name"
  have "(if k8s_label_value ?v then ?v else map no_dash ?v) \<noteq> ?v \<longleftrightarrow> ?v \<noteq> [] \<and> last ?v = CHR ''-''"
  proof (cases "k8s_label_value ?v")
    case True
    then show ?thesis by (auto simp: k8s_label_value_def)
  next
    case False
    then have "name \<noteq> []" "?v = normalizeLabelValue name"
      using assms by (auto simp: ToLabelValue_def documented_valid k8s_label_value_def split: if_splits)
    with False normalized_valid_iff [of name] have last: "?v \<noteq> []" "last ?v = CHR ''-''" by auto
    then have "last (map no_dash ?v) \<noteq> last ?v" by (simp add: last_map no_dash_def)
    with False last show ?thesis by auto
  qed
  with keys show ?thesis
    using dl.valid_round_trip [OF assms, of name] dl.read_back [OF assms]
    by (simp add: Drive_GetDriveName_def Drive_SetDriveName_def Drive_GetNodeID_def
        Drive_SetNodeID_def dl.get_set_other dl.set_labels)
qed

theorem drive_names_read_back_witness:
  "Drive_GetDriveName doc_errs (Drive_SetDriveName doc_errs ''sda'' sample_drive) = ''sda'' \<and>
   Drive_GetNodeID doc_errs (Drive_SetDriveName doc_errs ''sda'' sample_drive) =
     Drive_GetNodeID doc_errs sample_drive"
proof -
  have "k8s_label_value ''sda''"
    by (simp add: k8s_label_value_def label_char_def alphanum_def code_def)
  then show ?thesis using drive_names_read_back [OF doc_errs_documented, of "''sda''" sample_drive] by simp
qed

text \<open>
  A suspended drive is seen as suspended, a resumed one is not; resuming reports that it
  found the suspension, removes exactly that label, and no other label is disturbed.\<close>
theorem drive_suspend_resume:
  assumes "documented_validator errs"
  shows "Drive_IsSuspended errs (snd (Drive_Suspend errs d)) \<and>
    \<not> Drive_IsSuspended errs (snd (Drive_Resume d)) \<and>
    fst (Drive_Resume (snd (Drive_Suspend errs d))) \<and>
    mrange (drive_labels (snd (Drive_Resume (snd (Drive_Suspend errs d))))) =
      (mrange (drive_labels d))(SuspendLabelKey := None) \<and>
    Drive_GetDriveName errs (snd (Drive_Suspend errs d)) = Drive_GetDriveName errs d \<and>
    Drive_GetNodeID errs (snd (Drive_Suspend errs d)) = Drive_GetNodeID errs d"
proof -
  have keys: "DriveNameLabelKey \<noteq> SuspendLabelKey" "NodeLabelKey \<noteq> SuspendLabelKey"
    by (simp_all add: label_keys)
  show ?thesis
    using dl.suspended_after_suspend [OF assms] dl.running_after_resume dl.resume_found
      dl.suspend_keeps_others [OF keys(1)] dl.suspend_keeps_others [OF keys(2)]
    by (simp add: Drive_GetDriveName_def Drive_GetNodeID_def dl.resume_is dl.suspend_is
        dl.remove_labels dl.set_labels)
qed

theorem drive_suspend_resume_witness:
  "Drive_IsSuspended doc_errs (snd (Drive_Suspend doc_errs sample_drive)) \<and>
   fst (Drive_Resume (snd (Drive_Suspend doc_errs sample_drive)))"
  using drive_suspend_resume [OF doc_errs_documented, of sample_drive] by simp

end
