(* ===== verification/Volume.thy ===== *)
theory Volume
  imports DirectPVTypes
begin

text \<open>
  DirectPV volumes: \<open>pkg/minio/directpv/apis/directpv.min.io/v1beta1/volume.go\<close>, with the
  conventions of the theory of drives: a pointer receiver returns the volume updated. The
  clock and the order in which \<open>CopyLabels\<close> visits the labels it copies are arguments; a
  write to a nil label map panics, which is \<open>None\<close>.

  The second half interprets the label contract for volumes and describes the life of the
  two finalizers a volume is born with.
\<close>

section \<open>Data\<close>

definition volumeFinalizerPVProtection :: string where
  "volumeFinalizerPVProtection = Group @ ''/pv-protection''"

definition volumeFinalizerPurgeProtection :: string where
  "volumeFinalizerPurgeProtection = Group @ ''/purge-protection''"

record VolumeStatus =
  vst_DataPath :: string
  vst_StagingTargetPath :: string
  vst_TargetPath :: string
  vst_FSUUID :: string
  vst_TotalCapacity :: int64
  vst_AvailableCapacity :: int64
  vst_UsedCapacity :: int64
  vst_Status :: string
  vst_Conditions :: "condition list"

record DirectPVVolume =
  volume_APIVersion :: string
  volume_Kind :: string
  volume_Meta :: object_meta
  volume_Status :: VolumeStatus

definition NewDirectPVVolume ::
  "string \<Rightarrow> string \<Rightarrow> string \<Rightarrow> string \<Rightarrow> string \<Rightarrow> int64 \<Rightarrow> DirectPVVolume" where
  "NewDirectPVVolume name fsuuid nodeID driveID driveName sz =
     \<lparr>volume_APIVersion = Group @ ''/'' @ Version, volume_Kind = VolumeKind,
      volume_Meta = empty_meta
        \<lparr>om_Name := name,
         om_Finalizers := [volumeFinalizerPVProtection, volumeFinalizerPurgeProtection],
         om_Labels := Some
           [DriveLabelKey \<mapsto> driveID, NodeLabelKey \<mapsto> nodeID, DriveNameLabelKey \<mapsto> driveName,
            VersionLabelKey \<mapsto> Version, CreatedByLabelKey \<mapsto> ControllerName]\<rparr>,
      volume_Status =
        \<lparr>vst_DataPath = [], vst_StagingTargetPath = [], vst_TargetPath = [], vst_FSUUID = fsuuid,
         vst_TotalCapacity = sz, vst_AvailableCapacity = sz, vst_UsedCapacity = 0,
         vst_Status = VolumeStatusPending, vst_Conditions = []\<rparr>\<rparr>"

definition volume_labels :: "DirectPVVolume \<Rightarrow> (string, string) gomap" where
  "volume_labels v = om_Labels (volume_Meta v)"

definition with_volume_labels :: "(string, string) gomap \<Rightarrow> DirectPVVolume \<Rightarrow> DirectPVVolume" where
  "with_volume_labels m v = v\<lparr>volume_Meta := (volume_Meta v)\<lparr>om_Labels := m\<rparr>\<rparr>"

definition volume_protection :: "DirectPVVolume \<Rightarrow> string list" where
  "volume_protection v = om_Finalizers (volume_Meta v)"

definition with_volume_protection :: "string list \<Rightarrow> DirectPVVolume \<Rightarrow> DirectPVVolume" where
  "with_volume_protection fs v = v\<lparr>volume_Meta := (volume_Meta v)\<lparr>om_Finalizers := fs\<rparr>\<rparr>"

section \<open>State\<close>

definition IsStaged :: "DirectPVVolume \<Rightarrow> bool" where
  "IsStaged v \<longleftrightarrow> vst_StagingTargetPath (volume_Status v) \<noteq> []"

definition IsPublished :: "DirectPVVolume \<Rightarrow> bool" where
  "IsPublished v \<longleftrightarrow> vst_TargetPath (volume_Status v) \<noteq> []"

abbreviation volume_conditions :: "DirectPVVolume \<Rightarrow> condition list" where
  "volume_conditions v \<equiv> vst_Conditions (volume_Status v)"

definition IsDriveLost :: "DirectPVVolume \<Rightarrow> bool" where
  "IsDriveLost v \<longleftrightarrow>
     list_ex (\<lambda>c. cond_Type c = VolumeConditionTypeLost \<and> cond_Status c = ConditionTrue \<and>
       cond_Reason c = VolumeConditionReasonDriveLost \<and>
       cond_Message c = VolumeConditionMessageDriveLost) (volume_conditions v)"

definition SetDriveLost :: "int \<Rightarrow> DirectPVVolume \<Rightarrow> DirectPVVolume" where
  "SetDriveLost now v =
     (let c = \<lparr>cond_Type = VolumeConditionTypeLost, cond_Status = ConditionTrue,
               cond_Reason = VolumeConditionReasonDriveLost,
               cond_Message = VolumeConditionMessageDriveLost, cond_LastTransitionTime = now\<rparr> in
      v\<lparr>volume_Status := (volume_Status v)
          \<lparr>vst_Conditions := upsert_condition c (volume_conditions v)\<rparr>\<rparr>)"

definition IsReleased :: "DirectPVVolume \<Rightarrow> bool" where
  "IsReleased v \<longleftrightarrow>
     length (volume_protection v) = 1 \<and> volume_protection v ! 0 = volumeFinalizerPurgeProtection"

fun keep_other :: "string \<Rightarrow> string list \<Rightarrow> string list \<Rightarrow> string list" where
  "keep_other value [] finalizers = finalizers"
| "keep_other value (finalizer # fs) finalizers =
     (if finalizer \<noteq> value then keep_other value fs (finalizers @ [finalizer])
      else keep_other value fs finalizers)"

definition removeFinalizer :: "string \<Rightarrow> DirectPVVolume \<Rightarrow> DirectPVVolume" where
  "removeFinalizer value v =
     (let finalizers = keep_other value (volume_protection v) [] in
      if length finalizers \<noteq> length (volume_protection v) then with_volume_protection finalizers v
      else v)"

definition RemovePurgeProtection :: "DirectPVVolume \<Rightarrow> DirectPVVolume" where
  "RemovePurgeProtection v = removeFinalizer volumeFinalizerPurgeProtection v"

definition RemovePVProtection :: "DirectPVVolume \<Rightarrow> DirectPVVolume" where
  "RemovePVProtection v = removeFinalizer volumeFinalizerPVProtection v"

section \<open>Labels\<close>

definition Volume_GetLabels :: "DirectPVVolume \<Rightarrow> (string \<rightharpoonup> string) \<times> DirectPVVolume" where
  "Volume_GetLabels v =
     (case volume_labels v of
        None \<Rightarrow> (Map.empty, with_volume_labels (Some Map.empty) v)
      | Some values \<Rightarrow> (values, v))"

definition CopyLabels :: "(string \<times> string) list \<Rightarrow> DirectPVVolume \<Rightarrow> DirectPVVolume option" where
  "CopyLabels entries v =
     (case copy_entries entries (volume_labels v) of
        None \<Rightarrow> None
      | Some labels \<Rightarrow> Some (with_volume_labels labels v))"

definition Volume_SetLabel :: "string \<Rightarrow> string \<Rightarrow> DirectPVVolume \<Rightarrow> bool \<times> DirectPVVolume" where
  "Volume_SetLabel key value v =
     (let (values, v1) = Volume_GetLabels v in
      if values key = Some value then (False, v1)
      else (True, with_volume_labels (Some (values(key \<mapsto> value))) v1))"

definition Volume_RemoveLabel :: "string \<Rightarrow> DirectPVVolume \<Rightarrow> bool \<times> DirectPVVolume" where
  "Volume_RemoveLabel key v =
     (let (labels, v1) = Volume_GetLabels v in
      (labels key \<noteq> None, with_volume_labels (Some (labels(key := None))) v1))"

definition Volume_getLabel :: "(string \<Rightarrow> string list) \<Rightarrow> string \<Rightarrow> DirectPVVolume \<Rightarrow> string" where
  "Volume_getLabel errs key v = ToLabelValue errs (label_or_empty (fst (Volume_GetLabels v) key))"

definition Volume_SetDriveID ::
  "(string \<Rightarrow> string list) \<Rightarrow> string \<Rightarrow> DirectPVVolume \<Rightarrow> DirectPVVolume" where
  "Volume_SetDriveID errs name v = snd (Volume_SetLabel DriveLabelKey (ToLabelValue errs name) v)"

definition Volume_GetDriveID :: "(string \<Rightarrow> string list) \<Rightarrow> DirectPVVolume \<Rightarrow> string" where
  "Volume_GetDriveID errs v = Volume_getLabel errs DriveLabelKey v"

definition Volume_SetDriveName ::
  "(string \<Rightarrow> string list) \<Rightarrow> string \<Rightarrow> DirectPVVolume \<Rightarrow> DirectPVVolume" where
  "Volume_SetDriveName errs name v = snd (Volume_SetLabel DriveNameLabelKey (ToLabelValue errs name) v)"

definition Volume_GetDriveName :: "(string \<Rightarrow> string list) \<Rightarrow> DirectPVVolume \<Rightarrow> string" where
  "Volume_GetDriveName errs v = Volume_getLabel errs DriveNameLabelKey v"

definition Volume_SetNodeID ::
  "(string \<Rightarrow> string list) \<Rightarrow> string \<Rightarrow> DirectPVVolume \<Rightarrow> DirectPVVolume" where
  "Volume_SetNodeID errs name v = snd (Volume_SetLabel NodeLabelKey (ToLabelValue errs name) v)"

definition Volume_GetNodeID :: "(string \<Rightarrow> string list) \<Rightarrow> DirectPVVolume \<Rightarrow> string" where
  "Volume_GetNodeID errs v = Volume_getLabel errs NodeLabelKey v"

definition SetVersionLabel :: "DirectPVVolume \<Rightarrow> DirectPVVolume" where
  "SetVersionLabel v = snd (Volume_SetLabel VersionLabelKey Version v)"

definition SetCreatedByLabel :: "DirectPVVolume \<Rightarrow> DirectPVVolume" where
  "SetCreatedByLabel v = snd (Volume_SetLabel CreatedByLabelKey ControllerName v)"

definition Volume_SetMigratedLabel :: "DirectPVVolume \<Rightarrow> DirectPVVolume" where
  "Volume_SetMigratedLabel v = snd (Volume_SetLabel MigratedLabelKey ''true'' v)"

definition Volume_IsMigrated :: "(string \<Rightarrow> string list) \<Rightarrow> DirectPVVolume \<Rightarrow> bool" where
  "Volume_IsMigrated errs v \<longleftrightarrow> Volume_getLabel errs MigratedLabelKey v = ''true''"

definition SetPodName ::
  "(string \<Rightarrow> string list) \<Rightarrow> string \<Rightarrow> DirectPVVolume \<Rightarrow> DirectPVVolume" where
  "SetPodName errs name v = snd (Volume_SetLabel PodNameLabelKey (ToLabelValue errs name) v)"

definition GetPodName :: "(string \<Rightarrow> string list) \<Rightarrow> DirectPVVolume \<Rightarrow> string" where
  "GetPodName errs v = Volume_getLabel errs PodNameLabelKey v"

definition SetPodNS ::
  "(string \<Rightarrow> string list) \<Rightarrow> string \<Rightarrow> DirectPVVolume \<Rightarrow> DirectPVVolume" where
  "SetPodNS errs name v = snd (Volume_SetLabel PodNSLabelKey (ToLabelValue errs name) v)"

definition GetPodNS :: "(string \<Rightarrow> string list) \<Rightarrow> DirectPVVolume \<Rightarrow> string" where
  "GetPodNS errs v = Volume_getLabel errs PodNSLabelKey v"

definition GetTenantName :: "(string \<Rightarrow> string list) \<Rightarrow> DirectPVVolume \<Rightarrow> string" where
  "GetTenantName errs v = Volume_getLabel errs (Group @ ''/tenant'') v"

definition Volume_IsSuspended :: "(string \<Rightarrow> string list) \<Rightarrow> DirectPVVolume \<Rightarrow> bool" where
  "Volume_IsSuspended errs v \<longleftrightarrow> Volume_getLabel errs SuspendLabelKey v = format_bool True"

definition SetClaimID :: "string \<Rightarrow> DirectPVVolume \<Rightarrow> DirectPVVolume" where
  "SetClaimID claimID v =
     (if claimID = [] then v else snd (Volume_SetLabel ClaimIDLabelKey claimID v))"

definition GetClaimID :: "(string \<Rightarrow> string list) \<Rightarrow> DirectPVVolume \<Rightarrow> string" where
  "GetClaimID errs v = Volume_getLabel errs ClaimIDLabelKey v"

definition Volume_Suspend :: "(string \<Rightarrow> string list) \<Rightarrow> DirectPVVolume \<Rightarrow> bool \<times> DirectPVVolume" where
  "Volume_Suspend errs v = Volume_SetLabel SuspendLabelKey (ToLabelValue errs (format_bool True)) v"

definition Volume_Resume :: "DirectPVVolume \<Rightarrow> bool \<times> DirectPVVolume" where
  "Volume_Resume v = Volume_RemoveLabel SuspendLabelKey v"

section \<open>Labels of volumes obey the contract\<close>

lemma volume_labels_with [simp]: "volume_labels (with_volume_labels m v) = m"
  by (simp add: volume_labels_def with_volume_labels_def)

lemma Volume_GetLabels_values: "fst (Volume_GetLabels v) = mrange (volume_labels v)"
  by (simp add: Volume_GetLabels_def mrange_def split: option.splits)

lemma Volume_GetLabels_labels: "volume_labels (snd (Volume_GetLabels v)) = Some (mrange (volume_labels v))"
  by (simp add: Volume_GetLabels_def split: option.splits)

lemma Volume_SetLabel_parts:
  "fst (Volume_SetLabel k l v) \<longleftrightarrow> mget (volume_labels v) k \<noteq> Some l"
  "volume_labels (snd (Volume_SetLabel k l v)) = Some ((mrange (volume_labels v))(k \<mapsto> l))"
  using Volume_GetLabels_values [of v] Volume_GetLabels_labels [of v]
  by (auto simp: Volume_SetLabel_def split_def Let_def mrange_mget fun_upd_idem_iff)

lemma Volume_RemoveLabel_parts:
  "fst (Volume_RemoveLabel k v) \<longleftrightarrow> mget (volume_labels v) k \<noteq> None"
  "volume_labels (snd (Volume_RemoveLabel k v)) = Some ((mrange (volume_labels v))(k := None))"
  using Volume_GetLabels_values [of v]
  by (auto simp: Volume_RemoveLabel_def split_def mrange_mget)

interpretation vl: suspendable volume_labels Volume_SetLabel Volume_RemoveLabel Volume_getLabel
  Volume_Suspend Volume_Resume Volume_IsSuspended
  by unfold_locales
    (simp_all add: Volume_SetLabel_parts Volume_RemoveLabel_parts Volume_getLabel_def
      Volume_GetLabels_values mrange_mget Volume_Suspend_def Volume_Resume_def Volume_IsSuspended_def)

lemma volume_suspend_resume:
  "documented_validator errs \<Longrightarrow> Volume_IsSuspended errs (snd (Volume_Suspend errs v))"
  "\<not> Volume_IsSuspended errs (snd (Volume_Resume v))"
  by (rule vl.suspended_after_suspend vl.running_after_resume, assumption?)+

lemma claim_id_read_back:
  "documented_validator errs \<Longrightarrow> claimID \<noteq> [] \<Longrightarrow> k8s_label_value claimID \<Longrightarrow>
     GetClaimID errs (SetClaimID claimID v) = claimID"
  by (simp add: GetClaimID_def SetClaimID_def vl.get_set_same ToLabelValue_def documented_valid)

section \<open>Losing the drive\<close>

lemma SetDriveLost_IsDriveLost: "IsDriveLost (SetDriveLost now v)"
  by (auto simp: IsDriveLost_def SetDriveLost_def Let_def list_ex_iff intro!: bexI [OF _ upsert_member])

lemma SetDriveLost_one_per_type:
  "one_per_type (volume_conditions v) \<Longrightarrow> one_per_type (volume_conditions (SetDriveLost now v))"
  by (simp add: SetDriveLost_def Let_def upsert_one_per_type)

lemma SetDriveLost_again: "SetDriveLost now2 (SetDriveLost now v) = SetDriveLost now2 v"
  by (simp add: SetDriveLost_def Let_def upsert_again)

section \<open>The two protections\<close>

datatype protection = PV | Purge

fun remove_protection :: "DirectPVVolume \<Rightarrow> protection \<Rightarrow> DirectPVVolume" where
  "remove_protection v PV = RemovePVProtection v"
| "remove_protection v Purge = RemovePurgeProtection v"

lemma keep_other_eq: "keep_other value fs acc = acc @ filter (\<lambda>f. f \<noteq> value) fs"
  by (induction fs arbitrary: acc) auto

lemma removeFinalizer_eq:
  "volume_protection (removeFinalizer value v) = filter (\<lambda>f. f \<noteq> value) (volume_protection v)"
proof -
  let ?fs = "om_Finalizers (volume_Meta v)"
  have same: "filter (\<lambda>f. f \<noteq> value) ?fs = ?fs" if "length (filter (\<lambda>f. f \<noteq> value) ?fs) = length ?fs"
    using that by (metis filter_True length_filter_less less_irrefl)
  show ?thesis
    by (cases "length (filter (\<lambda>f. f \<noteq> value) ?fs) = length ?fs")
      (simp_all add: removeFinalizer_def keep_other_eq volume_protection_def
        with_volume_protection_def same)
qed

definition protection_of :: "protection list \<Rightarrow> string list" where
  "protection_of ps =
     (if PV \<in> set ps then [] else [volumeFinalizerPVProtection]) @
     (if Purge \<in> set ps then [] else [volumeFinalizerPurgeProtection])"

lemma protections_distinct [simp]:
  "volumeFinalizerPVProtection \<noteq> volumeFinalizerPurgeProtection"
  "volumeFinalizerPurgeProtection \<noteq> volumeFinalizerPVProtection"
  by (simp_all add: volumeFinalizerPVProtection_def volumeFinalizerPurgeProtection_def)

lemma protections_removed:
  "volume_protection (foldl remove_protection (NewDirectPVVolume n fs nd i dn sz) ps) = protection_of ps"
proof (induction ps rule: rev_induct)
  case Nil
  then show ?case by (simp add: volume_protection_def NewDirectPVVolume_def protection_of_def)
next
  case (snoc p ps)
  then show ?case
    by (cases p) (simp_all add: removeFinalizer_eq RemovePVProtection_def RemovePurgeProtection_def
        protection_of_def)
qed

section \<open>Properties\<close>

text \<open>
  Copying the labels of another volume panics exactly when this volume has no label map and
  the other one has a label; otherwise, in whatever order the labels are visited, the result has
  the labels of both and the other volume's value where both have one.\<close>
theorem CopyLabels_result:
  assumes "distinct (map fst entries)" and "map_of entries = mrange (volume_labels vol)"
  shows "(CopyLabels entries v = None \<longleftrightarrow> volume_labels v = None \<and> mrange (volume_labels vol) \<noteq> Map.empty) \<and>
    (\<forall>v1. CopyLabels entries v = Some v1 \<longrightarrow>
       mrange (volume_labels v1) = mrange (volume_labels v) ++ mrange (volume_labels vol))"
proof (cases "volume_labels v")
  case None
  have "entries = [] \<longleftrightarrow> mrange (volume_labels vol) = Map.empty"
    using assms(2) by (metis map_of_eq_empty_iff)
  with None show ?thesis by (cases entries) (auto simp: CopyLabels_def mput_def)
next
  case (Some m)
  with assms show ?thesis by (simp add: CopyLabels_def copy_entries_Some map_of_rev)
qed

definition sample_volume :: DirectPVVolume where
  "sample_volume = NewDirectPVVolume ''v1'' ''u1'' ''node-1'' ''d1'' ''sda'' 100"

theorem CopyLabels_result_witness:
  "CopyLabels [(PodNameLabelKey, ''p'')] (with_volume_labels None sample_volume) = None \<and>
   (\<exists>v1. CopyLabels [(PodNameLabelKey, ''p'')] sample_volume = Some v1 \<and>
      mrange (volume_labels v1) PodNameLabelKey = Some ''p'')"
proof -
  define vol where "vol = with_volume_labels (Some [PodNameLabelKey \<mapsto> ''p'']) sample_volume"
  have m: "map_of [(PodNameLabelKey, ''p'')] = mrange (volume_labels vol)" by (simp add: vol_def)
  note C = CopyLabels_result [of "[(PodNameLabelKey, ''p'')]" vol]
  from C [of "with_volume_labels None sample_volume"] m
  have a: "CopyLabels [(PodNameLabelKey, ''p'')] (with_volume_labels None sample_volume) = None"
    by (simp add: vol_def)
  have "volume_labels sample_volume \<noteq> None"
    by (simp add: sample_volume_def NewDirectPVVolume_def volume_labels_def)
  with C [of sample_volume] m obtain v1 where
    v1: "CopyLabels [(PodNameLabelKey, ''p'')] sample_volume = Some v1" by fastforce
  with C [of sample_volume] m
  have "mrange (volume_labels v1) = mrange (volume_labels sample_volume) ++ mrange (volume_labels vol)"
    by simp
  with a v1 show ?thesis by (simp add: vol_def)
qed

text \<open>
  A new volume is released exactly after its persistent-volume protection has been removed
  and as long as the purge protection has not, in whatever order and however often the two are
  removed; no finalizer is left exactly when both have been removed.\<close>
theorem volume_release:
  "IsReleased (foldl remove_protection (NewDirectPVVolume n fs nd i dn sz) ps) =
     (PV \<in> set ps \<and> Purge \<notin> set ps) \<and>
   (volume_protection (foldl remove_protection (NewDirectPVVolume n fs nd i dn sz) ps) = []) =
     (PV \<in> set ps \<and> Purge \<in> set ps)"
  by (auto simp: IsReleased_def protections_removed protection_of_def)

end
