(* ===== verification/DirectPVNode.thy ===== *)
theory DirectPVNode
  imports DirectPVTypes
begin

text \<open>
  DirectPV nodes and initialisation requests:
  \<open>pkg/minio/directpv/apis/directpv.min.io/v1beta1/node.go\<close> and \<open>init_request.go\<close>. The fresh
  UUID that names a request is an argument.
\<close>

section \<open>Nodes\<close>

record Device =
  dev_Name :: string
  dev_ID :: string
  dev_MajorMinor :: string
  dev_Size :: "64 word"
  dev_Make :: string
  dev_FSType :: string
  dev_FSUUID :: string
  dev_DeniedReason :: string

record NodeSpec =
  nsp_Refresh :: bool

record NodeStatus =
  nst_Devices :: "Device list"
  nst_Conditions :: "condition list"

record DirectPVNode =
  node_APIVersion :: string
  node_Kind :: string
  node_Meta :: object_meta
  node_Spec :: NodeSpec
  node_Status :: NodeStatus

fun devices_named :: "string list \<Rightarrow> Device list \<Rightarrow> Device list \<Rightarrow> Device list" where
  "devices_named names [] devices = devices"
| "devices_named names (d # ds) devices =
     (if Contains names (dev_Name d) then devices_named names ds (devices @ [d])
      else devices_named names ds devices)"

definition GetDevicesByNames :: "DirectPVNode \<Rightarrow> string list \<Rightarrow> Device list" where
  "GetDevicesByNames node names =
     (if names = [] then nst_Devices (node_Status node)
      else devices_named names (nst_Devices (node_Status node)) [])"

definition NewDirectPVNode :: "string \<Rightarrow> Device list \<Rightarrow> DirectPVNode" where
  "NewDirectPVNode nodeID devices =
     \<lparr>node_APIVersion = Group @ ''/'' @ Version, node_Kind = NodeKind,
      node_Meta = empty_meta
        \<lparr>om_Name := nodeID,
         om_Labels := Some
           [NodeLabelKey \<mapsto> nodeID, VersionLabelKey \<mapsto> Version,
            CreatedByLabelKey \<mapsto> NodeControllerName]\<rparr>,
      node_Spec = \<lparr>nsp_Refresh = False\<rparr>,
      node_Status = \<lparr>nst_Devices = devices, nst_Conditions = []\<rparr>\<rparr>"

lemma devices_named_eq:
  "devices_named names ds acc = acc @ filter (\<lambda>d. dev_Name d \<in> set names) ds"
  by (induction ds arbitrary: acc) auto

lemma GetDevicesByNames_NewDirectPVNode:
  "GetDevicesByNames (NewDirectPVNode i ds) names =
     (if names = [] then ds else filter (\<lambda>d. dev_Name d \<in> set names) ds)"
  by (simp add: GetDevicesByNames_def NewDirectPVNode_def devices_named_eq)

section \<open>Initialisation requests\<close>

record InitDevice =
  idev_ID :: string
  idev_Name :: string
  idev_Force :: bool

record InitDeviceResult =
  idr_Name :: string
  idr_Error :: string

record InitRequestSpec =
  irs_Devices :: "InitDevice list"

record InitRequestStatus =
  irst_Status :: string
  irst_Results :: "InitDeviceResult list"

record DirectPVInitRequest =
  req_APIVersion :: string
  req_Kind :: string
  req_Meta :: object_meta
  req_Spec :: InitRequestSpec
  req_Status :: InitRequestStatus

definition InitRequest_getLabel ::
  "(string \<Rightarrow> string list) \<Rightarrow> string \<Rightarrow> DirectPVInitRequest \<Rightarrow> string" where
  "InitRequest_getLabel errs key req =
     ToLabelValue errs (label_or_empty (mget (om_Labels (req_Meta req)) key))"

definition NewDirectPVInitRequest ::
  "string \<Rightarrow> string \<Rightarrow> string \<Rightarrow> InitDevice list \<Rightarrow> DirectPVInitRequest" where
  "NewDirectPVInitRequest uuid requestID nodeID devices =
     \<lparr>req_APIVersion = Group @ ''/'' @ Version, req_Kind = InitRequestKind,
      req_Meta = empty_meta
        \<lparr>om_Name := uuid,
         om_Labels := Some
           [NodeLabelKey \<mapsto> nodeID, VersionLabelKey \<mapsto> Version,
            CreatedByLabelKey \<mapsto> NodeControllerName, RequestIDLabelKey \<mapsto> requestID]\<rparr>,
      req_Spec = \<lparr>irs_Devices = devices\<rparr>,
      req_Status = \<lparr>irst_Status = InitStatusPending, irst_Results = []\<rparr>\<rparr>"

definition InitRequest_GetNodeID :: "(string \<Rightarrow> string list) \<Rightarrow> DirectPVInitRequest \<Rightarrow> string" where
  "InitRequest_GetNodeID errs req = InitRequest_getLabel errs NodeLabelKey req"

lemma InitRequest_GetNodeID_New:
  "InitRequest_GetNodeID errs (NewDirectPVInitRequest u r nodeID ds) = ToLabelValue errs nodeID"
  by (simp add: InitRequest_GetNodeID_def InitRequest_getLabel_def NewDirectPVInitRequest_def label_keys)

end
