(* ===== verification/Scanning.thy ===== *)
theory Scanning
  imports Runes
begin

text \<open>
  More of Go's standard library, as the MinIO code uses it: \<open>strings.TrimSpace\<close> (which knows
  Unicode's white space), \<open>strings.SplitN\<close> with two parts, \<open>strings.Replace\<close> of the first
  occurrence, the line scanner of \<open>bufio\<close> with its limit on the length of a line, and
  \<open>path.Join\<close> of a rooted path.
\<close>

section \<open>White space\<close>

definition white_space :: "nat \<Rightarrow> bool" where
  "white_space r \<longleftrightarrow>
     (9 \<le> r \<and> r \<le> 13) \<or> r = 32 \<or> r = 0x85 \<or> r = 0xA0 \<or> r = 0x1680 \<or> (0x2000 \<le> r \<and> r \<le> 0x200A) \<or>
     r = 0x2028 \<or> r = 0x2029 \<or> r = 0x202F \<or> r = 0x205F \<or> r = 0x3000"

function trim_left :: "string \<Rightarrow> string" where
  "trim_left s =
     (if s = [] then []
      else (let (r, w) = decode_rune s in if white_space r then trim_left (drop w s) else s))"
  by pat_completeness auto

termination trim_left
proof (relation "measure length")
  fix s :: string and x r w
  assume "s \<noteq> []" "x = decode_rune s" "(r, w) = x"
  with decode_rune_width [of s] show "(drop w s, s) \<in> measure length"
    by (auto simp: prod_eq_iff)
qed simp

declare trim_left.simps [simp del]

text \<open>\<open>DecodeLastRuneInString\<close> looks back at most four bytes for the start of the last rune.\<close>

definition rune_start :: "char \<Rightarrow> bool" where
  "rune_start c \<longleftrightarrow> \<not> (0x80 \<le> code c \<and> code c \<le> 0xBF)"

definition last_start :: "string \<Rightarrow> nat" where
  "last_start s =
     (let lim = length s - 4;
          starts = filter (\<lambda>i. rune_start (s ! i)) [lim..<length s - 1]
      in if starts \<noteq> [] then last starts else lim - 1)"

definition decode_last :: "string \<Rightarrow> nat \<times> nat" where
  "decode_last s =
     (if code (last s) < 0x80 then (code (last s), 1)
      else (let start = last_start s; (r, w) = decode_rune (drop start s) in
            if start + w \<noteq> length s then (rune_error, 1) else (r, w)))"

lemma last_start_less: "s \<noteq> [] \<Longrightarrow> last_start s < length s"
proof -
  assume s: "s \<noteq> []"
  let ?starts = "filter (\<lambda>i. rune_start (s ! i)) [length s - 4..<length s - 1]"
  have "last ?starts < length s" if "?starts \<noteq> []"
  proof -
    have "last ?starts \<in> set ?starts" using that by (rule last_in_set)
    then show ?thesis by auto
  qed
  with s show ?thesis by (simp add: last_start_def Let_def)
qed

lemma decode_last_width: "s \<noteq> [] \<Longrightarrow> 1 \<le> snd (decode_last s) \<and> snd (decode_last s) \<le> length s"
proof -
  assume s: "s \<noteq> []"
  then have "drop (last_start s) s \<noteq> []" using last_start_less [of s] by simp
  from decode_rune_width [OF this] s show ?thesis
    by (auto simp: decode_last_def Let_def split_def Suc_le_eq)
qed

function trim_right :: "string \<Rightarrow> string" where
  "trim_right s =
     (if s = [] then []
      else (let (r, w) = decode_last s in
            if white_space r then trim_right (take (length s - w) s) else s))"
  by pat_completeness auto

termination trim_right
proof (relation "measure length")
  fix s :: string and x r w
  assume "s \<noteq> []" "x = decode_last s" "(r, w) = x"
  with decode_last_width [of s] show "(take (length s - w) s, s) \<in> measure length"
    by (auto simp: prod_eq_iff)
qed simp

declare trim_right.simps [simp del]

definition trim_space :: "string \<Rightarrow> string" where
  "trim_space s = trim_right (trim_left s)"

text \<open>ASCII bytes that are no space stop the trimming.\<close>

definition solid :: "char \<Rightarrow> bool" where
  "solid c \<longleftrightarrow> code c < 128 \<and> \<not> white_space (code c)"

lemma solid_alphanum [simp]: "alphanum c \<Longrightarrow> solid c"
  by (auto simp: solid_def white_space_def alphanum_def)

lemma trim_left_solid [simp]: "solid c \<Longrightarrow> trim_left (c # s) = c # s"
  by (subst trim_left.simps) (simp add: solid_def)

lemma trim_left_space [simp]: "trim_left (CHR '' '' # s) = trim_left s"
proof -
  have "decode_rune (CHR '' '' # s) = (32, 1)"
    using decode_rune_ascii [of "CHR '' ''" s] by (simp add: code_def)
  then show ?thesis by (subst trim_left.simps) (simp add: white_space_def)
qed

lemma trim_left_Nil [simp]: "trim_left [] = []"
  by (simp add: trim_left.simps)

lemma trim_right_Nil [simp]: "trim_right [] = []"
  by (simp add: trim_right.simps)

lemma trim_right_solid [simp]: "s \<noteq> [] \<Longrightarrow> solid (last s) \<Longrightarrow> trim_right s = s"
  by (subst trim_right.simps) (simp add: solid_def decode_last_def)

lemma trim_space_solid: "s \<noteq> [] \<Longrightarrow> solid (hd s) \<Longrightarrow> solid (last s) \<Longrightarrow> trim_space s = s"
  by (cases s) (simp_all add: trim_space_def)

section \<open>Splitting and replacing\<close>

text \<open>\<open>strings.SplitN(s, sep, 2)\<close> for a separator of one byte.\<close>

definition split_two :: "char \<Rightarrow> string \<Rightarrow> string list" where
  "split_two c s =
     (case dropWhile (\<lambda>x. x \<noteq> c) s of
        [] \<Rightarrow> [s]
      | _ # rest \<Rightarrow> [takeWhile (\<lambda>x. x \<noteq> c) s, rest])"

lemma split_two_append: "c \<notin> set k \<Longrightarrow> split_two c (k @ c # v) = [k, v]"
proof -
  assume "c \<notin> set k"
  then have "takeWhile (\<lambda>x. x \<noteq> c) (k @ c # v) = k" "dropWhile (\<lambda>x. x \<noteq> c) (k @ c # v) = c # v"
    by (metis (mono_tags, lifting) takeWhile_eq_all_conv takeWhile_tail,
        metis (mono_tags, lifting) dropWhile.simps(2) dropWhile_append2)
  then show ?thesis by (simp add: split_two_def)
qed

fun replace_first :: "string \<Rightarrow> string \<Rightarrow> string \<Rightarrow> string" where
  "replace_first old new [] = []"
| "replace_first old new (c # s) =
     (if prefix old (c # s) then new @ drop (length old) (c # s)
      else c # replace_first old new s)"

section \<open>Lines\<close>

text \<open>
  \<open>bufio.Scanner\<close> with \<open>ScanLines\<close>: a line ends at a newline or at the end of the text, and loses
  one trailing carriage return. The buffer holds 65536 bytes: a line that fills it without a
  newline ends the scan with an error.
\<close>

definition drop_cr :: "string \<Rightarrow> string" where
  "drop_cr s = (if s \<noteq> [] \<and> last s = CHR 0x0D then butlast s else s)"

definition max_token :: nat where
  "max_token = 65536"

function scan_lines :: "string \<Rightarrow> string list" where
  "scan_lines s =
     (if s = [] then []
      else (let line = takeWhile (\<lambda>c. c \<noteq> CHR 0x0A) s; rest = dropWhile (\<lambda>c. c \<noteq> CHR 0x0A) s in
            if max_token \<le> length line then []
            else drop_cr line # scan_lines (drop 1 rest)))"
  by pat_completeness auto

termination scan_lines
proof (relation "measure length")
  fix s line rest :: string
  assume s: "s \<noteq> []" and r: "rest = dropWhile (\<lambda>c. c \<noteq> CHR 0x0A) s"
  have "length rest \<le> length s" by (simp add: r length_dropWhile_le)
  with s show "(drop 1 rest, s) \<in> measure length" by (cases s) auto
qed simp

declare scan_lines.simps [simp del]

lemma scan_lines_Nil [simp]: "scan_lines [] = []"
  by (simp add: scan_lines.simps)

lemma scan_lines_line:
  assumes "CHR 0x0A \<notin> set line" and "length line < max_token"
  shows "scan_lines (line @ newline @ s) = drop_cr line # scan_lines s"
proof -
  have "takeWhile (\<lambda>c. c \<noteq> CHR 0x0A) (line @ CHR 0x0A # s) = line"
    "dropWhile (\<lambda>c. c \<noteq> CHR 0x0A) (line @ CHR 0x0A # s) = CHR 0x0A # s"
    using assms(1) by (simp_all add: takeWhile_append dropWhile_append)
  with assms(2) show ?thesis by (subst scan_lines.simps) (simp add: newline_def)
qed

lemma scan_lines_concat:
  assumes "\<forall>l \<in> set ls. CHR 0x0A \<notin> set l \<and> length l < max_token"
  shows "scan_lines (concat (map (\<lambda>l. l @ newline) ls)) = map drop_cr ls"
  using assms by (induction ls) (simp_all add: scan_lines_line)

section \<open>Paths\<close>

fun clean_parts :: "string list \<Rightarrow> string list \<Rightarrow> string list" where
  "clean_parts [] stack = rev stack"
| "clean_parts (p # ps) stack =
     (if p = [] \<or> p = ''.'' then clean_parts ps stack
      else if p = ''..'' then clean_parts ps (tl stack)
      else clean_parts ps (p # stack))"

definition clean_rooted :: "string \<Rightarrow> string" where
  "clean_rooted p = ''/'' @ join ''/'' (clean_parts (split_on CHR ''/'' p) [])"

fun join_elems :: "string list \<Rightarrow> string \<Rightarrow> string" where
  "join_elems [] buf = buf"
| "join_elems (e # es) buf =
     (if buf \<noteq> [] \<or> e \<noteq> [] then join_elems es ((if buf \<noteq> [] then buf @ ''/'' else buf) @ e)
      else join_elems es buf)"

text \<open>\<open>path.Join("/", ...)\<close>: the elements joined, then cleaned.\<close>

definition path_join_root :: "string list \<Rightarrow> string" where
  "path_join_root es = clean_rooted (join_elems (''/'' # es) [])"

lemma split_on_parts: "p \<in> set (split_on c s) \<Longrightarrow> c \<notin> set p"
proof (induction s arbitrary: p)
  case (Cons x s)
  obtain q qs where "split_on c s = q # qs" by (cases "split_on c s") auto
  with Cons show ?case by (auto split: if_splits)
qed simp

text \<open>A cleaned path has no empty part, no dot and no double dot: it cannot leave its root.\<close>

lemma clean_parts_clean:
  "\<forall>p \<in> set stack. p \<notin> {[], ''.'', ''..''} \<Longrightarrow> p \<in> set (clean_parts ps stack) \<Longrightarrow>
     p \<notin> {[], ''.'', ''..''} \<and> (p \<in> set stack \<or> p \<in> set ps)"
proof (induction ps arbitrary: stack)
  case (Cons q ps)
  have "\<forall>p \<in> set (tl stack). p \<notin> {[], ''.'', ''..''}"
    using Cons.prems(1) by (cases stack) auto
  moreover have "set (tl stack) \<subseteq> set stack" by (cases stack) auto
  ultimately show ?case
    using Cons.IH [of stack] Cons.IH [of "tl stack"] Cons.IH [of "q # stack"] Cons.prems
    by (auto split: if_splits)
qed auto

end
