(* ===== verification/TenantConfig.thy ===== *)
theory TenantConfig
  imports Scanning TenantTypes "HOL-Library.Finite_Map"
begin

text \<open>
  The settings of a MinIO tenant as text and as maps,
  \<open>pkg/minio/operator/apis/minio.min.io/v2/helper.go\<close> and \<open>utils.go\<close>: reading a \<open>config.env\<close> file
  (\<open>parsEnvEntry\<close>, \<open>ParseRawConfiguration\<close>), writing one (\<open>GenerateTenantConfigurationFile\<close>,
  whose map is visited in an order given as an argument), and comparing the environment
  variables of containers. Log lines are left out.

  The second half shows that a written configuration is read back, and what the comparison of
  containers notices.
\<close>

section \<open>Reading\<close>

record envKV =
  kv_Key :: string
  kv_Value :: string
  kv_Skip :: bool

definition envKV_String :: "envKV \<Rightarrow> string" where
  "envKV_String e = (if kv_Skip e then [] else kv_Key e @ ''='' @ kv_Value e)"

definition skipped :: envKV where
  "skipped = \<lparr>kv_Key = [], kv_Value = [], kv_Skip = True\<rparr>"

definition unquote :: "string \<Rightarrow> string" where
  "unquote val =
     (if 2 \<le> length val \<and> (val ! 0 = CHR 0x22 \<or> val ! 0 = CHR 0x27) \<and> last val = val ! 0
      then butlast (tl val) else val)"

definition parsEnvEntry :: "string \<Rightarrow> go_error + envKV" where
  "parsEnvEntry entry =
     (let envEntry = trim_space entry in
      if envEntry = [] then Inr skipped
      else
        (case split_two CHR ''='' (trim_space (trim_prefix envEntry ''export'')) of
           [key, val] \<Rightarrow>
             if prefix ''#'' key then Inr skipped
             else Inr \<lparr>kv_Key = key, kv_Value = unquote val, kv_Skip = False\<rparr>
         | _ \<Rightarrow> Inl (new_error (''envEntry malformed; '' @ envEntry @
                       '', expected to be of form '' @ [CHR 0x27] @ ''KEY=value'' @ [CHR 0x27]))))"

definition put_setting :: "string \<Rightarrow> string \<Rightarrow> (string \<rightharpoonup> string) \<Rightarrow> (string \<rightharpoonup> string)" where
  "put_setting k v config =
     (let config = config(k \<mapsto> v) in
      if k = ''MINIO_ROOT_USER'' \<or> k = ''MINIO_ACCESS_KEY'' then config(''accesskey'' \<mapsto> v)
      else if k = ''MINIO_ROOT_PASSWORD'' \<or> k = ''MINIO_SECRET_KEY'' then config(''secretkey'' \<mapsto> v)
      else config)"

definition config_step :: "string \<Rightarrow> (string \<rightharpoonup> string) \<Rightarrow> (string \<rightharpoonup> string)" where
  "config_step line config =
     (case parsEnvEntry line of
        Inl e \<Rightarrow> config
      | Inr ekv \<Rightarrow> if kv_Skip ekv then config else put_setting (kv_Key ekv) (kv_Value ekv) config)"

definition ParseRawConfiguration :: "string option \<Rightarrow> (string \<rightharpoonup> string)" where
  "ParseRawConfiguration configuration =
     (case configuration of
        None \<Rightarrow> Map.empty
      | Some text \<Rightarrow> fold config_step (scan_lines text) Map.empty)"

section \<open>Writing\<close>

definition config_line :: "string \<Rightarrow> string \<Rightarrow> string" where
  "config_line key val = ''export '' @ key @ [CHR ''='', CHR 0x22] @ val @ [CHR 0x22]"

definition GenerateTenantConfigurationFile :: "(string \<times> string) list \<Rightarrow> string" where
  "GenerateTenantConfigurationFile configuration =
     concat (map (\<lambda>(key, val). config_line key val @ newline) configuration)"

section \<open>Environment variables of containers\<close>

definition MergeMaps ::
  "(string, string) gomap \<Rightarrow> (string \<times> string) list \<Rightarrow> (string, string) gomap option" where
  "MergeMaps a b = copy_entries b a"

text \<open>A map that is compared as a whole is a finite map; \<open>None\<close> is the nil map.\<close>

type_synonym env_map = "(string, string) fmap option"

definition ToMap :: "env_var list \<Rightarrow> env_map" where
  "ToMap envs = Some (foldl (\<lambda>m e. fmupd (env_Name e) (env_Value e) m) fmempty envs)"

definition env_map_size :: "env_map \<Rightarrow> nat" where
  "env_map_size m = (case m of None \<Rightarrow> 0 | Some f \<Rightarrow> fcard (fmdom f))"

definition IsEnvUpdated :: "env_map \<Rightarrow> env_map \<Rightarrow> bool" where
  "IsEnvUpdated old new =
     (if env_map_size old \<noteq> env_map_size new then True
      else if old \<noteq> new then True
      else False)"

definition env_table :: "container list \<Rightarrow> (string \<rightharpoonup> env_var list)" where
  "env_table cs = foldl (\<lambda>m c. m(cont_Name c \<mapsto> cont_Env c)) Map.empty cs"

definition IsContainersEnvUpdated :: "container list \<Rightarrow> container list \<Rightarrow> bool" where
  "IsContainersEnvUpdated existingContainers expectedContainers =
     (let expected = env_table expectedContainers; existing = env_table existingContainers in
      list_ex (\<lambda>key.
        case existing key of
          None \<Rightarrow> True
        | Some env \<Rightarrow>
            IsEnvUpdated (ToMap env) (ToMap (case expected key of None \<Rightarrow> [] | Some e \<Rightarrow> e)))
        (map cont_Name expectedContainers))"

section \<open>A written line is read back\<close>

definition env_name :: "string \<Rightarrow> bool" where
  "env_name k \<longleftrightarrow> k \<noteq> [] \<and> list_all (\<lambda>c. alphanum c \<or> c = CHR ''_'') k"

definition writable :: "string \<times> string \<Rightarrow> bool" where
  "writable kv \<longleftrightarrow> env_name (fst kv) \<and> CHR 0x0A \<notin> set (snd kv) \<and>
     length (fst kv) + length (snd kv) + 10 < max_token"

lemma special_not_name [simp]:
  "\<not> alphanum CHR ''=''" "\<not> alphanum CHR 0x0A" "\<not> alphanum CHR ''#''" "\<not> alphanum CHR '' ''"
  by (simp_all add: alphanum_def code_def)

lemma solid_literals [simp]:
  "solid CHR ''_''" "solid CHR 0x22" "solid CHR ''e''" "solid CHR ''#''" "solid CHR ''=''"
  by (simp_all add: solid_def white_space_def code_def)

lemma env_name_hd: "env_name k \<Longrightarrow> \<exists>c cs. k = c # cs \<and> solid c \<and> c \<noteq> CHR ''#''"
  by (cases k) (auto simp: env_name_def)

lemma env_name_chars: "env_name k \<Longrightarrow> CHR ''='' \<notin> set k \<and> CHR 0x0A \<notin> set k"
  by (auto simp: env_name_def list_all_iff)

lemma unquote_quoted [simp]: "unquote (CHR 0x22 # v @ [CHR 0x22]) = v"
  by (simp add: unquote_def)

lemma parsEnvEntry_line:
  assumes "env_name k"
  shows "parsEnvEntry (config_line k v) = Inr \<lparr>kv_Key = k, kv_Value = v, kv_Skip = False\<rparr>"
proof -
  obtain c cs where k: "k = c # cs" "solid c" "c \<noteq> CHR ''#''"
    using env_name_hd [OF assms] by blast
  have line: "trim_space (config_line k v) = config_line k v"
    by (rule trim_space_solid) (simp_all add: config_line_def)
  have rest: "trim_prefix (config_line k v) ''export'' = CHR '' '' # k @ [CHR ''='', CHR 0x22] @ v @ [CHR 0x22]"
    by (simp add: config_line_def trim_prefix_def)
  have "trim_space (CHR '' '' # k @ [CHR ''='', CHR 0x22] @ v @ [CHR 0x22]) =
      k @ CHR ''='' # (CHR 0x22 # v @ [CHR 0x22])"
    using k by (simp add: trim_space_def)
  then have "split_two CHR ''='' (trim_space (trim_prefix (config_line k v) ''export'')) =
      [k, CHR 0x22 # v @ [CHR 0x22]]"
    using env_name_chars [OF assms] by (simp add: rest split_two_append)
  moreover have "config_line k v \<noteq> []" by (simp add: config_line_def)
  moreover have "\<not> prefix ''#'' k" using k by simp
  ultimately show ?thesis by (simp add: parsEnvEntry_def line)
qed

text \<open>A value without quotes is taken as it is.\<close>

lemma parsEnvEntry_plain:
  assumes "env_name k" and "v \<noteq> []" and "list_all alphanum v"
  shows "parsEnvEntry (''export '' @ k @ CHR ''='' # v) = Inr \<lparr>kv_Key = k, kv_Value = v, kv_Skip = False\<rparr>"
proof -
  obtain c cs where k: "k = c # cs" "solid c" "c \<noteq> CHR ''#''"
    using env_name_hd [OF assms(1)] by blast
  have v: "alphanum (hd v)" "alphanum (last v)" using assms(2,3) by (auto simp: list_all_iff)
  define l where "l = ''export '' @ k @ CHR ''='' # v"
  have line: "trim_space l = l"
    unfolding l_def using v assms(2) by (intro trim_space_solid) simp_all
  have rest: "trim_prefix l ''export'' = CHR '' '' # k @ CHR ''='' # v"
    by (simp add: trim_prefix_def l_def)
  have "trim_space (CHR '' '' # k @ CHR ''='' # v) = k @ CHR ''='' # v"
    using k v assms(2) by (simp add: trim_space_def)
  then have "split_two CHR ''='' (trim_space (trim_prefix l ''export'')) = [k, v]"
    using env_name_chars [OF assms(1)] by (simp only: rest split_two_append not_False_eq_True simp_thms)
  moreover have "unquote v = v"
  proof -
    have "hd v \<noteq> CHR 0x22" "hd v \<noteq> CHR 0x27" using v(1) by (auto simp: alphanum_def code_def)
    then show ?thesis using assms(2) by (simp add: unquote_def hd_conv_nth)
  qed
  moreover have "\<not> prefix ''#'' k" using k by simp
  moreover have "l \<noteq> []" by (simp add: l_def)
  ultimately have "parsEnvEntry l = Inr \<lparr>kv_Key = k, kv_Value = v, kv_Skip = False\<rparr>"
    by (simp add: parsEnvEntry_def line)
  then show ?thesis by (simp add: l_def)
qed

lemma config_line_scannable:
  "writable (k, v) \<Longrightarrow> CHR 0x0A \<notin> set (config_line k v) \<and> length (config_line k v) < max_token"
  using env_name_chars [of k] by (auto simp: writable_def config_line_def)

lemma drop_cr_config_line [simp]: "drop_cr (config_line k v) = config_line k v"
  by (simp add: drop_cr_def config_line_def)

lemma scan_generated:
  assumes "\<forall>kv \<in> set es. writable kv"
  shows "scan_lines (GenerateTenantConfigurationFile es) = map (\<lambda>(k, v). config_line k v) es"
proof -
  have "scan_lines (concat (map (\<lambda>l. l @ newline) (map (\<lambda>(k, v). config_line k v) es))) =
      map drop_cr (map (\<lambda>(k, v). config_line k v) es)"
    using assms config_line_scannable by (intro scan_lines_concat) fastforce
  then show ?thesis
    by (simp add: GenerateTenantConfigurationFile_def split_def comp_def)
qed

lemma parse_generated:
  assumes "\<forall>kv \<in> set es. writable kv"
  shows "ParseRawConfiguration (Some (GenerateTenantConfigurationFile es)) =
    fold (\<lambda>(k, v). put_setting k v) es Map.empty"
proof -
  have "fold config_step (map (\<lambda>(k, v). config_line k v) es) m =
      fold (\<lambda>(k, v). put_setting k v) es m" for m
    using assms
    by (induction es arbitrary: m)
      (auto simp: config_step_def parsEnvEntry_line writable_def)
  then show ?thesis by (simp add: ParseRawConfiguration_def scan_generated [OF assms])
qed

text \<open>What the settings read amount to, key by key.\<close>

definition user_keys :: "string list" where
  "user_keys = [''MINIO_ROOT_USER'', ''MINIO_ACCESS_KEY'']"

definition password_keys :: "string list" where
  "password_keys = [''MINIO_ROOT_PASSWORD'', ''MINIO_SECRET_KEY'']"

lemma put_setting_apply:
  "put_setting k v m j =
     (if j = ''accesskey'' \<and> k \<in> set user_keys then Some v
      else if j = ''secretkey'' \<and> k \<in> set password_keys then Some v
      else if j = k then Some v else m j)"
  by (auto simp: put_setting_def Let_def user_keys_def password_keys_def)

lemma settings_absent:
  assumes "j \<notin> fst ` set es" "j \<noteq> ''accesskey'' \<or> fst ` set es \<inter> set user_keys = {}"
    "j \<noteq> ''secretkey'' \<or> fst ` set es \<inter> set password_keys = {}"
  shows "fold (\<lambda>(k, v). put_setting k v) es m j = m j"
  using assms
proof (induction es arbitrary: m)
  case (Cons e es)
  have "fold (\<lambda>(k, v). put_setting k v) es (put_setting (fst e) (snd e) m) j =
      put_setting (fst e) (snd e) m j"
    using Cons.prems by (intro Cons.IH) auto
  also have "\<dots> = m j" using Cons.prems by (auto simp: put_setting_apply)
  finally show ?case by (simp add: split_def)
qed simp

lemma settings_plain:
  assumes "distinct (map fst es)" "j \<notin> {''accesskey'', ''secretkey''}"
  shows "fold (\<lambda>(k, v). put_setting k v) es m j =
    (case map_of es j of None \<Rightarrow> m j | Some v \<Rightarrow> Some v)"
  using assms
proof (induction es arbitrary: m)
  case (Cons e es)
  have "map_of es (fst e) = None" using Cons.prems by (simp add: map_of_eq_None_iff)
  with Cons show ?case
    by (cases e) (auto simp: put_setting_apply split: option.splits)
qed simp

lemma settings_user:
  assumes "distinct (map fst es)" "(k, v) \<in> set es" "k \<in> set user_keys"
    and "fst ` set es \<inter> (insert ''accesskey'' (set user_keys)) = {k}"
  shows "fold (\<lambda>(k, v). put_setting k v) es m ''accesskey'' = Some v"
proof -
  obtain xs ys where es: "es = xs @ (k, v) # ys" using split_list [OF assms(2)] by blast
  with assms(1) have "k \<notin> fst ` set ys" by auto
  then have "fst ` set ys \<inter> (insert ''accesskey'' (set user_keys)) = {}"
    using assms(4) by (auto simp: es)
  then have "fold (\<lambda>(k, v). put_setting k v) ys m1 ''accesskey'' = m1 ''accesskey''" for m1
    by (intro settings_absent) auto
  with assms(3) show ?thesis by (simp add: es put_setting_apply)
qed

lemma settings_password:
  assumes "distinct (map fst es)" "(k, v) \<in> set es" "k \<in> set password_keys"
    and "fst ` set es \<inter> (insert ''secretkey'' (set password_keys)) = {k}"
  shows "fold (\<lambda>(k, v). put_setting k v) es m ''secretkey'' = Some v"
proof -
  obtain xs ys where es: "es = xs @ (k, v) # ys" using split_list [OF assms(2)] by blast
  with assms(1) have "k \<notin> fst ` set ys" by auto
  then have "fst ` set ys \<inter> (insert ''secretkey'' (set password_keys)) = {}"
    using assms(4) by (auto simp: es)
  then have "fold (\<lambda>(k, v). put_setting k v) ys m1 ''secretkey'' = m1 ''secretkey''" for m1
    by (intro settings_absent) auto
  moreover have "''secretkey'' \<noteq> ''accesskey''" by simp
  ultimately show ?thesis using assms(3) by (simp add: es put_setting_apply)
qed

section \<open>Comparing containers\<close>

lemma IsEnvUpdated_iff [simp]: "IsEnvUpdated old new \<longleftrightarrow> old \<noteq> new"
  by (auto simp: IsEnvUpdated_def)

lemma env_table_snoc [simp]: "env_table (cs @ [c]) = (env_table cs)(cont_Name c \<mapsto> cont_Env c)"
  by (simp add: env_table_def)

lemma env_table_Nil [simp]: "env_table [] = Map.empty"
  by (simp add: env_table_def)

lemma env_table_eq:
  assumes "distinct (map cont_Name cs)"
  shows "env_table cs n = Some e \<longleftrightarrow> (\<exists>c \<in> set cs. cont_Name c = n \<and> cont_Env c = e)"
  using assms by (induction cs rule: rev_induct) (auto simp: image_iff)

lemma env_table_None: "env_table cs n = None \<longleftrightarrow> n \<notin> cont_Name ` set cs"
  by (induction cs rule: rev_induct) auto

text \<open>The value a list of environment variables gives a name: that of the last entry.\<close>

definition env_value :: "env_var list \<Rightarrow> string \<Rightarrow> string option" where
  "env_value envs = map_of (rev (map (\<lambda>e. (env_Name e, env_Value e)) envs))"

lemma ToMap_lookup: "fmlookup (the (ToMap envs)) n = env_value envs n"
  by (induction envs rule: rev_induct) (auto simp: ToMap_def env_value_def)

lemma ToMap_eq_iff: "ToMap a = ToMap b \<longleftrightarrow> (\<forall>n. env_value a n = env_value b n)"
proof
  assume "\<forall>n. env_value a n = env_value b n"
  then have "the (ToMap a) = the (ToMap b)" by (intro fmap_ext) (simp add: ToMap_lookup)
  then show "ToMap a = ToMap b" by (simp add: ToMap_def)
qed (simp add: ToMap_lookup [symmetric])

section \<open>Properties\<close>

text \<open>
  C36: a configuration file the operator writes is read back. Whatever the order in which the
  settings are written, when the names are environment variable names and no value contains a
  newline, every setting has its value, and the root user and the root password are also found
  under \<open>accesskey\<close> and \<open>secretkey\<close> when each is set under one name.\<close>
theorem configuration_roundtrip:
  assumes "distinct (map fst es)" and "\<forall>kv \<in> set es. writable kv"
  shows "(\<forall>j. j \<notin> {''accesskey'', ''secretkey''} \<longrightarrow>
      ParseRawConfiguration (Some (GenerateTenantConfigurationFile es)) j = map_of es j) \<and>
    (\<forall>k v. (k, v) \<in> set es \<and> k \<in> set user_keys \<and>
      fst ` set es \<inter> insert ''accesskey'' (set user_keys) = {k} \<longrightarrow>
      ParseRawConfiguration (Some (GenerateTenantConfigurationFile es)) ''accesskey'' = Some v) \<and>
    (\<forall>k v. (k, v) \<in> set es \<and> k \<in> set password_keys \<and>
      fst ` set es \<inter> insert ''secretkey'' (set password_keys) = {k} \<longrightarrow>
      ParseRawConfiguration (Some (GenerateTenantConfigurationFile es)) ''secretkey'' = Some v)"
  unfolding parse_generated [OF assms(2)]
proof (intro conjI allI impI)
  fix j assume "j \<notin> {''accesskey'', ''secretkey''}"
  from settings_plain [OF assms(1) this, of Map.empty]
  show "fold (\<lambda>(k, v). put_setting k v) es Map.empty j = map_of es j"
    by (simp split: option.splits)
next
  fix k v
  assume "(k, v) \<in> set es \<and> k \<in> set user_keys \<and>
      fst ` set es \<inter> insert ''accesskey'' (set user_keys) = {k}"
  then show "fold (\<lambda>(k, v). put_setting k v) es Map.empty ''accesskey'' = Some v"
    using settings_user [OF assms(1)] by blast
next
  fix k v
  assume "(k, v) \<in> set es \<and> k \<in> set password_keys \<and>
      fst ` set es \<inter> insert ''secretkey'' (set password_keys) = {k}"
  then show "fold (\<lambda>(k, v). put_setting k v) es Map.empty ''secretkey'' = Some v"
    using settings_password [OF assms(1)] by blast
qed

theorem configuration_roundtrip_witness:
  "ParseRawConfiguration (Some (GenerateTenantConfigurationFile
      [(''MINIO_ROOT_USER'', ''u''), (''MINIO_ROOT_PASSWORD'', ''p w'')])) ''accesskey'' = Some ''u'' \<and>
   ParseRawConfiguration (Some (GenerateTenantConfigurationFile
      [(''MINIO_ROOT_USER'', ''u''), (''MINIO_ROOT_PASSWORD'', ''p w'')])) ''secretkey'' = Some ''p w''"
proof -
  let ?es = "[(''MINIO_ROOT_USER'', ''u''), (''MINIO_ROOT_PASSWORD'', ''p w'')]"
  have w: "\<forall>kv \<in> set ?es. writable kv"
    by (simp add: writable_def env_name_def max_token_def) (simp add: alphanum_def code_def)
  have d: "distinct (map fst ?es)" by simp
  have u: "fst ` set ?es \<inter> insert ''accesskey'' (set user_keys) = {''MINIO_ROOT_USER''}"
    "fst ` set ?es \<inter> insert ''secretkey'' (set password_keys) = {''MINIO_ROOT_PASSWORD''}"
    by (auto simp: user_keys_def password_keys_def)
  have k: "''MINIO_ROOT_USER'' \<in> set user_keys" "''MINIO_ROOT_PASSWORD'' \<in> set password_keys"
    by (simp_all add: user_keys_def password_keys_def)
  have m: "(''MINIO_ROOT_USER'', ''u'') \<in> set ?es" "(''MINIO_ROOT_PASSWORD'', ''p w'') \<in> set ?es"
    by simp_all
  show ?thesis using configuration_roundtrip [OF d w] m k u by blast
qed

text \<open>
  A value that contains a quote and a newline writes settings of its own: the file of one
  such setting is, byte for byte, the file of two settings, so the reader cannot tell them apart.\<close>
theorem configuration_injection:
  "GenerateTenantConfigurationFile
     [(k, a @ [CHR 0x22] @ newline @ ''export '' @ k2 @ [CHR ''='', CHR 0x22] @ b)] =
   GenerateTenantConfigurationFile [(k, a), (k2, b)]"
  by (simp add: GenerateTenantConfigurationFile_def config_line_def)

text \<open>
  With one container per name, the comparison reports no change exactly when every expected
  container exists and its variables have the same values, the last entry of a name counting.
  A container that is no longer expected is therefore no change.\<close>
theorem container_env_change:
  assumes "distinct (map cont_Name existing)" and "distinct (map cont_Name expected)"
  shows "\<not> IsContainersEnvUpdated existing expected \<longleftrightarrow>
    (\<forall>c \<in> set expected. \<exists>e \<in> set existing. cont_Name e = cont_Name c \<and>
       (\<forall>n. env_value (cont_Env e) n = env_value (cont_Env c) n))"
proof -
  have "(case env_table existing (cont_Name c) of None \<Rightarrow> True
        | Some env \<Rightarrow> IsEnvUpdated (ToMap env)
            (ToMap (case env_table expected (cont_Name c) of None \<Rightarrow> [] | Some e \<Rightarrow> e))) \<longleftrightarrow>
      \<not> (\<exists>e \<in> set existing. cont_Name e = cont_Name c \<and>
        (\<forall>n. env_value (cont_Env e) n = env_value (cont_Env c) n))" if c: "c \<in> set expected" for c
  proof -
    have x: "env_table expected (cont_Name c) = Some (cont_Env c)"
      using c env_table_eq [OF assms(2)] by blast
    show ?thesis
    proof (cases "env_table existing (cont_Name c)")
      case None
      then have "cont_Name c \<notin> cont_Name ` set existing" by (simp add: env_table_None)
      then have "cont_Name e \<noteq> cont_Name c" if "e \<in> set existing" for e
        using that by (metis image_eqI)
      with None show ?thesis by auto
    next
      case (Some env)
      then obtain e where e: "e \<in> set existing" "cont_Name e = cont_Name c" "cont_Env e = env"
        using env_table_eq [OF assms(1)] by blast
      have uniq: "e1 = e" if "e1 \<in> set existing" "cont_Name e1 = cont_Name c" for e1
        using assms(1) that e(1,2) by (metis distinct_map inj_onD)
      then have "(\<exists>e1 \<in> set existing. cont_Name e1 = cont_Name c \<and>
          (\<forall>n. env_value (cont_Env e1) n = env_value (cont_Env c) n)) \<longleftrightarrow> ToMap env = ToMap (cont_Env c)"
        unfolding ToMap_eq_iff using uniq e(1,2) e(3) [symmetric] by blast
      with Some x show ?thesis by simp
    qed
  qed
  then show ?thesis by (auto simp: IsContainersEnvUpdated_def Let_def list_ex_iff)
qed

theorem container_env_change_witness:
  "\<not> IsContainersEnvUpdated
     [\<lparr>cont_Name = ''minio'', cont_Env = []\<rparr>, \<lparr>cont_Name = ''old'', cont_Env = []\<rparr>]
     [\<lparr>cont_Name = ''minio'', cont_Env = []\<rparr>]"
  using container_env_change [of
      "[\<lparr>cont_Name = ''minio'', cont_Env = []\<rparr>, \<lparr>cont_Name = ''old'', cont_Env = []\<rparr>]"
      "[\<lparr>cont_Name = ''minio'', cont_Env = []\<rparr>]"]
  by simp

end
