(* ===== verification/TenantNames.thy ===== *)
theory TenantNames
  imports TenantTypes Scanning
begin

text \<open>
  Names of a MinIO tenant's resources, \<open>pkg/minio/operator/apis/minio.min.io/v2/names.go\<close> and
  \<open>labels.go\<close>, the constants of \<open>constants.go\<close> they use, and the settings \<open>helper.go\<close> reads once
  from the process environment.

  The environment is a function; it is \<open>E\<close> in the functions below. The getters of \<open>helper.go\<close>
  guard their variable with a \<open>sync.Once\<close>: \<open>once_vars\<close> is the state of those variables, \<open>None\<close>
  before the first call. The locale \<open>once_cell\<close> shows that the value of the first call stays,
  whatever happens to the environment later, which is why the rest of the model reads the
  settings off the environment directly.
\<close>

section \<open>Constants\<close>

definition MinIOCRDResourceKind :: string where "MinIOCRDResourceKind = ''Tenant''"
definition CSRNameSuffix :: string where "CSRNameSuffix = ''-csr''"
definition TenantLabel :: string where "TenantLabel = ''v1.min.io/tenant''"
definition MinIOVolumeMountPath :: string where "MinIOVolumeMountPath = ''/export''"
definition DefaultMinIOImage :: string where "DefaultMinIOImage = ''minio/minio:RELEASE.2023-10-07T15-07-38Z''"
definition MinIOHLSvcNameSuffix :: string where "MinIOHLSvcNameSuffix = ''-hl''"
definition TenantConfigurationSecretSuffix :: string where "TenantConfigurationSecretSuffix = ''-configuration''"
definition ConsoleTenantLabel :: string where "ConsoleTenantLabel = ''v1.min.io/console''"
definition ConsoleName :: string where "ConsoleName = ''-console''"
definition ConsoleAdminPolicyName :: string where "ConsoleAdminPolicyName = ''consoleAdmin''"
definition DefaultKESImage :: string where "DefaultKESImage = ''minio/kes:2023-10-03T00-48-37Z''"
definition KESInstanceLabel :: string where "KESInstanceLabel = ''v1.min.io/kes''"
definition KESMinIOKey :: string where "KESMinIOKey = ''my-minio-key''"
definition KESHLSvcNameSuffix :: string where "KESHLSvcNameSuffix = ''-kes-hl-svc''"
definition KESName :: string where "KESName = ''-kes''"
definition TLSSecretSuffix :: string where "TLSSecretSuffix = ''-tls''"
definition clusterDomain :: string where "clusterDomain = ''CLUSTER_DOMAIN''"
definition StatefulSetPrefix :: string where "StatefulSetPrefix = ''ss''"
definition StatefulSetLegacyPrefix :: string where "StatefulSetLegacyPrefix = ''zone''"
definition tenantMinIOImageEnv :: string where "tenantMinIOImageEnv = ''TENANT_MINIO_IMAGE''"
definition tenantKesImageEnv :: string where "tenantKesImageEnv = ''TENANT_KES_IMAGE''"
definition monitoringIntervalEnv :: string where "monitoringIntervalEnv = ''MONITORING_INTERVAL''"
definition PrometheusNamespace :: string where "PrometheusNamespace = ''PROMETHEUS_NAMESPACE''"
definition PrometheusName :: string where "PrometheusName = ''PROMETHEUS_NAME''"
definition DefaultPrometheusNamespace :: string where "DefaultPrometheusNamespace = ''default''"
definition DefaultPodManagementPolicy :: string where "DefaultPodManagementPolicy = ''Parallel''"
definition DefaultImagePullPolicy :: string where "DefaultImagePullPolicy = ''IfNotPresent''"
definition MinIOVolumeSubPath :: string where "MinIOVolumeSubPath = []"
definition DefaultOrgName :: "string list" where "DefaultOrgName = [''system:nodes'']"
definition MinIOPortLoadBalancerSVC :: int where "MinIOPortLoadBalancerSVC = 80"
definition MinIOTLSPortLoadBalancerSVC :: int where "MinIOTLSPortLoadBalancerSVC = 443"
definition KESPort :: int where "KESPort = 7373"
definition DefaultMonitoringInterval :: int where "DefaultMonitoringInterval = 3"
definition DefaultKESReplicas :: int32 where "DefaultKESReplicas = 2"

section \<open>Settings from the environment\<close>

type_synonym process_env = "string \<Rightarrow> string option"

definition envGet :: "process_env \<Rightarrow> string \<Rightarrow> string \<Rightarrow> string" where
  "envGet E key defaultValue = (case E key of Some v \<Rightarrow> v | None \<Rightarrow> defaultValue)"

definition ClusterDomainOf :: "process_env \<Rightarrow> string" where
  "ClusterDomainOf E = envGet E clusterDomain ''cluster.local''"

definition TenantMinIOImageOf :: "process_env \<Rightarrow> string" where
  "TenantMinIOImageOf E = envGet E tenantMinIOImageEnv DefaultMinIOImage"

definition TenantKesImageOf :: "process_env \<Rightarrow> string" where
  "TenantKesImageOf E = envGet E tenantKesImageEnv DefaultKESImage"

definition MonitoringIntervalOf :: "process_env \<Rightarrow> int" where
  "MonitoringIntervalOf E =
     (case parse_int (envGet E monitoringIntervalEnv []) 10 of
        Inl err \<Rightarrow> DefaultMonitoringInterval
      | Inr val \<Rightarrow> val)"

definition PrometheusNamespaceOf :: "process_env \<Rightarrow> string" where
  "PrometheusNamespaceOf E = envGet E PrometheusNamespace DefaultPrometheusNamespace"

definition PrometheusNameOf :: "process_env \<Rightarrow> string" where
  "PrometheusNameOf E = envGet E PrometheusName []"

record once_vars =
  ov_k8sClusterDomain :: "string option"
  ov_tenantMinIOImage :: "string option"
  ov_tenantKesImage :: "string option"
  ov_monitoringInterval :: "int option"
  ov_prometheusNamespace :: "string option"
  ov_prometheusName :: "string option"

definition no_calls_yet :: once_vars where
  "no_calls_yet = \<lparr>ov_k8sClusterDomain = None, ov_tenantMinIOImage = None,
     ov_tenantKesImage = None, ov_monitoringInterval = None, ov_prometheusNamespace = None,
     ov_prometheusName = None\<rparr>"

text \<open>\<open>once.Do(func() { x = v }); return x\<close>.\<close>

definition once_do ::
  "('v \<Rightarrow> 'a option) \<Rightarrow> (('a option \<Rightarrow> 'a option) \<Rightarrow> 'v \<Rightarrow> 'v) \<Rightarrow> 'a \<Rightarrow> 'v \<Rightarrow> 'a \<times> 'v" where
  "once_do get upd v vars =
     (case get vars of Some x \<Rightarrow> (x, vars) | None \<Rightarrow> (v, upd (\<lambda>_. Some v) vars))"

definition GetClusterDomain_v2 :: "process_env \<Rightarrow> once_vars \<Rightarrow> string \<times> once_vars" where
  "GetClusterDomain_v2 E = once_do ov_k8sClusterDomain ov_k8sClusterDomain_update (ClusterDomainOf E)"

definition GetTenantMinIOImage :: "process_env \<Rightarrow> once_vars \<Rightarrow> string \<times> once_vars" where
  "GetTenantMinIOImage E =
     once_do ov_tenantMinIOImage ov_tenantMinIOImage_update (TenantMinIOImageOf E)"

definition GetTenantKesImage :: "process_env \<Rightarrow> once_vars \<Rightarrow> string \<times> once_vars" where
  "GetTenantKesImage E = once_do ov_tenantKesImage ov_tenantKesImage_update (TenantKesImageOf E)"

definition GetMonitoringInterval :: "process_env \<Rightarrow> once_vars \<Rightarrow> int \<times> once_vars" where
  "GetMonitoringInterval E =
     once_do ov_monitoringInterval ov_monitoringInterval_update (MonitoringIntervalOf E)"

definition GetPrometheusNamespace :: "process_env \<Rightarrow> once_vars \<Rightarrow> string \<times> once_vars" where
  "GetPrometheusNamespace E =
     once_do ov_prometheusNamespace ov_prometheusNamespace_update (PrometheusNamespaceOf E)"

definition GetPrometheusName :: "process_env \<Rightarrow> once_vars \<Rightarrow> string \<times> once_vars" where
  "GetPrometheusName E = once_do ov_prometheusName ov_prometheusName_update (PrometheusNameOf E)"

section \<open>Names\<close>

text \<open>\<open>fmt.Sprintf("%s.%s.svc.%s", ...)\<close>: the host of a service in the tenant's namespace.\<close>

definition svc_host :: "process_env \<Rightarrow> Tenant \<Rightarrow> string \<Rightarrow> string" where
  "svc_host E t name = name @ ''.'' @ om_Namespace (t_Meta t) @ ''.svc.'' @ ClusterDomainOf E"

abbreviation tenant_name :: "Tenant \<Rightarrow> string" where
  "tenant_name t \<equiv> om_Name (t_Meta t)"

abbreviation tenant_namespace :: "Tenant \<Rightarrow> string" where
  "tenant_namespace t \<equiv> om_Namespace (t_Meta t)"

definition MinIOStatefulSetNameForPool :: "Tenant \<Rightarrow> Pool \<Rightarrow> string" where
  "MinIOStatefulSetNameForPool t z = tenant_name t @ ''-'' @ pool_Name z"

definition MinIOTLSSecretName :: "Tenant \<Rightarrow> string" where
  "MinIOTLSSecretName t = tenant_name t @ TLSSecretSuffix"

definition MinIOClientTLSSecretName :: "Tenant \<Rightarrow> string" where
  "MinIOClientTLSSecretName t = tenant_name t @ ''-client'' @ TLSSecretSuffix"

definition MinIOHLServiceName :: "Tenant \<Rightarrow> string" where
  "MinIOHLServiceName t = tenant_name t @ MinIOHLSvcNameSuffix"

definition MinIOWildCardName :: "process_env \<Rightarrow> Tenant \<Rightarrow> string" where
  "MinIOWildCardName E t = ''*.'' @ svc_host E t (MinIOHLServiceName t)"

definition MinIOCIServiceName :: "Tenant \<Rightarrow> string" where
  "MinIOCIServiceName t = ''minio''"

definition MinIOBucketBaseDomain :: "process_env \<Rightarrow> Tenant \<Rightarrow> string" where
  "MinIOBucketBaseDomain E t = tenant_namespace t @ ''.svc.'' @ ClusterDomainOf E"

definition MinIOHLPodHostname :: "process_env \<Rightarrow> Tenant \<Rightarrow> string \<Rightarrow> string" where
  "MinIOHLPodHostname E t podName = podName @ ''.'' @ svc_host E t (MinIOHLServiceName t)"

definition MinIOBucketBaseWildcardDomain :: "process_env \<Rightarrow> Tenant \<Rightarrow> string" where
  "MinIOBucketBaseWildcardDomain E t = ''*.'' @ tenant_namespace t @ ''.svc.'' @ ClusterDomainOf E"

definition MinIOFQDNServiceName :: "process_env \<Rightarrow> Tenant \<Rightarrow> string" where
  "MinIOFQDNServiceName E t = svc_host E t (MinIOCIServiceName t)"

definition MinIOFQDNServiceNameAndNamespace :: "Tenant \<Rightarrow> string" where
  "MinIOFQDNServiceNameAndNamespace t = MinIOCIServiceName t @ ''.'' @ tenant_namespace t"

definition MinIOFQDNShortServiceName :: "Tenant \<Rightarrow> string" where
  "MinIOFQDNShortServiceName t = MinIOFQDNServiceNameAndNamespace t @ ''.svc''"

definition MinIOCSRName :: "Tenant \<Rightarrow> string" where
  "MinIOCSRName t = tenant_name t @ ''-'' @ tenant_namespace t @ CSRNameSuffix"

definition MinIOClientCSRName :: "Tenant \<Rightarrow> string" where
  "MinIOClientCSRName t = tenant_name t @ ''-client-'' @ tenant_namespace t @ CSRNameSuffix"

definition KESJobName :: "Tenant \<Rightarrow> string" where
  "KESJobName t = tenant_name t @ KESName"

definition KESStatefulSetName :: "Tenant \<Rightarrow> string" where
  "KESStatefulSetName t = tenant_name t @ KESName"

definition KESHLServiceName :: "Tenant \<Rightarrow> string" where
  "KESHLServiceName t = tenant_name t @ KESHLSvcNameSuffix"

definition KESVolMountName :: "Tenant \<Rightarrow> string" where
  "KESVolMountName t = tenant_name t @ KESName"

definition KESWildCardName :: "process_env \<Rightarrow> Tenant \<Rightarrow> string" where
  "KESWildCardName E t = ''*.'' @ svc_host E t (KESHLServiceName t)"

definition KESTLSSecretName :: "Tenant \<Rightarrow> string" where
  "KESTLSSecretName t = KESStatefulSetName t @ TLSSecretSuffix"

definition KESCSRName :: "Tenant \<Rightarrow> string" where
  "KESCSRName t = KESStatefulSetName t @ ''-'' @ tenant_namespace t @ CSRNameSuffix"

definition ConsoleDeploymentName :: "Tenant \<Rightarrow> string" where
  "ConsoleDeploymentName t = tenant_name t @ ConsoleName"

definition ConsoleCIServiceName :: "Tenant \<Rightarrow> string" where
  "ConsoleCIServiceName t = tenant_name t @ ConsoleName"

definition PoolStatefulsetName :: "Tenant \<Rightarrow> Pool \<Rightarrow> string" where
  "PoolStatefulsetName t pool = tenant_name t @ ''-'' @ pool_Name pool"

definition LegacyStatefulsetName :: "Tenant \<Rightarrow> Pool \<Rightarrow> string" where
  "LegacyStatefulsetName t pool = tenant_name t @ ''-'' @
     replace_first StatefulSetPrefix StatefulSetLegacyPrefix (pool_Name pool)"

definition ConsoleVolMountName :: "Tenant \<Rightarrow> string" where
  "ConsoleVolMountName t = tenant_name t @ ConsoleName"

definition ConsoleCommonName :: "process_env \<Rightarrow> Tenant \<Rightarrow> string" where
  "ConsoleCommonName E t = svc_host E t (ConsoleCIServiceName t)"

definition ConsoleTLSSecretName :: "Tenant \<Rightarrow> string" where
  "ConsoleTLSSecretName t = ConsoleDeploymentName t @ TLSSecretSuffix"

definition ConsoleCSRName :: "Tenant \<Rightarrow> string" where
  "ConsoleCSRName t = ConsoleDeploymentName t @ ''-'' @ tenant_namespace t @ CSRNameSuffix"

definition ConfigurationSecretName :: "Tenant \<Rightarrow> string" where
  "ConfigurationSecretName t = tenant_name t @ TenantConfigurationSecretSuffix"

definition PrometheusOperatorAddlConfigJobName :: "Tenant \<Rightarrow> string" where
  "PrometheusOperatorAddlConfigJobName t = tenant_name t @ ''-minio-job''"

definition PrometheusConfigJobName :: "Tenant \<Rightarrow> string" where
  "PrometheusConfigJobName t = (if ts_PrometheusOperator (t_Spec t) then PrometheusOperatorAddlConfigJobName t
     else ''minio-job'')"

definition PrometheusConfigMapName :: "Tenant \<Rightarrow> string" where
  "PrometheusConfigMapName t = tenant_name t @ ''-'' @ ''prometheus-config-map''"

definition GetRoleName :: "Tenant \<Rightarrow> string" where
  "GetRoleName t = tenant_name t @ ''-role''"

definition GetBindingName :: "Tenant \<Rightarrow> string" where
  "GetBindingName t = tenant_name t @ ''-binding''"

definition MinIOPodLabels :: "Tenant \<Rightarrow> (string, string) gomap" where
  "MinIOPodLabels t = Some [TenantLabel \<mapsto> tenant_name t]"

definition KESPodLabels :: "Tenant \<Rightarrow> (string, string) gomap" where
  "KESPodLabels t = Some [KESInstanceLabel \<mapsto> KESStatefulSetName t]"

definition ConsolePodLabels :: "Tenant \<Rightarrow> (string, string) gomap" where
  "ConsolePodLabels t = Some [ConsoleTenantLabel \<mapsto> ConsoleDeploymentName t]"

lemmas tenant_name_defs [name_defs] =
  MinIOHLSvcNameSuffix_def KESName_def KESHLSvcNameSuffix_def ConsoleName_def TLSSecretSuffix_def
  CSRNameSuffix_def TenantConfigurationSecretSuffix_def
  MinIOTLSSecretName_def MinIOClientTLSSecretName_def MinIOHLServiceName_def KESStatefulSetName_def
  KESHLServiceName_def KESTLSSecretName_def KESCSRName_def ConsoleDeploymentName_def
  ConsoleCIServiceName_def ConsoleTLSSecretName_def ConsoleCSRName_def ConfigurationSecretName_def
  MinIOCSRName_def MinIOClientCSRName_def

section \<open>A variable that is set once\<close>

locale once_cell =
  fixes cell :: "'v \<Rightarrow> 'a option"
    and getter :: "process_env \<Rightarrow> 'v \<Rightarrow> 'a \<times> 'v"
    and of_env :: "process_env \<Rightarrow> 'a"
    and step :: "'c \<Rightarrow> 'v \<Rightarrow> 'v"
  assumes answer: "fst (getter E v) = (case cell v of None \<Rightarrow> of_env E | Some x \<Rightarrow> x)"
    and stored: "cell (snd (getter E v)) = Some (fst (getter E v))"
    and kept: "cell v = Some x \<Longrightarrow> cell (step c v) = Some x"
begin

lemma kept_steps: "cell v = Some x \<Longrightarrow> cell (fold step cs v) = Some x"
  by (induction cs arbitrary: v) (simp_all add: kept)

lemma first_call_counts:
  "cell v = None \<Longrightarrow> fst (getter E2 (fold step cs (snd (getter E1 v)))) = of_env E1"
proof -
  assume "cell v = None"
  then have "cell (snd (getter E1 v)) = Some (of_env E1)" by (simp add: stored answer)
  then have "cell (fold step cs (snd (getter E1 v))) = Some (of_env E1)" by (rule kept_steps)
  then show ?thesis by (simp add: answer)
qed

end

text \<open>A call of any getter, at a moment when the environment is \<open>E\<close>.\<close>

datatype once_call = CallDomain | CallImage | CallKes | CallInterval | CallNamespace | CallName

fun call_step :: "once_call \<times> process_env \<Rightarrow> once_vars \<Rightarrow> once_vars" where
  "call_step (CallDomain, E) v = snd (GetClusterDomain_v2 E v)"
| "call_step (CallImage, E) v = snd (GetTenantMinIOImage E v)"
| "call_step (CallKes, E) v = snd (GetTenantKesImage E v)"
| "call_step (CallInterval, E) v = snd (GetMonitoringInterval E v)"
| "call_step (CallNamespace, E) v = snd (GetPrometheusNamespace E v)"
| "call_step (CallName, E) v = snd (GetPrometheusName E v)"

lemmas getter_defs = GetClusterDomain_v2_def GetTenantMinIOImage_def GetTenantKesImage_def
  GetMonitoringInterval_def GetPrometheusNamespace_def GetPrometheusName_def once_do_def

lemma call_step_keeps:
  "ov_k8sClusterDomain v = Some x \<Longrightarrow> ov_k8sClusterDomain (call_step c v) = Some x"
  "ov_tenantMinIOImage v = Some x \<Longrightarrow> ov_tenantMinIOImage (call_step c v) = Some x"
  "ov_tenantKesImage v = Some x \<Longrightarrow> ov_tenantKesImage (call_step c v) = Some x"
  "ov_monitoringInterval v = Some i \<Longrightarrow> ov_monitoringInterval (call_step c v) = Some i"
  "ov_prometheusNamespace v = Some x \<Longrightarrow> ov_prometheusNamespace (call_step c v) = Some x"
  "ov_prometheusName v = Some x \<Longrightarrow> ov_prometheusName (call_step c v) = Some x"
  by (cases "(c, v)" rule: call_step.cases; simp add: getter_defs split: option.splits)+

interpretation domain: once_cell ov_k8sClusterDomain GetClusterDomain_v2 ClusterDomainOf call_step
  by unfold_locales (auto simp: getter_defs call_step_keeps split: option.splits)

interpretation image: once_cell ov_tenantMinIOImage GetTenantMinIOImage TenantMinIOImageOf call_step
  by unfold_locales (auto simp: getter_defs call_step_keeps split: option.splits)

interpretation kes_image: once_cell ov_tenantKesImage GetTenantKesImage TenantKesImageOf call_step
  by unfold_locales (auto simp: getter_defs call_step_keeps split: option.splits)

interpretation interval: once_cell ov_monitoringInterval GetMonitoringInterval MonitoringIntervalOf call_step
  by unfold_locales (auto simp: getter_defs call_step_keeps split: option.splits)

interpretation prom_namespace: once_cell ov_prometheusNamespace GetPrometheusNamespace
  PrometheusNamespaceOf call_step
  by unfold_locales (auto simp: getter_defs call_step_keeps split: option.splits)

interpretation prom_name: once_cell ov_prometheusName GetPrometheusName PrometheusNameOf call_step
  by unfold_locales (auto simp: getter_defs call_step_keeps split: option.splits)

section \<open>Properties\<close>

text \<open>
  The settings read through \<open>sync.Once\<close> are those of the environment at the first call: after
  any calls of any getters under any later environments, each getter still answers what the
  environment of its first call gives.\<close>
theorem settings_read_once:
  "fst (GetClusterDomain_v2 E2 (fold call_step cs (snd (GetClusterDomain_v2 E1 no_calls_yet)))) =
     ClusterDomainOf E1 \<and>
   fst (GetTenantMinIOImage E2 (fold call_step cs (snd (GetTenantMinIOImage E1 no_calls_yet)))) =
     TenantMinIOImageOf E1 \<and>
   fst (GetTenantKesImage E2 (fold call_step cs (snd (GetTenantKesImage E1 no_calls_yet)))) =
     TenantKesImageOf E1 \<and>
   fst (GetMonitoringInterval E2 (fold call_step cs (snd (GetMonitoringInterval E1 no_calls_yet)))) =
     MonitoringIntervalOf E1"
  by (intro conjI domain.first_call_counts image.first_call_counts kes_image.first_call_counts
      interval.first_call_counts) (simp_all add: no_calls_yet_def)

end
