(* ===== verification/TenantHelpers.thy ===== *)
theory TenantHelpers
  imports TenantNames
begin

text \<open>
  The methods of a MinIO tenant in \<open>pkg/minio/operator/apis/minio.min.io/v2/helper.go\<close> that read
  its specification: which certificates and features it has, and the hosts, addresses and paths
  derived from it. A method that dereferences a nil pointer or indexes an
  empty slice panics, which is \<open>None\<close>. The templates of \<open>text/template\<close> are a parameter: what
  parsing one gives, and what executing it on the values of a pool gives.
\<close>

section \<open>What the specification asks for\<close>

definition genEllipsis :: "int \<Rightarrow> int \<Rightarrow> string" where
  "genEllipsis start_at end_at = ''{'' @ itoa start_at @ ''...'' @ itoa end_at @ ''}''"

definition named :: "string option \<Rightarrow> bool" where
  "named r \<longleftrightarrow> (case r of None \<Rightarrow> False | Some n \<Rightarrow> n \<noteq> [])"

definition named_cert :: "LocalCertificateReference option \<Rightarrow> bool" where
  "named_cert r \<longleftrightarrow> (case r of None \<Rightarrow> False | Some c \<Rightarrow> lcr_Name c \<noteq> [])"

definition HasCredsSecret :: "Tenant \<Rightarrow> bool" where
  "HasCredsSecret t = named (ts_CredsSecret (t_Spec t))"

definition HasConfigurationSecret :: "Tenant \<Rightarrow> bool" where
  "HasConfigurationSecret t = named (ts_Configuration (t_Spec t))"

definition HasCertConfig :: "Tenant \<Rightarrow> bool" where
  "HasCertConfig t \<longleftrightarrow> ts_CertConfig (t_Spec t) \<noteq> None"

definition ExternalCert :: "Tenant \<Rightarrow> bool" where
  "ExternalCert t \<longleftrightarrow> 0 < length (ts_ExternalCertSecret (t_Spec t))"

definition ExternalCaCerts :: "Tenant \<Rightarrow> bool" where
  "ExternalCaCerts t \<longleftrightarrow> 0 < length (ts_ExternalCaCertSecret (t_Spec t))"

definition ExternalClientCert :: "Tenant \<Rightarrow> bool" where
  "ExternalClientCert t = named_cert (ts_ExternalClientCertSecret (t_Spec t))"

definition ExternalClientCerts :: "Tenant \<Rightarrow> bool" where
  "ExternalClientCerts t \<longleftrightarrow> 0 < length (ts_ExternalClientCertSecrets (t_Spec t))"

definition KESExternalCert :: "Tenant \<Rightarrow> bool" where
  "KESExternalCert t =
     (case ts_KES (t_Spec t) of None \<Rightarrow> False | Some k \<Rightarrow> named_cert (kes_ExternalCertSecret k))"

definition KESClientCert :: "Tenant \<Rightarrow> bool" where
  "KESClientCert t =
     (case ts_KES (t_Spec t) of None \<Rightarrow> False | Some k \<Rightarrow> named_cert (kes_ClientCertSecret k))"

definition AutoCert :: "Tenant \<Rightarrow> bool" where
  "AutoCert t = (case ts_RequestAutoCert (t_Spec t) of None \<Rightarrow> True | Some b \<Rightarrow> b)"

definition TLS :: "Tenant \<Rightarrow> bool" where
  "TLS t \<longleftrightarrow> AutoCert t \<or> ExternalCert t"

definition BucketDNS :: "Tenant \<Rightarrow> bool" where
  "BucketDNS t = (case ts_Features (t_Spec t) of None \<Rightarrow> False | Some f \<Rightarrow> ft_BucketDNS f)"

definition HasKESEnabled :: "Tenant \<Rightarrow> bool" where
  "HasKESEnabled t \<longleftrightarrow> ts_KES (t_Spec t) \<noteq> None"

definition HasPrometheusOperatorEnabled :: "Tenant \<Rightarrow> bool" where
  "HasPrometheusOperatorEnabled t = ts_PrometheusOperator (t_Spec t)"

definition HasGCPCredentialSecretForKES :: "Tenant \<Rightarrow> bool" where
  "HasGCPCredentialSecretForKES t =
     (case ts_KES (t_Spec t) of None \<Rightarrow> False | Some k \<Rightarrow> kes_GCPCredentialSecretName k \<noteq> [])"

definition HasGCPWorkloadIdentityPoolForKES :: "Tenant \<Rightarrow> bool" where
  "HasGCPWorkloadIdentityPoolForKES t =
     (case ts_KES (t_Spec t) of None \<Rightarrow> False | Some k \<Rightarrow> kes_GCPWorkloadIdentityPool k \<noteq> [])"

definition KESReplicas :: "Tenant \<Rightarrow> int32" where
  "KESReplicas t =
     (case ts_KES (t_Spec t) of
        None \<Rightarrow> 0
      | Some k \<Rightarrow> if kes_Replicas k \<noteq> 0 then kes_Replicas k else 0)"

definition GetEnvVars :: "Tenant \<Rightarrow> env_var list" where
  "GetEnvVars t = ts_Env (t_Spec t)"

definition gcpAppCredentialENV :: env_var where
  "gcpAppCredentialENV = \<lparr>env_Name = ''GOOGLE_APPLICATION_CREDENTIALS'',
     env_Value = ''/var/run/secrets/tokens/gcp-ksa/google-application-credentials.json''\<rparr>"

definition GetKESEnvVars :: "Tenant \<Rightarrow> env_var list" where
  "GetKESEnvVars t =
     (case ts_KES (t_Spec t) of
        None \<Rightarrow> []
      | Some k \<Rightarrow>
          if HasGCPCredentialSecretForKES t then kes_Env k @ [gcpAppCredentialENV] else kes_Env k)"

definition HasEnv :: "Tenant \<Rightarrow> string \<Rightarrow> bool" where
  "HasEnv t envName = list_ex (\<lambda>env. env_Name env = envName) (ts_Env (t_Spec t))"

definition HasMinIODomains :: "Tenant \<Rightarrow> bool" where
  "HasMinIODomains t =
     (case ts_Features (t_Spec t) of
        None \<Rightarrow> False
      | Some f \<Rightarrow> (case ft_Domains f of None \<Rightarrow> False | Some d \<Rightarrow> 0 < length (td_Minio d)))"

definition HasConsoleDomains :: "Tenant \<Rightarrow> bool" where
  "HasConsoleDomains t =
     (case ts_Features (t_Spec t) of
        None \<Rightarrow> False
      | Some f \<Rightarrow> (case ft_Domains f of None \<Rightarrow> False | Some d \<Rightarrow> td_Console d \<noteq> []))"

section \<open>Paths and hosts\<close>

definition pools_of :: "Tenant \<Rightarrow> Pool list" where
  "pools_of t = (case ts_Pools (t_Spec t) of None \<Rightarrow> [] | Some ps \<Rightarrow> ps)"

definition VolumePathForPool :: "Tenant \<Rightarrow> Pool \<Rightarrow> string" where
  "VolumePathForPool t pool =
     (if pool_VolumesPerServer pool = 1
      then path_join_root [ts_Mountpath (t_Spec t), ''/'', ts_Subpath (t_Spec t)]
      else path_join_root
             [ts_Mountpath (t_Spec t) @ genEllipsis 0 (sint (pool_VolumesPerServer pool - 1)), ''/'',
              ts_Subpath (t_Spec t)])"

definition host_of_pool :: "process_env \<Rightarrow> Tenant \<Rightarrow> nat \<Rightarrow> Pool \<Rightarrow> string" where
  "host_of_pool E t pi pool =
     (let ssName = (if pi < length (tst_Pools (t_Status t)) then ps_SSName (tst_Pools (t_Status t) ! pi)
                    else PoolStatefulsetName t pool);
          range = (if pool_Servers pool = 1 then ''0''
                   else genEllipsis 0 (sint (pool_Servers pool) - 1))
      in ssName @ ''-'' @ range @ ''.'' @ svc_host E t (MinIOHLServiceName t))"

definition MinIOHosts :: "process_env \<Rightarrow> Tenant \<Rightarrow> string list" where
  "MinIOHosts E t = map (\<lambda>(pi, pool). host_of_pool E t pi pool) (enumerate 0 (pools_of t))"

record hostsTemplateValues =
  htv_StatefulSet :: string
  htv_CIService :: string
  htv_HLService :: string
  htv_Ellipsis :: string
  htv_Domain :: string

type_synonym template = "hostsTemplateValues \<Rightarrow> go_error + string"

fun templated_hosts ::
  "process_env \<Rightarrow> Tenant \<Rightarrow> template \<Rightarrow> int32 \<Rightarrow> int32 \<Rightarrow> Pool list \<Rightarrow> string list" where
  "templated_hosts E t tmpl mx index [] = []"
| "templated_hosts E t tmpl mx index (pool # pools) =
     (let mx = mx + pool_Servers pool;
          data = \<lparr>htv_StatefulSet = MinIOStatefulSetNameForPool t pool,
                  htv_CIService = MinIOCIServiceName t,
                  htv_HLService = MinIOHLServiceName t,
                  htv_Ellipsis = genEllipsis (sint index) (sint mx - 1),
                  htv_Domain = ClusterDomainOf E\<rparr>
      in case tmpl data of
           Inl err \<Rightarrow> templated_hosts E t tmpl mx index pools
         | Inr output \<Rightarrow> output # templated_hosts E t tmpl mx mx pools)"

definition TemplatedMinIOHosts ::
  "(string \<Rightarrow> template option) \<Rightarrow> process_env \<Rightarrow> Tenant \<Rightarrow> string \<Rightarrow> string list" where
  "TemplatedMinIOHosts parse E t hostsTemplate =
     (case parse hostsTemplate of
        None \<Rightarrow> []
      | Some tmpl \<Rightarrow> templated_hosts E t tmpl 0 0 (pools_of t))"

definition MinIOEndpoints ::
  "(string \<Rightarrow> template option) \<Rightarrow> process_env \<Rightarrow> Tenant \<Rightarrow> string \<Rightarrow> string list" where
  "MinIOEndpoints parse E t hostsTemplate =
     (let hosts = (if hostsTemplate \<noteq> [] then TemplatedMinIOHosts parse E t hostsTemplate
                   else MinIOHosts E t)
      in map (\<lambda>host. if TLS t then ''https://'' @ host else ''http://'' @ host) hosts)"

definition MinIOHeadlessServiceHost :: "process_env \<Rightarrow> Tenant \<Rightarrow> string option" where
  "MinIOHeadlessServiceHost E t =
     (case pools_of t of
        [] \<Rightarrow> None
      | pool # _ \<Rightarrow>
          if pool_Servers pool = 1 then Some []
          else Some (svc_host E t (MinIOHLServiceName t)))"

definition AllMinIOHosts :: "process_env \<Rightarrow> Tenant \<Rightarrow> string list option" where
  "AllMinIOHosts E t =
     (case MinIOHeadlessServiceHost E t of
        None \<Rightarrow> None
      | Some host \<Rightarrow>
          Some [MinIOFQDNServiceName E t, MinIOFQDNServiceNameAndNamespace t,
                MinIOFQDNShortServiceName t, ''*.'' @ host])"

definition ConsoleServerHost :: "process_env \<Rightarrow> Tenant \<Rightarrow> string" where
  "ConsoleServerHost E t = svc_host E t (ConsoleCIServiceName t)"

definition KESServiceHost :: "process_env \<Rightarrow> Tenant \<Rightarrow> string" where
  "KESServiceHost E t = svc_host E t (KESHLServiceName t)"

lemma sint32_succ:
  fixes i r :: int32
  assumes "sint i < sint r"
  shows "sint (i + 1) = sint i + 1"
proof -
  have "i + 1 = word_of_int (sint i + 1)" by simp
  moreover have "sint (word_of_int (sint i + 1) :: int32) = sint i + 1"
    using assms sint32_range [of i] sint32_range [of r] by (intro sint_word32_id) auto
  ultimately show ?thesis by simp
qed

text \<open>\<open>for i < t.Spec.KES.Replicas { ...; i++ }\<close>.\<close>

function kes_pod_hosts :: "process_env \<Rightarrow> Tenant \<Rightarrow> int32 \<Rightarrow> int32 \<Rightarrow> string list" where
  "kes_pod_hosts E t i replicas =
     (if sint i < sint replicas
      then (KESStatefulSetName t @ ''-'' @ itoa (sint i) @ ''.'' @ svc_host E t (KESHLServiceName t)) #
           kes_pod_hosts E t (i + 1) replicas
      else [])"
  by pat_completeness auto

termination kes_pod_hosts
  by (relation "measure (\<lambda>(E, t, i, replicas). nat (sint replicas - sint i))")
    (auto simp: sint32_succ)

declare kes_pod_hosts.simps [simp del]

definition KESHosts :: "process_env \<Rightarrow> Tenant \<Rightarrow> string list option" where
  "KESHosts E t =
     (case ts_KES (t_Spec t) of
        None \<Rightarrow> None
      | Some k \<Rightarrow> Some (kes_pod_hosts E t 0 (kes_Replicas k) @ [KESServiceHost E t]))"

definition JoinHostPort :: "string \<Rightarrow> string \<Rightarrow> string" where
  "JoinHostPort host port =
     (if CHR '':'' \<in> set host then ''['' @ host @ '']:'' @ port else host @ '':'' @ port)"

definition KESServiceEndpoint :: "process_env \<Rightarrow> Tenant \<Rightarrow> string" where
  "KESServiceEndpoint E t =
     url_string \<lparr>url_Scheme = ''https'', url_User = None,
       url_Host = JoinHostPort (KESServiceHost E t) (itoa KESPort), url_Path = [], url_RawQuery = []\<rparr>"

definition tenant_port :: "Tenant \<Rightarrow> int" where
  "tenant_port t = (if TLS t then MinIOTLSPortLoadBalancerSVC else MinIOPortLoadBalancerSVC)"

definition MinIOHLPodAddress :: "process_env \<Rightarrow> Tenant \<Rightarrow> string \<Rightarrow> string" where
  "MinIOHLPodAddress E t podName =
     JoinHostPort (MinIOHLPodHostname E t podName) (itoa (tenant_port t))"

definition MinIOServerHostAddress :: "process_env \<Rightarrow> Tenant \<Rightarrow> string" where
  "MinIOServerHostAddress E t = JoinHostPort (MinIOFQDNServiceName E t) (itoa (tenant_port t))"

definition tenant_scheme :: "Tenant \<Rightarrow> string" where
  "tenant_scheme t = (if TLS t then ''https'' else ''http'')"

definition MinIOServerEndpoint :: "process_env \<Rightarrow> Tenant \<Rightarrow> string" where
  "MinIOServerEndpoint E t =
     url_string \<lparr>url_Scheme = tenant_scheme t, url_User = None,
       url_Host = MinIOServerHostAddress E t, url_Path = [], url_RawQuery = []\<rparr>"

definition GetTenantServiceURL :: "process_env \<Rightarrow> Tenant \<Rightarrow> string" where
  "GetTenantServiceURL E t = tenant_scheme t @ ''://'' @ MinIOServerHostAddress E t"

definition getMinIOTenantDetails ::
  "process_env \<Rightarrow> Tenant \<Rightarrow> string \<Rightarrow> (string, string) gomap \<Rightarrow> go_error + string \<times> string \<times> string" where
  "getMinIOTenantDetails E t address minioSecret =
     (let host = (if address = [] then MinIOServerHostAddress E t else address) in
      if host = [] then Inl (new_error ''MinIO server host is empty'')
      else
        (case mget minioSecret ''accesskey'' of
           None \<Rightarrow> Inl (new_error ''MinIO server accesskey not set'')
         | Some accessKey \<Rightarrow>
             (case mget minioSecret ''secretkey'' of
                None \<Rightarrow> Inl (new_error ''MinIO server secretkey not set'')
              | Some secretKey \<Rightarrow> Inr (host, accessKey, secretKey))))"

definition OwnerRef :: "Tenant \<Rightarrow> owner_reference list" where
  "OwnerRef t =
     [\<lparr>or_Kind = MinIOCRDResourceKind, or_Name = tenant_name t, or_UID = om_UID (t_Meta t),
       or_Controller = True\<rparr>]"

record object_reference =
  oref_Kind :: string
  oref_Namespace :: string
  oref_Name :: string
  oref_UID :: string

definition ObjectRef :: "Tenant \<Rightarrow> object_reference" where
  "ObjectRef t = \<lparr>oref_Kind = MinIOCRDResourceKind, oref_Namespace = tenant_namespace t,
     oref_Name = tenant_name t, oref_UID = om_UID (t_Meta t)\<rparr>"

section \<open>Shape of hosts and paths\<close>

lemma length_kes_pod_hosts: "length (kes_pod_hosts E t i r) = nat (sint r - sint i)"
proof (induction E t i r rule: kes_pod_hosts.induct)
  case (1 E t i r)
  show ?case
  proof (cases "sint i < sint r")
    case True
    have "length (kes_pod_hosts E t i r) = Suc (length (kes_pod_hosts E t (i + 1) r))"
      using True by (subst kes_pod_hosts.simps) simp
    with 1 [OF True] True show ?thesis by (simp add: sint32_succ)
  next
    case False
    then show ?thesis by (simp add: kes_pod_hosts.simps)
  qed
qed

lemma length_MinIOHosts [simp]: "length (MinIOHosts E t) = length (pools_of t)"
  by (simp add: MinIOHosts_def)

definition safe_parts :: "string list \<Rightarrow> bool" where
  "safe_parts ps \<longleftrightarrow> (\<forall>p \<in> set ps. p \<notin> {[], ''.'', ''..''} \<and> CHR ''/'' \<notin> set p)"

lemma path_join_root_safe: "\<exists>ps. path_join_root es = ''/'' @ join ''/'' ps \<and> safe_parts ps"
proof -
  let ?ps = "clean_parts (split_on CHR ''/'' (join_elems (''/'' # es) [])) []"
  have "safe_parts ?ps"
    using clean_parts_clean [of "[]"] split_on_parts unfolding safe_parts_def by fastforce
  then show ?thesis unfolding path_join_root_def clean_rooted_def by blast
qed

text \<open>
  The path a volume is mounted at is absolute and has no empty, single-dot or double-dot part,
  whatever mount path and sub path the user gives: it cannot climb out of the root.\<close>
theorem VolumePathForPool_safe:
  "\<exists>ps. VolumePathForPool t pool = ''/'' @ join ''/'' ps \<and> safe_parts ps"
  unfolding VolumePathForPool_def using path_join_root_safe by auto

text \<open>
  The KES hosts are one per replica and the service's; without a KES configuration the
  function panics, and a negative number of replicas counts as none.\<close>
theorem KESHosts_count:
  "(KESHosts E t = None \<longleftrightarrow> \<not> HasKESEnabled t) \<and>
   (\<forall>k. ts_KES (t_Spec t) = Some k \<longrightarrow>
      (\<exists>pods. KESHosts E t = Some (pods @ [KESServiceHost E t]) \<and>
         length pods = nat (sint (kes_Replicas k))))"
  by (auto simp: KESHosts_def HasKESEnabled_def length_kes_pod_hosts split: option.splits)

end
