(* ===== verification/TenantDefaults.thy ===== *)
theory TenantDefaults
  imports TenantHelpers
begin

text \<open>
  \<open>EnsureDefaults\<close> of \<open>pkg/minio/operator/apis/minio.min.io/v2/helper.go\<close>: the groups of
  assignments it makes, in its order, and its contract. The defaults fill every field the
  operator needs, keep what the user gave, and are stable: a second pass changes nothing.
\<close>

section \<open>The defaults\<close>

definition or_default :: "string \<Rightarrow> string \<Rightarrow> string" where
  "or_default s d = (if s = [] then d else s)"

definition name_pool :: "nat \<times> Pool \<Rightarrow> Pool" where
  "name_pool ip =
     (let (pi, pool) = ip in
      if pool_Name pool = []
      then pool\<lparr>pool_Name := StatefulSetPrefix @ ''-'' @ itoa (int pi)\<rparr>
      else pool)"

definition known_policies :: "string list" where
  "known_policies = [''OrderedReady'', ''Parallel'']"

definition default_policy :: "string \<Rightarrow> string" where
  "default_policy p =
     (if p = [] \<or> p \<notin> set known_policies then DefaultPodManagementPolicy else p)"

definition default_basics :: "process_env \<Rightarrow> TenantSpec \<Rightarrow> TenantSpec" where
  "default_basics E s = s
     \<lparr>ts_PodManagementPolicy := default_policy (ts_PodManagementPolicy s),
      ts_Image := or_default (ts_Image s) (TenantMinIOImageOf E),
      ts_ImagePullPolicy := or_default (ts_ImagePullPolicy s) DefaultImagePullPolicy,
      ts_Pools := map_option (\<lambda>pools. map name_pool (enumerate 0 pools)) (ts_Pools s),
      ts_Mountpath := or_default (ts_Mountpath s) MinIOVolumeMountPath,
      ts_Subpath := or_default (ts_Subpath s) MinIOVolumeSubPath\<rparr>"

definition default_cert :: "process_env \<Rightarrow> Tenant \<Rightarrow> CertificateConfig" where
  "default_cert E t =
     (case ts_CertConfig (t_Spec t) of
        Some c \<Rightarrow>
          (let c = c\<lparr>cert_CommonName := or_default (cert_CommonName c) (MinIOWildCardName E t)\<rparr>;
               c = (if cert_DNSNames c = [] then c\<lparr>cert_DNSNames := MinIOHosts E t\<rparr> else c)
           in if cert_OrganizationName c = [] then c\<lparr>cert_OrganizationName := DefaultOrgName\<rparr> else c)
      | None \<Rightarrow>
          \<lparr>cert_CommonName = MinIOWildCardName E t, cert_OrganizationName = DefaultOrgName,
           cert_DNSNames = MinIOHosts E t\<rparr>)"

definition default_kes :: "process_env \<Rightarrow> KESConfig \<Rightarrow> KESConfig" where
  "default_kes E k = k
     \<lparr>kes_Image := or_default (kes_Image k) (TenantKesImageOf E),
      kes_Replicas := (if kes_Replicas k = 0 then DefaultKESReplicas else kes_Replicas k),
      kes_ImagePullPolicy := or_default (kes_ImagePullPolicy k) DefaultImagePullPolicy,
      kes_KeyName := or_default (kes_KeyName k) KESMinIOKey,
      kes_ServiceAccountName :=
        (if kes_GCPCredentialSecretName k \<noteq> [] \<and> kes_ServiceAccountName k = [] then ''default''
         else kes_ServiceAccountName k)\<rparr>"

definition EnsureDefaults :: "process_env \<Rightarrow> Tenant \<Rightarrow> Tenant" where
  "EnsureDefaults E t =
     (let t = t\<lparr>t_Spec := default_basics E (t_Spec t)\<rparr>;
          t = t\<lparr>t_Spec := (t_Spec t)\<lparr>ts_CertConfig := Some (default_cert E t)\<rparr>\<rparr>;
          t = (if HasKESEnabled t
               then t\<lparr>t_Spec := (t_Spec t)\<lparr>ts_KES := map_option (default_kes E) (ts_KES (t_Spec t))\<rparr>\<rparr>
               else t)
      in t\<lparr>t_Spec := (t_Spec t)
             \<lparr>ts_ServiceAccountName := or_default (ts_ServiceAccountName (t_Spec t)) (tenant_name t @ ''-sa'')\<rparr>\<rparr>)"

section \<open>Stability of the groups\<close>

lemma or_default_idem [simp]: "or_default (or_default s d) d = or_default s d"
  by (simp add: or_default_def)

lemma or_default_same [simp]: "or_default s s = s"
  by (simp add: or_default_def)

lemma or_default_keeps [simp]: "s \<noteq> [] \<Longrightarrow> or_default s d = s"
  by (simp add: or_default_def)

lemma or_default_filled [simp]: "or_default s d = [] \<longleftrightarrow> s = [] \<and> d = []"
  by (simp add: or_default_def)

lemma name_pool_named: "pool_Name (name_pool ip) \<noteq> []"
  by (simp add: name_pool_def split_def StatefulSetPrefix_def)

lemma name_pool_again: "name_pool (i, name_pool ip) = name_pool ip"
  using name_pool_named [of ip] by (simp add: name_pool_def split_def Let_def)

lemma name_pools_idem:
  "map name_pool (enumerate n (map name_pool (enumerate n ps))) = map name_pool (enumerate n ps)"
  by (induction ps arbitrary: n) (simp_all add: name_pool_again)

lemma default_policy_known: "default_policy p \<in> set known_policies"
  by (simp add: default_policy_def known_policies_def DefaultPodManagementPolicy_def)

lemma default_policy_keeps [simp]: "p \<in> set known_policies \<Longrightarrow> default_policy p = p"
  by (auto simp: default_policy_def known_policies_def)

lemma default_basics_idem: "default_basics E (default_basics E s) = default_basics E s"
  by (cases "ts_Pools s")
    (simp_all add: default_basics_def default_policy_known name_pools_idem)

lemma default_basics_keeps [simp]:
  "ts_CertConfig (default_basics E s) = ts_CertConfig s"
  "ts_KES (default_basics E s) = ts_KES s"
  "ts_ServiceAccountName (default_basics E s) = ts_ServiceAccountName s"
  by (simp_all add: default_basics_def)

lemma default_kes_idem: "default_kes E (default_kes E k) = default_kes E k"
  by (simp add: default_kes_def)

text \<open>The hosts of a tenant depend on its names, its pools and the status of its pools alone.\<close>

lemma MinIOHosts_cong:
  assumes "t_Meta t = t_Meta u" "ts_Pools (t_Spec t) = ts_Pools (t_Spec u)" "t_Status t = t_Status u"
  shows "MinIOHosts E t = MinIOHosts E u" and "MinIOWildCardName E t = MinIOWildCardName E u"
proof -
  have names: "PoolStatefulsetName t = PoolStatefulsetName u" "svc_host E t = svc_host E u"
    "MinIOHLServiceName t = MinIOHLServiceName u" "pools_of t = pools_of u"
    using assms by (simp_all add: fun_eq_iff PoolStatefulsetName_def svc_host_def
        MinIOHLServiceName_def pools_of_def)
  then have "host_of_pool E t = host_of_pool E u"
    unfolding fun_eq_iff host_of_pool_def assms(3) by simp
  with names show "MinIOHosts E t = MinIOHosts E u" by (simp add: MinIOHosts_def)
  from names show "MinIOWildCardName E t = MinIOWildCardName E u" by (simp add: MinIOWildCardName_def)
qed

definition basics_set :: "process_env \<Rightarrow> Tenant \<Rightarrow> Tenant" where
  "basics_set E t = t\<lparr>t_Spec := default_basics E (t_Spec t)\<rparr>"

lemma EnsureDefaults_eq:
  "EnsureDefaults E t = t\<lparr>t_Spec := (default_basics E (t_Spec t))
     \<lparr>ts_CertConfig := Some (default_cert E (basics_set E t)),
      ts_KES := map_option (default_kes E) (ts_KES (t_Spec t)),
      ts_ServiceAccountName :=
        or_default (ts_ServiceAccountName (t_Spec t)) (tenant_name t @ ''-sa'')\<rparr>\<rparr>"
  by (simp add: EnsureDefaults_def Let_def basics_set_def HasKESEnabled_def)

lemma default_basics_update [simp]:
  "default_basics E (s\<lparr>ts_CertConfig := c, ts_KES := k, ts_ServiceAccountName := a\<rparr>) =
     (default_basics E s)\<lparr>ts_CertConfig := c, ts_KES := k, ts_ServiceAccountName := a\<rparr>"
  by (simp add: default_basics_def)

lemma default_cert_again:
  assumes "ts_CertConfig (t_Spec u) = Some (default_cert E t)"
    and "MinIOHosts E u = MinIOHosts E t" "MinIOWildCardName E u = MinIOWildCardName E t"
  shows "default_cert E u = default_cert E t"
proof (cases "ts_CertConfig (t_Spec t)")
  case None
  with assms show ?thesis by (simp add: default_cert_def Let_def DefaultOrgName_def)
next
  case (Some c)
  with assms show ?thesis by (simp add: default_cert_def Let_def DefaultOrgName_def)
qed

section \<open>Properties\<close>

text \<open>
  C33: the defaults are stable: setting them on a tenant that has them changes nothing, so the
  operator can set them on every reconcile.\<close>
theorem EnsureDefaults_idempotent: "EnsureDefaults E (EnsureDefaults E t) = EnsureDefaults E t"
proof -
  let ?u = "EnsureDefaults E t" and ?b = "basics_set E t"
  have spec: "t_Spec ?u = (default_basics E (t_Spec t))
     \<lparr>ts_CertConfig := Some (default_cert E ?b),
      ts_KES := map_option (default_kes E) (ts_KES (t_Spec t)),
      ts_ServiceAccountName :=
        or_default (ts_ServiceAccountName (t_Spec t)) (tenant_name t @ ''-sa'')\<rparr>"
    by (simp add: EnsureDefaults_eq)
  have rest: "t_Meta ?u = t_Meta t" "t_Status ?u = t_Status t" by (simp_all add: EnsureDefaults_eq)
  have "default_cert E (basics_set E ?u) = default_cert E ?b"
    by (intro default_cert_again MinIOHosts_cong)
      (simp_all add: basics_set_def spec rest default_basics_idem)
  moreover have "map_option (default_kes E) (map_option (default_kes E) k) = map_option (default_kes E) k"
    for k by (cases k) (simp_all add: default_kes_idem)
  ultimately show ?thesis
    unfolding EnsureDefaults_eq [of E ?u]
    by (simp add: spec rest default_basics_idem EnsureDefaults_eq)
qed















end
