(* ===== verification/TenantValidate.thy ===== *)
theory TenantValidate
  imports TenantHelpers
begin

text \<open>
  Validation of a MinIO tenant, \<open>pkg/minio/operator/apis/minio.min.io/v2/helper.go\<close>: \<open>Validate\<close> of a
  pool and of a tenant, the check of the domains with the longest common suffix it relies on,
  and the hosts taken from the domains. \<open>url.Parse\<close> and \<open>dns.IsDomainName\<close> are parameters:
  \<open>parse_host\<close> gives the host of a URL or an error, \<open>is_domain\<close> the verdict on a name.

  A chain of checks that each return an error is a chain in the sum type; the collection
  \<open>passes\<close> says when it ends without one.
\<close>

named_theorems passes "when a chain of checks reports no error"

section \<open>Chains of checks\<close>

definition fail_if :: "bool \<Rightarrow> string \<Rightarrow> go_error + unit" where
  "fail_if c msg = (if c then Inl (new_error msg) else Inr ())"

definition and_then :: "go_error + unit \<Rightarrow> go_error + unit \<Rightarrow> go_error + unit" where
  "and_then a b = (case a of Inl e \<Rightarrow> Inl e | Inr _ \<Rightarrow> b)"

fun first_error :: "(go_error + unit) list \<Rightarrow> go_error + unit" where
  "first_error [] = Inr ()"
| "first_error (c # cs) = and_then c (first_error cs)"

lemma fail_if_passes [passes]: "fail_if c msg = Inr u \<longleftrightarrow> \<not> c"
  by (simp add: fail_if_def)

lemma and_then_passes [passes]: "and_then a b = Inr u \<longleftrightarrow> a = Inr () \<and> b = Inr ()"
  by (auto simp: and_then_def split: sum.splits)

lemma first_error_passes [passes]: "first_error cs = Inr u \<longleftrightarrow> (\<forall>c \<in> set cs. c = Inr ())"
  by (induction cs) (auto simp: passes)

section \<open>Pools\<close>

definition storage_request :: "resource_list \<Rightarrow> quantity" where
  "storage_request requests =
     (case mget requests ''storage'' of
        Some q \<Rightarrow> q
      | None \<Rightarrow> new_quantity 0 BinarySI)"

definition few_volumes :: "int \<Rightarrow> Pool \<Rightarrow> go_error + unit" where
  "few_volumes zi z =
     (if sint (pool_Servers z * pool_VolumesPerServer z) < 4
      then
        (if pool_Servers z = 2
         then Inl (new_error (''pool #'' @ itoa zi @ '' with 2 servers must have at least 4 volumes in total''))
         else if pool_Servers z = 3
         then Inl (new_error (''pool #'' @ itoa zi @ '' with 3 servers must have at least 6 volumes in total''))
         else Inr ())
      else Inr ())"

definition validate_claim :: "claim_spec \<Rightarrow> go_error + unit" where
  "validate_claim spec =
     (let requests = rr_Requests (pvc_Resources spec) in
      first_error
        [fail_if (requests = None) ''volume claim template must specify resource request'',
         fail_if (sint (q_Value (storage_request requests)) \<le> 0) ''volume size must be greater than 0'',
         fail_if (pvc_AccessModes spec = []) ''volume access mode must be specified''])"

definition Pool_Validate :: "int \<Rightarrow> Pool \<Rightarrow> go_error + unit" where
  "Pool_Validate zi z =
     first_error
       [fail_if (sint (pool_Servers z) \<le> 0) (''pool #'' @ itoa zi @ '' cannot have 0 servers''),
        fail_if (sint (pool_VolumesPerServer z) \<le> 0)
          (''pool #'' @ itoa zi @ '' cannot have 0 volumes per server''),
        few_volumes zi z,
        (case pool_VolumeClaimTemplate z of
           None \<Rightarrow> Inl (new_error ''a volume claim template must be specified'')
         | Some claim \<Rightarrow> validate_claim (pvc_Spec claim))]"

section \<open>The longest common affix\<close>

text \<open>\<open>cut_prefix i\<close> and \<open>cut_suffix i\<close> are the loops over the letters from position \<open>i\<close> on.\<close>

function cut_prefix :: "nat \<Rightarrow> nat \<Rightarrow> string \<Rightarrow> string \<Rightarrow> string" where
  "cut_prefix i maxl xfix str =
     (if i < maxl then
        (if xfix ! i \<noteq> str ! i then take i xfix else cut_prefix (i + 1) maxl xfix str)
      else xfix)"
  by pat_completeness auto
termination cut_prefix by (relation "measure (\<lambda>(i, maxl, _). maxl - i)") auto

function cut_suffix :: "nat \<Rightarrow> nat \<Rightarrow> string \<Rightarrow> string \<Rightarrow> string" where
  "cut_suffix i maxl xfix str =
     (if i < maxl then
        (let xi = length xfix - i - 1; si = length str - i - 1 in
         if xfix ! xi \<noteq> str ! si then drop (xi + 1) xfix else cut_suffix (i + 1) maxl xfix str)
      else xfix)"
  by pat_completeness auto
termination cut_suffix by (relation "measure (\<lambda>(i, maxl, _). maxl - i)") auto

declare cut_prefix.simps [simp del] cut_suffix.simps [simp del]

fun lcp_loop :: "bool \<Rightarrow> string \<Rightarrow> string list \<Rightarrow> string" where
  "lcp_loop pre xfix [] = xfix"
| "lcp_loop pre xfix (str # strs) =
     (if xfix = [] \<or> str = [] then []
      else
        (let maxl = min (length xfix) (length str) in
         lcp_loop pre (if pre then cut_prefix 0 maxl xfix str else cut_suffix 0 maxl xfix str) strs))"

definition lcp :: "string list \<Rightarrow> bool \<Rightarrow> string" where
  "lcp strs pre =
     (case strs of
        [] \<Rightarrow> []
      | [x] \<Rightarrow> x
      | x # xs \<Rightarrow> lcp_loop pre x xs)"

definition lcpSuffix :: "string list \<Rightarrow> string" where
  "lcpSuffix strs = lcp strs False"

section \<open>Domains\<close>

definition with_scheme :: "Tenant \<Rightarrow> string \<Rightarrow> string" where
  "with_scheme t domain =
     (if \<not> prefix ''http'' domain
      then (if TLS t then ''https'' else ''http'') @ ''://'' @ domain
      else domain)"

definition without_port :: "string \<Rightarrow> string" where
  "without_port host = hd (split_on CHR '':'' host)"

fun global_domains ::
  "(string \<Rightarrow> go_error + string) \<Rightarrow> (string \<Rightarrow> bool) \<Rightarrow> Tenant \<Rightarrow> string list \<Rightarrow> string list \<Rightarrow>
     go_error + string list" where
  "global_domains parse_host is_domain t [] globals = Inr globals"
| "global_domains parse_host is_domain t (d # ds) globals =
     (let domain = with_scheme t d in
      case parse_host domain of
        Inl err \<Rightarrow> Inl err
      | Inr host \<Rightarrow>
          if \<not> is_domain domain then Inl (new_error (''invalid domain `'' @ domain @ ''`''))
          else global_domains parse_host is_domain t ds (globals @ [without_port host]))"

definition check_overlap :: "string list \<Rightarrow> go_error + unit" where
  "check_overlap domains =
     (let globals = sort_key (map code) domains; lcpSuf = lcpSuffix globals in
      first_error (map (\<lambda>domain.
        fail_if (domain = lcpSuf \<and> 1 < length globals)
          (''overlapping domains `'' @ domain @ ''` not allowed'')) globals))"

definition tenant_domains :: "Tenant \<Rightarrow> string list" where
  "tenant_domains t =
     (case ts_Features (t_Spec t) of
        None \<Rightarrow> []
      | Some f \<Rightarrow> (case ft_Domains f of None \<Rightarrow> [] | Some d \<Rightarrow> td_Minio d))"

definition ValidateDomains ::
  "(string \<Rightarrow> go_error + string) \<Rightarrow> (string \<Rightarrow> bool) \<Rightarrow> Tenant \<Rightarrow> go_error + unit" where
  "ValidateDomains parse_host is_domain t =
     (if HasMinIODomains t then
        (case global_domains parse_host is_domain t (tenant_domains t) [] of
           Inl err \<Rightarrow> Inl err
         | Inr globals \<Rightarrow> check_overlap globals)
      else Inr ())"

fun domain_hosts ::
  "(string \<Rightarrow> go_error + string) \<Rightarrow> (string \<Rightarrow> bool) \<Rightarrow> Tenant \<Rightarrow> string list \<Rightarrow> string list \<Rightarrow> string list" where
  "domain_hosts parse_host is_domain t [] hosts = hosts"
| "domain_hosts parse_host is_domain t (d # ds) hosts =
     (let domain = with_scheme t d in
      if \<not> is_domain domain then domain_hosts parse_host is_domain t ds hosts
      else
        (case parse_host domain of
           Inl err \<Rightarrow> domain_hosts parse_host is_domain t ds hosts
         | Inr host \<Rightarrow> domain_hosts parse_host is_domain t ds (hosts @ [without_port host])))"

definition GetDomainHosts ::
  "(string \<Rightarrow> go_error + string) \<Rightarrow> (string \<Rightarrow> bool) \<Rightarrow> Tenant \<Rightarrow> string list" where
  "GetDomainHosts parse_host is_domain t =
     (if HasMinIODomains t then domain_hosts parse_host is_domain t (tenant_domains t) [] else [])"

section \<open>Tenants\<close>

definition Tenant_Validate ::
  "(string \<Rightarrow> go_error + string) \<Rightarrow> (string \<Rightarrow> bool) \<Rightarrow> Tenant \<Rightarrow> go_error + unit" where
  "Tenant_Validate parse_host is_domain t =
     (case ts_Pools (t_Spec t) of
        None \<Rightarrow> Inl (new_error ''pools must be configured'')
      | Some pools \<Rightarrow>
          first_error
            ([fail_if (\<not> HasConfigurationSecret t \<and> \<not> HasCredsSecret t)
                (''please set '' @ [CHR 0x27] @ ''configuration'' @ [CHR 0x27] @
                 '' secret with credentials for Tenant''),
              (if HasKESEnabled t then
                 (if HasGCPCredentialSecretForKES t \<and> \<not> HasGCPWorkloadIdentityPoolForKES t
                  then Inl (new_error (''please set '' @ [CHR 0x27] @ ''gcpWorkloadIdentityPool'' @
                         [CHR 0x27] @ '' to enable fleet workload identity''))
                  else if HasGCPWorkloadIdentityPoolForKES t \<and> \<not> HasGCPCredentialSecretForKES t
                  then Inl (new_error (''plese set the '' @ [CHR 0x27] @ ''gcpCredentialSecretName'' @
                         [CHR 0x27] @ '' to enable fleet workload identity''))
                  else Inr ())
               else Inr ())] @
             map (\<lambda>(zi, pool). Pool_Validate (int zi) pool) (enumerate 0 pools) @
             [ValidateDomains parse_host is_domain t]))"

section \<open>What the suffix loop computes\<close>

lemma cut_suffix_prop:
  assumes "i \<le> maxl" "maxl = min (length x) (length s)"
    and "\<forall>j < i. x ! (length x - j - 1) = s ! (length s - j - 1)"
  shows "\<exists>k \<le> length x. cut_suffix i maxl x s = drop (length x - k) x \<and>
    (\<forall>j < min k maxl. x ! (length x - j - 1) = s ! (length s - j - 1)) \<and>
    (k < length x \<longrightarrow> k < maxl \<and> x ! (length x - k - 1) \<noteq> s ! (length s - k - 1))"
  using assms
proof (induction i maxl x s rule: cut_suffix.induct)
  case (1 i maxl x s)
  show ?case
  proof (cases "i < maxl")
    case False
    then have "cut_suffix i maxl x s = drop (length x - length x) x"
      by (subst cut_suffix.simps) simp
    with False "1.prems" show ?thesis by (intro exI [of _ "length x"]) auto
  next
    case True
    show ?thesis
    proof (cases "x ! (length x - i - 1) = s ! (length s - i - 1)")
      case True
      with \<open>i < maxl\<close> have "cut_suffix i maxl x s = cut_suffix (i + 1) maxl x s"
        by (subst cut_suffix.simps) (simp add: Let_def)
      moreover have "\<forall>j < i + 1. x ! (length x - j - 1) = s ! (length s - j - 1)"
        using True "1.prems"(3) less_Suc_eq by auto
      ultimately show ?thesis
        using "1.IH" [OF \<open>i < maxl\<close> refl refl] True \<open>i < maxl\<close> "1.prems"(2) by simp
    next
      case False
      have "length x - i - 1 + 1 = length x - i" using \<open>i < maxl\<close> "1.prems"(2) by linarith
      with False \<open>i < maxl\<close> have "cut_suffix i maxl x s = drop (length x - i) x"
        by (subst cut_suffix.simps) (simp add: Let_def)
      with False \<open>i < maxl\<close> "1.prems" show ?thesis by (intro exI [of _ i]) auto
    qed
  qed
qed

lemma same_ends:
  assumes "\<forall>j < n. x ! (length x - j - 1) = s ! (length s - j - 1)" "n \<le> length x" "n \<le> length s"
  shows "drop (length x - n) x = drop (length s - n) s"
proof (rule nth_equalityI)
  show "length (drop (length x - n) x) = length (drop (length s - n) s)" using assms(2,3) by simp
  fix i assume "i < length (drop (length x - n) x)"
  with assms(2) have i: "i < n" by simp
  then have "n - i - 1 < n" by simp
  with assms(1) have "x ! (length x - (n - i - 1) - 1) = s ! (length s - (n - i - 1) - 1)" by blast
  moreover have "length x - (n - i - 1) - 1 = length x - n + i"
    "length s - (n - i - 1) - 1 = length s - n + i"
    using i assms(2,3) by linarith+
  ultimately show "drop (length x - n) x ! i = drop (length s - n) s ! i"
    using i assms(2,3) by simp
qed

lemma suffix_nth: "suffix c x \<Longrightarrow> j < length c \<Longrightarrow> x ! (length x - j - 1) = c ! (length c - j - 1)"
  by (auto simp: suffix_def nth_append)

text \<open>One step: what remains is an end of \<open>x\<close>, comparable with \<open>s\<close>, and no common end is lost.\<close>

lemma cut_suffix_step:
  fixes x s :: string
  defines "y \<equiv> cut_suffix 0 (min (length x) (length s)) x s"
  shows "suffix y x" and "suffix y s \<or> suffix s y" and "suffix c x \<Longrightarrow> suffix c s \<Longrightarrow> suffix c y"
proof -
  let ?m = "min (length x) (length s)"
  from cut_suffix_prop [of 0 ?m x s] obtain k where k: "k \<le> length x" "y = drop (length x - k) x"
    and eq: "\<forall>j < min k ?m. x ! (length x - j - 1) = s ! (length s - j - 1)"
    and ne: "k < length x \<longrightarrow> k < ?m \<and> x ! (length x - k - 1) \<noteq> s ! (length s - k - 1)"
    unfolding y_def by auto
  show y: "suffix y x" by (simp add: k(2) suffix_drop)
  have end_eq: "drop (length x - min k ?m) x = drop (length s - min k ?m) s"
    using eq k(1) by (intro same_ends) auto
  show "suffix y s \<or> suffix s y"
  proof (cases "k \<le> length s")
    case True
    with k have "y = drop (length s - k) s" using end_eq by simp
    then show ?thesis by (simp add: suffix_drop)
  next
    case False
    with k have "suffix s x" using end_eq ne suffix_drop [of "length x - length s" x] by simp
    moreover have "k = length x" using False ne k(1) by fastforce
    ultimately show ?thesis using k(2) by simp
  qed
  assume c: "suffix c x" "suffix c s"
  have "length c \<le> k"
  proof (rule ccontr)
    assume "\<not> length c \<le> k"
    with suffix_length_le [OF c(1)] have "k < length c" "k < length x" by simp_all
    with suffix_nth [OF c(1)] suffix_nth [OF c(2)] ne show False by simp
  qed
  with k have "length c \<le> length y" by simp
  with c(1) y show "suffix c y" by (rule suffix_length_suffix)
qed

lemma lcp_loop_Nil [simp]: "lcp_loop False [] strs = []"
  by (induction strs) (simp_all add: cut_suffix.simps)

lemma lcp_loop_suffix: "suffix (lcp_loop False x strs) x"
proof (induction strs arbitrary: x)
  case (Cons s strs)
  show ?case
    using Cons.IH [of "cut_suffix 0 (min (length x) (length s)) x s"] cut_suffix_step(1) [of x s]
    by (auto simp: Let_def intro: suffix_order.trans)
qed simp

lemma lcp_loop_comparable:
  "s \<in> set strs \<Longrightarrow> suffix (lcp_loop False x strs) s \<or> suffix s (lcp_loop False x strs)"
proof (induction strs arbitrary: x)
  case (Cons r strs)
  let ?y = "cut_suffix 0 (min (length x) (length r)) x r"
  show ?case
  proof (cases "x = [] \<or> r = []")
    case False
    then have l: "lcp_loop False x (r # strs) = lcp_loop False ?y strs" by simp
    show ?thesis
    proof (cases "s \<in> set strs")
      case True
      with Cons.IH [of ?y] show ?thesis by (simp only: l)
    next
      case False
      with Cons.prems have "s = r" by simp
      moreover have "suffix (lcp_loop False ?y strs) ?y" by (rule lcp_loop_suffix)
      ultimately show ?thesis
        unfolding l using cut_suffix_step(2) [of x r]
        by (metis suffix_order.trans suffix_same_cases)
    qed
  qed auto
qed simp

lemma lcp_loop_keeps:
  "suffix c x \<Longrightarrow> \<forall>s \<in> set strs. suffix c s \<Longrightarrow> suffix c (lcp_loop False x strs)"
proof (induction strs arbitrary: x)
  case (Cons s strs)
  show ?case
  proof (cases "x = [] \<or> s = []")
    case True
    with Cons.prems have "c = []" by auto
    with True show ?thesis by auto
  next
    case False
    with Cons.prems show ?thesis
      using Cons.IH [of "cut_suffix 0 (min (length x) (length s)) x s"] cut_suffix_step(3) [of c x s]
      by (simp add: Let_def)
  qed
qed simp

lemma lcpSuffix_Cons: "lcpSuffix (x # xs) = lcp_loop False x xs"
  by (cases xs) (simp_all add: lcpSuffix_def lcp_def)

lemma cut_suffix_whole:
  assumes "suffix s x"
  shows "cut_suffix 0 (min (length x) (length s)) x s = x"
proof -
  let ?m = "min (length x) (length s)"
  from cut_suffix_prop [of 0 ?m x s] obtain k where k: "k \<le> length x"
    "cut_suffix 0 ?m x s = drop (length x - k) x"
    "k < length x \<longrightarrow> k < ?m \<and> x ! (length x - k - 1) \<noteq> s ! (length s - k - 1)" by auto
  have "\<not> k < length x" using k(3) suffix_nth [OF assms, of k] by auto
  with k show ?thesis by simp
qed

lemma sort_two: "sort_key f [a, b] = (if f a \<le> f b then [a, b] else [b, a])"
  by simp

lemma lcpSuffix_two: "lcpSuffix [x, y] \<in> {x, y} \<longleftrightarrow> suffix x y \<or> suffix y x"
proof -
  let ?r = "lcpSuffix [x, y]"
  have r: "?r = lcp_loop False x [y]" by (simp add: lcpSuffix_Cons)
  have 1: "suffix ?r x" unfolding r by (rule lcp_loop_suffix)
  have 2: "suffix ?r y \<or> suffix y ?r" unfolding r by (rule lcp_loop_comparable) simp
  show ?thesis
  proof
    assume "?r \<in> {x, y}"
    with 1 2 show "suffix x y \<or> suffix y x" by auto
  next
    assume "suffix x y \<or> suffix y x"
    then show "?r \<in> {x, y}"
    proof
      assume "suffix x y"
      then have "suffix x ?r" unfolding r by (intro lcp_loop_keeps) simp_all
      with 1 show ?thesis by (simp add: suffix_order.antisym)
    next
      assume "suffix y x"
      then show ?thesis
        using cut_suffix_whole [of y x] by (auto simp: r Let_def)
    qed
  qed
qed

section \<open>When validation passes\<close>

definition valid_claim :: "claim_spec \<Rightarrow> bool" where
  "valid_claim spec \<longleftrightarrow> rr_Requests (pvc_Resources spec) \<noteq> None \<and>
     0 < sint (q_Value (storage_request (rr_Requests (pvc_Resources spec)))) \<and>
     pvc_AccessModes spec \<noteq> []"

definition valid_pool :: "Pool \<Rightarrow> bool" where
  "valid_pool p \<longleftrightarrow> 0 < sint (pool_Servers p) \<and> 0 < sint (pool_VolumesPerServer p) \<and>
     (pool_Servers p = 2 \<or> pool_Servers p = 3 \<longrightarrow>
        4 \<le> sint (pool_Servers p * pool_VolumesPerServer p)) \<and>
     (\<exists>claim. pool_VolumeClaimTemplate p = Some claim \<and> valid_claim (pvc_Spec claim))"

lemma few_volumes_passes [passes]:
  "few_volumes zi z = Inr u \<longleftrightarrow>
     (pool_Servers z = 2 \<or> pool_Servers z = 3 \<longrightarrow> 4 \<le> sint (pool_Servers z * pool_VolumesPerServer z))"
  by (auto simp: few_volumes_def)

lemma validate_claim_passes [passes]: "validate_claim spec = Inr u \<longleftrightarrow> valid_claim spec"
  by (auto simp: validate_claim_def valid_claim_def Let_def passes)

lemma Pool_Validate_passes [passes]: "Pool_Validate zi z = Inr u \<longleftrightarrow> valid_pool z"
  by (cases "pool_VolumeClaimTemplate z")
    (auto simp: Pool_Validate_def valid_pool_def passes)

lemma pools_pass:
  "(\<forall>c \<in> set (map (\<lambda>(zi, pool). Pool_Validate (int zi) pool) (enumerate n pools)). c = Inr ()) \<longleftrightarrow>
     (\<forall>p \<in> set pools. valid_pool p)"
  by (induction pools arbitrary: n) (auto simp: passes)

text \<open>The product of servers and volumes is computed in 32 bits: large pools may wrap.\<close>

lemma product_wraps:
  "pool_Servers p = 2 \<Longrightarrow> pool_VolumesPerServer p = 0x40000000 \<Longrightarrow> \<not> valid_pool p"
  by (simp add: valid_pool_def)

section \<open>Properties\<close>

text \<open>
  What the suffix used to compare domains is: an end of the first name that contains every
  common end of all names, and of any name either it is an end or that name is an end of it. It is
  the longest common end whenever it is not longer than any name; else it is not common.\<close>
theorem lcpSuffix_spec:
  assumes "strs \<noteq> []"
  shows "suffix (lcpSuffix strs) (hd strs) \<and>
    (\<forall>c. (\<forall>s \<in> set strs. suffix c s) \<longrightarrow> suffix c (lcpSuffix strs)) \<and>
    (\<forall>s \<in> set strs. suffix (lcpSuffix strs) s \<or> suffix s (lcpSuffix strs)) \<and>
    ((\<forall>s \<in> set strs. suffix (lcpSuffix strs) s) \<longleftrightarrow>
       (\<forall>s \<in> set strs. length (lcpSuffix strs) \<le> length s))"
proof -
  obtain x xs where s: "strs = x # xs" using assms by (cases strs) auto
  have hd: "suffix (lcpSuffix strs) x" unfolding s lcpSuffix_Cons by (rule lcp_loop_suffix)
  have cmp: "\<forall>s \<in> set strs. suffix (lcpSuffix strs) s \<or> suffix s (lcpSuffix strs)"
    using hd lcp_loop_comparable [of _ xs x] by (auto simp: s lcpSuffix_Cons)
  have keep: "\<forall>c. (\<forall>s \<in> set strs. suffix c s) \<longrightarrow> suffix c (lcpSuffix strs)"
    using lcp_loop_keeps [of _ x xs] by (simp add: s lcpSuffix_Cons)
  have "suffix (lcpSuffix strs) r" if "r \<in> set strs" "length (lcpSuffix strs) \<le> length r" for r
    using cmp that by (metis suffix_length_suffix suffix_order.order_refl)
  then have "(\<forall>s \<in> set strs. suffix (lcpSuffix strs) s) \<longleftrightarrow>
      (\<forall>s \<in> set strs. length (lcpSuffix strs) \<le> length s)"
    by (auto dest: suffix_length_le)
  with hd cmp keep show ?thesis by (simp add: s)
qed

theorem lcpSuffix_spec_witness:
  "lcpSuffix [''a.b'', ''c.b''] = ''.b'' \<and>
   suffix (lcpSuffix [''a.b'', ''c.b'']) ''a.b'' \<and> suffix (lcpSuffix [''a.b'', ''c.b'']) ''c.b''"
proof -
  have v: "lcpSuffix [''a.b'', ''c.b''] = ''.b''"
    by (simp add: lcpSuffix_Cons cut_suffix.simps)
  then show ?thesis using lcpSuffix_spec [of "[''a.b'', ''c.b'']"] by simp
qed

text \<open>
  Two domains are rejected exactly when one is an end of the other, as text, whether or not
  it is a parent domain. With a third name the check misses overlaps it finds between two:
  \<open>a.b.c\<close> and \<open>b.c\<close> are rejected, and accepted once \<open>x.y.b.c\<close> is added.\<close>
theorem overlap_two_not_three:
  "(check_overlap [a, b] = Inr () \<longleftrightarrow> \<not> suffix a b \<and> \<not> suffix b a) \<and>
   check_overlap [''a.b.c'', ''b.c''] \<noteq> Inr () \<and>
   check_overlap [''a.b.c'', ''b.c'', ''x.y.b.c''] = Inr ()"
proof -
  have two: "check_overlap [a, b] = Inr () \<longleftrightarrow> \<not> suffix a b \<and> \<not> suffix b a" for a b
    using lcpSuffix_two [of a b] lcpSuffix_two [of b a]
    by (simp add: check_overlap_def Let_def passes del: sort_key_simps) (auto simp: sort_two)
  have s: "suffix ''b.c'' ''a.b.c''" by (simp add: suffix_def)
  have l: "lcpSuffix [''a.b.c'', ''b.c'', ''x.y.b.c''] = ''.b.c''"
    by (simp add: lcpSuffix_Cons cut_suffix.simps)
  have srt: "sort_key (map code) [''a.b.c'', ''b.c'', ''x.y.b.c''] = [''a.b.c'', ''b.c'', ''x.y.b.c'']"
    by (simp add: code_def)
  have "check_overlap [''a.b.c'', ''b.c'', ''x.y.b.c''] = Inr ()"
    unfolding check_overlap_def Let_def srt l by (simp add: passes)
  with two s show ?thesis by blast
qed

text \<open>
  C35: validation accepts a tenant exactly when its pools are given and each is valid, its
  credentials are named, the two settings of workload identity come together, and its domains
  pass. A pool is valid when it has servers and volumes, two or three servers have at least four
  volumes between them, and its claim asks for storage and names an access mode.\<close>
theorem Tenant_Validate_iff:
  "Tenant_Validate parse_host is_domain t = Inr () \<longleftrightarrow>
     (\<exists>pools. ts_Pools (t_Spec t) = Some pools \<and> (\<forall>p \<in> set pools. valid_pool p)) \<and>
     (HasConfigurationSecret t \<or> HasCredsSecret t) \<and>
     (HasGCPCredentialSecretForKES t \<longleftrightarrow> HasGCPWorkloadIdentityPoolForKES t) \<and>
     ValidateDomains parse_host is_domain t = Inr ()"
proof (cases "ts_Pools (t_Spec t)")
  case None
  then show ?thesis by (simp add: Tenant_Validate_def)
next
  case (Some pools)
  note pools_pass [of 0 pools]
  moreover have "\<not> HasKESEnabled t \<Longrightarrow>
      \<not> HasGCPCredentialSecretForKES t \<and> \<not> HasGCPWorkloadIdentityPoolForKES t"
    by (simp add: HasKESEnabled_def HasGCPCredentialSecretForKES_def HasGCPWorkloadIdentityPoolForKES_def)
  ultimately show ?thesis
    using Some by (auto simp: Tenant_Validate_def passes)
qed

definition pool_less_tenant :: Tenant where
  "pool_less_tenant =
     \<lparr>t_Meta = empty_meta\<lparr>om_Name := ''t'', om_Namespace := ''ns''\<rparr>, t_Scheduler = [],
      t_Spec = zero_tenant_spec\<lparr>ts_Pools := Some [], ts_Configuration := Some ''conf''\<rparr>,
      t_Status = zero_tenant_status\<rparr>"

theorem Tenant_Validate_iff_witness:
  "Tenant_Validate Inr (\<lambda>_. True) pool_less_tenant = Inr () \<and>
   AllMinIOHosts Map.empty pool_less_tenant = None"
  using Tenant_Validate_iff [of Inr "\<lambda>_. True" pool_less_tenant]
  by (simp add: pool_less_tenant_def HasConfigurationSecret_def named_def zero_tenant_spec_def
      HasGCPCredentialSecretForKES_def HasGCPWorkloadIdentityPoolForKES_def ValidateDomains_def
      HasMinIODomains_def AllMinIOHosts_def MinIOHeadlessServiceHost_def pools_of_def)

text \<open>
  A tenant that passes validation may still have no pool, because an empty list is not nil;
  the list of its host names then panics. With pools the list exists, and with one server in the
  first pool it holds the wild card of an empty host.\<close>
theorem AllMinIOHosts_result:
  "(AllMinIOHosts E t = None \<longleftrightarrow> pools_of t = []) \<and>
   (Tenant_Validate parse_host is_domain t = Inr () \<and> ts_Pools (t_Spec t) \<noteq> Some [] \<longrightarrow>
      AllMinIOHosts E t \<noteq> None) \<and>
   (\<forall>hosts. AllMinIOHosts E t = Some hosts \<longrightarrow>
      (''*.'' \<in> set hosts) = (pool_Servers (hd (pools_of t)) = 1))"
proof -
  have panics: "AllMinIOHosts E t = None \<longleftrightarrow> pools_of t = []"
    by (cases "pools_of t") (simp_all add: AllMinIOHosts_def MinIOHeadlessServiceHost_def)
  have hosts: "(''*.'' \<in> set hosts) = (pool_Servers (hd (pools_of t)) = 1)"
    if "AllMinIOHosts E t = Some hosts" for hosts
    using that by (cases "pools_of t")
      (auto simp: AllMinIOHosts_def MinIOHeadlessServiceHost_def MinIOFQDNServiceName_def
        MinIOFQDNServiceNameAndNamespace_def MinIOFQDNShortServiceName_def MinIOCIServiceName_def
        svc_host_def split: if_splits)
  have "AllMinIOHosts E t \<noteq> None"
    if "Tenant_Validate parse_host is_domain t = Inr ()" "ts_Pools (t_Spec t) \<noteq> Some []"
  proof -
    from that(1) obtain pools where "ts_Pools (t_Spec t) = Some pools"
      by (cases "ts_Pools (t_Spec t)") (simp_all add: Tenant_Validate_def)
    with that(2) have "pools_of t \<noteq> []" by (simp add: pools_of_def)
    with panics show ?thesis by simp
  qed
  with panics hosts show ?thesis by blast
qed

theorem AllMinIOHosts_result_witness:
  "AllMinIOHosts Map.empty pool_less_tenant = None"
  using AllMinIOHosts_result [of Map.empty pool_less_tenant Inr "\<lambda>_. True"]
  by (simp add: pools_of_def pool_less_tenant_def)

end
