(* ===== verification/TenantAdmin.thy ===== *)
theory TenantAdmin
  imports TenantNames
begin

text \<open>
  What \<open>pkg/minio/operator/apis/minio.min.io/v2/helper.go\<close> does to a running MinIO: creating the
  console users and the buckets of a tenant, and unpacking an archive of binaries for an
  update. The admin client, the S3 client and the archive are parameters. The twenty second
  timeouts of the calls are part of what the clients do; log lines are left out.

  The second half shows what users and buckets exist when the two functions report success,
  and how the unpacking counts the files it looks for.
\<close>

section \<open>Users\<close>

record 'w admin_client =
  ac_AddUser :: "string \<Rightarrow> string \<Rightarrow> ('w, unit) io"
  ac_SetPolicy :: "string \<Rightarrow> string \<Rightarrow> ('w, unit) io"

definition skip_users :: "(string, string) gomap \<Rightarrow> bool" where
  "skip_users tenantConfiguration =
     (case mget tenantConfiguration ''MINIO_IDENTITY_LDAP_SERVER_ADDR'' of
        None \<Rightarrow> False
      | Some ldapAddress \<Rightarrow> ldapAddress \<noteq> [])"

definition create_user :: "'w admin_client \<Rightarrow> bool \<Rightarrow> secret \<Rightarrow> ('w, unit) io" where
  "create_user A skipCreateUser sec =
     (case mget (sec_Data sec) ''CONSOLE_ACCESS_KEY'' of
        None \<Rightarrow> io_fail (new_error ''CONSOLE_ACCESS_KEY not provided'')
      | Some consoleAccessKey \<Rightarrow>
          (let userAccessKey = trim_space consoleAccessKey in
           io_bind
             (if \<not> skipCreateUser
              then (case mget (sec_Data sec) ''CONSOLE_SECRET_KEY'' of
                      None \<Rightarrow> io_fail (new_error ''CONSOLE_SECRET_KEY not provided'')
                    | Some consoleSecretKey \<Rightarrow>
                        ac_AddUser A userAccessKey (trim_space consoleSecretKey))
              else io_ret ())
             (\<lambda>_. ac_SetPolicy A ConsoleAdminPolicyName userAccessKey)))"

definition CreateUsers ::
  "'w admin_client \<Rightarrow> secret list \<Rightarrow> (string, string) gomap \<Rightarrow> ('w, unit) io" where
  "CreateUsers A userCredentialSecrets tenantConfiguration =
     io_fold (\<lambda>sec _. create_user A (skip_users tenantConfiguration) sec) userCredentialSecrets ()"

section \<open>Buckets\<close>

record 'w bucket_client =
  bc_CheckName :: "string \<Rightarrow> go_error option"
  bc_MakeBucket :: "Bucket \<Rightarrow> ('w, unit) io"
  bc_ErrorCode :: "go_error \<Rightarrow> string"

definition already_there :: "string list" where
  "already_there = [''BucketAlreadyOwnedByYou'', ''BucketAlreadyExists'']"

definition create_bucket :: "'w bucket_client \<Rightarrow> Bucket \<Rightarrow> ('w, unit) io" where
  "create_bucket C bucket =
     (case bc_CheckName C (bucket_Name bucket) of
        Some err \<Rightarrow> io_fail err
      | None \<Rightarrow>
          io_bind (io_try (bc_MakeBucket C bucket)) (\<lambda>r.
            case r of
              Inl err \<Rightarrow> if bc_ErrorCode C err \<in> set already_there then io_ret () else io_fail err
            | Inr _ \<Rightarrow> io_ret ()))"

definition CreateBuckets :: "'w bucket_client \<Rightarrow> Bucket list \<Rightarrow> ('w, unit) io" where
  "CreateBuckets C buckets = io_fold (\<lambda>bucket _. create_bucket C bucket) buckets ()"

section \<open>Archives\<close>

fun find_item :: "string list \<Rightarrow> string \<Rightarrow> string" where
  "find_item [] val = []"
| "find_item (item # items) val = (if item = val then item else find_item items val)"

text \<open>\<open>path.Base\<close>.\<close>

definition path_base :: "string \<Rightarrow> string" where
  "path_base p =
     (if p = [] then ''.''
      else (let q = rev (dropWhile (\<lambda>c. c = CHR ''/'') (rev p)) in
            if q = [] then ''/'' else last (split_on CHR ''/'' q)))"

text \<open>
  An entry of an archive has a name and the text that can be copied out of it, with the error
  that ends the copy if there is one. The archive ends with \<open>io.EOF\<close> (\<open>None\<close>) or another error.
\<close>

record tar_entry =
  te_Regular :: bool
  te_Name :: string
  te_Content :: string
  te_CopyError :: "go_error option"

type_synonym files = "string \<rightharpoonup> string"

definition at_index :: "int \<Rightarrow> string \<Rightarrow> go_error \<Rightarrow> go_error" where
  "at_index success msg err =
     new_error (msg @ '', at index: '' @ itoa success @ '', with: '' @ err_text err)"

fun extract_entries ::
  "string list \<Rightarrow> string \<Rightarrow> (string \<Rightarrow> go_error option) \<Rightarrow> go_error option \<Rightarrow> int \<Rightarrow>
     tar_entry list \<Rightarrow> files \<Rightarrow> go_error option \<times> files" where
  "extract_entries wanted base open_err ending success [] fs =
     (case ending of
        None \<Rightarrow>
          if success = 0 then (None, fs)
          else (Some (new_error (''Tar file extraction failed for file index: '' @ itoa success @
                  '', with: EOF'')), fs)
      | Some err \<Rightarrow>
          (Some (new_error (''Tar file extraction failed for file index: '' @ itoa success @
             '', with: '' @ err_text err)), fs))"
| "extract_entries wanted base open_err ending success (e # es) fs =
     (if te_Regular e then
        (let name = find_item wanted (te_Name e) in
         if name \<noteq> [] then
           (let out = base @ path_base name in
            case open_err out of
              Some err \<Rightarrow>
                (Some (at_index success (''Tar file extraction failed while opening file: '' @ name) err), fs)
            | None \<Rightarrow>
                (case te_CopyError e of
                   Some err \<Rightarrow>
                     (Some (at_index success (''Tar file extraction failed while copying file: '' @ name) err),
                      fs(out \<mapsto> te_Content e))
                 | None \<Rightarrow>
                     extract_entries wanted base open_err ending (success - 1) es (fs(out \<mapsto> te_Content e))))
         else extract_entries wanted base open_err ending success es fs)
      else extract_entries wanted base open_err ending success es fs)"

text \<open>\<open>archive path gz\<close>: opening the archive, through a decompressor when its name ends in \<open>.gz\<close>.\<close>

definition ExtractTar ::
  "(string \<Rightarrow> bool \<Rightarrow> go_error + tar_entry list \<times> go_error option) \<Rightarrow> (string \<Rightarrow> go_error option) \<Rightarrow>
     string list \<Rightarrow> string \<Rightarrow> string \<Rightarrow> files \<Rightarrow> go_error option \<times> files" where
  "ExtractTar archive open_err filesToExtract basePath tarFileName fs =
     (case archive (basePath @ tarFileName) (suffix ''.gz'' tarFileName) of
        Inl err \<Rightarrow> (Some err, fs)
      | Inr (entries, ending) \<Rightarrow>
          extract_entries filesToExtract basePath open_err ending (int (length filesToExtract)) entries fs)"

section \<open>Release tags\<close>

definition minioReleaseTagTimeLayout :: string where
  "minioReleaseTagTimeLayout = ''2006-01-02T15-04-05Z''"

definition minioReleaseTagTimeLayoutBackup :: string where
  "minioReleaseTagTimeLayoutBackup = ''2006-01-02T15:04:05Z''"

text \<open>\<open>time.Parse\<close> is a parameter; splitting never gives an empty list, so that check is idle.\<close>

definition ReleaseTagToReleaseTime ::
  "(string \<Rightarrow> string \<Rightarrow> go_error + 'time) \<Rightarrow> string \<Rightarrow> go_error + 'time" where
  "ReleaseTagToReleaseTime parse_time releaseTag =
     (let fields = split_on CHR ''.'' releaseTag in
      if length fields < 1 then Inl (new_error (releaseTag @ '' not a valid release tag''))
      else
        (let releaseTimeStr = (if 1 < length fields then fields ! 1 else fields ! 0) in
         case parse_time minioReleaseTagTimeLayout releaseTimeStr of
           Inl _ \<Rightarrow> parse_time minioReleaseTagTimeLayoutBackup releaseTimeStr
         | Inr time \<Rightarrow> Inr time))"

lemma release_tag_second_field:
  assumes "CHR ''.'' \<notin> set a" "CHR ''.'' \<notin> set b"
  shows "ReleaseTagToReleaseTime p (a @ CHR ''.'' # b @ CHR ''.'' # c) = ReleaseTagToReleaseTime p (a @ CHR ''.'' # b)"
proof -
  have "split_on CHR ''.'' (a @ CHR ''.'' # b @ CHR ''.'' # c) = a # b # split_on CHR ''.'' c"
    "split_on CHR ''.'' (a @ CHR ''.'' # b) = [a, b]"
    using assms by (simp_all add: split_on_append split_on_no_sep)
  then show ?thesis by (simp add: ReleaseTagToReleaseTime_def)
qed

section \<open>Loops whose body returns nothing\<close>

lemma each_Ret:
  assumes "io_fold (\<lambda>x _. f x) xs () s = Some (Ret (), s1)"
    and "\<And>x s s1. x \<in> set xs \<Longrightarrow> f x s = Some (Ret (), s1) \<Longrightarrow> done x s1 \<and> (\<forall>y. done y s \<longrightarrow> done y s1)"
  shows "(\<forall>x \<in> set xs. done x s1) \<and> (\<forall>y. done y s \<longrightarrow> done y s1)"
  using assms
proof (induction xs arbitrary: s)
  case Nil
  then show ?case by (simp add: io_ret_def)
next
  case (Cons x xs)
  from Cons.prems(1) obtain s2 where f: "f x s = Some (Ret (), s2)"
    and rest: "io_fold (\<lambda>x _. f x) xs () s2 = Some (Ret (), s1)"
    by (auto elim!: io_bind_RetE)
  from Cons.prems(2) [OF _ f] have "done x s2" "\<forall>y. done y s \<longrightarrow> done y s2" by auto
  moreover have "(\<forall>x \<in> set xs. done x s1) \<and> (\<forall>y. done y s2 \<longrightarrow> done y s1)"
    using Cons.prems(2) by (intro Cons.IH [OF rest]) auto
  ultimately show ?case by auto
qed

lemma each_Ret_keeps:
  assumes "io_fold (\<lambda>x _. f x) xs () s = Some (Ret (), s1)"
    and "\<And>x s s1. f x s = Some (Ret (), s1) \<Longrightarrow> g s1 = g s"
  shows "g s1 = g s"
  using assms(1)
proof (induction xs arbitrary: s)
  case (Cons x xs)
  from Cons.prems obtain s2 where "f x s = Some (Ret (), s2)"
    "io_fold (\<lambda>x _. f x) xs () s2 = Some (Ret (), s1)"
    by (auto elim!: io_bind_RetE)
  with Cons.IH assms(2) show ?case by metis
qed (simp add: io_ret_def)

section \<open>Clients that keep their promises\<close>

definition admin_laws ::
  "'w admin_client \<Rightarrow> ('w \<Rightarrow> string \<rightharpoonup> string) \<Rightarrow> ('w \<Rightarrow> string \<rightharpoonup> string) \<Rightarrow> bool" where
  "admin_laws A users policy \<longleftrightarrow>
     (\<forall>u p w w1. ac_AddUser A u p w = Some (Ret (), w1) \<longrightarrow>
        users w1 = (users w)(u \<mapsto> p) \<and> policy w1 = policy w) \<and>
     (\<forall>pol u w w1. ac_SetPolicy A pol u w = Some (Ret (), w1) \<longrightarrow>
        policy w1 = (policy w)(u \<mapsto> pol) \<and> users w1 = users w)"

definition bucket_laws :: "'w bucket_client \<Rightarrow> ('w \<Rightarrow> string set) \<Rightarrow> bool" where
  "bucket_laws C exist \<longleftrightarrow>
     (\<forall>b w w1. bc_MakeBucket C b w = Some (Ret (), w1) \<longrightarrow> exist w1 = insert (bucket_Name b) (exist w)) \<and>
     (\<forall>b w e w1. bc_MakeBucket C b w = Some (Fail e, w1) \<and> bc_ErrorCode C e \<in> set already_there \<longrightarrow>
        bucket_Name b \<in> exist w1 \<and> exist w \<subseteq> exist w1) \<and>
     (\<forall>b w. bucket_Name b \<in> exist w \<longrightarrow>
        (\<exists>e. bc_MakeBucket C b w = Some (Fail e, w) \<and> bc_ErrorCode C e \<in> set already_there))"

definition user_done ::
  "('w \<Rightarrow> string \<rightharpoonup> string) \<Rightarrow> ('w \<Rightarrow> string \<rightharpoonup> string) \<Rightarrow> bool \<Rightarrow> secret \<Rightarrow> 'w \<Rightarrow> bool" where
  "user_done users policy skip sec w \<longleftrightarrow>
     (\<exists>ak. mget (sec_Data sec) ''CONSOLE_ACCESS_KEY'' = Some ak \<and>
        policy w (trim_space ak) = Some ConsoleAdminPolicyName \<and>
        (\<not> skip \<longrightarrow> users w (trim_space ak) \<noteq> None))"

lemma create_user_Ret:
  assumes "admin_laws A users policy" and "create_user A skip sec w = Some (Ret (), w1)"
  obtains ak where "mget (sec_Data sec) ''CONSOLE_ACCESS_KEY'' = Some ak"
    "policy w1 = (policy w)(trim_space ak \<mapsto> ConsoleAdminPolicyName)"
    "skip \<Longrightarrow> users w1 = users w"
    "\<not> skip \<Longrightarrow> \<exists>p. users w1 = (users w)(trim_space ak \<mapsto> p)"
proof -
  from assms(2) obtain ak where ak: "mget (sec_Data sec) ''CONSOLE_ACCESS_KEY'' = Some ak"
    by (auto simp: create_user_def io_fail_def split: option.splits)
  with assms(2) obtain w2 where
    add: "(if \<not> skip
              then (case mget (sec_Data sec) ''CONSOLE_SECRET_KEY'' of
                      None \<Rightarrow> io_fail (new_error ''CONSOLE_SECRET_KEY not provided'')
                    | Some consoleSecretKey \<Rightarrow>
                        ac_AddUser A (trim_space ak) (trim_space consoleSecretKey))
              else io_ret ()) w = Some (Ret (), w2)"
    and set: "ac_SetPolicy A ConsoleAdminPolicyName (trim_space ak) w2 = Some (Ret (), w1)"
    by (auto simp: create_user_def Let_def elim!: io_bind_RetE)
  from assms(1) set have pol: "policy w1 = (policy w2)(trim_space ak \<mapsto> ConsoleAdminPolicyName)"
    "users w1 = users w2" by (auto simp: admin_laws_def)
  have "policy w2 = policy w \<and> (skip \<longrightarrow> users w2 = users w) \<and>
      (\<not> skip \<longrightarrow> (\<exists>p. users w2 = (users w)(trim_space ak \<mapsto> p)))"
    using add assms(1)
    by (cases skip; cases "mget (sec_Data sec) ''CONSOLE_SECRET_KEY''")
      (auto simp: io_ret_def io_fail_def admin_laws_def)
  with pol show thesis by (intro that [OF ak]) auto
qed

lemma create_user_done:
  assumes "admin_laws A users policy" and "create_user A skip sec w = Some (Ret (), w1)"
  shows "user_done users policy skip sec w1 \<and>
    (\<forall>y. user_done users policy skip y w \<longrightarrow> user_done users policy skip y w1)"
proof (rule create_user_Ret [OF assms])
  fix ak
  assume ak: "mget (sec_Data sec) ''CONSOLE_ACCESS_KEY'' = Some ak"
    "policy w1 = (policy w)(trim_space ak \<mapsto> ConsoleAdminPolicyName)"
    "skip \<Longrightarrow> users w1 = users w" "\<not> skip \<Longrightarrow> \<exists>p. users w1 = (users w)(trim_space ak \<mapsto> p)"
  from ak show ?thesis by (cases skip) (auto simp: user_done_def)
qed

lemma create_bucket_Ret:
  assumes "bucket_laws C exist" and "create_bucket C b w = Some (Ret (), w1)"
  shows "bucket_Name b \<in> exist w1 \<and> (\<forall>n. n \<in> exist w \<longrightarrow> n \<in> exist w1) \<and> bc_CheckName C (bucket_Name b) = None"
proof -
  from assms(2) have ok: "bc_CheckName C (bucket_Name b) = None"
    by (auto simp: create_bucket_def io_fail_def split: option.splits)
  from assms(2) obtain r w2 where r: "io_try (bc_MakeBucket C b) w = Some (Ret r, w2)"
    and k: "(case r of
              Inl err \<Rightarrow> if bc_ErrorCode C err \<in> set already_there then io_ret () else io_fail err
            | Inr _ \<Rightarrow> io_ret ()) w2 = Some (Ret (), w1)"
    unfolding create_bucket_def ok option.case by (rule io_bind_RetE) blast
  show ?thesis
  proof (cases r)
    case (Inl e)
    with r have "bc_MakeBucket C b w = Some (Fail e, w2)"
      by (auto simp: io_try_def split: option.splits outcome.splits)
    moreover from k Inl have "bc_ErrorCode C e \<in> set already_there" "w2 = w1"
      by (auto simp: io_ret_def io_fail_def split: if_splits)
    ultimately have "bucket_Name b \<in> exist w1 \<and> exist w \<subseteq> exist w1"
      using assms(1) unfolding bucket_laws_def by blast
    with ok show ?thesis by blast
  next
    case (Inr u)
    with r have "bc_MakeBucket C b w = Some (Ret (), w2)"
      by (auto simp: io_try_def split: option.splits outcome.splits)
    with k Inr assms(1) ok show ?thesis by (auto simp: bucket_laws_def io_ret_def)
  qed
qed

lemma create_bucket_again:
  assumes "bucket_laws C exist" "bucket_Name b \<in> exist w" "bc_CheckName C (bucket_Name b) = None"
  shows "create_bucket C b w = Some (Ret (), w)"
proof -
  from assms(1,2) obtain e where "bc_MakeBucket C b w = Some (Fail e, w)"
    "bc_ErrorCode C e \<in> set already_there" unfolding bucket_laws_def by blast
  with assms(3) show ?thesis
    by (simp add: create_bucket_def io_bind_def io_try_def io_ret_def)
qed

lemma each_skips:
  "\<forall>x \<in> set xs. f x s = Some (Ret (), s) \<Longrightarrow> io_fold (\<lambda>x _. f x) xs () s = Some (Ret (), s)"
  by (induction xs) (simp_all add: io_ret_def io_bind_def)

section \<open>Counting extracted files\<close>

definition looked_for :: "string list \<Rightarrow> tar_entry \<Rightarrow> bool" where
  "looked_for wanted e \<longleftrightarrow> te_Regular e \<and> te_Name e \<in> set wanted \<and> te_Name e \<noteq> []"

lemma find_item_eq: "find_item items v = (if v \<in> set items then v else [])"
  by (induction items) auto

lemma extract_entries_count:
  assumes "\<forall>e \<in> set es. te_CopyError e = None"
  shows "fst (extract_entries wanted base (\<lambda>_. None) None n es fs) = None \<longleftrightarrow>
    int (length (filter (looked_for wanted) es)) = n"
  using assms
proof (induction es arbitrary: n fs)
  case (Cons e es)
  have l: "looked_for wanted e \<longleftrightarrow> te_Regular e \<and> find_item wanted (te_Name e) \<noteq> []"
    by (auto simp: looked_for_def find_item_eq)
  show ?case
  proof (cases "looked_for wanted e")
    case True
    with l Cons.prems have "extract_entries wanted base (\<lambda>_. None) None n (e # es) fs =
        extract_entries wanted base (\<lambda>_. None) None (n - 1) es
          (fs(base @ path_base (find_item wanted (te_Name e)) \<mapsto> te_Content e))"
      by (simp add: Let_def)
    with Cons True show ?thesis by auto
  next
    case False
    with l have "extract_entries wanted base (\<lambda>_. None) None n (e # es) fs =
        extract_entries wanted base (\<lambda>_. None) None n es fs"
      by (auto simp: Let_def)
    with Cons False show ?thesis by auto
  qed
qed auto

section \<open>Properties\<close>

text \<open>
  When the creation of the console users succeeds, every secret named an access key, the user
  of that key, trimmed of white space, has the console policy and, unless users live in LDAP, an
  account; with LDAP no account is touched.\<close>
theorem CreateUsers_result:
  assumes "admin_laws A users policy" and "CreateUsers A secrets conf w = Some (Ret (), w1)"
  shows "(\<forall>sec \<in> set secrets. \<exists>ak. mget (sec_Data sec) ''CONSOLE_ACCESS_KEY'' = Some ak \<and>
      policy w1 (trim_space ak) = Some ConsoleAdminPolicyName \<and>
      (\<not> skip_users conf \<longrightarrow> users w1 (trim_space ak) \<noteq> None)) \<and>
    (skip_users conf \<longrightarrow> users w1 = users w)"
proof -
  have run: "io_fold (\<lambda>sec _. create_user A (skip_users conf) sec) secrets () w = Some (Ret (), w1)"
    using assms(2) by (simp add: CreateUsers_def)
  have "\<forall>sec \<in> set secrets. user_done users policy (skip_users conf) sec w1"
    using each_Ret [OF run, of "user_done users policy (skip_users conf)"] create_user_done [OF assms(1)]
    by blast
  moreover have "users w1 = users w" if "skip_users conf"
    using each_Ret_keeps [OF run, of users] create_user_Ret [OF assms(1)] that by metis
  ultimately show ?thesis by (auto simp: user_done_def)
qed

definition mem_admin :: "((string \<rightharpoonup> string) \<times> (string \<rightharpoonup> string)) admin_client" where
  "mem_admin =
     \<lparr>ac_AddUser = (\<lambda>u p (us, ps). Some (Ret (), us(u \<mapsto> p), ps)),
      ac_SetPolicy = (\<lambda>pol u (us, ps). Some (Ret (), us, ps(u \<mapsto> pol)))\<rparr>"

definition sample_user :: secret where
  "sample_user = empty_secret
     \<lparr>sec_Data := Some [''CONSOLE_ACCESS_KEY'' \<mapsto> ''bob'', ''CONSOLE_SECRET_KEY'' \<mapsto> ''pw'']\<rparr>"

theorem CreateUsers_result_witness:
  "\<exists>w1. CreateUsers mem_admin [sample_user] None (Map.empty, Map.empty) = Some (Ret (), w1) \<and>
     snd w1 ''bob'' = Some ConsoleAdminPolicyName \<and> fst w1 ''bob'' \<noteq> None"
proof -
  have laws: "admin_laws mem_admin fst snd" by (auto simp: admin_laws_def mem_admin_def)
  have trim: "trim_space ''bob'' = ''bob''" "trim_space ''pw'' = ''pw''"
    by (simp_all add: trim_space_solid solid_def white_space_def code_def)
  obtain w1 where run: "CreateUsers mem_admin [sample_user] None (Map.empty, Map.empty) = Some (Ret (), w1)"
    by (simp add: CreateUsers_def create_user_def sample_user_def trim skip_users_def mem_admin_def
        io_bind_def io_ret_def Let_def)
  from CreateUsers_result [OF laws run]
  have "snd w1 ''bob'' = Some ConsoleAdminPolicyName \<and> fst w1 ''bob'' \<noteq> None"
    by (simp add: sample_user_def trim skip_users_def)
  with run show ?thesis by blast
qed

text \<open>
  When the creation of the buckets succeeds every bucket exists and none has gone, and
  creating them again succeeds and changes nothing.\<close>
theorem CreateBuckets_result:
  assumes "bucket_laws C exist" and "CreateBuckets C buckets w = Some (Ret (), w1)"
  shows "bucket_Name ` set buckets \<union> exist w \<subseteq> exist w1 \<and>
    CreateBuckets C buckets w1 = Some (Ret (), w1)"
proof -
  have run: "io_fold (\<lambda>b _. create_bucket C b) buckets () w = Some (Ret (), w1)"
    using assms(2) by (simp add: CreateBuckets_def)
  have names: "\<forall>b \<in> set buckets. bucket_Name b \<in> exist w1 \<and> bc_CheckName C (bucket_Name b) = None"
    using each_Ret [OF run, of "\<lambda>b w. bucket_Name b \<in> exist w \<and> bc_CheckName C (bucket_Name b) = None"]
      create_bucket_Ret [OF assms(1)] by blast
  have kept: "\<forall>y. y \<in> exist w \<longrightarrow> y \<in> exist w1"
  proof -
    have "\<forall>b :: Bucket. bucket_Name b \<in> exist w \<longrightarrow> bucket_Name b \<in> exist w1"
      using each_Ret [OF run, of "\<lambda>b w. bucket_Name b \<in> exist w"] create_bucket_Ret [OF assms(1)]
      by blast
    then show ?thesis by (metis Bucket.select_convs(1))
  qed
  have "CreateBuckets C buckets w1 = Some (Ret (), w1)"
    unfolding CreateBuckets_def
    using names create_bucket_again [OF assms(1)] by (intro each_skips) blast
  with names kept show ?thesis by auto
qed

definition mem_buckets :: "string set bucket_client" where
  "mem_buckets =
     \<lparr>bc_CheckName = (\<lambda>_. None),
      bc_MakeBucket = (\<lambda>b w. if bucket_Name b \<in> w then Some (Fail (new_error ''BucketAlreadyExists''), w)
                             else Some (Ret (), insert (bucket_Name b) w)),
      bc_ErrorCode = err_text\<rparr>"

theorem CreateBuckets_result_witness:
  "\<exists>w1. CreateBuckets mem_buckets [\<lparr>bucket_Name = ''b'', bucket_Region = [], bucket_ObjectLocking = False\<rparr>] {} =
      Some (Ret (), w1) \<and> ''b'' \<in> w1"
proof -
  let ?bs = "[\<lparr>bucket_Name = ''b'', bucket_Region = [], bucket_ObjectLocking = False\<rparr>]"
  have laws: "bucket_laws mem_buckets (\<lambda>w. w)"
    by (auto simp: bucket_laws_def mem_buckets_def already_there_def split: if_splits)
  obtain w1 where run: "CreateBuckets mem_buckets ?bs {} = Some (Ret (), w1)"
    by (simp add: CreateBuckets_def create_bucket_def mem_buckets_def io_bind_def io_try_def io_ret_def)
  from CreateBuckets_result [OF laws run] run show ?thesis by auto
qed

text \<open>
  Unpacking counts entries, not files. Without input or output errors it succeeds exactly
  when the archive has as many regular entries of a wanted name as there are wanted names:
  a file stored twice can stand for one that is missing, and a complete archive with a file
  stored twice is refused.\<close>
theorem ExtractTar_counts:
  assumes "archive (base @ tarFile) (suffix ''.gz'' tarFile) = Inr (entries, None)"
    and "\<forall>e \<in> set entries. te_CopyError e = None"
  shows "fst (ExtractTar archive (\<lambda>_. None) wanted base tarFile fs) = None \<longleftrightarrow>
    length (filter (looked_for wanted) entries) = length wanted"
  using assms by (simp add: ExtractTar_def extract_entries_count)

definition entry_named :: "string \<Rightarrow> tar_entry" where
  "entry_named n = \<lparr>te_Regular = True, te_Name = n, te_Content = n, te_CopyError = None\<rparr>"

theorem ExtractTar_counts_witness:
  "fst (ExtractTar (\<lambda>_ _. Inr ([entry_named ''a'', entry_named ''a''], None)) (\<lambda>_. None) [''a'', ''b'']
      ''/tmp/'' ''x.tar'' Map.empty) = None \<and>
   fst (ExtractTar (\<lambda>_ _. Inr ([entry_named ''a'', entry_named ''a''], None)) (\<lambda>_. None) [''a'']
      ''/tmp/'' ''x.tar'' Map.empty) \<noteq> None"
proof -
  let ?es = "[entry_named ''a'', entry_named ''a'']"
  have ok: "\<forall>e \<in> set ?es. te_CopyError e = None" by (simp add: entry_named_def)
  note T = ExtractTar_counts [of "\<lambda>_ _. Inr (?es, None)" "''/tmp/''" "''x.tar''" ?es, OF refl ok]
  have "length (filter (looked_for [''a'', ''b'']) ?es) = 2" "length (filter (looked_for [''a'']) ?es) = 2"
    by (simp_all add: looked_for_def entry_named_def)
  with T [of "[''a'', ''b'']" Map.empty] T [of "[''a'']" Map.empty] show ?thesis by simp
qed

end
