(* ===== verification/TenantClients.thy ===== *)
theory TenantClients
  imports TenantHelpers
begin

text \<open>
  The methods of \<open>pkg/minio/operator/apis/minio.min.io/v2/helper.go\<close> that open clients to a running
  MinIO, read the files of the pod and sign the token of Prometheus. The constructors of the
  clients, the file system, the signing of a token and the clock are parameters. A transport is
  shared by pointer, so a function that changes it returns it changed.

  The second half shows with which address, credentials and transport the clients are made.
\<close>

section \<open>Files of the pod\<close>

type_synonym read_file = "string \<Rightarrow> go_error + string"

definition read_or_nil :: "read_file \<Rightarrow> string \<Rightarrow> string option" where
  "read_or_nil R path = (case R path of Inl err \<Rightarrow> None | Inr cert \<Rightarrow> Some cert)"

definition GetPodCAFromFile :: "read_file \<Rightarrow> string option" where
  "GetPodCAFromFile R = read_or_nil R ''/var/run/secrets/kubernetes.io/serviceaccount/ca.crt''"

definition GetOpenshiftServiceCAFromFile :: "read_file \<Rightarrow> string option" where
  "GetOpenshiftServiceCAFromFile R = read_or_nil R ''/tmp/service-ca/service-ca.crt''"

definition GetOpenshiftCSRSignerCAFromFile :: "read_file \<Rightarrow> string option" where
  "GetOpenshiftCSRSignerCAFromFile R = read_or_nil R ''/tmp/csr-signer-ca/tls.crt''"

definition GetPublicCertFilePath :: "string \<Rightarrow> string" where
  "GetPublicCertFilePath serviceName = ''/tmp/'' @ serviceName @ ''/public.crt''"

definition GetPrivateKeyFilePath :: "string \<Rightarrow> string" where
  "GetPrivateKeyFilePath serviceName = ''/tmp/'' @ serviceName @ ''/private.key''"

definition GetNSFromFile :: "read_file \<Rightarrow> string" where
  "GetNSFromFile R =
     (case R ''/var/run/secrets/kubernetes.io/serviceaccount/namespace'' of
        Inl err \<Rightarrow> ''minio-operator''
      | Inr namespace \<Rightarrow> namespace)"

definition MustGetSystemCertPool :: "go_error + 'p \<Rightarrow> 'p \<Rightarrow> 'p" where
  "MustGetSystemCertPool system_pool new_pool =
     (case system_pool of Inl err \<Rightarrow> new_pool | Inr pool \<Rightarrow> pool)"

section \<open>The token of Prometheus\<close>

record jwt_claims =
  jwt_ExpiresAt :: int
  jwt_Subject :: string
  jwt_Issuer :: string

text \<open>In seconds; the source counts nanoseconds, and adds them to a time.\<close>

definition defaultPrometheusJWTExpiry :: int where
  "defaultPrometheusJWTExpiry = 100 * 365 * 24 * 3600"

text \<open>\<open>None\<close> is the panic when signing fails; \<open>now\<close> is the time in seconds.\<close>

definition GenBearerToken ::
  "(jwt_claims \<Rightarrow> string \<Rightarrow> go_error + string) \<Rightarrow> int \<Rightarrow> string \<Rightarrow> string \<Rightarrow> string option" where
  "GenBearerToken sign now accessKey secretKey =
     (case sign \<lparr>jwt_ExpiresAt = now + defaultPrometheusJWTExpiry, jwt_Subject = accessKey,
                  jwt_Issuer = ''prometheus''\<rparr> secretKey of
        Inl err \<Rightarrow> None
      | Inr token \<Rightarrow> Some token)"

section \<open>Clients\<close>

text \<open>A TLS configuration is observed through \<open>InsecureSkipVerify\<close> alone.\<close>

record http_transport =
  tr_TLSClientConfig :: "bool option"

record client_options =
  opt_Secure :: bool
  opt_AccessKey :: string
  opt_SecretKey :: string

definition MinIOHealthCheck ::
  "(string \<Rightarrow> bool \<Rightarrow> go_error + 'c) \<Rightarrow> (http_transport \<Rightarrow> 'c \<Rightarrow> 'c) \<Rightarrow> ('c \<Rightarrow> go_error + bool) \<Rightarrow>
     process_env \<Rightarrow> Tenant \<Rightarrow> http_transport \<Rightarrow> bool \<times> http_transport" where
  "MinIOHealthCheck new_anonymous set_transport healthy E t tr =
     (let tr = (if tr_TLSClientConfig tr \<noteq> None then tr\<lparr>tr_TLSClientConfig := Some True\<rparr> else tr) in
      case new_anonymous (MinIOServerHostAddress E t) (TLS t) of
        Inl err \<Rightarrow> (False, tr)
      | Inr clnt \<Rightarrow>
          (case healthy (set_transport tr clnt) of
             Inl err \<Rightarrow> (False, tr)
           | Inr result \<Rightarrow> (result, tr)))"

definition NewMinIOAdminForAddress ::
  "(string \<Rightarrow> client_options \<Rightarrow> go_error + 'c) \<Rightarrow> (http_transport \<Rightarrow> 'c \<Rightarrow> 'c) \<Rightarrow> process_env \<Rightarrow>
     Tenant \<Rightarrow> string \<Rightarrow> (string, string) gomap \<Rightarrow> http_transport \<Rightarrow> go_error + 'c" where
  "NewMinIOAdminForAddress new_with_options set_transport E t address minioSecret tr =
     (case getMinIOTenantDetails E t address minioSecret of
        Inl err \<Rightarrow> Inl err
      | Inr (host, accessKey, secretKey) \<Rightarrow>
          (case new_with_options host
                  \<lparr>opt_Secure = TLS t, opt_AccessKey = accessKey, opt_SecretKey = secretKey\<rparr> of
             Inl err \<Rightarrow> Inl err
           | Inr madmClnt \<Rightarrow> Inr (set_transport tr madmClnt)))"

definition NewMinIOAdmin ::
  "(string \<Rightarrow> client_options \<Rightarrow> go_error + 'c) \<Rightarrow> (http_transport \<Rightarrow> 'c \<Rightarrow> 'c) \<Rightarrow> process_env \<Rightarrow>
     Tenant \<Rightarrow> (string, string) gomap \<Rightarrow> http_transport \<Rightarrow> go_error + 'c" where
  "NewMinIOAdmin new_with_options set_transport E t minioSecret tr =
     NewMinIOAdminForAddress new_with_options set_transport E t [] minioSecret tr"

definition NewMinIOUserForAddress ::
  "(http_transport \<Rightarrow> string \<Rightarrow> client_options \<Rightarrow> go_error + 'c) \<Rightarrow> process_env \<Rightarrow>
     Tenant \<Rightarrow> string \<Rightarrow> (string, string) gomap \<Rightarrow> http_transport \<Rightarrow> go_error + 'c" where
  "NewMinIOUserForAddress minio_new E t address minioSecret tr =
     (case getMinIOTenantDetails E t address minioSecret of
        Inl err \<Rightarrow> Inl err
      | Inr (host, accessKey, secretKey) \<Rightarrow>
          (case minio_new tr host
                  \<lparr>opt_Secure = TLS t, opt_AccessKey = accessKey, opt_SecretKey = secretKey\<rparr> of
             Inl err \<Rightarrow> Inl err
           | Inr minioClient \<Rightarrow> Inr minioClient))"

definition NewMinIOUser ::
  "(http_transport \<Rightarrow> string \<Rightarrow> client_options \<Rightarrow> go_error + 'c) \<Rightarrow> process_env \<Rightarrow>
     Tenant \<Rightarrow> (string, string) gomap \<Rightarrow> http_transport \<Rightarrow> go_error + 'c" where
  "NewMinIOUser minio_new E t minioSecret tr =
     NewMinIOUserForAddress minio_new E t [] minioSecret tr"

section \<open>What the clients are made with\<close>

lemma MinIOServerHostAddress_nonempty: "MinIOServerHostAddress E t \<noteq> []"
  by (simp add: MinIOServerHostAddress_def JoinHostPort_def)

text \<open>The check for an empty host never fires: an address always holds a colon.\<close>

lemma getMinIOTenantDetails_iff:
  "getMinIOTenantDetails E t address sec = Inr (host, ak, sk) \<longleftrightarrow>
     host = (if address = [] then MinIOServerHostAddress E t else address) \<and>
     mget sec ''accesskey'' = Some ak \<and> mget sec ''secretkey'' = Some sk"
  using MinIOServerHostAddress_nonempty [of E t]
  by (auto simp: getMinIOTenantDetails_def Let_def split: option.splits)

text \<open>
  C39: a health check switches off the verification of certificates for good: a transport with a
  TLS configuration comes back with \<open>InsecureSkipVerify\<close> set, whatever the check answers, and an
  admin client that is made with the same transport later, carrying the root credentials, does
  not verify the server either; the transport is otherwise as it was.\<close>
theorem health_check_disables_verification:
  assumes "tr_TLSClientConfig tr = Some verify"
    and "MinIOHealthCheck new_anonymous set_transport healthy E t tr = (answer, tr1)"
    and "NewMinIOAdmin new_with_options set_transport E1 t1 sec tr1 = Inr clnt"
  shows "tr1 = tr\<lparr>tr_TLSClientConfig := Some True\<rparr> \<and>
    (\<exists>c ak sk. mget sec ''accesskey'' = Some ak \<and> mget sec ''secretkey'' = Some sk \<and>
       new_with_options (MinIOServerHostAddress E1 t1)
         \<lparr>opt_Secure = TLS t1, opt_AccessKey = ak, opt_SecretKey = sk\<rparr> = Inr c \<and>
       clnt = set_transport (tr\<lparr>tr_TLSClientConfig := Some True\<rparr>) c)"
proof -
  have tr1: "tr1 = tr\<lparr>tr_TLSClientConfig := Some True\<rparr>"
    using assms(1,2) by (simp add: MinIOHealthCheck_def Let_def split: sum.splits)
  from assms(3) obtain host ak sk c where
    "getMinIOTenantDetails E1 t1 [] sec = Inr (host, ak, sk)"
    "new_with_options host \<lparr>opt_Secure = TLS t1, opt_AccessKey = ak, opt_SecretKey = sk\<rparr> = Inr c"
    "clnt = set_transport tr1 c"
    by (auto simp: NewMinIOAdmin_def NewMinIOAdminForAddress_def split: sum.splits)
  with tr1 show ?thesis by (auto simp: getMinIOTenantDetails_iff)
qed

definition demo_tenant :: Tenant where
  "demo_tenant = \<lparr>t_Meta = empty_meta\<lparr>om_Name := ''t'', om_Namespace := ''ns''\<rparr>, t_Scheduler = [],
     t_Spec = zero_tenant_spec, t_Status = zero_tenant_status\<rparr>"

text \<open>A client that only remembers what it was made with.\<close>

type_synonym demo_client = "string \<times> string \<times> http_transport"

definition demo_new :: "string \<Rightarrow> client_options \<Rightarrow> go_error + demo_client" where
  "demo_new host opts = Inr (host, opt_AccessKey opts, \<lparr>tr_TLSClientConfig = None\<rparr>)"

definition demo_transport :: "http_transport \<Rightarrow> demo_client \<Rightarrow> demo_client" where
  "demo_transport tr clnt = (fst clnt, fst (snd clnt), tr)"

definition demo_check :: "bool \<times> http_transport" where
  "demo_check = MinIOHealthCheck
     (\<lambda>host secure. demo_new host \<lparr>opt_Secure = secure, opt_AccessKey = [], opt_SecretKey = []\<rparr>)
     demo_transport (\<lambda>_. Inr True) Map.empty demo_tenant \<lparr>tr_TLSClientConfig = Some False\<rparr>"

theorem health_check_disables_verification_witness:
  "\<exists>clnt. NewMinIOAdmin demo_new demo_transport Map.empty demo_tenant
     (Some [''accesskey'' \<mapsto> ''root'', ''secretkey'' \<mapsto> ''pw'']) (snd demo_check) = Inr clnt \<and>
     snd (snd clnt) = \<lparr>tr_TLSClientConfig = Some True\<rparr>"
proof -
  obtain answer tr1 where check: "demo_check = (answer, tr1)" by (cases demo_check)
  let ?sec = "Some [''accesskey'' \<mapsto> ''root'', ''secretkey'' \<mapsto> ''pw'']"
  have "getMinIOTenantDetails Map.empty demo_tenant [] ?sec =
      Inr (MinIOServerHostAddress Map.empty demo_tenant, ''root'', ''pw'')"
    by (simp add: getMinIOTenantDetails_iff)
  then have "\<exists>clnt. NewMinIOAdmin demo_new demo_transport Map.empty demo_tenant ?sec tr1 = Inr clnt"
    unfolding NewMinIOAdmin_def NewMinIOAdminForAddress_def by (simp add: demo_new_def demo_transport_def)
  then obtain clnt where clnt: "NewMinIOAdmin demo_new demo_transport Map.empty demo_tenant ?sec tr1 = Inr clnt"
    by blast
  from health_check_disables_verification [of _ False, OF _ check [unfolded demo_check_def] clnt]
  have "snd (snd clnt) = \<lparr>tr_TLSClientConfig = Some True\<rparr>"
    by (auto simp: demo_transport_def)
  with clnt check show ?thesis by (metis snd_conv)
qed

end
