(* ===== verification/SafeFile.thy ===== *)
theory SafeFile
  imports DirectPVTypes
begin

text \<open>
  The input and output of DirectPV's \<open>utils.go\<close>: the safe file, the two encoders and the message
  printer. A \<open>SafeFile\<close> collects its text in a temporary file beside the target and renames it
  when it is closed. The calls of the \<open>os\<close> package are parameters over an unspecified world; the
  locale \<open>file_system\<close> states what they promise, in terms of the content of the paths, and \<open>disk\<close> is
  a concrete file system with a capacity that keeps these promises. The YAML and JSON encoders
  are parameters.
\<close>

section \<open>path/filepath\<close>

text \<open>\<open>Clean\<close> for any path: a double dot that has nothing to go back to stays, unless the path is rooted.\<close>

fun clean_stack :: "bool \<Rightarrow> string list \<Rightarrow> string list \<Rightarrow> string list" where
  "clean_stack rooted [] stack = rev stack"
| "clean_stack rooted (p # ps) stack =
     (if p = [] \<or> p = ''.'' then clean_stack rooted ps stack
      else if p = ''..'' then
        (if stack \<noteq> [] \<and> hd stack \<noteq> ''..'' then clean_stack rooted ps (tl stack)
         else if rooted then clean_stack rooted ps stack
         else clean_stack rooted ps (p # stack))
      else clean_stack rooted ps (p # stack))"

definition rooted_path :: "string \<Rightarrow> bool" where
  "rooted_path p \<longleftrightarrow> prefix ''/'' p"

definition clean_path :: "string \<Rightarrow> string" where
  "clean_path p =
     (let parts = clean_stack (rooted_path p) (split_on CHR ''/'' p) [] in
      if rooted_path p then ''/'' @ join ''/'' parts
      else if parts = [] then ''.''
      else join ''/'' parts)"

text \<open>\<open>Dir\<close>: what comes before the last slash, and the slash, cleaned.\<close>

definition dir_part :: "string \<Rightarrow> string" where
  "dir_part p = rev (dropWhile (\<lambda>c. c \<noteq> CHR ''/'') (rev p))"

definition filepath_Dir :: "string \<Rightarrow> string" where
  "filepath_Dir p = clean_path (dir_part p)"

text \<open>\<open>joinPath\<close> of \<open>os\<close>: a separator is put between, unless the directory ends with one.\<close>

definition path_beside :: "string \<Rightarrow> string \<Rightarrow> string" where
  "path_beside dir name = (if dir \<noteq> [] \<and> last dir = CHR ''/'' then dir @ name else dir @ ''/'' @ name)"

section \<open>The calls of os\<close>

text \<open>
  \<open>Write\<close> returns the number of bytes it accepted together with an error: both are its value.\<close>

record ('w, 'h) os_calls =
  os_CreateTemp :: "string \<Rightarrow> string \<Rightarrow> ('w, 'h) io"
  os_Name :: "'h \<Rightarrow> string"
  os_Write :: "'h \<Rightarrow> string \<Rightarrow> ('w, nat \<times> go_error option) io"
  os_CloseFile :: "'h \<Rightarrow> ('w, unit) io"
  os_Rename :: "string \<Rightarrow> string \<Rightarrow> ('w, unit) io"
  os_Stderr :: "string \<Rightarrow> ('w, unit) io"

section \<open>The safe file\<close>

record 'h SafeFile =
  sf_filename :: string
  sf_tempFile :: 'h

definition NewSafeFile :: "('w, 'h) os_calls \<Rightarrow> string \<Rightarrow> ('w, 'h SafeFile) io" where
  "NewSafeFile os filename =
     io_bind (os_CreateTemp os (filepath_Dir filename) ''safefile.'') (\<lambda>tempFile.
       io_ret \<lparr>sf_filename = filename, sf_tempFile = tempFile\<rparr>)"

definition SafeFile_Write ::
  "('w, 'h) os_calls \<Rightarrow> 'h SafeFile \<Rightarrow> string \<Rightarrow> ('w, nat \<times> go_error option) io" where
  "SafeFile_Write os safeFile p = os_Write os (sf_tempFile safeFile) p"

definition SafeFile_Close :: "('w, 'h) os_calls \<Rightarrow> 'h SafeFile \<Rightarrow> ('w, unit) io" where
  "SafeFile_Close os safeFile =
     io_bind (os_CloseFile os (sf_tempFile safeFile)) (\<lambda>_.
       os_Rename os (os_Name os (sf_tempFile safeFile)) (sf_filename safeFile))"

text \<open>A user of the file: chunks are written one after the other, whatever each write answers.\<close>

fun write_chunks ::
  "('w, 'h) os_calls \<Rightarrow> 'h SafeFile \<Rightarrow> string list \<Rightarrow> ('w, (nat \<times> go_error option) list) io" where
  "write_chunks os safeFile [] = io_ret []"
| "write_chunks os safeFile (p # ps) =
     io_bind (SafeFile_Write os safeFile p) (\<lambda>r.
       io_bind (write_chunks os safeFile ps) (\<lambda>rs. io_ret (r # rs)))"

text \<open>The bytes that the writes accepted.\<close>

definition accepted :: "string list \<Rightarrow> (nat \<times> go_error option) list \<Rightarrow> string" where
  "accepted ps rs = concat (map2 (\<lambda>p r. take (fst r) p) ps rs)"

section \<open>Encoders and messages\<close>

definition ToYAML :: "('a \<Rightarrow> go_error + string) \<Rightarrow> 'a \<Rightarrow> go_error + string" where
  "ToYAML yaml_Marshal i =
     (case yaml_Marshal i of
        Inl err \<Rightarrow> Inl err
      | Inr data \<Rightarrow> Inr (data @ newline @ ''---'' @ newline))"

definition ToJSON :: "('a \<Rightarrow> string \<Rightarrow> string \<Rightarrow> go_error + string) \<Rightarrow> 'a \<Rightarrow> go_error + string" where
  "ToJSON json_MarshalIndent obj = json_MarshalIndent obj [] ''  ''"

text \<open>
  \<open>red\<close> is \<open>color.RedString\<close>; \<open>msg\<close> is the text the format and its arguments give. The results of the
  two prints are discarded by the code.\<close>

definition Eprintf ::
  "('w, 'h) os_calls \<Rightarrow> (string \<Rightarrow> string) \<Rightarrow> bool \<Rightarrow> bool \<Rightarrow> string \<Rightarrow> ('w, unit) io" where
  "Eprintf os red quiet asErr msg =
     (if quiet then io_ret ()
      else
        io_bind
          (if asErr
           then io_bind (io_try (os_Stderr os (red ''ERROR'' @ '' ''))) (\<lambda>_. io_ret ())
           else io_ret ()) (\<lambda>_.
        io_bind (io_try (os_Stderr os msg)) (\<lambda>_. io_ret ())))"

section \<open>What the calls promise\<close>

text \<open>
  \<open>content w q\<close> is the text of the file at path \<open>q\<close>. A handle is open under its name from its
  creation to its close; a closed one stays closed, and closing or writing it fails.\<close>

locale file_system =
  fixes os :: "('w, 'h) os_calls"
    and content :: "'w \<Rightarrow> string \<rightharpoonup> string"
    and is_open :: "'w \<Rightarrow> 'h \<Rightarrow> bool"
    and is_closed :: "'w \<Rightarrow> 'h \<Rightarrow> bool"
  assumes create_temp: "\<exists>r w1. os_CreateTemp os dir pat w = Some (r, w1) \<and>
      ((\<exists>h s. r = Ret h \<and> os_Name os h = path_beside dir (pat @ s) \<and> content w (os_Name os h) = None \<and>
          content w1 = (content w)(os_Name os h \<mapsto> []) \<and> is_open w1 h) \<or>
       (\<exists>e. r = Fail e \<and> content w1 = content w))"
    and write_open: "is_open w h \<Longrightarrow> \<exists>n err w1 t. os_Write os h p w = Some (Ret (n, err), w1) \<and>
      n \<le> length p \<and> (err = None \<longrightarrow> n = length p) \<and> is_open w1 h \<and>
      content w (os_Name os h) = Some t \<and> content w1 = (content w)(os_Name os h \<mapsto> t @ take n p)"
    and write_closed: "is_closed w h \<Longrightarrow> \<exists>err w1. os_Write os h p w = Some (Ret (0, Some err), w1) \<and>
      is_closed w1 h \<and> content w1 = content w"
    and close_open: "is_open w h \<Longrightarrow> \<exists>r w1. os_CloseFile os h w = Some (r, w1) \<and>
      (r = Ret () \<or> (\<exists>e. r = Fail e)) \<and> is_closed w1 h \<and> content w1 = content w"
    and close_closed: "is_closed w h \<Longrightarrow> \<exists>e w1. os_CloseFile os h w = Some (Fail e, w1) \<and>
      is_closed w1 h \<and> content w1 = content w"
    and rename: "\<exists>r w1. os_Rename os old new w = Some (r, w1) \<and>
      (r = Ret () \<and> content w old \<noteq> None \<and> content w1 = (content w)(old := None, new := content w old) \<or>
       (\<exists>e. r = Fail e \<and> content w1 = content w))"
    and rename_closed: "os_Rename os old new w = Some (r, w1) \<Longrightarrow> is_closed w h \<Longrightarrow> is_closed w1 h"
begin

lemma new_file:
  assumes "NewSafeFile os filename w = Some (Ret sf, w1)"
  shows "sf_filename sf = filename" "content w (os_Name os (sf_tempFile sf)) = None"
    "content w1 = (content w)(os_Name os (sf_tempFile sf) \<mapsto> [])" "is_open w1 (sf_tempFile sf)"
    "\<exists>s. os_Name os (sf_tempFile sf) = path_beside (filepath_Dir filename) (''safefile.'' @ s)"
proof -
  obtain h where h: "os_CreateTemp os (filepath_Dir filename) ''safefile.'' w = Some (Ret h, w1)"
    "sf = \<lparr>sf_filename = filename, sf_tempFile = h\<rparr>"
    using assms unfolding NewSafeFile_def by (elim io_bind_RetE) (auto simp: io_ret_def)
  from create_temp [of "filepath_Dir filename" "''safefile.''" w] have
    "(\<exists>s. os_Name os h = path_beside (filepath_Dir filename) (''safefile.'' @ s)) \<and>
     content w (os_Name os h) = None \<and> content w1 = (content w)(os_Name os h \<mapsto> []) \<and> is_open w1 h"
    unfolding h(1) by blast
  with h(2) show "sf_filename sf = filename" "content w (os_Name os (sf_tempFile sf)) = None"
    "content w1 = (content w)(os_Name os (sf_tempFile sf) \<mapsto> [])" "is_open w1 (sf_tempFile sf)"
    "\<exists>s. os_Name os (sf_tempFile sf) = path_beside (filepath_Dir filename) (''safefile.'' @ s)"
    by simp_all
qed

lemma new_failed:
  "NewSafeFile os filename w = Some (Fail e, w1) \<Longrightarrow> content w1 = content w"
  using create_temp [of "filepath_Dir filename" "''safefile.''" w]
  by (auto simp: NewSafeFile_def io_bind_def io_ret_def split: option.splits outcome.splits)

lemma chunks_open:
  assumes "is_open w (sf_tempFile sf)" and "content w (os_Name os (sf_tempFile sf)) = Some t"
  shows "\<exists>rs w1. write_chunks os sf ps w = Some (Ret rs, w1) \<and> length rs = length ps \<and>
    is_open w1 (sf_tempFile sf) \<and>
    content w1 = (content w)(os_Name os (sf_tempFile sf) \<mapsto> t @ accepted ps rs) \<and>
    list_all2 (\<lambda>p r. fst r \<le> length p \<and> (snd r = None \<longrightarrow> fst r = length p)) ps rs"
  using assms
proof (induction ps arbitrary: w t)
  case Nil
  then show ?case by (auto simp: io_ret_def accepted_def)
next
  case (Cons p ps)
  let ?n = "os_Name os (sf_tempFile sf)"
  obtain n err w2 where w2: "os_Write os (sf_tempFile sf) p w = Some (Ret (n, err), w2)"
    "n \<le> length p" "err = None \<longrightarrow> n = length p" "is_open w2 (sf_tempFile sf)"
    "content w2 = (content w)(?n \<mapsto> t @ take n p)"
    using write_open [OF Cons.prems(1), of p] Cons.prems(2) by auto
  have t1: "content w2 ?n = Some (t @ take n p)" by (simp add: w2(5))
  obtain rs w1 where
    "write_chunks os sf ps w2 = Some (Ret rs, w1)" "length rs = length ps" "is_open w1 (sf_tempFile sf)"
    "content w1 = (content w)(?n \<mapsto> (t @ take n p) @ accepted ps rs)"
    "list_all2 (\<lambda>p r. fst r \<le> length p \<and> (snd r = None \<longrightarrow> fst r = length p)) ps rs"
    using Cons.IH [OF w2(4) t1] unfolding w2(5) fun_upd_upd by blast
  moreover have "accepted (p # ps) ((n, err) # rs) = take n p @ accepted ps rs"
    by (simp add: accepted_def)
  moreover have "write_chunks os sf (p # ps) w = Some (Ret ((n, err) # rs), w1)"
    using w2(1) calculation(1) by (simp add: SafeFile_Write_def io_bind_def io_ret_def)
  ultimately show ?case
    using w2(2,3) by (intro exI [of _ "(n, err) # rs"] exI [of _ w1]) simp
qed

lemma close_file:
  assumes "is_open w (sf_tempFile sf)"
  shows "\<exists>r w1. SafeFile_Close os sf w = Some (r, w1) \<and> is_closed w1 (sf_tempFile sf) \<and>
    (r = Ret () \<and> content w1 = (content w)(os_Name os (sf_tempFile sf) := None,
        sf_filename sf := content w (os_Name os (sf_tempFile sf))) \<or>
     (\<exists>e. r = Fail e \<and> content w1 = content w))"
proof -
  obtain r w1 where w1: "os_CloseFile os (sf_tempFile sf) w = Some (r, w1)"
    "r = Ret () \<or> (\<exists>e. r = Fail e)" "is_closed w1 (sf_tempFile sf)" "content w1 = content w"
    using close_open [OF assms] by blast
  obtain q w2 where w2: "os_Rename os (os_Name os (sf_tempFile sf)) (sf_filename sf) w1 = Some (q, w2)"
    "q = Ret () \<and> content w2 = (content w1)(os_Name os (sf_tempFile sf) := None,
        sf_filename sf := content w1 (os_Name os (sf_tempFile sf))) \<or>
     (\<exists>e. q = Fail e \<and> content w2 = content w1)"
    using rename [of "os_Name os (sf_tempFile sf)" "sf_filename sf" w1] by blast
  have closed: "is_closed w2 (sf_tempFile sf)" using w2(1) w1(3) by (rule rename_closed)
  from w1(2) show ?thesis
  proof
    assume "r = Ret ()"
    then have "SafeFile_Close os sf w = Some (q, w2)"
      using w1(1) w2(1) by (simp add: SafeFile_Close_def io_bind_def)
    with closed w2(2) show ?thesis unfolding w1(4) by blast
  next
    assume "\<exists>e. r = Fail e"
    then obtain e where "SafeFile_Close os sf w = Some (Fail e, w1)"
      using w1(1) by (auto simp: SafeFile_Close_def io_bind_def)
    with w1(3,4) show ?thesis by blast
  qed
qed

lemma close_again:
  "is_closed w (sf_tempFile sf) \<Longrightarrow> \<exists>e w1. SafeFile_Close os sf w = Some (Fail e, w1) \<and>
     is_closed w1 (sf_tempFile sf) \<and> content w1 = content w"
proof -
  assume "is_closed w (sf_tempFile sf)"
  from close_closed [OF this] obtain e w1 where
    "os_CloseFile os (sf_tempFile sf) w = Some (Fail e, w1)" "is_closed w1 (sf_tempFile sf)" "content w1 = content w"
    by blast
  then show ?thesis by (simp add: SafeFile_Close_def io_bind_def)
qed

lemma write_late:
  "is_closed w (sf_tempFile sf) \<Longrightarrow> \<exists>e w1. SafeFile_Write os sf p w = Some (Ret (0, Some e), w1) \<and>
     content w1 = content w"
  using write_closed unfolding SafeFile_Write_def by blast

end

section \<open>A disk\<close>

text \<open>
  Files with a limited capacity, open files by number with the path they are at now (\<open>None\<close> within:
  at none), and what was written to the terminal. \<open>CreateTemp\<close> tries 10000 numbers, as \<open>os\<close> does.\<close>

record disk =
  dk_files :: "string \<rightharpoonup> string"
  dk_free :: nat
  dk_next :: nat
  dk_open :: "nat \<rightharpoonup> string option"
  dk_tty :: string

record disk_handle =
  dh_id :: nat
  dh_name :: string

definition disk_error :: "string \<Rightarrow> go_error" where
  "disk_error s = \<lparr>err_reason = Unknown, err_text = s\<rparr>"

fun free_name :: "(string \<rightharpoonup> string) \<Rightarrow> string \<Rightarrow> nat \<Rightarrow> nat \<Rightarrow> string option" where
  "free_name files base k n =
     (if k = 0 then None
      else if files (base @ digits n) = None then Some (base @ digits n)
      else free_name files base (k - 1) (n + 1))"

declare free_name.simps [simp del]

definition disk_create :: "string \<Rightarrow> string \<Rightarrow> (disk, disk_handle) io" where
  "disk_create dir pat d =
     (case free_name (dk_files d) (path_beside dir pat) 10000 (dk_next d) of
        None \<Rightarrow> Some (Fail (disk_error ''file already exists''), d)
      | Some name \<Rightarrow>
          Some (Ret \<lparr>dh_id = dk_next d, dh_name = name\<rparr>,
            d\<lparr>dk_files := (dk_files d)(name \<mapsto> []), dk_next := dk_next d + 1,
              dk_open := (dk_open d)(dk_next d \<mapsto> Some name)\<rparr>))"

definition disk_write :: "disk_handle \<Rightarrow> string \<Rightarrow> (disk, nat \<times> go_error option) io" where
  "disk_write h p d =
     (case dk_open d (dh_id h) of
        None \<Rightarrow> Some (Ret (0, Some (disk_error ''file already closed'')), d)
      | Some place \<Rightarrow>
          (let n = min (length p) (dk_free d);
               err = (if n < length p then Some (disk_error ''no space left on device'') else None)
           in Some (Ret (n, err),
             case place of
               None \<Rightarrow> d
             | Some q \<Rightarrow> d\<lparr>dk_files := (dk_files d)(q := map_option (\<lambda>t. t @ take n p) (dk_files d q)),
                 dk_free := dk_free d - n\<rparr>)))"

definition disk_close :: "disk_handle \<Rightarrow> (disk, unit) io" where
  "disk_close h d =
     (if dk_open d (dh_id h) = None then Some (Fail (disk_error ''file already closed''), d)
      else Some (Ret (), d\<lparr>dk_open := (dk_open d)(dh_id h := None)\<rparr>))"

definition moved :: "string \<Rightarrow> string \<Rightarrow> string option \<Rightarrow> string option" where
  "moved old new place = (if place = Some old then Some new else if place = Some new then None else place)"

definition disk_rename :: "string \<Rightarrow> string \<Rightarrow> (disk, unit) io" where
  "disk_rename old new d =
     (if dk_files d old = None then Some (Fail (disk_error ''no such file or directory''), d)
      else Some (Ret (), d\<lparr>dk_files := (dk_files d)(old := None, new := dk_files d old),
        dk_open := (\<lambda>i. map_option (moved old new) (dk_open d i))\<rparr>))"

definition disk_stderr :: "string \<Rightarrow> (disk, unit) io" where
  "disk_stderr s d = Some (Ret (), d\<lparr>dk_tty := dk_tty d @ s\<rparr>)"

definition disk_os :: "(disk, disk_handle) os_calls" where
  "disk_os = \<lparr>os_CreateTemp = disk_create, os_Name = dh_name, os_Write = disk_write,
     os_CloseFile = disk_close, os_Rename = disk_rename, os_Stderr = disk_stderr\<rparr>"

definition disk_is_open :: "disk \<Rightarrow> disk_handle \<Rightarrow> bool" where
  "disk_is_open d h \<longleftrightarrow> dk_open d (dh_id h) = Some (Some (dh_name h)) \<and> dk_files d (dh_name h) \<noteq> None"

definition disk_is_closed :: "disk \<Rightarrow> disk_handle \<Rightarrow> bool" where
  "disk_is_closed d h \<longleftrightarrow> dk_open d (dh_id h) = None"

lemma disk_os_simps [simp]:
  "os_CreateTemp disk_os = disk_create" "os_Name disk_os = dh_name" "os_Write disk_os = disk_write"
  "os_CloseFile disk_os = disk_close" "os_Rename disk_os = disk_rename" "os_Stderr disk_os = disk_stderr"
  by (simp_all add: disk_os_def)

lemma free_name_free:
  "free_name files base k n = Some name \<Longrightarrow> files name = None \<and> (\<exists>s. name = base @ s)"
proof (induction files base k n rule: free_name.induct)
  case (1 files base k n)
  then show ?case by (subst (asm) (2) free_name.simps) (auto split: if_splits)
qed

lemma path_beside_append: "path_beside dir pat @ s = path_beside dir (pat @ s)"
  by (simp add: path_beside_def)

lemma disk_create_cases:
  "\<exists>r w1. disk_create dir pat w = Some (r, w1) \<and>
     ((\<exists>h s. r = Ret h \<and> dh_name h = path_beside dir (pat @ s) \<and> dk_files w (dh_name h) = None \<and>
        dk_files w1 = (dk_files w)(dh_name h \<mapsto> []) \<and> disk_is_open w1 h) \<or>
      (\<exists>e. r = Fail e \<and> dk_files w1 = dk_files w))"
proof (cases "free_name (dk_files w) (path_beside dir pat) 10000 (dk_next w)")
  case (Some name)
  with free_name_free [OF Some] show ?thesis
    by (auto simp: disk_create_def disk_is_open_def path_beside_append)
qed (simp add: disk_create_def)

interpretation on_disk: file_system disk_os dk_files disk_is_open disk_is_closed
proof
  fix dir pat w
  show "\<exists>r w1. os_CreateTemp disk_os dir pat w = Some (r, w1) \<and>
      ((\<exists>h s. r = Ret h \<and> os_Name disk_os h = path_beside dir (pat @ s) \<and>
          dk_files w (os_Name disk_os h) = None \<and>
          dk_files w1 = (dk_files w)(os_Name disk_os h \<mapsto> []) \<and> disk_is_open w1 h) \<or>
       (\<exists>e. r = Fail e \<and> dk_files w1 = dk_files w))"
    unfolding disk_os_simps by (rule disk_create_cases)
next
  fix old new w r w1 h
  assume "os_Rename disk_os old new w = Some (r, w1)" "disk_is_closed w h"
  then show "disk_is_closed w1 h"
    unfolding disk_os_simps disk_rename_def disk_is_closed_def by (cases "dk_files w old") auto
qed (auto simp: disk_write_def disk_close_def disk_rename_def disk_is_open_def disk_is_closed_def Let_def)

section \<open>Properties\<close>

text \<open>
  C32: a safe file replaces its target at once or not at all. Over any file system that keeps the
  promises, the chunks go to a new file beside the target and every other path, the target
  included, stays as it is until the close; a close that succeeds leaves the target with the
  bytes the writes accepted, all of them if no write reported an error, and nothing else
  changed; one that fails leaves the target alone and the temporary file behind; a second close
  fails and changes nothing.\<close>
theorem safe_file_atomic:
  assumes "file_system os content is_open is_closed"
    and "NewSafeFile os filename w = Some (Ret sf, w1)"
  shows "content w (os_Name os (sf_tempFile sf)) = None \<and>
    (\<exists>s. os_Name os (sf_tempFile sf) = path_beside (filepath_Dir filename) (''safefile.'' @ s)) \<and>
    (\<exists>rs w2 r w3. write_chunks os sf ps w1 = Some (Ret rs, w2) \<and>
      content w2 = (content w)(os_Name os (sf_tempFile sf) \<mapsto> accepted ps rs) \<and>
      (list_all (\<lambda>r. snd r = None) rs \<longrightarrow> accepted ps rs = concat ps) \<and>
      SafeFile_Close os sf w2 = Some (r, w3) \<and>
      (r = Ret () \<and> content w3 = (content w)(filename \<mapsto> accepted ps rs) \<or>
       (\<exists>e. r = Fail e \<and> content w3 = content w2)) \<and>
      (\<exists>e w4. SafeFile_Close os sf w3 = Some (Fail e, w4) \<and> content w4 = content w3))"
proof -
  let ?tmp = "os_Name os (sf_tempFile sf)"
  note new = file_system.new_file [OF assms]
  have "content w1 ?tmp = Some []" by (simp add: new(3))
  from file_system.chunks_open [OF assms(1) new(4) this] obtain rs w2 where
    rs: "write_chunks os sf ps w1 = Some (Ret rs, w2)" "is_open w2 (sf_tempFile sf)"
    "content w2 = (content w1)(?tmp \<mapsto> [] @ accepted ps rs)"
    "list_all2 (\<lambda>p r. fst r \<le> length p \<and> (snd r = None \<longrightarrow> fst r = length p)) ps rs" by blast
  then have w2: "content w2 = (content w)(?tmp \<mapsto> accepted ps rs)" by (simp add: new(3))
  have all: "list_all (\<lambda>r. snd r = None) rs \<longrightarrow> accepted ps rs = concat ps"
    using rs(4) by (induction rule: list_all2_induct) (simp_all add: accepted_def)
  from file_system.close_file [OF assms(1) rs(2)] obtain r w3 where
    w3: "SafeFile_Close os sf w2 = Some (r, w3)" "is_closed w3 (sf_tempFile sf)"
    "r = Ret () \<and> content w3 = (content w2)(?tmp := None, sf_filename sf := content w2 ?tmp) \<or>
     (\<exists>e. r = Fail e \<and> content w3 = content w2)" by blast
  have "(content w2)(?tmp := None, sf_filename sf := content w2 ?tmp) =
      (content w)(filename \<mapsto> accepted ps rs)"
    using new(1,2) by (auto simp: w2 fun_eq_iff)
  with w3(3) have "r = Ret () \<and> content w3 = (content w)(filename \<mapsto> accepted ps rs) \<or>
      (\<exists>e. r = Fail e \<and> content w3 = content w2)" by simp
  moreover note file_system.close_again [OF assms(1) w3(2)]
  ultimately show ?thesis using new(2,5) rs(1) w2 all w3(1) by blast
qed

definition demo_disk :: disk where
  "demo_disk = \<lparr>dk_files = [''/etc/drives.yaml'' \<mapsto> ''old''], dk_free = 10, dk_next = 7,
     dk_open = Map.empty, dk_tty = []\<rparr>"

lemma demo_new_file:
  "\<exists>w1. NewSafeFile disk_os ''/etc/drives.yaml'' demo_disk =
     Some (Ret \<lparr>sf_filename = ''/etc/drives.yaml'',
       sf_tempFile = \<lparr>dh_id = 7, dh_name = ''/etc/safefile.7''\<rparr>\<rparr>, w1)"
proof -
  have "filepath_Dir ''/etc/drives.yaml'' = ''/etc''"
    by (simp add: filepath_Dir_def dir_part_def clean_path_def rooted_path_def Let_def)
  moreover have "free_name [''/etc/drives.yaml'' \<mapsto> ''old''] ''/etc/safefile.'' 10000 7 = Some ''/etc/safefile.7''"
    by (simp add: free_name.simps digits.simps digit_char_def char_of_eq_iff)
  ultimately show ?thesis
    by (simp add: NewSafeFile_def io_bind_def io_ret_def disk_create_def path_beside_def demo_disk_def)
qed

theorem safe_file_atomic_witness:
  "\<exists>sf w1 rs w2 r w3. NewSafeFile disk_os ''/etc/drives.yaml'' demo_disk = Some (Ret sf, w1) \<and>
     write_chunks disk_os sf [''new '', ''text''] w1 = Some (Ret rs, w2) \<and>
     dk_files w2 ''/etc/drives.yaml'' = Some ''old'' \<and> SafeFile_Close disk_os sf w2 = Some (r, w3)"
proof -
  from demo_new_file obtain sf w1 where new: "NewSafeFile disk_os ''/etc/drives.yaml'' demo_disk = Some (Ret sf, w1)"
    by blast
  obtain rs w2 r w3 where run: "write_chunks disk_os sf [''new '', ''text''] w1 = Some (Ret rs, w2)"
    "dk_files w2 = (dk_files demo_disk)(os_Name disk_os (sf_tempFile sf) \<mapsto> accepted [''new '', ''text''] rs)"
    "dk_files demo_disk (os_Name disk_os (sf_tempFile sf)) = None"
    "SafeFile_Close disk_os sf w2 = Some (r, w3)"
    using safe_file_atomic [OF on_disk.file_system_axioms new] by blast
  have "os_Name disk_os (sf_tempFile sf) \<noteq> ''/etc/drives.yaml''"
    using run(3) by (auto simp: demo_disk_def)
  then have "dk_files w2 ''/etc/drives.yaml'' = Some ''old''" by (simp add: run(2) demo_disk_def)
  with new run(1,4) show ?thesis by blast
qed

lemma Eprintf_disk:
  "Eprintf disk_os red quiet asErr msg d = Some (Ret (),
     if quiet then d
     else d\<lparr>dk_tty := dk_tty d @ (if asErr then red ''ERROR'' @ '' '' else []) @ msg\<rparr>)"
  by (simp add: Eprintf_def io_bind_def io_ret_def io_try_def disk_stderr_def)

end
