(* ===== verification/Json.thy ===== *)
theory Json
  imports Runes
begin

text \<open>
  \<open>json.Compact\<close> of Go's \<open>encoding/json\<close>, which \<open>CompactJSONString\<close> of the MinIO package
  (\<open>utils.go\<close>) hands its text to: the byte-by-byte scanner with its stack of open objects and arrays,
  and the loop that leaves out the white space the scanner skips. \<open>json\<close> is the reference: a JSON
  text with its white space; the compacted text is the same one without it.
\<close>

section \<open>The scanner\<close>

datatype scan_step =
    BeginValueOrEmpty | BeginValue | BeginStringOrEmpty | BeginString | EndValue | EndTop
  | InString | InStringEsc | InStringEscU | InStringEscU1 | InStringEscU12 | InStringEscU123
  | Neg | State1 | State0 | Dot | Dot0 | StE | ESign | E0
  | StT | Tr | Tru | StF | Fa | Fal | Fals | StN | Nu | Nul
  | StError

datatype parse_state = ParseObjectKey | ParseObjectValue | ParseArrayValue

datatype scan_code =
    ScanContinue | ScanBeginLiteral | ScanBeginObject | ScanObjectKey | ScanObjectValue | ScanEndObject
  | ScanBeginArray | ScanArrayValue | ScanEndArray | ScanSkipSpace | ScanEnd | ScanError

text \<open>The stack has its top first.\<close>

record scanner =
  sc_step :: scan_step
  sc_parse :: "parse_state list"
  sc_err :: "string option"
  sc_endTop :: bool

definition new_scanner :: scanner where
  "new_scanner = \<lparr>sc_step = BeginValue, sc_parse = [], sc_err = None, sc_endTop = False\<rparr>"

definition json_space :: "char \<Rightarrow> bool" where
  "json_space c \<longleftrightarrow> c = CHR '' '' \<or> c = CHR 0x09 \<or> c = CHR 0x0D \<or> c = CHR 0x0A"

definition json_digit :: "char \<Rightarrow> bool" where
  "json_digit c \<longleftrightarrow> 48 \<le> code c \<and> code c \<le> 57"

definition one_to_nine :: "char \<Rightarrow> bool" where
  "one_to_nine c \<longleftrightarrow> 49 \<le> code c \<and> code c \<le> 57"

definition json_hex :: "char \<Rightarrow> bool" where
  "json_hex c \<longleftrightarrow> json_digit c \<or> 97 \<le> code c \<and> code c \<le> 102 \<or> 65 \<le> code c \<and> code c \<le> 70"

definition max_nesting :: nat where
  "max_nesting = 10000"

text \<open>\<open>quoteChar\<close>: the byte, taken as a code point, between single quotes.\<close>

definition lower_hex :: "nat \<Rightarrow> char" where
  "lower_hex d = (if d < 10 then digit_char d else char_of (87 + d))"

definition quote_body :: "char \<Rightarrow> string" where
  "quote_body c =
     (let n = code c; hex = [lower_hex (n div 16), lower_hex (n mod 16)] in
      if n = 92 then [CHR 0x5C, CHR 0x5C]
      else if 32 \<le> n \<and> n < 127 then [c]
      else if 161 \<le> n \<and> n \<noteq> 173 then [char_of (0xC0 + n div 64), char_of (0x80 + n mod 64)]
      else CHR 0x5C #
        (if n = 7 then ''a'' else if n = 8 then ''b'' else if n = 12 then ''f'' else if n = 10 then ''n''
         else if n = 13 then ''r'' else if n = 9 then ''t'' else if n = 11 then ''v''
         else if n < 32 \<or> n = 127 then ''x'' @ hex
         else ''u00'' @ hex))"

definition quoteChar :: "char \<Rightarrow> string" where
  "quoteChar c =
     (if c = CHR 0x27 then [CHR 0x27, CHR 0x5C, CHR 0x27, CHR 0x27]
      else if c = CHR 0x22 then [CHR 0x27, CHR 0x22, CHR 0x27]
      else CHR 0x27 # quote_body c @ [CHR 0x27])"

definition sc_error :: "scanner \<Rightarrow> char \<Rightarrow> string \<Rightarrow> scan_code \<times> scanner" where
  "sc_error s c context =
     (ScanError, s\<lparr>sc_step := StError,
        sc_err := Some (''invalid character '' @ quoteChar c @ '' '' @ context)\<rparr>)"

definition sc_go :: "scanner \<Rightarrow> scan_step \<Rightarrow> scan_code \<Rightarrow> scan_code \<times> scanner" where
  "sc_go s st v = (v, s\<lparr>sc_step := st\<rparr>)"

definition pushParseState ::
  "scanner \<Rightarrow> char \<Rightarrow> parse_state \<Rightarrow> scan_code \<Rightarrow> scan_code \<times> scanner" where
  "pushParseState s c p v =
     (let s1 = s\<lparr>sc_parse := p # sc_parse s\<rparr> in
      if length (sc_parse s1) \<le> max_nesting then (v, s1) else sc_error s1 c ''exceeded max depth'')"

definition popParseState :: "scanner \<Rightarrow> scanner" where
  "popParseState s =
     (let ps = tl (sc_parse s) in
      if ps = [] then s\<lparr>sc_parse := ps, sc_step := EndTop, sc_endTop := True\<rparr>
      else s\<lparr>sc_parse := ps, sc_step := EndValue\<rparr>)"

section \<open>The states\<close>

definition stateEndTop :: "scanner \<Rightarrow> char \<Rightarrow> scan_code \<times> scanner" where
  "stateEndTop s c =
     (ScanEnd, if json_space c then s else snd (sc_error s c ''after top-level value''))"

definition stateEndValue :: "scanner \<Rightarrow> char \<Rightarrow> scan_code \<times> scanner" where
  "stateEndValue s c =
     (case sc_parse s of
        [] \<Rightarrow> stateEndTop (s\<lparr>sc_step := EndTop, sc_endTop := True\<rparr>) c
      | p # ps \<Rightarrow>
          (if json_space c then sc_go s EndValue ScanSkipSpace
           else (case p of
               ParseObjectKey \<Rightarrow>
                 (if c = CHR '':'' then
                    sc_go (s\<lparr>sc_parse := ParseObjectValue # ps\<rparr>) BeginValue ScanObjectKey
                  else sc_error s c ''after object key'')
             | ParseObjectValue \<Rightarrow>
                 (if c = CHR '','' then
                    sc_go (s\<lparr>sc_parse := ParseObjectKey # ps\<rparr>) BeginString ScanObjectValue
                  else if c = CHR ''}'' then (ScanEndObject, popParseState s)
                  else sc_error s c ''after object key:value pair'')
             | ParseArrayValue \<Rightarrow>
                 (if c = CHR '','' then sc_go s BeginValue ScanArrayValue
                  else if c = CHR '']'' then (ScanEndArray, popParseState s)
                  else sc_error s c ''after array element''))))"

definition stateBeginValue :: "scanner \<Rightarrow> char \<Rightarrow> scan_code \<times> scanner" where
  "stateBeginValue s c =
     (if json_space c then (ScanSkipSpace, s)
      else if c = CHR ''{'' then
        pushParseState (s\<lparr>sc_step := BeginStringOrEmpty\<rparr>) c ParseObjectKey ScanBeginObject
      else if c = CHR ''['' then
        pushParseState (s\<lparr>sc_step := BeginValueOrEmpty\<rparr>) c ParseArrayValue ScanBeginArray
      else if c = CHR 0x22 then sc_go s InString ScanBeginLiteral
      else if c = CHR ''-'' then sc_go s Neg ScanBeginLiteral
      else if c = CHR ''0'' then sc_go s State0 ScanBeginLiteral
      else if c = CHR ''t'' then sc_go s StT ScanBeginLiteral
      else if c = CHR ''f'' then sc_go s StF ScanBeginLiteral
      else if c = CHR ''n'' then sc_go s StN ScanBeginLiteral
      else if one_to_nine c then sc_go s State1 ScanBeginLiteral
      else sc_error s c ''looking for beginning of value'')"

definition stateBeginValueOrEmpty :: "scanner \<Rightarrow> char \<Rightarrow> scan_code \<times> scanner" where
  "stateBeginValueOrEmpty s c =
     (if json_space c then (ScanSkipSpace, s)
      else if c = CHR '']'' then stateEndValue s c
      else stateBeginValue s c)"

definition stateBeginString :: "scanner \<Rightarrow> char \<Rightarrow> scan_code \<times> scanner" where
  "stateBeginString s c =
     (if json_space c then (ScanSkipSpace, s)
      else if c = CHR 0x22 then sc_go s InString ScanBeginLiteral
      else sc_error s c ''looking for beginning of object key string'')"

definition stateBeginStringOrEmpty :: "scanner \<Rightarrow> char \<Rightarrow> scan_code \<times> scanner" where
  "stateBeginStringOrEmpty s c =
     (if json_space c then (ScanSkipSpace, s)
      else if c = CHR ''}'' then stateEndValue (s\<lparr>sc_parse := ParseObjectValue # tl (sc_parse s)\<rparr>) c
      else stateBeginString s c)"

definition stateInString :: "scanner \<Rightarrow> char \<Rightarrow> scan_code \<times> scanner" where
  "stateInString s c =
     (if c = CHR 0x22 then sc_go s EndValue ScanContinue
      else if c = CHR 0x5C then sc_go s InStringEsc ScanContinue
      else if code c < 32 then sc_error s c ''in string literal''
      else (ScanContinue, s))"

definition escapable :: "char \<Rightarrow> bool" where
  "escapable c \<longleftrightarrow> c \<in> set ''bfnrt/'' \<or> c = CHR 0x5C \<or> c = CHR 0x22"

definition stateInStringEsc :: "scanner \<Rightarrow> char \<Rightarrow> scan_code \<times> scanner" where
  "stateInStringEsc s c =
     (if escapable c then sc_go s InString ScanContinue
      else if c = CHR ''u'' then sc_go s InStringEscU ScanContinue
      else sc_error s c ''in string escape code'')"

definition stateHex :: "scan_step \<Rightarrow> scanner \<Rightarrow> char \<Rightarrow> scan_code \<times> scanner" where
  "stateHex st s c =
     (if json_hex c then sc_go s st ScanContinue
      else sc_error s c (''in '' @ [CHR 0x5C] @ ''u hexadecimal character escape''))"

definition stateE :: "scanner \<Rightarrow> char \<Rightarrow> scan_code \<times> scanner" where
  "stateE s c =
     (if json_digit c then sc_go s E0 ScanContinue
      else sc_error s c ''in exponent of numeric literal'')"

definition state0 :: "scanner \<Rightarrow> char \<Rightarrow> scan_code \<times> scanner" where
  "state0 s c =
     (if c = CHR ''.'' then sc_go s Dot ScanContinue
      else if c = CHR ''e'' \<or> c = CHR ''E'' then sc_go s StE ScanContinue
      else stateEndValue s c)"

definition stateWord :: "scanner \<Rightarrow> char \<Rightarrow> char \<Rightarrow> scan_step \<Rightarrow> string \<Rightarrow> scan_code \<times> scanner" where
  "stateWord s c want st word =
     (if c = want then sc_go s st ScanContinue
      else sc_error s c (''in literal '' @ word @ '' (expecting '' @ [CHR 0x27, want, CHR 0x27] @ '')''))"

definition json_step :: "scanner \<Rightarrow> char \<Rightarrow> scan_code \<times> scanner" where
  "json_step s c =
     (case sc_step s of
        BeginValueOrEmpty \<Rightarrow> stateBeginValueOrEmpty s c
      | BeginValue \<Rightarrow> stateBeginValue s c
      | BeginStringOrEmpty \<Rightarrow> stateBeginStringOrEmpty s c
      | BeginString \<Rightarrow> stateBeginString s c
      | EndValue \<Rightarrow> stateEndValue s c
      | EndTop \<Rightarrow> stateEndTop s c
      | InString \<Rightarrow> stateInString s c
      | InStringEsc \<Rightarrow> stateInStringEsc s c
      | InStringEscU \<Rightarrow> stateHex InStringEscU1 s c
      | InStringEscU1 \<Rightarrow> stateHex InStringEscU12 s c
      | InStringEscU12 \<Rightarrow> stateHex InStringEscU123 s c
      | InStringEscU123 \<Rightarrow> stateHex InString s c
      | Neg \<Rightarrow>
          (if c = CHR ''0'' then sc_go s State0 ScanContinue
           else if one_to_nine c then sc_go s State1 ScanContinue
           else sc_error s c ''in numeric literal'')
      | State1 \<Rightarrow> (if json_digit c then sc_go s State1 ScanContinue else state0 s c)
      | State0 \<Rightarrow> state0 s c
      | Dot \<Rightarrow>
          (if json_digit c then sc_go s Dot0 ScanContinue
           else sc_error s c ''after decimal point in numeric literal'')
      | Dot0 \<Rightarrow>
          (if json_digit c then (ScanContinue, s)
           else if c = CHR ''e'' \<or> c = CHR ''E'' then sc_go s StE ScanContinue
           else stateEndValue s c)
      | StE \<Rightarrow> (if c = CHR ''+'' \<or> c = CHR ''-'' then sc_go s ESign ScanContinue else stateE s c)
      | ESign \<Rightarrow> stateE s c
      | E0 \<Rightarrow> (if json_digit c then (ScanContinue, s) else stateEndValue s c)
      | StT \<Rightarrow> stateWord s c CHR ''r'' Tr ''true''
      | Tr \<Rightarrow> stateWord s c CHR ''u'' Tru ''true''
      | Tru \<Rightarrow> stateWord s c CHR ''e'' EndValue ''true''
      | StF \<Rightarrow> stateWord s c CHR ''a'' Fa ''false''
      | Fa \<Rightarrow> stateWord s c CHR ''l'' Fal ''false''
      | Fal \<Rightarrow> stateWord s c CHR ''s'' Fals ''false''
      | Fals \<Rightarrow> stateWord s c CHR ''e'' EndValue ''false''
      | StN \<Rightarrow> stateWord s c CHR ''u'' Nu ''null''
      | Nu \<Rightarrow> stateWord s c CHR ''l'' Nul ''null''
      | Nul \<Rightarrow> stateWord s c CHR ''l'' EndValue ''null''
      | StError \<Rightarrow> (ScanError, s))"

definition sc_eof :: "scanner \<Rightarrow> scan_code \<times> scanner" where
  "sc_eof s =
     (if sc_err s \<noteq> None then (ScanError, s)
      else if sc_endTop s then (ScanEnd, s)
      else
        (let s1 = snd (json_step s CHR '' '') in
         if sc_endTop s1 then (ScanEnd, s1)
         else if sc_err s1 = None
           then (ScanError, s1\<lparr>sc_err := Some ''unexpected end of JSON input''\<rparr>)
         else (ScanError, s1)))"

section \<open>Compact\<close>

text \<open>
  The loop of \<open>appendCompact\<close>: \<open>dst\<close> is what was appended, \<open>run\<close> the bytes from \<open>start\<close> on, which are
  appended at the next byte that is left out or at the end.\<close>

definition left_out :: "scan_code \<Rightarrow> bool" where
  "left_out v \<longleftrightarrow> v = ScanSkipSpace \<or> v = ScanEnd"

fun compact_loop :: "scanner \<Rightarrow> string \<Rightarrow> string \<Rightarrow> string \<Rightarrow> scanner \<times> string" where
  "compact_loop s dst run [] = (s, dst @ run)"
| "compact_loop s dst run (c # src) =
     (let (v, s1) = json_step s c in
      if v = ScanError then (s1, dst @ run @ c # src)
      else if left_out v then compact_loop s1 (dst @ run) [] src
      else compact_loop s1 dst (run @ [c]) src)"

definition json_Compact :: "string \<Rightarrow> go_error + string" where
  "json_Compact src =
     (let (s, dst) = compact_loop new_scanner [] [] src; (v, s1) = sc_eof s in
      if v = ScanError then Inl (new_error (case sc_err s1 of None \<Rightarrow> [] | Some e \<Rightarrow> e)) else Inr dst)"

definition CompactJSONString :: "string \<Rightarrow> string \<times> go_error option" where
  "CompactJSONString jsonObject =
     (case json_Compact jsonObject of
        Inl err \<Rightarrow> (jsonObject, Some err)
      | Inr buffer \<Rightarrow> (buffer, None))"

section \<open>What survives\<close>

lemmas scan_defs = stateBeginValueOrEmpty_def stateBeginValue_def stateBeginStringOrEmpty_def
  stateBeginString_def stateEndTop_def stateEndValue_def stateInString_def stateInStringEsc_def
  stateHex_def stateE_def state0_def stateWord_def pushParseState_def popParseState_def sc_error_def
  sc_go_def Let_def

text \<open>
  \<open>emit s src\<close>: the scanner after \<open>src\<close> and the bytes of \<open>src\<close> that are kept, if there is no error.\<close>

fun emit :: "scanner \<Rightarrow> string \<Rightarrow> (scanner \<times> string) option" where
  "emit s [] = Some (s, [])"
| "emit s (c # src) =
     (let (v, s1) = json_step s c in
      if sc_err s1 \<noteq> None then None
      else (case emit s1 src of
              None \<Rightarrow> None
            | Some (s2, out) \<Rightarrow> Some (s2, if left_out v then out else c # out)))"

definition sound_result :: "scan_code \<times> scanner \<Rightarrow> bool" where
  "sound_result r \<longleftrightarrow>
     (if sc_err (snd r) = None then fst r \<noteq> ScanError \<and> sc_step (snd r) \<noteq> StError
      else sc_step (snd r) = StError \<and> (fst r = ScanError \<or> fst r = ScanEnd))"

lemma sound_simps [simp]:
  "sound_result (sc_error s c x)"
  "sc_err s = None \<Longrightarrow> st \<noteq> StError \<Longrightarrow> v \<noteq> ScanError \<Longrightarrow> sound_result (sc_go s st v)"
  "sc_err s = None \<Longrightarrow> sc_step s \<noteq> StError \<Longrightarrow> v \<noteq> ScanError \<Longrightarrow> sound_result (v, s)"
  "sc_err s = None \<Longrightarrow> v \<noteq> ScanError \<Longrightarrow> sound_result (v, popParseState s)"
  "sc_err s = None \<Longrightarrow> sc_step s \<noteq> StError \<Longrightarrow> sound_result (stateEndTop s c)"
  by (simp_all add: sound_result_def sc_error_def sc_go_def popParseState_def stateEndTop_def Let_def)

lemma sound_end_value [simp]: "sc_err s = None \<Longrightarrow> sound_result (stateEndValue s c)"
  by (simp add: stateEndValue_def split: list.split parse_state.split)

lemma sound_begin_value [simp]: "sc_err s = None \<Longrightarrow> sc_step s \<noteq> StError \<Longrightarrow> sound_result (stateBeginValue s c)"
  by (simp add: stateBeginValue_def pushParseState_def Let_def)

lemma step_sound: "sc_err s = None \<Longrightarrow> sc_step s \<noteq> StError \<Longrightarrow> sound_result (json_step s c)"
  by (cases "sc_step s")
    (simp_all add: json_step_def stateBeginValueOrEmpty_def stateBeginStringOrEmpty_def stateBeginString_def
      stateInString_def stateInStringEsc_def stateHex_def stateE_def state0_def stateWord_def)

lemma loop_stopped:
  "sc_step s = StError \<Longrightarrow> sc_err (fst (compact_loop s dst run src)) = sc_err s"
  by (cases src) (simp_all add: json_step_def)

lemma loop_emit:
  assumes "sc_err s = None" and "sc_step s \<noteq> StError"
  shows "case emit s src of
      None \<Rightarrow> sc_err (fst (compact_loop s dst run src)) \<noteq> None
    | Some (s1, out) \<Rightarrow> compact_loop s dst run src = (s1, dst @ run @ out) \<and> sc_err s1 = None \<and> sc_step s1 \<noteq> StError"
  using assms
proof (induction src arbitrary: s dst run)
  case (Cons c src)
  obtain v s1 where step: "json_step s c = (v, s1)" by (cases "json_step s c")
  note sound = step_sound [OF Cons.prems, of c, unfolded step sound_result_def fst_conv snd_conv]
  show ?case
  proof (cases "sc_err s1")
    case None
    then have s1: "v \<noteq> ScanError" "sc_step s1 \<noteq> StError" using sound by auto
    show ?thesis
      using Cons.IH [OF None s1(2)] step None s1(1)
      by (auto simp: Let_def split: option.splits prod.splits)
  next
    case (Some e)
    with sound have "sc_step s1 = StError" by simp
    from loop_stopped [OF this] have "sc_err (fst (compact_loop s dst run (c # src))) = Some e"
      by (simp add: step Some)
    then show ?thesis by (simp add: step Some)
  qed
qed simp

lemma emit_append: "emit s (a @ b) =
  (case emit s a of
     None \<Rightarrow> None
   | Some (s1, out) \<Rightarrow> (case emit s1 b of None \<Rightarrow> None | Some (s2, out1) \<Rightarrow> Some (s2, out @ out1)))"
  by (induction a arbitrary: s) (auto simp: Let_def split: option.splits prod.splits)

lemma emit_then: "emit s a = Some (t, a) \<Longrightarrow> emit t b = Some (u, b) \<Longrightarrow> emit s (a @ b) = Some (u, a @ b)"
  by (simp add: emit_append)

section \<open>Values that may go on\<close>

text \<open>
  After a number the scanner does not know yet that the value is complete. \<open>settle\<close> is where white
  space takes it; with it, a number that may go on is like any other value.\<close>

definition open_ended :: "scanner \<Rightarrow> bool" where
  "open_ended s \<longleftrightarrow> sc_step s \<in> {EndValue, State1, State0, Dot0, E0}"

definition ended :: "scanner \<Rightarrow> scanner" where
  "ended s = (if sc_parse s = [] then s\<lparr>sc_step := EndTop, sc_endTop := True\<rparr> else s\<lparr>sc_step := EndValue\<rparr>)"

definition settle :: "scanner \<Rightarrow> scanner" where
  "settle s = (if open_ended s then ended s else s)"

lemma settle_settle [simp]: "settle (settle s) = settle s"
  by (auto simp: settle_def open_ended_def ended_def)

lemma settle_err [simp]: "sc_err (settle s) = sc_err s"
  by (simp add: settle_def ended_def)

text \<open>What is left out is white space, and leaves the scanner settled.\<close>

lemma left_out_step: "json_step s c = (v, s1) \<Longrightarrow> sc_err s1 = None \<Longrightarrow> left_out v \<Longrightarrow>
  json_space c \<and> s1 = settle s"
  by (cases "sc_step s")
    (auto simp: json_step_def scan_defs left_out_def settle_def ended_def open_ended_def
      split: if_splits list.splits parse_state.splits)

text \<open>A settled scanner accepts less than one that may go on, with the same result.\<close>

definition delimiter :: "char \<Rightarrow> bool" where
  "delimiter c \<longleftrightarrow> json_space c \<or> c = CHR '':'' \<or> c = CHR '','' \<or> c = CHR ''}'' \<or> c = CHR '']''"

lemma delimiter_no_number: "delimiter c \<Longrightarrow>
  \<not> json_digit c \<and> c \<noteq> CHR ''.'' \<and> c \<noteq> CHR ''e'' \<and> c \<noteq> CHR ''E''"
  by (auto simp: delimiter_def json_space_def json_digit_def code_def)

lemma number_steps:
  "sc_step s = State1 \<Longrightarrow> \<not> json_digit c \<Longrightarrow> json_step s c = state0 s c"
  "sc_step s = State0 \<Longrightarrow> json_step s c = state0 s c"
  "sc_step s = Dot0 \<Longrightarrow> \<not> json_digit c \<Longrightarrow> c \<noteq> CHR ''e'' \<Longrightarrow> c \<noteq> CHR ''E'' \<Longrightarrow> json_step s c = stateEndValue s c"
  "sc_step s = E0 \<Longrightarrow> \<not> json_digit c \<Longrightarrow> json_step s c = stateEndValue s c"
  "sc_step s = EndValue \<Longrightarrow> json_step s c = stateEndValue s c"
  by (simp_all add: json_step_def)

lemma open_step:
  assumes "open_ended s" and "delimiter c"
  shows "json_step s c = stateEndValue s c"
proof -
  note no = delimiter_no_number [OF assms(2)]
  then have "state0 s c = stateEndValue s c" by (simp add: state0_def)
  with no assms(1) number_steps [of s c] show ?thesis
    unfolding open_ended_def insert_iff empty_iff by metis
qed

lemma end_value_steps:
  "sc_step s = EndValue \<Longrightarrow> json_step s c = stateEndValue s c"
  "sc_step s = EndTop \<Longrightarrow> json_step s c = stateEndTop s c"
  by (simp_all add: json_step_def)

lemma settled_end: "open_ended s \<Longrightarrow> json_step (settle s) c = stateEndValue s c"
proof (cases "sc_parse s")
  case Nil
  assume "open_ended s"
  with Nil have "settle s = s\<lparr>sc_step := EndTop, sc_endTop := True\<rparr>" by (simp add: settle_def ended_def)
  with Nil show "json_step (settle s) c = stateEndValue s c"
    by (simp add: end_value_steps stateEndValue_def)
next
  case (Cons p ps)
  then have "stateEndValue (s\<lparr>sc_step := EndValue\<rparr>) c = stateEndValue s c"
    by (cases p) (simp_all add: stateEndValue_def sc_go_def sc_error_def popParseState_def Let_def)
  moreover assume "open_ended s"
  with Cons have "settle s = s\<lparr>sc_step := EndValue\<rparr>" by (simp add: settle_def ended_def)
  ultimately show "json_step (settle s) c = stateEndValue s c"
    by (simp add: end_value_steps)
qed

lemma end_delimiter: "sc_err (snd (stateEndValue s c)) = None \<Longrightarrow> delimiter c"
  by (cases "sc_parse s")
    (auto simp: stateEndValue_def stateEndTop_def sc_error_def delimiter_def split: if_splits parse_state.splits)

lemma settled_step:
  "sc_err (snd (json_step (settle s) c)) = None \<Longrightarrow> json_step s c = json_step (settle s) c"
proof (cases "open_ended s")
  case True
  then show "sc_err (snd (json_step (settle s) c)) = None \<Longrightarrow> json_step s c = json_step (settle s) c"
    unfolding settled_end [OF True] using end_delimiter open_step by blast
qed (simp add: settle_def)

lemma settled_emit:
  assumes "emit (settle s) src = Some (t, out)"
  shows "\<exists>s1. emit s src = Some (s1, out) \<and> settle s1 = settle t"
proof (cases src)
  case (Cons c rest)
  have "sc_err (snd (json_step (settle s) c)) = None"
    using assms by (cases "sc_err (snd (json_step (settle s) c))") (simp_all add: Cons split_def Let_def)
  from settled_step [OF this] have "emit s src = emit (settle s) src" by (simp add: Cons)
  with assms show ?thesis by auto
qed (use assms in auto)

text \<open>What is kept, scanned again, is kept whole.\<close>

lemma emit_again:
  assumes "emit s src = Some (t, out)"
  shows "\<exists>s1. emit s out = Some (s1, out) \<and> settle s1 = settle t"
  using assms
proof (induction src arbitrary: s out)
  case (Cons c src)
  obtain v u where step: "json_step s c = (v, u)" by (cases "json_step s c")
  with Cons.prems obtain out1 where u: "sc_err u = None" "emit u src = Some (t, out1)"
    "out = (if left_out v then out1 else c # out1)"
    by (auto split: if_splits option.splits)
  from Cons.IH [OF u(2)] obtain s1 where s1: "emit u out1 = Some (s1, out1)" "settle s1 = settle t"
    by blast
  show ?case
  proof (cases "left_out v")
    case True
    with left_out_step [OF step u(1)] have "u = settle s" by simp
    with settled_emit [of s out1 s1 out1] s1 u(3) True show ?thesis by auto
  next
    case False
    with step u s1 show ?thesis by auto
  qed
qed auto

section \<open>The end\<close>

lemma eof_ok:
  assumes "sc_err s = None"
  shows "fst (sc_eof s) \<noteq> ScanError \<longleftrightarrow> sc_endTop (settle s)"
proof (cases "open_ended s")
  case True
  have "json_step s CHR '' '' = stateEndValue s CHR '' ''"
    using True by (intro open_step) (simp_all add: delimiter_def json_space_def)
  then have "sc_endTop (snd (json_step s CHR '' '')) \<longleftrightarrow> sc_endTop (settle s)"
    using True by (cases "sc_parse s")
      (auto simp: stateEndValue_def stateEndTop_def json_space_def settle_def ended_def sc_go_def)
  moreover have "sc_endTop s \<Longrightarrow> sc_endTop (settle s)"
    by (simp add: settle_def ended_def)
  ultimately show ?thesis using assms by (auto simp: sc_eof_def Let_def)
next
  case False
  then have "sc_endTop (snd (json_step s CHR '' '')) = sc_endTop s"
    by (cases "sc_step s")
      (auto simp: open_ended_def json_step_def scan_defs json_space_def json_digit_def code_def
        one_to_nine_def json_hex_def escapable_def)
  with False assms show ?thesis by (auto simp: sc_eof_def Let_def settle_def)
qed

lemma Compact_emit:
  "CompactJSONString s =
     (case emit new_scanner s of
        None \<Rightarrow> (s, snd (CompactJSONString s))
      | Some (t, out) \<Rightarrow>
          if sc_endTop (settle t) then (out, None) else (s, snd (CompactJSONString s))) \<and>
   (snd (CompactJSONString s) = None \<longleftrightarrow>
      (\<exists>t out. emit new_scanner s = Some (t, out) \<and> sc_endTop (settle t)))"
proof -
  have new: "sc_err new_scanner = None" "sc_step new_scanner \<noteq> StError" by (simp_all add: new_scanner_def)
  show ?thesis
  proof (cases "emit new_scanner s")
    case None
    with loop_emit [OF new, where src = s and dst = "[]" and run = "[]"]
    have "sc_err (fst (compact_loop new_scanner [] [] s)) \<noteq> None" by simp
    then have "fst (sc_eof (fst (compact_loop new_scanner [] [] s))) = ScanError"
      by (simp only: sc_eof_def if_True fst_conv simp_thms)
    with None show ?thesis
      by (auto simp: CompactJSONString_def json_Compact_def Let_def split_def)
  next
    case (Some r)
    obtain t out where r: "r = (t, out)" by (cases r)
    with Some loop_emit [OF new, where src = s and dst = "[]" and run = "[]"]
    have loop: "compact_loop new_scanner [] [] s = (t, out)" "sc_err t = None" by simp_all
    with eof_ok [OF loop(2)] Some r show ?thesis
      by (auto simp: CompactJSONString_def json_Compact_def Let_def split_def)
  qed
qed

end
