(* ===== verification/JsonGrammar.thy ===== *)
theory JsonGrammar
  imports Json
begin

text \<open>
  What \<open>CompactJSONString\<close> means: \<open>json\<close> are the JSON texts, with their white space; the scanner accepts
  exactly these, up to its nesting depth, and compacting one takes out that white space.
\<close>

section \<open>JSON texts\<close>

text \<open>
  A JSON text with its white space. \<open>Lit\<close> is \<open>null\<close>, \<open>true\<close> or \<open>false\<close>; a number has a sign, an integer part, an
  optional fraction and an optional exponent (its letter, its sign, its digits); an element has
  white space on both sides, a field around its key and around its value.\<close>

datatype json =
    Lit string
  | Num bool string "string option" "(char \<times> string \<times> string) option"
  | Str string
  | EmptyArr string
  | Arr elems
  | EmptyObj string
  | Obj fields
and elems = LastElem string json string | Elem string json string elems
and fields =
    LastField string string string string json string
  | Field string string string string json string fields

definition quoted :: "string \<Rightarrow> string" where
  "quoted s = CHR 0x22 # s @ [CHR 0x22]"

definition frac_text :: "string option \<Rightarrow> string" where
  "frac_text f = (case f of None \<Rightarrow> [] | Some ds \<Rightarrow> ''.'' @ ds)"

definition exp_text :: "(char \<times> string \<times> string) option \<Rightarrow> string" where
  "exp_text e = (case e of None \<Rightarrow> [] | Some (l, sg, ds) \<Rightarrow> l # sg @ ds)"

definition num_text :: "bool \<Rightarrow> string \<Rightarrow> string option \<Rightarrow> (char \<times> string \<times> string) option \<Rightarrow> string" where
  "num_text neg i f e = (if neg then ''-'' else []) @ i @ frac_text f @ exp_text e"

primrec json_text :: "json \<Rightarrow> string" and elems_text :: "elems \<Rightarrow> string" and fields_text :: "fields \<Rightarrow> string" where
  "json_text (Lit s) = s"
| "json_text (Num neg i f e) = num_text neg i f e"
| "json_text (Str s) = quoted s"
| "json_text (EmptyArr w) = ''['' @ w @ '']''"
| "json_text (Arr es) = ''['' @ elems_text es @ '']''"
| "json_text (EmptyObj w) = ''{'' @ w @ ''}''"
| "json_text (Obj fs) = ''{'' @ fields_text fs @ ''}''"
| "elems_text (LastElem a d b) = a @ json_text d @ b"
| "elems_text (Elem a d b es) = a @ json_text d @ b @ '','' @ elems_text es"
| "fields_text (LastField a key b c d e) = a @ quoted key @ b @ '':'' @ c @ json_text d @ e"
| "fields_text (Field a key b c d e fs) =
     a @ quoted key @ b @ '':'' @ c @ json_text d @ e @ '','' @ fields_text fs"

text \<open>The same text without its white space.\<close>

primrec strip :: "json \<Rightarrow> json" and strip_elems :: "elems \<Rightarrow> elems" and strip_fields :: "fields \<Rightarrow> fields" where
  "strip (Lit s) = Lit s"
| "strip (Num neg i f e) = Num neg i f e"
| "strip (Str s) = Str s"
| "strip (EmptyArr w) = EmptyArr []"
| "strip (Arr es) = Arr (strip_elems es)"
| "strip (EmptyObj w) = EmptyObj []"
| "strip (Obj fs) = Obj (strip_fields fs)"
| "strip_elems (LastElem a d b) = LastElem [] (strip d) []"
| "strip_elems (Elem a d b es) = Elem [] (strip d) [] (strip_elems es)"
| "strip_fields (LastField a key b c d e) = LastField [] key [] [] (strip d) []"
| "strip_fields (Field a key b c d e fs) = Field [] key [] [] (strip d) [] (strip_fields fs)"

text \<open>Which parts are allowed.\<close>

fun string_body :: "string \<Rightarrow> bool" where
  "string_body [] = True"
| "string_body (c # s) =
     (if c = CHR 0x5C then
        (case s of
           [] \<Rightarrow> False
         | e # t \<Rightarrow>
             if escapable e then string_body t
             else e = CHR ''u'' \<and> 4 \<le> length t \<and> list_all json_hex (take 4 t) \<and> string_body (drop 4 t))
      else c \<noteq> CHR 0x22 \<and> 32 \<le> code c \<and> string_body s)"

definition int_ok :: "string \<Rightarrow> bool" where
  "int_ok i \<longleftrightarrow> i = ''0'' \<or> i \<noteq> [] \<and> one_to_nine (hd i) \<and> list_all json_digit (tl i)"

definition digits_ok :: "string \<Rightarrow> bool" where
  "digits_ok ds \<longleftrightarrow> ds \<noteq> [] \<and> list_all json_digit ds"

definition frac_ok :: "string option \<Rightarrow> bool" where
  "frac_ok f \<longleftrightarrow> (case f of None \<Rightarrow> True | Some ds \<Rightarrow> digits_ok ds)"

definition exp_ok :: "(char \<times> string \<times> string) option \<Rightarrow> bool" where
  "exp_ok e \<longleftrightarrow>
     (case e of None \<Rightarrow> True
      | Some (l, sg, ds) \<Rightarrow> l \<in> {CHR ''e'', CHR ''E''} \<and> sg \<in> {[], ''+'', ''-''} \<and> digits_ok ds)"

definition num_ok :: "string \<Rightarrow> string option \<Rightarrow> (char \<times> string \<times> string) option \<Rightarrow> bool" where
  "num_ok i f e \<longleftrightarrow> int_ok i \<and> frac_ok f \<and> exp_ok e"

abbreviation spaces :: "string \<Rightarrow> bool" where
  "spaces w \<equiv> list_all json_space w"

primrec json_ok :: "json \<Rightarrow> bool" and elems_ok :: "elems \<Rightarrow> bool" and fields_ok :: "fields \<Rightarrow> bool" where
  "json_ok (Lit s) = (s \<in> {''null'', ''true'', ''false''})"
| "json_ok (Num neg i f e) = num_ok i f e"
| "json_ok (Str s) = string_body s"
| "json_ok (EmptyArr w) = spaces w"
| "json_ok (Arr es) = elems_ok es"
| "json_ok (EmptyObj w) = spaces w"
| "json_ok (Obj fs) = fields_ok fs"
| "elems_ok (LastElem a d b) = (spaces a \<and> json_ok d \<and> spaces b)"
| "elems_ok (Elem a d b es) = (spaces a \<and> json_ok d \<and> spaces b \<and> elems_ok es)"
| "fields_ok (LastField a key b c d e) =
     (spaces a \<and> string_body key \<and> spaces b \<and> spaces c \<and> json_ok d \<and> spaces e)"
| "fields_ok (Field a key b c d e fs) =
     (spaces a \<and> string_body key \<and> spaces b \<and> spaces c \<and> json_ok d \<and> spaces e \<and> fields_ok fs)"

primrec depth :: "json \<Rightarrow> nat" and elems_depth :: "elems \<Rightarrow> nat" and fields_depth :: "fields \<Rightarrow> nat" where
  "depth (Lit s) = 0"
| "depth (Num neg i f e) = 0"
| "depth (Str s) = 0"
| "depth (EmptyArr w) = 1"
| "depth (Arr es) = Suc (elems_depth es)"
| "depth (EmptyObj w) = 1"
| "depth (Obj fs) = Suc (fields_depth fs)"
| "elems_depth (LastElem a d b) = depth d"
| "elems_depth (Elem a d b es) = max (depth d) (elems_depth es)"
| "fields_depth (LastField a key b c d e) = depth d"
| "fields_depth (Field a key b c d e fs) = max (depth d) (fields_depth fs)"

section \<open>Scanning a JSON text\<close>

definition at :: "scan_step \<Rightarrow> parse_state list \<Rightarrow> scanner" where
  "at p k = \<lparr>sc_step = p, sc_parse = k, sc_err = None, sc_endTop = False\<rparr>"

definition after :: "parse_state list \<Rightarrow> scanner" where
  "after k = ended (at EndValue k)"

definition reach :: "scanner \<Rightarrow> string \<Rightarrow> scanner \<Rightarrow> string \<Rightarrow> bool" where
  "reach s src t out \<longleftrightarrow> (\<exists>s1. emit s src = Some (s1, out) \<and> settle s1 = t)"

lemma reach_append: "reach s a t out \<Longrightarrow> reach t b u out1 \<Longrightarrow> reach s (a @ b) u (out @ out1)"
  unfolding reach_def by (auto simp: emit_append dest!: settled_emit)

lemma reach_after: "reach s a t out \<Longrightarrow> reach t b u [] \<Longrightarrow> reach s (a @ b) u out"
  using reach_append [of s a t out b u "[]"] by simp

lemma at_sel [simp]: "sc_step (at p k) = p" "sc_parse (at p k) = k" "sc_err (at p k) = None"
  "sc_endTop (at p k) = False"
  by (simp_all add: at_def)

lemma at_update [simp]: "(at p k)\<lparr>sc_step := q\<rparr> = at q k" "(at p k)\<lparr>sc_parse := j\<rparr> = at p j"
  by (simp_all add: at_def)

lemma settle_at [simp]: "settle (at p k) =
  (if p \<in> {EndValue, State1, State0, Dot0, E0} then after k else at p k)"
  by (simp add: settle_def open_ended_def after_def ended_def)

lemma after_open [simp]: "k \<noteq> [] \<Longrightarrow> after k = at EndValue k"
  by (simp add: after_def ended_def)

lemma settle_after [simp]: "settle (after k) = after k"
  by (simp add: settle_def open_ended_def after_def ended_def)

lemma reach_step: "json_step s c = (v, t) \<Longrightarrow> sc_err t = None \<Longrightarrow> \<not> left_out v \<Longrightarrow> settle t = u \<Longrightarrow> reach s [c] u [c]"
  by (simp add: reach_def)

lemma at_steps [simp]:
  "json_step (at BeginValueOrEmpty k) c = stateBeginValueOrEmpty (at BeginValueOrEmpty k) c"
  "json_step (at BeginValue k) c = stateBeginValue (at BeginValue k) c"
  "json_step (at BeginStringOrEmpty k) c = stateBeginStringOrEmpty (at BeginStringOrEmpty k) c"
  "json_step (at BeginString k) c = stateBeginString (at BeginString k) c"
  "json_step (at EndValue k) c = stateEndValue (at EndValue k) c"
  "json_step (at InString k) c = stateInString (at InString k) c"
  "json_step (at InStringEsc k) c = stateInStringEsc (at InStringEsc k) c"
  "json_step (at InStringEscU k) c = stateHex InStringEscU1 (at InStringEscU k) c"
  "json_step (at InStringEscU1 k) c = stateHex InStringEscU12 (at InStringEscU1 k) c"
  "json_step (at InStringEscU12 k) c = stateHex InStringEscU123 (at InStringEscU12 k) c"
  "json_step (at InStringEscU123 k) c = stateHex InString (at InStringEscU123 k) c"
  "json_step (at State0 k) c = state0 (at State0 k) c"
  "json_step (at ESign k) c = stateE (at ESign k) c"
  "json_step (at StT k) c = stateWord (at StT k) c CHR ''r'' Tr ''true''"
  "json_step (at Tr k) c = stateWord (at Tr k) c CHR ''u'' Tru ''true''"
  "json_step (at Tru k) c = stateWord (at Tru k) c CHR ''e'' EndValue ''true''"
  "json_step (at StF k) c = stateWord (at StF k) c CHR ''a'' Fa ''false''"
  "json_step (at Fa k) c = stateWord (at Fa k) c CHR ''l'' Fal ''false''"
  "json_step (at Fal k) c = stateWord (at Fal k) c CHR ''s'' Fals ''false''"
  "json_step (at Fals k) c = stateWord (at Fals k) c CHR ''e'' EndValue ''false''"
  "json_step (at StN k) c = stateWord (at StN k) c CHR ''u'' Nu ''null''"
  "json_step (at Nu k) c = stateWord (at Nu k) c CHR ''l'' Nul ''null''"
  "json_step (at Nul k) c = stateWord (at Nul k) c CHR ''l'' EndValue ''null''"
  "json_step (at Neg k) c =
     (if c = CHR ''0'' then sc_go (at Neg k) State0 ScanContinue
      else if one_to_nine c then sc_go (at Neg k) State1 ScanContinue
      else sc_error (at Neg k) c ''in numeric literal'')"
  "json_step (at State1 k) c =
     (if json_digit c then sc_go (at State1 k) State1 ScanContinue else state0 (at State1 k) c)"
  "json_step (at Dot k) c =
     (if json_digit c then sc_go (at Dot k) Dot0 ScanContinue
      else sc_error (at Dot k) c ''after decimal point in numeric literal'')"
  "json_step (at Dot0 k) c =
     (if json_digit c then (ScanContinue, at Dot0 k)
      else if c = CHR ''e'' \<or> c = CHR ''E'' then sc_go (at Dot0 k) StE ScanContinue
      else stateEndValue (at Dot0 k) c)"
  "json_step (at StE k) c =
     (if c = CHR ''+'' \<or> c = CHR ''-'' then sc_go (at StE k) ESign ScanContinue else stateE (at StE k) c)"
  "json_step (at E0 k) c =
     (if json_digit c then (ScanContinue, at E0 k) else stateEndValue (at E0 k) c)"
  by (simp_all add: json_step_def)

text \<open>White space between the parts.\<close>

lemma space_skipped:
  assumes "spaces w" and "sc_err s = None"
    and "\<And>c. json_space c \<Longrightarrow> \<exists>v. json_step s c = (v, s) \<and> left_out v"
  shows "emit s w = Some (s, [])"
  using assms(1)
proof (induction w)
  case (Cons c w)
  with assms(3) [of c] assms(2) show ?case by auto
qed simp

lemma spaces_at: "spaces w \<Longrightarrow>
  p \<in> {BeginValue, BeginValueOrEmpty, BeginString, BeginStringOrEmpty} \<Longrightarrow> emit (at p k) w = Some (at p k, [])"
  by (erule space_skipped)
    (auto simp: left_out_def stateBeginValue_def stateBeginValueOrEmpty_def
      stateBeginString_def stateBeginStringOrEmpty_def)

lemma space_after: "json_space c \<Longrightarrow> \<exists>v. json_step (after k) c = (v, after k) \<and> left_out v"
proof (cases k)
  case Nil
  then have "sc_step (after k) = EndTop" by (simp add: after_def ended_def)
  then show "json_space c \<Longrightarrow> \<exists>v. json_step (after k) c = (v, after k) \<and> left_out v"
    by (simp add: end_value_steps stateEndTop_def left_out_def)
next
  case (Cons p ps)
  then show "json_space c \<Longrightarrow> \<exists>v. json_step (after k) c = (v, after k) \<and> left_out v"
    by (simp add: end_value_steps stateEndValue_def left_out_def sc_go_def)
qed

lemma after_err [simp]: "sc_err (after k) = None"
  by (simp add: after_def ended_def)

lemma spaces_after: "spaces w \<Longrightarrow> emit (after k) w = Some (after k, [])"
  by (erule space_skipped) (simp_all add: space_after)

lemma reach_spaces:
  "spaces w \<Longrightarrow> p \<in> {BeginValue, BeginValueOrEmpty, BeginString, BeginStringOrEmpty} \<Longrightarrow>
     reach (at p k) w (at p k) []"
  "spaces w \<Longrightarrow> reach (after k) w (after k) []"
  by (auto simp: reach_def spaces_at spaces_after)

text \<open>Scalars.\<close>

lemma digits_run: "list_all json_digit ds \<Longrightarrow> p \<in> {State1, Dot0, E0} \<Longrightarrow> emit (at p k) ds = Some (at p k, ds)"
  by (induction ds) (auto simp: sc_go_def left_out_def)

lemma body_run: "string_body s \<Longrightarrow> emit (at InString k) s = Some (at InString k, s)"
proof (induction s rule: string_body.induct)
  case (2 c s)
  show ?case
  proof (cases "c = CHR 0x5C")
    case True
    with 2 obtain e t where s: "s = e # t" by (cases s) auto
    show ?thesis
    proof (cases "escapable e")
      case esc: True
      with 2 s True show ?thesis
        by (simp add: stateInString_def stateInStringEsc_def sc_go_def left_out_def)
    next
      case False
      with 2 s True have u: "e = CHR ''u''" "4 \<le> length t" "list_all json_hex (take 4 t)"
        "emit (at InString k) (drop 4 t) = Some (at InString k, drop 4 t)" by auto
      then obtain h1 h2 h3 h4 r where t: "t = h1 # h2 # h3 # h4 # r"
        by (auto simp: numeral_eq_Suc Suc_le_length_iff)
      with u s True False show ?thesis
        by (simp add: stateInString_def stateInStringEsc_def stateHex_def sc_go_def left_out_def)
    qed
  next
    case False
    with 2 show ?thesis by (simp add: stateInString_def left_out_def)
  qed
qed simp

lemma reach_quoted:
  assumes "string_body s" and "p \<in> {BeginValue, BeginString}"
  shows "reach (at p k) (quoted s) (after k) (quoted s)"
proof -
  have "emit (at p k) [CHR 0x22] = Some (at InString k, [CHR 0x22])"
    using assms(2) by (auto simp: stateBeginValue_def stateBeginString_def sc_go_def left_out_def
        json_space_def one_to_nine_def code_def)
  moreover have "emit (at InString k) [CHR 0x22] = Some (at EndValue k, [CHR 0x22])"
    by (simp add: stateInString_def sc_go_def left_out_def)
  ultimately show ?thesis
    using body_run [OF assms(1), of k] emit_append [of "at p k" "[CHR 0x22]" "s @ [CHR 0x22]"]
    by (simp add: reach_def quoted_def emit_append)
qed

lemma reach_lit:
  assumes "s \<in> {''null'', ''true'', ''false''}"
  shows "reach (at BeginValue k) s (after k) s"
  using assms by (auto simp: reach_def stateBeginValue_def stateWord_def sc_go_def left_out_def
      json_space_def one_to_nine_def code_def)

definition at_number :: "scan_step \<Rightarrow> bool" where
  "at_number p \<longleftrightarrow> p = State0 \<or> p = State1"

lemma int_run:
  assumes "int_ok i" and "p = BeginValue \<or> p = Neg"
  shows "\<exists>q. at_number q \<and> emit (at p k) i = Some (at q k, i)"
proof (cases "i = ''0''")
  case True
  with assms(2) have "emit (at p k) i = Some (at State0 k, i)"
    by (auto simp: stateBeginValue_def sc_go_def left_out_def json_space_def)
  then show ?thesis by (auto simp: at_number_def)
next
  case False
  with assms(1) obtain c ds where i: "i = c # ds" "one_to_nine c" "list_all json_digit ds"
    by (cases i) (auto simp: int_ok_def)
  then have c: "c \<notin> set ''{[-0tfn'' \<union> {CHR 0x22}" "\<not> json_space c"
    by (auto simp: one_to_nine_def json_space_def code_def)
  have "emit (at p k) i = Some (at State1 k, i)"
    using assms(2) i c digits_run [OF i(3), of State1 k]
    by (auto simp: stateBeginValue_def sc_go_def left_out_def)
  then show ?thesis by (auto simp: at_number_def)
qed

lemma digits_okE:
  assumes "digits_ok ds"
  obtains d ds1 where "ds = d # ds1" "json_digit d" "list_all json_digit ds1"
  using assms by (cases ds) (auto simp: digits_ok_def)

lemma frac_run:
  assumes "digits_ok ds" and "at_number p"
  shows "emit (at p k) (''.'' @ ds) = Some (at Dot0 k, ''.'' @ ds)"
  using assms(1)
proof (rule digits_okE)
  fix d ds1
  assume ds: "ds = d # ds1" "json_digit d" "list_all json_digit ds1"
  with assms(2) digits_run [OF ds(3), of Dot0 k] show ?thesis
    by (auto simp: at_number_def state0_def sc_go_def left_out_def json_digit_def code_def)
qed

lemma exp_run:
  assumes "l \<in> {CHR ''e'', CHR ''E''}" and "sg \<in> {[], ''+'', ''-''}" and "digits_ok ds"
    and "at_number p \<or> p = Dot0"
  shows "emit (at p k) (l # sg @ ds) = Some (at E0 k, l # sg @ ds)"
  using assms(3)
proof (rule digits_okE)
  fix d ds1
  assume ds: "ds = d # ds1" "json_digit d" "list_all json_digit ds1"
  have l: "json_step (at p k) l = (ScanContinue, at StE k)"
    using assms(1,4) by (auto simp: at_number_def state0_def sc_go_def json_digit_def code_def)
  have d: "d \<noteq> CHR ''+''" "d \<noteq> CHR ''-''" using ds(2) by (auto simp: json_digit_def code_def)
  have "emit (at StE k) (sg @ ds) = Some (at E0 k, sg @ ds)"
    using assms(2) ds d digits_run [OF ds(3), of E0 k]
    by (auto simp: stateE_def sc_go_def left_out_def)
  with l show ?thesis by (simp add: left_out_def)
qed

lemma reach_num:
  assumes "num_ok i f e"
  shows "reach (at BeginValue k) (num_text neg i f e) (after k) (num_text neg i f e)"
proof -
  note ok = assms [unfolded num_ok_def]
  obtain q where q: "at_number q" "emit (at BeginValue k) ((if neg then ''-'' else []) @ i) =
      Some (at q k, (if neg then ''-'' else []) @ i)"
  proof (cases neg)
    case True
    have "emit (at BeginValue k) ''-'' = Some (at Neg k, ''-'')"
      by (simp add: stateBeginValue_def sc_go_def left_out_def json_space_def)
    moreover obtain q where "at_number q" "emit (at Neg k) i = Some (at q k, i)"
      using int_run [of i Neg k] ok by blast
    ultimately have "emit (at BeginValue k) (''-'' @ i) = Some (at q k, ''-'' @ i)"
      by (intro emit_then)
    with True \<open>at_number q\<close> that show ?thesis by (simp only: if_True)
  next
    case False
    obtain q where "at_number q" "emit (at BeginValue k) i = Some (at q k, i)"
      using int_run [of i BeginValue k] ok by blast
    with False that show ?thesis by simp
  qed
  obtain r where r: "at_number r \<or> r = Dot0" "emit (at q k) (frac_text f) = Some (at r k, frac_text f)"
    using q(1) frac_run [of _ q k] ok by (cases f) (auto simp: frac_text_def frac_ok_def)
  obtain t where t: "at_number t \<or> t = Dot0 \<or> t = E0" "emit (at r k) (exp_text e) = Some (at t k, exp_text e)"
  proof (cases e)
    case None
    with r(1) that show ?thesis by (auto simp: exp_text_def)
  next
    case (Some x)
    then obtain l sg ds where e: "e = Some (l, sg, ds)" by (cases x) auto
    with ok have "emit (at r k) (exp_text e) = Some (at E0 k, exp_text e)"
      using exp_run [OF _ _ _ r(1), of l sg ds k] by (simp add: exp_text_def exp_ok_def del: emit.simps)
    then show ?thesis by (intro that) simp_all
  qed
  have "emit (at BeginValue k) (num_text neg i f e) = Some (at t k, num_text neg i f e)"
    using emit_then [OF emit_then [OF q(2) r(2)] t(2)] by (simp only: num_text_def append_assoc)
  with t(1) show ?thesis by (auto simp: reach_def at_number_def)
qed

text \<open>Opening and closing.\<close>

lemma opens:
  assumes "length k < max_nesting"
  shows "reach (at BeginValue k) ''['' (at BeginValueOrEmpty (ParseArrayValue # k)) ''[''"
    and "reach (at BeginValue k) ''{'' (at BeginStringOrEmpty (ParseObjectKey # k)) ''{''"
  using assms by (simp_all add: reach_def stateBeginValue_def pushParseState_def left_out_def json_space_def Let_def)

lemma pop_at: "popParseState (at p (q # k)) = after k"
  by (simp add: popParseState_def after_def ended_def at_def)

lemma closes:
  "reach (at BeginValueOrEmpty (ParseArrayValue # k)) '']'' (after k) '']''"
  "reach (at EndValue (ParseArrayValue # k)) '']'' (after k) '']''"
  "reach (at BeginStringOrEmpty (ParseObjectKey # k)) ''}'' (after k) ''}''"
  "reach (at EndValue (ParseObjectValue # k)) ''}'' (after k) ''}''"
  by (simp_all add: reach_def stateBeginValueOrEmpty_def stateBeginStringOrEmpty_def stateEndValue_def
      left_out_def json_space_def pop_at)

lemma separators:
  "reach (at EndValue (ParseArrayValue # k)) '','' (at BeginValue (ParseArrayValue # k)) '',''"
  "reach (at EndValue (ParseObjectValue # k)) '','' (at BeginString (ParseObjectKey # k)) '',''"
  "reach (at EndValue (ParseObjectKey # k)) '':'' (at BeginValue (ParseObjectValue # k)) '':''"
  by (simp_all add: reach_def stateEndValue_def left_out_def json_space_def sc_go_def)

text \<open>The first element and the first field, where the list might have been empty.\<close>

definition starts_value :: "string \<Rightarrow> bool" where
  "starts_value s \<longleftrightarrow> (\<exists>w c r. s = w @ c # r \<and> spaces w \<and> \<not> json_space c \<and> c \<noteq> CHR '']'' \<and> c \<noteq> CHR ''}'')"

lemma json_starts: "json_ok d \<Longrightarrow> spaces w \<Longrightarrow> starts_value (w @ json_text d @ s)"
proof -
  assume d: "json_ok d" and w: "spaces w"
  have "\<exists>c r. json_text d = c # r \<and> \<not> json_space c \<and> c \<noteq> CHR '']'' \<and> c \<noteq> CHR ''}''"
  proof (cases d)
    case (Num neg i f e)
    with d obtain c r where i: "i = c # r" "json_digit c"
      by (cases i) (auto simp: num_ok_def int_ok_def json_digit_def one_to_nine_def code_def)
    then have "\<not> json_space c \<and> c \<noteq> CHR '']'' \<and> c \<noteq> CHR ''}''"
      by (auto simp: json_digit_def json_space_def code_def)
    with Num i show ?thesis by (simp add: num_text_def json_space_def)
  qed (use d in \<open>auto simp: quoted_def json_space_def\<close>)
  then obtain c r where "json_text d = c # r" "\<not> json_space c" "c \<noteq> CHR '']''" "c \<noteq> CHR ''}''" by blast
  with w show ?thesis unfolding starts_value_def by (intro exI [of _ w] exI [of _ c] exI [of _ "r @ s"]) simp
qed

lemma elems_start: "elems_ok es \<Longrightarrow> starts_value (elems_text es)"
  by (cases es) (simp_all add: json_starts)

lemma key_starts: "spaces a \<Longrightarrow> starts_value (a @ quoted key @ s)"
  unfolding starts_value_def quoted_def
  by (rule exI [of _ a], rule exI [of _ "CHR 0x22"]) (simp add: json_space_def)

lemma fields_start: "fields_ok fs \<Longrightarrow> starts_value (fields_text fs)"
  by (cases fs) (simp_all add: key_starts)

lemma or_empty_at:
  assumes "starts_value s"
    and "p = BeginValue \<and> q = BeginValueOrEmpty \<or> p = BeginString \<and> q = BeginStringOrEmpty"
    and "reach (at p k) s t out"
  shows "reach (at q k) s t out"
proof -
  obtain w c r where s: "s = w @ c # r" "spaces w" "\<not> json_space c" "c \<noteq> CHR '']''" "c \<noteq> CHR ''}''"
    using assms(1) unfolding starts_value_def by blast
  have "json_step (at q k) c = json_step (at p k) c"
    using assms(2) s(3-5)
    by (elim disjE) (simp_all add: stateBeginValueOrEmpty_def stateBeginStringOrEmpty_def stateBeginValue_def
        stateBeginString_def pushParseState_def sc_go_def sc_error_def Let_def)
  then have "emit (at q k) (c # r) = emit (at p k) (c # r)" by simp
  moreover have "emit (at q k) w = Some (at q k, [])" "emit (at p k) w = Some (at p k, [])"
    using assms(2) s(2) by (auto simp: spaces_at)
  ultimately show ?thesis
    using assms(3) unfolding reach_def s(1) emit_append by (simp del: emit.simps)
qed

lemma or_empty:
  "starts_value s \<Longrightarrow> reach (at BeginValue k) s t out \<Longrightarrow> reach (at BeginValueOrEmpty k) s t out"
  "starts_value s \<Longrightarrow> reach (at BeginString k) s t out \<Longrightarrow> reach (at BeginStringOrEmpty k) s t out"
  by (auto intro: or_empty_at)

text \<open>White space around a value, and a key before it.\<close>

lemma reach_padded:
  assumes "reach (at BeginValue k) s (after k) out" and "spaces a" and "spaces b"
  shows "reach (at BeginValue k) (a @ s @ b) (after k) out"
  using reach_append [OF reach_spaces(1) [OF assms(2)] reach_append [OF assms(1) reach_spaces(2) [OF assms(3)]]]
  by simp

lemma reach_field:
  assumes "reach (at BeginValue (ParseObjectValue # k)) s (after (ParseObjectValue # k)) out"
    and "spaces a" and "string_body key" and "spaces b" and "spaces c" and "spaces e"
  shows "reach (at BeginString (ParseObjectKey # k)) (a @ quoted key @ b @ '':'' @ c @ s @ e)
    (at EndValue (ParseObjectValue # k)) (quoted key @ '':'' @ out)"
proof -
  have key: "reach (at BeginString (ParseObjectKey # k)) (a @ quoted key @ b)
      (after (ParseObjectKey # k)) (quoted key)"
    using reach_append [OF reach_spaces(1) [OF assms(2), of BeginString "ParseObjectKey # k"]
        reach_append [OF reach_quoted [OF assms(3), of BeginString "ParseObjectKey # k"] reach_spaces(2) [OF assms(4)]]] by simp
  have "reach (after (ParseObjectKey # k)) '':'' (at BeginValue (ParseObjectValue # k)) '':''"
    using separators(3) by simp
  from reach_append [OF key reach_append [OF this reach_padded [OF assms(1,5,6)]]] show ?thesis by simp
qed

text \<open>A value takes the scanner from its beginning to after it, and leaves the compacted text.\<close>

lemma reach_json:
  "json_ok d \<Longrightarrow> length k + depth d \<le> max_nesting \<Longrightarrow>
     reach (at BeginValue k) (json_text d) (after k) (json_text (strip d))"
  "elems_ok es \<Longrightarrow> length k + Suc (elems_depth es) \<le> max_nesting \<Longrightarrow>
     reach (at BeginValue (ParseArrayValue # k)) (elems_text es) (at EndValue (ParseArrayValue # k))
       (elems_text (strip_elems es))"
  "fields_ok fs \<Longrightarrow> length k + Suc (fields_depth fs) \<le> max_nesting \<Longrightarrow>
     reach (at BeginString (ParseObjectKey # k)) (fields_text fs) (at EndValue (ParseObjectValue # k))
       (fields_text (strip_fields fs))"
proof (induction d and es and fs arbitrary: k and k and k)
  case (Lit s)
  then show ?case using reach_lit by simp
next
  case (Num neg i f e)
  then show ?case using reach_num by simp
next
  case (Str s)
  then show ?case using reach_quoted by simp
next
  case (EmptyArr w)
  then have k: "length k < max_nesting" "spaces w" by simp_all
  have "reach (at BeginValueOrEmpty (ParseArrayValue # k)) w (at BeginValueOrEmpty (ParseArrayValue # k)) []"
    using k(2) by (intro reach_spaces) simp_all
  from reach_append [OF opens(1) [OF k(1)] reach_append [OF this closes(1)]] show ?case by simp
next
  case (Arr es)
  then have k: "length k < max_nesting" "elems_ok es" by simp_all
  have "reach (at BeginValue (ParseArrayValue # k)) (elems_text es) (at EndValue (ParseArrayValue # k))
      (elems_text (strip_elems es))"
    using Arr by simp
  from reach_append [OF opens(1) [OF k(1)] reach_append [OF or_empty(1) [OF elems_start [OF k(2)] this] closes(2)]]
  show ?case by simp
next
  case (EmptyObj w)
  then have k: "length k < max_nesting" "spaces w" by simp_all
  have "reach (at BeginStringOrEmpty (ParseObjectKey # k)) w (at BeginStringOrEmpty (ParseObjectKey # k)) []"
    using k(2) by (intro reach_spaces) simp_all
  from reach_append [OF opens(2) [OF k(1)] reach_append [OF this closes(3)]] show ?case by simp
next
  case (Obj fs)
  then have k: "length k < max_nesting" "fields_ok fs" by simp_all
  have "reach (at BeginString (ParseObjectKey # k)) (fields_text fs) (at EndValue (ParseObjectValue # k))
      (fields_text (strip_fields fs))"
    using Obj by simp
  from reach_append [OF opens(2) [OF k(1)] reach_append [OF or_empty(2) [OF fields_start [OF k(2)] this] closes(4)]]
  show ?case by simp
next
  case (LastElem a d b)
  then have "reach (at BeginValue (ParseArrayValue # k)) (json_text d) (after (ParseArrayValue # k)) (json_text (strip d))"
    using LastElem(1) [of "ParseArrayValue # k"] by simp
  from reach_padded [OF this, of a b] LastElem(2) show ?case by simp
next
  case (Elem a d b es)
  have d: "reach (at BeginValue (ParseArrayValue # k)) (json_text d) (after (ParseArrayValue # k)) (json_text (strip d))"
    using Elem(1) [of "ParseArrayValue # k"] Elem(3,4) by simp
  have es: "reach (at BeginValue (ParseArrayValue # k)) (elems_text es) (at EndValue (ParseArrayValue # k))
      (elems_text (strip_elems es))"
    using Elem(2) [of k] Elem(3,4) by simp
  have sep: "reach (after (ParseArrayValue # k)) '','' (at BeginValue (ParseArrayValue # k)) '',''"
    using separators(1) by simp
  from reach_append [OF reach_padded [OF d, of a b] reach_append [OF sep es]] Elem(3)
  show ?case by simp
next
  case (LastField a key b c d e)
  then have "reach (at BeginValue (ParseObjectValue # k)) (json_text d) (after (ParseObjectValue # k)) (json_text (strip d))"
    using LastField(1) [of "ParseObjectValue # k"] by simp
  from reach_field [OF this, of a key b c e] LastField(2) show ?case by simp
next
  case (Field a key b c d e fs)
  then have "reach (at BeginValue (ParseObjectValue # k)) (json_text d) (after (ParseObjectValue # k)) (json_text (strip d))"
    and "reach (at BeginString (ParseObjectKey # k)) (fields_text fs) (at EndValue (ParseObjectValue # k))
      (fields_text (strip_fields fs))"
    using Field(1) [of "ParseObjectValue # k"] Field(2) [of k] by simp_all
  from reach_append [OF reach_field [OF this(1), of a key b c e] reach_append [OF separators(2) this(2)]] Field(3)
  show ?case by simp
qed

section \<open>What the scanner accepts\<close>

definition accepts :: "scanner \<Rightarrow> string \<Rightarrow> bool" where
  "accepts s src \<longleftrightarrow> (\<exists>t out. emit s src = Some (t, out) \<and> sc_endTop (settle t))"

lemma accepts_Nil [simp]: "accepts s [] \<longleftrightarrow> sc_endTop (settle s)"
  by (simp add: accepts_def)

lemma accepts_Cons: "accepts s (c # src) \<longleftrightarrow>
  sc_err (snd (json_step s c)) = None \<and> accepts (snd (json_step s c)) src"
  by (auto simp: accepts_def split_def Let_def split: option.splits)

lemma sc_error_err [simp]: "sc_err (snd (sc_error s c x)) \<noteq> None"
  by (simp add: sc_error_def)

lemma after_endTop [simp]: "sc_endTop (after k) \<longleftrightarrow> k = []"
  by (simp add: after_def ended_def)

definition may_end :: "scan_step \<Rightarrow> bool" where
  "may_end p \<longleftrightarrow> p \<in> {EndValue, State1, State0, Dot0, E0}"

lemma may_end_simps [simp]:
  "may_end EndValue" "may_end State1" "may_end State0" "may_end Dot0" "may_end E0"
  "\<not> may_end BeginValue" "\<not> may_end BeginValueOrEmpty" "\<not> may_end BeginString"
  "\<not> may_end BeginStringOrEmpty" "\<not> may_end InString" "\<not> may_end InStringEsc"
  "\<not> may_end InStringEscU" "\<not> may_end InStringEscU1" "\<not> may_end InStringEscU12" "\<not> may_end InStringEscU123"
  "\<not> may_end Neg" "\<not> may_end Dot" "\<not> may_end StE" "\<not> may_end ESign"
  "\<not> may_end StT" "\<not> may_end Tr" "\<not> may_end Tru" "\<not> may_end StF" "\<not> may_end Fa" "\<not> may_end Fal"
  "\<not> may_end Fals" "\<not> may_end StN" "\<not> may_end Nu" "\<not> may_end Nul"
  by (simp_all add: may_end_def)

declare settle_at [simp del] after_open [simp del]

lemma settle_may_end [simp]: "may_end p \<Longrightarrow> settle (at p k) = after k"
  by (simp add: may_end_def settle_at)

lemma settle_goes_on [simp]: "\<not> may_end p \<Longrightarrow> settle (at p k) = at p k"
  by (simp add: may_end_def settle_at)

text \<open>Inside an unfinished part the text goes on.\<close>

lemma accepts_more:
  assumes "accepts (at p k) src" and "\<not> may_end p"
  obtains c r where "src = c # r" "sc_err (snd (json_step (at p k) c)) = None"
    "accepts (snd (json_step (at p k) c)) r"
  using assms by (cases src) (simp_all add: accepts_Cons)

lemma value_ends:
  assumes "may_end p" and "src = [] \<or> json_step (at p k) (hd src) = stateEndValue (at p k) (hd src)"
  shows "accepts (at p k) src \<longleftrightarrow> accepts (after k) src"
proof (cases src)
  case Nil
  then show ?thesis using assms(1) by simp
next
  case (Cons c r)
  have "open_ended (at p k)" using assms(1) by (simp add: open_ended_def may_end_def)
  from settled_end [OF this, of c] have "json_step (after k) c = stateEndValue (at p k) c"
    using assms(1) by simp
  with assms Cons show ?thesis by (simp add: accepts_Cons)
qed

lemma accepts_end [simp]: "accepts (at EndValue k) src \<longleftrightarrow> accepts (after k) src"
  by (rule value_ends) simp_all

text \<open>White space is skipped.\<close>

lemma accepts_spaces_at:
  assumes "accepts (at p k) src" and "p \<in> {BeginValue, BeginValueOrEmpty, BeginString, BeginStringOrEmpty}"
  shows "\<exists>w c r. src = w @ c # r \<and> spaces w \<and> \<not> json_space c \<and> accepts (at p k) (c # r)"
  using assms
proof (induction src)
  case (Cons c src)
  show ?case
  proof (cases "json_space c")
    case True
    with Cons.prems spaces_at [of "[c]" p k] have "accepts (at p k) src"
      by (auto simp: accepts_Cons Let_def split_def split: if_splits)
    with Cons.IH Cons.prems(2) obtain w d r where
      "src = w @ d # r" "spaces w" "\<not> json_space d" "accepts (at p k) (d # r)" by blast
    moreover have "c # src = (c # w) @ d # r" "spaces (c # w)" using calculation True by simp_all
    ultimately show ?thesis by blast
  qed (use Cons.prems in \<open>auto intro: exI [of _ "[]"]\<close>)
qed auto

lemma accepts_spaces_after:
  assumes "accepts (after k) src"
  shows "\<exists>w r. src = w @ r \<and> spaces w \<and> (r = [] \<or> \<not> json_space (hd r)) \<and> accepts (after k) r"
  using assms
proof (induction src)
  case (Cons c src)
  show ?case
  proof (cases "json_space c")
    case True
    with Cons.prems space_after [OF True, of k] have "accepts (after k) src" by (auto simp: accepts_Cons)
    with Cons.IH obtain w r where
      "src = w @ r" "spaces w" "r = [] \<or> \<not> json_space (hd r)" "accepts (after k) r" by blast
    moreover have "c # src = (c # w) @ r" "spaces (c # w)" using calculation True by simp_all
    ultimately show ?thesis by blast
  next
    case False
    then have "c # src = [] @ c # src" "spaces []" "\<not> json_space (hd (c # src))" by simp_all
    with Cons.prems show ?thesis by blast
  qed
qed auto

lemma accepts_top: "accepts (after []) src \<Longrightarrow> spaces src"
proof (induction src)
  case (Cons c src)
  have step: "json_step (after []) c = stateEndTop (after []) c"
    by (rule end_value_steps) (simp add: after_def ended_def)
  have "json_space c"
  proof (rule ccontr)
    assume "\<not> json_space c"
    with step Cons.prems show False by (simp add: accepts_Cons stateEndTop_def)
  qed
  moreover from this step have "json_step (after []) c = (ScanEnd, after [])" by (simp add: stateEndTop_def)
  ultimately show ?case using Cons by (simp add: accepts_Cons)
qed simp

text \<open>What follows a value inside an array or an object.\<close>

lemma end_value_next:
  assumes "\<not> json_space c"
  shows "json_step (after (ParseArrayValue # k)) c =
     (if c = CHR '','' then (ScanArrayValue, at BeginValue (ParseArrayValue # k))
      else if c = CHR '']'' then (ScanEndArray, after k)
      else sc_error (at EndValue (ParseArrayValue # k)) c ''after array element'')"
    and "json_step (after (ParseObjectKey # k)) c =
     (if c = CHR '':'' then (ScanObjectKey, at BeginValue (ParseObjectValue # k))
      else sc_error (at EndValue (ParseObjectKey # k)) c ''after object key'')"
    and "json_step (after (ParseObjectValue # k)) c =
     (if c = CHR '','' then (ScanObjectValue, at BeginString (ParseObjectKey # k))
      else if c = CHR ''}'' then (ScanEndObject, after k)
      else sc_error (at EndValue (ParseObjectValue # k)) c ''after object key:value pair'')"
  using assms by (simp_all add: after_open stateEndValue_def sc_go_def pop_at)

lemma accepts_delimiter:
  assumes "accepts (after (p # k)) src"
  obtains w c r where "src = w @ c # r" "spaces w" "\<not> json_space c"
    "sc_err (snd (json_step (after (p # k)) c)) = None" "accepts (snd (json_step (after (p # k)) c)) r"
proof -
  from accepts_spaces_after [OF assms] obtain w s where
    s: "src = w @ s" "spaces w" "s = [] \<or> \<not> json_space (hd s)" "accepts (after (p # k)) s" by blast
  then obtain c r where c: "s = c # r" by (cases s) auto
  with s have "src = w @ c # r" "\<not> json_space c" "accepts (after (p # k)) (c # r)" by simp_all
  with s(2) show ?thesis unfolding accepts_Cons by (elim conjE) (rule that)
qed

lemma accepts_in_array:
  assumes "accepts (after (ParseArrayValue # k)) src"
  shows "\<exists>w r. spaces w \<and> (src = w @ CHR '','' # r \<and> accepts (at BeginValue (ParseArrayValue # k)) r \<or>
    src = w @ CHR '']'' # r \<and> accepts (after k) r)"
  using assms
proof (rule accepts_delimiter)
  fix w c r
  assume "src = w @ c # r" "spaces w" and c: "\<not> json_space c"
    "sc_err (snd (json_step (after (ParseArrayValue # k)) c)) = None"
    "accepts (snd (json_step (after (ParseArrayValue # k)) c)) r"
  moreover have "c = CHR '','' \<and> accepts (at BeginValue (ParseArrayValue # k)) r \<or> c = CHR '']'' \<and> accepts (after k) r"
    using c(2,3) unfolding end_value_next [OF c(1)] by (simp split: if_splits)
  ultimately show ?thesis by blast
qed

lemma accepts_after_key:
  assumes "accepts (after (ParseObjectKey # k)) src"
  shows "\<exists>w r. spaces w \<and> src = w @ CHR '':'' # r \<and> accepts (at BeginValue (ParseObjectValue # k)) r"
  using assms
proof (rule accepts_delimiter)
  fix w c r
  assume "src = w @ c # r" "spaces w" and c: "\<not> json_space c"
    "sc_err (snd (json_step (after (ParseObjectKey # k)) c)) = None"
    "accepts (snd (json_step (after (ParseObjectKey # k)) c)) r"
  moreover have "c = CHR '':'' \<and> accepts (at BeginValue (ParseObjectValue # k)) r"
    using c(2,3) unfolding end_value_next [OF c(1)] by (simp split: if_splits)
  ultimately show ?thesis by blast
qed

lemma accepts_in_object:
  assumes "accepts (after (ParseObjectValue # k)) src"
  shows "\<exists>w r. spaces w \<and> (src = w @ CHR '','' # r \<and> accepts (at BeginString (ParseObjectKey # k)) r \<or>
    src = w @ CHR ''}'' # r \<and> accepts (after k) r)"
  using assms
proof (rule accepts_delimiter)
  fix w c r
  assume "src = w @ c # r" "spaces w" and c: "\<not> json_space c"
    "sc_err (snd (json_step (after (ParseObjectValue # k)) c)) = None"
    "accepts (snd (json_step (after (ParseObjectValue # k)) c)) r"
  moreover have "c = CHR '','' \<and> accepts (at BeginString (ParseObjectKey # k)) r \<or> c = CHR ''}'' \<and> accepts (after k) r"
    using c(2,3) unfolding end_value_next [OF c(1)] by (simp split: if_splits)
  ultimately show ?thesis by blast
qed

text \<open>Numbers.\<close>

lemma accepts_digits:
  assumes "accepts (at p k) src" and "p \<in> {State1, Dot0, E0}"
  shows "\<exists>ds r. src = ds @ r \<and> list_all json_digit ds \<and> (r = [] \<or> \<not> json_digit (hd r)) \<and> accepts (at p k) r"
  using assms
proof (induction src)
  case (Cons c src)
  show ?case
  proof (cases "json_digit c")
    case True
    with Cons.prems have "accepts (at p k) src" by (auto simp: accepts_Cons sc_go_def)
    with Cons.IH Cons.prems(2) obtain ds r where
      "src = ds @ r" "list_all json_digit ds" "r = [] \<or> \<not> json_digit (hd r)" "accepts (at p k) r" by blast
    moreover have "c # src = (c # ds) @ r" "list_all json_digit (c # ds)" using calculation True by simp_all
    ultimately show ?thesis by blast
  next
    case False
    then have "c # src = [] @ c # src" "list_all json_digit []" "\<not> json_digit (hd (c # src))" by simp_all
    with Cons.prems show ?thesis by blast
  qed
qed auto

lemma accepts_digits1:
  assumes "accepts (at p k) (c # src)" and "json_digit c" and "p \<in> {State1, Dot0, E0}"
  shows "\<exists>ds r. c # src = ds @ r \<and> ds \<noteq> [] \<and> list_all json_digit ds \<and>
    (r = [] \<or> \<not> json_digit (hd r)) \<and> accepts (at p k) r"
  using accepts_digits [OF assms(1,3)] assms(2) by (metis append_Nil list.sel(1) list.distinct(1))

lemma accepts_E0: "accepts (at E0 k) src \<Longrightarrow> src = [] \<or> \<not> json_digit (hd src) \<Longrightarrow> accepts (after k) src"
  by (cases src) (simp_all add: value_ends)

definition exponent_digits :: "parse_state list \<Rightarrow> string \<Rightarrow> bool" where
  "exponent_digits k src \<longleftrightarrow> (\<exists>ds r. src = ds @ r \<and> digits_ok ds \<and> accepts (after k) r)"

lemma exponent_digits:
  assumes "json_digit c" and "accepts (at E0 k) r"
  shows "exponent_digits k (c # r)"
proof -
  from accepts_digits [OF assms(2)] obtain ds t where
    t: "r = ds @ t" "list_all json_digit ds" "t = [] \<or> \<not> json_digit (hd t)" "accepts (at E0 k) t" by auto
  have "c # r = (c # ds) @ t" "digits_ok (c # ds)" using t(1,2) assms(1) by (simp_all add: digits_ok_def)
  with accepts_E0 [OF t(4,3)] show ?thesis unfolding exponent_digits_def by blast
qed

lemma accepts_ESign: "accepts (at ESign k) src \<Longrightarrow> exponent_digits k src"
  by (erule accepts_more) (auto simp: stateE_def sc_go_def split: if_splits intro: exponent_digits)

lemma accepts_exponent:
  assumes "accepts (at StE k) src"
  shows "\<exists>sg r. src = sg @ r \<and> sg \<in> {[], ''+'', ''-''} \<and> exponent_digits k r"
proof -
  obtain c r where c: "src = c # r" "sc_err (snd (json_step (at StE k) c)) = None"
    "accepts (snd (json_step (at StE k) c)) r"
    using assms by (rule accepts_more) simp
  show ?thesis
  proof (cases "c = CHR ''+'' \<or> c = CHR ''-''")
    case True
    with c(3) have "exponent_digits k r" by (auto simp: sc_go_def accepts_ESign)
    moreover have "src = [c] @ r" "[c] \<in> {[], ''+'', ''-''}" using True c(1) by auto
    ultimately show ?thesis by blast
  next
    case False
    with c(2,3) have "exponent_digits k (c # r)"
      by (auto simp: stateE_def sc_go_def split: if_splits intro: exponent_digits)
    moreover have "src = [] @ c # r" using c(1) by simp
    ultimately show ?thesis by blast
  qed
qed

lemma accepts_exp:
  assumes "accepts (at p k) src" and "p \<in> {State0, State1, Dot0}"
    and "p \<noteq> State0 \<Longrightarrow> src = [] \<or> \<not> json_digit (hd src)" and "p \<noteq> Dot0 \<Longrightarrow> src = [] \<or> hd src \<noteq> CHR ''.''"
  shows "\<exists>e r. src = exp_text e @ r \<and> exp_ok e \<and> accepts (after k) r"
proof (cases "src \<noteq> [] \<and> hd src \<in> {CHR ''e'', CHR ''E''}")
  case True
  then obtain c r where c: "src = c # r" "c \<in> {CHR ''e'', CHR ''E''}" by (cases src) auto
  then have "json_step (at p k) c = (ScanContinue, at StE k)"
    using assms(2) by (auto simp: state0_def sc_go_def json_digit_def code_def)
  with assms(1) c(1) have "accepts (at StE k) r" by (simp add: accepts_Cons)
  then obtain sg ds t where "r = sg @ ds @ t" "sg \<in> {[], ''+'', ''-''}" "digits_ok ds" "accepts (after k) t"
    using accepts_exponent unfolding exponent_digits_def by blast
  moreover from this c have "src = exp_text (Some (c, sg, ds)) @ t" "exp_ok (Some (c, sg, ds))"
    by (simp_all add: exp_text_def exp_ok_def)
  ultimately show ?thesis by blast
next
  case False
  have "may_end p" using assms(2) by auto
  moreover have "src = [] \<or> json_step (at p k) (hd src) = stateEndValue (at p k) (hd src)"
    using assms(2-4) False by (auto simp: state0_def)
  ultimately have "accepts (after k) src" using assms(1) value_ends by blast
  moreover have "src = exp_text None @ src" "exp_ok None" by (simp_all add: exp_text_def exp_ok_def)
  ultimately show ?thesis by blast
qed

lemma accepts_frac:
  assumes "accepts (at p k) src" and "at_number p" and "p = State1 \<Longrightarrow> src = [] \<or> \<not> json_digit (hd src)"
  shows "\<exists>f e r. src = frac_text f @ exp_text e @ r \<and> frac_ok f \<and> exp_ok e \<and> accepts (after k) r"
proof (cases "src \<noteq> [] \<and> hd src = CHR ''.''")
  case True
  then obtain r where src: "src = CHR ''.'' # r" by (cases src) auto
  have "json_step (at p k) CHR ''.'' = (ScanContinue, at Dot k)"
    using assms(2) by (auto simp: at_number_def state0_def sc_go_def json_digit_def code_def)
  with assms(1) src have "accepts (at Dot k) r" by (simp add: accepts_Cons)
  then obtain d t where d: "r = d # t" "json_digit d" "accepts (at Dot0 k) t"
    by (rule accepts_more) (auto simp: sc_go_def split: if_splits)
  from accepts_digits [OF d(3)] obtain ds u where u: "t = ds @ u" "list_all json_digit ds"
    "u = [] \<or> \<not> json_digit (hd u)" "accepts (at Dot0 k) u" by auto
  obtain e v where v: "u = exp_text e @ v" "exp_ok e" "accepts (after k) v"
    using accepts_exp [OF u(4)] u(3) by auto
  have "src = frac_text (Some (d # ds)) @ exp_text e @ v" "frac_ok (Some (d # ds))"
    using src d(1,2) u(1,2) v(1) by (simp_all add: frac_text_def frac_ok_def digits_ok_def)
  with v(2,3) show ?thesis by blast
next
  case False
  obtain e v where v: "src = exp_text e @ v" "exp_ok e" "accepts (after k) v"
    using accepts_exp [OF assms(1)] assms(2,3) False by (auto simp: at_number_def)
  then have "src = frac_text None @ exp_text e @ v" "frac_ok None" by (simp_all add: frac_text_def frac_ok_def)
  with v(2,3) show ?thesis by blast
qed

text \<open>\<open>scalar k src\<close>: the text begins with a value that is no object and no array, and goes on after it.\<close>

definition scalar :: "parse_state list \<Rightarrow> string \<Rightarrow> bool" where
  "scalar k src \<longleftrightarrow> (\<exists>d r. src = json_text d @ r \<and> json_ok d \<and> depth d = 0 \<and> accepts (after k) r)"

lemma scalar_num:
  assumes "accepts (at p k) src" and "at_number p" and "p = State1 \<Longrightarrow> src = [] \<or> \<not> json_digit (hd src)"
    and "int_ok i"
  shows "scalar k ((if neg then ''-'' else []) @ i @ src)"
proof -
  from accepts_frac [OF assms(1-3)] obtain f e r where
    f: "src = frac_text f @ exp_text e @ r" "frac_ok f" "exp_ok e" "accepts (after k) r" by blast
  have "(if neg then ''-'' else []) @ i @ src = json_text (Num neg i f e) @ r"
    by (simp add: num_text_def f(1))
  moreover have "json_ok (Num neg i f e)" "depth (Num neg i f e) = 0" using assms(4) f(2,3) by (simp_all add: num_ok_def)
  ultimately show ?thesis using f(4) unfolding scalar_def by blast
qed

lemma scalar_int:
  assumes "c = CHR ''0'' \<and> accepts (at State0 k) src \<or> one_to_nine c \<and> accepts (at State1 k) src"
  shows "scalar k ((if neg then ''-'' else []) @ c # src)"
  using assms
proof
  assume c: "c = CHR ''0'' \<and> accepts (at State0 k) src"
  then show ?thesis using scalar_num [of State0 k src "''0''" neg] by (simp add: int_ok_def at_number_def)
next
  assume c: "one_to_nine c \<and> accepts (at State1 k) src"
  then obtain ds r where r: "src = ds @ r" "list_all json_digit ds" "r = [] \<or> \<not> json_digit (hd r)"
    "accepts (at State1 k) r" using accepts_digits [of State1 k src] by auto
  have "int_ok (c # ds)" using c r(2) by (simp add: int_ok_def)
  from scalar_num [OF r(4) _ _ this, of neg] r(1,3) show ?thesis by (simp add: at_number_def)
qed

text \<open>Strings and words.\<close>

lemma accepts_hex:
  assumes "accepts (at p k) src" and "\<not> may_end p" and "\<And>c. json_step (at p k) c = stateHex q (at p k) c"
  shows "\<exists>c r. src = c # r \<and> json_hex c \<and> accepts (at q k) r"
  using assms(1,2) by (rule accepts_more) (auto simp: assms(3) stateHex_def sc_go_def split: if_splits)

lemma accepts_unicode:
  assumes "accepts (at InStringEscU k) src"
  shows "4 \<le> length src \<and> list_all json_hex (take 4 src) \<and> accepts (at InString k) (drop 4 src)"
proof -
  from accepts_hex [OF assms, of InStringEscU1] obtain c1 r1 where
    r1: "src = c1 # r1" "json_hex c1" "accepts (at InStringEscU1 k) r1" by auto
  from accepts_hex [OF r1(3), of InStringEscU12] obtain c2 r2 where
    r2: "r1 = c2 # r2" "json_hex c2" "accepts (at InStringEscU12 k) r2" by auto
  from accepts_hex [OF r2(3), of InStringEscU123] obtain c3 r3 where
    r3: "r2 = c3 # r3" "json_hex c3" "accepts (at InStringEscU123 k) r3" by auto
  from accepts_hex [OF r3(3), of InString] obtain c4 r4 where
    r4: "r3 = c4 # r4" "json_hex c4" "accepts (at InString k) r4" by auto
  with r1 r2 r3 show ?thesis by simp
qed

definition string_at :: "parse_state list \<Rightarrow> string \<Rightarrow> bool" where
  "string_at k src \<longleftrightarrow> (\<exists>s r. src = s @ CHR 0x22 # r \<and> string_body s \<and> accepts (after k) r)"

lemma string_more:
  assumes "string_at k r" and "\<And>s. string_body s \<Longrightarrow> string_body (x @ s)"
  shows "string_at k (x @ r)"
proof -
  obtain s t where "r = s @ CHR 0x22 # t" "string_body s" "accepts (after k) t"
    using assms(1) unfolding string_at_def by blast
  moreover from this assms(2) have "x @ r = (x @ s) @ CHR 0x22 # t" "string_body (x @ s)" by simp_all
  ultimately show ?thesis unfolding string_at_def by blast
qed

lemma accepts_string: "accepts (at InString k) src \<Longrightarrow> string_at k src"
proof (induction src rule: length_induct)
  case (1 src)
  from 1(2) obtain c r where c: "src = c # r" "sc_err (snd (stateInString (at InString k) c)) = None"
    "accepts (snd (stateInString (at InString k) c)) r" by (rule accepts_more) simp_all
  consider (quote) "c = CHR 0x22" | (escape) "c = CHR 0x5C"
    | (plain) "c \<noteq> CHR 0x22" "c \<noteq> CHR 0x5C" "32 \<le> code c" "accepts (at InString k) r"
    using c(2,3) by (auto simp: stateInString_def split: if_splits)
  then show ?case
  proof cases
    case quote
    with c(3) have "accepts (after k) r" by (simp add: stateInString_def sc_go_def)
    moreover have "src = [] @ CHR 0x22 # r" "string_body []" using c(1) quote by simp_all
    ultimately show ?thesis unfolding string_at_def by blast
  next
    case escape
    with c(3) have "accepts (at InStringEsc k) r" by (simp add: stateInString_def sc_go_def)
    then obtain e t where e: "r = e # t" "sc_err (snd (stateInStringEsc (at InStringEsc k) e)) = None"
      "accepts (snd (stateInStringEsc (at InStringEsc k) e)) t" by (rule accepts_more) simp_all
    show ?thesis
    proof (cases "escapable e")
      case True
      with e(3) have "accepts (at InString k) t" by (simp add: stateInStringEsc_def sc_go_def)
      with 1(1) c(1) e(1) have "string_at k t" by simp
      from string_more [OF this, of "[c, e]"] escape True c(1) e(1) show ?thesis by simp
    next
      case False
      with e(2,3) have u: "e = CHR ''u''" "accepts (at InStringEscU k) t"
        by (auto simp: stateInStringEsc_def sc_go_def split: if_splits)
      note hex = accepts_unicode [OF u(2)]
      with 1(1) c(1) e(1) have "string_at k (drop 4 t)" by simp
      from string_more [OF this, of "[c, e] @ take 4 t"] escape False u(1) c(1) e(1) hex show ?thesis
        by simp
    qed
  next
    case plain
    with 1(1) c(1) have "string_at k r" by simp
    from string_more [OF this, of "[c]"] plain c(1) show ?thesis by simp
  qed
qed

lemma accepts_word:
  assumes "accepts (at p k) src" and "\<not> may_end p" and "\<And>c. json_step (at p k) c = stateWord (at p k) c w q t"
  shows "\<exists>r. src = w # r \<and> accepts (at q k) r"
  using assms(1,2) by (rule accepts_more) (auto simp: assms(3) stateWord_def sc_go_def split: if_splits)

lemma accepts_true: "accepts (at StT k) src \<Longrightarrow> \<exists>r. src = ''rue'' @ r \<and> accepts (after k) r"
  using accepts_word [of StT k src "CHR ''r''" Tr] accepts_word [of Tr k _ "CHR ''u''" Tru]
    accepts_word [of Tru k _ "CHR ''e''" EndValue] by fastforce

lemma accepts_false: "accepts (at StF k) src \<Longrightarrow> \<exists>r. src = ''alse'' @ r \<and> accepts (after k) r"
  using accepts_word [of StF k src "CHR ''a''" Fa] accepts_word [of Fa k _ "CHR ''l''" Fal]
    accepts_word [of Fal k _ "CHR ''s''" Fals] accepts_word [of Fals k _ "CHR ''e''" EndValue] by fastforce

lemma accepts_null: "accepts (at StN k) src \<Longrightarrow> \<exists>r. src = ''ull'' @ r \<and> accepts (after k) r"
  using accepts_word [of StN k src "CHR ''u''" Nu] accepts_word [of Nu k _ "CHR ''l''" Nul]
    accepts_word [of Nul k _ "CHR ''l''" EndValue] by fastforce

lemma scalar_lit: "accepts (after k) r \<Longrightarrow> s \<in> {''null'', ''true'', ''false''} \<Longrightarrow> scalar k (s @ r)"
proof -
  assume "accepts (after k) r" and s: "s \<in> {''null'', ''true'', ''false''}"
  moreover have "s @ r = json_text (Lit s) @ r" "json_ok (Lit s)" "depth (Lit s) = 0" using s by simp_all
  ultimately show ?thesis unfolding scalar_def by blast
qed

lemma scalar_string: "string_at k r \<Longrightarrow> scalar k (CHR 0x22 # r)"
proof -
  assume "string_at k r"
  then obtain s t where "r = s @ CHR 0x22 # t" "string_body s" "accepts (after k) t"
    unfolding string_at_def by blast
  moreover from this have "CHR 0x22 # r = json_text (Str s) @ t" "json_ok (Str s)" "depth (Str s) = 0"
    by (simp_all add: quoted_def)
  ultimately show ?thesis unfolding scalar_def by blast
qed

lemma accepts_Neg: "accepts (at Neg k) src \<Longrightarrow> scalar k (CHR ''-'' # src)"
proof (erule accepts_more)
  fix c r
  assume "src = c # r" "sc_err (snd (json_step (at Neg k) c)) = None" "accepts (snd (json_step (at Neg k) c)) r"
  then have "c = CHR ''0'' \<and> accepts (at State0 k) r \<or> one_to_nine c \<and> accepts (at State1 k) r"
    by (auto simp: sc_go_def split: if_splits)
  from scalar_int [OF this, of True] \<open>src = c # r\<close> show "scalar k (CHR ''-'' # src)" by simp
qed simp

lemma accepts_begin:
  assumes "accepts (at BeginValue k) (c # r)" and "\<not> json_space c"
  shows "c = CHR ''{'' \<and> length k < max_nesting \<and> accepts (at BeginStringOrEmpty (ParseObjectKey # k)) r \<or>
    c = CHR ''['' \<and> length k < max_nesting \<and> accepts (at BeginValueOrEmpty (ParseArrayValue # k)) r \<or>
    scalar k (c # r)"
proof -
  have step: "sc_err (snd (stateBeginValue (at BeginValue k) c)) = None"
    "accepts (snd (stateBeginValue (at BeginValue k) c)) r"
    using assms(1) by (simp_all add: accepts_Cons)
  consider (brace) "c = CHR ''{''" | (bracket) "c = CHR ''[''" | (quote) "c = CHR 0x22"
    | (neg) "c = CHR ''-''" | (word) "c \<in> {CHR ''t'', CHR ''f'', CHR ''n''}"
    | (num) "c \<notin> set ''{[-tfn'' \<union> {CHR 0x22}" by auto
  then show ?thesis
  proof cases
    case brace
    with step show ?thesis
      by (auto simp: stateBeginValue_def json_space_def pushParseState_def Let_def Suc_le_eq split: if_splits)
  next
    case bracket
    with step show ?thesis
      by (auto simp: stateBeginValue_def json_space_def pushParseState_def Let_def Suc_le_eq split: if_splits)
  next
    case quote
    with step(2) have "accepts (at InString k) r" by (simp add: stateBeginValue_def json_space_def sc_go_def)
    with quote show ?thesis by (simp add: scalar_string accepts_string)
  next
    case neg
    with step(2) have "accepts (at Neg k) r" by (simp add: stateBeginValue_def json_space_def sc_go_def)
    with neg show ?thesis by (simp add: accepts_Neg)
  next
    case word
    with step(2) have "c = CHR ''t'' \<and> accepts (at StT k) r \<or> c = CHR ''f'' \<and> accepts (at StF k) r \<or>
        c = CHR ''n'' \<and> accepts (at StN k) r"
      by (auto simp: stateBeginValue_def json_space_def sc_go_def)
    then show ?thesis
      using accepts_true [of k r] accepts_false [of k r] accepts_null [of k r]
        scalar_lit [of k _ "''true''"] scalar_lit [of k _ "''false''"] scalar_lit [of k _ "''null''"]
      by (elim disjE conjE) force+
  next
    case num
    with step assms(2) have "c = CHR ''0'' \<and> accepts (at State0 k) r \<or> one_to_nine c \<and> accepts (at State1 k) r"
      by (auto simp: stateBeginValue_def sc_go_def split: if_splits)
    from scalar_int [OF this, of False] show ?thesis by simp
  qed
qed

text \<open>Values, elements, fields.\<close>

definition value_at :: "parse_state list \<Rightarrow> string \<Rightarrow> bool" where
  "value_at k src \<longleftrightarrow>
     (\<exists>a d r. src = a @ json_text d @ r \<and> spaces a \<and> json_ok d \<and> length k + depth d \<le> max_nesting \<and>
        accepts (after k) r)"

definition elems_at :: "parse_state list \<Rightarrow> string \<Rightarrow> bool" where
  "elems_at k src \<longleftrightarrow>
     (\<exists>es r. src = elems_text es @ CHR '']'' # r \<and> elems_ok es \<and>
        length k + Suc (elems_depth es) \<le> max_nesting \<and> accepts (after k) r)"

definition fields_at :: "parse_state list \<Rightarrow> string \<Rightarrow> bool" where
  "fields_at k src \<longleftrightarrow>
     (\<exists>fs r. src = fields_text fs @ CHR ''}'' # r \<and> fields_ok fs \<and>
        length k + Suc (fields_depth fs) \<le> max_nesting \<and> accepts (after k) r)"

lemma scalar_value: "scalar k src \<Longrightarrow> spaces a \<Longrightarrow> length k \<le> max_nesting \<Longrightarrow> value_at k (a @ src)"
  unfolding scalar_def value_at_def by (metis Nat.add_0_right append_assoc)

lemma elems_from:
  assumes "value_at (ParseArrayValue # k) src"
    and "\<And>r. length r < length src \<Longrightarrow> accepts (at BeginValue (ParseArrayValue # k)) r \<Longrightarrow> elems_at k r"
  shows "elems_at k src"
proof -
  obtain a d r where d: "src = a @ json_text d @ r" "spaces a" "json_ok d"
    "Suc (length k) + depth d \<le> max_nesting" "accepts (after (ParseArrayValue # k)) r"
    using assms(1) unfolding value_at_def by auto
  obtain w t where w: "spaces w" "r = w @ CHR '','' # t \<and> accepts (at BeginValue (ParseArrayValue # k)) t \<or>
      r = w @ CHR '']'' # t \<and> accepts (after k) t"
    using accepts_in_array [OF d(5)] by blast
  from w(2) show ?thesis
  proof
    assume t: "r = w @ CHR '','' # t \<and> accepts (at BeginValue (ParseArrayValue # k)) t"
    with assms(2) [of t] d(1) obtain es u where es: "t = elems_text es @ CHR '']'' # u" "elems_ok es"
      "length k + Suc (elems_depth es) \<le> max_nesting" "accepts (after k) u"
      unfolding elems_at_def by auto
    have "src = elems_text (Elem a d w es) @ CHR '']'' # u" "elems_ok (Elem a d w es)"
      "length k + Suc (elems_depth (Elem a d w es)) \<le> max_nesting"
      using d t w(1) es by simp_all
    with es(4) show ?thesis unfolding elems_at_def by blast
  next
    assume t: "r = w @ CHR '']'' # t \<and> accepts (after k) t"
    have "src = elems_text (LastElem a d w) @ CHR '']'' # t" "elems_ok (LastElem a d w)"
      "length k + Suc (elems_depth (LastElem a d w)) \<le> max_nesting"
      using d t w(1) by simp_all
    with t show ?thesis unfolding elems_at_def by blast
  qed
qed

lemma accepts_key:
  assumes "accepts (at BeginString (ParseObjectKey # k)) src"
  shows "\<exists>a key b r. src = a @ quoted key @ b @ CHR '':'' # r \<and> spaces a \<and> string_body key \<and> spaces b \<and>
    accepts (at BeginValue (ParseObjectValue # k)) r"
proof -
  from accepts_spaces_at [OF assms] obtain a c r where a: "src = a @ c # r" "spaces a" "\<not> json_space c"
    "accepts (at BeginString (ParseObjectKey # k)) (c # r)" by blast
  then have c: "c = CHR 0x22" "accepts (at InString (ParseObjectKey # k)) r"
    by (auto simp: accepts_Cons stateBeginString_def sc_go_def split: if_splits)
  obtain key t where key: "r = key @ CHR 0x22 # t" "string_body key" "accepts (after (ParseObjectKey # k)) t"
    using accepts_string [OF c(2)] unfolding string_at_def by blast
  obtain b u where "spaces b" "t = b @ CHR '':'' # u" "accepts (at BeginValue (ParseObjectValue # k)) u"
    using accepts_after_key [OF key(3)] by blast
  moreover from this a(1) c(1) key(1) have "src = a @ quoted key @ b @ CHR '':'' # u"
    by (simp add: quoted_def)
  ultimately show ?thesis using a(2) key(2) by blast
qed

lemma fields_from:
  assumes "accepts (at BeginString (ParseObjectKey # k)) src"
    and "\<And>r. length r < length src \<Longrightarrow> accepts (at BeginValue (ParseObjectValue # k)) r \<Longrightarrow> value_at (ParseObjectValue # k) r"
    and "\<And>r. length r < length src \<Longrightarrow> accepts (at BeginString (ParseObjectKey # k)) r \<Longrightarrow> fields_at k r"
  shows "fields_at k src"
proof -
  obtain a key b s where key: "src = a @ quoted key @ b @ CHR '':'' # s" "spaces a" "string_body key" "spaces b"
    "accepts (at BeginValue (ParseObjectValue # k)) s"
    using accepts_key [OF assms(1)] by blast
  with assms(2) [of s] obtain c d r where d: "s = c @ json_text d @ r" "spaces c" "json_ok d"
    "Suc (length k) + depth d \<le> max_nesting" "accepts (after (ParseObjectValue # k)) r"
    unfolding value_at_def by auto
  obtain w t where w: "spaces w" "r = w @ CHR '','' # t \<and> accepts (at BeginString (ParseObjectKey # k)) t \<or>
      r = w @ CHR ''}'' # t \<and> accepts (after k) t"
    using accepts_in_object [OF d(5)] by blast
  from w(2) show ?thesis
  proof
    assume t: "r = w @ CHR '','' # t \<and> accepts (at BeginString (ParseObjectKey # k)) t"
    with assms(3) [of t] key(1) d(1) obtain fs u where fs: "t = fields_text fs @ CHR ''}'' # u" "fields_ok fs"
      "length k + Suc (fields_depth fs) \<le> max_nesting" "accepts (after k) u"
      unfolding fields_at_def by auto
    have "src = fields_text (Field a key b c d w fs) @ CHR ''}'' # u" "fields_ok (Field a key b c d w fs)"
      "length k + Suc (fields_depth (Field a key b c d w fs)) \<le> max_nesting"
      using key d t w(1) fs by simp_all
    with fs(4) show ?thesis unfolding fields_at_def by blast
  next
    assume t: "r = w @ CHR ''}'' # t \<and> accepts (after k) t"
    have "src = fields_text (LastField a key b c d w) @ CHR ''}'' # t" "fields_ok (LastField a key b c d w)"
      "length k + Suc (fields_depth (LastField a key b c d w)) \<le> max_nesting"
      using key d t w(1) by simp_all
    with t show ?thesis unfolding fields_at_def by blast
  qed
qed

text \<open>After an opening bracket: nothing, or the first element or field.\<close>

lemma accepts_skip: "spaces w \<Longrightarrow> p \<in> {BeginValue, BeginValueOrEmpty, BeginString, BeginStringOrEmpty} \<Longrightarrow>
  accepts (at p k) (w @ src) \<longleftrightarrow> accepts (at p k) src"
  by (auto simp: accepts_def emit_append spaces_at split: option.splits)

lemma accepts_or_empty:
  assumes "accepts (at q k) src"
    and "p = BeginValue \<and> q = BeginValueOrEmpty \<and> x = CHR '']'' \<or>
      p = BeginString \<and> q = BeginStringOrEmpty \<and> x = CHR ''}''"
  shows "(\<exists>w r. src = w @ x # r \<and> spaces w \<and> accepts (at q k) (x # r)) \<or> accepts (at p k) src"
proof -
  obtain w c r where c: "src = w @ c # r" "spaces w" "\<not> json_space c" "accepts (at q k) (c # r)"
    using accepts_spaces_at [OF assms(1)] assms(2) by blast
  show ?thesis
  proof (cases "c = x")
    case False
    have "json_step (at q k) c = json_step (at p k) c"
      using assms(2) c(3) False
      by (elim disjE) (simp_all add: stateBeginValueOrEmpty_def stateBeginStringOrEmpty_def stateBeginValue_def
          stateBeginString_def pushParseState_def sc_go_def sc_error_def Let_def)
    with c(4) have "accepts (at p k) (c # r)" by (simp add: accepts_Cons)
    then have "accepts (at p k) src" using c(1,2) assms(2) accepts_skip by auto
    then show ?thesis ..
  qed (use c in blast)
qed

lemma accepts_array:
  assumes "accepts (at BeginValueOrEmpty (ParseArrayValue # k)) src" and "length k < max_nesting" and "spaces a"
    and "accepts (at BeginValue (ParseArrayValue # k)) src \<Longrightarrow> elems_at k src"
  shows "value_at k (a @ CHR ''['' # src)"
proof -
  consider (empty) w r where "src = w @ CHR '']'' # r" "spaces w" "accepts (at BeginValueOrEmpty (ParseArrayValue # k)) (CHR '']'' # r)"
    | (elems) "elems_at k src"
    using accepts_or_empty [OF assms(1), of BeginValue "CHR '']''"] assms(4) by blast
  then show ?thesis
  proof cases
    case empty
    then have "accepts (after k) r"
      by (simp add: accepts_Cons stateBeginValueOrEmpty_def stateEndValue_def json_space_def pop_at)
    moreover have "a @ CHR ''['' # src = a @ json_text (EmptyArr w) @ r" "json_ok (EmptyArr w)"
      "length k + depth (EmptyArr w) \<le> max_nesting" using empty assms(2) by simp_all
    ultimately show ?thesis using assms(3) unfolding value_at_def by blast
  next
    case elems
    then obtain es r where es: "src = elems_text es @ CHR '']'' # r" "elems_ok es"
      "length k + Suc (elems_depth es) \<le> max_nesting" "accepts (after k) r" unfolding elems_at_def by blast
    then have "a @ CHR ''['' # src = a @ json_text (Arr es) @ r" "json_ok (Arr es)"
      "length k + depth (Arr es) \<le> max_nesting" by simp_all
    with es(4) assms(3) show ?thesis unfolding value_at_def by blast
  qed
qed

lemma accepts_object:
  assumes "accepts (at BeginStringOrEmpty (ParseObjectKey # k)) src" and "length k < max_nesting" and "spaces a"
    and "accepts (at BeginString (ParseObjectKey # k)) src \<Longrightarrow> fields_at k src"
  shows "value_at k (a @ CHR ''{'' # src)"
proof -
  consider (empty) w r where "src = w @ CHR ''}'' # r" "spaces w" "accepts (at BeginStringOrEmpty (ParseObjectKey # k)) (CHR ''}'' # r)"
    | (fields) "fields_at k src"
    using accepts_or_empty [OF assms(1), of BeginString "CHR ''}''"] assms(4) by blast
  then show ?thesis
  proof cases
    case empty
    then have "accepts (after k) r"
      by (simp add: accepts_Cons stateBeginStringOrEmpty_def stateEndValue_def json_space_def pop_at)
    moreover have "a @ CHR ''{'' # src = a @ json_text (EmptyObj w) @ r" "json_ok (EmptyObj w)"
      "length k + depth (EmptyObj w) \<le> max_nesting" using empty assms(2) by simp_all
    ultimately show ?thesis using assms(3) unfolding value_at_def by blast
  next
    case fields
    then obtain fs r where fs: "src = fields_text fs @ CHR ''}'' # r" "fields_ok fs"
      "length k + Suc (fields_depth fs) \<le> max_nesting" "accepts (after k) r" unfolding fields_at_def by blast
    then have "a @ CHR ''{'' # src = a @ json_text (Obj fs) @ r" "json_ok (Obj fs)"
      "length k + depth (Obj fs) \<le> max_nesting" by simp_all
    with fs(4) assms(3) show ?thesis unfolding value_at_def by blast
  qed
qed

lemma accepts_parts:
  "(\<forall>k. accepts (at BeginValue k) src \<longrightarrow> length k \<le> max_nesting \<longrightarrow> value_at k src) \<and>
   (\<forall>k. accepts (at BeginValue (ParseArrayValue # k)) src \<longrightarrow> length k < max_nesting \<longrightarrow> elems_at k src) \<and>
   (\<forall>k. accepts (at BeginString (ParseObjectKey # k)) src \<longrightarrow> length k < max_nesting \<longrightarrow> fields_at k src)"
proof (induction src rule: length_induct)
  case (1 src)
  have ih_value: "value_at k r"
    if "length r < length src" "accepts (at BeginValue k) r" "length k \<le> max_nesting" for k r
    using 1 that by blast
  have ih_elems: "elems_at k r"
    if "length r < length src" "accepts (at BeginValue (ParseArrayValue # k)) r" "length k < max_nesting" for k r
    using 1 that by blast
  have ih_fields: "fields_at k r"
    if "length r < length src" "accepts (at BeginString (ParseObjectKey # k)) r" "length k < max_nesting" for k r
    using 1 that by blast
  have vals: "value_at k src" if v: "accepts (at BeginValue k) src" "length k \<le> max_nesting" for k
  proof -
    obtain a c r where c: "src = a @ c # r" "spaces a" "\<not> json_space c" "accepts (at BeginValue k) (c # r)"
      using accepts_spaces_at [OF v(1)] by blast
    then have r: "length r < length src" by simp
    from accepts_begin [OF c(4,3)] show ?thesis
    proof (elim disjE conjE)
      assume "c = CHR ''{''" and k: "length k < max_nesting" and o: "accepts (at BeginStringOrEmpty (ParseObjectKey # k)) r"
      with accepts_object [OF o k c(2) ih_fields [OF r _ k]] c(1) show ?thesis by simp
    next
      assume "c = CHR ''[''" and k: "length k < max_nesting" and o: "accepts (at BeginValueOrEmpty (ParseArrayValue # k)) r"
      with accepts_array [OF o k c(2) ih_elems [OF r _ k]] c(1) show ?thesis by simp
    next
      assume "scalar k (c # r)"
      from scalar_value [OF this c(2) v(2)] show ?thesis by (simp only: c(1))
    qed
  qed
  have elems: "elems_at k src"
    if e: "accepts (at BeginValue (ParseArrayValue # k)) src" "length k < max_nesting" for k
  proof (rule elems_from)
    show "value_at (ParseArrayValue # k) src" using e(2) by (intro vals [OF e(1)]) simp
  qed (use ih_elems e(2) in blast)
  have fields: "fields_at k src"
    if f: "accepts (at BeginString (ParseObjectKey # k)) src" "length k < max_nesting" for k
  proof (rule fields_from [OF f(1)])
    show "value_at (ParseObjectValue # k) r"
      if "length r < length src" "accepts (at BeginValue (ParseObjectValue # k)) r" for r
      using ih_value [OF that] f(2) by simp
  qed (use ih_fields f(2) in blast)
  from vals elems fields show ?case by blast
qed

section \<open>Properties\<close>

lemma compact_accepts: "snd (CompactJSONString s) = None \<longleftrightarrow> accepts (at BeginValue []) s"
  using Compact_emit [of s] by (simp add: accepts_def new_scanner_def at_def)

lemma compact_text:
  assumes "json_ok d" and "depth d \<le> max_nesting" and "spaces a" and "spaces b"
  shows "CompactJSONString (a @ json_text d @ b) = (json_text (strip d), None)"
proof -
  have "reach (at BeginValue []) (a @ json_text d @ b) (after []) (json_text (strip d))"
    using reach_padded [OF reach_json(1) [OF assms(1)] assms(3,4), of "[]"] assms(2) by simp
  then show ?thesis
    using Compact_emit [of "a @ json_text d @ b"] by (auto simp: reach_def new_scanner_def at_def)
qed

text \<open>
  C37: the compaction of JSON accepts exactly the JSON texts whose arrays and objects are nested at
  most 10000 deep, whatever white space they have, and gives such a text without that white
  space, its strings, numbers and words untouched; anything else is given back as it is, with an
  error.\<close>
theorem CompactJSONString_exact:
  "(snd (CompactJSONString s) = None \<longleftrightarrow>
     (\<exists>a d b. s = a @ json_text d @ b \<and> spaces a \<and> json_ok d \<and> spaces b \<and> depth d \<le> max_nesting)) \<and>
   (snd (CompactJSONString s) \<noteq> None \<longrightarrow> fst (CompactJSONString s) = s) \<and>
   (json_ok d \<and> depth d \<le> max_nesting \<and> spaces a \<and> spaces b \<longrightarrow>
     CompactJSONString (a @ json_text d @ b) = (json_text (strip d), None))"
proof (intro conjI impI iffI)
  assume "snd (CompactJSONString s) = None"
  then have "value_at [] s" using accepts_parts [of s] by (simp add: compact_accepts)
  then show "\<exists>a d b. s = a @ json_text d @ b \<and> spaces a \<and> json_ok d \<and> spaces b \<and> depth d \<le> max_nesting"
    unfolding value_at_def using accepts_top by auto
next
  assume "\<exists>a d b. s = a @ json_text d @ b \<and> spaces a \<and> json_ok d \<and> spaces b \<and> depth d \<le> max_nesting"
  then show "snd (CompactJSONString s) = None" using compact_text by auto
next
  assume "snd (CompactJSONString s) \<noteq> None"
  then show "fst (CompactJSONString s) = s"
    by (auto simp: CompactJSONString_def split: sum.splits)
next
  assume "json_ok d \<and> depth d \<le> max_nesting \<and> spaces a \<and> spaces b"
  then show "CompactJSONString (a @ json_text d @ b) = (json_text (strip d), None)"
    by (simp add: compact_text)
qed

theorem CompactJSONString_exact_witness:
  "CompactJSONString ''{ \"a\": [1, true]} '' = (''{\"a\":[1,true]}'', None)"
proof -
  let ?d = "Obj (LastField '' '' ''a'' [] '' '' (Arr (Elem [] (Num False ''1'' None None) [] (LastElem '' '' (Lit ''true'') []))) [])"
  have "json_ok ?d \<and> depth ?d \<le> max_nesting \<and> spaces [] \<and> spaces '' ''"
    by (simp add: json_space_def num_ok_def int_ok_def frac_ok_def exp_ok_def one_to_nine_def code_def max_nesting_def)
  with CompactJSONString_exact [of "[]" ?d "[]" "'' ''"]
  have "CompactJSONString ([] @ json_text ?d @ '' '') = (json_text (strip ?d), None)" by blast
  then show ?thesis by (simp add: quoted_def num_text_def frac_text_def exp_text_def)
qed

text \<open>
  Compaction is stable: compacting the text that was given back, compacted or not, gives the
  same text and the same error once more.\<close>
theorem CompactJSONString_stable:
  "CompactJSONString (fst (CompactJSONString s)) = CompactJSONString s"
proof (cases "snd (CompactJSONString s)")
  case None
  then obtain t out where t: "emit new_scanner s = Some (t, out)" "sc_endTop (settle t)"
    using Compact_emit [of s] by blast
  obtain u where "emit new_scanner out = Some (u, out)" "settle u = settle t"
    using emit_again [OF t(1)] by blast
  with t Compact_emit [of s] Compact_emit [of out] show ?thesis by simp
next
  case (Some e)
  then have "fst (CompactJSONString s) = s" by (auto simp: CompactJSONString_def split: sum.splits)
  then show ?thesis by simp
qed

end
