(* ===== verification/NetUrl.thy ===== *)
theory NetUrl
  imports GoLib
begin

text \<open>
  \<open>net/url\<close> as far as \<open>UpdateURL\<close> of the MinIO package (\<open>helper.go\<close>) uses it: \<open>Parse\<close>, which takes a URL
  apart, and \<open>String\<close>, which puts one together. Both follow the library's own code. The errors
  are told apart by their cause; their texts are not modelled.
\<close>

section \<open>Escapes\<close>

datatype url_error =
    InvalidControlCharacter | MissingProtocolScheme | ColonInFirstSegment | InvalidUserinfo
  | MissingBracket | InvalidPort string | EscapeError string | InvalidHostError string

text \<open>\<open>Esc m\<close> is one of the modes of \<open>GoLib\<close>; the zone of an address and the fragment have their own.\<close>

datatype esc_mode = Esc url_mode | EscZone | EscFragment

definition fragment_escape :: "char \<Rightarrow> bool" where
  "fragment_escape c \<longleftrightarrow> \<not> (alphanum c \<or> c \<in> set ''-_.~'' \<or> c \<in> set ''$&+,/:;=?@'' \<or> c \<in> set ''!()*'')"

fun must_escape :: "esc_mode \<Rightarrow> char \<Rightarrow> bool" where
  "must_escape (Esc m) c = should_escape c m"
| "must_escape EscZone c = should_escape c EncodeHost"
| "must_escape EscFragment c = fragment_escape c"

definition hex_value :: "char \<Rightarrow> nat option" where
  "hex_value c =
     (case digit_value c of Some d \<Rightarrow> if d < 16 then Some d else None | None \<Rightarrow> None)"

text \<open>\<open>unescape\<close>: in a host only bytes above 127 and the percent sign may be escaped.\<close>

definition escape_allowed :: "esc_mode \<Rightarrow> nat \<Rightarrow> char \<Rightarrow> char \<Rightarrow> bool" where
  "escape_allowed m v a b =
     (case m of
        Esc EncodeHost \<Rightarrow> 128 \<le> v \<or> (a = CHR ''2'' \<and> b = CHR ''5'')
      | EscZone \<Rightarrow> (a = CHR ''2'' \<and> b = CHR ''5'') \<or> v = 32 \<or> \<not> must_escape (Esc EncodeHost) (char_of v)
      | _ \<Rightarrow> True)"

fun unescape :: "esc_mode \<Rightarrow> string \<Rightarrow> url_error + string" where
  "unescape m [] = Inr []"
| "unescape m (c # s) =
     (if c = CHR ''%'' then
        (case s of
           a # b # t \<Rightarrow>
             (case (hex_value a, hex_value b) of
                (Some x, Some y) \<Rightarrow>
                  if escape_allowed m (16 * x + y) a b then
                    (case unescape m t of Inl e \<Rightarrow> Inl e | Inr u \<Rightarrow> Inr (char_of (16 * x + y) # u))
                  else Inl (EscapeError [c, a, b])
              | _ \<Rightarrow> Inl (EscapeError [c, a, b]))
         | _ \<Rightarrow> Inl (EscapeError (c # s)))
      else if m \<in> {Esc EncodeHost, EscZone} \<and> code c < 128 \<and> must_escape m c
        then Inl (InvalidHostError [c])
      else (case unescape m s of
              Inl e \<Rightarrow> Inl e
            | Inr u \<Rightarrow> Inr ((if m = Esc EncodeQueryComponent \<and> c = CHR ''+'' then CHR '' '' else c) # u)))"

definition escape_with :: "esc_mode \<Rightarrow> string \<Rightarrow> string" where
  "escape_with m s = concat (map (\<lambda>c.
     if c = CHR '' '' \<and> m = Esc EncodeQueryComponent then ''+''
     else if must_escape m c then [CHR ''%'', hex_digit (code c div 16), hex_digit (code c mod 16)]
     else [c]) s)"

definition valid_encoded :: "esc_mode \<Rightarrow> string \<Rightarrow> bool" where
  "valid_encoded m s =
     list_all (\<lambda>c. c \<in> set ''!$&()*+,;=:@[]%'' \<or> c = CHR 0x27 \<or> \<not> must_escape m c) s"

section \<open>The parts of a URL\<close>

record full_url =
  fu_Scheme :: string
  fu_Opaque :: string
  fu_User :: "(string \<times> string option) option"
  fu_Host :: string
  fu_Path :: string
  fu_RawPath :: string
  fu_OmitHost :: bool
  fu_ForceQuery :: bool
  fu_RawQuery :: string
  fu_Fragment :: string
  fu_RawFragment :: string

definition zero_url :: full_url where
  "zero_url = \<lparr>fu_Scheme = [], fu_Opaque = [], fu_User = None, fu_Host = [], fu_Path = [], fu_RawPath = [],
     fu_OmitHost = False, fu_ForceQuery = False, fu_RawQuery = [], fu_Fragment = [], fu_RawFragment = []\<rparr>"

text \<open>\<open>strings.Cut\<close> at a separator of one byte.\<close>

definition cut :: "char \<Rightarrow> string \<Rightarrow> string \<times> string" where
  "cut c s = (takeWhile (\<lambda>x. x \<noteq> c) s, drop 1 (dropWhile (\<lambda>x. x \<noteq> c) s))"

section \<open>Parse\<close>

definition letter :: "char \<Rightarrow> bool" where
  "letter c \<longleftrightarrow> 97 \<le> code c \<and> code c \<le> 122 \<or> 65 \<le> code c \<and> code c \<le> 90"

definition digit :: "char \<Rightarrow> bool" where
  "digit c \<longleftrightarrow> 48 \<le> code c \<and> code c \<le> 57"

text \<open>\<open>getScheme\<close>: the bytes read so far, and the rest.\<close>

fun scheme_from :: "string \<Rightarrow> string \<Rightarrow> string \<Rightarrow> url_error + string \<times> string" where
  "scheme_from raw got [] = Inr ([], raw)"
| "scheme_from raw got (c # s) =
     (if letter c then scheme_from raw (got @ [c]) s
      else if digit c \<or> c \<in> set ''+-.'' then
        (if got = [] then Inr ([], raw) else scheme_from raw (got @ [c]) s)
      else if c = CHR '':'' then (if got = [] then Inl MissingProtocolScheme else Inr (got, s))
      else Inr ([], raw))"

definition getScheme :: "string \<Rightarrow> url_error + string \<times> string" where
  "getScheme rawURL = scheme_from rawURL [] rawURL"

definition ascii_lower :: "string \<Rightarrow> string" where
  "ascii_lower s = map (\<lambda>c. if 65 \<le> code c \<and> code c \<le> 90 then char_of (code c + 32) else c) s"

definition validUserinfo :: "string \<Rightarrow> bool" where
  "validUserinfo s =
     list_all (\<lambda>c. letter c \<or> digit c \<or> c \<in> set ''-._:~!$&()*+,;=%@'' \<or> c = CHR 0x27) s"

definition validOptionalPort :: "string \<Rightarrow> bool" where
  "validOptionalPort port = (case port of [] \<Rightarrow> True | c # ds \<Rightarrow> c = CHR '':'' \<and> list_all digit ds)"

text \<open>\<open>from_last c s\<close>: the last occurrence of \<open>c\<close> and what follows it, if there is one.\<close>

definition before_last :: "char \<Rightarrow> string \<Rightarrow> string" where
  "before_last c s = rev (drop 1 (dropWhile (\<lambda>x. x \<noteq> c) (rev s)))"

definition after_last :: "char \<Rightarrow> string \<Rightarrow> string" where
  "after_last c s = rev (takeWhile (\<lambda>x. x \<noteq> c) (rev s))"

fun zone_split :: "string \<Rightarrow> string \<Rightarrow> (string \<times> string) option" where
  "zone_split pre [] = None"
| "zone_split pre (c # s) =
     (if prefix ''%25'' (c # s) then Some (pre, c # s) else zone_split (pre @ [c]) s)"

definition parseHost :: "string \<Rightarrow> url_error + string" where
  "parseHost host =
     (if prefix ''['' host then
        (if CHR '']'' \<notin> set host then Inl MissingBracket
         else
           (let inside = before_last CHR '']'' host; colonPort = after_last CHR '']'' host in
            if \<not> validOptionalPort colonPort then Inl (InvalidPort colonPort)
            else (case zone_split [] inside of
                None \<Rightarrow> unescape (Esc EncodeHost) host
              | Some (pre, zone) \<Rightarrow>
                  (case unescape (Esc EncodeHost) pre of Inl e \<Rightarrow> Inl e
                   | Inr h1 \<Rightarrow> (case unescape EscZone zone of Inl e \<Rightarrow> Inl e
                   | Inr h2 \<Rightarrow> (case unescape (Esc EncodeHost) ('']'' @ colonPort) of Inl e \<Rightarrow> Inl e
                   | Inr h3 \<Rightarrow> Inr (h1 @ h2 @ h3)))))))
      else if CHR '':'' \<in> set host \<and> \<not> validOptionalPort ('':'' @ after_last CHR '':'' host)
        then Inl (InvalidPort ('':'' @ after_last CHR '':'' host))
      else unescape (Esc EncodeHost) host)"

definition parseUser :: "string \<Rightarrow> url_error + (string \<times> string option)" where
  "parseUser userinfo =
     (if \<not> validUserinfo userinfo then Inl InvalidUserinfo
      else if CHR '':'' \<notin> set userinfo then
        (case unescape (Esc EncodeUserPassword) userinfo of Inl e \<Rightarrow> Inl e | Inr u \<Rightarrow> Inr (u, None))
      else
        (let (username, password) = cut CHR '':'' userinfo in
         case unescape (Esc EncodeUserPassword) username of Inl e \<Rightarrow> Inl e
         | Inr u \<Rightarrow> (case unescape (Esc EncodeUserPassword) password of Inl e \<Rightarrow> Inl e
         | Inr p \<Rightarrow> Inr (u, Some p))))"

definition parseAuthority :: "string \<Rightarrow> url_error + (string \<times> string option) option \<times> string" where
  "parseAuthority authority =
     (if CHR ''@'' \<notin> set authority then
        (case parseHost authority of Inl e \<Rightarrow> Inl e | Inr h \<Rightarrow> Inr (None, h))
      else
        (case parseHost (after_last CHR ''@'' authority) of Inl e \<Rightarrow> Inl e
         | Inr h \<Rightarrow> (case parseUser (before_last CHR ''@'' authority) of Inl e \<Rightarrow> Inl e
         | Inr u \<Rightarrow> Inr (Some u, h))))"

definition setPath :: "full_url \<Rightarrow> string \<Rightarrow> url_error + full_url" where
  "setPath u p =
     (case unescape (Esc EncodePath) p of
        Inl e \<Rightarrow> Inl e
      | Inr path \<Rightarrow> Inr (u\<lparr>fu_Path := path,
          fu_RawPath := if p = escape_with (Esc EncodePath) path then [] else p\<rparr>))"

definition setFragment :: "full_url \<Rightarrow> string \<Rightarrow> url_error + full_url" where
  "setFragment u f =
     (case unescape EscFragment f of
        Inl e \<Rightarrow> Inl e
      | Inr frag \<Rightarrow> Inr (u\<lparr>fu_Fragment := frag,
          fu_RawFragment := if f = escape_with EscFragment frag then [] else f\<rparr>))"

definition with_query :: "full_url \<Rightarrow> string \<Rightarrow> full_url \<times> string" where
  "with_query u rest =
     (if rest \<noteq> [] \<and> last rest = CHR ''?'' \<and> CHR ''?'' \<notin> set (butlast rest)
      then (u\<lparr>fu_ForceQuery := True\<rparr>, butlast rest)
      else (u\<lparr>fu_RawQuery := snd (cut CHR ''?'' rest)\<rparr>, fst (cut CHR ''?'' rest)))"

definition parse_rest :: "full_url \<Rightarrow> string \<Rightarrow> url_error + full_url" where
  "parse_rest u rest =
     (if \<not> prefix ''/'' rest \<and> fu_Scheme u \<noteq> [] then Inr (u\<lparr>fu_Opaque := rest\<rparr>)
      else if \<not> prefix ''/'' rest \<and> CHR '':'' \<in> set (fst (cut CHR ''/'' rest)) then Inl ColonInFirstSegment
      else if (fu_Scheme u \<noteq> [] \<or> \<not> prefix ''///'' rest) \<and> prefix ''//'' rest then
        (let authority = takeWhile (\<lambda>c. c \<noteq> CHR ''/'') (drop 2 rest);
             path = dropWhile (\<lambda>c. c \<noteq> CHR ''/'') (drop 2 rest)
         in case parseAuthority authority of
              Inl e \<Rightarrow> Inl e
            | Inr (user, host) \<Rightarrow> setPath (u\<lparr>fu_User := user, fu_Host := host\<rparr>) path)
      else setPath (u\<lparr>fu_OmitHost := fu_Scheme u \<noteq> [] \<and> prefix ''/'' rest\<rparr>) rest)"

definition parse_url :: "string \<Rightarrow> url_error + full_url" where
  "parse_url rawURL =
     (if list_ex (\<lambda>c. code c < 32 \<or> code c = 127) rawURL then Inl InvalidControlCharacter
      else if rawURL = ''*'' then Inr (zero_url\<lparr>fu_Path := ''*''\<rparr>)
      else (case getScheme rawURL of
          Inl e \<Rightarrow> Inl e
        | Inr (scheme, rest) \<Rightarrow>
            (let (u, rest1) = with_query (zero_url\<lparr>fu_Scheme := ascii_lower scheme\<rparr>) rest
             in parse_rest u rest1)))"

definition url_Parse :: "string \<Rightarrow> url_error + full_url" where
  "url_Parse rawURL =
     (let (u, frag) = cut CHR ''#'' rawURL in
      case parse_url u of
        Inl e \<Rightarrow> Inl e
      | Inr url \<Rightarrow> if frag = [] then Inr url else setFragment url frag)"

section \<open>String\<close>

definition escaped :: "esc_mode \<Rightarrow> string \<Rightarrow> string \<Rightarrow> string" where
  "escaped m raw plain =
     (if raw \<noteq> [] \<and> valid_encoded m raw \<and> unescape m raw = Inr plain then raw
      else if m = Esc EncodePath \<and> plain = ''*'' then ''*''
      else escape_with m plain)"

definition user_text :: "string \<times> string option \<Rightarrow> string" where
  "user_text u =
     escape_with (Esc EncodeUserPassword) (fst u) @
     (case snd u of None \<Rightarrow> [] | Some p \<Rightarrow> '':'' @ escape_with (Esc EncodeUserPassword) p)"

definition authority_text :: "full_url \<Rightarrow> string" where
  "authority_text u =
     (if fu_Scheme u = [] \<and> fu_Host u = [] \<and> fu_User u = None then []
      else if fu_OmitHost u \<and> fu_Host u = [] \<and> fu_User u = None then []
      else (if fu_Host u \<noteq> [] \<or> fu_Path u \<noteq> [] \<or> fu_User u \<noteq> None then ''//'' else []) @
        (case fu_User u of None \<Rightarrow> [] | Some w \<Rightarrow> user_text w @ ''@'') @
        (if fu_Host u \<noteq> [] then escape_with (Esc EncodeHost) (fu_Host u) else []))"

definition url_String :: "full_url \<Rightarrow> string" where
  "url_String u =
     (let scheme = (if fu_Scheme u \<noteq> [] then fu_Scheme u @ '':'' else []);
          path = escaped (Esc EncodePath) (fu_RawPath u) (fu_Path u);
          front = scheme @ authority_text u;
          slash = (if path \<noteq> [] \<and> \<not> prefix ''/'' path \<and> fu_Host u \<noteq> [] then ''/'' else []);
          dot = (if front @ slash = [] \<and> CHR '':'' \<in> set (fst (cut CHR ''/'' path)) then ''./'' else [])
      in (if fu_Opaque u \<noteq> [] then scheme @ fu_Opaque u else front @ slash @ dot @ path) @
         (if fu_ForceQuery u \<or> fu_RawQuery u \<noteq> [] then ''?'' @ fu_RawQuery u else []) @
         (if fu_Fragment u \<noteq> [] then ''#'' @ escaped EscFragment (fu_RawFragment u) (fu_Fragment u) else []))"

section \<open>Plain text\<close>

text \<open>Bytes that no part of a URL escapes or splits at.\<close>

definition plain :: "char \<Rightarrow> bool" where
  "plain c \<longleftrightarrow> alphanum c \<or> c \<in> set ''-_.~''"

definition plain_path :: "char \<Rightarrow> bool" where
  "plain_path c \<longleftrightarrow> plain c \<or> c = CHR ''/''"

lemma plain_code: "plain c \<Longrightarrow> 45 \<le> code c \<and> code c < 127 \<and> code c \<noteq> 47 \<and> code c \<noteq> 58 \<and> code c \<noteq> 63 \<and> code c \<noteq> 64 \<and>
  code c \<noteq> 91 \<and> code c \<noteq> 93"
  by (auto simp: plain_def alphanum_def code_def)

lemma code_marks [simp]:
  "code CHR ''%'' = 37" "code CHR ''?'' = 63" "code CHR ''#'' = 35" "code CHR '':'' = 58" "code CHR ''@'' = 64"
  "code CHR ''['' = 91" "code CHR '']'' = 93" "code CHR ''*'' = 42" "code CHR ''/'' = 47" "code CHR ''+'' = 43"
  by (simp_all add: code_def)

lemma plain_path_not_marks:
  assumes "plain_path c"
  shows "c \<noteq> CHR ''%''" "c \<noteq> CHR ''?''" "c \<noteq> CHR ''#''" "c \<noteq> CHR '':''" "c \<noteq> CHR ''@''" "32 \<le> code c \<and> code c < 127"
  using assms plain_code [of c] by (auto simp: plain_path_def)

lemma plain_not_marks:
  assumes "plain c"
  shows "c \<noteq> CHR ''%''" "c \<noteq> CHR ''?''" "c \<noteq> CHR ''#''" "c \<noteq> CHR '':''" "c \<noteq> CHR ''@''"
    "c \<noteq> CHR ''/''" "c \<noteq> CHR ''[''" "32 \<le> code c \<and> code c < 127"
  using plain_code [OF assms] by auto

lemma plain_no_escape: "plain c \<Longrightarrow> \<not> should_escape c m"
  by (auto simp: plain_def should_escape_def)

lemma plain_path_no_escape: "plain_path c \<Longrightarrow> \<not> should_escape c EncodePath"
proof (cases "plain c")
  case False
  moreover assume "plain_path c"
  ultimately have "c = CHR ''/''" by (simp add: plain_path_def)
  then show ?thesis by (simp add: should_escape_def)
qed (rule plain_no_escape)

lemma unescape_plain: "list_all plain_path s \<Longrightarrow> unescape (Esc EncodePath) s = Inr s"
  by (induction s) (simp_all add: plain_path_not_marks)

lemma escape_plain: "list_all plain_path s \<Longrightarrow> escape_with (Esc EncodePath) s = s"
  by (induction s) (simp_all add: escape_with_def plain_path_no_escape)

lemma unescape_host: "list_all plain s \<Longrightarrow> unescape (Esc EncodeHost) s = Inr s"
  by (induction s) (simp_all add: plain_not_marks plain_no_escape)

lemma escape_host: "list_all plain s \<Longrightarrow> escape_with (Esc EncodeHost) s = s"
  by (induction s) (simp_all add: escape_with_def plain_no_escape)

lemma letters_scheme:
  "list_all letter s \<Longrightarrow> got @ s \<noteq> [] \<Longrightarrow> scheme_from raw got (s @ CHR '':'' # rest) = Inr (got @ s, rest)"
  by (induction s arbitrary: got) (auto simp: letter_def digit_def code_def)

lemma byte_absent: "list_all P s \<Longrightarrow> \<not> P c \<Longrightarrow> c \<notin> set s"
  by (auto simp: list_all_iff)

lemma marks_not_plain [simp]:
  "\<not> plain CHR ''#''" "\<not> plain CHR ''?''" "\<not> plain CHR '':''" "\<not> plain CHR ''@''" "\<not> plain CHR ''[''"
  "\<not> plain_path CHR ''#''" "\<not> plain_path CHR ''?''" "\<not> letter CHR ''#''" "\<not> letter CHR ''?''" "\<not> letter CHR ''*''"
  by (simp_all add: plain_path_def plain_def alphanum_def letter_def)

lemma takeWhile_plain: "list_all plain s \<Longrightarrow> takeWhile (\<lambda>c. c \<noteq> CHR ''/'') (s @ CHR ''/'' # t) = s \<and>
  dropWhile (\<lambda>c. c \<noteq> CHR ''/'') (s @ CHR ''/'' # t) = CHR ''/'' # t"
  by (induction s) (simp_all add: plain_not_marks)

lemma absent_takeWhile: "list_all (\<lambda>x. x \<noteq> c) s \<Longrightarrow> takeWhile (\<lambda>x. x \<noteq> c) s = s \<and> dropWhile (\<lambda>x. x \<noteq> c) s = []"
  by (induction s) simp_all

lemma cut_absent: "c \<notin> set s \<Longrightarrow> cut c s = (s, [])"
proof -
  assume "c \<notin> set s"
  then have "list_all (\<lambda>x. x \<noteq> c) s" by (auto simp: list_all_iff)
  from absent_takeWhile [OF this] show ?thesis by (simp only: cut_def drop_Nil)
qed

lemma cut_present: "c \<notin> set s \<Longrightarrow> cut c (s @ c # t) = (s, t)"
  by (induction s) (auto simp: cut_def)

section \<open>UpdateURL\<close>

text \<open>The platform of the build, \<open>runtime.GOOS\<close> and \<open>runtime.GOARCH\<close>, is an argument.\<close>

definition DefaultMinIOUpdateURL :: "string \<Rightarrow> string \<Rightarrow> string" where
  "DefaultMinIOUpdateURL goos goarch =
     ''https://dl.min.io/server/minio/release/'' @ goos @ ''-'' @ goarch @ ''/archive/''"

definition UpdateURL :: "string \<Rightarrow> string \<Rightarrow> string \<Rightarrow> string \<Rightarrow> url_error + string" where
  "UpdateURL goos goarch ltag overrideURL =
     (let override = (if overrideURL = [] then DefaultMinIOUpdateURL goos goarch else overrideURL) in
      case url_Parse override of
        Inl err \<Rightarrow> Inl err
      | Inr u \<Rightarrow>
          Inr (url_String (u\<lparr>fu_Path := fu_Path u @ ''/minio.'' @ ltag @ ''.sha256sum''\<rparr>)))"

lemma no_control: "list_all (\<lambda>c. 32 \<le> code c \<and> code c < 127) s \<Longrightarrow> \<not> list_ex (\<lambda>c. code c < 32 \<or> code c = 127) s"
  by (induction s) auto

lemma letter_plain: "list_all letter s \<Longrightarrow> list_all plain s"
  by (induction s) (auto simp: letter_def plain_def alphanum_def)

lemma letter_not_marks: "letter c \<Longrightarrow> c \<noteq> CHR ''#'' \<and> c \<noteq> CHR ''*'' \<and> 32 \<le> code c \<and> code c < 127"
  by (auto simp: letter_def)

text \<open>A URL with a scheme, a host and a path without anything special, taken apart.\<close>

definition plain_url :: "string \<Rightarrow> string \<Rightarrow> string \<Rightarrow> bool" where
  "plain_url scheme host path \<longleftrightarrow>
     scheme \<noteq> [] \<and> list_all letter scheme \<and> list_all plain host \<and> list_all plain_path path"

definition url_body :: "string \<Rightarrow> string \<Rightarrow> string" where
  "url_body host path = ''//'' @ host @ ''/'' @ path"

lemma body_no_marks:
  assumes "plain_url scheme host path" and "x \<in> {CHR ''#'', CHR ''?''}"
  shows "x \<notin> set (url_body host path)" "x \<notin> set scheme"
  using assms byte_absent [of plain host x] byte_absent [of plain_path path x] byte_absent [of letter scheme x]
  by (auto simp: plain_url_def url_body_def)

lemma body_bytes:
  "plain_url scheme host path \<Longrightarrow> list_all (\<lambda>c. 32 \<le> code c \<and> code c < 127) (scheme @ '':'' @ url_body host path)"
proof -
  have "list_all letter scheme \<Longrightarrow> list_all (\<lambda>c. 32 \<le> code c \<and> code c < 127) scheme"
    "list_all plain host \<Longrightarrow> list_all (\<lambda>c. 32 \<le> code c \<and> code c < 127) host"
    "list_all plain_path path \<Longrightarrow> list_all (\<lambda>c. 32 \<le> code c \<and> code c < 127) path"
    by (erule list.pred_mono_strong; simp add: letter_not_marks plain_not_marks plain_path_not_marks)+
  then show "plain_url scheme host path \<Longrightarrow> list_all (\<lambda>c. 32 \<le> code c \<and> code c < 127) (scheme @ '':'' @ url_body host path)"
    by (simp add: plain_url_def url_body_def)
qed

lemma parse_host_plain:
  assumes "list_all plain host"
  shows "parseAuthority host = Inr (None, host)"
proof -
  have "CHR ''@'' \<notin> set host" "CHR '':'' \<notin> set host" "\<not> prefix ''['' host"
    using byte_absent [OF assms, of "CHR ''@''"] byte_absent [OF assms, of "CHR '':''"] byte_absent [OF assms, of "CHR ''[''"]
    by (auto simp: prefix_def)
  then show ?thesis by (simp add: parseAuthority_def parseHost_def unescape_host assms)
qed

lemma parse_rest_plain:
  assumes "plain_url scheme host path" and "fu_Scheme u \<noteq> []"
  shows "parse_rest u (url_body host path) = Inr (u\<lparr>fu_User := None, fu_Host := host, fu_Path := ''/'' @ path, fu_RawPath := []\<rparr>)"
proof -
  have "list_all plain host" "list_all plain_path (''/'' @ path)"
    using assms(1) by (simp_all add: plain_url_def plain_path_def)
  with takeWhile_plain [of host path] assms(2) show ?thesis
    by (simp add: parse_rest_def url_body_def parse_host_plain setPath_def unescape_plain escape_plain
        del: unescape.simps)
qed

lemma parse_plain:
  assumes "plain_url scheme host path" and "list_all (\<lambda>c. c \<noteq> CHR ''#'' \<and> 32 \<le> code c \<and> code c < 127) query"
    and "tail = [] \<and> query = [] \<or> tail = ''?'' @ query \<and> query \<noteq> []"
  shows "url_Parse (scheme @ '':'' @ url_body host path @ tail) =
    Inr (zero_url\<lparr>fu_Scheme := ascii_lower scheme, fu_Host := host, fu_Path := ''/'' @ path, fu_RawQuery := query\<rparr>)"
proof -
  let ?t = "scheme @ '':'' @ url_body host path @ tail"
  have ok: "scheme \<noteq> []" "list_all letter scheme" using assms(1) by (simp_all add: plain_url_def)
  have "CHR ''#'' \<notin> set ?t"
    using body_no_marks [OF assms(1), of "CHR ''#''"] byte_absent [OF assms(2), of "CHR ''#''"] assms(3)
    by auto
  then have cut: "cut CHR ''#'' ?t = (?t, [])" by (rule cut_absent)
  have "list_all (\<lambda>c. 32 \<le> code c \<and> code c < 127) ?t"
    using body_bytes [OF assms(1)] list.pred_mono_strong [OF assms(2)] assms(3) by auto
  then have ctl: "\<not> list_ex (\<lambda>c. code c < 32 \<or> code c = 127) ?t" by (rule no_control)
  have star: "?t \<noteq> ''*''" using ok by (cases scheme) (auto dest: letter_not_marks)
  have scheme: "getScheme ?t = Inr (scheme, url_body host path @ tail)"
    using letters_scheme [of scheme "[]"] ok by (simp add: getScheme_def)
  have rest: "parse_rest (zero_url\<lparr>fu_Scheme := ascii_lower scheme, fu_RawQuery := query\<rparr>) (url_body host path) =
      Inr (zero_url\<lparr>fu_Scheme := ascii_lower scheme, fu_Host := host, fu_Path := ''/'' @ path, fu_RawQuery := query\<rparr>)"
    using parse_rest_plain [OF assms(1), of "zero_url\<lparr>fu_Scheme := ascii_lower scheme, fu_RawQuery := query\<rparr>"] ok
    by (simp add: zero_url_def ascii_lower_def)
  have no: "CHR ''?'' \<notin> set (url_body host path)" using body_no_marks [OF assms(1)] by simp
  have query: "with_query (zero_url\<lparr>fu_Scheme := ascii_lower scheme\<rparr>) (url_body host path @ tail) =
      (zero_url\<lparr>fu_Scheme := ascii_lower scheme, fu_RawQuery := query\<rparr>, url_body host path)"
    using assms(3)
  proof
    assume t: "tail = [] \<and> query = []"
    have "\<not> (url_body host path \<noteq> [] \<and> last (url_body host path) = CHR ''?'')"
      using no last_in_set by force
    with t no show ?thesis by (auto simp: with_query_def cut_absent zero_url_def)
  next
    assume t: "tail = ''?'' @ query \<and> query \<noteq> []"
    then have "CHR ''?'' \<in> set (butlast (url_body host path @ tail))" by (simp add: butlast_append)
    with t no show ?thesis by (simp add: with_query_def cut_present zero_url_def)
  qed
  from cut ctl star scheme rest query show ?thesis
    by (simp only: url_Parse_def parse_url_def Let_def prod.case if_False sum.case if_True simp_thms)
qed

lemma string_plain:
  assumes "plain_url scheme host path" and "list_all plain_path ext"
  shows "url_String (zero_url\<lparr>fu_Scheme := ascii_lower scheme, fu_Host := host, fu_Path := (''/'' @ path) @ ext, fu_RawQuery := query\<rparr>) =
    ascii_lower scheme @ '':'' @ url_body host (path @ ext) @ (if query = [] then [] else ''?'' @ query)"
proof -
  have "list_all plain host" "list_all plain_path (''/'' @ path @ ext)" "ascii_lower scheme \<noteq> []"
    using assms by (simp_all add: plain_url_def plain_path_def ascii_lower_def)
  then show ?thesis
    by (simp add: url_String_def zero_url_def authority_text_def escaped_def escape_plain escape_host url_body_def)
qed

lemma update_plain:
  assumes "plain_url scheme host path" and "list_all plain ltag"
    and "list_all (\<lambda>c. c \<noteq> CHR ''#'' \<and> 32 \<le> code c \<and> code c < 127) query"
  shows "UpdateURL goos goarch ltag (scheme @ '':'' @ url_body host path @ (if query = [] then [] else ''?'' @ query)) =
    Inr (ascii_lower scheme @ '':'' @ url_body host (path @ ''/minio.'' @ ltag @ ''.sha256sum'') @
      (if query = [] then [] else ''?'' @ query))"
proof -
  let ?u = "zero_url\<lparr>fu_Scheme := ascii_lower scheme, fu_Host := host, fu_Path := ''/'' @ path, fu_RawQuery := query\<rparr>"
  let ?ext = "''/minio.'' @ ltag @ ''.sha256sum''"
  have parse: "url_Parse (scheme @ '':'' @ url_body host path @ (if query = [] then [] else ''?'' @ query)) = Inr ?u"
    using assms by (intro parse_plain) auto
  have "list_all plain_path ?ext"
    using assms(2) by (auto simp: list_all_iff plain_path_def plain_def alphanum_def code_def)
  from string_plain [OF assms(1) this, of query] parse show ?thesis
    by (simp add: UpdateURL_def Let_def zero_url_def)
qed

text \<open>
  C38: the update URL is the given one with the file name of the release at the end of its path, before
  the query, for a scheme of letters and a host and a path of plain bytes. Without a URL it is
  the one of the build's platform, and has an empty path element before the name. A URL whose
  path does not begin with a slash (a forgotten double slash) is given back without any
  release in it, and without an error.\<close>
theorem UpdateURL_result:
  assumes "plain_url scheme host path" and "list_all plain ltag"
    and "list_all (\<lambda>c. c \<noteq> CHR ''#'' \<and> 32 \<le> code c \<and> code c < 127) query"
    and "list_all plain goos" and "list_all plain goarch"
    and "list_all (\<lambda>c. c \<notin> set ''#?'' \<and> 32 \<le> code c \<and> code c < 127) rest" and "rest \<noteq> []" and "hd rest \<noteq> CHR ''/''"
  shows "UpdateURL goos goarch ltag (scheme @ '':'' @ url_body host path @ (if query = [] then [] else ''?'' @ query)) =
      Inr (ascii_lower scheme @ '':'' @ url_body host (path @ ''/minio.'' @ ltag @ ''.sha256sum'') @
        (if query = [] then [] else ''?'' @ query)) \<and>
    UpdateURL goos goarch ltag [] =
      Inr (''https://dl.min.io/server/minio/release/'' @ goos @ ''-'' @ goarch @ ''/archive//minio.'' @ ltag @ ''.sha256sum'') \<and>
    UpdateURL goos goarch ltag (scheme @ '':'' @ rest) = Inr (ascii_lower scheme @ '':'' @ rest)"
proof (intro conjI)
  have "plain_url ''https'' ''dl.min.io'' (''server/minio/release/'' @ goos @ ''-'' @ goarch @ ''/archive/'')"
    using assms(4,5) by (auto simp: plain_url_def letter_def plain_path_def plain_def alphanum_def code_def list_all_iff)
  from update_plain [OF this assms(2), of "[]" goos goarch]
  have "UpdateURL goos goarch ltag (DefaultMinIOUpdateURL goos goarch) =
      Inr (''https://dl.min.io/server/minio/release/'' @ goos @ ''-'' @ goarch @ ''/archive//minio.'' @ ltag @ ''.sha256sum'')"
    by (simp add: url_body_def DefaultMinIOUpdateURL_def ascii_lower_def code_def)
  moreover have "UpdateURL goos goarch ltag [] = UpdateURL goos goarch ltag (DefaultMinIOUpdateURL goos goarch)"
    by (simp add: UpdateURL_def Let_def)
  ultimately show "UpdateURL goos goarch ltag [] =
      Inr (''https://dl.min.io/server/minio/release/'' @ goos @ ''-'' @ goarch @ ''/archive//minio.'' @ ltag @ ''.sha256sum'')"
    by simp
next
  let ?t = "scheme @ '':'' @ rest"
  have ok: "scheme \<noteq> []" "list_all letter scheme" using assms(1) by (simp_all add: plain_url_def)
  have "CHR ''#'' \<notin> set ?t"
    using body_no_marks [OF assms(1), of "CHR ''#''"] byte_absent [OF assms(6), of "CHR ''#''"] by simp
  then have cut: "cut CHR ''#'' ?t = (?t, [])" by (rule cut_absent)
  have "list_all (\<lambda>c. 32 \<le> code c \<and> code c < 127) ?t"
    using body_bytes [OF assms(1)] list.pred_mono_strong [OF assms(6)] by auto
  then have ctl: "\<not> list_ex (\<lambda>c. code c < 32 \<or> code c = 127) ?t" by (rule no_control)
  have star: "?t \<noteq> ''*''" using ok by (cases scheme) (auto dest: letter_not_marks)
  have scheme: "getScheme ?t = Inr (scheme, rest)"
    using letters_scheme [of scheme "[]"] ok by (simp add: getScheme_def)
  have no: "CHR ''?'' \<notin> set rest" using assms(6) by (auto simp: list_all_iff)
  then have "last rest \<noteq> CHR ''?''" using assms(7) last_in_set by metis
  with no have query: "with_query (zero_url\<lparr>fu_Scheme := ascii_lower scheme\<rparr>) rest =
      (zero_url\<lparr>fu_Scheme := ascii_lower scheme\<rparr>, rest)"
    by (simp add: with_query_def cut_absent zero_url_def)
  have "\<not> prefix ''/'' rest" using assms(7,8) by (cases rest) auto
  then have "parse_rest (zero_url\<lparr>fu_Scheme := ascii_lower scheme\<rparr>) rest =
      Inr (zero_url\<lparr>fu_Scheme := ascii_lower scheme, fu_Opaque := rest\<rparr>)"
    using ok by (simp add: parse_rest_def zero_url_def ascii_lower_def)
  with cut ctl star scheme query
  have "url_Parse ?t = Inr (zero_url\<lparr>fu_Scheme := ascii_lower scheme, fu_Opaque := rest\<rparr>)"
    by (simp only: url_Parse_def parse_url_def Let_def prod.case if_False sum.case if_True simp_thms)
  then show "UpdateURL goos goarch ltag ?t = Inr (ascii_lower scheme @ '':'' @ rest)"
    using ok assms(7)
    by (simp add: UpdateURL_def Let_def url_String_def zero_url_def ascii_lower_def)
qed (rule update_plain [OF assms(1-3)])

theorem UpdateURL_result_witness:
  "UpdateURL ''linux'' ''amd64'' ''v1'' ''HTTPS://min.io/dl?a=1'' = Inr ''https://min.io/dl/minio.v1.sha256sum?a=1''"
proof -
  have "plain_url ''HTTPS'' ''min.io'' ''dl''"
    by (simp add: plain_url_def letter_def plain_path_def plain_def alphanum_def code_def)
  from UpdateURL_result [OF this, of "''v1''" "''a=1''" "''linux''" "''amd64''" "''x''"]
  have "UpdateURL ''linux'' ''amd64'' ''v1'' (''HTTPS'' @ '':'' @ url_body ''min.io'' ''dl'' @ ''?'' @ ''a=1'') =
      Inr (ascii_lower ''HTTPS'' @ '':'' @ url_body ''min.io'' (''dl'' @ ''/minio.'' @ ''v1'' @ ''.sha256sum'') @ ''?'' @ ''a=1'')"
    by (simp add: plain_def alphanum_def code_def)
  moreover have "ascii_lower ''HTTPS'' = ''https''" by (simp add: ascii_lower_def code_def char_of_eq_iff)
  ultimately show ?thesis by (simp add: url_body_def)
qed

end
