(* ===== verification/RestClient.thy ===== *)
theory RestClient
  imports External Drive Volume DirectPVNode
begin

text \<open>
  The generated clients of the API server: NineClusters (\<open>client/clientset\<close>), MinIO tenants and
  DirectPV's four kinds (\<open>tenant.go\<close>, \<open>directpvdrive.go\<close> and their siblings in the API packages), the
  four kinds of PostgreSQL (\<open>pkg/cloudnative-pg/client\<close>), with the group clients that are made
  from a configuration. The generator wrote the same nine methods for every kind; here they are
  written once, over the description of a kind, and each client is their instance.

  A method builds a request and hands it to the REST client of client-go, which is a parameter,
  as is the serializer that reads a reply into an object. A pointer that may be nil is an
  option: the generated methods return an object, empty if there was an error, and the error.
\<close>

section \<open>Requests\<close>

typedecl get_options

typedecl create_options

typedecl update_options

typedecl delete_options

typedecl patch_options

typedecl list_meta

record list_options =
  lo_LabelSelector :: string
  lo_FieldSelector :: string
  lo_Watch :: bool
  lo_ResourceVersion :: string
  lo_TimeoutSeconds :: "int64 option"
  lo_Limit :: int64

datatype verb = GetVerb | PostVerb | PutVerb | DeleteVerb | PatchVerb string

datatype query_params =
    NoParams
  | OfGet get_options
  | OfList list_options
  | OfCreate create_options
  | OfUpdate update_options
  | OfPatch patch_options

datatype 'd payload = NoBody | Doc 'd | OfDelete delete_options | Raw string

text \<open>What the calls of the request builder have set; a timeout of 0 is none.\<close>

record 'd rest_request =
  rq_Verb :: verb
  rq_Namespace :: "string option"
  rq_Resource :: string
  rq_Name :: "string option"
  rq_SubResource :: "string list"
  rq_Params :: query_params
  rq_Timeout :: int64
  rq_Body :: "'d payload"

datatype 'd reply = NoDoc | OneDoc 'd | ManyDocs list_meta "'d list"

record 'o object_list =
  ol_ListMeta :: "list_meta option"
  ol_Items :: "'o list"

typedecl watcher

record ('w, 'd) rest_interface =
  rest_Do :: "'d rest_request \<Rightarrow> ('w, 'd reply) io"
  rest_Watch :: "'d rest_request \<Rightarrow> ('w, watcher) io"

text \<open>
  The serializer: \<open>cd_Into\<close> reads a reply into an object that is there, and says whether it could.\<close>

record ('o, 'd) codec =
  cd_Encode :: "'o \<Rightarrow> 'd"
  cd_Into :: "'d reply \<Rightarrow> 'o \<Rightarrow> 'o \<times> go_error option"
  cd_IntoList :: "'d reply \<Rightarrow> 'o object_list \<Rightarrow> 'o object_list \<times> go_error option"

section \<open>The interface of a client\<close>

text \<open>\<open>TenantInterface\<close>, \<open>ClusterInterface\<close> and so on: the methods, over the kind of object.\<close>

record ('w, 'o) resource_interface =
  api_Create :: "'o option \<Rightarrow> create_options \<Rightarrow> ('w, 'o option \<times> go_error option) io"
  api_Update :: "'o option \<Rightarrow> update_options \<Rightarrow> ('w, 'o option \<times> go_error option) io"
  api_UpdateStatus :: "'o option \<Rightarrow> update_options \<Rightarrow> ('w, 'o option \<times> go_error option) io"
  api_Delete :: "string \<Rightarrow> delete_options \<Rightarrow> ('w, go_error option) io"
  api_DeleteCollection :: "delete_options \<Rightarrow> list_options \<Rightarrow> ('w, go_error option) io"
  api_Get :: "string \<Rightarrow> get_options \<Rightarrow> ('w, 'o option \<times> go_error option) io"
  api_List :: "list_options \<Rightarrow> ('w, 'o object_list option \<times> go_error option) io"
  api_Watch :: "list_options \<Rightarrow> ('w, watcher option \<times> go_error option) io"
  api_Patch :: "string \<Rightarrow> string \<Rightarrow> string \<Rightarrow> patch_options \<Rightarrow> string list \<Rightarrow>
    ('w, 'o option \<times> go_error option) io"

text \<open>A kind: the path element of its resource, the name of an object, the empty object.\<close>

record 'o kind_of_object =
  kd_Resource :: string
  kd_Name :: "'o \<Rightarrow> string"
  kd_Zero :: 'o

text \<open>The struct behind a client: a REST client, and a namespace if the kind has one.\<close>

record ('w, 'd) client_struct =
  cl_client :: "('w, 'd) rest_interface option"
  cl_ns :: "string option"

section \<open>The methods\<close>

definition nil_pointer :: string where
  "nil_pointer = ''invalid memory address or nil pointer dereference''"

definition new_request :: "verb \<Rightarrow> 'o kind_of_object \<Rightarrow> ('w, 'd) client_struct \<Rightarrow> 'd rest_request" where
  "new_request v k c =
     \<lparr>rq_Verb = v, rq_Namespace = cl_ns c, rq_Resource = kd_Resource k, rq_Name = None,
      rq_SubResource = [], rq_Params = NoParams, rq_Timeout = 0, rq_Body = NoBody\<rparr>"

text \<open>\<open>Do(ctx).Into(result)\<close> with an empty result, and \<open>Do(ctx).Error()\<close>.\<close>

definition do_into ::
  "('w, 'd) client_struct \<Rightarrow> 'd rest_request \<Rightarrow> ('d reply \<Rightarrow> 'r \<Rightarrow> 'r \<times> go_error option) \<Rightarrow> 'r \<Rightarrow>
     ('w, 'r option \<times> go_error option) io" where
  "do_into c rq into zero =
     (case cl_client c of
        None \<Rightarrow> io_panic nil_pointer
      | Some rest \<Rightarrow>
          io_bind (io_try (rest_Do rest rq)) (\<lambda>r.
            case r of
              Inl err \<Rightarrow> io_ret (Some zero, Some err)
            | Inr body \<Rightarrow> (let (res, err) = into body zero in io_ret (Some res, err))))"

definition do_error :: "('w, 'd) client_struct \<Rightarrow> 'd rest_request \<Rightarrow> ('w, go_error option) io" where
  "do_error c rq =
     (case cl_client c of
        None \<Rightarrow> io_panic nil_pointer
      | Some rest \<Rightarrow>
          io_bind (io_try (rest_Do rest rq)) (\<lambda>r.
            case r of Inl err \<Rightarrow> io_ret (Some err) | Inr _ \<Rightarrow> io_ret None))"

text \<open>\<open>time.Duration(*opts.TimeoutSeconds) * time.Second\<close>, in 64 bits.\<close>

definition timeout_of :: "list_options \<Rightarrow> int64" where
  "timeout_of opts =
     (case lo_TimeoutSeconds opts of None \<Rightarrow> 0 | Some s \<Rightarrow> s * 1000000000)"

definition body_of :: "('o, 'd) codec \<Rightarrow> 'o option \<Rightarrow> 'd payload" where
  "body_of K obj = (case obj of None \<Rightarrow> NoBody | Some x \<Rightarrow> Doc (cd_Encode K x))"

definition typed_Get where
  "typed_Get k K c name options =
     do_into c ((new_request GetVerb k c)\<lparr>rq_Name := Some name, rq_Params := OfGet options\<rparr>)
       (cd_Into K) (kd_Zero k)"

definition typed_List where
  "typed_List k K c opts =
     do_into c ((new_request GetVerb k c)\<lparr>rq_Params := OfList opts, rq_Timeout := timeout_of opts\<rparr>)
       (cd_IntoList K) \<lparr>ol_ListMeta = None, ol_Items = []\<rparr>"

definition typed_Watch where
  "typed_Watch k c opts =
     (case cl_client c of
        None \<Rightarrow> io_panic nil_pointer
      | Some rest \<Rightarrow>
          io_bind (io_try (rest_Watch rest ((new_request GetVerb k c)
            \<lparr>rq_Params := OfList (opts\<lparr>lo_Watch := True\<rparr>), rq_Timeout := timeout_of opts\<rparr>))) (\<lambda>r.
            case r of Inl err \<Rightarrow> io_ret (None, Some err) | Inr h \<Rightarrow> io_ret (Some h, None)))"

definition typed_Create where
  "typed_Create k K c obj opts =
     do_into c ((new_request PostVerb k c)\<lparr>rq_Params := OfCreate opts, rq_Body := body_of K obj\<rparr>)
       (cd_Into K) (kd_Zero k)"

text \<open>The name is read from the object: a nil one panics.\<close>

definition typed_Update where
  "typed_Update k K c obj opts =
     (case obj of
        None \<Rightarrow> io_panic nil_pointer
      | Some x \<Rightarrow>
          do_into c ((new_request PutVerb k c)\<lparr>rq_Name := Some (kd_Name k x), rq_Params := OfUpdate opts,
            rq_Body := body_of K obj\<rparr>) (cd_Into K) (kd_Zero k))"

definition typed_UpdateStatus where
  "typed_UpdateStatus k K c obj opts =
     (case obj of
        None \<Rightarrow> io_panic nil_pointer
      | Some x \<Rightarrow>
          do_into c ((new_request PutVerb k c)\<lparr>rq_Name := Some (kd_Name k x), rq_SubResource := [''status''],
            rq_Params := OfUpdate opts, rq_Body := body_of K obj\<rparr>) (cd_Into K) (kd_Zero k))"

definition typed_Delete where
  "typed_Delete k c name opts =
     do_error c ((new_request DeleteVerb k c)\<lparr>rq_Name := Some name, rq_Body := OfDelete opts\<rparr>)"

definition typed_DeleteCollection where
  "typed_DeleteCollection k c opts listOpts =
     do_error c ((new_request DeleteVerb k c)\<lparr>rq_Params := OfList listOpts,
       rq_Timeout := timeout_of listOpts, rq_Body := OfDelete opts\<rparr>)"

definition typed_Patch where
  "typed_Patch k K c name pt data opts subresources =
     do_into c ((new_request (PatchVerb pt) k c)\<lparr>rq_Name := Some name, rq_SubResource := subresources,
       rq_Params := OfPatch opts, rq_Body := Raw data\<rparr>) (cd_Into K) (kd_Zero k)"

definition typed_client ::
  "'o kind_of_object \<Rightarrow> ('o, 'd) codec \<Rightarrow> ('w, 'd) client_struct \<Rightarrow> ('w, 'o) resource_interface" where
  "typed_client k K c =
     \<lparr>api_Create = typed_Create k K c, api_Update = typed_Update k K c,
      api_UpdateStatus = typed_UpdateStatus k K c, api_Delete = typed_Delete k c,
      api_DeleteCollection = typed_DeleteCollection k c, api_Get = typed_Get k K c,
      api_List = typed_List k K c, api_Watch = typed_Watch k c, api_Patch = typed_Patch k K c\<rparr>"

section \<open>The group clients\<close>

text \<open>\<open>MinioV2Client\<close>, \<open>DirectpvV1beta1Client\<close>, \<open>PostgresqlV1Client\<close>, \<open>NineinfraV1alpha1Client\<close>.\<close>

record ('w, 'd) group_client =
  gc_restClient :: "('w, 'd) rest_interface"

definition RESTClient :: "('w, 'd) group_client option \<Rightarrow> ('w, 'd) rest_interface option" where
  "RESTClient c = (case c of None \<Rightarrow> None | Some g \<Rightarrow> Some (gc_restClient g))"

definition in_namespace :: "('w, 'd) group_client option \<Rightarrow> string \<Rightarrow> ('w, 'd) client_struct" where
  "in_namespace c namespace = \<lparr>cl_client = RESTClient c, cl_ns = Some namespace\<rparr>"

definition cluster_scoped :: "('w, 'd) group_client option \<Rightarrow> ('w, 'd) client_struct" where
  "cluster_scoped c = \<lparr>cl_client = RESTClient c, cl_ns = None\<rparr>"

definition zero_Tenant :: Tenant where
  "zero_Tenant = \<lparr>t_Meta = empty_meta, t_Scheduler = [], t_Spec = zero_tenant_spec,
     t_Status = zero_tenant_status\<rparr>"

definition zero_NineCluster :: NineCluster where
  "zero_NineCluster = \<lparr>nc_Meta = empty_meta,
     nc_Spec = \<lparr>ns_DataVolume = 0, ns_Type = [], ns_Features = None, ns_ClusterSet = []\<rparr>,
     nc_Status = NineClusterStatus.make []\<rparr>"

definition zero_DirectPVDrive :: DirectPVDrive where
  "zero_DirectPVDrive = \<lparr>drive_APIVersion = [], drive_Kind = [], drive_Meta = empty_meta,
     drive_Spec = \<lparr>dsp_Unschedulable = False, dsp_Relabel = False\<rparr>,
     drive_Status = \<lparr>dst_TotalCapacity = 0, dst_AllocatedCapacity = 0, dst_FreeCapacity = 0,
       dst_FSUUID = [], dst_Status = [], dst_Topology = None, dst_Make = [], dst_Conditions = []\<rparr>\<rparr>"

definition zero_DirectPVVolume :: DirectPVVolume where
  "zero_DirectPVVolume = \<lparr>volume_APIVersion = [], volume_Kind = [], volume_Meta = empty_meta,
     volume_Status = \<lparr>vst_DataPath = [], vst_StagingTargetPath = [], vst_TargetPath = [],
       vst_FSUUID = [], vst_TotalCapacity = 0, vst_AvailableCapacity = 0, vst_UsedCapacity = 0,
       vst_Status = [], vst_Conditions = []\<rparr>\<rparr>"

definition zero_DirectPVNode :: DirectPVNode where
  "zero_DirectPVNode = \<lparr>node_APIVersion = [], node_Kind = [], node_Meta = empty_meta,
     node_Spec = \<lparr>nsp_Refresh = False\<rparr>, node_Status = NodeStatus.make [] []\<rparr>"

definition zero_DirectPVInitRequest :: DirectPVInitRequest where
  "zero_DirectPVInitRequest = \<lparr>req_APIVersion = [], req_Kind = [], req_Meta = empty_meta,
     req_Spec = \<lparr>irs_Devices = []\<rparr>, req_Status = \<lparr>irst_Status = [], irst_Results = []\<rparr>\<rparr>"

definition zero_pg_cluster :: pg_cluster where
  "zero_pg_cluster = \<lparr>pg_Meta = empty_meta, pg_Instances = 0, pg_StorageClass = [], pg_StorageSize = [],
     pg_Parameters = None, pg_HBA = [], pg_SuperuserSecret = [], pg_EnableSuperuserAccess = False,
     pg_InitDatabase = [], pg_InitSecret = []\<rparr>"

definition tenants_kind :: "Tenant kind_of_object" where
  "tenants_kind = \<lparr>kd_Resource = ''tenants'', kd_Name = (\<lambda>t. om_Name (t_Meta t)), kd_Zero = zero_Tenant\<rparr>"

definition Tenants where
  "Tenants K c namespace = typed_client tenants_kind K (in_namespace c namespace)"

definition nineclusters_kind :: "NineCluster kind_of_object" where
  "nineclusters_kind =
     \<lparr>kd_Resource = ''nineclusters'', kd_Name = (\<lambda>n. om_Name (nc_Meta n)), kd_Zero = zero_NineCluster\<rparr>"

definition NineClusters where
  "NineClusters K c namespace = typed_client nineclusters_kind K (in_namespace c namespace)"

definition DirectPVDrives where
  "DirectPVDrives K c =
     typed_client \<lparr>kd_Resource = ''directpvdrives'', kd_Name = (\<lambda>d. om_Name (drive_Meta d)),
       kd_Zero = zero_DirectPVDrive\<rparr> K (cluster_scoped c)"

definition DirectPVVolumes where
  "DirectPVVolumes K c =
     typed_client \<lparr>kd_Resource = ''directpvvolumes'', kd_Name = (\<lambda>v. om_Name (volume_Meta v)),
       kd_Zero = zero_DirectPVVolume\<rparr> K (cluster_scoped c)"

definition nodes_kind :: "DirectPVNode kind_of_object" where
  "nodes_kind = \<lparr>kd_Resource = ''directpvnodes'', kd_Name = (\<lambda>n. om_Name (node_Meta n)),
     kd_Zero = zero_DirectPVNode\<rparr>"

definition DirectPVNodes where
  "DirectPVNodes K c = typed_client nodes_kind K (cluster_scoped c)"

definition DirectPVInitRequests where
  "DirectPVInitRequests K c =
     typed_client \<lparr>kd_Resource = ''directpvinitrequests'', kd_Name = (\<lambda>r. om_Name (req_Meta r)),
       kd_Zero = zero_DirectPVInitRequest\<rparr> K (cluster_scoped c)"

text \<open>The operator's \<open>Cluster\<close> is \<open>pg_cluster\<close>; of the other kinds of PostgreSQL it reads nothing.\<close>

definition clusters_kind :: "pg_cluster kind_of_object" where
  "clusters_kind = \<lparr>kd_Resource = ''clusters'', kd_Name = (\<lambda>p. om_Name (pg_Meta p)), kd_Zero = zero_pg_cluster\<rparr>"

definition Clusters where
  "Clusters K c namespace = typed_client clusters_kind K (in_namespace c namespace)"

definition Backups where
  "Backups name_of zero K c namespace =
     typed_client \<lparr>kd_Resource = ''backups'', kd_Name = name_of, kd_Zero = zero\<rparr> K (in_namespace c namespace)"

definition ScheduledBackups where
  "ScheduledBackups name_of zero K c namespace =
     typed_client \<lparr>kd_Resource = ''scheduledbackups'', kd_Name = name_of, kd_Zero = zero\<rparr> K (in_namespace c namespace)"

definition Poolers where
  "Poolers name_of zero K c namespace =
     typed_client \<lparr>kd_Resource = ''poolers'', kd_Name = name_of, kd_Zero = zero\<rparr> K (in_namespace c namespace)"

section \<open>Making the clients\<close>

text \<open>
  \<open>rest.Config\<close>, with the fields that are set or read here. The rate \<open>QPS\<close> is a floating point number in
  Go; only its sign matters.\<close>

typedecl negotiated_serializer

typedecl rate_limiter

typedecl http_client

typedecl discovery_client

record rest_config =
  cf_Host :: string
  cf_APIPath :: string
  cf_GroupVersion :: "(string \<times> string) option"
  cf_NegotiatedSerializer :: "negotiated_serializer option"
  cf_UserAgent :: string
  cf_QPS :: int
  cf_Burst :: int64
  cf_RateLimiter :: "rate_limiter option"

text \<open>What client-go does with a configuration.\<close>

record ('w, 'd) client_go =
  cg_DefaultKubernetesUserAgent :: string
  cg_HTTPClientFor :: "rest_config \<Rightarrow> go_error + http_client"
  cg_RESTClientForConfigAndClient :: "rest_config \<Rightarrow> http_client \<Rightarrow> go_error + ('w, 'd) rest_interface"
  cg_NewTokenBucketRateLimiter :: "int \<Rightarrow> int64 \<Rightarrow> rate_limiter"
  cg_NewDiscoveryClientForConfigAndClient :: "rest_config \<Rightarrow> http_client \<Rightarrow> go_error + discovery_client"
  cg_NewDiscoveryClient :: "('w, 'd) rest_interface \<Rightarrow> discovery_client"

text \<open>The package of a group: its group and version, and the serializer of its scheme.\<close>

record api_group =
  ag_GroupVersion :: "string \<times> string"
  ag_Codecs :: negotiated_serializer

definition setConfigDefaults :: "('w, 'd) client_go \<Rightarrow> api_group \<Rightarrow> rest_config \<Rightarrow> rest_config" where
  "setConfigDefaults G A config =
     config\<lparr>cf_GroupVersion := Some (ag_GroupVersion A), cf_APIPath := ''/apis'',
       cf_NegotiatedSerializer := Some (ag_Codecs A),
       cf_UserAgent := if cf_UserAgent config = [] then cg_DefaultKubernetesUserAgent G else cf_UserAgent config\<rparr>"

definition group_NewForConfigAndClient ::
  "('w, 'd) client_go \<Rightarrow> api_group \<Rightarrow> rest_config \<Rightarrow> http_client \<Rightarrow> go_error + ('w, 'd) group_client" where
  "group_NewForConfigAndClient G A c h =
     (let config = setConfigDefaults G A c in
      case cg_RESTClientForConfigAndClient G config h of
        Inl err \<Rightarrow> Inl err
      | Inr client \<Rightarrow> Inr \<lparr>gc_restClient = client\<rparr>)"

definition group_NewForConfig ::
  "('w, 'd) client_go \<Rightarrow> api_group \<Rightarrow> rest_config \<Rightarrow> go_error + ('w, 'd) group_client" where
  "group_NewForConfig G A c =
     (let config = setConfigDefaults G A c in
      case cg_HTTPClientFor G config of
        Inl err \<Rightarrow> Inl err
      | Inr httpClient \<Rightarrow> group_NewForConfigAndClient G A config httpClient)"

definition group_NewForConfigOrDie ::
  "('w, 'd) client_go \<Rightarrow> api_group \<Rightarrow> rest_config \<Rightarrow> ('w, 'd) group_client outcome" where
  "group_NewForConfigOrDie G A c =
     (case group_NewForConfig G A c of Inl err \<Rightarrow> Panic (err_text err) | Inr client \<Rightarrow> Ret client)"

definition group_New :: "('w, 'd) rest_interface \<Rightarrow> ('w, 'd) group_client" where
  "group_New c = \<lparr>gc_restClient = c\<rparr>"

text \<open>
  The four groups; \<open>GroupVersion\<close> of the PostgreSQL package and the serializers are not in the
  repository.\<close>

definition nineinfra_NewForConfig ::
  "('w, 'd) client_go \<Rightarrow> negotiated_serializer \<Rightarrow> rest_config \<Rightarrow> go_error + ('w, 'd) group_client" where
  "nineinfra_NewForConfig G codecs =
     group_NewForConfig G \<lparr>ag_GroupVersion = (''nine.nineinfra.tech'', ''v1alpha1''), ag_Codecs = codecs\<rparr>"

definition minio_NewForConfig ::
  "('w, 'd) client_go \<Rightarrow> negotiated_serializer \<Rightarrow> rest_config \<Rightarrow> go_error + ('w, 'd) group_client" where
  "minio_NewForConfig G codecs =
     group_NewForConfig G \<lparr>ag_GroupVersion = (''minio.min.io'', ''v2''), ag_Codecs = codecs\<rparr>"

definition directpv_NewForConfig ::
  "('w, 'd) client_go \<Rightarrow> negotiated_serializer \<Rightarrow> rest_config \<Rightarrow> go_error + ('w, 'd) group_client" where
  "directpv_NewForConfig G codecs =
     group_NewForConfig G \<lparr>ag_GroupVersion = (Group, Version), ag_Codecs = codecs\<rparr>"

definition postgresql_NewForConfig ::
  "('w, 'd) client_go \<Rightarrow> string \<times> string \<Rightarrow> negotiated_serializer \<Rightarrow> rest_config \<Rightarrow> go_error + ('w, 'd) group_client" where
  "postgresql_NewForConfig G gv codecs = group_NewForConfig G \<lparr>ag_GroupVersion = gv, ag_Codecs = codecs\<rparr>"

text \<open>\<open>Clientset\<close>: a group client and a discovery client, behind one rate limiter.\<close>

record ('w, 'd) clientset =
  cs_group :: "('w, 'd) group_client"
  cs_DiscoveryClient :: discovery_client

definition burst_required :: go_error where
  "burst_required = new_error
     ''burst is required to be greater than 0 when RateLimiter is not set and QPS is set to greater than 0''"

definition NewForConfigAndClient ::
  "('w, 'd) client_go \<Rightarrow> api_group \<Rightarrow> rest_config \<Rightarrow> http_client \<Rightarrow> go_error + ('w, 'd) clientset" where
  "NewForConfigAndClient G A c httpClient =
     (let limit = cf_RateLimiter c = None \<and> 0 < cf_QPS c in
      if limit \<and> sint (cf_Burst c) \<le> 0 then Inl burst_required
      else
        (let configShallowCopy =
           (if limit
            then c\<lparr>cf_RateLimiter := Some (cg_NewTokenBucketRateLimiter G (cf_QPS c) (cf_Burst c))\<rparr>
            else c)
         in case group_NewForConfigAndClient G A configShallowCopy httpClient of
              Inl err \<Rightarrow> Inl err
            | Inr g \<Rightarrow> (case cg_NewDiscoveryClientForConfigAndClient G configShallowCopy httpClient of
                  Inl err \<Rightarrow> Inl err
                | Inr d \<Rightarrow> Inr \<lparr>cs_group = g, cs_DiscoveryClient = d\<rparr>)))"

definition NewForConfig ::
  "('w, 'd) client_go \<Rightarrow> api_group \<Rightarrow> rest_config \<Rightarrow> go_error + ('w, 'd) clientset" where
  "NewForConfig G A c =
     (let configShallowCopy =
        (if cf_UserAgent c = [] then c\<lparr>cf_UserAgent := cg_DefaultKubernetesUserAgent G\<rparr> else c)
      in case cg_HTTPClientFor G configShallowCopy of
           Inl err \<Rightarrow> Inl err
         | Inr httpClient \<Rightarrow> NewForConfigAndClient G A configShallowCopy httpClient)"

definition NewForConfigOrDie ::
  "('w, 'd) client_go \<Rightarrow> api_group \<Rightarrow> rest_config \<Rightarrow> ('w, 'd) clientset outcome" where
  "NewForConfigOrDie G A c = (case NewForConfig G A c of Inl err \<Rightarrow> Panic (err_text err) | Inr cs \<Rightarrow> Ret cs)"

definition New_clientset :: "('w, 'd) client_go \<Rightarrow> ('w, 'd) rest_interface \<Rightarrow> ('w, 'd) clientset" where
  "New_clientset G c = \<lparr>cs_group = group_New c, cs_DiscoveryClient = cg_NewDiscoveryClient G c\<rparr>"

definition Discovery :: "('w, 'd) clientset option \<Rightarrow> discovery_client option" where
  "Discovery c = map_option cs_DiscoveryClient c"

text \<open>
  Both clients of a set are made from one configuration and HTTP client: with a rate limiter, if
  calls are to be limited, and with a user agent, if client-go has one.\<close>

lemma NewForConfig_shares:
  assumes "NewForConfig G A c = Inr cs"
  shows "\<exists>h conf. cg_RESTClientForConfigAndClient G (setConfigDefaults G A conf) h = Inr (gc_restClient (cs_group cs)) \<and>
    cg_NewDiscoveryClientForConfigAndClient G conf h = Inr (cs_DiscoveryClient cs) \<and>
    (0 < cf_QPS c \<longrightarrow> cf_RateLimiter conf \<noteq> None \<and> (cf_RateLimiter c = None \<longrightarrow> 0 < sint (cf_Burst c))) \<and>
    (cg_DefaultKubernetesUserAgent G \<noteq> [] \<longrightarrow> cf_UserAgent conf \<noteq> [])"
proof -
  let ?c = "if cf_UserAgent c = [] then c\<lparr>cf_UserAgent := cg_DefaultKubernetesUserAgent G\<rparr> else c"
  let ?conf = "if cf_RateLimiter ?c = None \<and> 0 < cf_QPS ?c
    then ?c\<lparr>cf_RateLimiter := Some (cg_NewTokenBucketRateLimiter G (cf_QPS ?c) (cf_Burst ?c))\<rparr> else ?c"
  from assms obtain h where h: "NewForConfigAndClient G A ?c h = Inr cs"
    by (auto simp: NewForConfig_def Let_def split: sum.splits if_splits)
  then have limit: "cf_RateLimiter ?c = None \<longrightarrow> 0 < cf_QPS ?c \<longrightarrow> 0 < sint (cf_Burst ?c)"
    by (auto simp: NewForConfigAndClient_def Let_def simp del: not_le split: if_splits)
  with h have made: "cg_RESTClientForConfigAndClient G (setConfigDefaults G A ?conf) h = Inr (gc_restClient (cs_group cs))"
    "cg_NewDiscoveryClientForConfigAndClient G ?conf h = Inr (cs_DiscoveryClient cs)"
    by (auto simp: NewForConfigAndClient_def group_NewForConfigAndClient_def Let_def not_le
        split: sum.splits if_splits)
  have rate: "0 < cf_QPS c \<longrightarrow> cf_RateLimiter ?conf \<noteq> None \<and> (cf_RateLimiter c = None \<longrightarrow> 0 < sint (cf_Burst c))"
    using limit by (auto split: if_splits)
  have agent: "cg_DefaultKubernetesUserAgent G \<noteq> [] \<longrightarrow> cf_UserAgent ?conf \<noteq> []" by auto
  show ?thesis by (rule exI [of _ h], rule exI [of _ ?conf], intro conjI made rate agent)
qed

text \<open>The defaults are set twice on the way, which changes nothing.\<close>

lemma setConfigDefaults_idempotent [simp]:
  "setConfigDefaults G A (setConfigDefaults G A c) = setConfigDefaults G A c"
  by (simp add: setConfigDefaults_def)

lemma group_NewForConfig_eq:
  "group_NewForConfig G A c =
     (case cg_HTTPClientFor G (setConfigDefaults G A c) of
        Inl err \<Rightarrow> Inl err
      | Inr h \<Rightarrow> (case cg_RESTClientForConfigAndClient G (setConfigDefaults G A c) h of
           Inl err \<Rightarrow> Inl err
         | Inr client \<Rightarrow> Inr (group_New client)))"
  by (simp add: group_NewForConfig_def group_NewForConfigAndClient_def group_New_def Let_def split: sum.split)

end
