(* ===== verification/RestServer.thy ===== *)
theory RestServer
  imports RestClient
begin

text \<open>
  What the generated clients do to the objects of an API server. The locale \<open>rest_server\<close> states what
  the server promises about single requests, over a view of its objects by resource, namespace and
  name; \<open>object_api\<close> is the contract of a client, a map from names to documents; \<open>typed_server\<close>
  derives the second from the first for any kind. \<open>shelf_rest\<close> is a server that keeps these
  promises, with every kind of request.
\<close>

type_synonym 'd objects = "string \<times> string \<times> string \<rightharpoonup> 'd"

definition space_of :: "'d rest_request \<Rightarrow> string" where
  "space_of rq = (case rq_Namespace rq of None \<Rightarrow> [] | Some ns \<Rightarrow> ns)"

definition key_of :: "'d rest_request \<Rightarrow> string \<Rightarrow> string \<times> string \<times> string" where
  "key_of rq n = (rq_Resource rq, space_of rq, n)"

text \<open>The keys a request may touch: one, if it names an object, else all of its resource and namespace.\<close>

definition scope :: "('d \<Rightarrow> string) \<Rightarrow> 'd rest_request \<Rightarrow> (string \<times> string \<times> string) set" where
  "scope doc_name rq =
     (case rq_Name rq of
        Some n \<Rightarrow> {key_of rq n}
      | None \<Rightarrow>
          (case rq_Body rq of
             Doc d \<Rightarrow> {key_of rq (doc_name d)}
           | _ \<Rightarrow> range (key_of rq)))"

section \<open>The promises of the server\<close>

text \<open>
  \<open>admit\<close> is what the server makes of a document it accepts (defaults, identity, version);
  \<open>with_status old new\<close> what it makes of an update of the status. It may refuse what it could do.\<close>

locale rest_server =
  fixes rest :: "('w, 'd) rest_interface"
    and objects :: "'w \<Rightarrow> 'd objects"
    and doc_name :: "'d \<Rightarrow> string"
    and admit :: "'d \<Rightarrow> 'd"
    and with_status :: "'d \<Rightarrow> 'd \<Rightarrow> 'd"
  assumes answers: "\<exists>r w1. rest_Do rest rq w = Some (r, w1) \<and> (\<forall>p. r \<noteq> Panic p)"
    and get_there: "rq_Verb rq = GetVerb \<Longrightarrow> rq_Name rq = Some n \<Longrightarrow> rq_SubResource rq = [] \<Longrightarrow>
      objects w (key_of rq n) = Some d \<Longrightarrow>
      \<exists>w1. rest_Do rest rq w = Some (Ret (OneDoc d), w1) \<and> objects w1 = objects w"
    and get_missing: "rq_Verb rq = GetVerb \<Longrightarrow> rq_Name rq = Some n \<Longrightarrow> rq_SubResource rq = [] \<Longrightarrow>
      objects w (key_of rq n) = None \<Longrightarrow>
      \<exists>e w1. rest_Do rest rq w = Some (Fail e, w1) \<and> is_not_found e \<and> objects w1 = objects w"
    and post: "rq_Verb rq = PostVerb \<Longrightarrow> rq_Name rq = None \<Longrightarrow> rq_Body rq = Doc d \<Longrightarrow>
      rest_Do rest rq w = Some (r, w1) \<Longrightarrow>
      (if objects w (key_of rq (doc_name d)) = None
       then (r = Ret (OneDoc (admit d)) \<and> objects w1 = (objects w)(key_of rq (doc_name d) \<mapsto> admit d)) \<or>
         (\<exists>e. r = Fail e \<and> objects w1 = objects w)
       else (\<exists>e. r = Fail e \<and> is_already_exists e \<and> objects w1 = objects w))"
    and post_nothing: "rq_Verb rq = PostVerb \<Longrightarrow> rq_Body rq = NoBody \<Longrightarrow>
      rest_Do rest rq w = Some (r, w1) \<Longrightarrow> \<exists>e. r = Fail e \<and> objects w1 = objects w"
    and put: "rq_Verb rq = PutVerb \<Longrightarrow> rq_Name rq = Some n \<Longrightarrow> rq_Body rq = Doc d \<Longrightarrow> doc_name d = n \<Longrightarrow>
      rest_Do rest rq w = Some (r, w1) \<Longrightarrow>
      (case objects w (key_of rq n) of
         None \<Rightarrow> \<exists>e. r = Fail e \<and> is_not_found e \<and> objects w1 = objects w
       | Some old \<Rightarrow>
           (\<exists>new. new = (if rq_SubResource rq = [''status''] then with_status old d else admit d) \<and>
             r = Ret (OneDoc new) \<and> objects w1 = (objects w)(key_of rq n \<mapsto> new)) \<or>
           (\<exists>e. r = Fail e \<and> objects w1 = objects w))"
    and delete: "rq_Verb rq = DeleteVerb \<Longrightarrow> rq_Name rq = Some n \<Longrightarrow> rest_Do rest rq w = Some (r, w1) \<Longrightarrow>
      (if objects w (key_of rq n) = None
       then (\<exists>e. r = Fail e \<and> is_not_found e \<and> objects w1 = objects w)
       else (\<exists>x y. r = Ret x \<and> objects w1 = (objects w)(key_of rq n := y)) \<or>
         (\<exists>e. r = Fail e \<and> objects w1 = objects w))"
    and frame: "rest_Do rest rq w = Some (r, w1) \<Longrightarrow> k \<notin> scope doc_name rq \<Longrightarrow> objects w1 k = objects w k"
    and watch_frame: "rest_Watch rest rq w = Some (q, w1) \<Longrightarrow> objects w1 = objects w"

section \<open>The contract of a client\<close>

text \<open>A look-up and a creation as the reconcilers make them: \<open>_, err := ...\<close>, and the error inspected.\<close>

definition get_error :: "('w, 'o) resource_interface \<Rightarrow> get_options \<Rightarrow> string \<Rightarrow> ('w, unit) io" where
  "get_error api gopts n =
     io_bind (api_Get api n gopts) (\<lambda>r. case snd r of None \<Rightarrow> io_ret () | Some e \<Rightarrow> io_fail e)"

definition create_error :: "('w, 'o) resource_interface \<Rightarrow> create_options \<Rightarrow> 'o option \<Rightarrow> ('w, unit) io" where
  "create_error api copts obj =
     io_bind (api_Create api obj copts) (\<lambda>r. case snd r of None \<Rightarrow> io_ret () | Some e \<Rightarrow> io_fail e)"

definition ensure_with :: "('w, 'o) resource_interface \<Rightarrow> get_options \<Rightarrow> create_options \<Rightarrow> string \<Rightarrow>
    'o option \<Rightarrow> ('w, unit) io" where
  "ensure_with api gopts copts n obj =
     io_bind (io_try (get_error api gopts n)) (\<lambda>r.
       case r of
         Inl e \<Rightarrow> if is_not_found e then create_error api copts obj else io_fail e
       | Inr _ \<Rightarrow> io_ret ())"

text \<open>
  A client over a view of its own objects: \<open>enc\<close> and \<open>dec\<close> are the serializer, \<open>stored d\<close> what the server
  makes of a document, \<open>failed\<close> what comes beside an error.\<close>

locale object_api =
  fixes api :: "('w, 'o) resource_interface"
    and view :: "'w \<Rightarrow> string \<rightharpoonup> 'd"
    and enc :: "'o \<Rightarrow> 'd"
    and dec :: "'d \<Rightarrow> 'o \<times> go_error option"
    and stored :: "'d \<Rightarrow> 'd"
    and name_of :: "'o \<Rightarrow> string"
    and failed :: "'o option"
  assumes read_there: "view w n = Some d \<Longrightarrow>
      \<exists>w1. api_Get api n gopts w = Some (Ret (Some (fst (dec d)), snd (dec d)), w1) \<and> view w1 = view w"
    and read_missing: "view w n = None \<Longrightarrow>
      \<exists>e w1. api_Get api n gopts w = Some (Ret (failed, Some e), w1) \<and> is_not_found e \<and> view w1 = view w"
    and create_new: "view w (name_of x) = None \<Longrightarrow>
      \<exists>w1. (api_Create api (Some x) copts w =
          Some (Ret (Some (fst (dec (stored (enc x)))), snd (dec (stored (enc x)))), w1) \<and>
        view w1 = (view w)(name_of x \<mapsto> stored (enc x))) \<or>
       (\<exists>e. api_Create api (Some x) copts w = Some (Ret (failed, Some e), w1) \<and> view w1 = view w)"
    and create_there: "view w (name_of x) = Some d \<Longrightarrow>
      \<exists>e w1. api_Create api (Some x) copts w = Some (Ret (failed, Some e), w1) \<and> is_already_exists e \<and>
        view w1 = view w"
begin

lemma get_error_cases:
  "\<exists>w1. view w1 = view w \<and>
     (case view w n of
        None \<Rightarrow> \<exists>e. get_error api gopts n w = Some (Fail e, w1) \<and> is_not_found e
      | Some d \<Rightarrow> get_error api gopts n w = Some (case snd (dec d) of None \<Rightarrow> Ret () | Some e \<Rightarrow> Fail e, w1))"
proof (cases "view w n")
  case None
  from read_missing [OF this, of gopts] None show ?thesis
    by (auto simp: get_error_def io_bind_def io_fail_def)
next
  case (Some d)
  from read_there [OF this, of gopts] Some show ?thesis
    by (auto simp: get_error_def io_bind_def io_fail_def io_ret_def split: option.split)
qed

text \<open>The two together store an object that is absent, and leave one alone that is there.\<close>

lemma ensure_with_there:
  assumes "view w (name_of x) = Some d"
  shows "\<exists>r w1. ensure_with api gopts copts (name_of x) (Some x) w = Some (r, w1) \<and> view w1 = view w \<and>
    (r = Ret () \<longleftrightarrow> snd (dec d) = None) \<and> (\<forall>p. r \<noteq> Panic p)"
proof -
  from get_error_cases [where w = w and n = "name_of x" and gopts = gopts] assms obtain w1 where
    got: "get_error api gopts (name_of x) w = Some (case snd (dec d) of None \<Rightarrow> Ret () | Some e \<Rightarrow> Fail e, w1)"
      "view w1 = view w"
    by auto
  with assms have "view w1 (name_of x) = Some d" by simp
  from create_there [OF this, of copts]
  have "\<exists>e w2. create_error api copts (Some x) w1 = Some (Fail e, w2) \<and> view w2 = view w1"
    by (auto simp: create_error_def io_bind_def io_fail_def)
  then obtain e w2 where "create_error api copts (Some x) w1 = Some (Fail e, w2)" "view w2 = view w1" by blast
  with got show ?thesis
    by (auto simp: ensure_with_def io_bind_def io_try_def io_ret_def io_fail_def split: option.splits)
qed

lemma ensure_with_creates:
  assumes "view w n = None"
  shows "\<exists>w1. ensure_with api gopts copts n obj w = create_error api copts obj w1 \<and> view w1 = view w"
proof -
  from get_error_cases [where w = w and n = n and gopts = gopts] assms obtain e w1 where
    "get_error api gopts n w = Some (Fail e, w1)" "is_not_found e" "view w1 = view w" by auto
  then show ?thesis by (auto simp: ensure_with_def io_bind_def io_try_def)
qed

lemma ensure_with_absent:
  assumes "view w (name_of x) = None"
  shows "\<exists>r w1. ensure_with api gopts copts (name_of x) (Some x) w = Some (r, w1) \<and>
    ((view w1 = (view w)(name_of x \<mapsto> stored (enc x)) \<and>
       r = (case snd (dec (stored (enc x))) of None \<Rightarrow> Ret () | Some e \<Rightarrow> Fail e)) \<or>
     (view w1 = view w \<and> (\<exists>e. r = Fail e)))"
proof -
  from ensure_with_creates [OF assms] obtain w1 where
    run: "ensure_with api gopts copts (name_of x) (Some x) w = create_error api copts (Some x) w1"
    and w1: "view w1 = view w" by blast
  with assms create_new [of w1 x copts] show ?thesis
    unfolding run by (auto simp: create_error_def io_bind_def io_fail_def io_ret_def split: option.splits)
qed

text \<open>So a run that succeeds leaves exactly one more name, or the names there were.\<close>

lemma ensure_with_names:
  assumes "ensure_with api gopts copts (name_of x) (Some x) w = Some (Ret (), w1)"
  shows "dom (view w1) = insert (name_of x) (dom (view w))"
proof (cases "view w (name_of x)")
  case None
  from ensure_with_absent [OF this, of gopts copts] assms show ?thesis by auto
next
  case (Some d)
  from ensure_with_there [OF this, of gopts copts] assms Some show ?thesis by auto
qed

text \<open>What was created is read back.\<close>

lemma create_then_get:
  assumes "api_Create api (Some x) copts w = Some (Ret (y, None), w1)"
  shows "view w (name_of x) = None \<and> view w1 (name_of x) = Some (stored (enc x)) \<and>
    (\<exists>w2. api_Get api (name_of x) gopts w1 = Some (Ret (y, None), w2) \<and> view w2 = view w1) \<and>
    (\<exists>e w2. api_Create api (Some x) copts w1 = Some (Ret (failed, Some e), w2) \<and>
      is_already_exists e \<and> view w2 = view w1)"
proof -
  have new: "view w (name_of x) = None"
    using create_there [of w x _ copts] assms by (cases "view w (name_of x)") auto
  from create_new [OF this, of copts] assms
  have y: "y = Some (fst (dec (stored (enc x))))" "snd (dec (stored (enc x))) = None"
    "view w1 = (view w)(name_of x \<mapsto> stored (enc x))" by auto
  then have "view w1 (name_of x) = Some (stored (enc x))" by simp
  from new this read_there [OF this, of gopts] create_there [OF this, of copts] y show ?thesis by auto
qed

end

text \<open>A client whose server also answers the creation of nil, and refuses it.\<close>

locale strict_api = object_api +
  assumes create_nil: "\<exists>e w1. api_Create api None copts w = Some (Ret (failed, Some e), w1) \<and> view w1 = view w"
begin

lemma ensure_with_nil:
  "\<exists>r w1. ensure_with api gopts copts n None w = Some (r, w1) \<and> view w1 = view w \<and>
    (r = Ret () \<longrightarrow> view w n \<noteq> None)"
proof (cases "view w n")
  case None
  from ensure_with_creates [OF this, of gopts copts None] obtain w1 where
    run: "ensure_with api gopts copts n None w = create_error api copts None w1" and w1: "view w1 = view w" by blast
  with create_nil [of copts w1] show ?thesis
    unfolding run by (auto simp: create_error_def io_bind_def io_fail_def)
next
  case (Some d)
  from get_error_cases [where w = w and n = n and gopts = gopts] Some obtain w1 where
    got: "get_error api gopts n w = Some (case snd (dec d) of None \<Rightarrow> Ret () | Some e \<Rightarrow> Fail e, w1)"
      "view w1 = view w"
    by auto
  with create_nil [of copts w1] Some show ?thesis
    by (auto simp: ensure_with_def create_error_def io_bind_def io_try_def io_ret_def io_fail_def split: option.splits)
qed

end

section \<open>Every generated client keeps the contract\<close>

definition client_view :: "('w \<Rightarrow> 'd objects) \<Rightarrow> 'o kind_of_object \<Rightarrow> ('w, 'd) client_struct \<Rightarrow>
    'w \<Rightarrow> string \<rightharpoonup> 'd" where
  "client_view objects k c w n = objects w (kd_Resource k, case cl_ns c of None \<Rightarrow> [] | Some ns \<Rightarrow> ns, n)"

text \<open>What a method may touch: the objects in a set of keys.\<close>

definition touches_only ::
  "('w \<Rightarrow> 'd objects) \<Rightarrow> (string \<times> string \<times> string) set \<Rightarrow> ('w, 'a) io \<Rightarrow> bool" where
  "touches_only objects S m \<longleftrightarrow>
     (\<forall>w r w1 key. m w = Some (r, w1) \<longrightarrow> key \<notin> S \<longrightarrow> objects w1 key = objects w key)"

lemma touches_only_bind:
  assumes "touches_only objects S m" and "\<And>a. touches_only objects S (f a)"
  shows "touches_only objects S (io_bind m f)"
  unfolding touches_only_def
proof (intro allI impI)
  fix w r w1 key
  assume run: "io_bind m f w = Some (r, w1)" and key: "key \<notin> S"
  then obtain q w0 where q: "m w = Some (q, w0)" by (auto simp: io_bind_def split: option.splits)
  with assms(1) key have m: "objects w0 key = objects w key" unfolding touches_only_def by blast
  show "objects w1 key = objects w key"
  proof (cases q)
    case (Ret a)
    with run q have "f a w0 = Some (r, w1)" by (simp add: io_bind_def)
    with assms(2) key m show ?thesis unfolding touches_only_def by metis
  qed (use run q m in \<open>simp_all add: io_bind_def\<close>)
qed

lemma touches_only_try: "touches_only objects S m \<Longrightarrow> touches_only objects S (io_try m)"
  unfolding touches_only_def io_try_def by (auto simp del: split_paired_All split: option.splits outcome.splits)

lemma touches_nothing [simp]: "touches_only objects S (io_ret a)" "touches_only objects S (io_fail e)"
  by (simp_all add: touches_only_def io_ret_def io_fail_def)

lemma touches_get_error: "touches_only objects S (api_Get api n gopts) \<Longrightarrow> touches_only objects S (get_error api gopts n)"
  unfolding get_error_def by (rule touches_only_bind) (auto split: option.split)

lemma touches_create_error:
  "touches_only objects S (api_Create api obj copts) \<Longrightarrow> touches_only objects S (create_error api copts obj)"
  unfolding create_error_def by (rule touches_only_bind) (auto split: option.split)

definition own_key :: "'o kind_of_object \<Rightarrow> ('w, 'd) client_struct \<Rightarrow> string \<Rightarrow> string \<times> string \<times> string" where
  "own_key k c n = (kd_Resource k, case cl_ns c of None \<Rightarrow> [] | Some ns \<Rightarrow> ns, n)"

locale typed_server = rest_server rest objects doc_name admit with_status
  for rest :: "('w, 'd) rest_interface" and objects doc_name admit with_status +
  fixes k :: "'o kind_of_object"
    and K :: "('o, 'd) codec"
    and c :: "('w, 'd) client_struct"
  assumes client: "cl_client c = Some rest"
    and named: "doc_name (cd_Encode K x) = kd_Name k x"
begin

abbreviation view :: "'w \<Rightarrow> string \<rightharpoonup> 'd" where
  "view \<equiv> client_view objects k c"

abbreviation "key \<equiv> own_key k c"

lemma key_of_own: "rq_Resource rq = kd_Resource k \<Longrightarrow> rq_Namespace rq = cl_ns c \<Longrightarrow> key_of rq n = key n"
  by (simp add: key_of_def space_of_def own_key_def)

lemma view_key: "view w n = objects w (key n)"
  by (simp add: client_view_def own_key_def)

lemma view_upd: "objects w1 = (objects w)(key n \<mapsto> d) \<Longrightarrow> view w1 = (view w)(n \<mapsto> d)"
  by (simp add: fun_eq_iff view_key) (simp add: own_key_def)

lemma view_same: "objects w1 = objects w \<Longrightarrow> view w1 = view w"
  by (rule ext) (simp add: view_key)

lemma do_into_eq:
  "do_into c rq into zero w =
     (case rest_Do rest rq w of
        Some (Ret body, w1) \<Rightarrow> Some (Ret (Some (fst (into body zero)), snd (into body zero)), w1)
      | Some (Fail e, w1) \<Rightarrow> Some (Ret (Some zero, Some e), w1)
      | Some (Panic p, w1) \<Rightarrow> Some (Panic p, w1)
      | None \<Rightarrow> None)"
  by (simp add: do_into_def client io_bind_def io_try_def io_ret_def Let_def split_beta
      split: option.split outcome.split)

lemma do_error_eq:
  "do_error c rq w =
     (case rest_Do rest rq w of
        Some (Ret body, w1) \<Rightarrow> Some (Ret None, w1)
      | Some (Fail e, w1) \<Rightarrow> Some (Ret (Some e), w1)
      | Some (Panic p, w1) \<Rightarrow> Some (Panic p, w1)
      | None \<Rightarrow> None)"
  by (simp add: do_error_def client io_bind_def io_try_def io_ret_def split: option.split outcome.split)

end

sublocale typed_server \<subseteq> client: strict_api "typed_client k K c" "client_view objects k c" "cd_Encode K"
  "\<lambda>d. cd_Into K (OneDoc d) (kd_Zero k)" admit "kd_Name k" "Some (kd_Zero k)"
proof
  fix w n d gopts
  let ?rq = "(new_request GetVerb k c)\<lparr>rq_Name := Some n, rq_Params := OfGet gopts\<rparr>"
  have rq: "rq_Verb ?rq = GetVerb" "rq_Name ?rq = Some n" "rq_SubResource ?rq = []" "key_of ?rq n = key n"
    by (simp_all add: new_request_def key_of_own)
  {
    assume "view w n = Some d"
    then have "objects w (key_of ?rq n) = Some d" by (simp add: rq view_key)
    from get_there [OF rq(1-3) this] show "\<exists>w1. api_Get (typed_client k K c) n gopts w =
        Some (Ret (Some (fst (cd_Into K (OneDoc d) (kd_Zero k))), snd (cd_Into K (OneDoc d) (kd_Zero k))), w1) \<and>
      view w1 = view w"
      by (auto simp: typed_client_def typed_Get_def do_into_eq intro: view_same)
  next
    assume "view w n = None"
    then have "objects w (key_of ?rq n) = None" by (simp add: rq view_key)
    from get_missing [OF rq(1-3) this] show "\<exists>e w1. api_Get (typed_client k K c) n gopts w =
        Some (Ret (Some (kd_Zero k), Some e), w1) \<and> is_not_found e \<and> view w1 = view w"
      by (auto simp: typed_client_def typed_Get_def do_into_eq intro: view_same)
  }
next
  fix w x d copts
  let ?rq = "(new_request PostVerb k c)\<lparr>rq_Params := OfCreate copts, rq_Body := body_of K (Some x)\<rparr>"
  have rq: "rq_Verb ?rq = PostVerb" "rq_Name ?rq = None" "rq_Body ?rq = Doc (cd_Encode K x)"
    "key_of ?rq (doc_name (cd_Encode K x)) = key (kd_Name k x)"
    by (simp_all add: new_request_def key_of_own body_of_def named)
  from answers [of ?rq w] obtain r w1 where r: "rest_Do rest ?rq w = Some (r, w1)" by blast
  note outcome = post [OF rq(1-3) r, unfolded rq(4) view_key [symmetric]]
  have create: "api_Create (typed_client k K c) (Some x) copts w = do_into c ?rq (cd_Into K) (kd_Zero k) w"
    by (simp add: typed_client_def typed_Create_def)
  {
    assume new: "view w (kd_Name k x) = None"
    with outcome have "(r = Ret (OneDoc (admit (cd_Encode K x))) \<and>
        view w1 = (view w)(kd_Name k x \<mapsto> admit (cd_Encode K x))) \<or>
      (\<exists>e. r = Fail e \<and> view w1 = view w)"
      by (auto intro: view_same view_upd)
    with r show "\<exists>w1. (api_Create (typed_client k K c) (Some x) copts w =
          Some (Ret (Some (fst (cd_Into K (OneDoc (admit (cd_Encode K x))) (kd_Zero k))),
            snd (cd_Into K (OneDoc (admit (cd_Encode K x))) (kd_Zero k))), w1) \<and>
        view w1 = (view w)(kd_Name k x \<mapsto> admit (cd_Encode K x))) \<or>
      (\<exists>e. api_Create (typed_client k K c) (Some x) copts w = Some (Ret (Some (kd_Zero k), Some e), w1) \<and>
        view w1 = view w)"
      unfolding create do_into_eq by auto
  next
    assume "view w (kd_Name k x) = Some d"
    with outcome have "\<exists>e. r = Fail e \<and> is_already_exists e \<and> view w1 = view w"
      by (auto intro: view_same)
    with r show "\<exists>e w1. api_Create (typed_client k K c) (Some x) copts w =
        Some (Ret (Some (kd_Zero k), Some e), w1) \<and> is_already_exists e \<and> view w1 = view w"
      unfolding create do_into_eq by auto
  }
next
  fix w copts
  let ?rq = "(new_request PostVerb k c)\<lparr>rq_Params := OfCreate copts, rq_Body := body_of K None\<rparr>"
  from answers [of ?rq w] obtain r w1 where r: "rest_Do rest ?rq w = Some (r, w1)" by blast
  have "rq_Verb ?rq = PostVerb" "rq_Body ?rq = NoBody" by (simp_all add: new_request_def body_of_def)
  from post_nothing [OF this r] r
  show "\<exists>e w1. api_Create (typed_client k K c) None copts w = Some (Ret (Some (kd_Zero k), Some e), w1) \<and>
      view w1 = view w"
    by (auto simp: typed_client_def typed_Create_def do_into_eq intro: view_same)
qed

text \<open>Nothing outside a method's own keys changes: no other object, namespace or kind.\<close>

context typed_server begin

lemma touches_into:
  assumes "rq_Resource rq = kd_Resource k" and "rq_Namespace rq = cl_ns c"
    and "scope doc_name rq \<subseteq> S"
  shows "touches_only objects S (do_into c rq into zero)" and "touches_only objects S (do_error c rq)"
proof -
  have step: "objects w1 key = objects w key" if "rest_Do rest rq w = Some (r, w1)" "key \<notin> S" for w r w1 key
    using frame [OF that(1), of key] that(2) assms(3) by blast
  show "touches_only objects S (do_into c rq into zero)"
    unfolding touches_only_def do_into_eq
    by (auto simp del: split_paired_All intro: step split: option.splits outcome.splits)
  show "touches_only objects S (do_error c rq)"
    unfolding touches_only_def do_error_eq
    by (auto simp del: split_paired_All intro: step split: option.splits outcome.splits)
qed

lemma typed_methods_isolated:
  "touches_only objects {key n} (api_Get (typed_client k K c) n gopts)"
  "touches_only objects {key (kd_Name k x)} (api_Create (typed_client k K c) (Some x) copts)"
  "touches_only objects {key (kd_Name k x)} (api_Update (typed_client k K c) (Some x) uopts)"
  "touches_only objects {key (kd_Name k x)} (api_UpdateStatus (typed_client k K c) (Some x) uopts)"
  "touches_only objects {key n} (api_Delete (typed_client k K c) n dopts)"
  "touches_only objects {key n} (api_Patch (typed_client k K c) n pt data popts subs)"
  "touches_only objects (range key) (api_DeleteCollection (typed_client k K c) dopts lopts)"
  "touches_only objects (range key) (api_List (typed_client k K c) lopts)"
proof -
  note simps = scope_def new_request_def body_of_def named key_of_def own_key_def space_of_def
  show "touches_only objects {key n} (api_Get (typed_client k K c) n gopts)"
    unfolding typed_client_def typed_Get_def by simp (rule touches_into; simp add: simps)
  show "touches_only objects {key (kd_Name k x)} (api_Create (typed_client k K c) (Some x) copts)"
    unfolding typed_client_def typed_Create_def by simp (rule touches_into; simp add: simps)
  show "touches_only objects {key (kd_Name k x)} (api_Update (typed_client k K c) (Some x) uopts)"
    unfolding typed_client_def typed_Update_def by simp (rule touches_into; simp add: simps)
  show "touches_only objects {key (kd_Name k x)} (api_UpdateStatus (typed_client k K c) (Some x) uopts)"
    unfolding typed_client_def typed_UpdateStatus_def by simp (rule touches_into; simp add: simps)
  show "touches_only objects {key n} (api_Delete (typed_client k K c) n dopts)"
    unfolding typed_client_def typed_Delete_def by simp (rule touches_into; simp add: simps)
  show "touches_only objects {key n} (api_Patch (typed_client k K c) n pt data popts subs)"
    unfolding typed_client_def typed_Patch_def by simp (rule touches_into; simp add: simps)
  show "touches_only objects (range key) (api_DeleteCollection (typed_client k K c) dopts lopts)"
    unfolding typed_client_def typed_DeleteCollection_def by simp (rule touches_into; auto simp: simps)
  show "touches_only objects (range key) (api_List (typed_client k K c) lopts)"
    unfolding typed_client_def typed_List_def by simp (rule touches_into; auto simp: simps)
qed

lemma typed_watch_isolated: "touches_only objects {} (api_Watch (typed_client k K c) lopts)"
  using watch_frame
  by (auto simp: touches_only_def typed_client_def typed_Watch_def client io_bind_def io_try_def io_ret_def
      split: option.splits outcome.splits)

lemma typed_create_nil_isolated: "touches_only objects {} (api_Create (typed_client k K c) None copts)"
proof -
  let ?rq = "(new_request PostVerb k c)\<lparr>rq_Params := OfCreate copts, rq_Body := body_of K None\<rparr>"
  have "rq_Verb ?rq = PostVerb" "rq_Body ?rq = NoBody" by (simp_all add: new_request_def body_of_def)
  then have "objects w1 = objects w" if "rest_Do rest ?rq w = Some (r, w1)" for w r w1
    using post_nothing that by blast
  then show ?thesis
    unfolding touches_only_def typed_client_def typed_Create_def resource_interface.simps do_into_eq
    by (auto split: option.splits outcome.splits)
qed

lemma ensure_with_isolated:
  assumes "\<And>x. obj = Some x \<Longrightarrow> kd_Name k x = n"
  shows "touches_only objects {key n} (ensure_with (typed_client k K c) gopts copts n obj)"
proof -
  have "touches_only objects {key n} (api_Create (typed_client k K c) obj copts)"
  proof (cases obj)
    case None
    with typed_create_nil_isolated [of copts] show ?thesis by (auto simp: touches_only_def)
  next
    case (Some x)
    with assms typed_methods_isolated(2) [of x copts] show ?thesis by simp
  qed
  with typed_methods_isolated(1) [of n gopts] show ?thesis
    unfolding ensure_with_def
    by (intro touches_only_bind touches_only_try touches_get_error) (auto intro: touches_create_error split: sum.split)
qed

text \<open>A nil object panics before anything is sent.\<close>

lemma typed_update_nil:
  "api_Update (typed_client k K c) None uopts w = Some (Panic nil_pointer, w)"
  "api_UpdateStatus (typed_client k K c) None uopts w = Some (Panic nil_pointer, w)"
  by (simp_all add: typed_client_def typed_Update_def typed_UpdateStatus_def io_panic_def)

end

end
