(* ===== verification/ClientWorld.thy ===== *)
theory ClientWorld
  imports RestServer Controller "HOL-Library.AList"
begin

text \<open>
  The MinIO and the PostgreSQL reconciler with the generated clients in place: \<open>with_clients\<close> makes
  their look-ups, creations and the list of DirectPV nodes those of \<open>RestClient\<close>, instead of
  parameters. Against a server that keeps the promises of \<open>RestServer\<close> a reconciler then either
  stores exactly its own object, or fails and stores nothing. \<open>shelf_rest\<close> is such a server.
\<close>

section \<open>The reconcilers' clients\<close>

definition list_names ::
  "('w, 'o) resource_interface \<Rightarrow> list_options \<Rightarrow> ('o \<Rightarrow> string) \<Rightarrow> ('w, string list) io" where
  "list_names api lopts name_of =
     io_bind (api_List api lopts) (\<lambda>r.
       case snd r of
         Some e \<Rightarrow> io_fail e
       | None \<Rightarrow> (case fst r of None \<Rightarrow> io_panic nil_pointer | Some l \<Rightarrow> io_ret (map name_of (ol_Items l))))"

text \<open>The empty options each call is given.\<close>

record call_options =
  co_Get :: get_options
  co_Create :: create_options
  co_List :: list_options

definition with_clients :: "call_options \<Rightarrow> (string \<Rightarrow> ('w, Tenant) resource_interface) \<Rightarrow>
    (string \<Rightarrow> ('w, pg_cluster) resource_interface) \<Rightarrow> ('w, DirectPVNode) resource_interface \<Rightarrow>
    'w external \<Rightarrow> 'w external" where
  "with_clients opts tenants clusters nodes X = X
     \<lparr>x_GetCR := (\<lambda>kind ns n.
        case kind of
          TenantKind \<Rightarrow> get_error (tenants ns) (co_Get opts) n
        | PGKind \<Rightarrow> get_error (clusters ns) (co_Get opts) n
        | _ \<Rightarrow> x_GetCR X kind ns n),
      x_CreateCR := (\<lambda>kind ns obj.
        case (kind, obj) of
          (TenantKind, None) \<Rightarrow> create_error (tenants ns) (co_Create opts) None
        | (TenantKind, Some (TenantCR t)) \<Rightarrow> create_error (tenants ns) (co_Create opts) (Some t)
        | (PGKind, None) \<Rightarrow> create_error (clusters ns) (co_Create opts) None
        | (PGKind, Some (PGCR p)) \<Rightarrow> create_error (clusters ns) (co_Create opts) (Some p)
        | _ \<Rightarrow> x_CreateCR X kind ns obj),
      x_ListDirectPVNodes := list_names nodes (co_List opts) (\<lambda>n. om_Name (node_Meta n))\<rparr>"

lemma ext_call_ensure:
  "ext_call (ensure_with api gopts copts n obj) =
     io_bind (io_try (ext_call (get_error api gopts n))) (\<lambda>r.
       case r of
         Inl e \<Rightarrow> if is_not_found e then ext_call (create_error api copts obj) else io_fail e
       | Inr _ \<Rightarrow> io_ret ())"
  by (auto simp: fun_eq_iff ext_call_def ensure_with_def io_bind_def io_try_def io_ret_def io_fail_def
      split: option.splits outcome.splits)

lemma with_clients_ensure:
  "ensure_cr (with_clients opts tenants clusters nodes X) TenantKind ns n (map_option TenantCR t) =
     ext_call (ensure_with (tenants ns) (co_Get opts) (co_Create opts) n t)"
  "ensure_cr (with_clients opts tenants clusters nodes X) PGKind ns n (map_option PGCR p) =
     ext_call (ensure_with (clusters ns) (co_Get opts) (co_Create opts) n p)"
proof -
  have t: "x_CreateCR (with_clients opts tenants clusters nodes X) TenantKind ns (map_option TenantCR t) =
      create_error (tenants ns) (co_Create opts) t"
    by (cases t) (simp_all add: with_clients_def)
  have p: "x_CreateCR (with_clients opts tenants clusters nodes X) PGKind ns (map_option PGCR p) =
      create_error (clusters ns) (co_Create opts) p"
    by (cases p) (simp_all add: with_clients_def)
  have g: "x_GetCR (with_clients opts tenants clusters nodes X) TenantKind ns n = get_error (tenants ns) (co_Get opts) n"
    "x_GetCR (with_clients opts tenants clusters nodes X) PGKind ns n = get_error (clusters ns) (co_Get opts) n"
    by (simp_all add: with_clients_def)
  show "ensure_cr (with_clients opts tenants clusters nodes X) TenantKind ns n (map_option TenantCR t) =
      ext_call (ensure_with (tenants ns) (co_Get opts) (co_Create opts) n t)"
    unfolding ensure_cr_def ext_call_ensure t g ..
  show "ensure_cr (with_clients opts tenants clusters nodes X) PGKind ns n (map_option PGCR p) =
      ext_call (ensure_with (clusters ns) (co_Get opts) (co_Create opts) n p)"
    unfolding ensure_cr_def ext_call_ensure p g ..
qed

lemma client_of_with_clients: "client_of (with_clients opts tenants clusters nodes X) kind = client_of X kind"
  by (simp add: client_of_def GetK8sClientConfig_def with_clients_def)

text \<open>Making a client sends nothing that changes an object.\<close>

definition quiet_setup :: "'w external \<Rightarrow> ('w \<Rightarrow> 'd objects) \<Rightarrow> bool" where
  "quiet_setup X objects \<longleftrightarrow>
     (\<forall>w r w1. x_InClusterConfig X w = Some (r, w1) \<longrightarrow> objects w1 = objects w) \<and>
     (\<forall>k w r w1. x_NewForConfig X k w = Some (r, w1) \<longrightarrow> objects w1 = objects w)"

lemma client_of_quiet:
  assumes "quiet_setup X objects" and "client_of X kind s = Some (r, s1)"
  shows "objects (op_world s1) = objects (op_world s)"
proof -
  from assms(2) obtain q t where q: "ext_call (x_InClusterConfig X) s = Some (q, t)"
    "s1 = t \<or> ext_call (x_NewForConfig X kind) t = Some (r, s1)"
    by (auto simp: client_of_def GetK8sClientConfig_def io_bind_def split: option.splits outcome.splits)
  then have "x_InClusterConfig X (op_world s) = Some (q, op_world t)"
    "s1 = t \<or> x_NewForConfig X kind (op_world t) = Some (r, op_world s1)"
    by (auto dest: ext_call_world)
  with assms(1) show ?thesis unfolding quiet_setup_def by metis
qed

section \<open>Put if absent\<close>

text \<open>
  What the end of a reconciler does to the objects of the server, whatever happens on the way: \<open>None\<close>
  is a desired object that is nil.\<close>

definition put_if_absent :: "('w \<Rightarrow> 'd objects) \<Rightarrow> string \<times> string \<times> string \<Rightarrow> 'd option \<Rightarrow>
    'w \<Rightarrow> unit outcome \<Rightarrow> 'w \<Rightarrow> bool" where
  "put_if_absent objects key desired w r w1 \<longleftrightarrow>
     (objects w1 = objects w \<and> (r = Ret () \<longrightarrow> objects w key \<noteq> None)) \<or>
     (\<exists>d. desired = Some d \<and> objects w key = None \<and> objects w1 = (objects w)(key \<mapsto> d))"

context typed_server begin

lemma ensure_with_puts:
  assumes "ensure_with (typed_client k K c) gopts copts n obj w = Some (r, w1)"
    and "\<And>x. obj = Some x \<Longrightarrow> kd_Name k x = n"
  shows "put_if_absent objects (own_key k c n) (map_option (\<lambda>x. admit (cd_Encode K x)) obj) w r w1"
proof -
  have rest: "objects w1 q = objects w q" if "q \<noteq> own_key k c n" for q
    using ensure_with_isolated [of obj n gopts copts] assms that unfolding touches_only_def by blast
  have same: "objects w1 = objects w" if "view w1 = view w"
  proof (rule ext)
    fix q show "objects w1 q = objects w q"
      using rest [of q] fun_cong [OF that, of n] by (cases "q = own_key k c n") (simp_all add: view_key)
  qed
  have upd: "objects w1 = (objects w)(own_key k c n \<mapsto> d)" if "view w1 = (view w)(n \<mapsto> d)" for d
  proof (rule ext)
    fix q show "objects w1 q = ((objects w)(own_key k c n \<mapsto> d)) q"
      using rest [of q] fun_cong [OF that, of n] by (cases "q = own_key k c n") (simp_all add: view_key)
  qed
  show ?thesis
  proof (cases obj)
    case None
    with client.ensure_with_nil [of gopts copts n w] assms(1) same show ?thesis
      by (auto simp: put_if_absent_def view_key)
  next
    case x: (Some x)
    with assms have n: "kd_Name k x = n" by simp
    show ?thesis
    proof (cases "view w n")
      case (Some d)
      from client.ensure_with_there [of w x d gopts copts] Some assms(1) x n
      have "view w1 = view w" by auto
      with same Some show ?thesis by (simp add: put_if_absent_def view_key)
    next
      case None
      from client.ensure_with_absent [of w x gopts copts] assms(1) x n None same upd
      show ?thesis by (auto simp: put_if_absent_def view_key)
    qed
  qed
qed

end

lemma client_ensure_puts:
  assumes "typed_server rest objects doc_name admit ws k K c" and "quiet_setup X objects"
    and "io_bind (client_of X kind) (\<lambda>_. ext_call (ensure_with (typed_client k K c) gopts copts n obj)) s = Some (r, s1)"
    and "\<And>x. obj = Some x \<Longrightarrow> kd_Name k x = n"
  shows "put_if_absent objects (own_key k c n) (map_option (\<lambda>x. admit (cd_Encode K x)) obj) (op_world s) r (op_world s1)"
proof -
  from assms(3) consider (ran) u t where "client_of X kind s = Some (Ret u, t)"
      "ext_call (ensure_with (typed_client k K c) gopts copts n obj) t = Some (r, s1)"
    | (stopped) q where "client_of X kind s = Some (q, s1)" "r \<noteq> Ret ()"
    by (auto simp: io_bind_def split: option.splits outcome.splits)
  then show ?thesis
  proof cases
    case ran
    then have "ensure_with (typed_client k K c) gopts copts n obj (op_world t) = Some (r, op_world s1)"
      by (blast dest: ext_call_world)
    from typed_server.ensure_with_puts [OF assms(1) this assms(4)]
      client_of_quiet [OF assms(2) ran(1)]
    show ?thesis by (simp add: put_if_absent_def)
  next
    case stopped
    from client_of_quiet [OF assms(2) stopped(1)] stopped(2)
    show ?thesis by (simp add: put_if_absent_def)
  qed
qed

context typed_server begin

lemma created_is_read:
  assumes "api_Create (typed_client k K c) (Some x) copts w = Some (Ret (y, None), w1)"
  shows "view w (kd_Name k x) = None \<and> view w1 (kd_Name k x) = Some (admit (cd_Encode K x)) \<and>
    (\<exists>w2. api_Get (typed_client k K c) (kd_Name k x) gopts w1 = Some (Ret (y, None), w2) \<and> view w2 = view w1) \<and>
    (\<exists>e w2. api_Create (typed_client k K c) (Some x) copts w1 = Some (Ret (Some (kd_Zero k), Some e), w2) \<and>
      is_already_exists e \<and> view w2 = view w1)"
  by (rule client.create_then_get [OF assms])

lemma ensure_names:
  "ensure_with (typed_client k K c) gopts copts (kd_Name k x) (Some x) w = Some (Ret (), w1) \<Longrightarrow>
     dom (view w1) = insert (kd_Name k x) (dom (view w))"
  by (rule client.ensure_with_names)

end

section \<open>A server on a shelf\<close>

text \<open>The objects in a list, the latest first; nothing is patched or watched here.\<close>

definition unsupported :: go_error where
  "unsupported = new_error ''the server does not allow this method on the requested resource''"

definition gone :: go_error where
  "gone = \<lparr>err_reason = NotFound, err_text = ''not found''\<rparr>"

definition taken :: go_error where
  "taken = \<lparr>err_reason = AlreadyExists, err_text = ''already exists''\<rparr>"

type_synonym 'd shelf = "((string \<times> string \<times> string) \<times> 'd) list"

definition shelf_one :: "('d \<Rightarrow> string) \<Rightarrow> ('d \<Rightarrow> 'd) \<Rightarrow> ('d \<Rightarrow> 'd \<Rightarrow> 'd) \<Rightarrow> 'd rest_request \<Rightarrow> string \<Rightarrow>
    'd shelf \<Rightarrow> 'd reply outcome \<times> 'd shelf" where
  "shelf_one name admit ws rq n w =
     (case (rq_Verb rq, map_of w (key_of rq n), rq_Body rq) of
        (GetVerb, None, _) \<Rightarrow> (Fail gone, w)
      | (GetVerb, Some d, _) \<Rightarrow> (if rq_SubResource rq = [] then (Ret (OneDoc d), w) else (Fail unsupported, w))
      | (PutVerb, None, _) \<Rightarrow> (Fail gone, w)
      | (PutVerb, Some old, Doc d) \<Rightarrow>
          (if name d \<noteq> n then (Fail unsupported, w)
           else let new = if rq_SubResource rq = [''status''] then ws old d else admit d
             in (Ret (OneDoc new), (key_of rq n, new) # w))
      | (DeleteVerb, None, _) \<Rightarrow> (Fail gone, w)
      | (DeleteVerb, Some d, _) \<Rightarrow> (Ret NoDoc, AList.delete (key_of rq n) w)
      | _ \<Rightarrow> (Fail unsupported, w))"

definition in_space :: "'d rest_request \<Rightarrow> string \<times> string \<times> string \<Rightarrow> bool" where
  "in_space rq key \<longleftrightarrow> fst key = rq_Resource rq \<and> fst (snd key) = space_of rq"

definition shelf_all :: "list_meta \<Rightarrow> ('d \<Rightarrow> string) \<Rightarrow> ('d \<Rightarrow> 'd) \<Rightarrow> 'd rest_request \<Rightarrow>
    'd shelf \<Rightarrow> 'd reply outcome \<times> 'd shelf" where
  "shelf_all lm name admit rq w =
     (case (rq_Verb rq, rq_Body rq) of
        (GetVerb, _) \<Rightarrow> (Ret (ManyDocs lm (map snd (filter (\<lambda>p. in_space rq (fst p)) (AList.clearjunk w)))), w)
      | (PostVerb, Doc d) \<Rightarrow>
          (if map_of w (key_of rq (name d)) = None
           then (Ret (OneDoc (admit d)), (key_of rq (name d), admit d) # w)
           else (Fail taken, w))
      | (DeleteVerb, OfDelete _) \<Rightarrow> (Ret NoDoc, filter (\<lambda>p. \<not> in_space rq (fst p)) w)
      | _ \<Rightarrow> (Fail unsupported, w))"

definition shelf_rest :: "list_meta \<Rightarrow> ('d \<Rightarrow> string) \<Rightarrow> ('d \<Rightarrow> 'd) \<Rightarrow> ('d \<Rightarrow> 'd \<Rightarrow> 'd) \<Rightarrow>
    ('d shelf, 'd) rest_interface" where
  "shelf_rest lm name admit ws =
     \<lparr>rest_Do = (\<lambda>rq w. Some (case rq_Name rq of
        None \<Rightarrow> shelf_all lm name admit rq w
      | Some n \<Rightarrow> shelf_one name admit ws rq n w)),
      rest_Watch = (\<lambda>rq w. Some (Fail unsupported, w))\<rparr>"

lemma shelf_errors [simp]: "is_not_found gone" "is_already_exists taken"
  by (simp_all add: gone_def taken_def is_not_found_def is_already_exists_def)

lemma key_of_in_space: "in_space rq key \<longleftrightarrow> key \<in> range (key_of rq)"
  by (cases key) (auto simp: in_space_def key_of_def)

lemma map_of_filter_key:
  "map_of (filter (\<lambda>p. \<not> in_space rq (fst p)) w) key = (if in_space rq key then None else map_of w key)"
  by (induction w) auto

lemma shelf_no_panic: "fst (shelf_one name admit ws rq n w) \<noteq> Panic p" "fst (shelf_all lm name admit rq w) \<noteq> Panic p"
  by (auto simp: shelf_one_def shelf_all_def Let_def split: verb.split option.split payload.split)

interpretation shelf: rest_server "shelf_rest lm doc_name admit ws" map_of doc_name admit ws
  for lm doc_name admit ws
proof
  fix rq :: "'a rest_request" and w :: "'a shelf"
  show "\<exists>r w1. rest_Do (shelf_rest lm doc_name admit ws) rq w = Some (r, w1) \<and> (\<forall>p. r \<noteq> Panic p)"
    using shelf_no_panic (1) [of doc_name admit ws rq _ w] shelf_no_panic(2) [of lm doc_name admit rq w]
    by (auto simp: shelf_rest_def split: option.split) (metis prod.collapse)+
next
  fix rq :: "'a rest_request" and w :: "'a shelf" and n d
  assume "rq_Verb rq = GetVerb" "rq_Name rq = Some n" "rq_SubResource rq = []" "map_of w (key_of rq n) = Some d"
  then show "\<exists>w1. rest_Do (shelf_rest lm doc_name admit ws) rq w = Some (Ret (OneDoc d), w1) \<and> map_of w1 = map_of w"
    by (simp add: shelf_rest_def shelf_one_def)
next
  fix rq :: "'a rest_request" and w :: "'a shelf" and n
  assume "rq_Verb rq = GetVerb" "rq_Name rq = Some n" "rq_SubResource rq = []" "map_of w (key_of rq n) = None"
  then show "\<exists>e w1. rest_Do (shelf_rest lm doc_name admit ws) rq w = Some (Fail e, w1) \<and> is_not_found e \<and>
      map_of w1 = map_of w"
    by (simp add: shelf_rest_def shelf_one_def)
next
  fix rq :: "'a rest_request" and w w1 :: "'a shelf" and d r
  assume "rq_Verb rq = PostVerb" "rq_Name rq = None" "rq_Body rq = Doc d"
    "rest_Do (shelf_rest lm doc_name admit ws) rq w = Some (r, w1)"
  then show "if map_of w (key_of rq (doc_name d)) = None
      then (r = Ret (OneDoc (admit d)) \<and> map_of w1 = (map_of w)(key_of rq (doc_name d) \<mapsto> admit d)) \<or>
        (\<exists>e. r = Fail e \<and> map_of w1 = map_of w)
      else \<exists>e. r = Fail e \<and> is_already_exists e \<and> map_of w1 = map_of w"
    by (auto simp: shelf_rest_def shelf_all_def split: if_splits)
next
  fix rq :: "'a rest_request" and w w1 :: "'a shelf" and r
  assume "rq_Verb rq = PostVerb" "rq_Body rq = NoBody" "rest_Do (shelf_rest lm doc_name admit ws) rq w = Some (r, w1)"
  then show "\<exists>e. r = Fail e \<and> map_of w1 = map_of w"
    by (auto simp: shelf_rest_def shelf_all_def shelf_one_def split: option.splits)
next
  fix rq :: "'a rest_request" and w w1 :: "'a shelf" and n d r
  assume "rq_Verb rq = PutVerb" "rq_Name rq = Some n" "rq_Body rq = Doc d" "doc_name d = n"
    "rest_Do (shelf_rest lm doc_name admit ws) rq w = Some (r, w1)"
  then show "case map_of w (key_of rq n) of
      None \<Rightarrow> \<exists>e. r = Fail e \<and> is_not_found e \<and> map_of w1 = map_of w
    | Some old \<Rightarrow>
        (\<exists>new. new = (if rq_SubResource rq = [''status''] then ws old d else admit d) \<and>
          r = Ret (OneDoc new) \<and> map_of w1 = (map_of w)(key_of rq n \<mapsto> new)) \<or>
        (\<exists>e. r = Fail e \<and> map_of w1 = map_of w)"
    by (auto simp: shelf_rest_def shelf_one_def Let_def split: option.splits)
next
  fix rq :: "'a rest_request" and w w1 :: "'a shelf" and n r
  assume "rq_Verb rq = DeleteVerb" "rq_Name rq = Some n" "rest_Do (shelf_rest lm doc_name admit ws) rq w = Some (r, w1)"
  then show "if map_of w (key_of rq n) = None then \<exists>e. r = Fail e \<and> is_not_found e \<and> map_of w1 = map_of w
      else (\<exists>x y. r = Ret x \<and> map_of w1 = (map_of w)(key_of rq n := y)) \<or> (\<exists>e. r = Fail e \<and> map_of w1 = map_of w)"
    by (auto simp: shelf_rest_def shelf_one_def delete_conv') blast+
next
  fix rq :: "'a rest_request" and w w1 :: "'a shelf" and r key
  assume run: "rest_Do (shelf_rest lm doc_name admit ws) rq w = Some (r, w1)" and key: "key \<notin> scope doc_name rq"
  show "map_of w1 key = map_of w key"
  proof (cases "rq_Name rq")
    case None
    with run have w1: "w1 = snd (shelf_all lm doc_name admit rq w)" by (simp add: shelf_rest_def)
    from None key show ?thesis unfolding w1
      by (auto simp: shelf_all_def scope_def map_of_filter_key key_of_in_space [symmetric] split: verb.splits payload.splits)
  next
    case (Some n)
    with run have w1: "w1 = snd (shelf_one doc_name admit ws rq n w)" by (simp add: shelf_rest_def)
    from Some key have "key \<noteq> key_of rq n" by (simp add: scope_def)
    then show ?thesis unfolding w1
      by (auto simp: shelf_one_def Let_def delete_conv' split: verb.split option.split payload.split)
  qed
next
  fix rq :: "'a rest_request" and w w1 :: "'a shelf" and q
  assume "rest_Watch (shelf_rest lm doc_name admit ws) rq w = Some (q, w1)"
  then show "map_of w1 = map_of w" by (simp add: shelf_rest_def)
qed

section \<open>The reconcilers' clients on the shelf\<close>

datatype shelf_doc = TenantDoc Tenant | ClusterDoc pg_cluster | NodeDoc DirectPVNode

fun doc_name :: "shelf_doc \<Rightarrow> string" where
  "doc_name (TenantDoc t) = om_Name (t_Meta t)"
| "doc_name (ClusterDoc p) = om_Name (pg_Meta p)"
| "doc_name (NodeDoc n) = om_Name (node_Meta n)"

definition unreadable :: go_error where
  "unreadable = new_error ''unable to decode an event from the watch stream''"

definition shelf_codec :: "('o \<Rightarrow> shelf_doc) \<Rightarrow> (shelf_doc \<Rightarrow> 'o option) \<Rightarrow> ('o, shelf_doc) codec" where
  "shelf_codec enc dec =
     \<lparr>cd_Encode = enc,
      cd_Into = (\<lambda>body x. case body of
          OneDoc d \<Rightarrow> (case dec d of Some y \<Rightarrow> (y, None) | None \<Rightarrow> (x, Some unreadable))
        | _ \<Rightarrow> (x, Some unreadable)),
      cd_IntoList = (\<lambda>body l. case body of
          ManyDocs m ds \<Rightarrow> (\<lparr>ol_ListMeta = Some m, ol_Items = List.map_filter dec ds\<rparr>, None)
        | _ \<Rightarrow> (l, Some unreadable))\<rparr>"

definition tenant_codec :: "(Tenant, shelf_doc) codec" where
  "tenant_codec = shelf_codec TenantDoc (\<lambda>d. case d of TenantDoc t \<Rightarrow> Some t | _ \<Rightarrow> None)"

definition cluster_codec :: "(pg_cluster, shelf_doc) codec" where
  "cluster_codec = shelf_codec ClusterDoc (\<lambda>d. case d of ClusterDoc p \<Rightarrow> Some p | _ \<Rightarrow> None)"

definition node_codec :: "(DirectPVNode, shelf_doc) codec" where
  "node_codec = shelf_codec NodeDoc (\<lambda>d. case d of NodeDoc n \<Rightarrow> Some n | _ \<Rightarrow> None)"

definition shelf_server :: "list_meta \<Rightarrow> (shelf_doc shelf, shelf_doc) rest_interface" where
  "shelf_server lm = shelf_rest lm doc_name (\<lambda>d. d) (\<lambda>old d. d)"

interpretation shelf_tenants: typed_server "shelf_server lm" map_of doc_name "\<lambda>d. d" "\<lambda>old d. d"
  tenants_kind tenant_codec "in_namespace (Some (group_New (shelf_server lm))) ns"
  for lm ns
  unfolding shelf_server_def
  by unfold_locales
    (simp_all add: in_namespace_def RESTClient_def group_New_def tenant_codec_def shelf_codec_def tenants_kind_def)

interpretation shelf_clusters: typed_server "shelf_server lm" map_of doc_name "\<lambda>d. d" "\<lambda>old d. d"
  clusters_kind cluster_codec "in_namespace (Some (group_New (shelf_server lm))) ns"
  for lm ns
  unfolding shelf_server_def
  by unfold_locales
    (simp_all add: in_namespace_def RESTClient_def group_New_def cluster_codec_def shelf_codec_def clusters_kind_def)

interpretation shelf_nodes: typed_server "shelf_server lm" map_of doc_name "\<lambda>d. d" "\<lambda>old d. d"
  nodes_kind node_codec "cluster_scoped (Some (group_New (shelf_server lm)))"
  for lm
  unfolding shelf_server_def
  by unfold_locales
    (simp_all add: cluster_scoped_def RESTClient_def group_New_def node_codec_def shelf_codec_def nodes_kind_def)

text \<open>The other parameters, over any world: secrets are there, and nothing has an effect.\<close>

definition idle :: "'w external" where
  "idle =
     \<lparr>x_GetNineCluster = (\<lambda>ns n. io_fail gone),
      x_GetService = (\<lambda>ns n. io_fail gone),
      x_GetSecret = (\<lambda>ns n. io_ret \<lparr>sec_Meta = empty_meta, sec_Type = [], sec_Data = None, sec_StringData = None\<rparr>),
      x_CreateSecret = (\<lambda>sec. io_ret ()),
      x_GetEndpoints = (\<lambda>ns n. io_fail gone),
      x_ListPods = (\<lambda>ns ls. io_ret []),
      x_SetControllerReference = (\<lambda>owner m. Inr m),
      x_InClusterConfig = io_ret (),
      x_NewForConfig = (\<lambda>k. io_ret ()),
      x_GetCR = (\<lambda>k ns n. io_fail gone),
      x_CreateCR = (\<lambda>k ns obj. io_fail unsupported),
      x_NewDirectPVClient = io_ret (),
      x_ListDirectPVNodes = io_ret [],
      x_ParseQuantity = integer_quantity,
      x_MD5Hex = (\<lambda>t. t),
      x_SprintRequest = (\<lambda>ns n. ns @ ''/'' @ n),
      x_RefClusterZKReplicasKey = ''reference.zookeeper.replicas'',
      x_RefClusterZKEndpointsKey = ''reference.zookeeper.endpoints'',
      x_Sleep = (\<lambda>n w. w),
      x_RandRead = (\<lambda>n. io_ret (replicate n 7)),
      x_SqlOpen = (\<lambda>conn. io_ret ()),
      x_DbExec = (\<lambda>conn stmt args. io_ret ()),
      x_MinioNew = (\<lambda>info ssl. io_ret ()),
      x_BucketExists = (\<lambda>info b. io_ret True),
      x_MakeBucket = (\<lambda>info b. io_ret ()),
      x_StatObject = (\<lambda>info b f. io_ret ()),
      x_PutObject = (\<lambda>info b f. io_ret ()),
      x_HdfsNewClient = (\<lambda>as. io_ret ()),
      x_HdfsStat = (\<lambda>as d. io_ret True),
      x_HdfsMkdirAll = (\<lambda>as d m. io_ret ())\<rparr>"

lemma idle_simps [simp]:
  "x_GetSecret idle ns n = io_ret \<lparr>sec_Meta = empty_meta, sec_Type = [], sec_Data = None, sec_StringData = None\<rparr>"
  "x_SetControllerReference idle owner m = Inr m"
  "x_InClusterConfig idle = io_ret ()"
  "x_NewForConfig idle k = io_ret ()"
  "x_NewDirectPVClient idle = io_ret ()"
  "x_ParseQuantity idle = integer_quantity"
  "x_RandRead idle i = io_ret (replicate i 7)"
  by (simp_all add: idle_def)

lemma idle_quiet: "quiet_setup idle objects" and idle_keeps_name: "keeps_name idle"
  by (simp_all add: quiet_setup_def keeps_name_def io_ret_def)

section \<open>Properties\<close>

lemma tenant_client_key: "own_key tenants_kind (in_namespace g ns) n = (''tenants'', ns, n)"
  by (simp add: own_key_def tenants_kind_def in_namespace_def)

text \<open>
  C19: the MinIO reconciler, with the generated client, against any server that keeps its promises:
  what it does to the server's objects after it has constructed the tenant is put-if-absent.
  Either it changes no object at all, and reports success only if the tenant was already
  there, or the tenant was absent and is stored under \<open>tenants\<close>, the cluster's namespace and
  name, as the server admits it, and nothing else changes. If the construction failed it
  stores nothing, and it panics only if the construction does.\<close>
theorem reconcileMinioTenant_puts:
  assumes "typed_server rest objects name admit ws tenants_kind K
      (in_namespace (Some (group_New rest)) (cluster_namespace cluster))"
    and "quiet_setup X objects" and "keeps_name X"
    and "Z = with_clients opts (Tenants K (Some (group_New rest))) clusters nodes X"
    and "reconcileMinioTenant Z cluster minio s = Some (r, s2)"
  shows "\<exists>q s1. constructMinioTenant Z cluster minio s = Some (q, s1) \<and>
    (case q of
       Panic p \<Rightarrow> r = Panic p \<and> s2 = s1
     | Fail e \<Rightarrow> put_if_absent objects (''tenants'', cluster_namespace cluster, NineResourceName cluster [])
         None (op_world s1) r (op_world s2)
     | Ret t \<Rightarrow> put_if_absent objects (''tenants'', cluster_namespace cluster, NineResourceName cluster [])
         (Some (admit (cd_Encode K t))) (op_world s1) r (op_world s2))"
proof -
  let ?c = "in_namespace (Some (group_New rest)) (cluster_namespace cluster)"
  let ?n = "NineResourceName cluster []"
  have tail: "put_if_absent objects (''tenants'', cluster_namespace cluster, ?n)
      (map_option (\<lambda>t. admit (cd_Encode K t)) obj) (op_world s1) r (op_world s2)"
    if "io_bind (client_of Z TenantKind) (\<lambda>_. ensure_cr Z TenantKind (cluster_namespace cluster) ?n
        (map_option TenantCR obj)) s1 = Some (r, s2)"
      "\<And>t. obj = Some t \<Longrightarrow> om_Name (t_Meta t) = ?n" for obj s1
    using client_ensure_puts [OF assms(1,2), of TenantKind "co_Get opts" "co_Create opts" ?n obj s1 r s2] that
    by (simp add: assms(4) client_of_with_clients with_clients_ensure Tenants_def tenant_client_key tenants_kind_def
        [THEN arg_cong [where f = kd_Name]])
  have names: "om_Name (t_Meta t) = ?n" if "constructMinioTenant Z cluster minio s = Some (Ret t, s1)" for t s1
    using assms(3,4) by (intro constructMinioTenant_name [OF _ that]) (simp add: keeps_name_def with_clients_def)
  obtain q s1 where q: "constructMinioTenant Z cluster minio s = Some (q, s1)"
    using assms(5) by (auto simp: reconcileMinioTenant_def io_bind_def io_try_def split: option.splits)
  have "case q of
       Panic p \<Rightarrow> r = Panic p \<and> s2 = s1
     | Fail e \<Rightarrow> put_if_absent objects (''tenants'', cluster_namespace cluster, ?n) None (op_world s1) r (op_world s2)
     | Ret t \<Rightarrow> put_if_absent objects (''tenants'', cluster_namespace cluster, ?n)
         (Some (admit (cd_Encode K t))) (op_world s1) r (op_world s2)"
  proof (cases q)
    case (Ret t)
    with assms(5) q have "io_bind (client_of Z TenantKind) (\<lambda>_. ensure_cr Z TenantKind (cluster_namespace cluster) ?n
        (map_option TenantCR (Some t))) s1 = Some (r, s2)"
      by (simp add: reconcileMinioTenant_def io_bind_def [of "io_try m" for m] io_try_def)
    from tail [OF this] names q Ret show ?thesis by simp
  next
    case (Fail e)
    with assms(5) q have "io_bind (client_of Z TenantKind) (\<lambda>_. ensure_cr Z TenantKind (cluster_namespace cluster) ?n
        (map_option TenantCR None)) s1 = Some (r, s2)"
      by (simp add: reconcileMinioTenant_def io_bind_def [of "io_try m" for m] io_try_def)
    from tail [OF this] Fail show ?thesis by simp
  next
    case (Panic p)
    with assms(5) q show ?thesis
      by (simp add: reconcileMinioTenant_def io_bind_def [of "io_try m" for m] io_try_def)
  qed
  with q show ?thesis by blast
qed

definition shelf_clients :: "list_meta \<Rightarrow> call_options \<Rightarrow> shelf_doc shelf external" where
  "shelf_clients lm opts =
     with_clients opts (Tenants tenant_codec (Some (group_New (shelf_server lm))))
       (Clusters cluster_codec (Some (group_New (shelf_server lm))))
       (DirectPVNodes node_codec (Some (group_New (shelf_server lm)))) idle"

definition demo_shelf :: "shelf_doc shelf" where
  "demo_shelf = [((''directpvnodes'', [], ''node-1''),
     NodeDoc (zero_DirectPVNode\<lparr>node_Meta := empty_meta\<lparr>om_Name := ''node-1''\<rparr>\<rparr>))]"

definition at_shelf :: "shelf_doc shelf \<Rightarrow> shelf_doc shelf op_state" where
  "at_shelf w = \<lparr>op_MetastoreReplicas = 1, op_world = w\<rparr>"

lemma at_shelf_call: "m w = Some (r, w1) \<Longrightarrow> ext_call m (at_shelf w) = Some (r, at_shelf w1)"
  by (simp add: ext_call_def at_shelf_def)

lemma shelf_clients_simps [simp]:
  "x_GetSecret (shelf_clients lm opts) = x_GetSecret idle"
  "x_SetControllerReference (shelf_clients lm opts) owner m = Inr m"
  "x_InClusterConfig (shelf_clients lm opts) = io_ret ()"
  "x_NewForConfig (shelf_clients lm opts) kind = io_ret ()"
  "x_NewDirectPVClient (shelf_clients lm opts) = io_ret ()"
  "x_ParseQuantity (shelf_clients lm opts) = integer_quantity"
  "x_RandRead (shelf_clients lm opts) = x_RandRead idle"
  by (simp_all add: shelf_clients_def with_clients_def)

lemma demo_nodes: "x_ListDirectPVNodes (shelf_clients lm opts) demo_shelf = Some (Ret [''node-1''], demo_shelf)"
  by (simp add: shelf_clients_def with_clients_def list_names_def DirectPVNodes_def typed_client_def
      typed_List_def io_bind_def shelf_nodes.do_into_eq)
    (simp add: shelf_server_def shelf_rest_def shelf_all_def new_request_def nodes_kind_def cluster_scoped_def
      in_space_def space_of_def demo_shelf_def node_codec_def shelf_codec_def io_ret_def map_filter_simps)

lemma ext_ret: "ext_call (io_ret a) s = Some (Ret a, s)"
  by (simp add: ext_call_def io_ret_def)

lemma demo_construct:
  "\<exists>t. constructMinioTenant (shelf_clients lm opts) demo_cluster minio_default (at_shelf demo_shelf) =
     Some (Ret t, at_shelf demo_shelf)"
proof -
  let ?X = "shelf_clients lm opts" and ?s = "at_shelf demo_shelf"
  have secrets: "ensure_secret ?X key desired ?s = Some (Ret (), ?s)" for key desired
    by (simp add: ensure_secret_def get_secret_def io_bind_def io_try_def ext_ret io_ret_def)
  have "own_secret ?X demo_cluster sec = Inr sec" for sec :: secret by (simp add: own_secret_def)
  then have config: "reconcileMinioTenantConfigSecret ?X demo_cluster ?s = Some (Ret (), ?s)"
    by (simp add: reconcileMinioTenantConfigSecret_def io_of_def io_bind_def io_ret_def secrets)
  have "\<exists>keys. GenerateCredentials ?X ?s = Some (Ret keys, ?s)"
    by (simp add: GenerateCredentials_def readBytes_def key_string_def io_simps io_bind_def ext_ret)
  then have user: "reconcileMinioNewUserSecret ?X demo_cluster ?s = Some (Ret (), ?s)"
    using \<open>\<And>sec. own_secret ?X demo_cluster sec = Inr sec\<close>
    by (auto simp: reconcileMinioNewUserSecret_def minio_credentials_def io_of_def io_bind_def io_try_def io_ret_def secrets)
  have nodes: "getDirectPVNodesCount ?X ?s = Some (Ret 1, ?s)"
    using at_shelf_call [where m = "x_ListDirectPVNodes ?X", OF demo_nodes]
    by (simp add: getDirectPVNodesCount_def GetK8sClientConfig_def io_bind_def ext_ret io_ret_def Let_def
        int32_of_int_def len_def)
  have "\<exists>q. minio_capacity ?X demo_cluster minio_default 1 = Ret q"
    by (simp add: minio_capacity_def CapacityPerVolume_def integer_quantity_itoa div_int64_def GetDiskNum_def
        minio_default_def zero_cluster_def zero_resource_def int32_of_int_def int_of_int32_def)
  then show ?thesis
    using config user nodes
    by (auto simp: constructMinioTenant_def io_bind_def deref_capacity_def io_ret_def own_tenant_def io_of_def)
qed

lemma demo_tail:
  assumes "om_Name (t_Meta t) = n"
  shows "ensure_with (Tenants tenant_codec (Some (group_New (shelf_server lm))) ns) gopts copts n (Some t) demo_shelf =
     Some (Ret (), ((''tenants'', ns, n), TenantDoc t) # demo_shelf)"
proof -
  let ?api = "Tenants tenant_codec (Some (group_New (shelf_server lm))) ns"
  note defs = Tenants_def typed_client_def do_into_def RESTClient_def group_New_def io_try_def shelf_server_def shelf_rest_def new_request_def
    tenants_kind_def in_namespace_def key_of_def space_of_def demo_shelf_def tenant_codec_def shelf_codec_def
    io_ret_def io_fail_def io_bind_def
  have "get_error ?api gopts n demo_shelf = Some (Fail gone, demo_shelf)"
    by (simp add: get_error_def typed_Get_def shelf_one_def defs)
  moreover have "create_error ?api copts (Some t) demo_shelf = Some (Ret (), ((''tenants'', ns, n), TenantDoc t) # demo_shelf)"
    using assms by (simp add: create_error_def typed_Create_def body_of_def shelf_all_def defs)
  ultimately show ?thesis by (simp add: ensure_with_def io_bind_def io_try_def)
qed

theorem reconcileMinioTenant_puts_witness:
  "\<forall>lm opts. \<exists>t w. reconcileMinioTenant (shelf_clients lm opts) demo_cluster minio_default (at_shelf demo_shelf) =
       Some (Ret (), at_shelf w) \<and>
     put_if_absent map_of (''tenants'', ''dwh'', NineResourceName demo_cluster []) (Some (TenantDoc t))
       demo_shelf (Ret ()) w"
proof (intro allI)
  fix lm opts
  let ?X = "shelf_clients lm opts" and ?s = "at_shelf demo_shelf" and ?n = "NineResourceName demo_cluster []"
  from demo_construct obtain t where t: "constructMinioTenant ?X demo_cluster minio_default ?s = Some (Ret t, ?s)" by blast
  have name: "om_Name (t_Meta t) = ?n"
    by (rule constructMinioTenant_name [OF _ t]) (simp add: keeps_name_def)
  have "client_of ?X TenantKind ?s = Some (Ret (), ?s)"
    by (simp add: client_of_def GetK8sClientConfig_def io_bind_def ext_ret)
  with t have run: "reconcileMinioTenant ?X demo_cluster minio_default ?s =
      ext_call (ensure_with (Tenants tenant_codec (Some (group_New (shelf_server lm))) ''dwh'') (co_Get opts) (co_Create opts)
        ?n (Some t)) ?s"
    by (simp add: reconcileMinioTenant_def io_bind_def io_try_def)
      (simp add: shelf_clients_def with_clients_ensure(1) [where t = "Some t", simplified])
  have rec: "reconcileMinioTenant ?X demo_cluster minio_default ?s =
      Some (Ret (), at_shelf (((''tenants'', ''dwh'', ?n), TenantDoc t) # demo_shelf))"
    unfolding run by (rule at_shelf_call) (rule demo_tail [OF name])
  have tenants: "typed_server (shelf_server lm) map_of doc_name (\<lambda>d. d) (\<lambda>old d. d) tenants_kind tenant_codec
      (in_namespace (Some (group_New (shelf_server lm))) (cluster_namespace demo_cluster))"
    by (rule shelf_tenants.typed_server_axioms)
  from reconcileMinioTenant_puts [OF tenants idle_quiet idle_keeps_name shelf_clients_def rec] t
  show "\<exists>t w. reconcileMinioTenant ?X demo_cluster minio_default ?s = Some (Ret (), at_shelf w) \<and>
      put_if_absent map_of (''tenants'', ''dwh'', ?n) (Some (TenantDoc t)) demo_shelf (Ret ()) w"
    using rec by (auto simp: tenant_codec_def shelf_codec_def at_shelf_def)
qed

text \<open>
  C20: a generated client of any kind keeps to its own objects. Getting, deleting and patching touch
  at most the object named, creating and updating at most the object of that name, listing and
  deleting a collection at most objects of its resource and namespace, watching none; a creation
  of nil touches none, and an update of nil panics before a request is sent. Objects of other
  kinds, other namespaces and other names stay as they are, whatever the server answers.\<close>
theorem typed_client_isolated:
  assumes "typed_server rest objects name admit ws k K c"
  shows "touches_only objects {own_key k c n} (api_Get (typed_client k K c) n gopts) \<and>
    touches_only objects {own_key k c n} (api_Delete (typed_client k K c) n dopts) \<and>
    touches_only objects {own_key k c n} (api_Patch (typed_client k K c) n pt data popts subs) \<and>
    touches_only objects {own_key k c (kd_Name k x)} (api_Create (typed_client k K c) (Some x) copts) \<and>
    touches_only objects {own_key k c (kd_Name k x)} (api_Update (typed_client k K c) (Some x) uopts) \<and>
    touches_only objects {own_key k c (kd_Name k x)} (api_UpdateStatus (typed_client k K c) (Some x) uopts) \<and>
    touches_only objects (range (own_key k c)) (api_List (typed_client k K c) lopts) \<and>
    touches_only objects (range (own_key k c)) (api_DeleteCollection (typed_client k K c) dopts lopts) \<and>
    touches_only objects {} (api_Watch (typed_client k K c) lopts) \<and>
    touches_only objects {} (api_Create (typed_client k K c) None copts) \<and>
    api_Update (typed_client k K c) None uopts w = Some (Panic nil_pointer, w) \<and>
    api_UpdateStatus (typed_client k K c) None uopts w = Some (Panic nil_pointer, w)"
  using typed_server.typed_methods_isolated [OF assms] typed_server.typed_watch_isolated [OF assms]
    typed_server.typed_create_nil_isolated [OF assms] typed_server.typed_update_nil [OF assms]
  by (intro conjI)

theorem typed_client_isolated_witness:
  "\<forall>lm opts dopts. touches_only map_of {(''tenants'', ''dwh'', ''demo'')}
     (api_Delete (Tenants tenant_codec (Some (group_New (shelf_server lm))) ''dwh'') ''demo'' dopts)"
proof (intro allI)
  fix lm dopts
  from shelf_tenants.typed_server_axioms [of lm "''dwh''", THEN typed_client_isolated, of "''demo''" _ dopts]
  show "touches_only map_of {(''tenants'', ''dwh'', ''demo'')}
     (api_Delete (Tenants tenant_codec (Some (group_New (shelf_server lm))) ''dwh'') ''demo'' dopts)"
    unfolding Tenants_def tenant_client_key by blast
qed

text \<open>
  C21: what a generated client of any kind reports as created is there, and is what a later look-up
  reads: if a creation returns an object without an error, the object did not exist before, the
  server holds the document it admitted, and getting the name returns the same object, again
  without an error and without a change. A second creation of that name fails, with
  already-exists and an empty object.\<close>
theorem typed_create_get:
  assumes "typed_server rest objects name admit ws k K c"
    and "api_Create (typed_client k K c) (Some x) copts w = Some (Ret (y, None), w1)"
  shows "objects w (own_key k c (kd_Name k x)) = None \<and>
    objects w1 (own_key k c (kd_Name k x)) = Some (admit (cd_Encode K x)) \<and>
    (\<exists>w2. api_Get (typed_client k K c) (kd_Name k x) gopts w1 = Some (Ret (y, None), w2) \<and>
      client_view objects k c w2 = client_view objects k c w1) \<and>
    (\<exists>e w2. api_Create (typed_client k K c) (Some x) copts w1 = Some (Ret (Some (kd_Zero k), Some e), w2) \<and>
      is_already_exists e \<and> client_view objects k c w2 = client_view objects k c w1)"
  using typed_server.created_is_read [OF assms] by (simp add: client_view_def own_key_def)

theorem typed_create_get_witness:
  "\<forall>lm copts gopts. \<exists>w1 w2.
     api_Create (Tenants tenant_codec (Some (group_New (shelf_server lm))) ''dwh'') (Some zero_Tenant) copts [] =
       Some (Ret (Some zero_Tenant, None), w1) \<and>
     api_Get (Tenants tenant_codec (Some (group_New (shelf_server lm))) ''dwh'') [] gopts w1 =
       Some (Ret (Some zero_Tenant, None), w2)"
proof (intro allI)
  fix lm copts gopts
  let ?c = "in_namespace (Some (group_New (shelf_server lm))) ''dwh''"
  have created: "api_Create (typed_client tenants_kind tenant_codec ?c) (Some zero_Tenant) copts [] =
      Some (Ret (Some zero_Tenant, None), [((''tenants'', ''dwh'', []), TenantDoc zero_Tenant)])"
    by (simp add: typed_client_def typed_Create_def body_of_def shelf_all_def do_into_def RESTClient_def
        group_New_def io_try_def shelf_server_def shelf_rest_def new_request_def tenants_kind_def in_namespace_def
        key_of_def space_of_def tenant_codec_def shelf_codec_def io_ret_def io_bind_def zero_Tenant_def empty_meta_def)
  from typed_create_get [OF shelf_tenants.typed_server_axioms created, of gopts]
  show "\<exists>w1 w2. api_Create (Tenants tenant_codec (Some (group_New (shelf_server lm))) ''dwh'') (Some zero_Tenant) copts [] =
       Some (Ret (Some zero_Tenant, None), w1) \<and>
     api_Get (Tenants tenant_codec (Some (group_New (shelf_server lm))) ''dwh'') [] gopts w1 =
       Some (Ret (Some zero_Tenant, None), w2)"
    using created by (auto simp: Tenants_def tenants_kind_def zero_Tenant_def empty_meta_def)
qed

end
