(* ===== verification/FakeClient.thy ===== *)
theory FakeClient
  imports ClientWorld
begin

text \<open>
  The fake clients for tests: \<open>fake_ninecluster.go\<close> and the four of PostgreSQL. Every method hands an
  action to \<open>testing.Fake\<close> of client-go, a parameter as are its objects (\<open>runtime.Object\<close>), and casts
  what comes back. The generator wrote the methods alike for every kind; here they are written
  once. \<open>fake_tracker\<close> states what the object tracker promises; the fake clients then keep the same
  contract \<open>object_api\<close> as the real ones.
\<close>

section \<open>Actions\<close>

datatype 'd fake_action =
    GetAction "string \<times> string" string string string
  | ListAction "string \<times> string" string string string list_options
  | WatchAction "string \<times> string" string string list_options
  | CreateAction "string \<times> string" string string "'d option"
  | UpdateAction "string \<times> string" string string "'d option"
  | UpdateSubresourceAction "string \<times> string" string string string "'d option"
  | DeleteAction "string \<times> string" string string string delete_options
  | DeleteCollectionAction "string \<times> string" string string list_options
  | PatchSubresourceAction "string \<times> string" string string string string string "string list"

text \<open>
  \<open>Invokes\<close> and \<open>InvokesWatch\<close> answer an object, which may be nil, and an error; \<open>tf_Selector\<close> is the label
  selector of \<open>ExtractFromListOptions\<close>.\<close>

record ('w, 'd) testing_fake =
  tf_Invokes :: "'d fake_action \<Rightarrow> 'd \<Rightarrow> ('w, 'd option \<times> go_error option) io"
  tf_InvokesWatch :: "'d fake_action \<Rightarrow> ('w, watcher option \<times> go_error option) io"
  tf_Selector :: "list_options \<Rightarrow> ((string, string) gomap \<Rightarrow> bool) option"

text \<open>
  A kind for the fakes: the kind of its client, its group and version, its name as a kind, the labels of an object, and
  how objects and lists become a \<open>runtime.Object\<close> and are cast back; a failing cast panics.\<close>

record ('o, 'd) fake_kind =
  fk_Kind :: "'o kind_of_object"
  fk_GroupVersion :: "string \<times> string"
  fk_KindName :: string
  fk_Labels :: "'o \<Rightarrow> (string, string) gomap"
  fk_Object :: "'o \<Rightarrow> 'd"
  fk_AsObject :: "'d \<Rightarrow> 'o option"
  fk_List :: "'o object_list \<Rightarrow> 'd"
  fk_AsList :: "'d \<Rightarrow> 'o object_list option"

definition bad_conversion :: string where
  "bad_conversion = ''interface conversion: runtime.Object is of another type''"

definition fk_resource :: "('o, 'd) fake_kind \<Rightarrow> string" where
  "fk_resource f = kd_Resource (fk_Kind f)"

definition empty_list :: "'o object_list" where
  "empty_list = \<lparr>ol_ListMeta = None, ol_Items = []\<rparr>"

section \<open>The methods\<close>

text \<open>\<open>if obj == nil { return nil, err }; return obj.(*T), err\<close>\<close>

definition invoke_one :: "('w, 'd) testing_fake \<Rightarrow> ('o, 'd) fake_kind \<Rightarrow> 'd fake_action \<Rightarrow>
    ('w, 'o option \<times> go_error option) io" where
  "invoke_one F f action =
     io_bind (tf_Invokes F action (fk_Object f (kd_Zero (fk_Kind f)))) (\<lambda>(obj, err).
       case obj of
         None \<Rightarrow> io_ret (None, err)
       | Some d \<Rightarrow>
           (case fk_AsObject f d of
              None \<Rightarrow> io_panic bad_conversion
            | Some x \<Rightarrow> io_ret (Some x, err)))"

definition fake_Get where
  "fake_Get F f ns name (options :: get_options) =
     invoke_one F f (GetAction (fk_GroupVersion f) (fk_resource f) ns name)"

definition fake_List where
  "fake_List F f ns opts =
     io_bind (tf_Invokes F (ListAction (fk_GroupVersion f) (fk_resource f) (fk_KindName f) ns opts)
         (fk_List f empty_list)) (\<lambda>(obj, err).
       case obj of
         None \<Rightarrow> io_ret (None, err)
       | Some d \<Rightarrow>
           (let label = (case tf_Selector F opts of None \<Rightarrow> (\<lambda>_. True) | Some l \<Rightarrow> l) in
            case fk_AsList f d of
              None \<Rightarrow> io_panic bad_conversion
            | Some l \<Rightarrow>
                io_ret (Some \<lparr>ol_ListMeta = ol_ListMeta l,
                  ol_Items = filter (\<lambda>item. label (fk_Labels f item)) (ol_Items l)\<rparr>, err)))"

definition fake_Watch where
  "fake_Watch F f ns opts = tf_InvokesWatch F (WatchAction (fk_GroupVersion f) (fk_resource f) ns opts)"

definition fake_Create where
  "fake_Create F f ns obj (opts :: create_options) =
     invoke_one F f (CreateAction (fk_GroupVersion f) (fk_resource f) ns (map_option (fk_Object f) obj))"

definition fake_Update where
  "fake_Update F f ns obj (opts :: update_options) =
     invoke_one F f (UpdateAction (fk_GroupVersion f) (fk_resource f) ns (map_option (fk_Object f) obj))"

definition fake_UpdateStatus where
  "fake_UpdateStatus F f ns obj (opts :: update_options) =
     invoke_one F f (UpdateSubresourceAction (fk_GroupVersion f) (fk_resource f) ''status'' ns
       (map_option (fk_Object f) obj))"

definition fake_Delete where
  "fake_Delete F f ns name opts =
     io_bind (tf_Invokes F (DeleteAction (fk_GroupVersion f) (fk_resource f) ns name opts)
       (fk_Object f (kd_Zero (fk_Kind f)))) (\<lambda>(_, err). io_ret err)"

definition fake_DeleteCollection where
  "fake_DeleteCollection F f ns (opts :: delete_options) listOpts =
     io_bind (tf_Invokes F (DeleteCollectionAction (fk_GroupVersion f) (fk_resource f) ns listOpts)
       (fk_List f empty_list)) (\<lambda>(_, err). io_ret err)"

definition fake_Patch where
  "fake_Patch F f ns name pt data (opts :: patch_options) subresources =
     invoke_one F f (PatchSubresourceAction (fk_GroupVersion f) (fk_resource f) ns name pt data subresources)"

definition fake_client :: "('w, 'd) testing_fake \<Rightarrow> ('o, 'd) fake_kind \<Rightarrow> string \<Rightarrow> ('w, 'o) resource_interface" where
  "fake_client F f ns =
     \<lparr>api_Create = fake_Create F f ns, api_Update = fake_Update F f ns,
      api_UpdateStatus = fake_UpdateStatus F f ns, api_Delete = fake_Delete F f ns,
      api_DeleteCollection = fake_DeleteCollection F f ns, api_Get = fake_Get F f ns,
      api_List = fake_List F f ns, api_Watch = fake_Watch F f ns, api_Patch = fake_Patch F f ns\<rparr>"

section \<open>The clients\<close>

text \<open>How the objects and lists of a kind are \<open>runtime.Object\<close>s.\<close>

record ('o, 'd) runtime_type =
  rt_Object :: "'o \<Rightarrow> 'd"
  rt_AsObject :: "'d \<Rightarrow> 'o option"
  rt_List :: "'o object_list \<Rightarrow> 'd"
  rt_AsList :: "'d \<Rightarrow> 'o object_list option"

definition with_runtime ::
  "('o, 'd) runtime_type \<Rightarrow> 'o kind_of_object \<Rightarrow> string \<times> string \<Rightarrow> string \<Rightarrow> ('o \<Rightarrow> (string, string) gomap) \<Rightarrow>
     ('o, 'd) fake_kind" where
  "with_runtime T k gv kind labels =
     \<lparr>fk_Kind = k, fk_GroupVersion = gv, fk_KindName = kind, fk_Labels = labels,
      fk_Object = rt_Object T, fk_AsObject = rt_AsObject T, fk_List = rt_List T, fk_AsList = rt_AsList T\<rparr>"

definition FakeNineClusters ::
  "('w, 'd) testing_fake \<Rightarrow> (NineCluster, 'd) runtime_type \<Rightarrow> string \<Rightarrow> ('w, NineCluster) resource_interface" where
  "FakeNineClusters F T namespace =
     fake_client F (with_runtime T nineclusters_kind (''nine.nineinfra.tech'', ''v1alpha1'') ''NineCluster''
       (\<lambda>n. om_Labels (nc_Meta n))) namespace"

text \<open>\<open>SchemeGroupVersion\<close> of the PostgreSQL package is not in the repository: it is the parameter \<open>gv\<close>.\<close>

definition fake_clusters_kind :: "string \<times> string \<Rightarrow> (pg_cluster, 'd) runtime_type \<Rightarrow> (pg_cluster, 'd) fake_kind" where
  "fake_clusters_kind gv T = with_runtime T clusters_kind gv ''Cluster'' (\<lambda>p. om_Labels (pg_Meta p))"

definition FakeClusters ::
  "string \<times> string \<Rightarrow> ('w, 'd) testing_fake \<Rightarrow> (pg_cluster, 'd) runtime_type \<Rightarrow> string \<Rightarrow> ('w, pg_cluster) resource_interface" where
  "FakeClusters gv F T namespace = fake_client F (fake_clusters_kind gv T) namespace"

definition FakeBackups where
  "FakeBackups gv name_of zero labels F T namespace =
     fake_client F (with_runtime T \<lparr>kd_Resource = ''backups'', kd_Name = name_of, kd_Zero = zero\<rparr>
       gv ''Backup'' labels) namespace"

definition FakeScheduledBackups where
  "FakeScheduledBackups gv name_of zero labels F T namespace =
     fake_client F (with_runtime T \<lparr>kd_Resource = ''scheduledbackups'', kd_Name = name_of, kd_Zero = zero\<rparr>
       gv ''ScheduledBackup'' labels) namespace"

definition FakePoolers where
  "FakePoolers gv name_of zero labels F T namespace =
     fake_client F (with_runtime T \<lparr>kd_Resource = ''poolers'', kd_Name = name_of, kd_Zero = zero\<rparr>
       gv ''Pooler'' labels) namespace"

section \<open>The contract of the clients, kept by the fakes\<close>

text \<open>
  What the object tracker promises for the objects of one kind and namespace: it keeps creations as
  they are, or as \<open>settle\<close> makes them, answers nil beside an error, and holds only objects of the kind.\<close>

locale fake_tracker =
  fixes F :: "('w, 'd) testing_fake"
    and f :: "('o, 'd) fake_kind"
    and ns :: string
    and objects :: "'w \<Rightarrow> 'd objects"
    and settle :: "'d \<Rightarrow> 'd"
  assumes typed: "objects w (fk_resource f, ns, n) = Some d \<Longrightarrow> fk_AsObject f d \<noteq> None"
    and settled: "fk_AsObject f (settle (fk_Object f x)) \<noteq> None"
    and tracked: "objects w (fk_resource f, ns, n) = Some d \<Longrightarrow>
      \<exists>w1. tf_Invokes F (GetAction (fk_GroupVersion f) (fk_resource f) ns n) z w = Some (Ret (Some d, None), w1) \<and>
        objects w1 = objects w"
    and untracked: "objects w (fk_resource f, ns, n) = None \<Longrightarrow>
      \<exists>e w1. tf_Invokes F (GetAction (fk_GroupVersion f) (fk_resource f) ns n) z w = Some (Ret (None, Some e), w1) \<and>
        is_not_found e \<and> objects w1 = objects w"
    and track: "objects w (fk_resource f, ns, kd_Name (fk_Kind f) x) = None \<Longrightarrow>
      \<exists>w1. (tf_Invokes F (CreateAction (fk_GroupVersion f) (fk_resource f) ns (Some (fk_Object f x))) z w =
          Some (Ret (Some (settle (fk_Object f x)), None), w1) \<and>
        objects w1 = (objects w)((fk_resource f, ns, kd_Name (fk_Kind f) x) \<mapsto> settle (fk_Object f x))) \<or>
       (\<exists>e. tf_Invokes F (CreateAction (fk_GroupVersion f) (fk_resource f) ns (Some (fk_Object f x))) z w =
          Some (Ret (None, Some e), w1) \<and> objects w1 = objects w)"
    and track_again: "objects w (fk_resource f, ns, kd_Name (fk_Kind f) x) = Some d \<Longrightarrow>
      \<exists>e w1. tf_Invokes F (CreateAction (fk_GroupVersion f) (fk_resource f) ns (Some (fk_Object f x))) z w =
          Some (Ret (None, Some e), w1) \<and> is_already_exists e \<and> objects w1 = objects w"

definition fake_view :: "('w \<Rightarrow> 'd objects) \<Rightarrow> ('o, 'd) fake_kind \<Rightarrow> string \<Rightarrow> 'w \<Rightarrow> string \<rightharpoonup> 'd" where
  "fake_view objects f ns w n = objects w (fk_resource f, ns, n)"

definition cast_back :: "('o, 'd) fake_kind \<Rightarrow> 'd \<Rightarrow> 'o \<times> go_error option" where
  "cast_back f d = (case fk_AsObject f d of None \<Rightarrow> (kd_Zero (fk_Kind f), None) | Some x \<Rightarrow> (x, None))"

lemma fake_view_same: "objects w1 = objects w \<Longrightarrow> fake_view objects f ns w1 = fake_view objects f ns w"
  by (rule ext) (simp add: fake_view_def)

lemma fake_view_upd: "objects w1 = (objects w)((fk_resource f, ns, n) \<mapsto> d) \<Longrightarrow>
    fake_view objects f ns w1 = (fake_view objects f ns w)(n \<mapsto> d)"
  by (rule ext) (simp add: fake_view_def)

lemma invoke_one_Some:
  "tf_Invokes F a (fk_Object f (kd_Zero (fk_Kind f))) w = Some (Ret (Some d, err), w1) \<Longrightarrow> fk_AsObject f d \<noteq> None \<Longrightarrow>
     invoke_one F f a w = Some (Ret (Some (fst (cast_back f d)), err), w1)"
  "tf_Invokes F a (fk_Object f (kd_Zero (fk_Kind f))) w = Some (Ret (None, err), w1) \<Longrightarrow>
     invoke_one F f a w = Some (Ret (None, err), w1)"
  by (auto simp: invoke_one_def io_bind_def io_ret_def cast_back_def)

sublocale fake_tracker \<subseteq> fake: object_api "fake_client F f ns" "fake_view objects f ns" "fk_Object f" "cast_back f"
  settle "kd_Name (fk_Kind f)" None
proof
  fix w n d gopts
  assume there: "fake_view objects f ns w n = Some d"
  then have "fk_AsObject f d \<noteq> None" by (intro typed [of w n]) (simp add: fake_view_def)
  moreover from this have "snd (cast_back f d) = None" by (auto simp: cast_back_def)
  moreover obtain w1 where "tf_Invokes F (GetAction (fk_GroupVersion f) (fk_resource f) ns n)
      (fk_Object f (kd_Zero (fk_Kind f))) w = Some (Ret (Some d, None), w1)" "objects w1 = objects w"
    using tracked there unfolding fake_view_def by blast
  ultimately show "\<exists>w1. api_Get (fake_client F f ns) n gopts w =
      Some (Ret (Some (fst (cast_back f d)), snd (cast_back f d)), w1) \<and> fake_view objects f ns w1 = fake_view objects f ns w"
    by (auto simp: fake_client_def fake_Get_def dest: invoke_one_Some(1) intro: fake_view_same)
next
  fix w n gopts
  assume "fake_view objects f ns w n = None"
  then obtain e w1 where "tf_Invokes F (GetAction (fk_GroupVersion f) (fk_resource f) ns n)
      (fk_Object f (kd_Zero (fk_Kind f))) w = Some (Ret (None, Some e), w1)" "is_not_found e" "objects w1 = objects w"
    using untracked unfolding fake_view_def by blast
  then show "\<exists>e w1. api_Get (fake_client F f ns) n gopts w = Some (Ret (None, Some e), w1) \<and> is_not_found e \<and>
      fake_view objects f ns w1 = fake_view objects f ns w"
    by (auto simp: fake_client_def fake_Get_def dest: invoke_one_Some(2) intro: fake_view_same)
next
  fix w x copts
  let ?rt = "fk_Object f x" and ?z = "fk_Object f (kd_Zero (fk_Kind f))" and ?n = "kd_Name (fk_Kind f) x"
  let ?act = "CreateAction (fk_GroupVersion f) (fk_resource f) ns (Some ?rt)"
  assume "fake_view objects f ns w ?n = None"
  then have "objects w (fk_resource f, ns, ?n) = None" by (simp add: fake_view_def)
  from track [OF this, of ?z] obtain w1 where
    "(tf_Invokes F ?act ?z w = Some (Ret (Some (settle ?rt), None), w1) \<and>
        objects w1 = (objects w)((fk_resource f, ns, ?n) \<mapsto> settle ?rt)) \<or>
     (\<exists>e. tf_Invokes F ?act ?z w = Some (Ret (None, Some e), w1) \<and> objects w1 = objects w)"
    (is "?kept \<or> ?refused") by blast
  then show "\<exists>w1. (api_Create (fake_client F f ns) (Some x) copts w =
        Some (Ret (Some (fst (cast_back f (settle ?rt))), snd (cast_back f (settle ?rt))), w1) \<and>
      fake_view objects f ns w1 = (fake_view objects f ns w)(?n \<mapsto> settle ?rt)) \<or>
    (\<exists>e. api_Create (fake_client F f ns) (Some x) copts w = Some (Ret (None, Some e), w1) \<and>
      fake_view objects f ns w1 = fake_view objects f ns w)"
  proof
    assume kept: ?kept
    then have "invoke_one F f ?act w = Some (Ret (Some (fst (cast_back f (settle ?rt))), None), w1)"
      using settled [of x] by (intro invoke_one_Some(1)) auto
    moreover have "snd (cast_back f (settle ?rt)) = None" using settled [of x] by (auto simp: cast_back_def)
    moreover have "fake_view objects f ns w1 = (fake_view objects f ns w)(?n \<mapsto> settle ?rt)"
      using kept by (intro fake_view_upd) blast
    ultimately show ?thesis by (auto simp: fake_client_def fake_Create_def)
  next
    assume ?refused
    then obtain e where "tf_Invokes F ?act ?z w = Some (Ret (None, Some e), w1)" "objects w1 = objects w" by blast
    then have "invoke_one F f ?act w = Some (Ret (None, Some e), w1)"
      "fake_view objects f ns w1 = fake_view objects f ns w"
      by (blast intro: invoke_one_Some(2) fake_view_same)+
    then show ?thesis by (auto simp: fake_client_def fake_Create_def)
  qed
next
  fix w x d copts
  assume "fake_view objects f ns w (kd_Name (fk_Kind f) x) = Some d"
  then obtain e w1 where "tf_Invokes F (CreateAction (fk_GroupVersion f) (fk_resource f) ns (Some (fk_Object f x)))
      (fk_Object f (kd_Zero (fk_Kind f))) w = Some (Ret (None, Some e), w1)" "is_already_exists e" "objects w1 = objects w"
    using track_again unfolding fake_view_def by blast
  then show "\<exists>e w1. api_Create (fake_client F f ns) (Some x) copts w = Some (Ret (None, Some e), w1) \<and>
      is_already_exists e \<and> fake_view objects f ns w1 = fake_view objects f ns w"
    by (auto simp: fake_client_def fake_Create_def dest: invoke_one_Some(2) intro: fake_view_same)
qed

context fake_tracker begin

lemma ensure_names:
  "ensure_with (fake_client F f ns) gopts copts (kd_Name (fk_Kind f) x) (Some x) v = Some (Ret (), v1) \<Longrightarrow>
     dom (fake_view objects f ns v1) = insert (kd_Name (fk_Kind f) x) (dom (fake_view objects f ns v))"
  by (rule fake.ensure_with_names)

end

section \<open>A tracker on the shelf\<close>

text \<open>The actions the reconcilers make, for a tracker of clusters; a real one has the others too.\<close>

definition tracked_clusters :: "pg_cluster shelf \<Rightarrow> shelf_doc objects" where
  "tracked_clusters w = map_option ClusterDoc \<circ> map_of w"

definition shelf_fake :: "(pg_cluster shelf, shelf_doc) testing_fake" where
  "shelf_fake =
     \<lparr>tf_Invokes = (\<lambda>action z w.
        case action of
          GetAction gv res ns n \<Rightarrow>
            (case map_of w (res, ns, n) of
               None \<Rightarrow> Some (Ret (None, Some gone), w)
             | Some p \<Rightarrow> Some (Ret (Some (ClusterDoc p), None), w))
        | CreateAction gv res ns (Some (ClusterDoc p)) \<Rightarrow>
            (if map_of w (res, ns, om_Name (pg_Meta p)) = None
             then Some (Ret (Some (ClusterDoc p), None), ((res, ns, om_Name (pg_Meta p)), p) # w)
             else Some (Ret (None, Some taken), w))
        | _ \<Rightarrow> Some (Ret (None, Some unsupported), w)),
      tf_InvokesWatch = (\<lambda>action w. Some (Ret (None, Some unsupported), w)),
      tf_Selector = (\<lambda>opts. None)\<rparr>"

definition cluster_runtime :: "(pg_cluster, shelf_doc) runtime_type" where
  "cluster_runtime =
     \<lparr>rt_Object = ClusterDoc, rt_AsObject = (\<lambda>d. case d of ClusterDoc p \<Rightarrow> Some p | _ \<Rightarrow> None),
      rt_List = (\<lambda>l. ClusterDoc zero_pg_cluster), rt_AsList = (\<lambda>d. None)\<rparr>"

interpretation shelf_fakes: fake_tracker shelf_fake "fake_clusters_kind gv cluster_runtime" ns tracked_clusters "\<lambda>d. d"
  for gv ns
  by unfold_locales
    (auto simp: shelf_fake_def fake_clusters_kind_def with_runtime_def cluster_runtime_def fk_resource_def
      clusters_kind_def tracked_clusters_def fun_eq_iff)

section \<open>Properties\<close>

text \<open>
  C22: a test that passes with a fake client leaves the objects a run with the real one leaves. If
  the object tracker and the API server keep their promises and hold objects of the same names, a
  look-up and creation by each that succeeds, as the reconcilers make it, leaves them with the
  same names again: those they had, and the one asked for.\<close>
theorem fake_agrees:
  assumes "typed_server rest objects name admit ws k K c" and "fake_tracker F f ns tracked settle"
    and "fk_Kind f = k"
    and "dom (client_view objects k c w) = dom (fake_view tracked f ns v)"
    and "ensure_with (typed_client k K c) gopts copts (kd_Name k x) (Some x) w = Some (Ret (), w1)"
    and "ensure_with (fake_client F f ns) gopts copts (kd_Name k x) (Some x) v = Some (Ret (), v1)"
  shows "dom (client_view objects k c w1) = dom (fake_view tracked f ns v1) \<and>
    dom (client_view objects k c w1) = insert (kd_Name k x) (dom (client_view objects k c w))"
  using typed_server.ensure_names [OF assms(1,5)] fake_tracker.ensure_names [OF assms(2), of gopts copts x v v1]
    assms(3,4,6)
  by simp

theorem fake_agrees_witness:
  "\<forall>lm gv gopts copts. \<exists>w1 v1.
     ensure_with (Clusters cluster_codec (Some (group_New (shelf_server lm))) ''dwh'') gopts copts [] (Some zero_pg_cluster) [] =
       Some (Ret (), w1) \<and>
     ensure_with (FakeClusters gv shelf_fake cluster_runtime ''dwh'') gopts copts [] (Some zero_pg_cluster) [] =
       Some (Ret (), v1) \<and>
     dom (client_view map_of clusters_kind (in_namespace (Some (group_New (shelf_server lm))) ''dwh'') w1) =
       dom (fake_view tracked_clusters (fake_clusters_kind gv cluster_runtime) ''dwh'' v1)"
proof (intro allI)
  fix lm gv gopts copts
  let ?c = "in_namespace (Some (group_New (shelf_server lm))) ''dwh''" and ?f = "fake_clusters_kind gv cluster_runtime"
  let ?w = "[((''clusters'', ''dwh'', []), ClusterDoc zero_pg_cluster)]"
    and ?v = "[((''clusters'', ''dwh'', []), zero_pg_cluster)]"
  have name: "kd_Name clusters_kind zero_pg_cluster = []"
    by (simp add: clusters_kind_def zero_pg_cluster_def empty_meta_def)
  have real: "ensure_with (typed_client clusters_kind cluster_codec ?c) gopts copts [] (Some zero_pg_cluster) [] =
      Some (Ret (), ?w)"
    by (simp add: ensure_with_def get_error_def create_error_def typed_client_def typed_Get_def typed_Create_def
        body_of_def do_into_def RESTClient_def group_New_def io_try_def shelf_server_def shelf_rest_def new_request_def
        clusters_kind_def in_namespace_def key_of_def space_of_def cluster_codec_def shelf_codec_def io_ret_def
        io_fail_def io_bind_def shelf_one_def shelf_all_def zero_pg_cluster_def empty_meta_def)
  have fake: "ensure_with (fake_client shelf_fake ?f ''dwh'') gopts copts [] (Some zero_pg_cluster) [] =
      Some (Ret (), ?v)"
    by (simp add: ensure_with_def get_error_def create_error_def fake_client_def fake_Get_def fake_Create_def
        invoke_one_def shelf_fake_def fake_clusters_kind_def with_runtime_def cluster_runtime_def fk_resource_def
        clusters_kind_def io_try_def io_ret_def io_fail_def io_bind_def zero_pg_cluster_def empty_meta_def)
  have start: "dom (client_view map_of clusters_kind ?c []) = dom (fake_view tracked_clusters ?f ''dwh'' [])"
    by (simp add: client_view_def fake_view_def tracked_clusters_def dom_def)
  from fake_agrees [OF shelf_clusters.typed_server_axioms shelf_fakes.fake_tracker_axioms _ start,
      of gopts copts zero_pg_cluster ?w ?v] real fake
  have "dom (client_view map_of clusters_kind ?c ?w) = dom (fake_view tracked_clusters ?f ''dwh'' ?v)"
    by (simp add: name fake_clusters_kind_def with_runtime_def)
  with real fake show "\<exists>w1 v1.
     ensure_with (Clusters cluster_codec (Some (group_New (shelf_server lm))) ''dwh'') gopts copts [] (Some zero_pg_cluster) [] =
       Some (Ret (), w1) \<and>
     ensure_with (FakeClusters gv shelf_fake cluster_runtime ''dwh'') gopts copts [] (Some zero_pg_cluster) [] =
       Some (Ret (), v1) \<and>
     dom (client_view map_of clusters_kind ?c w1) = dom (fake_view tracked_clusters ?f ''dwh'' v1)"
    unfolding Clusters_def FakeClusters_def by blast
qed

end
