(* ===== verification/GoMemory.thy ===== *)
theory GoMemory
  imports Prelude "HOL-Library.Finite_Map"
begin

text \<open>
  Memory, for code whose point is aliasing: cells at addresses, which are allocated and never
  freed. A reference to a map is the address of a finite map; a slice is a window of an array.
  The locale \<open>deep_copying\<close> states what a deep copy is, and is closed under pairs, structs, slices and
  maps, so that it holds of a type when it holds of the types of its fields.
\<close>

section \<open>Cells\<close>

record 'c memory =
  mem_next :: nat
  mem_cells :: "nat \<rightharpoonup> 'c"

definition allocate :: "'c \<Rightarrow> 'c memory \<Rightarrow> nat \<times> 'c memory" where
  "allocate c m = (mem_next m, \<lparr>mem_next = Suc (mem_next m), mem_cells = (mem_cells m)(mem_next m \<mapsto> c)\<rparr>)"

definition wf_memory :: "'c memory \<Rightarrow> bool" where
  "wf_memory m \<longleftrightarrow> (\<forall>a. mem_next m \<le> a \<longrightarrow> mem_cells m a = None)"

text \<open>Nothing that was there has changed.\<close>

definition extends :: "'c memory \<Rightarrow> 'c memory \<Rightarrow> bool" where
  "extends m m1 \<longleftrightarrow> wf_memory m1 \<and> mem_next m \<le> mem_next m1 \<and>
     (\<forall>a. a < mem_next m \<longrightarrow> mem_cells m1 a = mem_cells m a)"

text \<open>The part of the memory that was allocated from an address on.\<close>

definition since :: "nat \<Rightarrow> 'c memory \<Rightarrow> 'c memory" where
  "since n m = m\<lparr>mem_cells := (\<lambda>a. if a < n then None else mem_cells m a)\<rparr>"

definition part_of :: "'c memory \<Rightarrow> 'c memory \<Rightarrow> bool" where
  "part_of m m1 \<longleftrightarrow> mem_cells m \<subseteq>\<^sub>m mem_cells m1"

lemma extends_refl [intro]: "wf_memory m \<Longrightarrow> extends m m"
  by (simp add: extends_def)

lemma extends_trans [trans]: "extends m m1 \<Longrightarrow> extends m1 m2 \<Longrightarrow> extends m m2"
  unfolding extends_def by (metis order.strict_trans2 order.trans)

lemma extends_wf: "extends m m1 \<Longrightarrow> wf_memory m1"
  by (simp add: extends_def)

lemma extends_part: "wf_memory m \<Longrightarrow> extends m m1 \<Longrightarrow> part_of m m1"
  by (auto simp: part_of_def map_le_def extends_def wf_memory_def dom_def) (metis not_le option.distinct(1))

lemma extends_since_part: "extends m m1 \<Longrightarrow> wf_memory m \<Longrightarrow> part_of (since n m) (since n m1)"
  by (auto simp: part_of_def map_le_def extends_def wf_memory_def since_def dom_def)
    (metis not_le option.distinct(1))

lemma since_part: "n \<le> k \<Longrightarrow> part_of (since k m) (since n m)"
  by (auto simp: part_of_def map_le_def since_def dom_def split: if_splits)

lemma since_part_all: "part_of (since n m) m"
  by (auto simp: part_of_def map_le_def since_def dom_def split: if_splits)

lemma part_of_cell: "part_of m m1 \<Longrightarrow> mem_cells m a = Some c \<Longrightarrow> mem_cells m1 a = Some c"
  by (auto simp: part_of_def map_le_def dom_def)

lemma allocate_extends: "wf_memory m \<Longrightarrow> extends m (snd (allocate c m))"
  by (auto simp: allocate_def extends_def wf_memory_def)

lemma allocate_cell [simp]:
  "mem_cells (snd (allocate c m)) (fst (allocate c m)) = Some c" "fst (allocate c m) = mem_next m"
  by (simp_all add: allocate_def)

section \<open>Deep copies\<close>

text \<open>
  \<open>reads m h\<close> is the value a piece of data \<open>h\<close> has in a memory, if no reference in it dangles. A deep copy
  leaves the memory as it was, but for what it allocates, and has the value of the original in
  that part alone: it shares nothing with the original.\<close>

locale deep_copying =
  fixes copy_into :: "'h \<Rightarrow> 'c memory \<Rightarrow> 'h \<times> 'c memory"
    and reads :: "'c memory \<Rightarrow> 'h \<Rightarrow> 'v option"
  assumes stays: "reads m h = Some v \<Longrightarrow> part_of m m1 \<Longrightarrow> reads m1 h = Some v"
    and copied: "wf_memory m \<Longrightarrow> reads m h = Some v \<Longrightarrow> copy_into h m = (h1, m1) \<Longrightarrow>
      extends m m1 \<and> reads (since (mem_next m) m1) h1 = Some v"
begin

text \<open>
  So the two are independent: whatever becomes of the memory that was there before the copy, the
  copy keeps its value, and whatever is stored in the cells of the copy, the original does.\<close>

lemma independent:
  assumes "wf_memory m" "reads m h = Some v" "copy_into h m = (h1, m1)"
  shows "(\<forall>a. mem_next m \<le> a \<longrightarrow> mem_cells m2 a = mem_cells m1 a) \<Longrightarrow> reads m2 h1 = Some v"
    and "(\<forall>a. a < mem_next m \<longrightarrow> mem_cells m2 a = mem_cells m1 a) \<Longrightarrow> reads m2 h = Some v"
proof -
  note cp = copied [OF assms]
  show "reads m2 h1 = Some v" if same: "\<forall>a. mem_next m \<le> a \<longrightarrow> mem_cells m2 a = mem_cells m1 a"
  proof (rule stays [where m = "since (mem_next m) m1"])
    show "part_of (since (mem_next m) m1) m2"
      using same by (auto simp: part_of_def map_le_def since_def dom_def split: if_splits)
  qed (use cp in simp)
  show "reads m2 h = Some v" if "\<forall>a. a < mem_next m \<longrightarrow> mem_cells m2 a = mem_cells m1 a"
  proof (rule stays [OF assms(2)])
    have "mem_cells m2 a = Some c" if "mem_cells m a = Some c" for a c
    proof -
      from that assms(1) have "a < mem_next m" by (cases "a < mem_next m") (auto simp: wf_memory_def)
      with that cp \<open>\<forall>a. a < mem_next m \<longrightarrow> mem_cells m2 a = mem_cells m1 a\<close> show ?thesis by (simp add: extends_def)
    qed
    then show "part_of m m2" by (auto simp: part_of_def map_le_def dom_def)
  qed
qed

end

text \<open>What was read in a part is read in a larger one.\<close>

definition local_reads :: "('c memory \<Rightarrow> 'h \<Rightarrow> 'v option) \<Rightarrow> bool" where
  "local_reads rd \<longleftrightarrow> (\<forall>m m1 h v. rd m h = Some v \<longrightarrow> part_of m m1 \<longrightarrow> rd m1 h = Some v)"

lemma deep_local: "deep_copying cp rd \<Longrightarrow> local_reads rd"
  unfolding local_reads_def by (intro allI impI) (rule deep_copying.stays)

lemma local_readsD: "local_reads rd \<Longrightarrow> rd m h = Some v \<Longrightarrow> part_of m m1 \<Longrightarrow> rd m1 h = Some v"
  unfolding local_reads_def by blast

lemma read_later: "local_reads rd \<Longrightarrow> rd m h = Some v \<Longrightarrow> wf_memory m \<Longrightarrow> extends m m1 \<Longrightarrow> rd m1 h = Some v"
  by (rule local_readsD [OF _ _ extends_part])

lemma read_since_later:
  "local_reads rd \<Longrightarrow> rd (since n m) h = Some v \<Longrightarrow> extends m m1 \<Longrightarrow> wf_memory m \<Longrightarrow> rd (since n m1) h = Some v"
  by (rule local_readsD [OF _ _ extends_since_part])

lemma read_since_earlier:
  "local_reads rd \<Longrightarrow> rd (since k m) h = Some v \<Longrightarrow> n \<le> k \<Longrightarrow> rd (since n m) h = Some v"
  by (rule local_readsD [OF _ _ since_part])

subsection \<open>Values and structs\<close>

text \<open>Data without references: a copy is an assignment.\<close>

definition assign :: "'h \<Rightarrow> 'c memory \<Rightarrow> 'h \<times> 'c memory" where
  "assign h m = (h, m)"

definition reads_plain :: "'c memory \<Rightarrow> 'h \<Rightarrow> 'h option" where
  "reads_plain m h = Some h"

interpretation plain: deep_copying assign reads_plain
  by unfold_locales (auto simp: assign_def reads_plain_def)

text \<open>A reference that is assigned and not followed: a deep copy only where it is nil.\<close>

definition reads_nil :: "'v \<Rightarrow> 'c memory \<Rightarrow> 'h option \<Rightarrow> 'v option" where
  "reads_nil v m r = (if r = None then Some v else None)"

lemma deep_nil: "deep_copying assign (reads_nil v)"
  by unfold_locales (auto simp: assign_def reads_nil_def split: if_splits)

text \<open>A struct, by one of its fields, or by several as a tuple.\<close>

lemma deep_struct:
  assumes "deep_copying cp rd" and "\<And>x h. get (put x h) = x" and "\<And>x h v. build (put x h) v = build h v"
  shows "deep_copying (\<lambda>h m. let (x, m1) = cp (get h) m in (put x h, m1))
    (\<lambda>m h. map_option (build h) (rd m (get h)))"
proof
  fix m h v m1
  assume "map_option (build h) (rd m (get h)) = Some v" "part_of m m1"
  moreover then obtain w where "rd m (get h) = Some w" "v = build h w" by auto
  ultimately show "map_option (build h) (rd m1 (get h)) = Some v"
    using local_readsD [OF deep_local [OF assms(1)], of m "get h" w m1] by simp
next
  fix m h v h1 m1
  assume wf: "wf_memory m" and "map_option (build h) (rd m (get h)) = Some v"
    and "(let (x, m1) = cp (get h) m in (put x h, m1)) = (h1, m1)"
  then obtain x w where "cp (get h) m = (x, m1)" "h1 = put x h" "rd m (get h) = Some w" "v = build h w"
    by (auto split: prod.splits)
  with deep_copying.copied [OF assms(1) wf] assms(2,3)
  show "extends m m1 \<and> map_option (build h1) (rd (since (mem_next m) m1) (get h1)) = Some v" by simp
qed

text \<open>Two fields, copied one after the other.\<close>

definition copy_pair where
  "copy_pair cp1 cp2 h m = (let (x, m1) = cp1 (fst h) m; (y, m2) = cp2 (snd h) m1 in ((x, y), m2))"

definition reads_pair where
  "reads_pair rd1 rd2 m h =
     (case rd1 m (fst h) of None \<Rightarrow> None | Some v \<Rightarrow> map_option (Pair v) (rd2 m (snd h)))"

text \<open>Stages one after the other, without the tuples: how the copy of a struct is written.\<close>

lemma case_prod_case_prod: "case_prod g (case_prod f p) = case_prod (\<lambda>a b. case_prod g (f a b)) p"
  by (cases p) simp

lemmas copy_stages = copy_pair_def assign_def Let_def case_prod_case_prod prod.case fst_conv snd_conv simp_thms

lemma deep_pair:
  assumes "deep_copying cp1 rd1" "deep_copying cp2 rd2"
  shows "deep_copying (copy_pair cp1 cp2) (reads_pair rd1 rd2)"
proof
  fix m h v m1
  assume "reads_pair rd1 rd2 m h = Some v" and part: "part_of m m1"
  then obtain v1 v2 where "rd1 m (fst h) = Some v1" "rd2 m (snd h) = Some v2" "v = (v1, v2)"
    by (auto simp: reads_pair_def split: option.splits)
  then show "reads_pair rd1 rd2 m1 h = Some v"
    using local_readsD [OF deep_local [OF assms(1)] _ part, of "fst h" v1]
      local_readsD [OF deep_local [OF assms(2)] _ part, of "snd h" v2]
    by (simp add: reads_pair_def)
next
  fix m h v h1 m2
  assume wf: "wf_memory m" and "reads_pair rd1 rd2 m h = Some v" and "copy_pair cp1 cp2 h m = (h1, m2)"
  then obtain v1 v2 x y m1 where v: "rd1 m (fst h) = Some v1" "rd2 m (snd h) = Some v2" "v = (v1, v2)"
    and c: "cp1 (fst h) m = (x, m1)" "cp2 (snd h) m1 = (y, m2)" "h1 = (x, y)"
    by (auto simp: copy_pair_def reads_pair_def split: option.splits prod.splits)
  note loc = assms [THEN deep_local]
  from deep_copying.copied [OF assms(1) wf v(1) c(1)]
  have one: "extends m m1" "rd1 (since (mem_next m) m1) x = Some v1" by simp_all
  have wf1: "wf_memory m1" and le: "mem_next m \<le> mem_next m1" using one(1) by (simp_all add: extends_def)
  have "rd2 m1 (snd h) = Some v2" by (rule read_later [OF loc(2) v(2) wf one(1)])
  from deep_copying.copied [OF assms(2) wf1 this c(2)]
  have two: "extends m1 m2" "rd2 (since (mem_next m1) m2) y = Some v2" by simp_all
  have "rd1 (since (mem_next m) m2) x = Some v1" by (rule read_since_later [OF loc(1) one(2) two(1) wf1])
  moreover have "rd2 (since (mem_next m) m2) y = Some v2" by (rule read_since_earlier [OF loc(2) two(2) le])
  ultimately show "extends m m2 \<and> reads_pair rd1 rd2 (since (mem_next m) m2) h1 = Some v"
    using extends_trans [OF one(1) two(1)] v(3) c(3) by (simp add: reads_pair_def)
qed

subsection \<open>Slices\<close>

text \<open>The elements, one after the other: \<open>for i := range *in\<close>.\<close>

fun copy_all :: "('h \<Rightarrow> 'c memory \<Rightarrow> 'h \<times> 'c memory) \<Rightarrow> 'h list \<Rightarrow> 'c memory \<Rightarrow> 'h list \<times> 'c memory" where
  "copy_all cp [] m = ([], m)"
| "copy_all cp (h # hs) m = (let (x, m1) = cp h m; (xs, m2) = copy_all cp hs m1 in (x # xs, m2))"

fun reads_all :: "('c memory \<Rightarrow> 'h \<Rightarrow> 'v option) \<Rightarrow> 'c memory \<Rightarrow> 'h list \<Rightarrow> 'v list option" where
  "reads_all rd m [] = Some []"
| "reads_all rd m (h # hs) =
     (case rd m h of None \<Rightarrow> None | Some v \<Rightarrow> map_option (Cons v) (reads_all rd m hs))"

lemma reads_all_local:
  assumes "local_reads rd"
  shows "local_reads (reads_all rd)"
  unfolding local_reads_def
proof (intro allI impI)
  fix m m1 hs vs
  assume "reads_all rd m hs = Some vs" and part: "part_of m m1"
  then show "reads_all rd m1 hs = Some vs"
  proof (induction hs arbitrary: vs)
    case (Cons h hs)
    then obtain v ws where "rd m h = Some v" "reads_all rd m hs = Some ws" "vs = v # ws"
      by (auto split: option.splits)
    with Cons.IH [of ws] part local_readsD [OF assms _ part, of h v] show ?case by simp
  qed simp
qed

lemma reads_all_elem: "reads_all rd m hs = Some vs \<Longrightarrow> x \<in> set vs \<Longrightarrow> \<exists>h. rd m h = Some x"
  by (induction hs arbitrary: vs) (auto split: option.splits)

lemma copy_all_copied:
  assumes "deep_copying cp rd" "wf_memory m" "reads_all rd m hs = Some vs" "copy_all cp hs m = (xs, m2)"
  shows "extends m m2 \<and> reads_all rd (since (mem_next m) m2) xs = Some vs"
  using assms(2-4)
proof (induction hs arbitrary: m vs xs m2)
  case Nil
  then show ?case by auto
next
  case (Cons h hs)
  from Cons.prems(2,3) obtain v ws x ys m1 where
    v: "rd m h = Some v" "reads_all rd m hs = Some ws" "vs = v # ws"
    and c: "cp h m = (x, m1)" "copy_all cp hs m1 = (ys, m2)" "xs = x # ys"
    by (auto split: option.splits prod.splits)
  note loc = deep_local [OF assms(1)] and locs = reads_all_local [OF deep_local [OF assms(1)]]
  from deep_copying.copied [OF assms(1) Cons.prems(1) v(1) c(1)]
  have one: "extends m m1" "rd (since (mem_next m) m1) x = Some v" by simp_all
  have wf1: "wf_memory m1" and le: "mem_next m \<le> mem_next m1" using one(1) by (simp_all add: extends_def)
  have "reads_all rd m1 hs = Some ws" by (rule read_later [OF locs v(2) Cons.prems(1) one(1)])
  from Cons.IH [OF wf1 this c(2)]
  have two: "extends m1 m2" "reads_all rd (since (mem_next m1) m2) ys = Some ws" by simp_all
  have "rd (since (mem_next m) m2) x = Some v" by (rule read_since_later [OF loc one(2) two(1) wf1])
  moreover have "reads_all rd (since (mem_next m) m2) ys = Some ws" by (rule read_since_earlier [OF locs two(2) le])
  ultimately show ?case using extends_trans [OF one(1) two(1)] v(3) c(3) by simp
qed

text \<open>
  A slice is a window of an array; \<open>wrap\<close> and \<open>unwrap\<close> say which cells hold arrays of the element type. \<open>None\<close>
  is the nil slice, which stays nil. A copy is a new array of the length of the slice.\<close>

record slice =
  sl_array :: nat
  sl_from :: nat
  sl_len :: nat

definition slice_items :: "('c \<Rightarrow> 'h list option) \<Rightarrow> 'c memory \<Rightarrow> slice \<Rightarrow> 'h list option" where
  "slice_items unwrap m s =
     (case mem_cells m (sl_array s) of
        None \<Rightarrow> None
      | Some c \<Rightarrow>
          (case unwrap c of
             None \<Rightarrow> None
           | Some xs \<Rightarrow>
               if sl_from s + sl_len s \<le> length xs then Some (take (sl_len s) (drop (sl_from s) xs)) else None))"

definition copy_slice :: "('h \<Rightarrow> 'c memory \<Rightarrow> 'h \<times> 'c memory) \<Rightarrow> ('h list \<Rightarrow> 'c) \<Rightarrow> ('c \<Rightarrow> 'h list option) \<Rightarrow>
    slice option \<Rightarrow> 'c memory \<Rightarrow> slice option \<times> 'c memory" where
  "copy_slice cp wrap unwrap r m =
     (case r of
        None \<Rightarrow> (None, m)
      | Some s \<Rightarrow>
          (case slice_items unwrap m s of
             None \<Rightarrow> (Some s, m)
           | Some hs \<Rightarrow>
               (let (xs, m1) = copy_all cp hs m; (a, m2) = allocate (wrap xs) m1
                in (Some \<lparr>sl_array = a, sl_from = 0, sl_len = length xs\<rparr>, m2))))"

definition reads_slice :: "('c memory \<Rightarrow> 'h \<Rightarrow> 'v option) \<Rightarrow> ('c \<Rightarrow> 'h list option) \<Rightarrow> 'c memory \<Rightarrow>
    slice option \<Rightarrow> 'v list option option" where
  "reads_slice rd unwrap m r =
     (case r of
        None \<Rightarrow> Some None
      | Some s \<Rightarrow>
          (case slice_items unwrap m s of
             None \<Rightarrow> None
           | Some hs \<Rightarrow> map_option Some (reads_all rd m hs)))"

lemma slice_items_part: "slice_items unwrap m s = Some hs \<Longrightarrow> part_of m m1 \<Longrightarrow> slice_items unwrap m1 s = Some hs"
  by (auto simp: slice_items_def split: option.splits dest: part_of_cell)

lemma deep_slice:
  assumes "deep_copying cp rd" and "\<And>xs. unwrap (wrap xs) = Some xs"
  shows "deep_copying (copy_slice cp wrap unwrap) (reads_slice rd unwrap)"
proof
  fix m r v m1
  assume rd: "reads_slice rd unwrap m r = Some v" and part: "part_of m m1"
  show "reads_slice rd unwrap m1 r = Some v"
  proof (cases r)
    case (Some s)
    with rd obtain hs ws where "slice_items unwrap m s = Some hs" "reads_all rd m hs = Some ws" "v = Some ws"
      by (auto simp: reads_slice_def split: option.splits)
    with Some slice_items_part [OF _ part, of unwrap s hs] show ?thesis
      using local_readsD [OF reads_all_local [OF deep_local [OF assms(1)]] _ part, of hs ws]
      by (simp add: reads_slice_def)
  qed (use rd in \<open>simp add: reads_slice_def\<close>)
next
  fix m r v h1 m2
  assume wf: "wf_memory m" and rd: "reads_slice rd unwrap m r = Some v" and cp: "copy_slice cp wrap unwrap r m = (h1, m2)"
  show "extends m m2 \<and> reads_slice rd unwrap (since (mem_next m) m2) h1 = Some v"
  proof (cases r)
    case None
    with rd cp wf show ?thesis by (auto simp: reads_slice_def copy_slice_def)
  next
    case (Some s)
    with rd obtain hs ws where s: "slice_items unwrap m s = Some hs" "reads_all rd m hs = Some ws" "v = Some ws"
      by (auto simp: reads_slice_def split: option.splits)
    obtain xs m1 where c: "copy_all cp hs m = (xs, m1)" by (cases "copy_all cp hs m")
    with cp Some s have h1: "h1 = Some \<lparr>sl_array = mem_next m1, sl_from = 0, sl_len = length xs\<rparr>"
      and m2: "m2 = snd (allocate (wrap xs) m1)"
      by (simp_all add: copy_slice_def split_beta)
    note items = copy_all_copied [OF assms(1) wf s(2) c]
    have ext: "extends m1 m2" unfolding m2 by (rule allocate_extends) (use items extends_wf in blast)
    have "mem_cells m2 (mem_next m1) = Some (wrap xs)" unfolding m2 by (simp add: allocate_def)
    moreover have "mem_next m \<le> mem_next m1" using items by (simp add: extends_def)
    ultimately have "slice_items unwrap (since (mem_next m) m2) \<lparr>sl_array = mem_next m1, sl_from = 0, sl_len = length xs\<rparr> =
        Some xs"
      by (simp add: slice_items_def since_def assms(2))
    moreover have "reads_all rd (since (mem_next m) m2) xs = Some ws"
      by (rule read_since_later [OF reads_all_local [OF deep_local [OF assms(1)]] _ ext])
        (use items extends_wf in blast)+
    ultimately show ?thesis
      using extends_trans [OF conjunct1 [OF items] ext] s(3) by (simp add: reads_slice_def h1)
  qed
qed

subsection \<open>Maps\<close>

text \<open>
  \<open>make(map...)\<close> and one assignment per entry, in the order in which the runtime ranges over the map.\<close>

definition range_order :: "((string, 'v) fmap \<Rightarrow> string list) \<Rightarrow> bool" where
  "range_order ord \<longleftrightarrow> (\<forall>f. distinct (ord f) \<and> fset_of_list (ord f) = fmdom f)"

fun put_entries :: "(string, 'v) fmap \<Rightarrow> string list \<Rightarrow> (string, 'v) fmap \<Rightarrow> (string, 'v) fmap" where
  "put_entries f [] out = out"
| "put_entries f (k # ks) out =
     put_entries f ks (case fmlookup f k of None \<Rightarrow> out | Some v \<Rightarrow> fmupd k v out)"

definition copy_map :: "((string, 'v) fmap \<Rightarrow> string list) \<Rightarrow> ((string, 'v) fmap \<Rightarrow> 'c) \<Rightarrow>
    ('c \<Rightarrow> (string, 'v) fmap option) \<Rightarrow> nat option \<Rightarrow> 'c memory \<Rightarrow> nat option \<times> 'c memory" where
  "copy_map ord wrap unwrap r m =
     (case r of
        None \<Rightarrow> (None, m)
      | Some a \<Rightarrow>
          (case Option.bind (mem_cells m a) unwrap of
             None \<Rightarrow> (Some a, m)
           | Some f \<Rightarrow> (let (b, m1) = allocate (wrap (put_entries f (ord f) fmempty)) m in (Some b, m1))))"

definition reads_map :: "('c \<Rightarrow> (string, 'v) fmap option) \<Rightarrow> 'c memory \<Rightarrow> nat option \<Rightarrow> (string, 'v) gomap option" where
  "reads_map unwrap m r =
     (case r of
        None \<Rightarrow> Some None
      | Some a \<Rightarrow> map_option (\<lambda>f. Some (fmlookup f)) (Option.bind (mem_cells m a) unwrap))"

lemma put_entries_lookup:
  "fmlookup (put_entries f ks out) k =
     (if k \<in> set ks \<and> fmlookup f k \<noteq> None then fmlookup f k else fmlookup out k)"
  by (induction ks arbitrary: out) (auto split: option.split)

lemma put_entries_all: "range_order ord \<Longrightarrow> put_entries f (ord f) fmempty = f"
proof (rule fmap_ext)
  fix k assume ord: "range_order ord"
  have "k \<in> set (ord f)" if "fmlookup f k \<noteq> None"
  proof -
    from that have "k |\<in>| fmdom f" by (simp add: fmdom_notI fmlookup_dom_iff)
    with ord have "k |\<in>| fset_of_list (ord f)" by (simp add: range_order_def)
    then show ?thesis by (simp add: fset_of_list_elem)
  qed
  then show "fmlookup (put_entries f (ord f) fmempty) k = fmlookup f k"
    by (cases "fmlookup f k = None") (simp_all add: put_entries_lookup)
qed

lemma deep_map:
  assumes "range_order ord" and "\<And>f. unwrap (wrap f) = Some f"
  shows "deep_copying (copy_map ord wrap unwrap) (reads_map unwrap)"
proof
  fix m r v m1
  assume "reads_map unwrap m r = Some v" "part_of m m1"
  then show "reads_map unwrap m1 r = Some v"
    by (auto simp: reads_map_def split: option.splits bind_splits dest: part_of_cell)
next
  fix m r v h1 m2
  assume wf: "wf_memory m" and rd: "reads_map unwrap m r = Some v" and cp: "copy_map ord wrap unwrap r m = (h1, m2)"
  show "extends m m2 \<and> reads_map unwrap (since (mem_next m) m2) h1 = Some v"
  proof (cases r)
    case None
    with rd cp wf show ?thesis by (auto simp: reads_map_def copy_map_def)
  next
    case (Some a)
    with rd obtain f where f: "Option.bind (mem_cells m a) unwrap = Some f" "v = Some (fmlookup f)"
      by (auto simp: reads_map_def)
    with cp Some have "h1 = Some (mem_next m)" "m2 = snd (allocate (wrap f) m)"
      by (simp_all add: copy_map_def split_beta put_entries_all [OF assms(1)])
    with allocate_extends [OF wf] f(2) show ?thesis
      by (simp add: reads_map_def since_def allocate_def assms(2))
  qed
qed

subsection \<open>Pointers\<close>

text \<open>\<open>*out = new(T)\<close>, and a copy into it; a nil pointer stays nil.\<close>

definition copy_ptr :: "('h \<Rightarrow> 'c memory \<Rightarrow> 'h \<times> 'c memory) \<Rightarrow> ('h \<Rightarrow> 'c) \<Rightarrow> ('c \<Rightarrow> 'h option) \<Rightarrow>
    nat option \<Rightarrow> 'c memory \<Rightarrow> nat option \<times> 'c memory" where
  "copy_ptr cp wrap unwrap r m =
     (case r of
        None \<Rightarrow> (None, m)
      | Some a \<Rightarrow>
          (case Option.bind (mem_cells m a) unwrap of
             None \<Rightarrow> (Some a, m)
           | Some h \<Rightarrow> (let (x, m1) = cp h m; (b, m2) = allocate (wrap x) m1 in (Some b, m2))))"

definition reads_ptr :: "('c memory \<Rightarrow> 'h \<Rightarrow> 'v option) \<Rightarrow> ('c \<Rightarrow> 'h option) \<Rightarrow> 'c memory \<Rightarrow> nat option \<Rightarrow> 'v option option" where
  "reads_ptr rd unwrap m r =
     (case r of
        None \<Rightarrow> Some None
      | Some a \<Rightarrow>
          (case Option.bind (mem_cells m a) unwrap of
             None \<Rightarrow> None
           | Some h \<Rightarrow> map_option Some (rd m h)))"

lemma deep_ptr:
  assumes "deep_copying cp rd" and "\<And>x. unwrap (wrap x) = Some x"
  shows "deep_copying (copy_ptr cp wrap unwrap) (reads_ptr rd unwrap)"
proof
  fix m r v m1
  assume rd: "reads_ptr rd unwrap m r = Some v" and part: "part_of m m1"
  show "reads_ptr rd unwrap m1 r = Some v"
  proof (cases r)
    case (Some a)
    with rd obtain h w where h: "Option.bind (mem_cells m a) unwrap = Some h" "rd m h = Some w" "v = Some w"
      by (auto simp: reads_ptr_def split: option.splits)
    then have "Option.bind (mem_cells m1 a) unwrap = Some h"
      using part by (auto simp: bind_eq_Some_conv dest: part_of_cell)
    with Some h local_readsD [OF deep_local [OF assms(1)] h(2) part] show ?thesis by (simp add: reads_ptr_def)
  qed (use rd in \<open>simp add: reads_ptr_def\<close>)
next
  fix m r v h1 m2
  assume wf: "wf_memory m" and rd: "reads_ptr rd unwrap m r = Some v" and cp: "copy_ptr cp wrap unwrap r m = (h1, m2)"
  show "extends m m2 \<and> reads_ptr rd unwrap (since (mem_next m) m2) h1 = Some v"
  proof (cases r)
    case None
    with rd cp wf show ?thesis by (auto simp: reads_ptr_def copy_ptr_def)
  next
    case (Some a)
    with rd obtain h w where h: "Option.bind (mem_cells m a) unwrap = Some h" "rd m h = Some w" "v = Some w"
      by (auto simp: reads_ptr_def split: option.splits)
    obtain x m1 where c: "cp h m = (x, m1)" by (cases "cp h m")
    with cp Some h have h1: "h1 = Some (mem_next m1)" and m2: "m2 = snd (allocate (wrap x) m1)"
      by (simp_all add: copy_ptr_def split_beta)
    from deep_copying.copied [OF assms(1) wf h(2) c]
    have one: "extends m m1" "rd (since (mem_next m) m1) x = Some w" by simp_all
    have wf1: "wf_memory m1" and le: "mem_next m \<le> mem_next m1" using one(1) by (simp_all add: extends_def)
    have ext: "extends m1 m2" unfolding m2 by (rule allocate_extends [OF wf1])
    have "mem_cells m2 (mem_next m1) = Some (wrap x)" unfolding m2 by (simp add: allocate_def)
    then have "Option.bind (mem_cells (since (mem_next m) m2) (mem_next m1)) unwrap = Some x"
      using le by (simp add: since_def assms(2))
    then show ?thesis
      using extends_trans [OF one(1) ext] read_since_later [OF deep_local [OF assms(1)] one(2) ext wf1] h(3)
      by (simp add: reads_ptr_def h1)
  qed
qed

text \<open>A pointer that is not nil, as an element of a list of values.\<close>

definition reads_item :: "('c memory \<Rightarrow> 'h \<Rightarrow> 'v option) \<Rightarrow> ('c \<Rightarrow> 'h option) \<Rightarrow> 'c memory \<Rightarrow> nat option \<Rightarrow> 'v option" where
  "reads_item rd unwrap m r = Option.bind (reads_ptr rd unwrap m r) (\<lambda>v. v)"

lemma deep_item:
  assumes "deep_copying cp rd" and "\<And>x. unwrap (wrap x) = Some x"
  shows "deep_copying (copy_ptr cp wrap unwrap) (reads_item rd unwrap)"
proof
  note ptr = deep_ptr [where wrap = wrap, OF assms]
  fix m r v m1
  assume "reads_item rd unwrap m r = Some v" "part_of m m1"
  then show "reads_item rd unwrap m1 r = Some v"
    using local_readsD [OF deep_local [OF ptr], of m r "Some v" m1]
    by (auto simp: reads_item_def bind_eq_Some_conv)
next
  note ptr = deep_ptr [where wrap = wrap, OF assms]
  fix m r v h1 m1
  assume "wf_memory m" "reads_item rd unwrap m r = Some v" "copy_ptr cp wrap unwrap r m = (h1, m1)"
  then show "extends m m1 \<and> reads_item rd unwrap (since (mem_next m) m1) h1 = Some v"
    using deep_copying.copied [OF ptr, of m r "Some v" h1 m1]
    by (auto simp: reads_item_def bind_eq_Some_conv)
qed

text \<open>The model's values have an empty list for a nil slice.\<close>

definition items :: "'v list option \<Rightarrow> 'v list" where
  "items r = (case r of None \<Rightarrow> [] | Some xs \<Rightarrow> xs)"

text \<open>A reader that reads less, field by field.\<close>

definition reads_below :: "('c memory \<Rightarrow> 'h \<Rightarrow> 'v option) \<Rightarrow> ('c memory \<Rightarrow> 'h \<Rightarrow> 'v option) \<Rightarrow> bool" where
  "reads_below rd rd1 \<longleftrightarrow> (\<forall>m h v. rd m h = Some v \<longrightarrow> rd1 m h = Some v)"

lemma reads_pair_eq:
  "reads_pair rd1 rd2 m h = Some p \<longleftrightarrow> rd1 m (fst h) = Some (fst p) \<and> rd2 m (snd h) = Some (snd p)"
  by (cases p) (auto simp: reads_pair_def split: option.splits)

lemma below_refl: "reads_below rd rd"
  by (simp add: reads_below_def)

lemma below_pair: "reads_below a a1 \<Longrightarrow> reads_below b b1 \<Longrightarrow> reads_below (reads_pair a b) (reads_pair a1 b1)"
  by (simp add: reads_below_def reads_pair_eq)

lemma below_struct:
  "reads_below rd rd1 \<Longrightarrow>
   reads_below (\<lambda>m h. map_option (build h) (rd m (get h))) (\<lambda>m h. map_option (build h) (rd1 m (get h)))"
  by (auto simp: reads_below_def)

lemma below_ptr: "reads_below rd rd1 \<Longrightarrow> reads_below (reads_ptr rd u) (reads_ptr rd1 u)"
  by (auto simp: reads_below_def reads_ptr_def split: option.splits)

section \<open>Copies of structs that are pointed to\<close>

text \<open>\<open>DeepCopy\<close>: nil for nil, else a new struct that is copied into.\<close>

definition deep_copy :: "('h \<Rightarrow> 'c memory \<Rightarrow> 'h \<times> 'c memory) \<Rightarrow> 'h option \<Rightarrow> 'c memory \<Rightarrow> 'h option \<times> 'c memory" where
  "deep_copy into r m =
     (case r of None \<Rightarrow> (None, m) | Some x \<Rightarrow> (let (out, m1) = into x m in (Some out, m1)))"

text \<open>\<open>DeepCopyObject\<close>: a nil pointer becomes a nil interface.\<close>

definition deep_copy_object :: "('h \<Rightarrow> 'c memory \<Rightarrow> 'h \<times> 'c memory) \<Rightarrow> 'h option \<Rightarrow> 'c memory \<Rightarrow> 'h option \<times> 'c memory" where
  "deep_copy_object into r m =
     (let (c, m1) = deep_copy into r m in case c of None \<Rightarrow> (None, m1) | Some x \<Rightarrow> (Some x, m1))"

lemma deep_copy_object_eq: "deep_copy_object into r m = deep_copy into r m"
  by (auto simp: deep_copy_object_def split: prod.split option.split)

text \<open>What a deep copy is for: the statement of \<open>deep_copying\<close> for a pointer to a struct.\<close>

lemma deep_copy_independent:
  assumes "deep_copying into rd" and "wf_memory m" and "rd m x = Some v"
  shows "\<exists>y m1. deep_copy into (Some x) m = (Some y, m1) \<and> extends m m1 \<and>
    (\<forall>m2. (\<forall>a. mem_next m \<le> a \<longrightarrow> mem_cells m2 a = mem_cells m1 a) \<longrightarrow> rd m2 y = Some v) \<and>
    (\<forall>m2. (\<forall>a. a < mem_next m \<longrightarrow> mem_cells m2 a = mem_cells m1 a) \<longrightarrow> rd m2 x = Some v)"
proof -
  obtain y m1 where c: "into x m = (y, m1)" by (cases "into x m")
  note facts = deep_copying.copied [OF assms c] deep_copying.independent [OF assms c]
  have "deep_copy into (Some x) m = (Some y, m1)" by (simp add: deep_copy_def c)
  with facts show ?thesis by blast
qed

lemma copy_slice_nil: "fst (copy_slice cp wrap unwrap r m) = None \<longleftrightarrow> r = None"
  by (simp add: copy_slice_def split_beta split: option.split)

lemma copy_map_nil: "fst (copy_map ord wrap unwrap r m) = None \<longleftrightarrow> r = None"
  by (simp add: copy_map_def split_beta split: option.split)

lemma copy_ptr_nil: "fst (copy_ptr cp wrap unwrap r m) = None \<longleftrightarrow> r = None"
  by (simp add: copy_ptr_def split_beta split: option.split)

end
