(* ===== verification/K8sCopy.thy ===== *)
theory K8sCopy
  imports GoMemory RestClient "HOL-Library.List_Lexorder" "HOL-Library.Char_ord"
begin

text \<open>
  Deep copies of the Kubernetes types. They are generated in other repositories, so they are
  parameters: for every kind of data a copy and, for the contract, what it reads as. \<open>k8s_copying\<close> says
  that these are deep copies and that the runtime visits every entry of a map once. \<open>plain_k8s\<close> is an
  instance with metadata whose labels are a map in memory.
\<close>

record ('k, 'c) k8s_copies =
  kc_order :: "(string, string) fmap \<Rightarrow> string list"
  kc_meta :: "'k \<Rightarrow> 'c memory \<Rightarrow> 'k \<times> 'c memory"
  kc_list_meta :: "'k \<Rightarrow> 'c memory \<Rightarrow> 'k \<times> 'c memory"
  kc_req :: "'k \<Rightarrow> 'c memory \<Rightarrow> 'k \<times> 'c memory"
  kc_condition :: "'k \<Rightarrow> 'c memory \<Rightarrow> 'k \<times> 'c memory"
  kc_claim :: "'k \<Rightarrow> 'c memory \<Rightarrow> 'k \<times> 'c memory"
  kc_affinity :: "'k \<Rightarrow> 'c memory \<Rightarrow> 'k \<times> 'c memory"
  kc_toleration :: "'k \<Rightarrow> 'c memory \<Rightarrow> 'k \<times> 'c memory"
  kc_topology :: "'k \<Rightarrow> 'c memory \<Rightarrow> 'k \<times> 'c memory"
  kc_pod_security :: "'k \<Rightarrow> 'c memory \<Rightarrow> 'k \<times> 'c memory"
  kc_security :: "'k \<Rightarrow> 'c memory \<Rightarrow> 'k \<times> 'c memory"
  kc_env :: "'k \<Rightarrow> 'c memory \<Rightarrow> 'k \<times> 'c memory"
  kc_probe :: "'k \<Rightarrow> 'c memory \<Rightarrow> 'k \<times> 'c memory"
  kc_container :: "'k \<Rightarrow> 'c memory \<Rightarrow> 'k \<times> 'c memory"
  kc_volume :: "'k \<Rightarrow> 'c memory \<Rightarrow> 'k \<times> 'c memory"
  kc_time :: "'k \<Rightarrow> 'c memory \<Rightarrow> 'k \<times> 'c memory"

record ('k, 'c) k8s_readers =
  kr_meta :: "'c memory \<Rightarrow> 'k \<Rightarrow> object_meta option"
  kr_list_meta :: "'c memory \<Rightarrow> 'k \<Rightarrow> list_meta option"
  kr_req :: "'c memory \<Rightarrow> 'k \<Rightarrow> resource_requirements option"
  kr_condition :: "'c memory \<Rightarrow> 'k \<Rightarrow> condition option"
  kr_claim :: "'c memory \<Rightarrow> 'k \<Rightarrow> volume_claim option"
  kr_affinity :: "'c memory \<Rightarrow> 'k \<Rightarrow> affinity option"
  kr_toleration :: "'c memory \<Rightarrow> 'k \<Rightarrow> toleration option"
  kr_topology :: "'c memory \<Rightarrow> 'k \<Rightarrow> topology_spread option"
  kr_pod_security :: "'c memory \<Rightarrow> 'k \<Rightarrow> pod_security_context option"
  kr_security :: "'c memory \<Rightarrow> 'k \<Rightarrow> security_context option"
  kr_env :: "'c memory \<Rightarrow> 'k \<Rightarrow> env_var option"
  kr_probe :: "'c memory \<Rightarrow> 'k \<Rightarrow> probe option"
  kr_container :: "'c memory \<Rightarrow> 'k \<Rightarrow> container option"
  kr_volume :: "'c memory \<Rightarrow> 'k \<Rightarrow> pod_volume option"
  kr_mount :: "'c memory \<Rightarrow> 'k \<Rightarrow> volume_mount option"
  kr_time :: "'c memory \<Rightarrow> 'k \<Rightarrow> int option"

locale k8s_copying =
  fixes C :: "('k, 'c) k8s_copies"
    and R :: "('k, 'c) k8s_readers"
  assumes order: "range_order (kc_order C)"
    and meta: "deep_copying (kc_meta C) (kr_meta R)"
    and list_meta: "deep_copying (kc_list_meta C) (kr_list_meta R)"
    and req: "deep_copying (kc_req C) (kr_req R)"
    and condition: "deep_copying (kc_condition C) (kr_condition R)"
    and claim: "deep_copying (kc_claim C) (kr_claim R)"
    and affinity: "deep_copying (kc_affinity C) (kr_affinity R)"
    and toleration: "deep_copying (kc_toleration C) (kr_toleration R)"
    and topology: "deep_copying (kc_topology C) (kr_topology R)"
    and pod_security: "deep_copying (kc_pod_security C) (kr_pod_security R)"
    and security: "deep_copying (kc_security C) (kr_security R)"
    and env: "deep_copying (kc_env C) (kr_env R)"
    and probe: "deep_copying (kc_probe C) (kr_probe R)"
    and container: "deep_copying (kc_container C) (kr_container R)"
    and volume: "deep_copying (kc_volume C) (kr_volume R)"
    and time: "deep_copying (kc_time C) (kr_time R)"
begin

text \<open>A map of strings, and the common copies of a slice and a pointer.\<close>

lemma strings_map: "(\<And>f. unwrap (wrap f) = Some f) \<Longrightarrow> deep_copying (copy_map (kc_order C) wrap unwrap) (reads_map unwrap)"
  by (rule deep_map [OF order])

end

section \<open>An instance\<close>

datatype k8s_data =
    MetaData "nat option" object_meta
  | ListMetaData list_meta
  | ReqData resource_requirements
  | ConditionData condition
  | ClaimData volume_claim
  | AffinityData affinity
  | TolerationData toleration
  | TopologyData topology_spread
  | PodSecurityData pod_security_context
  | SecurityData security_context
  | EnvData env_var
  | ProbeData probe
  | ContainerData container
  | VolumeData pod_volume
  | MountData volume_mount
  | TimeData int

text \<open>The order of the keys, smallest first.\<close>

definition key_order :: "(string, string) fmap \<Rightarrow> string list" where
  "key_order f = sorted_list_of_fset (fmdom f)"

definition copy_meta :: "((string, string) fmap \<Rightarrow> 'c) \<Rightarrow> ('c \<Rightarrow> (string, string) fmap option) \<Rightarrow> k8s_data \<Rightarrow> 'c memory \<Rightarrow>
    k8s_data \<times> 'c memory" where
  "copy_meta wrap unwrap h m =
     (case h of
        MetaData labels v \<Rightarrow> (let (r, m1) = copy_map key_order wrap unwrap labels m in (MetaData r v, m1))
      | _ \<Rightarrow> (h, m))"

definition reads_meta :: "('c \<Rightarrow> (string, string) fmap option) \<Rightarrow> 'c memory \<Rightarrow> k8s_data \<Rightarrow> object_meta option" where
  "reads_meta unwrap m h =
     (case h of
        MetaData labels v \<Rightarrow> map_option (\<lambda>f. v\<lparr>om_Labels := f\<rparr>) (reads_map unwrap m labels)
      | _ \<Rightarrow> None)"

lemma key_order_range: "range_order key_order"
  by (auto simp: range_order_def key_order_def sorted_list_of_fset.rep_eq fset_of_list.rep_eq fset_inject [symmetric])

lemma deep_meta:
  assumes "\<And>f. unwrap (wrap f) = Some f"
  shows "deep_copying (copy_meta wrap unwrap) (reads_meta unwrap)"
proof
  note labels = deep_map [where wrap = wrap, OF key_order_range assms]
  fix m h v m1
  assume "reads_meta unwrap m h = Some v" "part_of m m1"
  then show "reads_meta unwrap m1 h = Some v"
    using local_readsD [OF deep_local [OF labels], of m _ _ m1]
    by (cases h) (auto simp: reads_meta_def)
next
  note labels = deep_map [where wrap = wrap, OF key_order_range assms]
  fix m h v h1 m1
  assume "wf_memory m" "reads_meta unwrap m h = Some v" "copy_meta wrap unwrap h m = (h1, m1)"
  then show "extends m m1 \<and> reads_meta unwrap (since (mem_next m) m1) h1 = Some v"
    using deep_copying.copied [OF labels, of m]
    by (cases h) (auto simp: reads_meta_def copy_meta_def split: prod.splits)
qed

lemma deep_partial: "deep_copying assign (\<lambda>m h. f h)"
  by unfold_locales (auto simp: assign_def)

definition plain_copies :: "((string, string) fmap \<Rightarrow> 'c) \<Rightarrow> ('c \<Rightarrow> (string, string) fmap option) \<Rightarrow> (k8s_data, 'c) k8s_copies" where
  "plain_copies wrap unwrap =
     \<lparr>kc_order = key_order, kc_meta = copy_meta wrap unwrap,
      kc_list_meta = assign, kc_req = assign, kc_condition = assign, kc_claim = assign, kc_affinity = assign, kc_toleration = assign, kc_topology = assign, kc_pod_security = assign, kc_security = assign, kc_env = assign, kc_probe = assign, kc_container = assign, kc_volume = assign, kc_time = assign\<rparr>"

definition plain_readers :: "('c \<Rightarrow> (string, string) fmap option) \<Rightarrow> (k8s_data, 'c) k8s_readers" where
  "plain_readers unwrap =
     \<lparr>kr_meta = reads_meta unwrap,
      kr_list_meta = (\<lambda>m h. case h of ListMetaData v \<Rightarrow> Some v | _ \<Rightarrow> None),
      kr_req = (\<lambda>m h. case h of ReqData v \<Rightarrow> Some v | _ \<Rightarrow> None),
      kr_condition = (\<lambda>m h. case h of ConditionData v \<Rightarrow> Some v | _ \<Rightarrow> None),
      kr_claim = (\<lambda>m h. case h of ClaimData v \<Rightarrow> Some v | _ \<Rightarrow> None),
      kr_affinity = (\<lambda>m h. case h of AffinityData v \<Rightarrow> Some v | _ \<Rightarrow> None),
      kr_toleration = (\<lambda>m h. case h of TolerationData v \<Rightarrow> Some v | _ \<Rightarrow> None),
      kr_topology = (\<lambda>m h. case h of TopologyData v \<Rightarrow> Some v | _ \<Rightarrow> None),
      kr_pod_security = (\<lambda>m h. case h of PodSecurityData v \<Rightarrow> Some v | _ \<Rightarrow> None),
      kr_security = (\<lambda>m h. case h of SecurityData v \<Rightarrow> Some v | _ \<Rightarrow> None),
      kr_env = (\<lambda>m h. case h of EnvData v \<Rightarrow> Some v | _ \<Rightarrow> None),
      kr_probe = (\<lambda>m h. case h of ProbeData v \<Rightarrow> Some v | _ \<Rightarrow> None),
      kr_container = (\<lambda>m h. case h of ContainerData v \<Rightarrow> Some v | _ \<Rightarrow> None),
      kr_volume = (\<lambda>m h. case h of VolumeData v \<Rightarrow> Some v | _ \<Rightarrow> None),
      kr_mount = (\<lambda>m h. case h of MountData v \<Rightarrow> Some v | _ \<Rightarrow> None),
      kr_time = (\<lambda>m h. case h of TimeData v \<Rightarrow> Some v | _ \<Rightarrow> None)\<rparr>"

lemma plain_k8s:
  assumes "\<And>f. unwrap (wrap f) = Some f"
  shows "k8s_copying (plain_copies wrap unwrap) (plain_readers unwrap)"
  by (rule k8s_copying.intro) (simp_all add: plain_copies_def plain_readers_def key_order_range deep_meta [where wrap = wrap and unwrap = unwrap, OF assms] deep_partial)

end
