(* ===== verification/NineCopy.thy ===== *)
theory NineCopy
  imports K8sCopy
begin

text \<open>
  The deep copies of the NineCluster API, \<open>api/v1alpha1/zz_generated.deepcopy.go\<close>. A struct in memory has
  references to maps and arrays; what it reads as is the value the rest of the development
  works with. Every copy is a deep one: it shares nothing with its original.
\<close>

section \<open>Structs in memory\<close>

text \<open>A struct with references: its plain fields, in \<open>_value\<close>, whose other fields are not looked at, and the references.\<close>

record ClusterConfig_data =
  ClusterConfig_value :: ClusterConfig
  ClusterConfig_Conf :: "nat option"
  ClusterConfig_K8sConf :: "nat option"

record 'k ResourceConfig_data =
  ResourceConfig_value :: ResourceConfig
  ResourceConfig_ResourceRequirements :: "'k"

record 'k ClusterInfo_data =
  ClusterInfo_value :: ClusterInfo
  ClusterInfo_Resource :: "'k ResourceConfig_data"
  ClusterInfo_Configs :: ClusterConfig_data
  ClusterInfo_ClusterRefs :: "slice option"

record HdfsExposedInfo_data =
  HdfsExposedInfo_value :: HdfsExposedInfo
  HdfsExposedInfo_HdfsSite :: "nat option"
  HdfsExposedInfo_CoreSite :: "nat option"

record NineClusterSpec_data =
  NineClusterSpec_value :: NineClusterSpec
  NineClusterSpec_Features :: "nat option"
  NineClusterSpec_ClusterSet :: "slice option"

record NineClusterStatus_data =
  NineClusterStatus_value :: NineClusterStatus
  NineClusterStatus_Conditions :: "slice option"

record 'k NineCluster_data =
  NineCluster_value :: NineCluster
  NineCluster_ObjectMeta :: "'k"
  NineCluster_Spec :: NineClusterSpec_data
  NineCluster_Status :: NineClusterStatus_data

record 'k NineClusterList_data =
  NineClusterList_value :: "NineCluster object_list"
  NineClusterList_ListMeta :: "'k"
  NineClusterList_Items :: "slice option"

datatype 'k nine_cell =
    NineMap "(string, string) fmap"
  | NineTypes "string list"
  | NineInfos "'k ClusterInfo_data list"
  | NineKs "'k list"
  | NineClusters "'k NineCluster_data list"

definition un_NineMap :: "'k nine_cell \<Rightarrow> ((string, string) fmap) option" where
  "un_NineMap c = (case c of NineMap x \<Rightarrow> Some x | _ \<Rightarrow> None)"

definition un_NineTypes :: "'k nine_cell \<Rightarrow> (string list) option" where
  "un_NineTypes c = (case c of NineTypes x \<Rightarrow> Some x | _ \<Rightarrow> None)"

definition un_NineInfos :: "'k nine_cell \<Rightarrow> ('k ClusterInfo_data list) option" where
  "un_NineInfos c = (case c of NineInfos x \<Rightarrow> Some x | _ \<Rightarrow> None)"

definition un_NineKs :: "'k nine_cell \<Rightarrow> ('k list) option" where
  "un_NineKs c = (case c of NineKs x \<Rightarrow> Some x | _ \<Rightarrow> None)"

definition un_NineClusters :: "'k nine_cell \<Rightarrow> ('k NineCluster_data list) option" where
  "un_NineClusters c = (case c of NineClusters x \<Rightarrow> Some x | _ \<Rightarrow> None)"

lemma un_nine_cell:
  "un_NineMap (NineMap x0) = Some x0"
  "un_NineTypes (NineTypes x1) = Some x1"
  "un_NineInfos (NineInfos x2) = Some x2"
  "un_NineKs (NineKs x3) = Some x3"
  "un_NineClusters (NineClusters x4) = Some x4"
  by (simp_all add: un_NineMap_def un_NineTypes_def un_NineInfos_def un_NineKs_def un_NineClusters_def)

section \<open>The copies\<close>

definition AuthConfig_DeepCopyInto :: "AuthConfig \<Rightarrow> 'c memory \<Rightarrow> AuthConfig \<times> 'c memory" where
  "AuthConfig_DeepCopyInto = assign"

definition AuthConfig_DeepCopy :: "AuthConfig option \<Rightarrow> 'c memory \<Rightarrow> AuthConfig option \<times> 'c memory" where
  "AuthConfig_DeepCopy = deep_copy AuthConfig_DeepCopyInto"

definition ImageConfig_DeepCopyInto :: "ImageConfig \<Rightarrow> 'c memory \<Rightarrow> ImageConfig \<times> 'c memory" where
  "ImageConfig_DeepCopyInto = assign"

definition ImageConfig_DeepCopy :: "ImageConfig option \<Rightarrow> 'c memory \<Rightarrow> ImageConfig option \<times> 'c memory" where
  "ImageConfig_DeepCopy = deep_copy ImageConfig_DeepCopyInto"

definition DatabaseCluster_DeepCopyInto :: "DatabaseCluster \<Rightarrow> 'c memory \<Rightarrow> DatabaseCluster \<times> 'c memory" where
  "DatabaseCluster_DeepCopyInto = assign"

definition DatabaseCluster_DeepCopy :: "DatabaseCluster option \<Rightarrow> 'c memory \<Rightarrow> DatabaseCluster option \<times> 'c memory" where
  "DatabaseCluster_DeepCopy = deep_copy DatabaseCluster_DeepCopyInto"

definition MinioExposedInfo_DeepCopyInto :: "MinioExposedInfo \<Rightarrow> 'c memory \<Rightarrow> MinioExposedInfo \<times> 'c memory" where
  "MinioExposedInfo_DeepCopyInto = assign"

definition MinioExposedInfo_DeepCopy :: "MinioExposedInfo option \<Rightarrow> 'c memory \<Rightarrow> MinioExposedInfo option \<times> 'c memory" where
  "MinioExposedInfo_DeepCopy = deep_copy MinioExposedInfo_DeepCopyInto"

definition ClusterConfig_DeepCopyInto ::
  "('k, 'k nine_cell) k8s_copies \<Rightarrow> ClusterConfig_data \<Rightarrow> 'k nine_cell memory \<Rightarrow> ClusterConfig_data \<times> 'k nine_cell memory" where
  "ClusterConfig_DeepCopyInto C inp m =
     (let (conf, m1) = copy_map (kc_order C) NineMap un_NineMap (ClusterConfig_Conf inp) m;
          (k8sConf, m2) = copy_map (kc_order C) NineMap un_NineMap (ClusterConfig_K8sConf inp) m1
      in (inp\<lparr>ClusterConfig_Conf := conf,
            ClusterConfig_K8sConf := k8sConf\<rparr>, m2))"

definition ClusterConfig_DeepCopy ::
  "('k, 'k nine_cell) k8s_copies \<Rightarrow> ClusterConfig_data option \<Rightarrow> 'k nine_cell memory \<Rightarrow> ClusterConfig_data option \<times> 'k nine_cell memory" where
  "ClusterConfig_DeepCopy C = deep_copy (ClusterConfig_DeepCopyInto C)"

definition ResourceConfig_DeepCopyInto ::
  "('k, 'k nine_cell) k8s_copies \<Rightarrow> 'k ResourceConfig_data \<Rightarrow> 'k nine_cell memory \<Rightarrow> 'k ResourceConfig_data \<times> 'k nine_cell memory" where
  "ResourceConfig_DeepCopyInto C inp m =
     (let (resourceRequirements, m1) = kc_req C (ResourceConfig_ResourceRequirements inp) m
      in (inp\<lparr>ResourceConfig_ResourceRequirements := resourceRequirements\<rparr>, m1))"

definition ResourceConfig_DeepCopy ::
  "('k, 'k nine_cell) k8s_copies \<Rightarrow> 'k ResourceConfig_data option \<Rightarrow> 'k nine_cell memory \<Rightarrow> 'k ResourceConfig_data option \<times> 'k nine_cell memory" where
  "ResourceConfig_DeepCopy C = deep_copy (ResourceConfig_DeepCopyInto C)"

definition ClusterInfo_DeepCopyInto ::
  "('k, 'k nine_cell) k8s_copies \<Rightarrow> 'k ClusterInfo_data \<Rightarrow> 'k nine_cell memory \<Rightarrow> 'k ClusterInfo_data \<times> 'k nine_cell memory" where
  "ClusterInfo_DeepCopyInto C inp m =
     (let (resource, m1) = ResourceConfig_DeepCopyInto C (ClusterInfo_Resource inp) m;
          (configs, m2) = ClusterConfig_DeepCopyInto C (ClusterInfo_Configs inp) m1;
          (clusterRefs, m3) = copy_slice assign NineTypes un_NineTypes (ClusterInfo_ClusterRefs inp) m2
      in (inp\<lparr>ClusterInfo_Resource := resource,
            ClusterInfo_Configs := configs,
            ClusterInfo_ClusterRefs := clusterRefs\<rparr>, m3))"

definition ClusterInfo_DeepCopy ::
  "('k, 'k nine_cell) k8s_copies \<Rightarrow> 'k ClusterInfo_data option \<Rightarrow> 'k nine_cell memory \<Rightarrow> 'k ClusterInfo_data option \<times> 'k nine_cell memory" where
  "ClusterInfo_DeepCopy C = deep_copy (ClusterInfo_DeepCopyInto C)"

definition HdfsExposedInfo_DeepCopyInto ::
  "('k, 'k nine_cell) k8s_copies \<Rightarrow> HdfsExposedInfo_data \<Rightarrow> 'k nine_cell memory \<Rightarrow> HdfsExposedInfo_data \<times> 'k nine_cell memory" where
  "HdfsExposedInfo_DeepCopyInto C inp m =
     (let (hdfsSite, m1) = copy_map (kc_order C) NineMap un_NineMap (HdfsExposedInfo_HdfsSite inp) m;
          (coreSite, m2) = copy_map (kc_order C) NineMap un_NineMap (HdfsExposedInfo_CoreSite inp) m1
      in (inp\<lparr>HdfsExposedInfo_HdfsSite := hdfsSite,
            HdfsExposedInfo_CoreSite := coreSite\<rparr>, m2))"

definition HdfsExposedInfo_DeepCopy ::
  "('k, 'k nine_cell) k8s_copies \<Rightarrow> HdfsExposedInfo_data option \<Rightarrow> 'k nine_cell memory \<Rightarrow> HdfsExposedInfo_data option \<times> 'k nine_cell memory" where
  "HdfsExposedInfo_DeepCopy C = deep_copy (HdfsExposedInfo_DeepCopyInto C)"

definition NineClusterSpec_DeepCopyInto ::
  "('k, 'k nine_cell) k8s_copies \<Rightarrow> NineClusterSpec_data \<Rightarrow> 'k nine_cell memory \<Rightarrow> NineClusterSpec_data \<times> 'k nine_cell memory" where
  "NineClusterSpec_DeepCopyInto C inp m =
     (let (features, m1) = copy_map (kc_order C) NineMap un_NineMap (NineClusterSpec_Features inp) m;
          (clusterSet, m2) = copy_slice (ClusterInfo_DeepCopyInto C) NineInfos un_NineInfos (NineClusterSpec_ClusterSet inp) m1
      in (inp\<lparr>NineClusterSpec_Features := features,
            NineClusterSpec_ClusterSet := clusterSet\<rparr>, m2))"

definition NineClusterSpec_DeepCopy ::
  "('k, 'k nine_cell) k8s_copies \<Rightarrow> NineClusterSpec_data option \<Rightarrow> 'k nine_cell memory \<Rightarrow> NineClusterSpec_data option \<times> 'k nine_cell memory" where
  "NineClusterSpec_DeepCopy C = deep_copy (NineClusterSpec_DeepCopyInto C)"

definition NineClusterStatus_DeepCopyInto ::
  "('k, 'k nine_cell) k8s_copies \<Rightarrow> NineClusterStatus_data \<Rightarrow> 'k nine_cell memory \<Rightarrow> NineClusterStatus_data \<times> 'k nine_cell memory" where
  "NineClusterStatus_DeepCopyInto C inp m =
     (let (conditions, m1) = copy_slice (kc_condition C) NineKs un_NineKs (NineClusterStatus_Conditions inp) m
      in (inp\<lparr>NineClusterStatus_Conditions := conditions\<rparr>, m1))"

definition NineClusterStatus_DeepCopy ::
  "('k, 'k nine_cell) k8s_copies \<Rightarrow> NineClusterStatus_data option \<Rightarrow> 'k nine_cell memory \<Rightarrow> NineClusterStatus_data option \<times> 'k nine_cell memory" where
  "NineClusterStatus_DeepCopy C = deep_copy (NineClusterStatus_DeepCopyInto C)"

definition NineCluster_DeepCopyInto ::
  "('k, 'k nine_cell) k8s_copies \<Rightarrow> 'k NineCluster_data \<Rightarrow> 'k nine_cell memory \<Rightarrow> 'k NineCluster_data \<times> 'k nine_cell memory" where
  "NineCluster_DeepCopyInto C inp m =
     (let (objectMeta, m1) = kc_meta C (NineCluster_ObjectMeta inp) m;
          (spec, m2) = NineClusterSpec_DeepCopyInto C (NineCluster_Spec inp) m1;
          (status, m3) = NineClusterStatus_DeepCopyInto C (NineCluster_Status inp) m2
      in (inp\<lparr>NineCluster_ObjectMeta := objectMeta,
            NineCluster_Spec := spec,
            NineCluster_Status := status\<rparr>, m3))"

definition NineCluster_DeepCopy ::
  "('k, 'k nine_cell) k8s_copies \<Rightarrow> 'k NineCluster_data option \<Rightarrow> 'k nine_cell memory \<Rightarrow> 'k NineCluster_data option \<times> 'k nine_cell memory" where
  "NineCluster_DeepCopy C = deep_copy (NineCluster_DeepCopyInto C)"

definition NineCluster_DeepCopyObject ::
  "('k, 'k nine_cell) k8s_copies \<Rightarrow> 'k NineCluster_data option \<Rightarrow> 'k nine_cell memory \<Rightarrow> 'k NineCluster_data option \<times> 'k nine_cell memory" where
  "NineCluster_DeepCopyObject C = deep_copy_object (NineCluster_DeepCopyInto C)"

definition NineClusterList_DeepCopyInto ::
  "('k, 'k nine_cell) k8s_copies \<Rightarrow> 'k NineClusterList_data \<Rightarrow> 'k nine_cell memory \<Rightarrow> 'k NineClusterList_data \<times> 'k nine_cell memory" where
  "NineClusterList_DeepCopyInto C inp m =
     (let (listMeta, m1) = kc_list_meta C (NineClusterList_ListMeta inp) m;
          (elements, m2) = copy_slice (NineCluster_DeepCopyInto C) NineClusters un_NineClusters (NineClusterList_Items inp) m1
      in (inp\<lparr>NineClusterList_ListMeta := listMeta,
            NineClusterList_Items := elements\<rparr>, m2))"

definition NineClusterList_DeepCopy ::
  "('k, 'k nine_cell) k8s_copies \<Rightarrow> 'k NineClusterList_data option \<Rightarrow> 'k nine_cell memory \<Rightarrow> 'k NineClusterList_data option \<times> 'k nine_cell memory" where
  "NineClusterList_DeepCopy C = deep_copy (NineClusterList_DeepCopyInto C)"

definition NineClusterList_DeepCopyObject ::
  "('k, 'k nine_cell) k8s_copies \<Rightarrow> 'k NineClusterList_data option \<Rightarrow> 'k nine_cell memory \<Rightarrow> 'k NineClusterList_data option \<times> 'k nine_cell memory" where
  "NineClusterList_DeepCopyObject C = deep_copy_object (NineClusterList_DeepCopyInto C)"

section \<open>What the structs read as\<close>

definition ClusterConfig_reads where
  "ClusterConfig_reads (R :: ('k, 'k nine_cell) k8s_readers) m h =
     map_option (\<lambda>(conf, k8sConf). (ClusterConfig_value h)
         \<lparr>cc_Conf := conf,
           cc_K8sConf := k8sConf\<rparr>)
       ((reads_pair (reads_map un_NineMap) (reads_map un_NineMap)) m
         (ClusterConfig_Conf h, ClusterConfig_K8sConf h))"

definition ResourceConfig_reads where
  "ResourceConfig_reads (R :: ('k, 'k nine_cell) k8s_readers) m h =
     map_option (\<lambda>resourceRequirements. (ResourceConfig_value h)
         \<lparr>rc_ResourceRequirements := resourceRequirements\<rparr>)
       ((kr_req R) m
         (ResourceConfig_ResourceRequirements h))"

definition ClusterInfo_reads where
  "ClusterInfo_reads (R :: ('k, 'k nine_cell) k8s_readers) m h =
     map_option (\<lambda>(resource, configs, clusterRefs). (ClusterInfo_value h)
         \<lparr>ci_Resource := resource,
           ci_Configs := configs,
           ci_ClusterRefs := items clusterRefs\<rparr>)
       ((reads_pair (ResourceConfig_reads R) (reads_pair (ClusterConfig_reads R) (reads_slice reads_plain un_NineTypes))) m
         (ClusterInfo_Resource h, ClusterInfo_Configs h, ClusterInfo_ClusterRefs h))"

definition HdfsExposedInfo_reads where
  "HdfsExposedInfo_reads (R :: ('k, 'k nine_cell) k8s_readers) m h =
     map_option (\<lambda>(hdfsSite, coreSite). (HdfsExposedInfo_value h)
         \<lparr>he_HdfsSite := hdfsSite,
           he_CoreSite := coreSite\<rparr>)
       ((reads_pair (reads_map un_NineMap) (reads_map un_NineMap)) m
         (HdfsExposedInfo_HdfsSite h, HdfsExposedInfo_CoreSite h))"

definition NineClusterSpec_reads where
  "NineClusterSpec_reads (R :: ('k, 'k nine_cell) k8s_readers) m h =
     map_option (\<lambda>(features, clusterSet). (NineClusterSpec_value h)
         \<lparr>ns_Features := features,
           ns_ClusterSet := items clusterSet\<rparr>)
       ((reads_pair (reads_map un_NineMap) (reads_slice (ClusterInfo_reads R) un_NineInfos)) m
         (NineClusterSpec_Features h, NineClusterSpec_ClusterSet h))"

definition NineClusterStatus_reads where
  "NineClusterStatus_reads (R :: ('k, 'k nine_cell) k8s_readers) m h =
     map_option (\<lambda>conditions. (NineClusterStatus_value h)
         \<lparr>NineClusterStatus.nst_Conditions := items conditions\<rparr>)
       ((reads_slice (kr_condition R) un_NineKs) m
         (NineClusterStatus_Conditions h))"

definition NineCluster_reads where
  "NineCluster_reads (R :: ('k, 'k nine_cell) k8s_readers) m h =
     map_option (\<lambda>(objectMeta, spec, status). (NineCluster_value h)
         \<lparr>nc_Meta := objectMeta,
           nc_Spec := spec,
           nc_Status := status\<rparr>)
       ((reads_pair (kr_meta R) (reads_pair (NineClusterSpec_reads R) (NineClusterStatus_reads R))) m
         (NineCluster_ObjectMeta h, NineCluster_Spec h, NineCluster_Status h))"

definition NineClusterList_reads where
  "NineClusterList_reads (R :: ('k, 'k nine_cell) k8s_readers) m h =
     map_option (\<lambda>(listMeta, elements). (NineClusterList_value h)
         \<lparr>ol_ListMeta := Some listMeta,
           ol_Items := items elements\<rparr>)
       ((reads_pair (kr_list_meta R) (reads_slice (NineCluster_reads R) un_NineClusters)) m
         (NineClusterList_ListMeta h, NineClusterList_Items h))"

section \<open>They are deep copies\<close>

locale nine_copying = k8s_copying C R
  for C :: "('k, 'k nine_cell) k8s_copies" and R :: "('k, 'k nine_cell) k8s_readers"
begin

lemma ClusterConfig_deep: "deep_copying (ClusterConfig_DeepCopyInto C) (ClusterConfig_reads R)"
proof -
  have cp: "ClusterConfig_DeepCopyInto C = (\<lambda>h m. let (x, m1) = (copy_pair (copy_map (kc_order C) NineMap un_NineMap) (copy_map (kc_order C) NineMap un_NineMap))
      (ClusterConfig_Conf h, ClusterConfig_K8sConf h) m
    in (case x of (x1, x2) \<Rightarrow> h\<lparr>ClusterConfig_Conf := x1, ClusterConfig_K8sConf := x2\<rparr>, m1))"
    by (simp only: fun_eq_iff ClusterConfig_DeepCopyInto_def copy_stages)
  show ?thesis
    unfolding cp ClusterConfig_reads_def [abs_def]
    by (rule deep_struct [OF deep_pair [OF strings_map [of un_NineMap NineMap, OF un_nine_cell(1)] strings_map [of un_NineMap NineMap, OF un_nine_cell(1)]]])
      (simp_all add: split_beta)
qed

lemma ResourceConfig_deep: "deep_copying (ResourceConfig_DeepCopyInto C) (ResourceConfig_reads R)"
proof -
  have cp: "ResourceConfig_DeepCopyInto C = (\<lambda>h m. let (x, m1) = (kc_req C)
      (ResourceConfig_ResourceRequirements h) m
    in (case x of x1 \<Rightarrow> h\<lparr>ResourceConfig_ResourceRequirements := x1\<rparr>, m1))"
    by (simp only: fun_eq_iff ResourceConfig_DeepCopyInto_def copy_stages)
  show ?thesis
    unfolding cp ResourceConfig_reads_def [abs_def]
    by (rule deep_struct [OF req])
      (simp_all add: split_beta)
qed

lemma ClusterInfo_deep: "deep_copying (ClusterInfo_DeepCopyInto C) (ClusterInfo_reads R)"
proof -
  have cp: "ClusterInfo_DeepCopyInto C = (\<lambda>h m. let (x, m1) = (copy_pair (ResourceConfig_DeepCopyInto C) (copy_pair (ClusterConfig_DeepCopyInto C) (copy_slice assign NineTypes un_NineTypes)))
      (ClusterInfo_Resource h, ClusterInfo_Configs h, ClusterInfo_ClusterRefs h) m
    in (case x of (x1, x2, x3) \<Rightarrow> h\<lparr>ClusterInfo_Resource := x1, ClusterInfo_Configs := x2, ClusterInfo_ClusterRefs := x3\<rparr>, m1))"
    by (simp only: fun_eq_iff ClusterInfo_DeepCopyInto_def copy_stages)
  show ?thesis
    unfolding cp ClusterInfo_reads_def [abs_def]
    by (rule deep_struct [OF deep_pair [OF ResourceConfig_deep deep_pair [OF ClusterConfig_deep deep_slice [OF plain.deep_copying_axioms, of un_NineTypes NineTypes, OF un_nine_cell(2)]]]])
      (simp_all add: split_beta)
qed

lemma HdfsExposedInfo_deep: "deep_copying (HdfsExposedInfo_DeepCopyInto C) (HdfsExposedInfo_reads R)"
proof -
  have cp: "HdfsExposedInfo_DeepCopyInto C = (\<lambda>h m. let (x, m1) = (copy_pair (copy_map (kc_order C) NineMap un_NineMap) (copy_map (kc_order C) NineMap un_NineMap))
      (HdfsExposedInfo_HdfsSite h, HdfsExposedInfo_CoreSite h) m
    in (case x of (x1, x2) \<Rightarrow> h\<lparr>HdfsExposedInfo_HdfsSite := x1, HdfsExposedInfo_CoreSite := x2\<rparr>, m1))"
    by (simp only: fun_eq_iff HdfsExposedInfo_DeepCopyInto_def copy_stages)
  show ?thesis
    unfolding cp HdfsExposedInfo_reads_def [abs_def]
    by (rule deep_struct [OF deep_pair [OF strings_map [of un_NineMap NineMap, OF un_nine_cell(1)] strings_map [of un_NineMap NineMap, OF un_nine_cell(1)]]])
      (simp_all add: split_beta)
qed

lemma NineClusterSpec_deep: "deep_copying (NineClusterSpec_DeepCopyInto C) (NineClusterSpec_reads R)"
proof -
  have cp: "NineClusterSpec_DeepCopyInto C = (\<lambda>h m. let (x, m1) = (copy_pair (copy_map (kc_order C) NineMap un_NineMap) (copy_slice (ClusterInfo_DeepCopyInto C) NineInfos un_NineInfos))
      (NineClusterSpec_Features h, NineClusterSpec_ClusterSet h) m
    in (case x of (x1, x2) \<Rightarrow> h\<lparr>NineClusterSpec_Features := x1, NineClusterSpec_ClusterSet := x2\<rparr>, m1))"
    by (simp only: fun_eq_iff NineClusterSpec_DeepCopyInto_def copy_stages)
  show ?thesis
    unfolding cp NineClusterSpec_reads_def [abs_def]
    by (rule deep_struct [OF deep_pair [OF strings_map [of un_NineMap NineMap, OF un_nine_cell(1)] deep_slice [OF ClusterInfo_deep, of un_NineInfos NineInfos, OF un_nine_cell(3)]]])
      (simp_all add: split_beta)
qed

lemma NineClusterStatus_deep: "deep_copying (NineClusterStatus_DeepCopyInto C) (NineClusterStatus_reads R)"
proof -
  have cp: "NineClusterStatus_DeepCopyInto C = (\<lambda>h m. let (x, m1) = (copy_slice (kc_condition C) NineKs un_NineKs)
      (NineClusterStatus_Conditions h) m
    in (case x of x1 \<Rightarrow> h\<lparr>NineClusterStatus_Conditions := x1\<rparr>, m1))"
    by (simp only: fun_eq_iff NineClusterStatus_DeepCopyInto_def copy_stages)
  show ?thesis
    unfolding cp NineClusterStatus_reads_def [abs_def]
    by (rule deep_struct [OF deep_slice [OF condition, of un_NineKs NineKs, OF un_nine_cell(4)]])
      (simp_all add: split_beta)
qed

lemma NineCluster_deep: "deep_copying (NineCluster_DeepCopyInto C) (NineCluster_reads R)"
proof -
  have cp: "NineCluster_DeepCopyInto C = (\<lambda>h m. let (x, m1) = (copy_pair (kc_meta C) (copy_pair (NineClusterSpec_DeepCopyInto C) (NineClusterStatus_DeepCopyInto C)))
      (NineCluster_ObjectMeta h, NineCluster_Spec h, NineCluster_Status h) m
    in (case x of (x1, x2, x3) \<Rightarrow> h\<lparr>NineCluster_ObjectMeta := x1, NineCluster_Spec := x2, NineCluster_Status := x3\<rparr>, m1))"
    by (simp only: fun_eq_iff NineCluster_DeepCopyInto_def copy_stages)
  show ?thesis
    unfolding cp NineCluster_reads_def [abs_def]
    by (rule deep_struct [OF deep_pair [OF meta deep_pair [OF NineClusterSpec_deep NineClusterStatus_deep]]])
      (simp_all add: split_beta)
qed

lemma NineClusterList_deep: "deep_copying (NineClusterList_DeepCopyInto C) (NineClusterList_reads R)"
proof -
  have cp: "NineClusterList_DeepCopyInto C = (\<lambda>h m. let (x, m1) = (copy_pair (kc_list_meta C) (copy_slice (NineCluster_DeepCopyInto C) NineClusters un_NineClusters))
      (NineClusterList_ListMeta h, NineClusterList_Items h) m
    in (case x of (x1, x2) \<Rightarrow> h\<lparr>NineClusterList_ListMeta := x1, NineClusterList_Items := x2\<rparr>, m1))"
    by (simp only: fun_eq_iff NineClusterList_DeepCopyInto_def copy_stages)
  show ?thesis
    unfolding cp NineClusterList_reads_def [abs_def]
    by (rule deep_struct [OF deep_pair [OF list_meta deep_slice [OF NineCluster_deep, of un_NineClusters NineClusters, OF un_nine_cell(5)]]])
      (simp_all add: split_beta)
qed

end

sublocale nine_copying \<subseteq> cluster: deep_copying "NineCluster_DeepCopyInto C" "NineCluster_reads R"
  by (rule NineCluster_deep)

sublocale nine_copying \<subseteq> cluster_list: deep_copying "NineClusterList_DeepCopyInto C" "NineClusterList_reads R"
  by (rule NineClusterList_deep)

section \<open>The copies a cache hands out\<close>

text \<open>An instance, and a cluster in memory: its labels, features and one entry with a configuration.\<close>

definition nine_copies :: "(k8s_data, k8s_data nine_cell) k8s_copies" where
  "nine_copies = plain_copies NineMap un_NineMap"

definition nine_readers :: "(k8s_data, k8s_data nine_cell) k8s_readers" where
  "nine_readers = plain_readers un_NineMap"

interpretation nine_plain: nine_copying nine_copies nine_readers
  unfolding nine_copies_def nine_readers_def
  by (intro nine_copying.intro plain_k8s un_nine_cell)

definition sample_nine_memory :: "k8s_data nine_cell memory" where
  "sample_nine_memory =
     \<lparr>mem_next = 4,
      mem_cells = [0 \<mapsto> NineMap (fmupd ''team'' ''data'' fmempty), 1 \<mapsto> NineMap (fmupd ''storage'' ''minio'' fmempty),
        2 \<mapsto> NineMap fmempty,
        3 \<mapsto> NineInfos [\<lparr>ClusterInfo_value = zero_cluster\<lparr>ci_Type := ''minio''\<rparr>,
          ClusterInfo_Resource = \<lparr>ResourceConfig_value = zero_resource,
            ResourceConfig_ResourceRequirements = ReqData no_requirements\<rparr>,
          ClusterInfo_Configs = \<lparr>ClusterConfig_value = zero_config, ClusterConfig_Conf = Some 2, ClusterConfig_K8sConf = None\<rparr>,
          ClusterInfo_ClusterRefs = None\<rparr>]]\<rparr>"

definition sample_nine_data :: "k8s_data NineCluster_data" where
  "sample_nine_data =
     \<lparr>NineCluster_value = \<lparr>nc_Meta = empty_meta,
        nc_Spec = \<lparr>ns_DataVolume = 32, ns_Type = ''batch'', ns_Features = None, ns_ClusterSet = []\<rparr>,
        nc_Status = \<lparr>NineClusterStatus.nst_Conditions = []\<rparr>\<rparr>,
      NineCluster_ObjectMeta = MetaData (Some 0) (empty_meta\<lparr>om_Name := ''nine''\<rparr>),
      NineCluster_Spec =
        \<lparr>NineClusterSpec_value = \<lparr>ns_DataVolume = 32, ns_Type = ''batch'', ns_Features = None, ns_ClusterSet = []\<rparr>,
         NineClusterSpec_Features = Some 1, NineClusterSpec_ClusterSet = Some \<lparr>sl_array = 3, sl_from = 0, sl_len = 1\<rparr>\<rparr>,
      NineCluster_Status = \<lparr>NineClusterStatus_value = \<lparr>NineClusterStatus.nst_Conditions = []\<rparr>,
        NineClusterStatus_Conditions = None\<rparr>\<rparr>"

text \<open>
  C23: A copy of a NineCluster shares no memory with the cluster it is a copy of. It allocates, and
  changes nothing that was there; it reads as the original does, whatever is written afterwards
  to memory from before the copy; and the original keeps its value, whatever is written to
  memory allocated by the copy or later. So an object of a shared cache may be completed and
  changed once it has been copied. \<open>DeepCopyObject\<close> gives the same pointer behind an interface.
\<close>

theorem NineCluster_DeepCopy_independent:
  assumes "nine_copying C R" and "wf_memory m" and "NineCluster_reads R m x = Some v"
  shows "\<exists>y m1. NineCluster_DeepCopy C (Some x) m = (Some y, m1) \<and> NineCluster_DeepCopyObject C (Some x) m = (Some y, m1) \<and>
      extends m m1 \<and>
      (\<forall>m2. (\<forall>a. mem_next m \<le> a \<longrightarrow> mem_cells m2 a = mem_cells m1 a) \<longrightarrow> NineCluster_reads R m2 y = Some v) \<and>
      (\<forall>m2. (\<forall>a. a < mem_next m \<longrightarrow> mem_cells m2 a = mem_cells m1 a) \<longrightarrow> NineCluster_reads R m2 x = Some v)"
  using deep_copy_independent [OF nine_copying.NineCluster_deep [OF assms(1)] assms(2,3)]
  by (simp add: NineCluster_DeepCopy_def NineCluster_DeepCopyObject_def deep_copy_object_eq)

lemmas nine_sample_simps = sample_nine_memory_def sample_nine_data_def nine_copies_def nine_readers_def plain_copies_def
  plain_readers_def reads_meta_def NineCluster_reads_def NineClusterSpec_reads_def NineClusterStatus_reads_def
  ClusterInfo_reads_def ClusterConfig_reads_def ResourceConfig_reads_def reads_pair_def reads_map_def reads_slice_def
  slice_items_def reads_plain_def un_nine_cell

lemma nine_sample_reads:
  "wf_memory sample_nine_memory"
  "\<exists>v. NineCluster_reads nine_readers sample_nine_memory sample_nine_data = Some v \<and>
    ns_Features (nc_Spec v) = Some [''storage'' \<mapsto> ''minio''] \<and> map ci_Type (ns_ClusterSet (nc_Spec v)) = [''minio'']"
  by (simp_all add: wf_memory_def nine_sample_simps items_def fun_eq_iff)

theorem NineCluster_DeepCopy_independent_witness:
  "\<exists>v y m1. NineCluster_reads nine_readers sample_nine_memory sample_nine_data = Some v \<and>
     NineCluster_DeepCopy nine_copies (Some sample_nine_data) sample_nine_memory = (Some y, m1) \<and>
     NineCluster_reads nine_readers (m1\<lparr>mem_cells := (mem_cells m1)(1 \<mapsto> NineMap fmempty)\<rparr>) y = Some v"
proof -
  obtain v where v: "NineCluster_reads nine_readers sample_nine_memory sample_nine_data = Some v"
    using nine_sample_reads(2) by blast
  from NineCluster_DeepCopy_independent [OF nine_plain.nine_copying_axioms nine_sample_reads(1) v]
  obtain y m1 where "NineCluster_DeepCopy nine_copies (Some sample_nine_data) sample_nine_memory = (Some y, m1)"
    and "\<And>m2. (\<forall>a. 4 \<le> a \<longrightarrow> mem_cells m2 a = mem_cells m1 a) \<Longrightarrow> NineCluster_reads nine_readers m2 y = Some v"
    unfolding sample_nine_memory_def by auto
  with v show ?thesis by auto
qed

end
