(* ===== verification/TenantCopy.thy ===== *)
theory TenantCopy
  imports K8sCopy TenantTypes
begin

text \<open>
  The deep copies of the MinIO Tenant API,
  \<open>pkg/minio/operator/apis/minio.min.io/v2/zz_generated.deepcopy.go\<close>. They were generated before the
  volumes of a specification and the resources of its sidecars were added to \<open>types.go\<close>, which no copy
  follows: a copied tenant shares these three with its original. What is read at such a
  reference is an argument of \<open>TenantSpec_reads\<close> and its callers. A \<open>LocalObjectReference\<close> is its name.
\<close>

section \<open>Structs in memory\<close>

text \<open>A struct with references: its plain fields, in \<open>_value\<close>, whose other fields are not looked at, and the references.\<close>

record AuditConfig_data =
  AuditConfig_value :: AuditConfig
  AuditConfig_DiskCapacityGB :: "nat option"

record CertificateConfig_data =
  CertificateConfig_value :: CertificateConfig
  CertificateConfig_OrganizationName :: "slice option"
  CertificateConfig_DNSNames :: "slice option"

record CustomCertificateConfig_data =
  CustomCertificateConfig_value :: CustomCertificateConfig
  CustomCertificateConfig_Domains :: "slice option"

record CustomCertificates_data =
  CustomCertificates_value :: CustomCertificates
  CustomCertificates_Client :: "slice option"
  CustomCertificates_Minio :: "slice option"
  CustomCertificates_MinioCAs :: "slice option"

record CertificateStatus_data =
  CertificateStatus_value :: CertificateStatus
  CertificateStatus_AutoCertEnabled :: "nat option"
  CertificateStatus_CustomCertificates :: "nat option"

record TenantDomains_data =
  TenantDomains_value :: TenantDomains
  TenantDomains_Minio :: "slice option"

record Features_data =
  Features_value :: Features
  Features_Domains :: "nat option"
  Features_EnableSFTP :: "nat option"

record 'k KESConfig_data =
  KESConfig_value :: KESConfig
  KESConfig_Configuration :: "nat option"
  KESConfig_ExternalCertSecret :: "nat option"
  KESConfig_ClientCertSecret :: "nat option"
  KESConfig_Annotations :: "nat option"
  KESConfig_Labels :: "nat option"
  KESConfig_Resources :: "'k"
  KESConfig_NodeSelector :: "nat option"
  KESConfig_Tolerations :: "slice option"
  KESConfig_Affinity :: "nat option"
  KESConfig_TopologySpreadConstraints :: "slice option"
  KESConfig_SecurityContext :: "nat option"
  KESConfig_Env :: "slice option"

record 'k Pool_data =
  Pool_value :: Pool
  Pool_VolumeClaimTemplate :: "nat option"
  Pool_Resources :: "'k"
  Pool_NodeSelector :: "nat option"
  Pool_Affinity :: "nat option"
  Pool_Tolerations :: "slice option"
  Pool_TopologySpreadConstraints :: "slice option"
  Pool_SecurityContext :: "nat option"
  Pool_ContainerSecurityContext :: "nat option"
  Pool_Annotations :: "nat option"
  Pool_Labels :: "nat option"
  Pool_RuntimeClassName :: "nat option"

record ServiceMetadata_data =
  ServiceMetadata_value :: ServiceMetadata
  ServiceMetadata_MinIOServiceLabels :: "nat option"
  ServiceMetadata_MinIOServiceAnnotations :: "nat option"
  ServiceMetadata_ConsoleServiceLabels :: "nat option"
  ServiceMetadata_ConsoleServiceAnnotations :: "nat option"

record SideCars_data =
  SideCars_value :: SideCars
  SideCars_Containers :: "slice option"
  SideCars_VolumeClaimTemplates :: "slice option"
  SideCars_Volumes :: "slice option"
  SideCars_Resources :: "nat option"

record TenantSpec_data =
  TenantSpec_value :: TenantSpec
  TenantSpec_Pools :: "slice option"
  TenantSpec_CredsSecret :: "nat option"
  TenantSpec_Env :: "slice option"
  TenantSpec_ExternalCertSecret :: "slice option"
  TenantSpec_ExternalCaCertSecret :: "slice option"
  TenantSpec_ExternalClientCertSecret :: "nat option"
  TenantSpec_ExternalClientCertSecrets :: "slice option"
  TenantSpec_RequestAutoCert :: "nat option"
  TenantSpec_Liveness :: "nat option"
  TenantSpec_Readiness :: "nat option"
  TenantSpec_Startup :: "nat option"
  TenantSpec_Features :: "nat option"
  TenantSpec_CertConfig :: "nat option"
  TenantSpec_KES :: "nat option"
  TenantSpec_SideCars :: "nat option"
  TenantSpec_ExposeServices :: "nat option"
  TenantSpec_ServiceMetadata :: "nat option"
  TenantSpec_Users :: "slice option"
  TenantSpec_Buckets :: "slice option"
  TenantSpec_Logging :: "nat option"
  TenantSpec_Configuration :: "nat option"
  TenantSpec_InitContainers :: "slice option"
  TenantSpec_AdditionalVolumes :: "slice option"
  TenantSpec_AdditionalVolumeMounts :: "slice option"

record TenantUsage_data =
  TenantUsage_value :: TenantUsage
  TenantUsage_Tiers :: "slice option"

record TenantStatus_data =
  TenantStatus_value :: TenantStatus
  TenantStatus_Certificates :: CertificateStatus_data
  TenantStatus_Pools :: "slice option"
  TenantStatus_WaitingOnReady :: "nat option"
  TenantStatus_Usage :: TenantUsage_data

record 'k Tenant_data =
  Tenant_value :: Tenant
  Tenant_ObjectMeta :: "'k"
  Tenant_Spec :: TenantSpec_data
  Tenant_Status :: TenantStatus_data

record 'k TenantList_data =
  TenantList_value :: "Tenant object_list"
  TenantList_ListMeta :: "'k"
  TenantList_Items :: "slice option"

datatype 'k tenant_cell =
    TenantMap "(string, string) fmap"
  | TenantStrings "string list"
  | TenantString "string"
  | TenantBool "bool"
  | TenantInt "int64"
  | TenantK "'k"
  | TenantKs "'k list"
  | TenantPtrs "nat option list"
  | TenantCertificate "CustomCertificateConfig_data"
  | TenantCustomCertificates "CustomCertificates_data"
  | TenantReference "LocalCertificateReference"
  | TenantDomains "TenantDomains_data"
  | TenantFeatures "Features_data"
  | TenantCertConfig "CertificateConfig_data"
  | TenantKES "'k KESConfig_data"
  | TenantSideCars "SideCars_data"
  | TenantExpose "ExposeServices"
  | TenantMetadata "ServiceMetadata_data"
  | TenantBuckets "Bucket list"
  | TenantLogging "Logging"
  | TenantPools "'k Pool_data list"
  | TenantStatuses "PoolStatus list"
  | TenantTiers "TierUsage list"
  | TenantTenants "'k Tenant_data list"

definition un_TenantMap :: "'k tenant_cell \<Rightarrow> ((string, string) fmap) option" where
  "un_TenantMap c = (case c of TenantMap x \<Rightarrow> Some x | _ \<Rightarrow> None)"

definition un_TenantStrings :: "'k tenant_cell \<Rightarrow> (string list) option" where
  "un_TenantStrings c = (case c of TenantStrings x \<Rightarrow> Some x | _ \<Rightarrow> None)"

definition un_TenantString :: "'k tenant_cell \<Rightarrow> (string) option" where
  "un_TenantString c = (case c of TenantString x \<Rightarrow> Some x | _ \<Rightarrow> None)"

definition un_TenantBool :: "'k tenant_cell \<Rightarrow> (bool) option" where
  "un_TenantBool c = (case c of TenantBool x \<Rightarrow> Some x | _ \<Rightarrow> None)"

definition un_TenantInt :: "'k tenant_cell \<Rightarrow> (int64) option" where
  "un_TenantInt c = (case c of TenantInt x \<Rightarrow> Some x | _ \<Rightarrow> None)"

definition un_TenantK :: "'k tenant_cell \<Rightarrow> ('k) option" where
  "un_TenantK c = (case c of TenantK x \<Rightarrow> Some x | _ \<Rightarrow> None)"

definition un_TenantKs :: "'k tenant_cell \<Rightarrow> ('k list) option" where
  "un_TenantKs c = (case c of TenantKs x \<Rightarrow> Some x | _ \<Rightarrow> None)"

definition un_TenantPtrs :: "'k tenant_cell \<Rightarrow> (nat option list) option" where
  "un_TenantPtrs c = (case c of TenantPtrs x \<Rightarrow> Some x | _ \<Rightarrow> None)"

definition un_TenantCertificate :: "'k tenant_cell \<Rightarrow> (CustomCertificateConfig_data) option" where
  "un_TenantCertificate c = (case c of TenantCertificate x \<Rightarrow> Some x | _ \<Rightarrow> None)"

definition un_TenantCustomCertificates :: "'k tenant_cell \<Rightarrow> (CustomCertificates_data) option" where
  "un_TenantCustomCertificates c = (case c of TenantCustomCertificates x \<Rightarrow> Some x | _ \<Rightarrow> None)"

definition un_TenantReference :: "'k tenant_cell \<Rightarrow> (LocalCertificateReference) option" where
  "un_TenantReference c = (case c of TenantReference x \<Rightarrow> Some x | _ \<Rightarrow> None)"

definition un_TenantDomains :: "'k tenant_cell \<Rightarrow> (TenantDomains_data) option" where
  "un_TenantDomains c = (case c of TenantDomains x \<Rightarrow> Some x | _ \<Rightarrow> None)"

definition un_TenantFeatures :: "'k tenant_cell \<Rightarrow> (Features_data) option" where
  "un_TenantFeatures c = (case c of TenantFeatures x \<Rightarrow> Some x | _ \<Rightarrow> None)"

definition un_TenantCertConfig :: "'k tenant_cell \<Rightarrow> (CertificateConfig_data) option" where
  "un_TenantCertConfig c = (case c of TenantCertConfig x \<Rightarrow> Some x | _ \<Rightarrow> None)"

definition un_TenantKES :: "'k tenant_cell \<Rightarrow> ('k KESConfig_data) option" where
  "un_TenantKES c = (case c of TenantKES x \<Rightarrow> Some x | _ \<Rightarrow> None)"

definition un_TenantSideCars :: "'k tenant_cell \<Rightarrow> (SideCars_data) option" where
  "un_TenantSideCars c = (case c of TenantSideCars x \<Rightarrow> Some x | _ \<Rightarrow> None)"

definition un_TenantExpose :: "'k tenant_cell \<Rightarrow> (ExposeServices) option" where
  "un_TenantExpose c = (case c of TenantExpose x \<Rightarrow> Some x | _ \<Rightarrow> None)"

definition un_TenantMetadata :: "'k tenant_cell \<Rightarrow> (ServiceMetadata_data) option" where
  "un_TenantMetadata c = (case c of TenantMetadata x \<Rightarrow> Some x | _ \<Rightarrow> None)"

definition un_TenantBuckets :: "'k tenant_cell \<Rightarrow> (Bucket list) option" where
  "un_TenantBuckets c = (case c of TenantBuckets x \<Rightarrow> Some x | _ \<Rightarrow> None)"

definition un_TenantLogging :: "'k tenant_cell \<Rightarrow> (Logging) option" where
  "un_TenantLogging c = (case c of TenantLogging x \<Rightarrow> Some x | _ \<Rightarrow> None)"

definition un_TenantPools :: "'k tenant_cell \<Rightarrow> ('k Pool_data list) option" where
  "un_TenantPools c = (case c of TenantPools x \<Rightarrow> Some x | _ \<Rightarrow> None)"

definition un_TenantStatuses :: "'k tenant_cell \<Rightarrow> (PoolStatus list) option" where
  "un_TenantStatuses c = (case c of TenantStatuses x \<Rightarrow> Some x | _ \<Rightarrow> None)"

definition un_TenantTiers :: "'k tenant_cell \<Rightarrow> (TierUsage list) option" where
  "un_TenantTiers c = (case c of TenantTiers x \<Rightarrow> Some x | _ \<Rightarrow> None)"

definition un_TenantTenants :: "'k tenant_cell \<Rightarrow> ('k Tenant_data list) option" where
  "un_TenantTenants c = (case c of TenantTenants x \<Rightarrow> Some x | _ \<Rightarrow> None)"

lemma un_tenant_cell:
  "un_TenantMap (TenantMap x0) = Some x0"
  "un_TenantStrings (TenantStrings x1) = Some x1"
  "un_TenantString (TenantString x2) = Some x2"
  "un_TenantBool (TenantBool x3) = Some x3"
  "un_TenantInt (TenantInt x4) = Some x4"
  "un_TenantK (TenantK x5) = Some x5"
  "un_TenantKs (TenantKs x6) = Some x6"
  "un_TenantPtrs (TenantPtrs x7) = Some x7"
  "un_TenantCertificate (TenantCertificate x8) = Some x8"
  "un_TenantCustomCertificates (TenantCustomCertificates x9) = Some x9"
  "un_TenantReference (TenantReference x10) = Some x10"
  "un_TenantDomains (TenantDomains x11) = Some x11"
  "un_TenantFeatures (TenantFeatures x12) = Some x12"
  "un_TenantCertConfig (TenantCertConfig x13) = Some x13"
  "un_TenantKES (TenantKES x14) = Some x14"
  "un_TenantSideCars (TenantSideCars x15) = Some x15"
  "un_TenantExpose (TenantExpose x16) = Some x16"
  "un_TenantMetadata (TenantMetadata x17) = Some x17"
  "un_TenantBuckets (TenantBuckets x18) = Some x18"
  "un_TenantLogging (TenantLogging x19) = Some x19"
  "un_TenantPools (TenantPools x20) = Some x20"
  "un_TenantStatuses (TenantStatuses x21) = Some x21"
  "un_TenantTiers (TenantTiers x22) = Some x22"
  "un_TenantTenants (TenantTenants x23) = Some x23"
  by (simp_all add: un_TenantMap_def un_TenantStrings_def un_TenantString_def un_TenantBool_def un_TenantInt_def un_TenantK_def un_TenantKs_def un_TenantPtrs_def un_TenantCertificate_def un_TenantCustomCertificates_def un_TenantReference_def un_TenantDomains_def un_TenantFeatures_def un_TenantCertConfig_def un_TenantKES_def un_TenantSideCars_def un_TenantExpose_def un_TenantMetadata_def un_TenantBuckets_def un_TenantLogging_def un_TenantPools_def un_TenantStatuses_def un_TenantTiers_def un_TenantTenants_def)

section \<open>The copies\<close>

definition AuditConfig_DeepCopyInto ::
  "('k, 'k tenant_cell) k8s_copies \<Rightarrow> AuditConfig_data \<Rightarrow> 'k tenant_cell memory \<Rightarrow> AuditConfig_data \<times> 'k tenant_cell memory" where
  "AuditConfig_DeepCopyInto C inp m =
     (let (diskCapacityGB, m1) = copy_ptr assign TenantInt un_TenantInt (AuditConfig_DiskCapacityGB inp) m
      in (inp\<lparr>AuditConfig_DiskCapacityGB := diskCapacityGB\<rparr>, m1))"

definition AuditConfig_DeepCopy ::
  "('k, 'k tenant_cell) k8s_copies \<Rightarrow> AuditConfig_data option \<Rightarrow> 'k tenant_cell memory \<Rightarrow> AuditConfig_data option \<times> 'k tenant_cell memory" where
  "AuditConfig_DeepCopy C = deep_copy (AuditConfig_DeepCopyInto C)"

definition Bucket_DeepCopyInto :: "Bucket \<Rightarrow> 'c memory \<Rightarrow> Bucket \<times> 'c memory" where
  "Bucket_DeepCopyInto = assign"

definition Bucket_DeepCopy :: "Bucket option \<Rightarrow> 'c memory \<Rightarrow> Bucket option \<times> 'c memory" where
  "Bucket_DeepCopy = deep_copy Bucket_DeepCopyInto"

definition CertificateConfig_DeepCopyInto ::
  "('k, 'k tenant_cell) k8s_copies \<Rightarrow> CertificateConfig_data \<Rightarrow> 'k tenant_cell memory \<Rightarrow> CertificateConfig_data \<times> 'k tenant_cell memory" where
  "CertificateConfig_DeepCopyInto C inp m =
     (let (organizationName, m1) = copy_slice assign TenantStrings un_TenantStrings (CertificateConfig_OrganizationName inp) m;
          (dnsnames, m2) = copy_slice assign TenantStrings un_TenantStrings (CertificateConfig_DNSNames inp) m1
      in (inp\<lparr>CertificateConfig_OrganizationName := organizationName,
            CertificateConfig_DNSNames := dnsnames\<rparr>, m2))"

definition CertificateConfig_DeepCopy ::
  "('k, 'k tenant_cell) k8s_copies \<Rightarrow> CertificateConfig_data option \<Rightarrow> 'k tenant_cell memory \<Rightarrow> CertificateConfig_data option \<times> 'k tenant_cell memory" where
  "CertificateConfig_DeepCopy C = deep_copy (CertificateConfig_DeepCopyInto C)"

definition CustomCertificateConfig_DeepCopyInto ::
  "('k, 'k tenant_cell) k8s_copies \<Rightarrow> CustomCertificateConfig_data \<Rightarrow> 'k tenant_cell memory \<Rightarrow> CustomCertificateConfig_data \<times> 'k tenant_cell memory" where
  "CustomCertificateConfig_DeepCopyInto C inp m =
     (let (domains, m1) = copy_slice assign TenantStrings un_TenantStrings (CustomCertificateConfig_Domains inp) m
      in (inp\<lparr>CustomCertificateConfig_Domains := domains\<rparr>, m1))"

definition CustomCertificateConfig_DeepCopy ::
  "('k, 'k tenant_cell) k8s_copies \<Rightarrow> CustomCertificateConfig_data option \<Rightarrow> 'k tenant_cell memory \<Rightarrow> CustomCertificateConfig_data option \<times> 'k tenant_cell memory" where
  "CustomCertificateConfig_DeepCopy C = deep_copy (CustomCertificateConfig_DeepCopyInto C)"

definition CustomCertificates_DeepCopyInto ::
  "('k, 'k tenant_cell) k8s_copies \<Rightarrow> CustomCertificates_data \<Rightarrow> 'k tenant_cell memory \<Rightarrow> CustomCertificates_data \<times> 'k tenant_cell memory" where
  "CustomCertificates_DeepCopyInto C inp m =
     (let (clients, m1) = copy_slice (copy_ptr (CustomCertificateConfig_DeepCopyInto C) TenantCertificate un_TenantCertificate) TenantPtrs un_TenantPtrs (CustomCertificates_Client inp) m;
          (minio, m2) = copy_slice (copy_ptr (CustomCertificateConfig_DeepCopyInto C) TenantCertificate un_TenantCertificate) TenantPtrs un_TenantPtrs (CustomCertificates_Minio inp) m1;
          (minioCAs, m3) = copy_slice (copy_ptr (CustomCertificateConfig_DeepCopyInto C) TenantCertificate un_TenantCertificate) TenantPtrs un_TenantPtrs (CustomCertificates_MinioCAs inp) m2
      in (inp\<lparr>CustomCertificates_Client := clients,
            CustomCertificates_Minio := minio,
            CustomCertificates_MinioCAs := minioCAs\<rparr>, m3))"

definition CustomCertificates_DeepCopy ::
  "('k, 'k tenant_cell) k8s_copies \<Rightarrow> CustomCertificates_data option \<Rightarrow> 'k tenant_cell memory \<Rightarrow> CustomCertificates_data option \<times> 'k tenant_cell memory" where
  "CustomCertificates_DeepCopy C = deep_copy (CustomCertificates_DeepCopyInto C)"

definition CertificateStatus_DeepCopyInto ::
  "('k, 'k tenant_cell) k8s_copies \<Rightarrow> CertificateStatus_data \<Rightarrow> 'k tenant_cell memory \<Rightarrow> CertificateStatus_data \<times> 'k tenant_cell memory" where
  "CertificateStatus_DeepCopyInto C inp m =
     (let (autoCertEnabled, m1) = copy_ptr assign TenantBool un_TenantBool (CertificateStatus_AutoCertEnabled inp) m;
          (customCertificates, m2) = copy_ptr (CustomCertificates_DeepCopyInto C) TenantCustomCertificates un_TenantCustomCertificates (CertificateStatus_CustomCertificates inp) m1
      in (inp\<lparr>CertificateStatus_AutoCertEnabled := autoCertEnabled,
            CertificateStatus_CustomCertificates := customCertificates\<rparr>, m2))"

definition CertificateStatus_DeepCopy ::
  "('k, 'k tenant_cell) k8s_copies \<Rightarrow> CertificateStatus_data option \<Rightarrow> 'k tenant_cell memory \<Rightarrow> CertificateStatus_data option \<times> 'k tenant_cell memory" where
  "CertificateStatus_DeepCopy C = deep_copy (CertificateStatus_DeepCopyInto C)"

definition ExposeServices_DeepCopyInto :: "ExposeServices \<Rightarrow> 'c memory \<Rightarrow> ExposeServices \<times> 'c memory" where
  "ExposeServices_DeepCopyInto = assign"

definition ExposeServices_DeepCopy :: "ExposeServices option \<Rightarrow> 'c memory \<Rightarrow> ExposeServices option \<times> 'c memory" where
  "ExposeServices_DeepCopy = deep_copy ExposeServices_DeepCopyInto"

definition TenantDomains_DeepCopyInto ::
  "('k, 'k tenant_cell) k8s_copies \<Rightarrow> TenantDomains_data \<Rightarrow> 'k tenant_cell memory \<Rightarrow> TenantDomains_data \<times> 'k tenant_cell memory" where
  "TenantDomains_DeepCopyInto C inp m =
     (let (minio, m1) = copy_slice assign TenantStrings un_TenantStrings (TenantDomains_Minio inp) m
      in (inp\<lparr>TenantDomains_Minio := minio\<rparr>, m1))"

definition TenantDomains_DeepCopy ::
  "('k, 'k tenant_cell) k8s_copies \<Rightarrow> TenantDomains_data option \<Rightarrow> 'k tenant_cell memory \<Rightarrow> TenantDomains_data option \<times> 'k tenant_cell memory" where
  "TenantDomains_DeepCopy C = deep_copy (TenantDomains_DeepCopyInto C)"

definition Features_DeepCopyInto ::
  "('k, 'k tenant_cell) k8s_copies \<Rightarrow> Features_data \<Rightarrow> 'k tenant_cell memory \<Rightarrow> Features_data \<times> 'k tenant_cell memory" where
  "Features_DeepCopyInto C inp m =
     (let (domains, m1) = copy_ptr (TenantDomains_DeepCopyInto C) TenantDomains un_TenantDomains (Features_Domains inp) m;
          (enableSFTP, m2) = copy_ptr assign TenantBool un_TenantBool (Features_EnableSFTP inp) m1
      in (inp\<lparr>Features_Domains := domains,
            Features_EnableSFTP := enableSFTP\<rparr>, m2))"

definition Features_DeepCopy ::
  "('k, 'k tenant_cell) k8s_copies \<Rightarrow> Features_data option \<Rightarrow> 'k tenant_cell memory \<Rightarrow> Features_data option \<times> 'k tenant_cell memory" where
  "Features_DeepCopy C = deep_copy (Features_DeepCopyInto C)"

definition LocalCertificateReference_DeepCopyInto :: "LocalCertificateReference \<Rightarrow> 'c memory \<Rightarrow> LocalCertificateReference \<times> 'c memory" where
  "LocalCertificateReference_DeepCopyInto = assign"

definition LocalCertificateReference_DeepCopy :: "LocalCertificateReference option \<Rightarrow> 'c memory \<Rightarrow> LocalCertificateReference option \<times> 'c memory" where
  "LocalCertificateReference_DeepCopy = deep_copy LocalCertificateReference_DeepCopyInto"

definition KESConfig_DeepCopyInto ::
  "('k, 'k tenant_cell) k8s_copies \<Rightarrow> 'k KESConfig_data \<Rightarrow> 'k tenant_cell memory \<Rightarrow> 'k KESConfig_data \<times> 'k tenant_cell memory" where
  "KESConfig_DeepCopyInto C inp m =
     (let (configuration, m1) = copy_ptr assign TenantString un_TenantString (KESConfig_Configuration inp) m;
          (externalCertSecret, m2) = copy_ptr assign TenantReference un_TenantReference (KESConfig_ExternalCertSecret inp) m1;
          (clientCertSecret, m3) = copy_ptr assign TenantReference un_TenantReference (KESConfig_ClientCertSecret inp) m2;
          (annotations, m4) = copy_map (kc_order C) TenantMap un_TenantMap (KESConfig_Annotations inp) m3;
          (labels, m5) = copy_map (kc_order C) TenantMap un_TenantMap (KESConfig_Labels inp) m4;
          (resources, m6) = kc_req C (KESConfig_Resources inp) m5;
          (nodeSelector, m7) = copy_map (kc_order C) TenantMap un_TenantMap (KESConfig_NodeSelector inp) m6;
          (tolerations, m8) = copy_slice (kc_toleration C) TenantKs un_TenantKs (KESConfig_Tolerations inp) m7;
          (affinity, m9) = copy_ptr (kc_affinity C) TenantK un_TenantK (KESConfig_Affinity inp) m8;
          (topologySpreadConstraints, m10) = copy_slice (kc_topology C) TenantKs un_TenantKs (KESConfig_TopologySpreadConstraints inp) m9;
          (securityContext, m11) = copy_ptr (kc_pod_security C) TenantK un_TenantK (KESConfig_SecurityContext inp) m10;
          (envs, m12) = copy_slice (kc_env C) TenantKs un_TenantKs (KESConfig_Env inp) m11
      in (inp\<lparr>KESConfig_Configuration := configuration,
            KESConfig_ExternalCertSecret := externalCertSecret,
            KESConfig_ClientCertSecret := clientCertSecret,
            KESConfig_Annotations := annotations,
            KESConfig_Labels := labels,
            KESConfig_Resources := resources,
            KESConfig_NodeSelector := nodeSelector,
            KESConfig_Tolerations := tolerations,
            KESConfig_Affinity := affinity,
            KESConfig_TopologySpreadConstraints := topologySpreadConstraints,
            KESConfig_SecurityContext := securityContext,
            KESConfig_Env := envs\<rparr>, m12))"

definition KESConfig_DeepCopy ::
  "('k, 'k tenant_cell) k8s_copies \<Rightarrow> 'k KESConfig_data option \<Rightarrow> 'k tenant_cell memory \<Rightarrow> 'k KESConfig_data option \<times> 'k tenant_cell memory" where
  "KESConfig_DeepCopy C = deep_copy (KESConfig_DeepCopyInto C)"

definition Logging_DeepCopyInto :: "Logging \<Rightarrow> 'c memory \<Rightarrow> Logging \<times> 'c memory" where
  "Logging_DeepCopyInto = assign"

definition Logging_DeepCopy :: "Logging option \<Rightarrow> 'c memory \<Rightarrow> Logging option \<times> 'c memory" where
  "Logging_DeepCopy = deep_copy Logging_DeepCopyInto"

definition Pool_DeepCopyInto ::
  "('k, 'k tenant_cell) k8s_copies \<Rightarrow> 'k Pool_data \<Rightarrow> 'k tenant_cell memory \<Rightarrow> 'k Pool_data \<times> 'k tenant_cell memory" where
  "Pool_DeepCopyInto C inp m =
     (let (volumeClaimTemplate, m1) = copy_ptr (kc_claim C) TenantK un_TenantK (Pool_VolumeClaimTemplate inp) m;
          (resources, m2) = kc_req C (Pool_Resources inp) m1;
          (nodeSelector, m3) = copy_map (kc_order C) TenantMap un_TenantMap (Pool_NodeSelector inp) m2;
          (affinity, m4) = copy_ptr (kc_affinity C) TenantK un_TenantK (Pool_Affinity inp) m3;
          (tolerations, m5) = copy_slice (kc_toleration C) TenantKs un_TenantKs (Pool_Tolerations inp) m4;
          (topologySpreadConstraints, m6) = copy_slice (kc_topology C) TenantKs un_TenantKs (Pool_TopologySpreadConstraints inp) m5;
          (securityContext, m7) = copy_ptr (kc_pod_security C) TenantK un_TenantK (Pool_SecurityContext inp) m6;
          (containerSecurityContext, m8) = copy_ptr (kc_security C) TenantK un_TenantK (Pool_ContainerSecurityContext inp) m7;
          (annotations, m9) = copy_map (kc_order C) TenantMap un_TenantMap (Pool_Annotations inp) m8;
          (labels, m10) = copy_map (kc_order C) TenantMap un_TenantMap (Pool_Labels inp) m9;
          (runtimeClassName, m11) = copy_ptr assign TenantString un_TenantString (Pool_RuntimeClassName inp) m10
      in (inp\<lparr>Pool_VolumeClaimTemplate := volumeClaimTemplate,
            Pool_Resources := resources,
            Pool_NodeSelector := nodeSelector,
            Pool_Affinity := affinity,
            Pool_Tolerations := tolerations,
            Pool_TopologySpreadConstraints := topologySpreadConstraints,
            Pool_SecurityContext := securityContext,
            Pool_ContainerSecurityContext := containerSecurityContext,
            Pool_Annotations := annotations,
            Pool_Labels := labels,
            Pool_RuntimeClassName := runtimeClassName\<rparr>, m11))"

definition Pool_DeepCopy ::
  "('k, 'k tenant_cell) k8s_copies \<Rightarrow> 'k Pool_data option \<Rightarrow> 'k tenant_cell memory \<Rightarrow> 'k Pool_data option \<times> 'k tenant_cell memory" where
  "Pool_DeepCopy C = deep_copy (Pool_DeepCopyInto C)"

definition PoolStatus_DeepCopyInto :: "PoolStatus \<Rightarrow> 'c memory \<Rightarrow> PoolStatus \<times> 'c memory" where
  "PoolStatus_DeepCopyInto = assign"

definition PoolStatus_DeepCopy :: "PoolStatus option \<Rightarrow> 'c memory \<Rightarrow> PoolStatus option \<times> 'c memory" where
  "PoolStatus_DeepCopy = deep_copy PoolStatus_DeepCopyInto"

definition ServiceMetadata_DeepCopyInto ::
  "('k, 'k tenant_cell) k8s_copies \<Rightarrow> ServiceMetadata_data \<Rightarrow> 'k tenant_cell memory \<Rightarrow> ServiceMetadata_data \<times> 'k tenant_cell memory" where
  "ServiceMetadata_DeepCopyInto C inp m =
     (let (minIOServiceLabels, m1) = copy_map (kc_order C) TenantMap un_TenantMap (ServiceMetadata_MinIOServiceLabels inp) m;
          (minIOServiceAnnotations, m2) = copy_map (kc_order C) TenantMap un_TenantMap (ServiceMetadata_MinIOServiceAnnotations inp) m1;
          (consoleServiceLabels, m3) = copy_map (kc_order C) TenantMap un_TenantMap (ServiceMetadata_ConsoleServiceLabels inp) m2;
          (consoleServiceAnnotations, m4) = copy_map (kc_order C) TenantMap un_TenantMap (ServiceMetadata_ConsoleServiceAnnotations inp) m3
      in (inp\<lparr>ServiceMetadata_MinIOServiceLabels := minIOServiceLabels,
            ServiceMetadata_MinIOServiceAnnotations := minIOServiceAnnotations,
            ServiceMetadata_ConsoleServiceLabels := consoleServiceLabels,
            ServiceMetadata_ConsoleServiceAnnotations := consoleServiceAnnotations\<rparr>, m4))"

definition ServiceMetadata_DeepCopy ::
  "('k, 'k tenant_cell) k8s_copies \<Rightarrow> ServiceMetadata_data option \<Rightarrow> 'k tenant_cell memory \<Rightarrow> ServiceMetadata_data option \<times> 'k tenant_cell memory" where
  "ServiceMetadata_DeepCopy C = deep_copy (ServiceMetadata_DeepCopyInto C)"

definition SideCars_DeepCopyInto ::
  "('k, 'k tenant_cell) k8s_copies \<Rightarrow> SideCars_data \<Rightarrow> 'k tenant_cell memory \<Rightarrow> SideCars_data \<times> 'k tenant_cell memory" where
  "SideCars_DeepCopyInto C inp m =
     (let (containers, m1) = copy_slice (kc_container C) TenantKs un_TenantKs (SideCars_Containers inp) m;
          (volumeClaimTemplates, m2) = copy_slice (kc_claim C) TenantKs un_TenantKs (SideCars_VolumeClaimTemplates inp) m1;
          (volumes, m3) = copy_slice (kc_volume C) TenantKs un_TenantKs (SideCars_Volumes inp) m2
      in (inp\<lparr>SideCars_Containers := containers,
            SideCars_VolumeClaimTemplates := volumeClaimTemplates,
            SideCars_Volumes := volumes\<rparr>, m3))"

definition SideCars_DeepCopy ::
  "('k, 'k tenant_cell) k8s_copies \<Rightarrow> SideCars_data option \<Rightarrow> 'k tenant_cell memory \<Rightarrow> SideCars_data option \<times> 'k tenant_cell memory" where
  "SideCars_DeepCopy C = deep_copy (SideCars_DeepCopyInto C)"

definition TenantScheduler_DeepCopyInto :: "TenantScheduler \<Rightarrow> 'c memory \<Rightarrow> TenantScheduler \<times> 'c memory" where
  "TenantScheduler_DeepCopyInto = assign"

definition TenantScheduler_DeepCopy :: "TenantScheduler option \<Rightarrow> 'c memory \<Rightarrow> TenantScheduler option \<times> 'c memory" where
  "TenantScheduler_DeepCopy = deep_copy TenantScheduler_DeepCopyInto"

definition TenantSpec_DeepCopyInto ::
  "('k, 'k tenant_cell) k8s_copies \<Rightarrow> TenantSpec_data \<Rightarrow> 'k tenant_cell memory \<Rightarrow> TenantSpec_data \<times> 'k tenant_cell memory" where
  "TenantSpec_DeepCopyInto C inp m =
     (let (pools, m1) = copy_slice (Pool_DeepCopyInto C) TenantPools un_TenantPools (TenantSpec_Pools inp) m;
          (credsSecret, m2) = copy_ptr assign TenantString un_TenantString (TenantSpec_CredsSecret inp) m1;
          (envs, m3) = copy_slice (kc_env C) TenantKs un_TenantKs (TenantSpec_Env inp) m2;
          (externalCertSecret, m4) = copy_slice (copy_ptr assign TenantReference un_TenantReference) TenantPtrs un_TenantPtrs (TenantSpec_ExternalCertSecret inp) m3;
          (externalCaCertSecret, m5) = copy_slice (copy_ptr assign TenantReference un_TenantReference) TenantPtrs un_TenantPtrs (TenantSpec_ExternalCaCertSecret inp) m4;
          (externalClientCertSecret, m6) = copy_ptr assign TenantReference un_TenantReference (TenantSpec_ExternalClientCertSecret inp) m5;
          (externalClientCertSecrets, m7) = copy_slice (copy_ptr assign TenantReference un_TenantReference) TenantPtrs un_TenantPtrs (TenantSpec_ExternalClientCertSecrets inp) m6;
          (requestAutoCert, m8) = copy_ptr assign TenantBool un_TenantBool (TenantSpec_RequestAutoCert inp) m7;
          (liveness, m9) = copy_ptr (kc_probe C) TenantK un_TenantK (TenantSpec_Liveness inp) m8;
          (readiness, m10) = copy_ptr (kc_probe C) TenantK un_TenantK (TenantSpec_Readiness inp) m9;
          (startup, m11) = copy_ptr (kc_probe C) TenantK un_TenantK (TenantSpec_Startup inp) m10;
          (features, m12) = copy_ptr (Features_DeepCopyInto C) TenantFeatures un_TenantFeatures (TenantSpec_Features inp) m11;
          (certConfig, m13) = copy_ptr (CertificateConfig_DeepCopyInto C) TenantCertConfig un_TenantCertConfig (TenantSpec_CertConfig inp) m12;
          (kes, m14) = copy_ptr (KESConfig_DeepCopyInto C) TenantKES un_TenantKES (TenantSpec_KES inp) m13;
          (sideCars, m15) = copy_ptr (SideCars_DeepCopyInto C) TenantSideCars un_TenantSideCars (TenantSpec_SideCars inp) m14;
          (exposeServices, m16) = copy_ptr assign TenantExpose un_TenantExpose (TenantSpec_ExposeServices inp) m15;
          (serviceMetadata, m17) = copy_ptr (ServiceMetadata_DeepCopyInto C) TenantMetadata un_TenantMetadata (TenantSpec_ServiceMetadata inp) m16;
          (users, m18) = copy_slice (copy_ptr assign TenantString un_TenantString) TenantPtrs un_TenantPtrs (TenantSpec_Users inp) m17;
          (buckets, m19) = copy_slice assign TenantBuckets un_TenantBuckets (TenantSpec_Buckets inp) m18;
          (logging, m20) = copy_ptr assign TenantLogging un_TenantLogging (TenantSpec_Logging inp) m19;
          (configuration, m21) = copy_ptr assign TenantString un_TenantString (TenantSpec_Configuration inp) m20;
          (initContainers, m22) = copy_slice (kc_container C) TenantKs un_TenantKs (TenantSpec_InitContainers inp) m21
      in (inp\<lparr>TenantSpec_Pools := pools,
            TenantSpec_CredsSecret := credsSecret,
            TenantSpec_Env := envs,
            TenantSpec_ExternalCertSecret := externalCertSecret,
            TenantSpec_ExternalCaCertSecret := externalCaCertSecret,
            TenantSpec_ExternalClientCertSecret := externalClientCertSecret,
            TenantSpec_ExternalClientCertSecrets := externalClientCertSecrets,
            TenantSpec_RequestAutoCert := requestAutoCert,
            TenantSpec_Liveness := liveness,
            TenantSpec_Readiness := readiness,
            TenantSpec_Startup := startup,
            TenantSpec_Features := features,
            TenantSpec_CertConfig := certConfig,
            TenantSpec_KES := kes,
            TenantSpec_SideCars := sideCars,
            TenantSpec_ExposeServices := exposeServices,
            TenantSpec_ServiceMetadata := serviceMetadata,
            TenantSpec_Users := users,
            TenantSpec_Buckets := buckets,
            TenantSpec_Logging := logging,
            TenantSpec_Configuration := configuration,
            TenantSpec_InitContainers := initContainers\<rparr>, m22))"

definition TenantSpec_DeepCopy ::
  "('k, 'k tenant_cell) k8s_copies \<Rightarrow> TenantSpec_data option \<Rightarrow> 'k tenant_cell memory \<Rightarrow> TenantSpec_data option \<times> 'k tenant_cell memory" where
  "TenantSpec_DeepCopy C = deep_copy (TenantSpec_DeepCopyInto C)"

definition TierUsage_DeepCopyInto :: "TierUsage \<Rightarrow> 'c memory \<Rightarrow> TierUsage \<times> 'c memory" where
  "TierUsage_DeepCopyInto = assign"

definition TierUsage_DeepCopy :: "TierUsage option \<Rightarrow> 'c memory \<Rightarrow> TierUsage option \<times> 'c memory" where
  "TierUsage_DeepCopy = deep_copy TierUsage_DeepCopyInto"

definition TenantUsage_DeepCopyInto ::
  "('k, 'k tenant_cell) k8s_copies \<Rightarrow> TenantUsage_data \<Rightarrow> 'k tenant_cell memory \<Rightarrow> TenantUsage_data \<times> 'k tenant_cell memory" where
  "TenantUsage_DeepCopyInto C inp m =
     (let (tiers, m1) = copy_slice assign TenantTiers un_TenantTiers (TenantUsage_Tiers inp) m
      in (inp\<lparr>TenantUsage_Tiers := tiers\<rparr>, m1))"

definition TenantUsage_DeepCopy ::
  "('k, 'k tenant_cell) k8s_copies \<Rightarrow> TenantUsage_data option \<Rightarrow> 'k tenant_cell memory \<Rightarrow> TenantUsage_data option \<times> 'k tenant_cell memory" where
  "TenantUsage_DeepCopy C = deep_copy (TenantUsage_DeepCopyInto C)"

definition TenantStatus_DeepCopyInto ::
  "('k, 'k tenant_cell) k8s_copies \<Rightarrow> TenantStatus_data \<Rightarrow> 'k tenant_cell memory \<Rightarrow> TenantStatus_data \<times> 'k tenant_cell memory" where
  "TenantStatus_DeepCopyInto C inp m =
     (let (certificates, m1) = CertificateStatus_DeepCopyInto C (TenantStatus_Certificates inp) m;
          (pools, m2) = copy_slice assign TenantStatuses un_TenantStatuses (TenantStatus_Pools inp) m1;
          (waitingOnReady, m3) = copy_ptr (kc_time C) TenantK un_TenantK (TenantStatus_WaitingOnReady inp) m2;
          (usage, m4) = TenantUsage_DeepCopyInto C (TenantStatus_Usage inp) m3
      in (inp\<lparr>TenantStatus_Certificates := certificates,
            TenantStatus_Pools := pools,
            TenantStatus_WaitingOnReady := waitingOnReady,
            TenantStatus_Usage := usage\<rparr>, m4))"

definition TenantStatus_DeepCopy ::
  "('k, 'k tenant_cell) k8s_copies \<Rightarrow> TenantStatus_data option \<Rightarrow> 'k tenant_cell memory \<Rightarrow> TenantStatus_data option \<times> 'k tenant_cell memory" where
  "TenantStatus_DeepCopy C = deep_copy (TenantStatus_DeepCopyInto C)"

definition Tenant_DeepCopyInto ::
  "('k, 'k tenant_cell) k8s_copies \<Rightarrow> 'k Tenant_data \<Rightarrow> 'k tenant_cell memory \<Rightarrow> 'k Tenant_data \<times> 'k tenant_cell memory" where
  "Tenant_DeepCopyInto C inp m =
     (let (objectMeta, m1) = kc_meta C (Tenant_ObjectMeta inp) m;
          (spec, m2) = TenantSpec_DeepCopyInto C (Tenant_Spec inp) m1;
          (status, m3) = TenantStatus_DeepCopyInto C (Tenant_Status inp) m2
      in (inp\<lparr>Tenant_ObjectMeta := objectMeta,
            Tenant_Spec := spec,
            Tenant_Status := status\<rparr>, m3))"

definition Tenant_DeepCopy ::
  "('k, 'k tenant_cell) k8s_copies \<Rightarrow> 'k Tenant_data option \<Rightarrow> 'k tenant_cell memory \<Rightarrow> 'k Tenant_data option \<times> 'k tenant_cell memory" where
  "Tenant_DeepCopy C = deep_copy (Tenant_DeepCopyInto C)"

definition Tenant_DeepCopyObject ::
  "('k, 'k tenant_cell) k8s_copies \<Rightarrow> 'k Tenant_data option \<Rightarrow> 'k tenant_cell memory \<Rightarrow> 'k Tenant_data option \<times> 'k tenant_cell memory" where
  "Tenant_DeepCopyObject C = deep_copy_object (Tenant_DeepCopyInto C)"

definition TenantList_DeepCopyInto ::
  "('k, 'k tenant_cell) k8s_copies \<Rightarrow> 'k TenantList_data \<Rightarrow> 'k tenant_cell memory \<Rightarrow> 'k TenantList_data \<times> 'k tenant_cell memory" where
  "TenantList_DeepCopyInto C inp m =
     (let (listMeta, m1) = kc_list_meta C (TenantList_ListMeta inp) m;
          (elements, m2) = copy_slice (Tenant_DeepCopyInto C) TenantTenants un_TenantTenants (TenantList_Items inp) m1
      in (inp\<lparr>TenantList_ListMeta := listMeta,
            TenantList_Items := elements\<rparr>, m2))"

definition TenantList_DeepCopy ::
  "('k, 'k tenant_cell) k8s_copies \<Rightarrow> 'k TenantList_data option \<Rightarrow> 'k tenant_cell memory \<Rightarrow> 'k TenantList_data option \<times> 'k tenant_cell memory" where
  "TenantList_DeepCopy C = deep_copy (TenantList_DeepCopyInto C)"

definition TenantList_DeepCopyObject ::
  "('k, 'k tenant_cell) k8s_copies \<Rightarrow> 'k TenantList_data option \<Rightarrow> 'k tenant_cell memory \<Rightarrow> 'k TenantList_data option \<times> 'k tenant_cell memory" where
  "TenantList_DeepCopyObject C = deep_copy_object (TenantList_DeepCopyInto C)"

section \<open>What the structs read as\<close>

definition AuditConfig_reads where
  "AuditConfig_reads (R :: ('k, 'k tenant_cell) k8s_readers) m h =
     map_option (\<lambda>diskCapacityGB. (AuditConfig_value h)
         \<lparr>ac_DiskCapacityGB := diskCapacityGB\<rparr>)
       ((reads_ptr reads_plain un_TenantInt) m
         (AuditConfig_DiskCapacityGB h))"

definition CertificateConfig_reads where
  "CertificateConfig_reads (R :: ('k, 'k tenant_cell) k8s_readers) m h =
     map_option (\<lambda>(organizationName, dnsnames). (CertificateConfig_value h)
         \<lparr>cert_OrganizationName := items organizationName,
           cert_DNSNames := items dnsnames\<rparr>)
       ((reads_pair (reads_slice reads_plain un_TenantStrings) (reads_slice reads_plain un_TenantStrings)) m
         (CertificateConfig_OrganizationName h, CertificateConfig_DNSNames h))"

definition CustomCertificateConfig_reads where
  "CustomCertificateConfig_reads (R :: ('k, 'k tenant_cell) k8s_readers) m h =
     map_option (\<lambda>domains. (CustomCertificateConfig_value h)
         \<lparr>ccc_Domains := items domains\<rparr>)
       ((reads_slice reads_plain un_TenantStrings) m
         (CustomCertificateConfig_Domains h))"

definition CustomCertificates_reads where
  "CustomCertificates_reads (R :: ('k, 'k tenant_cell) k8s_readers) m h =
     map_option (\<lambda>(clients, minio, minioCAs). (CustomCertificates_value h)
         \<lparr>cc_Client := items clients,
           cc_Minio := items minio,
           cc_MinioCAs := items minioCAs\<rparr>)
       ((reads_pair (reads_slice (reads_item (CustomCertificateConfig_reads R) un_TenantCertificate) un_TenantPtrs) (reads_pair (reads_slice (reads_item (CustomCertificateConfig_reads R) un_TenantCertificate) un_TenantPtrs) (reads_slice (reads_item (CustomCertificateConfig_reads R) un_TenantCertificate) un_TenantPtrs))) m
         (CustomCertificates_Client h, CustomCertificates_Minio h, CustomCertificates_MinioCAs h))"

definition CertificateStatus_reads where
  "CertificateStatus_reads (R :: ('k, 'k tenant_cell) k8s_readers) m h =
     map_option (\<lambda>(autoCertEnabled, customCertificates). (CertificateStatus_value h)
         \<lparr>cs_AutoCertEnabled := autoCertEnabled,
           cs_CustomCertificates := customCertificates\<rparr>)
       ((reads_pair (reads_ptr reads_plain un_TenantBool) (reads_ptr (CustomCertificates_reads R) un_TenantCustomCertificates)) m
         (CertificateStatus_AutoCertEnabled h, CertificateStatus_CustomCertificates h))"

definition TenantDomains_reads where
  "TenantDomains_reads (R :: ('k, 'k tenant_cell) k8s_readers) m h =
     map_option (\<lambda>minio. (TenantDomains_value h)
         \<lparr>td_Minio := items minio\<rparr>)
       ((reads_slice reads_plain un_TenantStrings) m
         (TenantDomains_Minio h))"

definition Features_reads where
  "Features_reads (R :: ('k, 'k tenant_cell) k8s_readers) m h =
     map_option (\<lambda>(domains, enableSFTP). (Features_value h)
         \<lparr>ft_Domains := domains,
           ft_EnableSFTP := enableSFTP\<rparr>)
       ((reads_pair (reads_ptr (TenantDomains_reads R) un_TenantDomains) (reads_ptr reads_plain un_TenantBool)) m
         (Features_Domains h, Features_EnableSFTP h))"

definition KESConfig_reads where
  "KESConfig_reads (R :: ('k, 'k tenant_cell) k8s_readers) m h =
     map_option (\<lambda>(configuration, externalCertSecret, clientCertSecret, annotations, labels, resources, nodeSelector, tolerations, affinity, topologySpreadConstraints, securityContext, envs). (KESConfig_value h)
         \<lparr>kes_Configuration := configuration,
           kes_ExternalCertSecret := externalCertSecret,
           kes_ClientCertSecret := clientCertSecret,
           kes_Annotations := annotations,
           kes_Labels := labels,
           kes_Resources := resources,
           kes_NodeSelector := nodeSelector,
           kes_Tolerations := items tolerations,
           kes_Affinity := affinity,
           kes_TopologySpreadConstraints := items topologySpreadConstraints,
           kes_SecurityContext := securityContext,
           kes_Env := items envs\<rparr>)
       ((reads_pair (reads_ptr reads_plain un_TenantString) (reads_pair (reads_ptr reads_plain un_TenantReference) (reads_pair (reads_ptr reads_plain un_TenantReference) (reads_pair (reads_map un_TenantMap) (reads_pair (reads_map un_TenantMap) (reads_pair (kr_req R) (reads_pair (reads_map un_TenantMap) (reads_pair (reads_slice (kr_toleration R) un_TenantKs) (reads_pair (reads_ptr (kr_affinity R) un_TenantK) (reads_pair (reads_slice (kr_topology R) un_TenantKs) (reads_pair (reads_ptr (kr_pod_security R) un_TenantK) (reads_slice (kr_env R) un_TenantKs)))))))))))) m
         (KESConfig_Configuration h, KESConfig_ExternalCertSecret h, KESConfig_ClientCertSecret h, KESConfig_Annotations h, KESConfig_Labels h, KESConfig_Resources h, KESConfig_NodeSelector h, KESConfig_Tolerations h, KESConfig_Affinity h, KESConfig_TopologySpreadConstraints h, KESConfig_SecurityContext h, KESConfig_Env h))"

definition Pool_reads where
  "Pool_reads (R :: ('k, 'k tenant_cell) k8s_readers) m h =
     map_option (\<lambda>(volumeClaimTemplate, resources, nodeSelector, affinity, tolerations, topologySpreadConstraints, securityContext, containerSecurityContext, annotations, labels, runtimeClassName). (Pool_value h)
         \<lparr>pool_VolumeClaimTemplate := volumeClaimTemplate,
           pool_Resources := resources,
           pool_NodeSelector := nodeSelector,
           pool_Affinity := affinity,
           pool_Tolerations := items tolerations,
           pool_TopologySpreadConstraints := items topologySpreadConstraints,
           pool_SecurityContext := securityContext,
           pool_ContainerSecurityContext := containerSecurityContext,
           pool_Annotations := annotations,
           pool_Labels := labels,
           pool_RuntimeClassName := runtimeClassName\<rparr>)
       ((reads_pair (reads_ptr (kr_claim R) un_TenantK) (reads_pair (kr_req R) (reads_pair (reads_map un_TenantMap) (reads_pair (reads_ptr (kr_affinity R) un_TenantK) (reads_pair (reads_slice (kr_toleration R) un_TenantKs) (reads_pair (reads_slice (kr_topology R) un_TenantKs) (reads_pair (reads_ptr (kr_pod_security R) un_TenantK) (reads_pair (reads_ptr (kr_security R) un_TenantK) (reads_pair (reads_map un_TenantMap) (reads_pair (reads_map un_TenantMap) (reads_ptr reads_plain un_TenantString))))))))))) m
         (Pool_VolumeClaimTemplate h, Pool_Resources h, Pool_NodeSelector h, Pool_Affinity h, Pool_Tolerations h, Pool_TopologySpreadConstraints h, Pool_SecurityContext h, Pool_ContainerSecurityContext h, Pool_Annotations h, Pool_Labels h, Pool_RuntimeClassName h))"

definition ServiceMetadata_reads where
  "ServiceMetadata_reads (R :: ('k, 'k tenant_cell) k8s_readers) m h =
     map_option (\<lambda>(minIOServiceLabels, minIOServiceAnnotations, consoleServiceLabels, consoleServiceAnnotations). (ServiceMetadata_value h)
         \<lparr>sm_MinIOServiceLabels := minIOServiceLabels,
           sm_MinIOServiceAnnotations := minIOServiceAnnotations,
           sm_ConsoleServiceLabels := consoleServiceLabels,
           sm_ConsoleServiceAnnotations := consoleServiceAnnotations\<rparr>)
       ((reads_pair (reads_map un_TenantMap) (reads_pair (reads_map un_TenantMap) (reads_pair (reads_map un_TenantMap) (reads_map un_TenantMap)))) m
         (ServiceMetadata_MinIOServiceLabels h, ServiceMetadata_MinIOServiceAnnotations h, ServiceMetadata_ConsoleServiceLabels h, ServiceMetadata_ConsoleServiceAnnotations h))"

definition SideCars_reads where
  "SideCars_reads R read_resources m h =
     map_option (\<lambda>(containers, volumeClaimTemplates, volumes, resources). (SideCars_value h)
         \<lparr>sc_Containers := items containers,
           sc_VolumeClaimTemplates := items volumeClaimTemplates,
           sc_Volumes := items volumes,
           sc_Resources := resources\<rparr>)
       ((reads_pair (reads_slice (kr_container R) un_TenantKs) (reads_pair (reads_slice (kr_claim R) un_TenantKs) (reads_pair (reads_slice (kr_volume R) un_TenantKs) read_resources))) m
         (SideCars_Containers h, SideCars_VolumeClaimTemplates h, SideCars_Volumes h, SideCars_Resources h))"

definition TenantSpec_reads where
  "TenantSpec_reads R read_resources read_volumes read_mounts m h =
     map_option (\<lambda>(pools, credsSecret, envs, externalCertSecret, externalCaCertSecret, externalClientCertSecret, externalClientCertSecrets, requestAutoCert, liveness, readiness, startup, features, certConfig, kes, sideCars, exposeServices, serviceMetadata, users, buckets, logging, configuration, initContainers, additionalVolumes, additionalVolumeMounts). (TenantSpec_value h)
         \<lparr>ts_Pools := pools,
           ts_CredsSecret := credsSecret,
           ts_Env := items envs,
           ts_ExternalCertSecret := items externalCertSecret,
           ts_ExternalCaCertSecret := items externalCaCertSecret,
           ts_ExternalClientCertSecret := externalClientCertSecret,
           ts_ExternalClientCertSecrets := items externalClientCertSecrets,
           ts_RequestAutoCert := requestAutoCert,
           ts_Liveness := liveness,
           ts_Readiness := readiness,
           ts_Startup := startup,
           ts_Features := features,
           ts_CertConfig := certConfig,
           ts_KES := kes,
           ts_SideCars := sideCars,
           ts_ExposeServices := exposeServices,
           ts_ServiceMetadata := serviceMetadata,
           ts_Users := items users,
           ts_Buckets := items buckets,
           ts_Logging := logging,
           ts_Configuration := configuration,
           ts_InitContainers := items initContainers,
           ts_AdditionalVolumes := items additionalVolumes,
           ts_AdditionalVolumeMounts := items additionalVolumeMounts\<rparr>)
       ((reads_pair (reads_slice (Pool_reads R) un_TenantPools) (reads_pair (reads_ptr reads_plain un_TenantString) (reads_pair (reads_slice (kr_env R) un_TenantKs) (reads_pair (reads_slice (reads_item reads_plain un_TenantReference) un_TenantPtrs) (reads_pair (reads_slice (reads_item reads_plain un_TenantReference) un_TenantPtrs) (reads_pair (reads_ptr reads_plain un_TenantReference) (reads_pair (reads_slice (reads_item reads_plain un_TenantReference) un_TenantPtrs) (reads_pair (reads_ptr reads_plain un_TenantBool) (reads_pair (reads_ptr (kr_probe R) un_TenantK) (reads_pair (reads_ptr (kr_probe R) un_TenantK) (reads_pair (reads_ptr (kr_probe R) un_TenantK) (reads_pair (reads_ptr (Features_reads R) un_TenantFeatures) (reads_pair (reads_ptr (CertificateConfig_reads R) un_TenantCertConfig) (reads_pair (reads_ptr (KESConfig_reads R) un_TenantKES) (reads_pair (reads_ptr (SideCars_reads R read_resources) un_TenantSideCars) (reads_pair (reads_ptr reads_plain un_TenantExpose) (reads_pair (reads_ptr (ServiceMetadata_reads R) un_TenantMetadata) (reads_pair (reads_slice (reads_item reads_plain un_TenantString) un_TenantPtrs) (reads_pair (reads_slice reads_plain un_TenantBuckets) (reads_pair (reads_ptr reads_plain un_TenantLogging) (reads_pair (reads_ptr reads_plain un_TenantString) (reads_pair (reads_slice (kr_container R) un_TenantKs) (reads_pair read_volumes read_mounts))))))))))))))))))))))) m
         (TenantSpec_Pools h, TenantSpec_CredsSecret h, TenantSpec_Env h, TenantSpec_ExternalCertSecret h, TenantSpec_ExternalCaCertSecret h, TenantSpec_ExternalClientCertSecret h, TenantSpec_ExternalClientCertSecrets h, TenantSpec_RequestAutoCert h, TenantSpec_Liveness h, TenantSpec_Readiness h, TenantSpec_Startup h, TenantSpec_Features h, TenantSpec_CertConfig h, TenantSpec_KES h, TenantSpec_SideCars h, TenantSpec_ExposeServices h, TenantSpec_ServiceMetadata h, TenantSpec_Users h, TenantSpec_Buckets h, TenantSpec_Logging h, TenantSpec_Configuration h, TenantSpec_InitContainers h, TenantSpec_AdditionalVolumes h, TenantSpec_AdditionalVolumeMounts h))"

definition TenantUsage_reads where
  "TenantUsage_reads (R :: ('k, 'k tenant_cell) k8s_readers) m h =
     map_option (\<lambda>tiers. (TenantUsage_value h)
         \<lparr>us_Tiers := items tiers\<rparr>)
       ((reads_slice reads_plain un_TenantTiers) m
         (TenantUsage_Tiers h))"

definition TenantStatus_reads where
  "TenantStatus_reads (R :: ('k, 'k tenant_cell) k8s_readers) m h =
     map_option (\<lambda>(certificates, pools, waitingOnReady, usage). (TenantStatus_value h)
         \<lparr>tst_Certificates := certificates,
           tst_Pools := items pools,
           tst_WaitingOnReady := waitingOnReady,
           tst_Usage := usage\<rparr>)
       ((reads_pair (CertificateStatus_reads R) (reads_pair (reads_slice reads_plain un_TenantStatuses) (reads_pair (reads_ptr (kr_time R) un_TenantK) (TenantUsage_reads R)))) m
         (TenantStatus_Certificates h, TenantStatus_Pools h, TenantStatus_WaitingOnReady h, TenantStatus_Usage h))"

definition Tenant_reads where
  "Tenant_reads R read_resources read_volumes read_mounts m h =
     map_option (\<lambda>(objectMeta, spec, status). (Tenant_value h)
         \<lparr>t_Meta := objectMeta,
           t_Spec := spec,
           t_Status := status\<rparr>)
       ((reads_pair (kr_meta R) (reads_pair (TenantSpec_reads R read_resources read_volumes read_mounts) (TenantStatus_reads R))) m
         (Tenant_ObjectMeta h, Tenant_Spec h, Tenant_Status h))"

definition TenantList_reads where
  "TenantList_reads R read_resources read_volumes read_mounts m h =
     map_option (\<lambda>(listMeta, elements). (TenantList_value h)
         \<lparr>ol_ListMeta := Some listMeta,
           ol_Items := items elements\<rparr>)
       ((reads_pair (kr_list_meta R) (reads_slice (Tenant_reads R read_resources read_volumes read_mounts) un_TenantTenants)) m
         (TenantList_ListMeta h, TenantList_Items h))"

section \<open>They are deep copies\<close>

locale tenant_copying = k8s_copying C R
  for C :: "('k, 'k tenant_cell) k8s_copies" and R :: "('k, 'k tenant_cell) k8s_readers"
begin

lemma AuditConfig_deep: "deep_copying (AuditConfig_DeepCopyInto C) (AuditConfig_reads R)"
proof -
  have cp: "AuditConfig_DeepCopyInto C = (\<lambda>h m. let (x, m1) = (copy_ptr assign TenantInt un_TenantInt)
      (AuditConfig_DiskCapacityGB h) m
    in (case x of x1 \<Rightarrow> h\<lparr>AuditConfig_DiskCapacityGB := x1\<rparr>, m1))"
    by (simp only: fun_eq_iff AuditConfig_DeepCopyInto_def copy_stages)
  show ?thesis
    unfolding cp AuditConfig_reads_def [abs_def]
    by (rule deep_struct [OF deep_ptr [OF plain.deep_copying_axioms, of un_TenantInt TenantInt, OF un_tenant_cell(5)]])
      (simp_all add: split_beta)
qed

lemma CertificateConfig_deep: "deep_copying (CertificateConfig_DeepCopyInto C) (CertificateConfig_reads R)"
proof -
  have cp: "CertificateConfig_DeepCopyInto C = (\<lambda>h m. let (x, m1) = (copy_pair (copy_slice assign TenantStrings un_TenantStrings) (copy_slice assign TenantStrings un_TenantStrings))
      (CertificateConfig_OrganizationName h, CertificateConfig_DNSNames h) m
    in (case x of (x1, x2) \<Rightarrow> h\<lparr>CertificateConfig_OrganizationName := x1, CertificateConfig_DNSNames := x2\<rparr>, m1))"
    by (simp only: fun_eq_iff CertificateConfig_DeepCopyInto_def copy_stages)
  show ?thesis
    unfolding cp CertificateConfig_reads_def [abs_def]
    by (rule deep_struct [OF deep_pair [OF deep_slice [OF plain.deep_copying_axioms, of un_TenantStrings TenantStrings, OF un_tenant_cell(2)] deep_slice [OF plain.deep_copying_axioms, of un_TenantStrings TenantStrings, OF un_tenant_cell(2)]]])
      (simp_all add: split_beta)
qed

lemma CustomCertificateConfig_deep: "deep_copying (CustomCertificateConfig_DeepCopyInto C) (CustomCertificateConfig_reads R)"
proof -
  have cp: "CustomCertificateConfig_DeepCopyInto C = (\<lambda>h m. let (x, m1) = (copy_slice assign TenantStrings un_TenantStrings)
      (CustomCertificateConfig_Domains h) m
    in (case x of x1 \<Rightarrow> h\<lparr>CustomCertificateConfig_Domains := x1\<rparr>, m1))"
    by (simp only: fun_eq_iff CustomCertificateConfig_DeepCopyInto_def copy_stages)
  show ?thesis
    unfolding cp CustomCertificateConfig_reads_def [abs_def]
    by (rule deep_struct [OF deep_slice [OF plain.deep_copying_axioms, of un_TenantStrings TenantStrings, OF un_tenant_cell(2)]])
      (simp_all add: split_beta)
qed

lemma CustomCertificates_deep: "deep_copying (CustomCertificates_DeepCopyInto C) (CustomCertificates_reads R)"
proof -
  have cp: "CustomCertificates_DeepCopyInto C = (\<lambda>h m. let (x, m1) = (copy_pair (copy_slice (copy_ptr (CustomCertificateConfig_DeepCopyInto C) TenantCertificate un_TenantCertificate) TenantPtrs un_TenantPtrs) (copy_pair (copy_slice (copy_ptr (CustomCertificateConfig_DeepCopyInto C) TenantCertificate un_TenantCertificate) TenantPtrs un_TenantPtrs) (copy_slice (copy_ptr (CustomCertificateConfig_DeepCopyInto C) TenantCertificate un_TenantCertificate) TenantPtrs un_TenantPtrs)))
      (CustomCertificates_Client h, CustomCertificates_Minio h, CustomCertificates_MinioCAs h) m
    in (case x of (x1, x2, x3) \<Rightarrow> h\<lparr>CustomCertificates_Client := x1, CustomCertificates_Minio := x2, CustomCertificates_MinioCAs := x3\<rparr>, m1))"
    by (simp only: fun_eq_iff CustomCertificates_DeepCopyInto_def copy_stages)
  show ?thesis
    unfolding cp CustomCertificates_reads_def [abs_def]
    by (rule deep_struct [OF deep_pair [OF deep_slice [OF deep_item [OF CustomCertificateConfig_deep, of un_TenantCertificate TenantCertificate, OF un_tenant_cell(9)], of un_TenantPtrs TenantPtrs, OF un_tenant_cell(8)] deep_pair [OF deep_slice [OF deep_item [OF CustomCertificateConfig_deep, of un_TenantCertificate TenantCertificate, OF un_tenant_cell(9)], of un_TenantPtrs TenantPtrs, OF un_tenant_cell(8)] deep_slice [OF deep_item [OF CustomCertificateConfig_deep, of un_TenantCertificate TenantCertificate, OF un_tenant_cell(9)], of un_TenantPtrs TenantPtrs, OF un_tenant_cell(8)]]]])
      (simp_all add: split_beta)
qed

lemma CertificateStatus_deep: "deep_copying (CertificateStatus_DeepCopyInto C) (CertificateStatus_reads R)"
proof -
  have cp: "CertificateStatus_DeepCopyInto C = (\<lambda>h m. let (x, m1) = (copy_pair (copy_ptr assign TenantBool un_TenantBool) (copy_ptr (CustomCertificates_DeepCopyInto C) TenantCustomCertificates un_TenantCustomCertificates))
      (CertificateStatus_AutoCertEnabled h, CertificateStatus_CustomCertificates h) m
    in (case x of (x1, x2) \<Rightarrow> h\<lparr>CertificateStatus_AutoCertEnabled := x1, CertificateStatus_CustomCertificates := x2\<rparr>, m1))"
    by (simp only: fun_eq_iff CertificateStatus_DeepCopyInto_def copy_stages)
  show ?thesis
    unfolding cp CertificateStatus_reads_def [abs_def]
    by (rule deep_struct [OF deep_pair [OF deep_ptr [OF plain.deep_copying_axioms, of un_TenantBool TenantBool, OF un_tenant_cell(4)] deep_ptr [OF CustomCertificates_deep, of un_TenantCustomCertificates TenantCustomCertificates, OF un_tenant_cell(10)]]])
      (simp_all add: split_beta)
qed

lemma TenantDomains_deep: "deep_copying (TenantDomains_DeepCopyInto C) (TenantDomains_reads R)"
proof -
  have cp: "TenantDomains_DeepCopyInto C = (\<lambda>h m. let (x, m1) = (copy_slice assign TenantStrings un_TenantStrings)
      (TenantDomains_Minio h) m
    in (case x of x1 \<Rightarrow> h\<lparr>TenantDomains_Minio := x1\<rparr>, m1))"
    by (simp only: fun_eq_iff TenantDomains_DeepCopyInto_def copy_stages)
  show ?thesis
    unfolding cp TenantDomains_reads_def [abs_def]
    by (rule deep_struct [OF deep_slice [OF plain.deep_copying_axioms, of un_TenantStrings TenantStrings, OF un_tenant_cell(2)]])
      (simp_all add: split_beta)
qed

lemma Features_deep: "deep_copying (Features_DeepCopyInto C) (Features_reads R)"
proof -
  have cp: "Features_DeepCopyInto C = (\<lambda>h m. let (x, m1) = (copy_pair (copy_ptr (TenantDomains_DeepCopyInto C) TenantDomains un_TenantDomains) (copy_ptr assign TenantBool un_TenantBool))
      (Features_Domains h, Features_EnableSFTP h) m
    in (case x of (x1, x2) \<Rightarrow> h\<lparr>Features_Domains := x1, Features_EnableSFTP := x2\<rparr>, m1))"
    by (simp only: fun_eq_iff Features_DeepCopyInto_def copy_stages)
  show ?thesis
    unfolding cp Features_reads_def [abs_def]
    by (rule deep_struct [OF deep_pair [OF deep_ptr [OF TenantDomains_deep, of un_TenantDomains TenantDomains, OF un_tenant_cell(12)] deep_ptr [OF plain.deep_copying_axioms, of un_TenantBool TenantBool, OF un_tenant_cell(4)]]])
      (simp_all add: split_beta)
qed

lemma KESConfig_deep: "deep_copying (KESConfig_DeepCopyInto C) (KESConfig_reads R)"
proof -
  have cp: "KESConfig_DeepCopyInto C = (\<lambda>h m. let (x, m1) = (copy_pair (copy_ptr assign TenantString un_TenantString) (copy_pair (copy_ptr assign TenantReference un_TenantReference) (copy_pair (copy_ptr assign TenantReference un_TenantReference) (copy_pair (copy_map (kc_order C) TenantMap un_TenantMap) (copy_pair (copy_map (kc_order C) TenantMap un_TenantMap) (copy_pair (kc_req C) (copy_pair (copy_map (kc_order C) TenantMap un_TenantMap) (copy_pair (copy_slice (kc_toleration C) TenantKs un_TenantKs) (copy_pair (copy_ptr (kc_affinity C) TenantK un_TenantK) (copy_pair (copy_slice (kc_topology C) TenantKs un_TenantKs) (copy_pair (copy_ptr (kc_pod_security C) TenantK un_TenantK) (copy_slice (kc_env C) TenantKs un_TenantKs))))))))))))
      (KESConfig_Configuration h, KESConfig_ExternalCertSecret h, KESConfig_ClientCertSecret h, KESConfig_Annotations h, KESConfig_Labels h, KESConfig_Resources h, KESConfig_NodeSelector h, KESConfig_Tolerations h, KESConfig_Affinity h, KESConfig_TopologySpreadConstraints h, KESConfig_SecurityContext h, KESConfig_Env h) m
    in (case x of (x1, x2, x3, x4, x5, x6, x7, x8, x9, x10, x11, x12) \<Rightarrow> h\<lparr>KESConfig_Configuration := x1, KESConfig_ExternalCertSecret := x2, KESConfig_ClientCertSecret := x3, KESConfig_Annotations := x4, KESConfig_Labels := x5, KESConfig_Resources := x6, KESConfig_NodeSelector := x7, KESConfig_Tolerations := x8, KESConfig_Affinity := x9, KESConfig_TopologySpreadConstraints := x10, KESConfig_SecurityContext := x11, KESConfig_Env := x12\<rparr>, m1))"
    by (simp only: fun_eq_iff KESConfig_DeepCopyInto_def copy_stages)
  show ?thesis
    unfolding cp KESConfig_reads_def [abs_def]
    by (rule deep_struct [OF deep_pair [OF deep_ptr [OF plain.deep_copying_axioms, of un_TenantString TenantString, OF un_tenant_cell(3)] deep_pair [OF deep_ptr [OF plain.deep_copying_axioms, of un_TenantReference TenantReference, OF un_tenant_cell(11)] deep_pair [OF deep_ptr [OF plain.deep_copying_axioms, of un_TenantReference TenantReference, OF un_tenant_cell(11)] deep_pair [OF strings_map [of un_TenantMap TenantMap, OF un_tenant_cell(1)] deep_pair [OF strings_map [of un_TenantMap TenantMap, OF un_tenant_cell(1)] deep_pair [OF req deep_pair [OF strings_map [of un_TenantMap TenantMap, OF un_tenant_cell(1)] deep_pair [OF deep_slice [OF toleration, of un_TenantKs TenantKs, OF un_tenant_cell(7)] deep_pair [OF deep_ptr [OF affinity, of un_TenantK TenantK, OF un_tenant_cell(6)] deep_pair [OF deep_slice [OF topology, of un_TenantKs TenantKs, OF un_tenant_cell(7)] deep_pair [OF deep_ptr [OF pod_security, of un_TenantK TenantK, OF un_tenant_cell(6)] deep_slice [OF env, of un_TenantKs TenantKs, OF un_tenant_cell(7)]]]]]]]]]]]]])
      (simp_all add: split_beta)
qed

lemma Pool_deep: "deep_copying (Pool_DeepCopyInto C) (Pool_reads R)"
proof -
  have cp: "Pool_DeepCopyInto C = (\<lambda>h m. let (x, m1) = (copy_pair (copy_ptr (kc_claim C) TenantK un_TenantK) (copy_pair (kc_req C) (copy_pair (copy_map (kc_order C) TenantMap un_TenantMap) (copy_pair (copy_ptr (kc_affinity C) TenantK un_TenantK) (copy_pair (copy_slice (kc_toleration C) TenantKs un_TenantKs) (copy_pair (copy_slice (kc_topology C) TenantKs un_TenantKs) (copy_pair (copy_ptr (kc_pod_security C) TenantK un_TenantK) (copy_pair (copy_ptr (kc_security C) TenantK un_TenantK) (copy_pair (copy_map (kc_order C) TenantMap un_TenantMap) (copy_pair (copy_map (kc_order C) TenantMap un_TenantMap) (copy_ptr assign TenantString un_TenantString)))))))))))
      (Pool_VolumeClaimTemplate h, Pool_Resources h, Pool_NodeSelector h, Pool_Affinity h, Pool_Tolerations h, Pool_TopologySpreadConstraints h, Pool_SecurityContext h, Pool_ContainerSecurityContext h, Pool_Annotations h, Pool_Labels h, Pool_RuntimeClassName h) m
    in (case x of (x1, x2, x3, x4, x5, x6, x7, x8, x9, x10, x11) \<Rightarrow> h\<lparr>Pool_VolumeClaimTemplate := x1, Pool_Resources := x2, Pool_NodeSelector := x3, Pool_Affinity := x4, Pool_Tolerations := x5, Pool_TopologySpreadConstraints := x6, Pool_SecurityContext := x7, Pool_ContainerSecurityContext := x8, Pool_Annotations := x9, Pool_Labels := x10, Pool_RuntimeClassName := x11\<rparr>, m1))"
    by (simp only: fun_eq_iff Pool_DeepCopyInto_def copy_stages)
  show ?thesis
    unfolding cp Pool_reads_def [abs_def]
    by (rule deep_struct [OF deep_pair [OF deep_ptr [OF claim, of un_TenantK TenantK, OF un_tenant_cell(6)] deep_pair [OF req deep_pair [OF strings_map [of un_TenantMap TenantMap, OF un_tenant_cell(1)] deep_pair [OF deep_ptr [OF affinity, of un_TenantK TenantK, OF un_tenant_cell(6)] deep_pair [OF deep_slice [OF toleration, of un_TenantKs TenantKs, OF un_tenant_cell(7)] deep_pair [OF deep_slice [OF topology, of un_TenantKs TenantKs, OF un_tenant_cell(7)] deep_pair [OF deep_ptr [OF pod_security, of un_TenantK TenantK, OF un_tenant_cell(6)] deep_pair [OF deep_ptr [OF security, of un_TenantK TenantK, OF un_tenant_cell(6)] deep_pair [OF strings_map [of un_TenantMap TenantMap, OF un_tenant_cell(1)] deep_pair [OF strings_map [of un_TenantMap TenantMap, OF un_tenant_cell(1)] deep_ptr [OF plain.deep_copying_axioms, of un_TenantString TenantString, OF un_tenant_cell(3)]]]]]]]]]]]])
      (simp_all add: split_beta)
qed

lemma ServiceMetadata_deep: "deep_copying (ServiceMetadata_DeepCopyInto C) (ServiceMetadata_reads R)"
proof -
  have cp: "ServiceMetadata_DeepCopyInto C = (\<lambda>h m. let (x, m1) = (copy_pair (copy_map (kc_order C) TenantMap un_TenantMap) (copy_pair (copy_map (kc_order C) TenantMap un_TenantMap) (copy_pair (copy_map (kc_order C) TenantMap un_TenantMap) (copy_map (kc_order C) TenantMap un_TenantMap))))
      (ServiceMetadata_MinIOServiceLabels h, ServiceMetadata_MinIOServiceAnnotations h, ServiceMetadata_ConsoleServiceLabels h, ServiceMetadata_ConsoleServiceAnnotations h) m
    in (case x of (x1, x2, x3, x4) \<Rightarrow> h\<lparr>ServiceMetadata_MinIOServiceLabels := x1, ServiceMetadata_MinIOServiceAnnotations := x2, ServiceMetadata_ConsoleServiceLabels := x3, ServiceMetadata_ConsoleServiceAnnotations := x4\<rparr>, m1))"
    by (simp only: fun_eq_iff ServiceMetadata_DeepCopyInto_def copy_stages)
  show ?thesis
    unfolding cp ServiceMetadata_reads_def [abs_def]
    by (rule deep_struct [OF deep_pair [OF strings_map [of un_TenantMap TenantMap, OF un_tenant_cell(1)] deep_pair [OF strings_map [of un_TenantMap TenantMap, OF un_tenant_cell(1)] deep_pair [OF strings_map [of un_TenantMap TenantMap, OF un_tenant_cell(1)] strings_map [of un_TenantMap TenantMap, OF un_tenant_cell(1)]]]]])
      (simp_all add: split_beta)
qed

lemma SideCars_deep: "deep_copying (SideCars_DeepCopyInto C) (SideCars_reads R (reads_nil None))"
proof -
  have cp: "SideCars_DeepCopyInto C = (\<lambda>h m. let (x, m1) = (copy_pair (copy_slice (kc_container C) TenantKs un_TenantKs) (copy_pair (copy_slice (kc_claim C) TenantKs un_TenantKs) (copy_pair (copy_slice (kc_volume C) TenantKs un_TenantKs) assign)))
      (SideCars_Containers h, SideCars_VolumeClaimTemplates h, SideCars_Volumes h, SideCars_Resources h) m
    in (case x of (x1, x2, x3, x4) \<Rightarrow> h\<lparr>SideCars_Containers := x1, SideCars_VolumeClaimTemplates := x2, SideCars_Volumes := x3, SideCars_Resources := x4\<rparr>, m1))"
    by (simp only: fun_eq_iff SideCars_DeepCopyInto_def copy_stages) simp
  show ?thesis
    unfolding cp SideCars_reads_def [abs_def]
    by (rule deep_struct [OF deep_pair [OF deep_slice [OF container, of un_TenantKs TenantKs, OF un_tenant_cell(7)] deep_pair [OF deep_slice [OF claim, of un_TenantKs TenantKs, OF un_tenant_cell(7)] deep_pair [OF deep_slice [OF volume, of un_TenantKs TenantKs, OF un_tenant_cell(7)] deep_nil]]]])
      (simp_all add: split_beta)
qed

lemma TenantSpec_deep: "deep_copying (TenantSpec_DeepCopyInto C) (TenantSpec_reads R (reads_nil None) (reads_nil None) (reads_nil None))"
proof -
  have cp: "TenantSpec_DeepCopyInto C = (\<lambda>h m. let (x, m1) = (copy_pair (copy_slice (Pool_DeepCopyInto C) TenantPools un_TenantPools) (copy_pair (copy_ptr assign TenantString un_TenantString) (copy_pair (copy_slice (kc_env C) TenantKs un_TenantKs) (copy_pair (copy_slice (copy_ptr assign TenantReference un_TenantReference) TenantPtrs un_TenantPtrs) (copy_pair (copy_slice (copy_ptr assign TenantReference un_TenantReference) TenantPtrs un_TenantPtrs) (copy_pair (copy_ptr assign TenantReference un_TenantReference) (copy_pair (copy_slice (copy_ptr assign TenantReference un_TenantReference) TenantPtrs un_TenantPtrs) (copy_pair (copy_ptr assign TenantBool un_TenantBool) (copy_pair (copy_ptr (kc_probe C) TenantK un_TenantK) (copy_pair (copy_ptr (kc_probe C) TenantK un_TenantK) (copy_pair (copy_ptr (kc_probe C) TenantK un_TenantK) (copy_pair (copy_ptr (Features_DeepCopyInto C) TenantFeatures un_TenantFeatures) (copy_pair (copy_ptr (CertificateConfig_DeepCopyInto C) TenantCertConfig un_TenantCertConfig) (copy_pair (copy_ptr (KESConfig_DeepCopyInto C) TenantKES un_TenantKES) (copy_pair (copy_ptr (SideCars_DeepCopyInto C) TenantSideCars un_TenantSideCars) (copy_pair (copy_ptr assign TenantExpose un_TenantExpose) (copy_pair (copy_ptr (ServiceMetadata_DeepCopyInto C) TenantMetadata un_TenantMetadata) (copy_pair (copy_slice (copy_ptr assign TenantString un_TenantString) TenantPtrs un_TenantPtrs) (copy_pair (copy_slice assign TenantBuckets un_TenantBuckets) (copy_pair (copy_ptr assign TenantLogging un_TenantLogging) (copy_pair (copy_ptr assign TenantString un_TenantString) (copy_pair (copy_slice (kc_container C) TenantKs un_TenantKs) (copy_pair assign assign)))))))))))))))))))))))
      (TenantSpec_Pools h, TenantSpec_CredsSecret h, TenantSpec_Env h, TenantSpec_ExternalCertSecret h, TenantSpec_ExternalCaCertSecret h, TenantSpec_ExternalClientCertSecret h, TenantSpec_ExternalClientCertSecrets h, TenantSpec_RequestAutoCert h, TenantSpec_Liveness h, TenantSpec_Readiness h, TenantSpec_Startup h, TenantSpec_Features h, TenantSpec_CertConfig h, TenantSpec_KES h, TenantSpec_SideCars h, TenantSpec_ExposeServices h, TenantSpec_ServiceMetadata h, TenantSpec_Users h, TenantSpec_Buckets h, TenantSpec_Logging h, TenantSpec_Configuration h, TenantSpec_InitContainers h, TenantSpec_AdditionalVolumes h, TenantSpec_AdditionalVolumeMounts h) m
    in (case x of (x1, x2, x3, x4, x5, x6, x7, x8, x9, x10, x11, x12, x13, x14, x15, x16, x17, x18, x19, x20, x21, x22, x23, x24) \<Rightarrow> h\<lparr>TenantSpec_Pools := x1, TenantSpec_CredsSecret := x2, TenantSpec_Env := x3, TenantSpec_ExternalCertSecret := x4, TenantSpec_ExternalCaCertSecret := x5, TenantSpec_ExternalClientCertSecret := x6, TenantSpec_ExternalClientCertSecrets := x7, TenantSpec_RequestAutoCert := x8, TenantSpec_Liveness := x9, TenantSpec_Readiness := x10, TenantSpec_Startup := x11, TenantSpec_Features := x12, TenantSpec_CertConfig := x13, TenantSpec_KES := x14, TenantSpec_SideCars := x15, TenantSpec_ExposeServices := x16, TenantSpec_ServiceMetadata := x17, TenantSpec_Users := x18, TenantSpec_Buckets := x19, TenantSpec_Logging := x20, TenantSpec_Configuration := x21, TenantSpec_InitContainers := x22, TenantSpec_AdditionalVolumes := x23, TenantSpec_AdditionalVolumeMounts := x24\<rparr>, m1))"
    by (simp only: fun_eq_iff TenantSpec_DeepCopyInto_def copy_stages) simp
  show ?thesis
    unfolding cp TenantSpec_reads_def [abs_def]
    by (rule deep_struct [OF deep_pair [OF deep_slice [OF Pool_deep, of un_TenantPools TenantPools, OF un_tenant_cell(21)] deep_pair [OF deep_ptr [OF plain.deep_copying_axioms, of un_TenantString TenantString, OF un_tenant_cell(3)] deep_pair [OF deep_slice [OF env, of un_TenantKs TenantKs, OF un_tenant_cell(7)] deep_pair [OF deep_slice [OF deep_item [OF plain.deep_copying_axioms, of un_TenantReference TenantReference, OF un_tenant_cell(11)], of un_TenantPtrs TenantPtrs, OF un_tenant_cell(8)] deep_pair [OF deep_slice [OF deep_item [OF plain.deep_copying_axioms, of un_TenantReference TenantReference, OF un_tenant_cell(11)], of un_TenantPtrs TenantPtrs, OF un_tenant_cell(8)] deep_pair [OF deep_ptr [OF plain.deep_copying_axioms, of un_TenantReference TenantReference, OF un_tenant_cell(11)] deep_pair [OF deep_slice [OF deep_item [OF plain.deep_copying_axioms, of un_TenantReference TenantReference, OF un_tenant_cell(11)], of un_TenantPtrs TenantPtrs, OF un_tenant_cell(8)] deep_pair [OF deep_ptr [OF plain.deep_copying_axioms, of un_TenantBool TenantBool, OF un_tenant_cell(4)] deep_pair [OF deep_ptr [OF probe, of un_TenantK TenantK, OF un_tenant_cell(6)] deep_pair [OF deep_ptr [OF probe, of un_TenantK TenantK, OF un_tenant_cell(6)] deep_pair [OF deep_ptr [OF probe, of un_TenantK TenantK, OF un_tenant_cell(6)] deep_pair [OF deep_ptr [OF Features_deep, of un_TenantFeatures TenantFeatures, OF un_tenant_cell(13)] deep_pair [OF deep_ptr [OF CertificateConfig_deep, of un_TenantCertConfig TenantCertConfig, OF un_tenant_cell(14)] deep_pair [OF deep_ptr [OF KESConfig_deep, of un_TenantKES TenantKES, OF un_tenant_cell(15)] deep_pair [OF deep_ptr [OF SideCars_deep, of un_TenantSideCars TenantSideCars, OF un_tenant_cell(16)] deep_pair [OF deep_ptr [OF plain.deep_copying_axioms, of un_TenantExpose TenantExpose, OF un_tenant_cell(17)] deep_pair [OF deep_ptr [OF ServiceMetadata_deep, of un_TenantMetadata TenantMetadata, OF un_tenant_cell(18)] deep_pair [OF deep_slice [OF deep_item [OF plain.deep_copying_axioms, of un_TenantString TenantString, OF un_tenant_cell(3)], of un_TenantPtrs TenantPtrs, OF un_tenant_cell(8)] deep_pair [OF deep_slice [OF plain.deep_copying_axioms, of un_TenantBuckets TenantBuckets, OF un_tenant_cell(19)] deep_pair [OF deep_ptr [OF plain.deep_copying_axioms, of un_TenantLogging TenantLogging, OF un_tenant_cell(20)] deep_pair [OF deep_ptr [OF plain.deep_copying_axioms, of un_TenantString TenantString, OF un_tenant_cell(3)] deep_pair [OF deep_slice [OF container, of un_TenantKs TenantKs, OF un_tenant_cell(7)] deep_pair [OF deep_nil deep_nil]]]]]]]]]]]]]]]]]]]]]]]])
      (simp_all add: split_beta)
qed

lemma TenantUsage_deep: "deep_copying (TenantUsage_DeepCopyInto C) (TenantUsage_reads R)"
proof -
  have cp: "TenantUsage_DeepCopyInto C = (\<lambda>h m. let (x, m1) = (copy_slice assign TenantTiers un_TenantTiers)
      (TenantUsage_Tiers h) m
    in (case x of x1 \<Rightarrow> h\<lparr>TenantUsage_Tiers := x1\<rparr>, m1))"
    by (simp only: fun_eq_iff TenantUsage_DeepCopyInto_def copy_stages)
  show ?thesis
    unfolding cp TenantUsage_reads_def [abs_def]
    by (rule deep_struct [OF deep_slice [OF plain.deep_copying_axioms, of un_TenantTiers TenantTiers, OF un_tenant_cell(23)]])
      (simp_all add: split_beta)
qed

lemma TenantStatus_deep: "deep_copying (TenantStatus_DeepCopyInto C) (TenantStatus_reads R)"
proof -
  have cp: "TenantStatus_DeepCopyInto C = (\<lambda>h m. let (x, m1) = (copy_pair (CertificateStatus_DeepCopyInto C) (copy_pair (copy_slice assign TenantStatuses un_TenantStatuses) (copy_pair (copy_ptr (kc_time C) TenantK un_TenantK) (TenantUsage_DeepCopyInto C))))
      (TenantStatus_Certificates h, TenantStatus_Pools h, TenantStatus_WaitingOnReady h, TenantStatus_Usage h) m
    in (case x of (x1, x2, x3, x4) \<Rightarrow> h\<lparr>TenantStatus_Certificates := x1, TenantStatus_Pools := x2, TenantStatus_WaitingOnReady := x3, TenantStatus_Usage := x4\<rparr>, m1))"
    by (simp only: fun_eq_iff TenantStatus_DeepCopyInto_def copy_stages)
  show ?thesis
    unfolding cp TenantStatus_reads_def [abs_def]
    by (rule deep_struct [OF deep_pair [OF CertificateStatus_deep deep_pair [OF deep_slice [OF plain.deep_copying_axioms, of un_TenantStatuses TenantStatuses, OF un_tenant_cell(22)] deep_pair [OF deep_ptr [OF time, of un_TenantK TenantK, OF un_tenant_cell(6)] TenantUsage_deep]]]])
      (simp_all add: split_beta)
qed

lemma Tenant_deep: "deep_copying (Tenant_DeepCopyInto C) (Tenant_reads R (reads_nil None) (reads_nil None) (reads_nil None))"
proof -
  have cp: "Tenant_DeepCopyInto C = (\<lambda>h m. let (x, m1) = (copy_pair (kc_meta C) (copy_pair (TenantSpec_DeepCopyInto C) (TenantStatus_DeepCopyInto C)))
      (Tenant_ObjectMeta h, Tenant_Spec h, Tenant_Status h) m
    in (case x of (x1, x2, x3) \<Rightarrow> h\<lparr>Tenant_ObjectMeta := x1, Tenant_Spec := x2, Tenant_Status := x3\<rparr>, m1))"
    by (simp only: fun_eq_iff Tenant_DeepCopyInto_def copy_stages)
  show ?thesis
    unfolding cp Tenant_reads_def [abs_def]
    by (rule deep_struct [OF deep_pair [OF meta deep_pair [OF TenantSpec_deep TenantStatus_deep]]])
      (simp_all add: split_beta)
qed

lemma TenantList_deep: "deep_copying (TenantList_DeepCopyInto C) (TenantList_reads R (reads_nil None) (reads_nil None) (reads_nil None))"
proof -
  have cp: "TenantList_DeepCopyInto C = (\<lambda>h m. let (x, m1) = (copy_pair (kc_list_meta C) (copy_slice (Tenant_DeepCopyInto C) TenantTenants un_TenantTenants))
      (TenantList_ListMeta h, TenantList_Items h) m
    in (case x of (x1, x2) \<Rightarrow> h\<lparr>TenantList_ListMeta := x1, TenantList_Items := x2\<rparr>, m1))"
    by (simp only: fun_eq_iff TenantList_DeepCopyInto_def copy_stages)
  show ?thesis
    unfolding cp TenantList_reads_def [abs_def]
    by (rule deep_struct [OF deep_pair [OF list_meta deep_slice [OF Tenant_deep, of un_TenantTenants TenantTenants, OF un_tenant_cell(24)]]])
      (simp_all add: split_beta)
qed

end

sublocale tenant_copying \<subseteq> tenant: deep_copying "Tenant_DeepCopyInto C"
    "Tenant_reads R (reads_nil None) (reads_nil None) (reads_nil None)"
  by (rule Tenant_deep)

sublocale tenant_copying \<subseteq> tenant_list: deep_copying "TenantList_DeepCopyInto C"
    "TenantList_reads R (reads_nil None) (reads_nil None) (reads_nil None)"
  by (rule TenantList_deep)

section \<open>What a copied tenant owns and what it shares\<close>

text \<open>The whole value of a tenant, and its value where the three references are nil.\<close>

definition SideCars_whole :: "('k, 'k tenant_cell) k8s_readers \<Rightarrow> 'k tenant_cell memory \<Rightarrow> SideCars_data \<Rightarrow> SideCars option" where
  "SideCars_whole R = SideCars_reads R (reads_ptr (kr_req R) un_TenantK)"

definition Tenant_whole :: "('k, 'k tenant_cell) k8s_readers \<Rightarrow> 'k tenant_cell memory \<Rightarrow> 'k Tenant_data \<Rightarrow> Tenant option" where
  "Tenant_whole R = Tenant_reads R (reads_ptr (kr_req R) un_TenantK) (reads_slice (kr_volume R) un_TenantKs)
     (reads_slice (kr_mount R) un_TenantKs)"

definition Tenant_without :: "('k, 'k tenant_cell) k8s_readers \<Rightarrow> 'k tenant_cell memory \<Rightarrow> 'k Tenant_data \<Rightarrow> Tenant option" where
  "Tenant_without R = Tenant_reads R (reads_nil None) (reads_nil None) (reads_nil None)"

lemma nil_below:
  "reads_below (reads_nil None) (reads_ptr rd u)"
  "reads_below (reads_nil None) (reads_slice rd2 u2)"
  by (auto simp: reads_below_def reads_nil_def reads_ptr_def reads_slice_def split: if_splits)

lemma Tenant_without_whole: "reads_below (Tenant_without R) (Tenant_whole R)"
proof -
  have "reads_below (SideCars_reads R (reads_nil None)) (SideCars_reads R (reads_ptr (kr_req R) un_TenantK))"
    unfolding SideCars_reads_def [abs_def] by (intro below_struct below_pair below_refl nil_below)
  then have "reads_below (TenantSpec_reads R (reads_nil None) (reads_nil None) (reads_nil None))
      (TenantSpec_reads R (reads_ptr (kr_req R) un_TenantK) (reads_slice (kr_volume R) un_TenantKs)
        (reads_slice (kr_mount R) un_TenantKs))"
    unfolding TenantSpec_reads_def [abs_def] by (intro below_struct below_pair below_refl below_ptr nil_below)
  then show ?thesis
    unfolding Tenant_without_def Tenant_whole_def Tenant_reads_def [abs_def]
    by (intro below_struct below_pair below_refl)
qed

text \<open>What is read at a shared reference.\<close>

lemma TenantSpec_reads_shared:
  assumes "TenantSpec_reads R rr rv rm m h = Some v"
  shows "\<exists>a b. rv m (TenantSpec_AdditionalVolumes h) = Some a \<and> ts_AdditionalVolumes v = items a \<and>
    rm m (TenantSpec_AdditionalVolumeMounts h) = Some b \<and> ts_AdditionalVolumeMounts v = items b"
  using assms by (auto simp: TenantSpec_reads_def reads_pair_eq split_beta)

lemma Tenant_reads_spec:
  "Tenant_reads R rr rv rm m h = Some v \<Longrightarrow> TenantSpec_reads R rr rv rm m (Tenant_Spec h) = Some (t_Spec v)"
  by (auto simp: Tenant_reads_def reads_pair_eq split_beta)

lemma TenantSpec_copy_shared:
  "TenantSpec_AdditionalVolumes (fst (TenantSpec_DeepCopyInto C h m)) = TenantSpec_AdditionalVolumes h"
  "TenantSpec_AdditionalVolumeMounts (fst (TenantSpec_DeepCopyInto C h m)) = TenantSpec_AdditionalVolumeMounts h"
  by (simp_all only: TenantSpec_DeepCopyInto_def copy_stages) (simp_all split: prod.split)

text \<open>
  C24: A copy of a tenant whose additional volumes, additional mounts and sidecar resources are nil
  shares no memory with its original: it allocates and changes nothing that was there, it keeps
  the value of the original whatever becomes of older memory, and the original keeps its value
  whatever is written to newer memory.
\<close>

theorem Tenant_DeepCopy_independent:
  assumes "tenant_copying C R" and "wf_memory m" and "Tenant_without R m x = Some v"
  shows "\<exists>y m1. Tenant_DeepCopy C (Some x) m = (Some y, m1) \<and> Tenant_DeepCopyObject C (Some x) m = (Some y, m1) \<and>
      extends m m1 \<and> Tenant_whole R m x = Some v \<and>
      (\<forall>m2. (\<forall>a. mem_next m \<le> a \<longrightarrow> mem_cells m2 a = mem_cells m1 a) \<longrightarrow> Tenant_whole R m2 y = Some v) \<and>
      (\<forall>m2. (\<forall>a. a < mem_next m \<longrightarrow> mem_cells m2 a = mem_cells m1 a) \<longrightarrow> Tenant_whole R m2 x = Some v)"
  using deep_copy_independent [OF tenant_copying.Tenant_deep [OF assms(1)] assms(2), of x v] assms(3)
    Tenant_without_whole [of R]
  unfolding Tenant_without_def reads_below_def
  by (simp add: Tenant_DeepCopy_def Tenant_DeepCopyObject_def deep_copy_object_eq) blast

text \<open>
  C25: The additional volumes and mounts of a copied tenant are those of its original for good: in
  every later memory the two have the same, so what is changed through the one is changed in
  the other. The resources of copied sidecars are shared in the same way.
\<close>

theorem Tenant_DeepCopy_shares:
  assumes "Tenant_DeepCopy C (Some x) m = (Some y, m1)"
    and "Tenant_whole R m2 x = Some v" and "Tenant_whole R m2 y = Some w"
    and "SideCars_whole R m2 s = Some p" and "SideCars_whole R m2 (fst (SideCars_DeepCopyInto C s m)) = Some q"
  shows "ts_AdditionalVolumes (t_Spec v) = ts_AdditionalVolumes (t_Spec w) \<and>
    ts_AdditionalVolumeMounts (t_Spec v) = ts_AdditionalVolumeMounts (t_Spec w) \<and> sc_Resources p = sc_Resources q"
proof -
  have "Tenant_DeepCopyInto C x m = (y, m1)"
    using assms(1) by (simp add: Tenant_DeepCopy_def deep_copy_def split: prod.splits)
  then obtain n where "Tenant_Spec y = fst (TenantSpec_DeepCopyInto C (Tenant_Spec x) n)"
    by (auto simp: Tenant_DeepCopyInto_def split: prod.splits) (metis fst_conv)
  then have same: "TenantSpec_AdditionalVolumes (Tenant_Spec y) = TenantSpec_AdditionalVolumes (Tenant_Spec x)"
    "TenantSpec_AdditionalVolumeMounts (Tenant_Spec y) = TenantSpec_AdditionalVolumeMounts (Tenant_Spec x)"
    by (simp_all add: TenantSpec_copy_shared)
  have "SideCars_Resources (fst (SideCars_DeepCopyInto C s m)) = SideCars_Resources s"
    by (simp add: SideCars_DeepCopyInto_def split: prod.split)
  with assms(4,5) have "sc_Resources p = sc_Resources q"
    by (auto simp: SideCars_whole_def SideCars_reads_def reads_pair_eq split_beta)
  moreover from assms(2,3) have "TenantSpec_reads R (reads_ptr (kr_req R) un_TenantK) (reads_slice (kr_volume R) un_TenantKs)
      (reads_slice (kr_mount R) un_TenantKs) m2 (Tenant_Spec x) = Some (t_Spec v)"
    "TenantSpec_reads R (reads_ptr (kr_req R) un_TenantK) (reads_slice (kr_volume R) un_TenantKs)
      (reads_slice (kr_mount R) un_TenantKs) m2 (Tenant_Spec y) = Some (t_Spec w)"
    unfolding Tenant_whole_def by (simp_all add: Tenant_reads_spec)
  from this [THEN TenantSpec_reads_shared] have "ts_AdditionalVolumes (t_Spec v) = ts_AdditionalVolumes (t_Spec w)"
    "ts_AdditionalVolumeMounts (t_Spec v) = ts_AdditionalVolumeMounts (t_Spec w)"
    by (auto simp: same)
  ultimately show ?thesis by simp
qed

section \<open>Examples\<close>

text \<open>An instance, and a tenant with an image and one pool, which has labels, and no volumes of its own or a given array of them.\<close>

definition tenant_copies :: "(k8s_data, k8s_data tenant_cell) k8s_copies" where
  "tenant_copies = plain_copies TenantMap un_TenantMap"

definition tenant_readers :: "(k8s_data, k8s_data tenant_cell) k8s_readers" where
  "tenant_readers = plain_readers un_TenantMap"

interpretation tenant_plain: tenant_copying tenant_copies tenant_readers
  unfolding tenant_copies_def tenant_readers_def
  by (intro tenant_copying.intro plain_k8s un_tenant_cell)

definition sample_pool_data :: "k8s_data Pool_data" where
  "sample_pool_data =
     \<lparr>Pool_value = zero_pool\<lparr>pool_Servers := 4\<rparr>, Pool_VolumeClaimTemplate = None, Pool_Resources = ReqData no_requirements,
      Pool_NodeSelector = None, Pool_Affinity = None, Pool_Tolerations = None, Pool_TopologySpreadConstraints = None,
      Pool_SecurityContext = None, Pool_ContainerSecurityContext = None, Pool_Annotations = None, Pool_Labels = Some 0,
      Pool_RuntimeClassName = None\<rparr>"

definition sample_sidecars_data :: SideCars_data where
  "sample_sidecars_data = \<lparr>SideCars_value = \<lparr>sc_Containers = [], sc_VolumeClaimTemplates = [], sc_Volumes = [], sc_Resources = None\<rparr>,
     SideCars_Containers = None, SideCars_VolumeClaimTemplates = None, SideCars_Volumes = None, SideCars_Resources = Some 3\<rparr>"

definition sample_tenant_memory :: "pod_volume \<Rightarrow> k8s_data tenant_cell memory" where
  "sample_tenant_memory v =
     \<lparr>mem_next = 4,
      mem_cells = [0 \<mapsto> TenantMap (fmupd ''team'' ''data'' fmempty), 1 \<mapsto> TenantPools [sample_pool_data],
        2 \<mapsto> TenantKs [VolumeData v], 3 \<mapsto> TenantK (ReqData no_requirements)]\<rparr>"

definition sample_spec_data :: "slice option \<Rightarrow> TenantSpec_data" where
  "sample_spec_data volumes =
     \<lparr>TenantSpec_value = zero_tenant_spec\<lparr>ts_Image := ''minio''\<rparr>,
      TenantSpec_Pools = Some \<lparr>sl_array = 1, sl_from = 0, sl_len = 1\<rparr>, TenantSpec_CredsSecret = None, TenantSpec_Env = None,
      TenantSpec_ExternalCertSecret = None, TenantSpec_ExternalCaCertSecret = None, TenantSpec_ExternalClientCertSecret = None,
      TenantSpec_ExternalClientCertSecrets = None, TenantSpec_RequestAutoCert = None, TenantSpec_Liveness = None,
      TenantSpec_Readiness = None, TenantSpec_Startup = None, TenantSpec_Features = None, TenantSpec_CertConfig = None,
      TenantSpec_KES = None, TenantSpec_SideCars = None, TenantSpec_ExposeServices = None, TenantSpec_ServiceMetadata = None,
      TenantSpec_Users = None, TenantSpec_Buckets = None, TenantSpec_Logging = None, TenantSpec_Configuration = None,
      TenantSpec_InitContainers = None, TenantSpec_AdditionalVolumes = volumes, TenantSpec_AdditionalVolumeMounts = None\<rparr>"

definition sample_tenant_data :: "slice option \<Rightarrow> k8s_data Tenant_data" where
  "sample_tenant_data volumes =
     \<lparr>Tenant_value = \<lparr>t_Meta = empty_meta, t_Scheduler = [], t_Spec = zero_tenant_spec, t_Status = zero_tenant_status\<rparr>,
      Tenant_ObjectMeta = MetaData None empty_meta, Tenant_Spec = sample_spec_data volumes,
      Tenant_Status = \<lparr>TenantStatus_value = zero_tenant_status,
        TenantStatus_Certificates = \<lparr>CertificateStatus_value = \<lparr>cs_AutoCertEnabled = None, cs_CustomCertificates = None\<rparr>,
          CertificateStatus_AutoCertEnabled = None, CertificateStatus_CustomCertificates = None\<rparr>,
        TenantStatus_Pools = None, TenantStatus_WaitingOnReady = None,
        TenantStatus_Usage = \<lparr>TenantUsage_value = tst_Usage zero_tenant_status, TenantUsage_Tiers = None\<rparr>\<rparr>\<rparr>"

lemmas tenant_sample_simps = sample_tenant_memory_def sample_tenant_data_def sample_spec_data_def sample_pool_data_def
  tenant_copies_def tenant_readers_def plain_copies_def plain_readers_def reads_meta_def Tenant_reads_def TenantSpec_reads_def
  Pool_reads_def TenantStatus_reads_def CertificateStatus_reads_def TenantUsage_reads_def reads_pair_def reads_map_def
  reads_slice_def reads_ptr_def slice_items_def reads_plain_def un_tenant_cell reads_nil_def

lemma tenant_sample_wf: "wf_memory (sample_tenant_memory v)"
  by (simp add: wf_memory_def sample_tenant_memory_def)

lemma tenant_sample_reads:
  "\<exists>v. Tenant_without tenant_readers (sample_tenant_memory u) (sample_tenant_data None) = Some v"
  by (simp add: Tenant_without_def tenant_sample_simps)

lemma tenant_sample_volumes:
  "\<exists>v. Tenant_whole tenant_readers (sample_tenant_memory u) (sample_tenant_data (Some \<lparr>sl_array = 2, sl_from = 0, sl_len = 1\<rparr>)) = Some v \<and>
    ts_AdditionalVolumes (t_Spec v) = [u]"
  by (simp add: Tenant_whole_def tenant_sample_simps items_def)

theorem Tenant_DeepCopy_independent_witness:
  "\<forall>u. \<exists>v y m1. Tenant_DeepCopy tenant_copies (Some (sample_tenant_data None)) (sample_tenant_memory u) = (Some y, m1) \<and>
     Tenant_whole tenant_readers (sample_tenant_memory u) (sample_tenant_data None) = Some v \<and>
     Tenant_whole tenant_readers (m1\<lparr>mem_cells := (mem_cells m1)(1 \<mapsto> TenantPools [])\<rparr>) y = Some v"
proof
  fix u
  obtain v where v: "Tenant_without tenant_readers (sample_tenant_memory u) (sample_tenant_data None) = Some v"
    using tenant_sample_reads by blast
  from Tenant_DeepCopy_independent [OF tenant_plain.tenant_copying_axioms tenant_sample_wf v]
  obtain y m1 where "Tenant_DeepCopy tenant_copies (Some (sample_tenant_data None)) (sample_tenant_memory u) = (Some y, m1)"
    and "Tenant_whole tenant_readers (sample_tenant_memory u) (sample_tenant_data None) = Some v"
    and "\<And>m2. (\<forall>a. 4 \<le> a \<longrightarrow> mem_cells m2 a = mem_cells m1 a) \<Longrightarrow> Tenant_whole tenant_readers m2 y = Some v"
    unfolding sample_tenant_memory_def by auto
  then show "\<exists>v y m1. Tenant_DeepCopy tenant_copies (Some (sample_tenant_data None)) (sample_tenant_memory u) = (Some y, m1) \<and>
     Tenant_whole tenant_readers (sample_tenant_memory u) (sample_tenant_data None) = Some v \<and>
     Tenant_whole tenant_readers (m1\<lparr>mem_cells := (mem_cells m1)(1 \<mapsto> TenantPools [])\<rparr>) y = Some v"
    by auto
qed

text \<open>A volume is replaced through the copy, and the original has the new one.\<close>

definition sample_shared :: "pod_volume \<Rightarrow> k8s_data Tenant_data option \<times> k8s_data tenant_cell memory" where
  "sample_shared u = Tenant_DeepCopy tenant_copies
     (Some (sample_tenant_data (Some \<lparr>sl_array = 2, sl_from = 0, sl_len = 1\<rparr>))) (sample_tenant_memory u)"

definition volume_replaced :: "pod_volume \<Rightarrow> k8s_data tenant_cell memory \<Rightarrow> k8s_data tenant_cell memory" where
  "volume_replaced u m = m\<lparr>mem_cells := (mem_cells m)(2 \<mapsto> TenantKs [VolumeData u])\<rparr>"

lemmas tenant_copy_simps = Tenant_DeepCopy_def deep_copy_def Tenant_DeepCopyInto_def TenantSpec_DeepCopyInto_def
  TenantStatus_DeepCopyInto_def CertificateStatus_DeepCopyInto_def TenantUsage_DeepCopyInto_def Pool_DeepCopyInto_def
  copy_map_def copy_ptr_def copy_slice_def copy_meta_def assign_def allocate_def put_entries_all [OF key_order_range]

lemma sample_shared_reads:
  "\<exists>y m1 v w. sample_shared u = (Some y, m1) \<and> Tenant_whole tenant_readers (volume_replaced u1 m1)
      (sample_tenant_data (Some \<lparr>sl_array = 2, sl_from = 0, sl_len = 1\<rparr>)) = Some v \<and>
    ts_AdditionalVolumes (t_Spec v) = [u1] \<and> Tenant_whole tenant_readers (volume_replaced u1 m1) y = Some w \<and>
    mem_cells (volume_replaced u1 m1) 3 = Some (TenantK (ReqData no_requirements))"
  by (simp add: sample_shared_def volume_replaced_def tenant_copy_simps Tenant_whole_def tenant_sample_simps items_def)

lemma sample_sidecars_reads:
  assumes "mem_cells m 3 = Some (TenantK (ReqData no_requirements))"
  shows "\<exists>p. SideCars_whole tenant_readers m sample_sidecars_data = Some p"
    and "\<exists>p. SideCars_whole tenant_readers m (fst (SideCars_DeepCopyInto C sample_sidecars_data n)) = Some p"
  using assms by (simp_all add: SideCars_whole_def SideCars_reads_def sample_sidecars_data_def SideCars_DeepCopyInto_def
      tenant_copy_simps tenant_sample_simps)

theorem Tenant_DeepCopy_shares_witness:
  "\<forall>u u1. \<exists>y m1 w. sample_shared u = (Some y, m1) \<and>
     Tenant_whole tenant_readers (volume_replaced u1 m1) y = Some w \<and> ts_AdditionalVolumes (t_Spec w) = [u1]"
proof (intro allI)
  fix u u1
  obtain y m1 v w where c: "sample_shared u = (Some y, m1)"
    and v: "Tenant_whole tenant_readers (volume_replaced u1 m1)
      (sample_tenant_data (Some \<lparr>sl_array = 2, sl_from = 0, sl_len = 1\<rparr>)) = Some v"
    and w: "Tenant_whole tenant_readers (volume_replaced u1 m1) y = Some w"
    and u1: "ts_AdditionalVolumes (t_Spec v) = [u1]"
    and k: "mem_cells (volume_replaced u1 m1) 3 = Some (TenantK (ReqData no_requirements))"
    using sample_shared_reads by blast
  obtain p q where "SideCars_whole tenant_readers (volume_replaced u1 m1) sample_sidecars_data = Some p"
    "SideCars_whole tenant_readers (volume_replaced u1 m1)
       (fst (SideCars_DeepCopyInto tenant_copies sample_sidecars_data (sample_tenant_memory u))) = Some q"
    using sample_sidecars_reads [OF k] by blast
  with Tenant_DeepCopy_shares [OF c [unfolded sample_shared_def] v w] u1 w c
  show "\<exists>y m1 w. sample_shared u = (Some y, m1) \<and>
     Tenant_whole tenant_readers (volume_replaced u1 m1) y = Some w \<and> ts_AdditionalVolumes (t_Spec w) = [u1]"
    by auto
qed

end
