(* ===== verification/DirectPVCopy.thy ===== *)
theory DirectPVCopy
  imports K8sCopy Drive Volume DirectPVNode
begin

text \<open>
  The deep copies of the DirectPV API,
  \<open>pkg/minio/directpv/apis/directpv.min.io/v1beta1/deepcopy_generated.go\<close>: drives, volumes, nodes, requests
  to initialise devices, and their lists. Every one is a deep copy.
\<close>

section \<open>Structs in memory\<close>

text \<open>A struct with references: its plain fields, in \<open>_value\<close>, whose other fields are not looked at, and the references.\<close>

record DriveStatus_data =
  DriveStatus_value :: DriveStatus
  DriveStatus_Topology :: "nat option"
  DriveStatus_Conditions :: "slice option"

record InitRequestSpec_data =
  InitRequestSpec_value :: InitRequestSpec
  InitRequestSpec_Devices :: "slice option"

record InitRequestStatus_data =
  InitRequestStatus_value :: InitRequestStatus
  InitRequestStatus_Results :: "slice option"

record NodeStatus_data =
  NodeStatus_value :: NodeStatus
  NodeStatus_Devices :: "slice option"
  NodeStatus_Conditions :: "slice option"

record VolumeStatus_data =
  VolumeStatus_value :: VolumeStatus
  VolumeStatus_Conditions :: "slice option"

record 'k DirectPVDrive_data =
  DirectPVDrive_value :: DirectPVDrive
  DirectPVDrive_ObjectMeta :: "'k"
  DirectPVDrive_Status :: DriveStatus_data

record 'k DirectPVDriveList_data =
  DirectPVDriveList_value :: "DirectPVDrive object_list"
  DirectPVDriveList_ListMeta :: "'k"
  DirectPVDriveList_Items :: "slice option"

record 'k DirectPVInitRequest_data =
  DirectPVInitRequest_value :: DirectPVInitRequest
  DirectPVInitRequest_ObjectMeta :: "'k"
  DirectPVInitRequest_Spec :: InitRequestSpec_data
  DirectPVInitRequest_Status :: InitRequestStatus_data

record 'k DirectPVInitRequestList_data =
  DirectPVInitRequestList_value :: "DirectPVInitRequest object_list"
  DirectPVInitRequestList_ListMeta :: "'k"
  DirectPVInitRequestList_Items :: "slice option"

record 'k DirectPVNode_data =
  DirectPVNode_value :: DirectPVNode
  DirectPVNode_ObjectMeta :: "'k"
  DirectPVNode_Status :: NodeStatus_data

record 'k DirectPVNodeList_data =
  DirectPVNodeList_value :: "DirectPVNode object_list"
  DirectPVNodeList_ListMeta :: "'k"
  DirectPVNodeList_Items :: "slice option"

record 'k DirectPVVolume_data =
  DirectPVVolume_value :: DirectPVVolume
  DirectPVVolume_ObjectMeta :: "'k"
  DirectPVVolume_Status :: VolumeStatus_data

record 'k DirectPVVolumeList_data =
  DirectPVVolumeList_value :: "DirectPVVolume object_list"
  DirectPVVolumeList_ListMeta :: "'k"
  DirectPVVolumeList_Items :: "slice option"

datatype 'k direct_cell =
    DirectPVMap "(string, string) fmap"
  | DirectPVKs "'k list"
  | DirectPVDevices "Device list"
  | DirectPVInitDevices "InitDevice list"
  | DirectPVResults "InitDeviceResult list"
  | DirectPVDrives "'k DirectPVDrive_data list"
  | DirectPVRequests "'k DirectPVInitRequest_data list"
  | DirectPVNodes "'k DirectPVNode_data list"
  | DirectPVVolumes "'k DirectPVVolume_data list"

definition un_DirectPVMap :: "'k direct_cell \<Rightarrow> ((string, string) fmap) option" where
  "un_DirectPVMap c = (case c of DirectPVMap x \<Rightarrow> Some x | _ \<Rightarrow> None)"

definition un_DirectPVKs :: "'k direct_cell \<Rightarrow> ('k list) option" where
  "un_DirectPVKs c = (case c of DirectPVKs x \<Rightarrow> Some x | _ \<Rightarrow> None)"

definition un_DirectPVDevices :: "'k direct_cell \<Rightarrow> (Device list) option" where
  "un_DirectPVDevices c = (case c of DirectPVDevices x \<Rightarrow> Some x | _ \<Rightarrow> None)"

definition un_DirectPVInitDevices :: "'k direct_cell \<Rightarrow> (InitDevice list) option" where
  "un_DirectPVInitDevices c = (case c of DirectPVInitDevices x \<Rightarrow> Some x | _ \<Rightarrow> None)"

definition un_DirectPVResults :: "'k direct_cell \<Rightarrow> (InitDeviceResult list) option" where
  "un_DirectPVResults c = (case c of DirectPVResults x \<Rightarrow> Some x | _ \<Rightarrow> None)"

definition un_DirectPVDrives :: "'k direct_cell \<Rightarrow> ('k DirectPVDrive_data list) option" where
  "un_DirectPVDrives c = (case c of DirectPVDrives x \<Rightarrow> Some x | _ \<Rightarrow> None)"

definition un_DirectPVRequests :: "'k direct_cell \<Rightarrow> ('k DirectPVInitRequest_data list) option" where
  "un_DirectPVRequests c = (case c of DirectPVRequests x \<Rightarrow> Some x | _ \<Rightarrow> None)"

definition un_DirectPVNodes :: "'k direct_cell \<Rightarrow> ('k DirectPVNode_data list) option" where
  "un_DirectPVNodes c = (case c of DirectPVNodes x \<Rightarrow> Some x | _ \<Rightarrow> None)"

definition un_DirectPVVolumes :: "'k direct_cell \<Rightarrow> ('k DirectPVVolume_data list) option" where
  "un_DirectPVVolumes c = (case c of DirectPVVolumes x \<Rightarrow> Some x | _ \<Rightarrow> None)"

lemma un_directpv_cell:
  "un_DirectPVMap (DirectPVMap x0) = Some x0"
  "un_DirectPVKs (DirectPVKs x1) = Some x1"
  "un_DirectPVDevices (DirectPVDevices x2) = Some x2"
  "un_DirectPVInitDevices (DirectPVInitDevices x3) = Some x3"
  "un_DirectPVResults (DirectPVResults x4) = Some x4"
  "un_DirectPVDrives (DirectPVDrives x5) = Some x5"
  "un_DirectPVRequests (DirectPVRequests x6) = Some x6"
  "un_DirectPVNodes (DirectPVNodes x7) = Some x7"
  "un_DirectPVVolumes (DirectPVVolumes x8) = Some x8"
  by (simp_all add: un_DirectPVMap_def un_DirectPVKs_def un_DirectPVDevices_def un_DirectPVInitDevices_def un_DirectPVResults_def un_DirectPVDrives_def un_DirectPVRequests_def un_DirectPVNodes_def un_DirectPVVolumes_def)

section \<open>The copies\<close>

definition Device_DeepCopyInto :: "Device \<Rightarrow> 'c memory \<Rightarrow> Device \<times> 'c memory" where
  "Device_DeepCopyInto = assign"

definition Device_DeepCopy :: "Device option \<Rightarrow> 'c memory \<Rightarrow> Device option \<times> 'c memory" where
  "Device_DeepCopy = deep_copy Device_DeepCopyInto"

definition DriveSpec_DeepCopyInto :: "DriveSpec \<Rightarrow> 'c memory \<Rightarrow> DriveSpec \<times> 'c memory" where
  "DriveSpec_DeepCopyInto = assign"

definition DriveSpec_DeepCopy :: "DriveSpec option \<Rightarrow> 'c memory \<Rightarrow> DriveSpec option \<times> 'c memory" where
  "DriveSpec_DeepCopy = deep_copy DriveSpec_DeepCopyInto"

definition InitDevice_DeepCopyInto :: "InitDevice \<Rightarrow> 'c memory \<Rightarrow> InitDevice \<times> 'c memory" where
  "InitDevice_DeepCopyInto = assign"

definition InitDevice_DeepCopy :: "InitDevice option \<Rightarrow> 'c memory \<Rightarrow> InitDevice option \<times> 'c memory" where
  "InitDevice_DeepCopy = deep_copy InitDevice_DeepCopyInto"

definition InitDeviceResult_DeepCopyInto :: "InitDeviceResult \<Rightarrow> 'c memory \<Rightarrow> InitDeviceResult \<times> 'c memory" where
  "InitDeviceResult_DeepCopyInto = assign"

definition InitDeviceResult_DeepCopy :: "InitDeviceResult option \<Rightarrow> 'c memory \<Rightarrow> InitDeviceResult option \<times> 'c memory" where
  "InitDeviceResult_DeepCopy = deep_copy InitDeviceResult_DeepCopyInto"

definition NodeSpec_DeepCopyInto :: "NodeSpec \<Rightarrow> 'c memory \<Rightarrow> NodeSpec \<times> 'c memory" where
  "NodeSpec_DeepCopyInto = assign"

definition NodeSpec_DeepCopy :: "NodeSpec option \<Rightarrow> 'c memory \<Rightarrow> NodeSpec option \<times> 'c memory" where
  "NodeSpec_DeepCopy = deep_copy NodeSpec_DeepCopyInto"

definition DriveStatus_DeepCopyInto ::
  "('k, 'k direct_cell) k8s_copies \<Rightarrow> DriveStatus_data \<Rightarrow> 'k direct_cell memory \<Rightarrow> DriveStatus_data \<times> 'k direct_cell memory" where
  "DriveStatus_DeepCopyInto C inp m =
     (let (topology, m1) = copy_map (kc_order C) DirectPVMap un_DirectPVMap (DriveStatus_Topology inp) m;
          (conditions, m2) = copy_slice (kc_condition C) DirectPVKs un_DirectPVKs (DriveStatus_Conditions inp) m1
      in (inp\<lparr>DriveStatus_Topology := topology,
            DriveStatus_Conditions := conditions\<rparr>, m2))"

definition DriveStatus_DeepCopy ::
  "('k, 'k direct_cell) k8s_copies \<Rightarrow> DriveStatus_data option \<Rightarrow> 'k direct_cell memory \<Rightarrow> DriveStatus_data option \<times> 'k direct_cell memory" where
  "DriveStatus_DeepCopy C = deep_copy (DriveStatus_DeepCopyInto C)"

definition InitRequestSpec_DeepCopyInto ::
  "('k, 'k direct_cell) k8s_copies \<Rightarrow> InitRequestSpec_data \<Rightarrow> 'k direct_cell memory \<Rightarrow> InitRequestSpec_data \<times> 'k direct_cell memory" where
  "InitRequestSpec_DeepCopyInto C inp m =
     (let (devices, m1) = copy_slice assign DirectPVInitDevices un_DirectPVInitDevices (InitRequestSpec_Devices inp) m
      in (inp\<lparr>InitRequestSpec_Devices := devices\<rparr>, m1))"

definition InitRequestSpec_DeepCopy ::
  "('k, 'k direct_cell) k8s_copies \<Rightarrow> InitRequestSpec_data option \<Rightarrow> 'k direct_cell memory \<Rightarrow> InitRequestSpec_data option \<times> 'k direct_cell memory" where
  "InitRequestSpec_DeepCopy C = deep_copy (InitRequestSpec_DeepCopyInto C)"

definition InitRequestStatus_DeepCopyInto ::
  "('k, 'k direct_cell) k8s_copies \<Rightarrow> InitRequestStatus_data \<Rightarrow> 'k direct_cell memory \<Rightarrow> InitRequestStatus_data \<times> 'k direct_cell memory" where
  "InitRequestStatus_DeepCopyInto C inp m =
     (let (results, m1) = copy_slice assign DirectPVResults un_DirectPVResults (InitRequestStatus_Results inp) m
      in (inp\<lparr>InitRequestStatus_Results := results\<rparr>, m1))"

definition InitRequestStatus_DeepCopy ::
  "('k, 'k direct_cell) k8s_copies \<Rightarrow> InitRequestStatus_data option \<Rightarrow> 'k direct_cell memory \<Rightarrow> InitRequestStatus_data option \<times> 'k direct_cell memory" where
  "InitRequestStatus_DeepCopy C = deep_copy (InitRequestStatus_DeepCopyInto C)"

definition NodeStatus_DeepCopyInto ::
  "('k, 'k direct_cell) k8s_copies \<Rightarrow> NodeStatus_data \<Rightarrow> 'k direct_cell memory \<Rightarrow> NodeStatus_data \<times> 'k direct_cell memory" where
  "NodeStatus_DeepCopyInto C inp m =
     (let (devices, m1) = copy_slice assign DirectPVDevices un_DirectPVDevices (NodeStatus_Devices inp) m;
          (conditions, m2) = copy_slice (kc_condition C) DirectPVKs un_DirectPVKs (NodeStatus_Conditions inp) m1
      in (inp\<lparr>NodeStatus_Devices := devices,
            NodeStatus_Conditions := conditions\<rparr>, m2))"

definition NodeStatus_DeepCopy ::
  "('k, 'k direct_cell) k8s_copies \<Rightarrow> NodeStatus_data option \<Rightarrow> 'k direct_cell memory \<Rightarrow> NodeStatus_data option \<times> 'k direct_cell memory" where
  "NodeStatus_DeepCopy C = deep_copy (NodeStatus_DeepCopyInto C)"

definition VolumeStatus_DeepCopyInto ::
  "('k, 'k direct_cell) k8s_copies \<Rightarrow> VolumeStatus_data \<Rightarrow> 'k direct_cell memory \<Rightarrow> VolumeStatus_data \<times> 'k direct_cell memory" where
  "VolumeStatus_DeepCopyInto C inp m =
     (let (conditions, m1) = copy_slice (kc_condition C) DirectPVKs un_DirectPVKs (VolumeStatus_Conditions inp) m
      in (inp\<lparr>VolumeStatus_Conditions := conditions\<rparr>, m1))"

definition VolumeStatus_DeepCopy ::
  "('k, 'k direct_cell) k8s_copies \<Rightarrow> VolumeStatus_data option \<Rightarrow> 'k direct_cell memory \<Rightarrow> VolumeStatus_data option \<times> 'k direct_cell memory" where
  "VolumeStatus_DeepCopy C = deep_copy (VolumeStatus_DeepCopyInto C)"

definition DirectPVDrive_DeepCopyInto ::
  "('k, 'k direct_cell) k8s_copies \<Rightarrow> 'k DirectPVDrive_data \<Rightarrow> 'k direct_cell memory \<Rightarrow> 'k DirectPVDrive_data \<times> 'k direct_cell memory" where
  "DirectPVDrive_DeepCopyInto C inp m =
     (let (objectMeta, m1) = kc_meta C (DirectPVDrive_ObjectMeta inp) m;
          (status, m2) = DriveStatus_DeepCopyInto C (DirectPVDrive_Status inp) m1
      in (inp\<lparr>DirectPVDrive_ObjectMeta := objectMeta,
            DirectPVDrive_Status := status\<rparr>, m2))"

definition DirectPVDrive_DeepCopy ::
  "('k, 'k direct_cell) k8s_copies \<Rightarrow> 'k DirectPVDrive_data option \<Rightarrow> 'k direct_cell memory \<Rightarrow> 'k DirectPVDrive_data option \<times> 'k direct_cell memory" where
  "DirectPVDrive_DeepCopy C = deep_copy (DirectPVDrive_DeepCopyInto C)"

definition DirectPVDrive_DeepCopyObject ::
  "('k, 'k direct_cell) k8s_copies \<Rightarrow> 'k DirectPVDrive_data option \<Rightarrow> 'k direct_cell memory \<Rightarrow> 'k DirectPVDrive_data option \<times> 'k direct_cell memory" where
  "DirectPVDrive_DeepCopyObject C = deep_copy_object (DirectPVDrive_DeepCopyInto C)"

definition DirectPVDriveList_DeepCopyInto ::
  "('k, 'k direct_cell) k8s_copies \<Rightarrow> 'k DirectPVDriveList_data \<Rightarrow> 'k direct_cell memory \<Rightarrow> 'k DirectPVDriveList_data \<times> 'k direct_cell memory" where
  "DirectPVDriveList_DeepCopyInto C inp m =
     (let (listMeta, m1) = kc_list_meta C (DirectPVDriveList_ListMeta inp) m;
          (elements, m2) = copy_slice (DirectPVDrive_DeepCopyInto C) DirectPVDrives un_DirectPVDrives (DirectPVDriveList_Items inp) m1
      in (inp\<lparr>DirectPVDriveList_ListMeta := listMeta,
            DirectPVDriveList_Items := elements\<rparr>, m2))"

definition DirectPVDriveList_DeepCopy ::
  "('k, 'k direct_cell) k8s_copies \<Rightarrow> 'k DirectPVDriveList_data option \<Rightarrow> 'k direct_cell memory \<Rightarrow> 'k DirectPVDriveList_data option \<times> 'k direct_cell memory" where
  "DirectPVDriveList_DeepCopy C = deep_copy (DirectPVDriveList_DeepCopyInto C)"

definition DirectPVDriveList_DeepCopyObject ::
  "('k, 'k direct_cell) k8s_copies \<Rightarrow> 'k DirectPVDriveList_data option \<Rightarrow> 'k direct_cell memory \<Rightarrow> 'k DirectPVDriveList_data option \<times> 'k direct_cell memory" where
  "DirectPVDriveList_DeepCopyObject C = deep_copy_object (DirectPVDriveList_DeepCopyInto C)"

definition DirectPVInitRequest_DeepCopyInto ::
  "('k, 'k direct_cell) k8s_copies \<Rightarrow> 'k DirectPVInitRequest_data \<Rightarrow> 'k direct_cell memory \<Rightarrow> 'k DirectPVInitRequest_data \<times> 'k direct_cell memory" where
  "DirectPVInitRequest_DeepCopyInto C inp m =
     (let (objectMeta, m1) = kc_meta C (DirectPVInitRequest_ObjectMeta inp) m;
          (spec, m2) = InitRequestSpec_DeepCopyInto C (DirectPVInitRequest_Spec inp) m1;
          (status, m3) = InitRequestStatus_DeepCopyInto C (DirectPVInitRequest_Status inp) m2
      in (inp\<lparr>DirectPVInitRequest_ObjectMeta := objectMeta,
            DirectPVInitRequest_Spec := spec,
            DirectPVInitRequest_Status := status\<rparr>, m3))"

definition DirectPVInitRequest_DeepCopy ::
  "('k, 'k direct_cell) k8s_copies \<Rightarrow> 'k DirectPVInitRequest_data option \<Rightarrow> 'k direct_cell memory \<Rightarrow> 'k DirectPVInitRequest_data option \<times> 'k direct_cell memory" where
  "DirectPVInitRequest_DeepCopy C = deep_copy (DirectPVInitRequest_DeepCopyInto C)"

definition DirectPVInitRequest_DeepCopyObject ::
  "('k, 'k direct_cell) k8s_copies \<Rightarrow> 'k DirectPVInitRequest_data option \<Rightarrow> 'k direct_cell memory \<Rightarrow> 'k DirectPVInitRequest_data option \<times> 'k direct_cell memory" where
  "DirectPVInitRequest_DeepCopyObject C = deep_copy_object (DirectPVInitRequest_DeepCopyInto C)"

definition DirectPVInitRequestList_DeepCopyInto ::
  "('k, 'k direct_cell) k8s_copies \<Rightarrow> 'k DirectPVInitRequestList_data \<Rightarrow> 'k direct_cell memory \<Rightarrow> 'k DirectPVInitRequestList_data \<times> 'k direct_cell memory" where
  "DirectPVInitRequestList_DeepCopyInto C inp m =
     (let (listMeta, m1) = kc_list_meta C (DirectPVInitRequestList_ListMeta inp) m;
          (elements, m2) = copy_slice (DirectPVInitRequest_DeepCopyInto C) DirectPVRequests un_DirectPVRequests (DirectPVInitRequestList_Items inp) m1
      in (inp\<lparr>DirectPVInitRequestList_ListMeta := listMeta,
            DirectPVInitRequestList_Items := elements\<rparr>, m2))"

definition DirectPVInitRequestList_DeepCopy ::
  "('k, 'k direct_cell) k8s_copies \<Rightarrow> 'k DirectPVInitRequestList_data option \<Rightarrow> 'k direct_cell memory \<Rightarrow> 'k DirectPVInitRequestList_data option \<times> 'k direct_cell memory" where
  "DirectPVInitRequestList_DeepCopy C = deep_copy (DirectPVInitRequestList_DeepCopyInto C)"

definition DirectPVInitRequestList_DeepCopyObject ::
  "('k, 'k direct_cell) k8s_copies \<Rightarrow> 'k DirectPVInitRequestList_data option \<Rightarrow> 'k direct_cell memory \<Rightarrow> 'k DirectPVInitRequestList_data option \<times> 'k direct_cell memory" where
  "DirectPVInitRequestList_DeepCopyObject C = deep_copy_object (DirectPVInitRequestList_DeepCopyInto C)"

definition DirectPVNode_DeepCopyInto ::
  "('k, 'k direct_cell) k8s_copies \<Rightarrow> 'k DirectPVNode_data \<Rightarrow> 'k direct_cell memory \<Rightarrow> 'k DirectPVNode_data \<times> 'k direct_cell memory" where
  "DirectPVNode_DeepCopyInto C inp m =
     (let (objectMeta, m1) = kc_meta C (DirectPVNode_ObjectMeta inp) m;
          (status, m2) = NodeStatus_DeepCopyInto C (DirectPVNode_Status inp) m1
      in (inp\<lparr>DirectPVNode_ObjectMeta := objectMeta,
            DirectPVNode_Status := status\<rparr>, m2))"

definition DirectPVNode_DeepCopy ::
  "('k, 'k direct_cell) k8s_copies \<Rightarrow> 'k DirectPVNode_data option \<Rightarrow> 'k direct_cell memory \<Rightarrow> 'k DirectPVNode_data option \<times> 'k direct_cell memory" where
  "DirectPVNode_DeepCopy C = deep_copy (DirectPVNode_DeepCopyInto C)"

definition DirectPVNode_DeepCopyObject ::
  "('k, 'k direct_cell) k8s_copies \<Rightarrow> 'k DirectPVNode_data option \<Rightarrow> 'k direct_cell memory \<Rightarrow> 'k DirectPVNode_data option \<times> 'k direct_cell memory" where
  "DirectPVNode_DeepCopyObject C = deep_copy_object (DirectPVNode_DeepCopyInto C)"

definition DirectPVNodeList_DeepCopyInto ::
  "('k, 'k direct_cell) k8s_copies \<Rightarrow> 'k DirectPVNodeList_data \<Rightarrow> 'k direct_cell memory \<Rightarrow> 'k DirectPVNodeList_data \<times> 'k direct_cell memory" where
  "DirectPVNodeList_DeepCopyInto C inp m =
     (let (listMeta, m1) = kc_list_meta C (DirectPVNodeList_ListMeta inp) m;
          (elements, m2) = copy_slice (DirectPVNode_DeepCopyInto C) DirectPVNodes un_DirectPVNodes (DirectPVNodeList_Items inp) m1
      in (inp\<lparr>DirectPVNodeList_ListMeta := listMeta,
            DirectPVNodeList_Items := elements\<rparr>, m2))"

definition DirectPVNodeList_DeepCopy ::
  "('k, 'k direct_cell) k8s_copies \<Rightarrow> 'k DirectPVNodeList_data option \<Rightarrow> 'k direct_cell memory \<Rightarrow> 'k DirectPVNodeList_data option \<times> 'k direct_cell memory" where
  "DirectPVNodeList_DeepCopy C = deep_copy (DirectPVNodeList_DeepCopyInto C)"

definition DirectPVNodeList_DeepCopyObject ::
  "('k, 'k direct_cell) k8s_copies \<Rightarrow> 'k DirectPVNodeList_data option \<Rightarrow> 'k direct_cell memory \<Rightarrow> 'k DirectPVNodeList_data option \<times> 'k direct_cell memory" where
  "DirectPVNodeList_DeepCopyObject C = deep_copy_object (DirectPVNodeList_DeepCopyInto C)"

definition DirectPVVolume_DeepCopyInto ::
  "('k, 'k direct_cell) k8s_copies \<Rightarrow> 'k DirectPVVolume_data \<Rightarrow> 'k direct_cell memory \<Rightarrow> 'k DirectPVVolume_data \<times> 'k direct_cell memory" where
  "DirectPVVolume_DeepCopyInto C inp m =
     (let (objectMeta, m1) = kc_meta C (DirectPVVolume_ObjectMeta inp) m;
          (status, m2) = VolumeStatus_DeepCopyInto C (DirectPVVolume_Status inp) m1
      in (inp\<lparr>DirectPVVolume_ObjectMeta := objectMeta,
            DirectPVVolume_Status := status\<rparr>, m2))"

definition DirectPVVolume_DeepCopy ::
  "('k, 'k direct_cell) k8s_copies \<Rightarrow> 'k DirectPVVolume_data option \<Rightarrow> 'k direct_cell memory \<Rightarrow> 'k DirectPVVolume_data option \<times> 'k direct_cell memory" where
  "DirectPVVolume_DeepCopy C = deep_copy (DirectPVVolume_DeepCopyInto C)"

definition DirectPVVolume_DeepCopyObject ::
  "('k, 'k direct_cell) k8s_copies \<Rightarrow> 'k DirectPVVolume_data option \<Rightarrow> 'k direct_cell memory \<Rightarrow> 'k DirectPVVolume_data option \<times> 'k direct_cell memory" where
  "DirectPVVolume_DeepCopyObject C = deep_copy_object (DirectPVVolume_DeepCopyInto C)"

definition DirectPVVolumeList_DeepCopyInto ::
  "('k, 'k direct_cell) k8s_copies \<Rightarrow> 'k DirectPVVolumeList_data \<Rightarrow> 'k direct_cell memory \<Rightarrow> 'k DirectPVVolumeList_data \<times> 'k direct_cell memory" where
  "DirectPVVolumeList_DeepCopyInto C inp m =
     (let (listMeta, m1) = kc_list_meta C (DirectPVVolumeList_ListMeta inp) m;
          (elements, m2) = copy_slice (DirectPVVolume_DeepCopyInto C) DirectPVVolumes un_DirectPVVolumes (DirectPVVolumeList_Items inp) m1
      in (inp\<lparr>DirectPVVolumeList_ListMeta := listMeta,
            DirectPVVolumeList_Items := elements\<rparr>, m2))"

definition DirectPVVolumeList_DeepCopy ::
  "('k, 'k direct_cell) k8s_copies \<Rightarrow> 'k DirectPVVolumeList_data option \<Rightarrow> 'k direct_cell memory \<Rightarrow> 'k DirectPVVolumeList_data option \<times> 'k direct_cell memory" where
  "DirectPVVolumeList_DeepCopy C = deep_copy (DirectPVVolumeList_DeepCopyInto C)"

definition DirectPVVolumeList_DeepCopyObject ::
  "('k, 'k direct_cell) k8s_copies \<Rightarrow> 'k DirectPVVolumeList_data option \<Rightarrow> 'k direct_cell memory \<Rightarrow> 'k DirectPVVolumeList_data option \<times> 'k direct_cell memory" where
  "DirectPVVolumeList_DeepCopyObject C = deep_copy_object (DirectPVVolumeList_DeepCopyInto C)"

section \<open>What the structs read as\<close>

definition DriveStatus_reads where
  "DriveStatus_reads (R :: ('k, 'k direct_cell) k8s_readers) m h =
     map_option (\<lambda>(topology, conditions). (DriveStatus_value h)
         \<lparr>dst_Topology := topology,
           dst_Conditions := items conditions\<rparr>)
       ((reads_pair (reads_map un_DirectPVMap) (reads_slice (kr_condition R) un_DirectPVKs)) m
         (DriveStatus_Topology h, DriveStatus_Conditions h))"

definition InitRequestSpec_reads where
  "InitRequestSpec_reads (R :: ('k, 'k direct_cell) k8s_readers) m h =
     map_option (\<lambda>devices. (InitRequestSpec_value h)
         \<lparr>irs_Devices := items devices\<rparr>)
       ((reads_slice reads_plain un_DirectPVInitDevices) m
         (InitRequestSpec_Devices h))"

definition InitRequestStatus_reads where
  "InitRequestStatus_reads (R :: ('k, 'k direct_cell) k8s_readers) m h =
     map_option (\<lambda>results. (InitRequestStatus_value h)
         \<lparr>irst_Results := items results\<rparr>)
       ((reads_slice reads_plain un_DirectPVResults) m
         (InitRequestStatus_Results h))"

definition NodeStatus_reads where
  "NodeStatus_reads (R :: ('k, 'k direct_cell) k8s_readers) m h =
     map_option (\<lambda>(devices, conditions). (NodeStatus_value h)
         \<lparr>nst_Devices := items devices,
           NodeStatus.nst_Conditions := items conditions\<rparr>)
       ((reads_pair (reads_slice reads_plain un_DirectPVDevices) (reads_slice (kr_condition R) un_DirectPVKs)) m
         (NodeStatus_Devices h, NodeStatus_Conditions h))"

definition VolumeStatus_reads where
  "VolumeStatus_reads (R :: ('k, 'k direct_cell) k8s_readers) m h =
     map_option (\<lambda>conditions. (VolumeStatus_value h)
         \<lparr>vst_Conditions := items conditions\<rparr>)
       ((reads_slice (kr_condition R) un_DirectPVKs) m
         (VolumeStatus_Conditions h))"

definition DirectPVDrive_reads where
  "DirectPVDrive_reads (R :: ('k, 'k direct_cell) k8s_readers) m h =
     map_option (\<lambda>(objectMeta, status). (DirectPVDrive_value h)
         \<lparr>drive_Meta := objectMeta,
           drive_Status := status\<rparr>)
       ((reads_pair (kr_meta R) (DriveStatus_reads R)) m
         (DirectPVDrive_ObjectMeta h, DirectPVDrive_Status h))"

definition DirectPVDriveList_reads where
  "DirectPVDriveList_reads (R :: ('k, 'k direct_cell) k8s_readers) m h =
     map_option (\<lambda>(listMeta, elements). (DirectPVDriveList_value h)
         \<lparr>ol_ListMeta := Some listMeta,
           ol_Items := items elements\<rparr>)
       ((reads_pair (kr_list_meta R) (reads_slice (DirectPVDrive_reads R) un_DirectPVDrives)) m
         (DirectPVDriveList_ListMeta h, DirectPVDriveList_Items h))"

definition DirectPVInitRequest_reads where
  "DirectPVInitRequest_reads (R :: ('k, 'k direct_cell) k8s_readers) m h =
     map_option (\<lambda>(objectMeta, spec, status). (DirectPVInitRequest_value h)
         \<lparr>req_Meta := objectMeta,
           req_Spec := spec,
           req_Status := status\<rparr>)
       ((reads_pair (kr_meta R) (reads_pair (InitRequestSpec_reads R) (InitRequestStatus_reads R))) m
         (DirectPVInitRequest_ObjectMeta h, DirectPVInitRequest_Spec h, DirectPVInitRequest_Status h))"

definition DirectPVInitRequestList_reads where
  "DirectPVInitRequestList_reads (R :: ('k, 'k direct_cell) k8s_readers) m h =
     map_option (\<lambda>(listMeta, elements). (DirectPVInitRequestList_value h)
         \<lparr>ol_ListMeta := Some listMeta,
           ol_Items := items elements\<rparr>)
       ((reads_pair (kr_list_meta R) (reads_slice (DirectPVInitRequest_reads R) un_DirectPVRequests)) m
         (DirectPVInitRequestList_ListMeta h, DirectPVInitRequestList_Items h))"

definition DirectPVNode_reads where
  "DirectPVNode_reads (R :: ('k, 'k direct_cell) k8s_readers) m h =
     map_option (\<lambda>(objectMeta, status). (DirectPVNode_value h)
         \<lparr>node_Meta := objectMeta,
           node_Status := status\<rparr>)
       ((reads_pair (kr_meta R) (NodeStatus_reads R)) m
         (DirectPVNode_ObjectMeta h, DirectPVNode_Status h))"

definition DirectPVNodeList_reads where
  "DirectPVNodeList_reads (R :: ('k, 'k direct_cell) k8s_readers) m h =
     map_option (\<lambda>(listMeta, elements). (DirectPVNodeList_value h)
         \<lparr>ol_ListMeta := Some listMeta,
           ol_Items := items elements\<rparr>)
       ((reads_pair (kr_list_meta R) (reads_slice (DirectPVNode_reads R) un_DirectPVNodes)) m
         (DirectPVNodeList_ListMeta h, DirectPVNodeList_Items h))"

definition DirectPVVolume_reads where
  "DirectPVVolume_reads (R :: ('k, 'k direct_cell) k8s_readers) m h =
     map_option (\<lambda>(objectMeta, status). (DirectPVVolume_value h)
         \<lparr>volume_Meta := objectMeta,
           volume_Status := status\<rparr>)
       ((reads_pair (kr_meta R) (VolumeStatus_reads R)) m
         (DirectPVVolume_ObjectMeta h, DirectPVVolume_Status h))"

definition DirectPVVolumeList_reads where
  "DirectPVVolumeList_reads (R :: ('k, 'k direct_cell) k8s_readers) m h =
     map_option (\<lambda>(listMeta, elements). (DirectPVVolumeList_value h)
         \<lparr>ol_ListMeta := Some listMeta,
           ol_Items := items elements\<rparr>)
       ((reads_pair (kr_list_meta R) (reads_slice (DirectPVVolume_reads R) un_DirectPVVolumes)) m
         (DirectPVVolumeList_ListMeta h, DirectPVVolumeList_Items h))"

section \<open>They are deep copies\<close>

locale directpv_copying = k8s_copying C R
  for C :: "('k, 'k direct_cell) k8s_copies" and R :: "('k, 'k direct_cell) k8s_readers"
begin

lemma DriveStatus_deep: "deep_copying (DriveStatus_DeepCopyInto C) (DriveStatus_reads R)"
proof -
  have cp: "DriveStatus_DeepCopyInto C = (\<lambda>h m. let (x, m1) = (copy_pair (copy_map (kc_order C) DirectPVMap un_DirectPVMap) (copy_slice (kc_condition C) DirectPVKs un_DirectPVKs))
      (DriveStatus_Topology h, DriveStatus_Conditions h) m
    in (case x of (x1, x2) \<Rightarrow> h\<lparr>DriveStatus_Topology := x1, DriveStatus_Conditions := x2\<rparr>, m1))"
    by (simp only: fun_eq_iff DriveStatus_DeepCopyInto_def copy_stages)
  show ?thesis
    unfolding cp DriveStatus_reads_def [abs_def]
    by (rule deep_struct [OF deep_pair [OF strings_map [of un_DirectPVMap DirectPVMap, OF un_directpv_cell(1)] deep_slice [OF condition, of un_DirectPVKs DirectPVKs, OF un_directpv_cell(2)]]])
      (simp_all add: split_beta)
qed

lemma InitRequestSpec_deep: "deep_copying (InitRequestSpec_DeepCopyInto C) (InitRequestSpec_reads R)"
proof -
  have cp: "InitRequestSpec_DeepCopyInto C = (\<lambda>h m. let (x, m1) = (copy_slice assign DirectPVInitDevices un_DirectPVInitDevices)
      (InitRequestSpec_Devices h) m
    in (case x of x1 \<Rightarrow> h\<lparr>InitRequestSpec_Devices := x1\<rparr>, m1))"
    by (simp only: fun_eq_iff InitRequestSpec_DeepCopyInto_def copy_stages)
  show ?thesis
    unfolding cp InitRequestSpec_reads_def [abs_def]
    by (rule deep_struct [OF deep_slice [OF plain.deep_copying_axioms, of un_DirectPVInitDevices DirectPVInitDevices, OF un_directpv_cell(4)]])
      (simp_all add: split_beta)
qed

lemma InitRequestStatus_deep: "deep_copying (InitRequestStatus_DeepCopyInto C) (InitRequestStatus_reads R)"
proof -
  have cp: "InitRequestStatus_DeepCopyInto C = (\<lambda>h m. let (x, m1) = (copy_slice assign DirectPVResults un_DirectPVResults)
      (InitRequestStatus_Results h) m
    in (case x of x1 \<Rightarrow> h\<lparr>InitRequestStatus_Results := x1\<rparr>, m1))"
    by (simp only: fun_eq_iff InitRequestStatus_DeepCopyInto_def copy_stages)
  show ?thesis
    unfolding cp InitRequestStatus_reads_def [abs_def]
    by (rule deep_struct [OF deep_slice [OF plain.deep_copying_axioms, of un_DirectPVResults DirectPVResults, OF un_directpv_cell(5)]])
      (simp_all add: split_beta)
qed

lemma NodeStatus_deep: "deep_copying (NodeStatus_DeepCopyInto C) (NodeStatus_reads R)"
proof -
  have cp: "NodeStatus_DeepCopyInto C = (\<lambda>h m. let (x, m1) = (copy_pair (copy_slice assign DirectPVDevices un_DirectPVDevices) (copy_slice (kc_condition C) DirectPVKs un_DirectPVKs))
      (NodeStatus_Devices h, NodeStatus_Conditions h) m
    in (case x of (x1, x2) \<Rightarrow> h\<lparr>NodeStatus_Devices := x1, NodeStatus_Conditions := x2\<rparr>, m1))"
    by (simp only: fun_eq_iff NodeStatus_DeepCopyInto_def copy_stages)
  show ?thesis
    unfolding cp NodeStatus_reads_def [abs_def]
    by (rule deep_struct [OF deep_pair [OF deep_slice [OF plain.deep_copying_axioms, of un_DirectPVDevices DirectPVDevices, OF un_directpv_cell(3)] deep_slice [OF condition, of un_DirectPVKs DirectPVKs, OF un_directpv_cell(2)]]])
      (simp_all add: split_beta)
qed

lemma VolumeStatus_deep: "deep_copying (VolumeStatus_DeepCopyInto C) (VolumeStatus_reads R)"
proof -
  have cp: "VolumeStatus_DeepCopyInto C = (\<lambda>h m. let (x, m1) = (copy_slice (kc_condition C) DirectPVKs un_DirectPVKs)
      (VolumeStatus_Conditions h) m
    in (case x of x1 \<Rightarrow> h\<lparr>VolumeStatus_Conditions := x1\<rparr>, m1))"
    by (simp only: fun_eq_iff VolumeStatus_DeepCopyInto_def copy_stages)
  show ?thesis
    unfolding cp VolumeStatus_reads_def [abs_def]
    by (rule deep_struct [OF deep_slice [OF condition, of un_DirectPVKs DirectPVKs, OF un_directpv_cell(2)]])
      (simp_all add: split_beta)
qed

lemma DirectPVDrive_deep: "deep_copying (DirectPVDrive_DeepCopyInto C) (DirectPVDrive_reads R)"
proof -
  have cp: "DirectPVDrive_DeepCopyInto C = (\<lambda>h m. let (x, m1) = (copy_pair (kc_meta C) (DriveStatus_DeepCopyInto C))
      (DirectPVDrive_ObjectMeta h, DirectPVDrive_Status h) m
    in (case x of (x1, x2) \<Rightarrow> h\<lparr>DirectPVDrive_ObjectMeta := x1, DirectPVDrive_Status := x2\<rparr>, m1))"
    by (simp only: fun_eq_iff DirectPVDrive_DeepCopyInto_def copy_stages)
  show ?thesis
    unfolding cp DirectPVDrive_reads_def [abs_def]
    by (rule deep_struct [OF deep_pair [OF meta DriveStatus_deep]])
      (simp_all add: split_beta)
qed

lemma DirectPVDriveList_deep: "deep_copying (DirectPVDriveList_DeepCopyInto C) (DirectPVDriveList_reads R)"
proof -
  have cp: "DirectPVDriveList_DeepCopyInto C = (\<lambda>h m. let (x, m1) = (copy_pair (kc_list_meta C) (copy_slice (DirectPVDrive_DeepCopyInto C) DirectPVDrives un_DirectPVDrives))
      (DirectPVDriveList_ListMeta h, DirectPVDriveList_Items h) m
    in (case x of (x1, x2) \<Rightarrow> h\<lparr>DirectPVDriveList_ListMeta := x1, DirectPVDriveList_Items := x2\<rparr>, m1))"
    by (simp only: fun_eq_iff DirectPVDriveList_DeepCopyInto_def copy_stages)
  show ?thesis
    unfolding cp DirectPVDriveList_reads_def [abs_def]
    by (rule deep_struct [OF deep_pair [OF list_meta deep_slice [OF DirectPVDrive_deep, of un_DirectPVDrives DirectPVDrives, OF un_directpv_cell(6)]]])
      (simp_all add: split_beta)
qed

lemma DirectPVInitRequest_deep: "deep_copying (DirectPVInitRequest_DeepCopyInto C) (DirectPVInitRequest_reads R)"
proof -
  have cp: "DirectPVInitRequest_DeepCopyInto C = (\<lambda>h m. let (x, m1) = (copy_pair (kc_meta C) (copy_pair (InitRequestSpec_DeepCopyInto C) (InitRequestStatus_DeepCopyInto C)))
      (DirectPVInitRequest_ObjectMeta h, DirectPVInitRequest_Spec h, DirectPVInitRequest_Status h) m
    in (case x of (x1, x2, x3) \<Rightarrow> h\<lparr>DirectPVInitRequest_ObjectMeta := x1, DirectPVInitRequest_Spec := x2, DirectPVInitRequest_Status := x3\<rparr>, m1))"
    by (simp only: fun_eq_iff DirectPVInitRequest_DeepCopyInto_def copy_stages)
  show ?thesis
    unfolding cp DirectPVInitRequest_reads_def [abs_def]
    by (rule deep_struct [OF deep_pair [OF meta deep_pair [OF InitRequestSpec_deep InitRequestStatus_deep]]])
      (simp_all add: split_beta)
qed

lemma DirectPVInitRequestList_deep: "deep_copying (DirectPVInitRequestList_DeepCopyInto C) (DirectPVInitRequestList_reads R)"
proof -
  have cp: "DirectPVInitRequestList_DeepCopyInto C = (\<lambda>h m. let (x, m1) = (copy_pair (kc_list_meta C) (copy_slice (DirectPVInitRequest_DeepCopyInto C) DirectPVRequests un_DirectPVRequests))
      (DirectPVInitRequestList_ListMeta h, DirectPVInitRequestList_Items h) m
    in (case x of (x1, x2) \<Rightarrow> h\<lparr>DirectPVInitRequestList_ListMeta := x1, DirectPVInitRequestList_Items := x2\<rparr>, m1))"
    by (simp only: fun_eq_iff DirectPVInitRequestList_DeepCopyInto_def copy_stages)
  show ?thesis
    unfolding cp DirectPVInitRequestList_reads_def [abs_def]
    by (rule deep_struct [OF deep_pair [OF list_meta deep_slice [OF DirectPVInitRequest_deep, of un_DirectPVRequests DirectPVRequests, OF un_directpv_cell(7)]]])
      (simp_all add: split_beta)
qed

lemma DirectPVNode_deep: "deep_copying (DirectPVNode_DeepCopyInto C) (DirectPVNode_reads R)"
proof -
  have cp: "DirectPVNode_DeepCopyInto C = (\<lambda>h m. let (x, m1) = (copy_pair (kc_meta C) (NodeStatus_DeepCopyInto C))
      (DirectPVNode_ObjectMeta h, DirectPVNode_Status h) m
    in (case x of (x1, x2) \<Rightarrow> h\<lparr>DirectPVNode_ObjectMeta := x1, DirectPVNode_Status := x2\<rparr>, m1))"
    by (simp only: fun_eq_iff DirectPVNode_DeepCopyInto_def copy_stages)
  show ?thesis
    unfolding cp DirectPVNode_reads_def [abs_def]
    by (rule deep_struct [OF deep_pair [OF meta NodeStatus_deep]])
      (simp_all add: split_beta)
qed

lemma DirectPVNodeList_deep: "deep_copying (DirectPVNodeList_DeepCopyInto C) (DirectPVNodeList_reads R)"
proof -
  have cp: "DirectPVNodeList_DeepCopyInto C = (\<lambda>h m. let (x, m1) = (copy_pair (kc_list_meta C) (copy_slice (DirectPVNode_DeepCopyInto C) DirectPVNodes un_DirectPVNodes))
      (DirectPVNodeList_ListMeta h, DirectPVNodeList_Items h) m
    in (case x of (x1, x2) \<Rightarrow> h\<lparr>DirectPVNodeList_ListMeta := x1, DirectPVNodeList_Items := x2\<rparr>, m1))"
    by (simp only: fun_eq_iff DirectPVNodeList_DeepCopyInto_def copy_stages)
  show ?thesis
    unfolding cp DirectPVNodeList_reads_def [abs_def]
    by (rule deep_struct [OF deep_pair [OF list_meta deep_slice [OF DirectPVNode_deep, of un_DirectPVNodes DirectPVNodes, OF un_directpv_cell(8)]]])
      (simp_all add: split_beta)
qed

lemma DirectPVVolume_deep: "deep_copying (DirectPVVolume_DeepCopyInto C) (DirectPVVolume_reads R)"
proof -
  have cp: "DirectPVVolume_DeepCopyInto C = (\<lambda>h m. let (x, m1) = (copy_pair (kc_meta C) (VolumeStatus_DeepCopyInto C))
      (DirectPVVolume_ObjectMeta h, DirectPVVolume_Status h) m
    in (case x of (x1, x2) \<Rightarrow> h\<lparr>DirectPVVolume_ObjectMeta := x1, DirectPVVolume_Status := x2\<rparr>, m1))"
    by (simp only: fun_eq_iff DirectPVVolume_DeepCopyInto_def copy_stages)
  show ?thesis
    unfolding cp DirectPVVolume_reads_def [abs_def]
    by (rule deep_struct [OF deep_pair [OF meta VolumeStatus_deep]])
      (simp_all add: split_beta)
qed

lemma DirectPVVolumeList_deep: "deep_copying (DirectPVVolumeList_DeepCopyInto C) (DirectPVVolumeList_reads R)"
proof -
  have cp: "DirectPVVolumeList_DeepCopyInto C = (\<lambda>h m. let (x, m1) = (copy_pair (kc_list_meta C) (copy_slice (DirectPVVolume_DeepCopyInto C) DirectPVVolumes un_DirectPVVolumes))
      (DirectPVVolumeList_ListMeta h, DirectPVVolumeList_Items h) m
    in (case x of (x1, x2) \<Rightarrow> h\<lparr>DirectPVVolumeList_ListMeta := x1, DirectPVVolumeList_Items := x2\<rparr>, m1))"
    by (simp only: fun_eq_iff DirectPVVolumeList_DeepCopyInto_def copy_stages)
  show ?thesis
    unfolding cp DirectPVVolumeList_reads_def [abs_def]
    by (rule deep_struct [OF deep_pair [OF list_meta deep_slice [OF DirectPVVolume_deep, of un_DirectPVVolumes DirectPVVolumes, OF un_directpv_cell(9)]]])
      (simp_all add: split_beta)
qed

end

sublocale directpv_copying \<subseteq> drive: deep_copying "DirectPVDrive_DeepCopyInto C" "DirectPVDrive_reads R"
  by (rule DirectPVDrive_deep)

sublocale directpv_copying \<subseteq> drive_list: deep_copying "DirectPVDriveList_DeepCopyInto C" "DirectPVDriveList_reads R"
  by (rule DirectPVDriveList_deep)

sublocale directpv_copying \<subseteq> request: deep_copying "DirectPVInitRequest_DeepCopyInto C" "DirectPVInitRequest_reads R"
  by (rule DirectPVInitRequest_deep)

sublocale directpv_copying \<subseteq> request_list: deep_copying "DirectPVInitRequestList_DeepCopyInto C" "DirectPVInitRequestList_reads R"
  by (rule DirectPVInitRequestList_deep)

sublocale directpv_copying \<subseteq> node: deep_copying "DirectPVNode_DeepCopyInto C" "DirectPVNode_reads R"
  by (rule DirectPVNode_deep)

sublocale directpv_copying \<subseteq> node_list: deep_copying "DirectPVNodeList_DeepCopyInto C" "DirectPVNodeList_reads R"
  by (rule DirectPVNodeList_deep)

sublocale directpv_copying \<subseteq> volumes: deep_copying "DirectPVVolume_DeepCopyInto C" "DirectPVVolume_reads R"
  by (rule DirectPVVolume_deep)

sublocale directpv_copying \<subseteq> volume_list: deep_copying "DirectPVVolumeList_DeepCopyInto C" "DirectPVVolumeList_reads R"
  by (rule DirectPVVolumeList_deep)

text \<open>An instance.\<close>

definition direct_copies :: "(k8s_data, k8s_data direct_cell) k8s_copies" where
  "direct_copies = plain_copies DirectPVMap un_DirectPVMap"

definition direct_readers :: "(k8s_data, k8s_data direct_cell) k8s_readers" where
  "direct_readers = plain_readers un_DirectPVMap"

interpretation direct_plain: directpv_copying direct_copies direct_readers
  unfolding direct_copies_def direct_readers_def
  by (intro directpv_copying.intro plain_k8s un_directpv_cell)

end
