(* ===== verification/OpenAPI.thy ===== *)
theory OpenAPI
  imports Prelude
begin

text \<open>
  Schemas of the OpenAPI specification, \<open>spec.Schema\<close> of \<open>k8s.io/kube-openapi\<close>, with the fields the generated
  definitions use, and what it means that a document conforms to one. Documents are JSON values.
  A property without a schema is allowed, as the specification has it.
\<close>

section \<open>Documents and schemas\<close>

datatype doc =
    DNull
  | DBool bool
  | DInt int
  | DString string
  | DArray "doc list"
  | DObject "(string \<times> doc) list"

datatype 'r schema = Schema
  (sch_Description: string)
  (sch_Default: "doc option")
  (sch_Type: "string list")
  (sch_Format: string)
  (sch_Ref: "'r option")
  (sch_Properties: "(string \<times> 'r schema) list")
  (sch_Required: "string list")
  (sch_Items: "'r schema option")
  (sch_AdditionalProperties: "'r schema option")
  (sch_Extensions: "(string \<times> doc) list")

text \<open>\<open>common.OpenAPIDefinition\<close>.\<close>

record 'r openapi_definition =
  oad_Schema :: "'r schema"
  oad_Dependencies :: "string list"

text \<open>The shapes that occur.\<close>

definition value_schema :: "string \<Rightarrow> doc option \<Rightarrow> string \<Rightarrow> string \<Rightarrow> 'r schema" where
  "value_schema desc dflt typ fmt = Schema desc dflt [typ] fmt None [] [] None None []"

definition ref_schema :: "string \<Rightarrow> doc option \<Rightarrow> 'r \<Rightarrow> 'r schema" where
  "ref_schema desc dflt r = Schema desc dflt [] [] (Some r) [] [] None None []"

definition array_schema :: "(string \<times> doc) list \<Rightarrow> 'r schema \<Rightarrow> 'r schema" where
  "array_schema extensions item = Schema [] None [''array''] [] None [] [] (Some item) None extensions"

definition map_schema :: "'r schema \<Rightarrow> 'r schema" where
  "map_schema item = Schema [] None [''object''] [] None [] [] None (Some item) []"

definition object_schema :: "string \<Rightarrow> (string \<times> 'r schema) list \<Rightarrow> string list \<Rightarrow> 'r schema" where
  "object_schema desc properties required = Schema desc None [''object''] [] None properties required None None []"

section \<open>Conformance\<close>

definition int64_range :: "int \<Rightarrow> bool" where
  "int64_range i \<longleftrightarrow> - (2 ^ 63) \<le> i \<and> i < 2 ^ 63"

fun has_type :: "string \<Rightarrow> doc \<Rightarrow> string \<Rightarrow> bool" where
  "has_type fmt DNull t = False"
| "has_type fmt (DBool b) t = (t = ''boolean'')"
| "has_type fmt (DInt i) t = (t = ''integer'' \<and> (fmt = ''int64'' \<longrightarrow> int64_range i))"
| "has_type fmt (DString s) t = (t = ''string'')"
| "has_type fmt (DArray ds) t = (t = ''array'')"
| "has_type fmt (DObject fs) t = (t = ''object'')"

text \<open>\<open>D\<close> has the definitions; \<open>E\<close> says what conforms to a reference without one, to a type of another repository.\<close>

lemma size_element [termination_simp]: "x \<in> set ds \<Longrightarrow> size x < Suc (size_list size ds)"
  by (simp add: less_Suc_eq_le size_list_estimation')

lemma size_field [termination_simp]:
  "f \<in> set fs \<Longrightarrow> size (snd f) < Suc (size_list (size_prod (\<lambda>x. 0) size) fs)"
  by (rule le_imp_less_Suc, rule size_list_estimation') (auto simp: size_prod_simp)

function conforms :: "('r \<Rightarrow> 'r schema option) \<Rightarrow> ('r \<Rightarrow> doc \<Rightarrow> bool) \<Rightarrow> 'r schema \<Rightarrow> doc \<Rightarrow> bool" where
  "conforms D E s d =
     (case sch_Ref s of
        Some r \<Rightarrow>
          (case D r of
             None \<Rightarrow> E r d
           | Some t \<Rightarrow> if sch_Ref t = None then conforms D E t d else False)
      | None \<Rightarrow>
          (\<exists>t \<in> set (sch_Type s). has_type (sch_Format s) d t) \<and>
          (case d of
             DArray ds \<Rightarrow>
               (\<forall>x \<in> set ds. case sch_Items s of None \<Rightarrow> True | Some t \<Rightarrow> conforms D E t x)
           | DObject fs \<Rightarrow>
               set (sch_Required s) \<subseteq> fst ` set fs \<and>
               (\<forall>f \<in> set fs.
                  case map_of (sch_Properties s) (fst f) of
                    Some t \<Rightarrow> conforms D E t (snd f)
                  | None \<Rightarrow> (case sch_AdditionalProperties s of None \<Rightarrow> True | Some t \<Rightarrow> conforms D E t (snd f)))
           | _ \<Rightarrow> True))"
  by pat_completeness auto
termination
  by (relation "measures [\<lambda>(D, E, s, d). size d, \<lambda>(D, E, s, d). if sch_Ref s = None then 0 else 1]")
    (auto simp: size_element size_field)

declare conforms.simps [simp del]

lemmas conforms_Schema = conforms.simps [where s = "Schema ds df ty fm re ps rq it ad ex" for ds df ty fm re ps rq it ad ex]

lemma conforms_value:
  "conforms D E (value_schema desc df ''string'' []) (DString s)"
  "conforms D E (value_schema desc df ''boolean'' []) (DBool b)"
  "conforms D E (value_schema desc df ''integer'' ''int64'') (DInt i) \<longleftrightarrow> int64_range i"
  by (simp_all add: conforms_Schema value_schema_def)

lemma conforms_ref:
  "D r = Some t \<Longrightarrow> sch_Ref t = None \<Longrightarrow> conforms D E (ref_schema desc df r) d \<longleftrightarrow> conforms D E t d"
  "D r = None \<Longrightarrow> conforms D E (ref_schema desc df r) d \<longleftrightarrow> E r d"
  by (simp_all add: conforms_Schema ref_schema_def)

lemma conforms_array:
  "conforms D E (array_schema ex t) (DArray ds) \<longleftrightarrow> (\<forall>x \<in> set ds. conforms D E t x)"
  "\<not> conforms D E (array_schema ex t) DNull"
  by (simp_all add: conforms_Schema array_schema_def)

lemma conforms_map:
  "conforms D E (map_schema t) (DObject fs) \<longleftrightarrow> (\<forall>f \<in> set fs. conforms D E t (snd f))"
  "\<not> conforms D E (map_schema t) DNull"
  by (simp_all add: conforms_Schema map_schema_def)

lemma conforms_object:
  "conforms D E (object_schema desc ps rq) (DObject fs) \<longleftrightarrow>
     set rq \<subseteq> fst ` set fs \<and>
     (\<forall>f \<in> set fs. case map_of ps (fst f) of Some t \<Rightarrow> conforms D E t (snd f) | None \<Rightarrow> True)"
  by (simp add: conforms_Schema object_schema_def split: option.split)

lemma object_schema_no_ref [simp]: "sch_Ref (object_schema desc ps rq) = None"
  by (simp add: object_schema_def)

lemmas conforms_simps = conforms_value conforms_array conforms_map conforms_object

section \<open>Documents of structs\<close>

text \<open>A field of \<open>encoding/json\<close>, and one with \<open>omitempty\<close>. A nil slice or map is \<open>null\<close>.\<close>

definition omit_string :: "string \<Rightarrow> string \<Rightarrow> (string \<times> doc) list" where
  "omit_string name s = (if s = [] then [] else [(name, DString s)])"

definition omit_bool :: "string \<Rightarrow> bool \<Rightarrow> (string \<times> doc) list" where
  "omit_bool name b = (if b then [(name, DBool b)] else [])"

definition omit_items :: "string \<Rightarrow> doc list option \<Rightarrow> (string \<times> doc) list" where
  "omit_items name ds = (case ds of None \<Rightarrow> [] | Some xs \<Rightarrow> if xs = [] then [] else [(name, DArray xs)])"

definition slice_doc :: "doc list option \<Rightarrow> doc" where
  "slice_doc ds = (case ds of None \<Rightarrow> DNull | Some xs \<Rightarrow> DArray xs)"

lemma ball_omit:
  "(\<forall>f \<in> set (omit_string name s). P f) \<longleftrightarrow> (s \<noteq> [] \<longrightarrow> P (name, DString s))"
  "(\<forall>f \<in> set (omit_bool name b). P f) \<longleftrightarrow> (b \<longrightarrow> P (name, DBool True))"
  "(\<forall>f \<in> set (omit_items name ds). P f) \<longleftrightarrow> (\<forall>xs. ds = Some xs \<longrightarrow> xs \<noteq> [] \<longrightarrow> P (name, DArray xs))"
  by (auto simp: omit_string_def omit_bool_def omit_items_def split: option.split)

end
