(* ===== verification/DirectPVSchema.thy ===== *)
theory DirectPVSchema
  imports OpenAPI DirectPVCopy
begin

text \<open>
  The OpenAPI definitions of the DirectPV types, \<open>openapi_generated.go\<close>, and the documents
  \<open>encoding/json\<close> writes for them by the tags of \<open>drive.go\<close>, \<open>volume.go\<close>, \<open>node.go\<close> and \<open>init_request.go\<close>. A
  struct is written from memory, since a nil slice or map becomes \<open>null\<close>. The references are those of
  a callback \<open>ref\<close>. What the metadata and the conditions are written as is given.
\<close>

section \<open>The generated definitions\<close>

definition own :: "string \<Rightarrow> string" where
  "own n = ''github.com/minio/directpv/pkg/apis/directpv.min.io/v1beta1.'' @ n"

definition meta_v1 :: "string \<Rightarrow> string" where
  "meta_v1 n = ''k8s.io/apimachinery/pkg/apis/meta/v1.'' @ n"

definition kind_description :: string where
  "kind_description = ''Kind is a string value representing the REST resource this object represents. Servers may infer this from the endpoint the client submits requests to. Cannot be updated. In CamelCase. More info: https://git.k8s.io/community/contributors/devel/sig-architecture/api-conventions.md#types-kinds''"

definition api_version_description :: string where
  "api_version_description = ''APIVersion defines the versioned schema of this representation of an object. Servers should convert recognized schemas to the latest internal value, and may reject unrecognized values. More info: https://git.k8s.io/community/contributors/devel/sig-architecture/api-conventions.md#resources''"

definition condition_extensions :: "(string \<times> doc) list" where
  "condition_extensions =
     [(''x-kubernetes-list-map-keys'', DArray [DString ''type'']), (''x-kubernetes-list-type'', DString ''map''), (''x-kubernetes-patch-merge-key'', DString ''type''), (''x-kubernetes-patch-strategy'', DString ''merge'')]"

definition schema_pkg_apis_directpvminio_v1beta1_Device :: "(string \<Rightarrow> 'r) \<Rightarrow> 'r openapi_definition" where
  "schema_pkg_apis_directpvminio_v1beta1_Device ref =
     \<lparr>oad_Schema = object_schema ''Device denotes the device information in a drive''
      [(''name'', value_schema [] (Some (DString [])) ''string'' []),
       (''id'', value_schema [] (Some (DString [])) ''string'' []),
       (''majorMinor'', value_schema [] (Some (DString [])) ''string'' []),
       (''size'', value_schema [] (Some (DInt 0)) ''integer'' ''int64''),
       (''make'', value_schema [] None ''string'' []),
       (''fsType'', value_schema [] None ''string'' []),
       (''fsuuid'', value_schema [] None ''string'' []),
       (''deniedReason'', value_schema [] None ''string'' [])]
      [''name'', ''id'', ''majorMinor'', ''size''],
      oad_Dependencies = []\<rparr>"

definition schema_pkg_apis_directpvminio_v1beta1_DirectPVDrive :: "(string \<Rightarrow> 'r) \<Rightarrow> 'r openapi_definition" where
  "schema_pkg_apis_directpvminio_v1beta1_DirectPVDrive ref =
     \<lparr>oad_Schema = object_schema ''DirectPVDrive denotes drive CRD object.''
      [(''kind'', value_schema kind_description None ''string'' []),
       (''apiVersion'', value_schema api_version_description None ''string'' []),
       (''metadata'', ref_schema [] (Some (DObject [])) (ref (meta_v1 ''ObjectMeta''))),
       (''spec'', ref_schema [] (Some (DObject [])) (ref (own ''DriveSpec''))),
       (''status'', ref_schema [] (Some (DObject [])) (ref (own ''DriveStatus'')))]
      [''metadata'', ''status''],
      oad_Dependencies = [own ''DriveSpec'', own ''DriveStatus'', meta_v1 ''ObjectMeta'']\<rparr>"

definition schema_pkg_apis_directpvminio_v1beta1_DirectPVDriveList :: "(string \<Rightarrow> 'r) \<Rightarrow> 'r openapi_definition" where
  "schema_pkg_apis_directpvminio_v1beta1_DirectPVDriveList ref =
     \<lparr>oad_Schema = object_schema ''DirectPVDriveList denotes list of drives.''
      [(''kind'', value_schema kind_description None ''string'' []),
       (''apiVersion'', value_schema api_version_description None ''string'' []),
       (''metadata'', ref_schema ''metdata is the standard list metadata.'' (Some (DObject [])) (ref (meta_v1 ''ListMeta''))),
       (''items'', array_schema [] (ref_schema [] (Some (DObject [])) (ref (own ''DirectPVDrive''))))]
      [''items''],
      oad_Dependencies = [own ''DirectPVDrive'', meta_v1 ''ListMeta'']\<rparr>"

definition schema_pkg_apis_directpvminio_v1beta1_DirectPVInitRequest :: "(string \<Rightarrow> 'r) \<Rightarrow> 'r openapi_definition" where
  "schema_pkg_apis_directpvminio_v1beta1_DirectPVInitRequest ref =
     \<lparr>oad_Schema = object_schema ''DirectPVInitRequest denotes DirectPVInitRequest CRD object.''
      [(''kind'', value_schema kind_description None ''string'' []),
       (''apiVersion'', value_schema api_version_description None ''string'' []),
       (''metadata'', ref_schema [] (Some (DObject [])) (ref (meta_v1 ''ObjectMeta''))),
       (''spec'', ref_schema [] (Some (DObject [])) (ref (own ''InitRequestSpec''))),
       (''status'', ref_schema [] (Some (DObject [])) (ref (own ''InitRequestStatus'')))]
      [''metadata'', ''spec'', ''status''],
      oad_Dependencies = [own ''InitRequestSpec'', own ''InitRequestStatus'', meta_v1 ''ObjectMeta'']\<rparr>"

definition schema_pkg_apis_directpvminio_v1beta1_DirectPVInitRequestList :: "(string \<Rightarrow> 'r) \<Rightarrow> 'r openapi_definition" where
  "schema_pkg_apis_directpvminio_v1beta1_DirectPVInitRequestList ref =
     \<lparr>oad_Schema = object_schema ''DirectPVInitRequestList denotes list of init request.''
      [(''kind'', value_schema kind_description None ''string'' []),
       (''apiVersion'', value_schema api_version_description None ''string'' []),
       (''metadata'', ref_schema ''metdata is the standard list metadata.'' (Some (DObject [])) (ref (meta_v1 ''ListMeta''))),
       (''items'', array_schema [] (ref_schema [] (Some (DObject [])) (ref (own ''DirectPVInitRequest''))))]
      [''items''],
      oad_Dependencies = [own ''DirectPVInitRequest'', meta_v1 ''ListMeta'']\<rparr>"

definition schema_pkg_apis_directpvminio_v1beta1_DirectPVNode :: "(string \<Rightarrow> 'r) \<Rightarrow> 'r openapi_definition" where
  "schema_pkg_apis_directpvminio_v1beta1_DirectPVNode ref =
     \<lparr>oad_Schema = object_schema ''DirectPVNode denotes Node CRD object.''
      [(''kind'', value_schema kind_description None ''string'' []),
       (''apiVersion'', value_schema api_version_description None ''string'' []),
       (''metadata'', ref_schema [] (Some (DObject [])) (ref (meta_v1 ''ObjectMeta''))),
       (''spec'', ref_schema [] (Some (DObject [])) (ref (own ''NodeSpec''))),
       (''status'', ref_schema [] (Some (DObject [])) (ref (own ''NodeStatus'')))]
      [''metadata'', ''status''],
      oad_Dependencies = [own ''NodeSpec'', own ''NodeStatus'', meta_v1 ''ObjectMeta'']\<rparr>"

definition schema_pkg_apis_directpvminio_v1beta1_DirectPVNodeList :: "(string \<Rightarrow> 'r) \<Rightarrow> 'r openapi_definition" where
  "schema_pkg_apis_directpvminio_v1beta1_DirectPVNodeList ref =
     \<lparr>oad_Schema = object_schema ''DirectPVNodeList denotes list of nodes.''
      [(''kind'', value_schema kind_description None ''string'' []),
       (''apiVersion'', value_schema api_version_description None ''string'' []),
       (''metadata'', ref_schema ''metdata is the standard list metadata.'' (Some (DObject [])) (ref (meta_v1 ''ListMeta''))),
       (''items'', array_schema [] (ref_schema [] (Some (DObject [])) (ref (own ''DirectPVNode''))))]
      [''items''],
      oad_Dependencies = [own ''DirectPVNode'', meta_v1 ''ListMeta'']\<rparr>"

definition schema_pkg_apis_directpvminio_v1beta1_DirectPVVolume :: "(string \<Rightarrow> 'r) \<Rightarrow> 'r openapi_definition" where
  "schema_pkg_apis_directpvminio_v1beta1_DirectPVVolume ref =
     \<lparr>oad_Schema = object_schema ''DirectPVVolume denotes volume CRD object.''
      [(''kind'', value_schema kind_description None ''string'' []),
       (''apiVersion'', value_schema api_version_description None ''string'' []),
       (''metadata'', ref_schema [] (Some (DObject [])) (ref (meta_v1 ''ObjectMeta''))),
       (''status'', ref_schema [] (Some (DObject [])) (ref (own ''VolumeStatus'')))]
      [''metadata'', ''status''],
      oad_Dependencies = [own ''VolumeStatus'', meta_v1 ''ObjectMeta'']\<rparr>"

definition schema_pkg_apis_directpvminio_v1beta1_DirectPVVolumeList :: "(string \<Rightarrow> 'r) \<Rightarrow> 'r openapi_definition" where
  "schema_pkg_apis_directpvminio_v1beta1_DirectPVVolumeList ref =
     \<lparr>oad_Schema = object_schema ''DirectPVVolumeList denotes list of volumes.''
      [(''kind'', value_schema kind_description None ''string'' []),
       (''apiVersion'', value_schema api_version_description None ''string'' []),
       (''metadata'', ref_schema ''metdata is the standard list metadata.'' (Some (DObject [])) (ref (meta_v1 ''ListMeta''))),
       (''items'', array_schema [] (ref_schema [] (Some (DObject [])) (ref (own ''DirectPVVolume''))))]
      [''items''],
      oad_Dependencies = [own ''DirectPVVolume'', meta_v1 ''ListMeta'']\<rparr>"

definition schema_pkg_apis_directpvminio_v1beta1_DriveSpec :: "(string \<Rightarrow> 'r) \<Rightarrow> 'r openapi_definition" where
  "schema_pkg_apis_directpvminio_v1beta1_DriveSpec ref =
     \<lparr>oad_Schema = object_schema ''DriveSpec represents DirectPV drive specification values.''
      [(''unschedulable'', value_schema [] None ''boolean'' []),
       (''relabel'', value_schema [] None ''boolean'' [])]
      [],
      oad_Dependencies = []\<rparr>"

definition schema_pkg_apis_directpvminio_v1beta1_DriveStatus :: "(string \<Rightarrow> 'r) \<Rightarrow> 'r openapi_definition" where
  "schema_pkg_apis_directpvminio_v1beta1_DriveStatus ref =
     \<lparr>oad_Schema = object_schema ''DriveStatus denotes drive information.''
      [(''totalCapacity'', value_schema [] (Some (DInt 0)) ''integer'' ''int64''),
       (''allocatedCapacity'', value_schema [] (Some (DInt 0)) ''integer'' ''int64''),
       (''freeCapacity'', value_schema [] (Some (DInt 0)) ''integer'' ''int64''),
       (''fsuuid'', value_schema [] (Some (DString [])) ''string'' []),
       (''status'', value_schema [] (Some (DString [])) ''string'' []),
       (''topology'', map_schema (value_schema [] (Some (DString [])) ''string'' [])),
       (''make'', value_schema [] None ''string'' []),
       (''conditions'', array_schema condition_extensions (ref_schema [] (Some (DObject [])) (ref (meta_v1 ''Condition''))))]
      [''totalCapacity'', ''allocatedCapacity'', ''freeCapacity'', ''fsuuid'', ''status'', ''topology''],
      oad_Dependencies = [meta_v1 ''Condition'']\<rparr>"

definition schema_pkg_apis_directpvminio_v1beta1_InitDevice :: "(string \<Rightarrow> 'r) \<Rightarrow> 'r openapi_definition" where
  "schema_pkg_apis_directpvminio_v1beta1_InitDevice ref =
     \<lparr>oad_Schema = object_schema ''InitDevice represents the device requested for initialization.''
      [(''id'', value_schema [] (Some (DString [])) ''string'' []),
       (''name'', value_schema [] (Some (DString [])) ''string'' []),
       (''force'', value_schema [] (Some (DBool False)) ''boolean'' [])]
      [''id'', ''name'', ''force''],
      oad_Dependencies = []\<rparr>"

definition schema_pkg_apis_directpvminio_v1beta1_InitDeviceResult :: "(string \<Rightarrow> 'r) \<Rightarrow> 'r openapi_definition" where
  "schema_pkg_apis_directpvminio_v1beta1_InitDeviceResult ref =
     \<lparr>oad_Schema = object_schema ''InitDeviceResult represents the result of the InitDeviceRequest.''
      [(''name'', value_schema [] (Some (DString [])) ''string'' []),
       (''error'', value_schema [] None ''string'' [])]
      [''name''],
      oad_Dependencies = []\<rparr>"

definition schema_pkg_apis_directpvminio_v1beta1_InitRequestSpec :: "(string \<Rightarrow> 'r) \<Rightarrow> 'r openapi_definition" where
  "schema_pkg_apis_directpvminio_v1beta1_InitRequestSpec ref =
     \<lparr>oad_Schema = object_schema ''InitRequestSpec represents the spec for InitRequest.''
      [(''devices'', array_schema [(''x-kubernetes-list-type'', DString ''atomic'')] (ref_schema [] (Some (DObject [])) (ref (own ''InitDevice''))))]
      [''devices''],
      oad_Dependencies = [own ''InitDevice'']\<rparr>"

definition schema_pkg_apis_directpvminio_v1beta1_InitRequestStatus :: "(string \<Rightarrow> 'r) \<Rightarrow> 'r openapi_definition" where
  "schema_pkg_apis_directpvminio_v1beta1_InitRequestStatus ref =
     \<lparr>oad_Schema = object_schema ''InitRequestStatus represents the status of the InitRequest.''
      [(''status'', value_schema [] (Some (DString [])) ''string'' []),
       (''results'', array_schema [(''x-kubernetes-list-type'', DString ''atomic'')] (ref_schema [] (Some (DObject [])) (ref (own ''InitDeviceResult''))))]
      [''status'', ''results''],
      oad_Dependencies = [own ''InitDeviceResult'']\<rparr>"

definition schema_pkg_apis_directpvminio_v1beta1_NodeSpec :: "(string \<Rightarrow> 'r) \<Rightarrow> 'r openapi_definition" where
  "schema_pkg_apis_directpvminio_v1beta1_NodeSpec ref =
     \<lparr>oad_Schema = object_schema ''NodeSpec represents DirectPV node specification values.''
      [(''refresh'', value_schema [] None ''boolean'' [])]
      [],
      oad_Dependencies = []\<rparr>"

definition schema_pkg_apis_directpvminio_v1beta1_NodeStatus :: "(string \<Rightarrow> 'r) \<Rightarrow> 'r openapi_definition" where
  "schema_pkg_apis_directpvminio_v1beta1_NodeStatus ref =
     \<lparr>oad_Schema = object_schema ''NodeStatus denotes node information.''
      [(''devices'', array_schema [(''x-kubernetes-list-type'', DString ''atomic'')] (ref_schema [] (Some (DObject [])) (ref (own ''Device'')))),
       (''conditions'', array_schema condition_extensions (ref_schema [] (Some (DObject [])) (ref (meta_v1 ''Condition''))))]
      [''devices''],
      oad_Dependencies = [own ''Device'', meta_v1 ''Condition'']\<rparr>"

definition schema_pkg_apis_directpvminio_v1beta1_VolumeStatus :: "(string \<Rightarrow> 'r) \<Rightarrow> 'r openapi_definition" where
  "schema_pkg_apis_directpvminio_v1beta1_VolumeStatus ref =
     \<lparr>oad_Schema = object_schema ''VolumeStatus denotes volume information.''
      [(''dataPath'', value_schema [] (Some (DString [])) ''string'' []),
       (''stagingTargetPath'', value_schema [] (Some (DString [])) ''string'' []),
       (''targetPath'', value_schema [] (Some (DString [])) ''string'' []),
       (''fsuuid'', value_schema [] (Some (DString [])) ''string'' []),
       (''totalCapacity'', value_schema [] (Some (DInt 0)) ''integer'' ''int64''),
       (''availableCapacity'', value_schema [] (Some (DInt 0)) ''integer'' ''int64''),
       (''usedCapacity'', value_schema [] (Some (DInt 0)) ''integer'' ''int64''),
       (''status'', value_schema [] (Some (DString [])) ''string'' []),
       (''conditions'', array_schema condition_extensions (ref_schema [] (Some (DObject [])) (ref (meta_v1 ''Condition''))))]
      [''dataPath'', ''stagingTargetPath'', ''targetPath'', ''fsuuid'', ''totalCapacity'', ''availableCapacity'', ''usedCapacity'', ''status''],
      oad_Dependencies = [meta_v1 ''Condition'']\<rparr>"

definition GetOpenAPIDefinitions :: "(string \<Rightarrow> 'r) \<Rightarrow> (string \<times> 'r openapi_definition) list" where
  "GetOpenAPIDefinitions ref =
     [(own ''Device'', schema_pkg_apis_directpvminio_v1beta1_Device ref),
      (own ''DirectPVDrive'', schema_pkg_apis_directpvminio_v1beta1_DirectPVDrive ref),
      (own ''DirectPVDriveList'', schema_pkg_apis_directpvminio_v1beta1_DirectPVDriveList ref),
      (own ''DirectPVInitRequest'', schema_pkg_apis_directpvminio_v1beta1_DirectPVInitRequest ref),
      (own ''DirectPVInitRequestList'', schema_pkg_apis_directpvminio_v1beta1_DirectPVInitRequestList ref),
      (own ''DirectPVNode'', schema_pkg_apis_directpvminio_v1beta1_DirectPVNode ref),
      (own ''DirectPVNodeList'', schema_pkg_apis_directpvminio_v1beta1_DirectPVNodeList ref),
      (own ''DirectPVVolume'', schema_pkg_apis_directpvminio_v1beta1_DirectPVVolume ref),
      (own ''DirectPVVolumeList'', schema_pkg_apis_directpvminio_v1beta1_DirectPVVolumeList ref),
      (own ''DriveSpec'', schema_pkg_apis_directpvminio_v1beta1_DriveSpec ref),
      (own ''DriveStatus'', schema_pkg_apis_directpvminio_v1beta1_DriveStatus ref),
      (own ''InitDevice'', schema_pkg_apis_directpvminio_v1beta1_InitDevice ref),
      (own ''InitDeviceResult'', schema_pkg_apis_directpvminio_v1beta1_InitDeviceResult ref),
      (own ''InitRequestSpec'', schema_pkg_apis_directpvminio_v1beta1_InitRequestSpec ref),
      (own ''InitRequestStatus'', schema_pkg_apis_directpvminio_v1beta1_InitRequestStatus ref),
      (own ''NodeSpec'', schema_pkg_apis_directpvminio_v1beta1_NodeSpec ref),
      (own ''NodeStatus'', schema_pkg_apis_directpvminio_v1beta1_NodeStatus ref),
      (own ''VolumeStatus'', schema_pkg_apis_directpvminio_v1beta1_VolumeStatus ref)]"

lemmas schema_defs = schema_pkg_apis_directpvminio_v1beta1_Device_def
  schema_pkg_apis_directpvminio_v1beta1_DirectPVDrive_def
  schema_pkg_apis_directpvminio_v1beta1_DirectPVDriveList_def
  schema_pkg_apis_directpvminio_v1beta1_DirectPVInitRequest_def
  schema_pkg_apis_directpvminio_v1beta1_DirectPVInitRequestList_def
  schema_pkg_apis_directpvminio_v1beta1_DirectPVNode_def
  schema_pkg_apis_directpvminio_v1beta1_DirectPVNodeList_def
  schema_pkg_apis_directpvminio_v1beta1_DirectPVVolume_def
  schema_pkg_apis_directpvminio_v1beta1_DirectPVVolumeList_def
  schema_pkg_apis_directpvminio_v1beta1_DriveSpec_def
  schema_pkg_apis_directpvminio_v1beta1_DriveStatus_def
  schema_pkg_apis_directpvminio_v1beta1_InitDevice_def
  schema_pkg_apis_directpvminio_v1beta1_InitDeviceResult_def
  schema_pkg_apis_directpvminio_v1beta1_InitRequestSpec_def
  schema_pkg_apis_directpvminio_v1beta1_InitRequestStatus_def
  schema_pkg_apis_directpvminio_v1beta1_NodeSpec_def
  schema_pkg_apis_directpvminio_v1beta1_NodeStatus_def
  schema_pkg_apis_directpvminio_v1beta1_VolumeStatus_def

section \<open>The references are complete\<close>

text \<open>The references of a schema, in the order in which they are written.\<close>

primrec schema_refs :: "'r schema \<Rightarrow> 'r list" where
  "schema_refs (Schema ds df ty fm re ps rq it ad ex) =
     (case re of None \<Rightarrow> [] | Some r \<Rightarrow> [r]) @ concat (map (\<lambda>p. snd p) (map (map_prod id schema_refs) ps)) @
     (case map_option schema_refs it of None \<Rightarrow> [] | Some rs \<Rightarrow> rs) @
     (case map_option schema_refs ad of None \<Rightarrow> [] | Some rs \<Rightarrow> rs)"

lemma schema_refs_simps [simp]:
  "schema_refs (value_schema a b c d) = []"
  "schema_refs (ref_schema a b r) = [r]"
  "schema_refs (array_schema ex t) = schema_refs t"
  "schema_refs (map_schema t) = schema_refs t"
  "schema_refs (object_schema a ps rq) = concat (map (\<lambda>p. schema_refs (snd p)) ps)"
  by (simp_all add: value_schema_def ref_schema_def array_schema_def map_schema_def object_schema_def o_def)

lemma own_eq [simp]: "own a = own b \<longleftrightarrow> a = b" "own a \<noteq> meta_v1 b" "meta_v1 b \<noteq> own a" "meta_v1 a = meta_v1 b \<longleftrightarrow> a = b"
  by (simp_all add: own_def meta_v1_def)

text \<open>
  The generated definitions fit together. What a definition depends on is what its schema
  refers to; every type of this package a schema refers to has a definition; every required
  property is declared; and no type is defined twice.
\<close>

theorem definitions_closed:
  "distinct (map fst (GetOpenAPIDefinitions ref)) \<and>
   list_all (\<lambda>(n, d). set (map ref (oad_Dependencies d)) = set (schema_refs (oad_Schema d)) \<and>
     list_all (\<lambda>r. r \<in> fst ` set (GetOpenAPIDefinitions ref) \<or> r \<in> meta_v1 ` {''ObjectMeta'', ''ListMeta'', ''Condition''})
       (oad_Dependencies d) \<and>
     set (sch_Required (oad_Schema d)) \<subseteq> fst ` set (sch_Properties (oad_Schema d))) (GetOpenAPIDefinitions ref)"
  by (simp add: GetOpenAPIDefinitions_def schema_defs insert_commute) (simp add: object_schema_def)

section \<open>Documents of the DirectPV types\<close>

definition Device_json :: "Device \<Rightarrow> doc" where
  "Device_json d = DObject
     ([(''name'', DString (dev_Name d)), (''id'', DString (dev_ID d)), (''majorMinor'', DString (dev_MajorMinor d)),
       (''size'', DInt (uint (dev_Size d)))] @
      omit_string ''make'' (dev_Make d) @ omit_string ''fsType'' (dev_FSType d) @ omit_string ''fsuuid'' (dev_FSUUID d) @
      omit_string ''deniedReason'' (dev_DeniedReason d))"

definition InitDevice_json :: "InitDevice \<Rightarrow> doc" where
  "InitDevice_json d = DObject
     [(''id'', DString (idev_ID d)), (''name'', DString (idev_Name d)), (''force'', DBool (idev_Force d))]"

definition InitDeviceResult_json :: "InitDeviceResult \<Rightarrow> doc" where
  "InitDeviceResult_json r = DObject ((''name'', DString (idr_Name r)) # omit_string ''error'' (idr_Error r))"

definition DriveSpec_json :: "DriveSpec \<Rightarrow> doc" where
  "DriveSpec_json s = DObject (omit_bool ''unschedulable'' (dsp_Unschedulable s) @ omit_bool ''relabel'' (dsp_Relabel s))"

definition NodeSpec_json :: "NodeSpec \<Rightarrow> doc" where
  "NodeSpec_json s = DObject (omit_bool ''refresh'' (nsp_Refresh s))"

text \<open>A map is written with its keys in order.\<close>

definition map_doc :: "(string, string) fmap \<Rightarrow> doc" where
  "map_doc f = DObject (map (\<lambda>k. (k, DString (the (fmlookup f k)))) (key_order f))"

definition map_json :: "'k direct_cell memory \<Rightarrow> nat option \<Rightarrow> doc option" where
  "map_json m r =
     (case r of
        None \<Rightarrow> Some DNull
      | Some a \<Rightarrow> map_option map_doc (Option.bind (mem_cells m a) un_DirectPVMap))"

text \<open>\<open>cj\<close> writes a condition, \<open>mj\<close> the metadata of an object, \<open>lj\<close> that of a list.\<close>

definition DriveStatus_json ::
  "('k direct_cell memory \<Rightarrow> 'k \<Rightarrow> doc option) \<Rightarrow> 'k direct_cell memory \<Rightarrow> DriveStatus_data \<Rightarrow> doc option" where
  "DriveStatus_json cj m h =
     Option.bind (map_json m (DriveStatus_Topology h)) (\<lambda>topology.
     Option.bind (reads_slice cj un_DirectPVKs m (DriveStatus_Conditions h)) (\<lambda>conditions.
       Some (DObject
         ([(''totalCapacity'', DInt (sint (dst_TotalCapacity (DriveStatus_value h)))),
           (''allocatedCapacity'', DInt (sint (dst_AllocatedCapacity (DriveStatus_value h)))),
           (''freeCapacity'', DInt (sint (dst_FreeCapacity (DriveStatus_value h)))),
           (''fsuuid'', DString (dst_FSUUID (DriveStatus_value h))),
           (''status'', DString (dst_Status (DriveStatus_value h))), (''topology'', topology)] @
          omit_string ''make'' (dst_Make (DriveStatus_value h)) @ omit_items ''conditions'' conditions))))"

definition VolumeStatus_json ::
  "('k direct_cell memory \<Rightarrow> 'k \<Rightarrow> doc option) \<Rightarrow> 'k direct_cell memory \<Rightarrow> VolumeStatus_data \<Rightarrow> doc option" where
  "VolumeStatus_json cj m h =
     Option.bind (reads_slice cj un_DirectPVKs m (VolumeStatus_Conditions h)) (\<lambda>conditions.
       Some (DObject
         ([(''dataPath'', DString (vst_DataPath (VolumeStatus_value h))),
           (''stagingTargetPath'', DString (vst_StagingTargetPath (VolumeStatus_value h))),
           (''targetPath'', DString (vst_TargetPath (VolumeStatus_value h))),
           (''fsuuid'', DString (vst_FSUUID (VolumeStatus_value h))),
           (''totalCapacity'', DInt (sint (vst_TotalCapacity (VolumeStatus_value h)))),
           (''availableCapacity'', DInt (sint (vst_AvailableCapacity (VolumeStatus_value h)))),
           (''usedCapacity'', DInt (sint (vst_UsedCapacity (VolumeStatus_value h)))),
           (''status'', DString (vst_Status (VolumeStatus_value h)))] @ omit_items ''conditions'' conditions)))"

definition NodeStatus_json ::
  "('k direct_cell memory \<Rightarrow> 'k \<Rightarrow> doc option) \<Rightarrow> 'k direct_cell memory \<Rightarrow> NodeStatus_data \<Rightarrow> doc option" where
  "NodeStatus_json cj m h =
     Option.bind (reads_slice reads_plain un_DirectPVDevices m (NodeStatus_Devices h)) (\<lambda>devices.
     Option.bind (reads_slice cj un_DirectPVKs m (NodeStatus_Conditions h)) (\<lambda>conditions.
       Some (DObject ((''devices'', slice_doc (map_option (map Device_json) devices)) # omit_items ''conditions'' conditions))))"

definition InitRequestSpec_json :: "'k direct_cell memory \<Rightarrow> InitRequestSpec_data \<Rightarrow> doc option" where
  "InitRequestSpec_json m h =
     map_option (\<lambda>devices. DObject [(''devices'', slice_doc (map_option (map InitDevice_json) devices))])
       (reads_slice reads_plain un_DirectPVInitDevices m (InitRequestSpec_Devices h))"

definition InitRequestStatus_json :: "'k direct_cell memory \<Rightarrow> InitRequestStatus_data \<Rightarrow> doc option" where
  "InitRequestStatus_json m h =
     map_option (\<lambda>results. DObject [(''status'', DString (irst_Status (InitRequestStatus_value h))),
         (''results'', slice_doc (map_option (map InitDeviceResult_json) results))])
       (reads_slice reads_plain un_DirectPVResults m (InitRequestStatus_Results h))"

text \<open>The objects. \<open>TypeMeta\<close> is inlined, with \<open>omitempty\<close> on both of its fields.\<close>

definition type_meta_json :: "string \<Rightarrow> string \<Rightarrow> (string \<times> doc) list" where
  "type_meta_json kind api = omit_string ''kind'' kind @ omit_string ''apiVersion'' api"

definition DirectPVDrive_json where
  "DirectPVDrive_json mj cj m h =
     Option.bind (mj m (DirectPVDrive_ObjectMeta h)) (\<lambda>metadata.
     Option.bind (DriveStatus_json cj m (DirectPVDrive_Status h)) (\<lambda>status.
       Some (DObject (type_meta_json (drive_Kind (DirectPVDrive_value h)) (drive_APIVersion (DirectPVDrive_value h)) @
         [(''metadata'', metadata), (''spec'', DriveSpec_json (drive_Spec (DirectPVDrive_value h))), (''status'', status)]))))"

definition DirectPVVolume_json where
  "DirectPVVolume_json mj cj m h =
     Option.bind (mj m (DirectPVVolume_ObjectMeta h)) (\<lambda>metadata.
     Option.bind (VolumeStatus_json cj m (DirectPVVolume_Status h)) (\<lambda>status.
       Some (DObject (type_meta_json (volume_Kind (DirectPVVolume_value h)) (volume_APIVersion (DirectPVVolume_value h)) @
         [(''metadata'', metadata), (''status'', status)]))))"

definition DirectPVNode_json where
  "DirectPVNode_json mj cj m h =
     Option.bind (mj m (DirectPVNode_ObjectMeta h)) (\<lambda>metadata.
     Option.bind (NodeStatus_json cj m (DirectPVNode_Status h)) (\<lambda>status.
       Some (DObject (type_meta_json (node_Kind (DirectPVNode_value h)) (node_APIVersion (DirectPVNode_value h)) @
         [(''metadata'', metadata), (''spec'', NodeSpec_json (node_Spec (DirectPVNode_value h))), (''status'', status)]))))"

definition DirectPVInitRequest_json where
  "DirectPVInitRequest_json mj m h =
     Option.bind (mj m (DirectPVInitRequest_ObjectMeta h)) (\<lambda>metadata.
     Option.bind (InitRequestSpec_json m (DirectPVInitRequest_Spec h)) (\<lambda>spec.
     Option.bind (InitRequestStatus_json m (DirectPVInitRequest_Status h)) (\<lambda>status.
       Some (DObject (type_meta_json (req_Kind (DirectPVInitRequest_value h)) (req_APIVersion (DirectPVInitRequest_value h)) @
         [(''metadata'', metadata), (''spec'', spec), (''status'', status)])))))"

section \<open>What conforms\<close>

definition definition_of :: "(string \<Rightarrow> 'r) \<Rightarrow> ('r \<Rightarrow> string) \<Rightarrow> 'r \<Rightarrow> 'r schema option" where
  "definition_of ref named r = map_option oad_Schema (map_of (GetOpenAPIDefinitions ref) (named r))"

definition conforms_to :: "(string \<Rightarrow> 'r) \<Rightarrow> ('r \<Rightarrow> string) \<Rightarrow> ('r \<Rightarrow> doc \<Rightarrow> bool) \<Rightarrow> string \<Rightarrow> doc \<Rightarrow> bool" where
  "conforms_to ref named E n d = conforms (definition_of ref named) E (ref_schema [] None (ref (own n))) d"

lemma int64_sint: "int64_range (sint (x :: 64 word))"
  using sint_lt [of x] sint_ge [of x] by (simp add: int64_range_def)

lemma int64_uint: "int64_range (uint (x :: 64 word)) \<longleftrightarrow> uint x < 2 ^ 63"
  by (simp add: int64_range_def) (smt (verit) uint_nonnegative)

text \<open>A callback whose references can be told apart.\<close>

locale ref_callback =
  fixes ref :: "string \<Rightarrow> 'r"
    and named :: "'r \<Rightarrow> string"
    and E :: "'r \<Rightarrow> doc \<Rightarrow> bool"
  assumes named_ref: "named (ref n) = n"
begin

lemma ref_defined:
  "map_of (GetOpenAPIDefinitions ref) (own n) = Some d \<Longrightarrow> sch_Ref (oad_Schema d) = None \<Longrightarrow>
   conforms (definition_of ref named) E (ref_schema ds df (ref (own n))) x \<longleftrightarrow>
   conforms (definition_of ref named) E (oad_Schema d) x"
  by (rule conforms_ref) (simp_all add: definition_of_def named_ref)

lemma meta_undefined: "map_of (GetOpenAPIDefinitions ref) (meta_v1 n) = None"
  by (simp add: GetOpenAPIDefinitions_def)

lemma ref_external:
  "conforms (definition_of ref named) E (ref_schema ds df (ref (meta_v1 n))) x \<longleftrightarrow> E (ref (meta_v1 n)) x"
  by (rule conforms_ref) (simp add: definition_of_def named_ref meta_undefined)

abbreviation ok :: "'r schema \<Rightarrow> doc \<Rightarrow> bool" where
  "ok \<equiv> conforms (definition_of ref named) E"

lemma defined:
  "ok (ref_schema ds df (ref (own ''Device''))) x \<longleftrightarrow> ok (oad_Schema (schema_pkg_apis_directpvminio_v1beta1_Device ref)) x"
  "ok (ref_schema ds df (ref (own ''DriveSpec''))) x \<longleftrightarrow> ok (oad_Schema (schema_pkg_apis_directpvminio_v1beta1_DriveSpec ref)) x"
  "ok (ref_schema ds df (ref (own ''DriveStatus''))) x \<longleftrightarrow> ok (oad_Schema (schema_pkg_apis_directpvminio_v1beta1_DriveStatus ref)) x"
  "ok (ref_schema ds df (ref (own ''InitDevice''))) x \<longleftrightarrow> ok (oad_Schema (schema_pkg_apis_directpvminio_v1beta1_InitDevice ref)) x"
  "ok (ref_schema ds df (ref (own ''InitDeviceResult''))) x \<longleftrightarrow> ok (oad_Schema (schema_pkg_apis_directpvminio_v1beta1_InitDeviceResult ref)) x"
  "ok (ref_schema ds df (ref (own ''InitRequestSpec''))) x \<longleftrightarrow> ok (oad_Schema (schema_pkg_apis_directpvminio_v1beta1_InitRequestSpec ref)) x"
  "ok (ref_schema ds df (ref (own ''InitRequestStatus''))) x \<longleftrightarrow> ok (oad_Schema (schema_pkg_apis_directpvminio_v1beta1_InitRequestStatus ref)) x"
  "ok (ref_schema ds df (ref (own ''NodeSpec''))) x \<longleftrightarrow> ok (oad_Schema (schema_pkg_apis_directpvminio_v1beta1_NodeSpec ref)) x"
  "ok (ref_schema ds df (ref (own ''NodeStatus''))) x \<longleftrightarrow> ok (oad_Schema (schema_pkg_apis_directpvminio_v1beta1_NodeStatus ref)) x"
  "ok (ref_schema ds df (ref (own ''VolumeStatus''))) x \<longleftrightarrow> ok (oad_Schema (schema_pkg_apis_directpvminio_v1beta1_VolumeStatus ref)) x"
  "ok (ref_schema ds df (ref (own ''DirectPVDrive''))) x \<longleftrightarrow> ok (oad_Schema (schema_pkg_apis_directpvminio_v1beta1_DirectPVDrive ref)) x"
  "ok (ref_schema ds df (ref (own ''DirectPVInitRequest''))) x \<longleftrightarrow> ok (oad_Schema (schema_pkg_apis_directpvminio_v1beta1_DirectPVInitRequest ref)) x"
  "ok (ref_schema ds df (ref (own ''DirectPVNode''))) x \<longleftrightarrow> ok (oad_Schema (schema_pkg_apis_directpvminio_v1beta1_DirectPVNode ref)) x"
  "ok (ref_schema ds df (ref (own ''DirectPVVolume''))) x \<longleftrightarrow> ok (oad_Schema (schema_pkg_apis_directpvminio_v1beta1_DirectPVVolume ref)) x"
  by (rule ref_defined; simp add: GetOpenAPIDefinitions_def schema_defs)+

lemmas document_simps = conforms_simps ball_Un ball_omit image_Un defined ref_external int64_sint int64_uint
  own_eq append_Cons append_Nil

lemma values_conform:
  "ok (oad_Schema (schema_pkg_apis_directpvminio_v1beta1_Device ref)) (Device_json dev) \<longleftrightarrow> uint (dev_Size dev) < 2 ^ 63"
  "ok (oad_Schema (schema_pkg_apis_directpvminio_v1beta1_InitDevice ref)) (InitDevice_json i)"
  "ok (oad_Schema (schema_pkg_apis_directpvminio_v1beta1_InitDeviceResult ref)) (InitDeviceResult_json r)"
  "ok (oad_Schema (schema_pkg_apis_directpvminio_v1beta1_DriveSpec ref)) (DriveSpec_json ds)"
  "ok (oad_Schema (schema_pkg_apis_directpvminio_v1beta1_NodeSpec ref)) (NodeSpec_json ns)"
  by (simp_all add: Device_json_def InitDevice_json_def InitDeviceResult_json_def DriveSpec_json_def NodeSpec_json_def
      schema_defs document_simps)

lemma map_json_conforms:
  "map_json m r = Some d \<Longrightarrow> ok (map_schema (value_schema ds df ''string'' [])) d \<longleftrightarrow> r \<noteq> None"
  by (auto simp: map_json_def map_doc_def conforms_simps split: option.splits)

lemma omit_items_conforms:
  assumes "reads_slice cj u m r = Some cs" and "\<forall>k d. cj m k = Some d \<longrightarrow> E (ref (meta_v1 ''Condition'')) d"
    and "cs = Some xs"
  shows "\<forall>x \<in> set xs. E (ref (meta_v1 ''Condition'')) x"
  using assms reads_all_elem [of cj m _ xs] by (auto simp: reads_slice_def split: option.splits) blast

lemma statuses_conform:
  assumes "\<forall>k d. cj m k = Some d \<longrightarrow> E (ref (meta_v1 ''Condition'')) d"
  shows "DriveStatus_json cj m h1 = Some d1 \<Longrightarrow>
      ok (oad_Schema (schema_pkg_apis_directpvminio_v1beta1_DriveStatus ref)) d1 \<longleftrightarrow> DriveStatus_Topology h1 \<noteq> None"
    and "VolumeStatus_json cj m h2 = Some d2 \<Longrightarrow>
      ok (oad_Schema (schema_pkg_apis_directpvminio_v1beta1_VolumeStatus ref)) d2"
    and "NodeStatus_json cj m h3 = Some d3 \<Longrightarrow>
      ok (oad_Schema (schema_pkg_apis_directpvminio_v1beta1_NodeStatus ref)) d3 \<longleftrightarrow>
      (\<exists>devices. reads_slice reads_plain un_DirectPVDevices m (NodeStatus_Devices h3) = Some (Some devices) \<and>
        (\<forall>dev \<in> set devices. uint (dev_Size dev) < 2 ^ 63))"
    and "InitRequestSpec_json m h4 = Some d4 \<Longrightarrow>
      ok (oad_Schema (schema_pkg_apis_directpvminio_v1beta1_InitRequestSpec ref)) d4 \<longleftrightarrow> InitRequestSpec_Devices h4 \<noteq> None"
    and "InitRequestStatus_json m h5 = Some d5 \<Longrightarrow>
      ok (oad_Schema (schema_pkg_apis_directpvminio_v1beta1_InitRequestStatus ref)) d5 \<longleftrightarrow> InitRequestStatus_Results h5 \<noteq> None"
proof -
  note items = omit_items_conforms [where cj = cj and m = m, OF _ assms]
  show "ok (oad_Schema (schema_pkg_apis_directpvminio_v1beta1_DriveStatus ref)) d1 \<longleftrightarrow> DriveStatus_Topology h1 \<noteq> None"
    if "DriveStatus_json cj m h1 = Some d1"
    using that items
    by (auto simp: DriveStatus_json_def schema_pkg_apis_directpvminio_v1beta1_DriveStatus_def document_simps map_json_conforms bind_eq_Some_conv)
  show "ok (oad_Schema (schema_pkg_apis_directpvminio_v1beta1_VolumeStatus ref)) d2" if "VolumeStatus_json cj m h2 = Some d2"
    using that items by (auto simp: VolumeStatus_json_def schema_pkg_apis_directpvminio_v1beta1_VolumeStatus_def document_simps bind_eq_Some_conv)
  show "ok (oad_Schema (schema_pkg_apis_directpvminio_v1beta1_NodeStatus ref)) d3 \<longleftrightarrow>
      (\<exists>devices. reads_slice reads_plain un_DirectPVDevices m (NodeStatus_Devices h3) = Some (Some devices) \<and>
        (\<forall>dev \<in> set devices. uint (dev_Size dev) < 2 ^ 63))"
    if "NodeStatus_json cj m h3 = Some d3"
    using that items
    by (auto simp: NodeStatus_json_def schema_pkg_apis_directpvminio_v1beta1_NodeStatus_def document_simps values_conform slice_doc_def bind_eq_Some_conv split: option.splits)
  show "ok (oad_Schema (schema_pkg_apis_directpvminio_v1beta1_InitRequestSpec ref)) d4 \<longleftrightarrow> InitRequestSpec_Devices h4 \<noteq> None"
    if "InitRequestSpec_json m h4 = Some d4"
    using that
    by (auto simp: InitRequestSpec_json_def schema_pkg_apis_directpvminio_v1beta1_InitRequestSpec_def document_simps values_conform slice_doc_def reads_slice_def split: option.splits)
  show "ok (oad_Schema (schema_pkg_apis_directpvminio_v1beta1_InitRequestStatus ref)) d5 \<longleftrightarrow> InitRequestStatus_Results h5 \<noteq> None"
    if "InitRequestStatus_json m h5 = Some d5"
    using that
    by (auto simp: InitRequestStatus_json_def schema_pkg_apis_directpvminio_v1beta1_InitRequestStatus_def document_simps values_conform slice_doc_def reads_slice_def split: option.splits)
qed

lemma objects_conform:
  assumes "\<forall>k d. mj m k = Some d \<longrightarrow> E (ref (meta_v1 ''ObjectMeta'')) d"
    and "\<forall>k d. cj m k = Some d \<longrightarrow> E (ref (meta_v1 ''Condition'')) d"
  shows "DirectPVVolume_json mj cj m vol = Some d1 \<Longrightarrow> ok (ref_schema [] None (ref (own ''DirectPVVolume''))) d1"
    and "DirectPVDrive_json mj cj m drive = Some d2 \<Longrightarrow> ok (ref_schema [] None (ref (own ''DirectPVDrive''))) d2 \<longleftrightarrow>
      DriveStatus_Topology (DirectPVDrive_Status drive) \<noteq> None"
    and "DirectPVInitRequest_json mj m req = Some d3 \<Longrightarrow> ok (ref_schema [] None (ref (own ''DirectPVInitRequest''))) d3 \<longleftrightarrow>
      InitRequestSpec_Devices (DirectPVInitRequest_Spec req) \<noteq> None \<and>
      InitRequestStatus_Results (DirectPVInitRequest_Status req) \<noteq> None"
    and "DirectPVNode_json mj cj m node = Some d4 \<Longrightarrow> ok (ref_schema [] None (ref (own ''DirectPVNode''))) d4 \<longleftrightarrow>
      (\<exists>devices. reads_slice reads_plain un_DirectPVDevices m (NodeStatus_Devices (DirectPVNode_Status node)) =
        Some (Some devices) \<and> (\<forall>dev \<in> set devices. uint (dev_Size dev) < 2 ^ 63))"
proof -
  note status = statuses_conform [where cj = cj and m = m, OF assms(2)] and simps = type_meta_json_def document_simps bind_eq_Some_conv
  show "ok (ref_schema [] None (ref (own ''DirectPVVolume''))) d1" if "DirectPVVolume_json mj cj m vol = Some d1"
    using that assms(1) status(2)
    by (auto simp: DirectPVVolume_json_def schema_pkg_apis_directpvminio_v1beta1_DirectPVVolume_def simps)
  show "ok (ref_schema [] None (ref (own ''DirectPVDrive''))) d2 \<longleftrightarrow>
      DriveStatus_Topology (DirectPVDrive_Status drive) \<noteq> None" if "DirectPVDrive_json mj cj m drive = Some d2"
    using that assms(1)
    by (auto simp: DirectPVDrive_json_def schema_pkg_apis_directpvminio_v1beta1_DirectPVDrive_def simps values_conform status(1))
  show "ok (ref_schema [] None (ref (own ''DirectPVInitRequest''))) d3 \<longleftrightarrow>
      InitRequestSpec_Devices (DirectPVInitRequest_Spec req) \<noteq> None \<and>
      InitRequestStatus_Results (DirectPVInitRequest_Status req) \<noteq> None" if "DirectPVInitRequest_json mj m req = Some d3"
    using that assms(1)
    by (auto simp: DirectPVInitRequest_json_def schema_pkg_apis_directpvminio_v1beta1_DirectPVInitRequest_def simps status(4,5))
  show "ok (ref_schema [] None (ref (own ''DirectPVNode''))) d4 \<longleftrightarrow>
      (\<exists>devices. reads_slice reads_plain un_DirectPVDevices m (NodeStatus_Devices (DirectPVNode_Status node)) =
        Some (Some devices) \<and> (\<forall>dev \<in> set devices. uint (dev_Size dev) < 2 ^ 63))"
    if "DirectPVNode_json mj cj m node = Some d4"
    using that assms(1)
    by (auto simp: DirectPVNode_json_def schema_pkg_apis_directpvminio_v1beta1_DirectPVNode_def simps values_conform status(3))
qed

end

text \<open>References that are their names, and types of other repositories of which an object is all that is asked.\<close>

definition some_object :: "string \<Rightarrow> doc \<Rightarrow> bool" where
  "some_object r d = (case d of DObject fs \<Rightarrow> True | _ \<Rightarrow> False)"

interpretation plain_refs: ref_callback id id some_object
  by unfold_locales simp

text \<open>
  C31: Which objects the API server can validate against the generated schemas, provided their
  metadata and conditions can be. A volume always. A drive exactly when its topology is not a
  nil map, and a request to initialise devices exactly when neither its devices nor its results
  are a nil slice: these are required, have no \<open>omitempty\<close>, and nil is written as \<open>null\<close>. A node
  exactly when its devices are not nil and none has \<open>2^63\<close> bytes or more: the size is unsigned in
  \<open>node.go\<close> and an \<open>int64\<close> in the schema.
\<close>

theorem objects_conform_iff:
  assumes "\<forall>n. named (ref n) = n"
    and "\<forall>k d. mj m k = Some d \<longrightarrow> E (ref (meta_v1 ''ObjectMeta'')) d"
    and "\<forall>k d. cj m k = Some d \<longrightarrow> E (ref (meta_v1 ''Condition'')) d"
    and "DirectPVVolume_json mj cj m vol = Some d1" and "DirectPVDrive_json mj cj m drive = Some d2"
    and "DirectPVInitRequest_json mj m req = Some d3" and "DirectPVNode_json mj cj m node = Some d4"
  shows "conforms_to ref named E ''DirectPVVolume'' d1 \<and>
    (conforms_to ref named E ''DirectPVDrive'' d2 \<longleftrightarrow> DriveStatus_Topology (DirectPVDrive_Status drive) \<noteq> None) \<and>
    (conforms_to ref named E ''DirectPVInitRequest'' d3 \<longleftrightarrow>
       InitRequestSpec_Devices (DirectPVInitRequest_Spec req) \<noteq> None \<and>
       InitRequestStatus_Results (DirectPVInitRequest_Status req) \<noteq> None) \<and>
    (conforms_to ref named E ''DirectPVNode'' d4 \<longleftrightarrow>
       (\<exists>devices. reads_slice reads_plain un_DirectPVDevices m (NodeStatus_Devices (DirectPVNode_Status node)) =
          Some (Some devices) \<and> (\<forall>dev \<in> set devices. uint (dev_Size dev) < 2 ^ 63)))"
proof -
  have refs: "ref_callback ref named" using assms(1) by unfold_locales blast
  note parts = ref_callback.objects_conform [where ref = ref and named = named and E = E and mj = mj and cj = cj and m = m,
      OF refs assms(2,3)]
  show ?thesis
    unfolding conforms_to_def
    by (intro conjI parts(1) [OF assms(4)] parts(2) [OF assms(5)] parts(3) [OF assms(6)] parts(4) [OF assms(7)])
qed

text \<open>A drive without a topology, a node with a device of \<open>2^63\<close> bytes, and a request with both of its slices.\<close>

definition sample_meta_json :: "k8s_data direct_cell memory \<Rightarrow> k8s_data \<Rightarrow> doc option" where
  "sample_meta_json m k = (case k of MetaData r v \<Rightarrow> Some (DObject (omit_string ''name'' (om_Name v))) | _ \<Rightarrow> None)"

definition sample_condition_json :: "k8s_data direct_cell memory \<Rightarrow> k8s_data \<Rightarrow> doc option" where
  "sample_condition_json m k = (case k of ConditionData c \<Rightarrow> Some (DObject [(''type'', DString (cond_Type c))]) | _ \<Rightarrow> None)"

definition sample_device :: Device where
  "sample_device = \<lparr>dev_Name = ''sda'', dev_ID = ''1'', dev_MajorMinor = ''8:0'', dev_Size = 9223372036854775808, dev_Make = [],
     dev_FSType = [], dev_FSUUID = [], dev_DeniedReason = []\<rparr>"

definition sample_direct_memory :: "k8s_data direct_cell memory" where
  "sample_direct_memory = \<lparr>mem_next = 3,
     mem_cells = [0 \<mapsto> DirectPVDevices [sample_device], 1 \<mapsto> DirectPVInitDevices [], 2 \<mapsto> DirectPVResults []]\<rparr>"

definition sample_drive_data :: "k8s_data DirectPVDrive_data" where
  "sample_drive_data = \<lparr>DirectPVDrive_value = sample_drive, DirectPVDrive_ObjectMeta = MetaData None (drive_Meta sample_drive),
     DirectPVDrive_Status = \<lparr>DriveStatus_value = sample_status, DriveStatus_Topology = None, DriveStatus_Conditions = None\<rparr>\<rparr>"

definition sample_volume_data :: "k8s_data DirectPVVolume_data" where
  "sample_volume_data = \<lparr>DirectPVVolume_value = sample_volume, DirectPVVolume_ObjectMeta = MetaData None (volume_Meta sample_volume),
     DirectPVVolume_Status = \<lparr>VolumeStatus_value = volume_Status sample_volume, VolumeStatus_Conditions = None\<rparr>\<rparr>"

definition sample_request_data :: "k8s_data DirectPVInitRequest_data" where
  "sample_request_data = \<lparr>DirectPVInitRequest_value = NewDirectPVInitRequest ''u'' ''r'' ''n'' [],
     DirectPVInitRequest_ObjectMeta = MetaData None empty_meta,
     DirectPVInitRequest_Spec = \<lparr>InitRequestSpec_value = \<lparr>irs_Devices = []\<rparr>,
       InitRequestSpec_Devices = Some \<lparr>sl_array = 1, sl_from = 0, sl_len = 0\<rparr>\<rparr>,
     DirectPVInitRequest_Status = \<lparr>InitRequestStatus_value = \<lparr>irst_Status = InitStatusPending, irst_Results = []\<rparr>,
       InitRequestStatus_Results = Some \<lparr>sl_array = 2, sl_from = 0, sl_len = 0\<rparr>\<rparr>\<rparr>"

definition sample_node_data :: "k8s_data DirectPVNode_data" where
  "sample_node_data = \<lparr>DirectPVNode_value = \<lparr>node_APIVersion = [], node_Kind = [], node_Meta = empty_meta,
       node_Spec = \<lparr>nsp_Refresh = False\<rparr>, node_Status = \<lparr>nst_Devices = [], NodeStatus.nst_Conditions = []\<rparr>\<rparr>,
     DirectPVNode_ObjectMeta = MetaData None empty_meta,
     DirectPVNode_Status = \<lparr>NodeStatus_value = \<lparr>nst_Devices = [], NodeStatus.nst_Conditions = []\<rparr>,
       NodeStatus_Devices = Some \<lparr>sl_array = 0, sl_from = 0, sl_len = 1\<rparr>, NodeStatus_Conditions = None\<rparr>\<rparr>"

lemmas direct_sample_simps = sample_meta_json_def sample_condition_json_def sample_direct_memory_def sample_drive_data_def
  sample_volume_data_def sample_request_data_def sample_node_data_def reads_slice_def slice_items_def un_directpv_cell
  reads_plain_def map_json_def

lemma sample_documents:
  "\<exists>d. DirectPVVolume_json sample_meta_json sample_condition_json sample_direct_memory sample_volume_data = Some d"
  "\<exists>d. DirectPVDrive_json sample_meta_json sample_condition_json sample_direct_memory sample_drive_data = Some d"
  "\<exists>d. DirectPVInitRequest_json sample_meta_json sample_direct_memory sample_request_data = Some d"
  "\<exists>d. DirectPVNode_json sample_meta_json sample_condition_json sample_direct_memory sample_node_data = Some d"
  by (simp_all add: DirectPVVolume_json_def DirectPVDrive_json_def DirectPVInitRequest_json_def DirectPVNode_json_def
      VolumeStatus_json_def DriveStatus_json_def InitRequestSpec_json_def InitRequestStatus_json_def NodeStatus_json_def
      direct_sample_simps)

theorem objects_conform_iff_witness:
  "\<exists>d1 d2 d3 d4.
    DirectPVVolume_json sample_meta_json sample_condition_json sample_direct_memory sample_volume_data = Some d1 \<and>
    conforms_to id id some_object ''DirectPVVolume'' d1 \<and>
    DirectPVDrive_json sample_meta_json sample_condition_json sample_direct_memory sample_drive_data = Some d2 \<and>
    \<not> conforms_to id id some_object ''DirectPVDrive'' d2 \<and>
    DirectPVInitRequest_json sample_meta_json sample_direct_memory sample_request_data = Some d3 \<and>
    conforms_to id id some_object ''DirectPVInitRequest'' d3 \<and>
    DirectPVNode_json sample_meta_json sample_condition_json sample_direct_memory sample_node_data = Some d4 \<and>
    \<not> conforms_to id id some_object ''DirectPVNode'' d4"
proof -
  obtain d1 d2 d3 d4 where d:
    "DirectPVVolume_json sample_meta_json sample_condition_json sample_direct_memory sample_volume_data = Some d1"
    "DirectPVDrive_json sample_meta_json sample_condition_json sample_direct_memory sample_drive_data = Some d2"
    "DirectPVInitRequest_json sample_meta_json sample_direct_memory sample_request_data = Some d3"
    "DirectPVNode_json sample_meta_json sample_condition_json sample_direct_memory sample_node_data = Some d4"
    using sample_documents by blast
  have external: "\<forall>k d. sample_meta_json sample_direct_memory k = Some d \<longrightarrow> some_object (id (meta_v1 ''ObjectMeta'')) d"
    "\<forall>k d. sample_condition_json sample_direct_memory k = Some d \<longrightarrow> some_object (id (meta_v1 ''Condition'')) d"
    by (auto simp: sample_meta_json_def sample_condition_json_def some_object_def split: k8s_data.splits)
  have "\<not> (\<exists>devices. reads_slice reads_plain un_DirectPVDevices sample_direct_memory
      (NodeStatus_Devices (DirectPVNode_Status sample_node_data)) = Some (Some devices) \<and>
      (\<forall>dev \<in> set devices. uint (dev_Size dev) < 2 ^ 63))"
    by (simp add: direct_sample_simps sample_device_def)
  moreover have "DriveStatus_Topology (DirectPVDrive_Status sample_drive_data) = None"
    "InitRequestSpec_Devices (DirectPVInitRequest_Spec sample_request_data) \<noteq> None"
    "InitRequestStatus_Results (DirectPVInitRequest_Status sample_request_data) \<noteq> None"
    by (simp_all add: sample_drive_data_def sample_request_data_def)
  ultimately show ?thesis
    using objects_conform_iff [where ref = id and named = id and E = some_object and mj = sample_meta_json and
        cj = sample_condition_json and m = sample_direct_memory, OF _ external d] d
    by auto
qed

end
