(* ===== verification/Startup.thy ===== *)
theory Startup
  imports RestClient
begin

text \<open>
  How the operator starts: \<open>cmd/main.go\<close>, \<open>SetupWithManager\<close> of \<open>ninecluster_controller.go\<close>, the webhook of
  \<open>ninecluster_webhook.go\<close>, and the registration of types with a scheme, \<open>register.go\<close> and
  \<open>groupversion_info.go\<close>. The manager and the scheme belong to libraries and are parameters. The
  Helm commands of \<open>utils.go\<close> are here too.
\<close>

section \<open>Schemes\<close>

text \<open>
  The scheme of apimachinery, the scheme of the Kubernetes client, and the two builders: a list of
  functions that is run, and the one of the controller runtime, which is handed types.\<close>

record 's scheme_library =
  sl_NewScheme :: 's
  sl_AddKnownTypes :: "string \<times> string \<Rightarrow> string list \<Rightarrow> 's \<Rightarrow> 's"
  sl_AddToGroupVersion :: "string \<times> string \<Rightarrow> 's \<Rightarrow> 's"
  sl_AddToScheme :: "('s \<Rightarrow> go_error + 's) list \<Rightarrow> 's \<Rightarrow> go_error + 's"
  sl_Builder_AddToScheme :: "string \<times> string \<Rightarrow> string list \<Rightarrow> 's \<Rightarrow> go_error + 's"
  sl_clientgo_AddToScheme :: "'s \<Rightarrow> go_error + 's"

definition directpv_SchemeGroupVersion :: "string \<times> string" where
  "directpv_SchemeGroupVersion = (Group, Version)"

definition directpv_Resource :: "string \<Rightarrow> string \<times> string" where
  "directpv_Resource resource = (fst directpv_SchemeGroupVersion, resource)"

definition directpv_addKnownTypes :: "'s scheme_library \<Rightarrow> 's \<Rightarrow> go_error + 's" where
  "directpv_addKnownTypes L s =
     Inr (sl_AddToGroupVersion L directpv_SchemeGroupVersion
       (sl_AddKnownTypes L directpv_SchemeGroupVersion
         [''DirectPVDrive'', ''DirectPVDriveList'', ''DirectPVVolume'', ''DirectPVVolumeList'',
          ''DirectPVNode'', ''DirectPVNodeList'', ''DirectPVInitRequest'', ''DirectPVInitRequestList''] s))"

definition directpv_AddToScheme :: "'s scheme_library \<Rightarrow> 's \<Rightarrow> go_error + 's" where
  "directpv_AddToScheme L = sl_AddToScheme L [directpv_addKnownTypes L]"

definition minio_SchemeGroupVersion :: "string \<times> string" where
  "minio_SchemeGroupVersion = (''minio.min.io'', ''v2'')"

definition minio_Kind :: "string \<Rightarrow> string \<times> string" where
  "minio_Kind kind = (fst minio_SchemeGroupVersion, kind)"

definition minio_Resource :: "string \<Rightarrow> string \<times> string" where
  "minio_Resource resource = (fst minio_SchemeGroupVersion, resource)"

definition minio_addKnownTypes :: "'s scheme_library \<Rightarrow> 's \<Rightarrow> go_error + 's" where
  "minio_addKnownTypes L s =
     Inr (sl_AddToGroupVersion L minio_SchemeGroupVersion
       (sl_AddKnownTypes L minio_SchemeGroupVersion [''Tenant'', ''TenantList''] s))"

definition minio_AddToScheme :: "'s scheme_library \<Rightarrow> 's \<Rightarrow> go_error + 's" where
  "minio_AddToScheme L = sl_AddToScheme L [minio_addKnownTypes L]"

definition nine_GroupVersion :: "string \<times> string" where
  "nine_GroupVersion = (''nine.nineinfra.tech'', ''v1alpha1'')"

text \<open>The types are registered by \<open>init\<close> of \<open>ninecluster_types.go\<close>.\<close>

definition nine_AddToScheme :: "'s scheme_library \<Rightarrow> 's \<Rightarrow> go_error + 's" where
  "nine_AddToScheme L = sl_Builder_AddToScheme L nine_GroupVersion [''NineCluster'', ''NineClusterList'']"

text \<open>\<open>utilruntime.Must\<close> panics at an error.\<close>

definition must :: "go_error + 's \<Rightarrow> 's outcome" where
  "must r = (case r of Inl e \<Rightarrow> Panic (err_text e) | Inr s \<Rightarrow> Ret s)"

text \<open>The scheme of the client set of NineClusters, of its fake, and the one of the operator.\<close>

definition clientset_scheme :: "'s scheme_library \<Rightarrow> 's outcome" where
  "clientset_scheme L =
     must (sl_AddToScheme L [nine_AddToScheme L] (sl_AddToGroupVersion L ([], ''v1'') (sl_NewScheme L)))"

definition operator_scheme :: "'s scheme_library \<Rightarrow> 's outcome" where
  "operator_scheme L =
     (case must (sl_clientgo_AddToScheme L (sl_NewScheme L)) of
        Ret s \<Rightarrow> must (nine_AddToScheme L s)
      | bad \<Rightarrow> bad)"

text \<open>
  What the MinIO reconciler registers before it makes its clients (\<open>minio.go\<close>), each time it runs: the
  types of the tenant and of DirectPV in the schemes of their packages. No call of the reconciler
  reads these schemes but through the clients it then makes.\<close>

definition tenant_registration :: "'s scheme_library \<Rightarrow> 's \<Rightarrow> 's outcome" where
  "tenant_registration L s = must (minio_AddToScheme L (sl_AddToGroupVersion L ([], ''v1'') s))"

definition directpv_registration :: "'s scheme_library \<Rightarrow> 's \<Rightarrow> 's outcome" where
  "directpv_registration L s =
     must (directpv_AddToScheme L (sl_AddToGroupVersion L directpv_SchemeGroupVersion s))"

text \<open>
  What the library promises: \<open>knows\<close> says which kinds a scheme has. A registration adds its kinds and keeps the
  others; the functions of a builder are run in order.\<close>

locale scheme_laws =
  fixes L :: "'s scheme_library"
    and knows :: "'s \<Rightarrow> (string \<times> string) \<times> string \<Rightarrow> bool"
  assumes known: "knows (sl_AddKnownTypes L gv ts s) k \<longleftrightarrow> (fst k = gv \<and> snd k \<in> set ts) \<or> knows s k"
    and grouped: "knows s k \<Longrightarrow> knows (sl_AddToGroupVersion L gv s) k"
    and run: "sl_AddToScheme L [f] s = f s"
    and built: "\<exists>s1. sl_Builder_AddToScheme L gv ts s = Inr s1 \<and> (\<forall>t \<in> set ts. knows s1 (gv, t)) \<and> (\<forall>k. knows s k \<longrightarrow> knows s1 k)"
begin

lemma clientset_scheme_knows:
  "\<exists>s. clientset_scheme L = Ret s \<and> knows s (nine_GroupVersion, ''NineCluster'') \<and>
     knows s (nine_GroupVersion, ''NineClusterList'')"
  using built [of nine_GroupVersion "[''NineCluster'', ''NineClusterList'']" "sl_AddToGroupVersion L ([], ''v1'') (sl_NewScheme L)"]
  by (auto simp: clientset_scheme_def run nine_AddToScheme_def must_def)

lemma operator_scheme_knows:
  assumes "sl_clientgo_AddToScheme L (sl_NewScheme L) = Inr s0"
  shows "\<exists>s. operator_scheme L = Ret s \<and> knows s (nine_GroupVersion, ''NineCluster'') \<and> (\<forall>k. knows s0 k \<longrightarrow> knows s k)"
  using built [of nine_GroupVersion "[''NineCluster'', ''NineClusterList'']" s0] assms
  by (auto simp: operator_scheme_def nine_AddToScheme_def must_def)

lemma tenant_scheme_knows:
  "\<exists>s1. minio_AddToScheme L s = Inr s1 \<and> knows s1 (minio_SchemeGroupVersion, ''Tenant'') \<and> (\<forall>k. knows s k \<longrightarrow> knows s1 k)"
  by (simp add: minio_AddToScheme_def run minio_addKnownTypes_def known grouped)

lemma directpv_scheme_knows:
  "\<exists>s1. directpv_AddToScheme L s = Inr s1 \<and>
     (\<forall>kind \<in> {''DirectPVDrive'', ''DirectPVVolume'', ''DirectPVNode'', ''DirectPVInitRequest''}.
        knows s1 (directpv_SchemeGroupVersion, kind) \<and> knows s1 (directpv_SchemeGroupVersion, kind @ ''List''))"
  by (simp add: directpv_AddToScheme_def run directpv_addKnownTypes_def known grouped)

text \<open>
  So the registrations of the MinIO reconciler never panic, however often they are made, and take no
  kind away: they add nothing to what the reconciler does but the kinds its clients need.\<close>

lemma tenant_registration_works:
  "\<exists>s1. tenant_registration L s = Ret s1 \<and> knows s1 (minio_SchemeGroupVersion, ''Tenant'') \<and>
     (\<forall>k. knows s k \<longrightarrow> knows s1 k)"
  using tenant_scheme_knows [of "sl_AddToGroupVersion L ([], ''v1'') s"] grouped
  by (auto simp: tenant_registration_def must_def)

lemma directpv_registration_works:
  "\<exists>s1. directpv_registration L s = Ret s1 \<and> knows s1 (directpv_SchemeGroupVersion, ''DirectPVNode'') \<and>
     (\<forall>k. knows s k \<longrightarrow> knows s1 k)"
  by (simp add: directpv_registration_def must_def directpv_AddToScheme_def run directpv_addKnownTypes_def known grouped)

end

text \<open>A scheme that is the set of its kinds.\<close>

definition set_schemes :: "((string \<times> string) \<times> string) set scheme_library" where
  "set_schemes =
     \<lparr>sl_NewScheme = {}, sl_AddKnownTypes = (\<lambda>gv ts s. Pair gv ` set ts \<union> s), sl_AddToGroupVersion = (\<lambda>gv s. s),
      sl_AddToScheme = (\<lambda>fs s. foldl (\<lambda>r f. case r of Inl e \<Rightarrow> Inl e | Inr t \<Rightarrow> f t) (Inr s) fs),
      sl_Builder_AddToScheme = (\<lambda>gv ts s. Inr (Pair gv ` set ts \<union> s)),
      sl_clientgo_AddToScheme = (\<lambda>s. Inr (insert (([], ''v1''), ''Secret'') s))\<rparr>"

interpretation set_schemes: scheme_laws set_schemes "\<lambda>s k. k \<in> s"
  by unfold_locales (auto simp: set_schemes_def)

section \<open>The webhook\<close>

definition Default :: "NineCluster \<Rightarrow> NineCluster" where
  "Default r = r"

definition ValidateCreate :: "NineCluster \<Rightarrow> string list \<times> go_error option" where
  "ValidateCreate r = ([], None)"

definition ValidateUpdate :: "NineCluster \<Rightarrow> 'o \<Rightarrow> string list \<times> go_error option" where
  "ValidateUpdate r old_object = ([], None)"

definition ValidateDelete :: "NineCluster \<Rightarrow> string list \<times> go_error option" where
  "ValidateDelete r = ([], None)"

section \<open>The entry point\<close>

record start_flags =
  fl_metricsAddr :: string
  fl_enableLeaderElection :: bool
  fl_probeAddr :: string

record 's manager_options =
  mo_Scheme :: 's
  mo_Metrics_BindAddress :: string
  mo_HealthProbeBindAddress :: string
  mo_LeaderElection :: bool
  mo_LeaderElectionID :: string

text \<open>
  The controller runtime: \<open>rn_Parse\<close> is \<open>flag.Parse\<close> with the given defaults, \<open>rn_Complete\<close> ends the builder of a
  controller for a kind, \<open>rn_CompleteWebhook\<close> that of a webhook.\<close>

record ('w, 's, 'm) manager_library =
  rn_Parse :: "start_flags \<Rightarrow> ('w, start_flags) io"
  rn_SetLogger :: "('w, unit) io"
  rn_GetConfigOrDie :: "('w, rest_config) io"
  rn_NewManager :: "rest_config \<Rightarrow> 's manager_options \<Rightarrow> ('w, 'm) io"
  rn_Complete :: "'m \<Rightarrow> string \<Rightarrow> ('w, unit) io"
  rn_CompleteWebhook :: "'m \<Rightarrow> string \<Rightarrow> ('w, unit) io"
  rn_AddHealthzCheck :: "'m \<Rightarrow> string \<Rightarrow> ('w, unit) io"
  rn_AddReadyzCheck :: "'m \<Rightarrow> string \<Rightarrow> ('w, unit) io"
  rn_Start :: "'m \<Rightarrow> ('w, unit) io"
  rn_Getenv :: "string \<Rightarrow> ('w, string) io"
  rn_Log :: "string \<Rightarrow> ('w, unit) io"

definition SetupWithManager :: "('w, 's, 'm) manager_library \<Rightarrow> 'm \<Rightarrow> ('w, unit) io" where
  "SetupWithManager R mgr = rn_Complete R mgr ''NineCluster''"

definition SetupWebhookWithManager :: "('w, 's, 'm) manager_library \<Rightarrow> 'm \<Rightarrow> ('w, unit) io" where
  "SetupWebhookWithManager R mgr = rn_CompleteWebhook R mgr ''NineCluster''"

text \<open>The program ends by returning from \<open>main\<close> or by \<open>os.Exit\<close>.\<close>

datatype program_end = Returned | Exit int

definition default_flags :: start_flags where
  "default_flags = \<lparr>fl_metricsAddr = '':8080'', fl_enableLeaderElection = False, fl_probeAddr = '':8081''\<rparr>"

text \<open>\<open>if err != nil { setupLog.Error(err, msg); os.Exit(1) }\<close>\<close>

definition or_exit :: "('w, 's, 'm) manager_library \<Rightarrow> string \<Rightarrow> ('w, 'a) io \<Rightarrow> ('a \<Rightarrow> ('w, program_end) io) \<Rightarrow>
    ('w, program_end) io" where
  "or_exit R msg m k =
     io_bind (io_try m) (\<lambda>r. case r of
       Inl err \<Rightarrow> io_bind (rn_Log R msg) (\<lambda>_. io_ret (Exit 1))
     | Inr x \<Rightarrow> k x)"

definition serve :: "('w, 's, 'm) manager_library \<Rightarrow> 'm \<Rightarrow> ('w, program_end) io" where
  "serve R mgr =
     or_exit R ''unable to set up health check'' (rn_AddHealthzCheck R mgr ''healthz'') (\<lambda>_.
     or_exit R ''unable to set up ready check'' (rn_AddReadyzCheck R mgr ''readyz'') (\<lambda>_.
     io_bind (rn_Log R ''starting manager'') (\<lambda>_.
     or_exit R ''problem running manager'' (rn_Start R mgr) (\<lambda>_. io_ret Returned))))"

definition main :: "('w, 's, 'm) manager_library \<Rightarrow> 's \<Rightarrow> ('w, program_end) io" where
  "main R scheme =
     io_bind (rn_Parse R default_flags) (\<lambda>flags.
     io_bind (rn_SetLogger R) (\<lambda>_.
     io_bind (rn_GetConfigOrDie R) (\<lambda>config.
     or_exit R ''unable to start manager''
       (rn_NewManager R config
         \<lparr>mo_Scheme = scheme, mo_Metrics_BindAddress = fl_metricsAddr flags, mo_HealthProbeBindAddress = fl_probeAddr flags,
          mo_LeaderElection = fl_enableLeaderElection flags, mo_LeaderElectionID = ''f0106fd5.nineinfra.tech''\<rparr>) (\<lambda>mgr.
     or_exit R ''unable to create controller'' (SetupWithManager R mgr) (\<lambda>_.
     io_bind (rn_Getenv R ''ENABLE_WEBHOOKS'') (\<lambda>enabled.
       if enabled \<noteq> ''false''
       then or_exit R ''unable to create webhook'' (SetupWebhookWithManager R mgr) (\<lambda>_. serve R mgr)
       else serve R mgr))))))"

text \<open>
  An error of a step ends the program with code 1 and nothing after it is done; in particular an
  operator without its controller, or without the webhook that was asked for, does not start.\<close>

lemma or_exit_run:
  "m s = Some (Fail e, s1) \<Longrightarrow> rn_Log R msg s1 = Some (Ret (), s2) \<Longrightarrow> or_exit R msg m k s = Some (Ret (Exit 1), s2)"
  "m s = Some (Ret x, s1) \<Longrightarrow> or_exit R msg m k s = k x s1"
  by (simp_all add: or_exit_def io_simps)

lemma or_exit_returned:
  assumes "or_exit R msg m k s = Some (Ret Returned, s2)"
  shows "\<exists>x s1. m s = Some (Ret x, s1) \<and> k x s1 = Some (Ret Returned, s2)"
  using assms
  by (cases "m s") (auto simp: or_exit_def io_bind_def io_try_def io_ret_def split: option.splits outcome.splits sum.splits)

text \<open>
  If the program returns, the manager it started has the controller of NineClusters, and the webhook
  unless the environment has switched it off.\<close>

lemma serve_returned:
  assumes "serve R mgr s = Some (Ret Returned, s2)"
  shows "\<exists>s1. rn_Start R mgr s1 = Some (Ret (), s2)"
proof -
  from assms obtain s3 where "io_bind (rn_Log R ''starting manager'') (\<lambda>_.
      or_exit R ''problem running manager'' (rn_Start R mgr) (\<lambda>_. io_ret Returned)) s3 = Some (Ret Returned, s2)"
    unfolding serve_def by (blast dest: or_exit_returned)
  then obtain s4 where "or_exit R ''problem running manager'' (rn_Start R mgr) (\<lambda>_. io_ret Returned) s4 =
      Some (Ret Returned, s2)"
    by (rule io_bind_RetE)
  from or_exit_returned [OF this] show ?thesis by (auto simp: io_ret_apply)
qed

lemma main_returned:
  assumes "main R scheme s = Some (Ret Returned, s2)"
  shows "\<exists>mgr env s0 s1 s3 s5. SetupWithManager R mgr s0 = Some (Ret (), s1) \<and>
    rn_Getenv R ''ENABLE_WEBHOOKS'' s1 = Some (Ret env, s3) \<and>
    (env \<noteq> ''false'' \<longrightarrow> (\<exists>s4. SetupWebhookWithManager R mgr s3 = Some (Ret (), s4))) \<and>
    rn_Start R mgr s5 = Some (Ret (), s2)"
proof -
  let ?last = "\<lambda>mgr. io_bind (rn_Getenv R ''ENABLE_WEBHOOKS'') (\<lambda>enabled.
       if enabled \<noteq> ''false''
       then or_exit R ''unable to create webhook'' (SetupWebhookWithManager R mgr) (\<lambda>_. serve R mgr)
       else serve R mgr)"
  from assms obtain mgr s6 where "or_exit R ''unable to create controller'' (SetupWithManager R mgr) (\<lambda>_. ?last mgr) s6 =
      Some (Ret Returned, s2)"
    unfolding main_def by (elim io_bind_RetE) (drule or_exit_returned, blast)
  then obtain s1 where ctrl: "SetupWithManager R mgr s6 = Some (Ret (), s1)" and "?last mgr s1 = Some (Ret Returned, s2)"
    using or_exit_returned by fastforce
  then obtain env s3 where env: "rn_Getenv R ''ENABLE_WEBHOOKS'' s1 = Some (Ret env, s3)"
    and rest: "(if env \<noteq> ''false''
       then or_exit R ''unable to create webhook'' (SetupWebhookWithManager R mgr) (\<lambda>_. serve R mgr)
       else serve R mgr) s3 = Some (Ret Returned, s2)"
    by (elim io_bind_RetE)
  have "\<exists>s5. rn_Start R mgr s5 = Some (Ret (), s2)" and
    "env \<noteq> ''false'' \<longrightarrow> (\<exists>s4. SetupWebhookWithManager R mgr s3 = Some (Ret (), s4))"
    using rest or_exit_returned serve_returned by (fastforce split: if_splits)+
  with ctrl env show ?thesis by blast
qed

section \<open>Helm\<close>

text \<open>\<open>run\<close> is \<open>exec.Command(...).Run()\<close> with the output passed on; the order is that of ranging over the map.\<close>

definition HelmInstallCmd :: "(string list \<Rightarrow> ('w, unit) io) \<Rightarrow> ((string \<times> string) list) \<Rightarrow> string \<Rightarrow> string \<Rightarrow> string \<Rightarrow>
    string \<Rightarrow> string \<Rightarrow> ('w, unit) io" where
  "HelmInstallCmd run params chartRepo releaseName chartPath chartVersion ns =
     (let argString = '' '' @ chartPath @ '' --version='' @ chartVersion @ '' --namespace '' @ ns;
          argString = foldl (\<lambda>a (k, v). a @ '' --set '' @ k @ ''='' @ v) argString params
      in run [''helm'', ''install'', releaseName, argString])"

definition HelmUnInstallCmd :: "(string list \<Rightarrow> ('w, unit) io) \<Rightarrow> string \<Rightarrow> string \<Rightarrow> ('w, unit) io" where
  "HelmUnInstallCmd run releaseName ns = run [''helm'', ''uninstall'', releaseName, ''-n'', ns]"

text \<open>
  Helm gets everything behind the release as one argument that begins with a space: there is no chart
  and no flag in it. The repository is not used.\<close>

lemma helm_one_argument:
  "\<exists>arg. HelmInstallCmd run params repo release chart version ns = run [''helm'', ''install'', release, '' '' @ chart @ arg]"
proof -
  have "\<exists>b. foldl (\<lambda>a (k, v). a @ '' --set '' @ k @ ''='' @ v) a ps = a @ b" for a :: string and ps
    by (induction ps arbitrary: a) (auto, metis append.assoc)
  then show ?thesis unfolding HelmInstallCmd_def Let_def by (metis append.assoc)
qed

end
