(* ===== verification/FakeClientset.thy ===== *)
theory FakeClientset
  imports FakeClient
begin

text \<open>
  The fake client sets, \<open>fake/clientset_generated.go\<close> of NineClusters and of PostgreSQL, which the generator
  wrote alike: an object tracker with the given objects behind a \<open>testing.Fake\<close>. The tracker and the
  reactions are those of client-go and parameters.
\<close>

section \<open>Reactions\<close>

fun action_resource :: "'d fake_action \<Rightarrow> (string \<times> string) \<times> string" where
  "action_resource (GetAction gv r ns n) = (gv, r)"
| "action_resource (ListAction gv r k ns opts) = (gv, r)"
| "action_resource (WatchAction gv r ns opts) = (gv, r)"
| "action_resource (CreateAction gv r ns obj) = (gv, r)"
| "action_resource (UpdateAction gv r ns obj) = (gv, r)"
| "action_resource (UpdateSubresourceAction gv r sub ns obj) = (gv, r)"
| "action_resource (DeleteAction gv r ns n opts) = (gv, r)"
| "action_resource (DeleteCollectionAction gv r ns opts) = (gv, r)"
| "action_resource (PatchSubresourceAction gv r ns n pt data subs) = (gv, r)"

fun action_namespace :: "'d fake_action \<Rightarrow> string" where
  "action_namespace (GetAction gv r ns n) = ns"
| "action_namespace (ListAction gv r k ns opts) = ns"
| "action_namespace (WatchAction gv r ns opts) = ns"
| "action_namespace (CreateAction gv r ns obj) = ns"
| "action_namespace (UpdateAction gv r ns obj) = ns"
| "action_namespace (UpdateSubresourceAction gv r sub ns obj) = ns"
| "action_namespace (DeleteAction gv r ns n opts) = ns"
| "action_namespace (DeleteCollectionAction gv r ns opts) = ns"
| "action_namespace (PatchSubresourceAction gv r ns n pt data subs) = ns"

type_synonym ('w, 'd, 'r) reaction = "'d fake_action \<Rightarrow> ('w, bool \<times> 'r option \<times> go_error option) io"

text \<open>\<open>'t\<close> is a tracker, whose objects are in the world; \<open>tl_Fake\<close> is the fake with its reactors.\<close>

record ('w, 't, 'd) testing_library =
  tl_NewObjectTracker :: "('w, 't) io"
  tl_Add :: "'t \<Rightarrow> 'd \<Rightarrow> ('w, unit) io"
  tl_Watch :: "'t \<Rightarrow> (string \<times> string) \<times> string \<Rightarrow> string \<Rightarrow> ('w, watcher) io"
  tl_ObjectReaction :: "'t \<Rightarrow> ('w, 'd, 'd) reaction"
  tl_Fake :: "(string \<times> string \<times> ('w, 'd, 'd) reaction) list \<Rightarrow> (string \<times> ('w, 'd, watcher) reaction) list \<Rightarrow>
    ('w, 'd) testing_fake"

definition watch_reaction :: "('w, 't, 'd) testing_library \<Rightarrow> 't \<Rightarrow> ('w, 'd, watcher) reaction" where
  "watch_reaction T tracker action =
     io_bind (io_try (tl_Watch T tracker (action_resource action) (action_namespace action))) (\<lambda>r.
       case r of
         Inl err \<Rightarrow> io_ret (False, None, Some err)
       | Inr watch \<Rightarrow> io_ret (True, Some watch, None))"

section \<open>The client set\<close>

record ('w, 't, 'd) fake_clientset =
  fc_Fake :: "('w, 'd) testing_fake"
  fc_discovery :: "('w, 'd) testing_fake"
  fc_tracker :: 't

definition add_object :: "('w, 't, 'd) testing_library \<Rightarrow> 't \<Rightarrow> 'd \<Rightarrow> unit \<Rightarrow> ('w, unit) io" where
  "add_object T tracker obj u =
     io_bind (io_try (tl_Add T tracker obj)) (\<lambda>r. case r of Inl err \<Rightarrow> io_panic (err_text err) | Inr x \<Rightarrow> io_ret x)"

definition NewSimpleClientset :: "('w, 't, 'd) testing_library \<Rightarrow> 'd list \<Rightarrow> ('w, ('w, 't, 'd) fake_clientset) io" where
  "NewSimpleClientset T objs =
     io_bind (tl_NewObjectTracker T) (\<lambda>tracker.
     io_bind (io_fold (add_object T tracker) objs ()) (\<lambda>_.
       (let fake = tl_Fake T [(''*'', ''*'', tl_ObjectReaction T tracker)] [(''*'', watch_reaction T tracker)]
        in io_ret \<lparr>fc_Fake = fake, fc_discovery = fake, fc_tracker = tracker\<rparr>)))"

definition fake_Discovery :: "('w, 't, 'd) fake_clientset \<Rightarrow> ('w, 'd) testing_fake" where
  "fake_Discovery c = fc_discovery c"

definition Tracker :: "('w, 't, 'd) fake_clientset \<Rightarrow> 't" where
  "Tracker c = fc_tracker c"

definition NineinfraV1alpha1 ::
  "('w, 't, 'd) fake_clientset \<Rightarrow> (NineCluster, 'd) runtime_type \<Rightarrow> string \<Rightarrow> ('w, NineCluster) resource_interface" where
  "NineinfraV1alpha1 c T = FakeNineClusters (fc_Fake c) T"

definition PostgresqlV1_Clusters ::
  "('w, 't, 'd) fake_clientset \<Rightarrow> string \<times> string \<Rightarrow> (pg_cluster, 'd) runtime_type \<Rightarrow> string \<Rightarrow>
     ('w, pg_cluster) resource_interface" where
  "PostgresqlV1_Clusters c gv T = FakeClusters gv (fc_Fake c) T"

text \<open>
  \<open>RESTClient\<close> of the fakes returns a nil pointer in an interface, which is itself not nil: the outer option is the
  interface.\<close>

definition fake_RESTClient :: "('w, 'd) testing_fake \<Rightarrow> 'r option option" where
  "fake_RESTClient F = Some None"

section \<open>What it holds\<close>

text \<open>
  A new set has tried to add its objects in their order, and an object that cannot be added is a
  panic: a set that is returned has them all.\<close>

lemma add_objects_ret:
  "io_fold (add_object T tracker) objs () w = Some (Ret (), w1) \<Longrightarrow> obj \<in> set objs \<Longrightarrow>
   \<exists>w2 w3. tl_Add T tracker obj w2 = Some (Ret (), w3)"
proof (induction objs arbitrary: w)
  case (Cons x xs)
  from Cons.prems(1) obtain w4 where x: "add_object T tracker x () w = Some (Ret (), w4)"
    and xs: "io_fold (add_object T tracker) xs () w4 = Some (Ret (), w1)"
    by (auto elim: io_bind_RetE)
  from x have "tl_Add T tracker x w = Some (Ret (), w4)"
    by (cases "tl_Add T tracker x w")
      (auto simp: add_object_def io_bind_def io_try_def io_ret_def io_panic_def split: outcome.splits)
  with Cons.IH [OF xs] Cons.prems(2) show ?case by auto
qed simp

lemma NewSimpleClientset_holds:
  assumes "NewSimpleClientset T objs w = Some (Ret c, w1)" and "obj \<in> set objs"
  shows "\<exists>w2 w3. tl_Add T (Tracker c) obj w2 = Some (Ret (), w3)"
proof -
  from assms(1) obtain tracker w2
    where f: "io_fold (add_object T tracker) objs () w2 = Some (Ret (), w1)" and t: "Tracker c = tracker"
    by (auto simp: NewSimpleClientset_def Tracker_def Let_def io_ret_apply elim!: io_bind_RetE)
  show ?thesis unfolding t by (rule add_objects_ret [OF f assms(2)])
qed

lemma NewSimpleClientset_not_fail:
  assumes "\<And>s e s1. tl_NewObjectTracker T s \<noteq> Some (Fail e, s1)"
  shows "NewSimpleClientset T objs w \<noteq> Some (Fail e, w1)"
proof -
  have "add_object T tracker x u s \<noteq> Some (Fail e, s1)" for tracker x u s s1
    by (cases "tl_Add T tracker x s")
      (auto simp: add_object_def io_bind_def io_try_def io_ret_def io_panic_def split: outcome.splits)
  then have "io_fold (add_object T tracker) xs u s \<noteq> Some (Fail e, s1)" for tracker xs u s s1
    by (induction xs arbitrary: u s) (auto simp: io_ret_apply elim!: io_bind_FailE)
  with assms show ?thesis
    by (auto simp: NewSimpleClientset_def Let_def io_ret_apply elim!: io_bind_FailE)
qed

end
