(* ===== verification/Spec2Isabelle.thy ===== *)
theory Spec2Isabelle
  imports Controller Liveness Platform Race Drive Volume DirectPVNode TenantConfig TenantDefaults TenantValidate TenantAdmin TenantClients SafeFile JsonGrammar NetUrl ClientWorld FakeClient NineCopy TenantCopy DirectPVCopy DirectPVSchema Startup FakeClientset
begin

text \<open>
  Nineinfra is a Kubernetes operator. A user declares a NineCluster, a data platform; the operator
  completes the declaration with the components it needs and creates, one goroutine per
  component, the custom resources of other operators: a MinIO Tenant, PostgreSQL, ZooKeeper,
  HDFS, Hive metastore, Doris and Kyuubi clusters. The repository also carries the API packages
  of two of those operators: the MinIO Tenant with its helper methods, and DirectPV's drives,
  volumes and nodes, and generated clients for all of them. This development models these parts
  and what joins them.

  \<^bold>\<open>The operator\<close> (\<open>api/v1alpha1\<close>, \<open>internal/controller\<close>)
  \<^item> \<open>ApiTypes\<close>: the NineCluster structs, constants and default cluster sets.
  \<^item> \<open>Common\<close>: names, look-ups, completion of the cluster set, storage arithmetic and readiness
    checks (\<open>common.go\<close>, \<open>constants.go\<close>, \<open>utils.go\<close>).
  \<^item> \<open>Ensure\<close>: the look-up-or-create tail every reconciler ends with.
  \<^item> \<open>Minio\<close>, \<open>Postgres\<close>, \<open>Zookeeper\<close>, \<open>Hdfs\<close>, \<open>Metastore\<close>, \<open>Kyuubi\<close>, \<open>Doris\<close>: one reconciler per file, with
    the waits on other components (\<open>Waiting\<close> gives the meaning of a wait).
  \<^item> \<open>Controller\<close>: \<open>Reconcile\<close>, the table of mutexes and the goroutines, as a step relation; which
    reconcilers return is its parameter.
  \<^item> \<open>Liveness\<close>: when the reconcilers return, and when they wait for ever; \<open>Platform\<close>: a whole request,
    its goroutines and their reconcilers in one world; \<open>Race\<close>: the tails of overlapping reconcilers,
    interleaved call by call.
  \<^item> \<open>Startup\<close>: \<open>cmd/main.go\<close>, the webhook, the schemes and the Helm commands.
  \<^item> \<open>External\<close> is the record of everything outside the repository the operator calls, over an
    unspecified world; \<open>Server\<close> is one concrete such world, on which the properties are run.

  \<^bold>\<open>The MinIO tenant\<close> (\<open>pkg/minio/operator/apis/minio.min.io/v2\<close>)
  \<^item> \<open>TenantTypes\<close>: the structs of \<open>types.go\<close>; \<open>TenantUtils\<close>: random credentials (\<open>utils.go\<close>).
  \<^item> \<open>TenantNames\<close>: \<open>names.go\<close>, \<open>labels.go\<close>, \<open>constants.go\<close> and the settings read once.
  \<^item> \<open>TenantHelpers\<close>, \<open>TenantDefaults\<close>, \<open>TenantValidate\<close>, \<open>TenantConfig\<close>, \<open>TenantAdmin\<close>, \<open>TenantClients\<close>: the
    functions of \<open>helper.go\<close>, by subject: queries, defaults, validation, configuration text,
    changes to a running MinIO, clients.
  \<^item> \<open>NetUrl\<close>: \<open>UpdateURL\<close> with the part of \<open>net/url\<close> it calls; \<open>Json\<close>: \<open>CompactJSONString\<close> with the scanner of
    \<open>encoding/json\<close>; \<open>JsonGrammar\<close>: that scanner against the grammar of JSON.

  \<^bold>\<open>DirectPV\<close> (\<open>pkg/minio/directpv/apis/directpv.min.io/v1beta1\<close>)
  \<^item> \<open>Labels\<close>, \<open>DirectPVTypes\<close>, \<open>Drive\<close>, \<open>Volume\<close>, \<open>DirectPVNode\<close>: \<open>label.go\<close>, \<open>types.go\<close> and \<open>utils.go\<close>, \<open>drive.go\<close>,
    \<open>volume.go\<close>, \<open>node.go\<close> and \<open>init_request.go\<close>; \<open>SafeFile\<close>: the files and messages of \<open>utils.go\<close>.

  \<^bold>\<open>The generated clients\<close> (\<open>client/clientset\<close>, \<open>pkg/cloudnative-pg/client\<close> and the API packages)
  \<^item> \<open>RestClient\<close>: the methods every client has, the group clients and client sets.
  \<^item> \<open>RestServer\<close>: what a server promises about requests, and the contract of a client that follows.
  \<^item> \<open>ClientWorld\<close>: the reconcilers with these clients in place, and a concrete server.
  \<^item> \<open>FakeClient\<close>: the fake clients for tests, against the same contract; \<open>FakeClientset\<close>: the fake client sets.

  \<^bold>\<open>Deep copies and schemas\<close> (\<open>zz_generated.deepcopy.go\<close>, \<open>deepcopy_generated.go\<close>, \<open>openapi_generated.go\<close>)
  \<^item> \<open>GoMemory\<close>: cells, slices, maps and pointers, and what a deep copy is; \<open>K8sCopy\<close>: the copies of the
    Kubernetes types, which other repositories generate.
  \<^item> \<open>NineCopy\<close>, \<open>TenantCopy\<close>, \<open>DirectPVCopy\<close>: every copy of the three packages, field by field.
  \<^item> \<open>OpenAPI\<close>: schemas and conformance; \<open>DirectPVSchema\<close>: the definitions of \<open>openapi_generated.go\<close>, and the
    documents the JSON tags of the DirectPV structs make.

  \<^bold>\<open>Shared vocabulary\<close>: \<open>Prelude\<close> (machine integers, nil-able maps, errors and the effect monad \<open>io\<close>),
  \<open>GoLib\<close>, \<open>Runes\<close> and \<open>Scanning\<close> (the parts of Go's standard library the code calls), \<open>K8sTypes\<close> (the
  Kubernetes types it reads and writes).

  \<^bold>\<open>How the code is read.\<close> A struct is a record, a Go \<open>int32\<close> or \<open>int64\<close> a word that wraps, a nil-able
  map an option, an error a value of a sum or an outcome, a panic an outcome of its own or
  \<open>None\<close>. An operation that calls the outside is an \<open>io\<close>: it may not return (\<open>None\<close>), which is how a
  wait without a limit is modelled, by a \<open>partial_function\<close>; what such a wait does is stated in both
  directions, when it returns and when it never does. No fuel is used: the other loops are
  recursions that are shown to terminate. A function that ranges over a Go map takes the order
  of the visit as an argument. Aliasing that a caller can see (the ZooKeeper configuration
  map, the shared replica variable, the HTTP transport) is state that is returned. The deep copies, whose
  point is aliasing, work on a memory of cells; a struct there has addresses for its references, and \<open>_reads\<close>
  gives the value the rest of the development has for it.

  \<^bold>\<open>Contracts.\<close> The locale \<open>get_or_create\<close> is the contract of the look-up-or-create tails, interpreted on
  the three the code has; \<open>labelled\<close> and \<open>suspendable\<close> are the label contract of DirectPV, interpreted
  on drives and on volumes; \<open>once_cell\<close> is the contract of a variable behind a \<open>sync.Once\<close>, interpreted on
  the six getters. \<open>answering\<close> says that the calls of the outside return, \<open>calm\<close> that all components get
  ready besides, interpreted on a server that is ready late; \<open>rising\<close> says that a component gets ready
  once its object and the secrets the operator writes for it are there, interpreted on a server that
  looks for both and has neither at the start; \<open>race\<close> is the contract of a truthful store under
  interleaved tails, \<open>strict_race\<close> that of one that creates only what is missing, and \<open>reliable_race\<close> that of
  one whose calls return, interpreted on the custom resources and the secrets of the server (\<open>cr_server\<close>,
  \<open>secret_server\<close> and their reliable versions state them for the calls of \<open>External\<close>). \<open>file_system\<close>
  is what the safe file needs of the operating system, interpreted on a disk; \<open>rest_server\<close> is the contract of
  the API server, interpreted on a server that keeps a list, \<open>fake_tracker\<close> that of the object tracker behind the
  fakes; \<open>object_api\<close> and its extension \<open>strict_api\<close> are the contract of a client, given by \<open>typed_server\<close> for every
  generated client and by \<open>fake_tracker\<close> for every fake; \<open>deep_copying\<close> is the contract of a copy, given for every
  copied object by \<open>nine_copying\<close>, \<open>tenant_copying\<close> and \<open>directpv_copying\<close>, which extend \<open>k8s_copying\<close>, the promise of
  the copies of the Kubernetes types; \<open>ref_callback\<close> says that the references of a schema can be told apart, interpreted on
  references that are names; \<open>scheme_laws\<close> what the scheme of apimachinery does, interpreted on a set of kinds. The finalizers of a drive refine a list of volumes without duplicates.

  \<^bold>\<open>What is shown.\<close> For the operator: what the completion adds and when it is complete, that one
  request starts one goroutine per entry, what the mutexes exclude and what they do not, that
  goroutines come to rest and what is left of them then, when a reconciler returns and when it never
  does, that the waits of the reconcilers on each other are not circular, so that a request delivers
  its objects and secrets unless a reconciler falls short, that on any truthful server overlapping
  reconcilers create every object once, and which of them fail, that a reconciler that reports
  success has left its object, and that the sizes, addresses, credentials and configuration it derives are right. For the
  tenant: that defaults are stable and complete, what validation accepts, that configuration
  files are read back, what the client constructors and the administration functions do. For
  DirectPV: labels, finalizers, conditions and their life cycles, and that files are replaced at once.
  For the clients: that they touch only what they were asked for, read back what they created, and
  turn the tail of a reconciler into put-if-absent. For the deep copies: that a copied NineCluster or
  DirectPV object shares no memory with its original, and a copied tenant only the three fields its
  generated code has missed. For the schemas: which objects conform to them. This theory joins the first two: the tenant the operator builds passes the tenant code's validation, its configuration
  file means what it says, and the keys it hands to other components are an account of it.

  \<^bold>\<open>Not modelled.\<close> What other repositories have: client-go, the controller runtime and apimachinery behind
  their interfaces, the serialisers, and the copies and schemas of the Kubernetes types; logging. The
  reconcilers register the types of their clients with the schemes of the packages before they make
  them; for the packages of this repository that is in \<open>Startup\<close>, and no operation of a reconciler reads a
  scheme. In the step relations
  of \<open>Controller\<close> and \<open>Platform\<close> the effects of one goroutine run to its end as one step; their
  interleaving is the subject of \<open>Race\<close>, for the tails, and elsewhere is represented by the world,
  which may change between any two calls.
\<close>

section \<open>The tenant the operator asks for\<close>

lemma minio_tenant_spec:
  "ts_Configuration (t_Spec (minio_tenant c minio n q)) = Some (MinioConfigName c)"
  "ts_RequestAutoCert (t_Spec (minio_tenant c minio n q)) = Some False"
  "ts_ExternalCertSecret (t_Spec (minio_tenant c minio n q)) = []"
  "ts_Features (t_Spec (minio_tenant c minio n q)) = None"
  "ts_KES (t_Spec (minio_tenant c minio n q)) = None"
  by (simp_all add: minio_tenant_def zero_tenant_spec_def)

text \<open>
  C3: the tenant the operator constructs is one MinIO accepts: with at least one DirectPV node and
  one disk, a positive claim per volume, and two or three nodes having four volumes between
  them, it passes the validation of the tenant code, whatever domains mean there, and it still
  does with the defaults set. It serves without TLS, under the service name the other
  reconcilers wait for and with the scheme they put before the endpoint.\<close>
theorem operator_tenant_valid:
  assumes "0 < sint n" and "0 < sint (int32_of_int (GetDiskNum minio))" and "0 < sint (q_Value q)"
    and "n = 2 \<or> n = 3 \<Longrightarrow> 4 \<le> sint (n * int32_of_int (GetDiskNum minio))"
  shows "Tenant_Validate parse_host is_domain (minio_tenant c minio n q) = Inr () \<and>
    Tenant_Validate parse_host is_domain (EnsureDefaults E (minio_tenant c minio n q)) = Inr () \<and>
    \<not> TLS (minio_tenant c minio n q) \<and>
    MinIOCIServiceName (minio_tenant c minio n q) = ''minio'' \<and>
    GetTenantServiceURL E (minio_tenant c minio n q) =
      minioFullEndpoint (MinIOServerHostAddress E (minio_tenant c minio n q)) False"
proof -
  let ?t = "minio_tenant c minio n q"
  obtain p where p: "ts_Pools (t_Spec ?t) = Some [p]" "pool_Servers p = n"
    "pool_VolumesPerServer p = int32_of_int (GetDiskNum minio)"
    "\<exists>claim. pool_VolumeClaimTemplate p = Some claim \<and> valid_claim (pvc_Spec claim)"
    using assms(3)
    by (auto simp: minio_tenant_def valid_claim_def RequestStorage_def storage_request_def
        no_requirements_def)
  have pool: "valid_pool p" using assms p by (auto simp: valid_pool_def)
  have named: "pool_Name (name_pool (0, p)) \<noteq> []" by (rule name_pool_named)
  have pool_d: "valid_pool (name_pool (0, p))"
    using pool by (simp add: name_pool_def valid_pool_def)
  have conf: "HasConfigurationSecret u" if "ts_Configuration (t_Spec u) = Some (MinioConfigName c)" for u
    using that by (simp add: HasConfigurationSecret_def named_def MinioConfigName_def)
  have valid: "Tenant_Validate parse_host is_domain u = Inr ()"
    if "ts_Pools (t_Spec u) = Some [r]" "valid_pool r"
      "ts_Configuration (t_Spec u) = Some (MinioConfigName c)"
      "ts_Features (t_Spec u) = None" "ts_KES (t_Spec u) = None" for u r
    using that conf [of u]
    by (simp add: Tenant_Validate_iff HasGCPCredentialSecretForKES_def
        HasGCPWorkloadIdentityPoolForKES_def ValidateDomains_def HasMinIODomains_def)
  have spec: "ts_Pools (t_Spec (EnsureDefaults E ?t)) = Some [name_pool (0, p)]"
    "ts_Configuration (t_Spec (EnsureDefaults E ?t)) = Some (MinioConfigName c)"
    "ts_Features (t_Spec (EnsureDefaults E ?t)) = None" "ts_KES (t_Spec (EnsureDefaults E ?t)) = None"
    using p(1) by (simp_all add: EnsureDefaults_eq default_basics_def minio_tenant_spec Let_def)
  have plain: "\<not> TLS ?t"
    by (simp add: TLS_def AutoCert_def ExternalCert_def minio_tenant_spec)
  have v1: "Tenant_Validate parse_host is_domain ?t = Inr ()"
    using valid [of ?t p] p(1) pool by (simp add: minio_tenant_spec)
  have v2: "Tenant_Validate parse_host is_domain (EnsureDefaults E ?t) = Inr ()"
    using valid [of "EnsureDefaults E ?t" "name_pool (0, p)"] spec pool_d by simp
  show ?thesis
    using v1 v2 plain
    by (simp add: MinIOCIServiceName_def GetTenantServiceURL_def tenant_scheme_def minioFullEndpoint_def)
qed

definition demo_capacity :: quantity where
  "demo_capacity = new_quantity 1073741824 BinarySI"

theorem operator_tenant_valid_witness:
  "Tenant_Validate Inr (\<lambda>_. True) (minio_tenant demo_cluster minio_default 4 demo_capacity) = Inr ()"
proof -
  have "0 < sint (int32_of_int (GetDiskNum minio_default))"
    by (simp add: GetDiskNum_def minio_default_def zero_cluster_def zero_resource_def int32_of_int_def)
  then show ?thesis
    using operator_tenant_valid [of 4 minio_default demo_capacity Inr "\<lambda>_. True" demo_cluster]
    by (simp add: demo_capacity_def new_quantity_def)
qed

section \<open>The users of that tenant\<close>

lemma operator_config_lines:
  "parsEnvEntry ''export MINIO_ACCESS_KEY=TIMJKQV5ZTSITBPK'' =
     Inr \<lparr>kv_Key = ''MINIO_ACCESS_KEY'', kv_Value = ''TIMJKQV5ZTSITBPK'', kv_Skip = False\<rparr>"
  "parsEnvEntry ''export MINIO_SECRET_KEY=5QGECCS3GGE05P2W5RCKVTKOBQ3G4QOX'' =
     Inr \<lparr>kv_Key = ''MINIO_SECRET_KEY'', kv_Value = ''5QGECCS3GGE05P2W5RCKVTKOBQ3G4QOX'', kv_Skip = False\<rparr>"
  using parsEnvEntry_plain [of "''MINIO_ACCESS_KEY''" "''TIMJKQV5ZTSITBPK''"]
    parsEnvEntry_plain [of "''MINIO_SECRET_KEY''" "''5QGECCS3GGE05P2W5RCKVTKOBQ3G4QOX''"]
  by (simp_all add: env_name_def alphanum_def code_def)

lemma operator_config_parsed:
  "ParseRawConfiguration (Some
     (''export MINIO_ACCESS_KEY='' @ ''TIMJKQV5ZTSITBPK'' @ newline @
      ''export MINIO_SECRET_KEY='' @ ''5QGECCS3GGE05P2W5RCKVTKOBQ3G4QOX'' @ newline)) =
   [''MINIO_ACCESS_KEY'' \<mapsto> ''TIMJKQV5ZTSITBPK'', ''accesskey'' \<mapsto> ''TIMJKQV5ZTSITBPK'',
    ''MINIO_SECRET_KEY'' \<mapsto> ''5QGECCS3GGE05P2W5RCKVTKOBQ3G4QOX'',
    ''secretkey'' \<mapsto> ''5QGECCS3GGE05P2W5RCKVTKOBQ3G4QOX'']"
proof -
  have "scan_lines
     (''export MINIO_ACCESS_KEY='' @ ''TIMJKQV5ZTSITBPK'' @ newline @
      ''export MINIO_SECRET_KEY='' @ ''5QGECCS3GGE05P2W5RCKVTKOBQ3G4QOX'' @ newline) =
    [''export MINIO_ACCESS_KEY=TIMJKQV5ZTSITBPK'',
     ''export MINIO_SECRET_KEY=5QGECCS3GGE05P2W5RCKVTKOBQ3G4QOX'']"
    using scan_lines_concat [of "[''export MINIO_ACCESS_KEY=TIMJKQV5ZTSITBPK'',
       ''export MINIO_SECRET_KEY=5QGECCS3GGE05P2W5RCKVTKOBQ3G4QOX'']"]
    by (simp add: newline_def max_token_def drop_cr_def)
  then show ?thesis
    by (simp add: ParseRawConfiguration_def config_step_def operator_config_lines put_setting_def)
qed

lemma operator_config_data:
  "mget (sec_Data (minio_config_secret c)) ''config.env'' = Some
     (''export MINIO_ACCESS_KEY='' @ ''TIMJKQV5ZTSITBPK'' @ newline @
      ''export MINIO_SECRET_KEY='' @ ''5QGECCS3GGE05P2W5RCKVTKOBQ3G4QOX'' @ newline)"
  by (simp add: minio_config_secret_def)

definition operator_settings :: "NineCluster \<Rightarrow> (string, string) gomap" where
  "operator_settings c =
     Some (ParseRawConfiguration (mget (sec_Data (minio_config_secret c)) ''config.env''))"

lemma operator_settings_eq:
  "operator_settings c = Some
     [''MINIO_ACCESS_KEY'' \<mapsto> ''TIMJKQV5ZTSITBPK'', ''accesskey'' \<mapsto> ''TIMJKQV5ZTSITBPK'',
      ''MINIO_SECRET_KEY'' \<mapsto> ''5QGECCS3GGE05P2W5RCKVTKOBQ3G4QOX'',
      ''secretkey'' \<mapsto> ''5QGECCS3GGE05P2W5RCKVTKOBQ3G4QOX'']"
  by (simp only: operator_settings_def operator_config_data operator_config_parsed)

text \<open>
  C14: the root credentials of the tenant are the same in every cluster. The file the operator
  writes into the secret the tenant names as its configuration is read by the tenant code as
  the two fixed keys, whatever the cluster is called and whatever it asks for, so an admin client
  of the tenant is made without TLS and with those keys for the address of its service.\<close>
theorem operator_config_read:
  "ts_Configuration (t_Spec (minio_tenant c minio n q)) = Some (om_Name (sec_Meta (minio_config_secret c))) \<and>
   ParseRawConfiguration (mget (sec_Data (minio_config_secret c)) ''config.env'') ''accesskey'' =
     Some ''TIMJKQV5ZTSITBPK'' \<and>
   ParseRawConfiguration (mget (sec_Data (minio_config_secret c)) ''config.env'') ''secretkey'' =
     Some ''5QGECCS3GGE05P2W5RCKVTKOBQ3G4QOX'' \<and>
   NewMinIOAdmin new_with_options set_transport E (minio_tenant c minio n q)
     (Some (ParseRawConfiguration (mget (sec_Data (minio_config_secret c)) ''config.env''))) tr =
     map_sum id (set_transport tr)
       (new_with_options (MinIOServerHostAddress E (minio_tenant c minio n q))
          \<lparr>opt_Secure = False, opt_AccessKey = ''TIMJKQV5ZTSITBPK'',
           opt_SecretKey = ''5QGECCS3GGE05P2W5RCKVTKOBQ3G4QOX''\<rparr>)"
proof -
  let ?t = "minio_tenant c minio n q"
  have "getMinIOTenantDetails E ?t [] (operator_settings c) =
      Inr (MinIOServerHostAddress E ?t, ''TIMJKQV5ZTSITBPK'', ''5QGECCS3GGE05P2W5RCKVTKOBQ3G4QOX'')"
    by (simp add: getMinIOTenantDetails_iff operator_settings_eq)
  moreover have "\<not> TLS ?t" by (simp add: TLS_def AutoCert_def ExternalCert_def minio_tenant_spec)
  ultimately have "NewMinIOAdmin new_with_options set_transport E ?t (operator_settings c) tr =
     map_sum id (set_transport tr)
       (new_with_options (MinIOServerHostAddress E ?t)
          \<lparr>opt_Secure = False, opt_AccessKey = ''TIMJKQV5ZTSITBPK'',
           opt_SecretKey = ''5QGECCS3GGE05P2W5RCKVTKOBQ3G4QOX''\<rparr>)"
    by (simp add: NewMinIOAdmin_def NewMinIOAdminForAddress_def split: sum.splits)
  moreover have "ts_Configuration (t_Spec ?t) = Some (om_Name (sec_Meta (minio_config_secret c)))"
    by (simp add: minio_tenant_spec minio_config_secret_def)
  ultimately show ?thesis
    using operator_settings_eq [of c] by (simp add: operator_settings_def)
qed

lemma trim_space_table:
  assumes "set s \<subseteq> set table" and "\<forall>c \<in> set table. solid c" and "s \<noteq> []"
  shows "trim_space s = s"
  using assms hd_in_set [of s] last_in_set [of s] by (intro trim_space_solid) blast+

lemma tables_solid:
  "\<forall>c \<in> set alphaNumericTable. solid c" "\<forall>c \<in> set alphaNumericTableFull. solid c"
  by (simp_all add: alphaNumericTable_def alphaNumericTableFull_def solid_def white_space_def code_def)

lemma trim_space_credentials:
  assumes "GenerateCredentials X s = Some (Ret (ak, sk), s1)"
  shows "trim_space ak = ak \<and> trim_space sk = sk"
  using GenerateCredentials_shape [OF assms]
  by (auto intro: trim_space_table [OF _ tables_solid(1)] trim_space_table [OF _ tables_solid(2)])

lemma operator_config_no_ldap:
  "\<not> skip_users (Some (ParseRawConfiguration (mget (sec_Data (minio_config_secret c)) ''config.env'')))"
  using operator_settings_eq [of c] by (simp add: operator_settings_def skip_users_def)

text \<open>
  C13: the keys other components are given are those of an account MinIO has. When the operator's
  random credentials are generated, their secret is stored, and the tenant code then creates the
  users of the tenant with the settings of the operator's configuration file, MinIO has an
  account of exactly the access key and the secret key \<open>getMinioExposedInfo\<close> answers, and
  that account has the console policy.\<close>
theorem operator_user_known:
  assumes "admin_laws A users policy"
    and "GenerateCredentials X s = Some (Ret keys, s1)"
    and "sec_Data sec = sec_Data (minio_user_secret c keys)"
    and "x_GetService X (cluster_namespace c) ''minio'' (op_world s2) = Some (Ret svc, op_world s2)"
    and "x_GetSecret X (cluster_namespace c) (MinioNewUserName c) (op_world s2) = Some (Ret sec, op_world s2)"
    and "CreateUsers A [sec] (Some (ParseRawConfiguration (mget (sec_Data (minio_config_secret c)) ''config.env''))) w =
      Some (Ret (), w1)"
  shows "\<exists>info. getMinioExposedInfo X c s2 = Some (Ret info, s2) \<and>
    users w1 (me_AccessKey info) = Some (me_SecretKey info) \<and>
    policy w1 (me_AccessKey info) = Some ConsoleAdminPolicyName"
proof -
  obtain ak sk where keys: "keys = (ak, sk)" by (cases keys)
  have data: "mget (sec_Data sec) ''CONSOLE_ACCESS_KEY'' = Some ak"
    "mget (sec_Data sec) ''CONSOLE_SECRET_KEY'' = Some sk"
    using assms(3) by (simp_all add: minio_user_secret_def keys)
  have trim: "trim_space ak = ak" "trim_space sk = sk"
    using trim_space_credentials assms(2) keys by blast+
  have "create_user A False sec w = Some (Ret (), w1)"
    using assms(6) operator_config_no_ldap by (auto simp: CreateUsers_def io_bind_def io_ret_def split: option.splits outcome.splits)
  then obtain w2 where "ac_AddUser A ak sk w = Some (Ret (), w2)"
    "ac_SetPolicy A ConsoleAdminPolicyName ak w2 = Some (Ret (), w1)"
    by (auto simp: create_user_def data trim Let_def elim!: io_bind_RetE)
  with assms(1) have "users w1 ak = Some sk" "policy w1 ak = Some ConsoleAdminPolicyName"
    by (auto simp: admin_laws_def)
  moreover have "getMinioExposedInfo X c s2 =
      Some (Ret \<lparr>me_Endpoint = svc_ClusterIP svc, me_AccessKey = ak, me_SecretKey = sk\<rparr>, s2)"
    using getMinioExposedInfo_ready [OF assms(4,5)] by (simp add: exposed_of_def data)
  ultimately show ?thesis by simp
qed

abbreviation demo_keys :: "string \<times> string" where
  "demo_keys \<equiv> (replicate 20 CHR ''7'', replicate 40 CHR ''H'')"

definition user_world :: server_world where
  "user_world = empty_world
     \<lparr>sw_services := [((''dwh'', ''minio''), \<lparr>svc_ClusterIP = ''10.1.2.3''\<rparr>)],
      sw_secrets := [((''dwh'', MinioNewUserName demo_cluster), minio_user_secret demo_cluster demo_keys)]\<rparr>"

theorem operator_user_known_witness:
  "\<exists>info w1. getMinioExposedInfo server demo_cluster (in_world user_world) = Some (Ret info, in_world user_world) \<and>
     fst w1 (me_AccessKey info) = Some (me_SecretKey info) \<and>
     snd w1 (me_AccessKey info) = Some ConsoleAdminPolicyName"
proof -
  let ?sec = "minio_user_secret demo_cluster demo_keys"
  let ?conf = "Some (ParseRawConfiguration (mget (sec_Data (minio_config_secret demo_cluster)) ''config.env''))"
  have laws: "admin_laws mem_admin fst snd" by (auto simp: admin_laws_def mem_admin_def)
  obtain w1 where run: "CreateUsers mem_admin [?sec] ?conf (Map.empty, Map.empty) = Some (Ret (), w1)"
    using operator_config_no_ldap [of demo_cluster]
    by (simp add: CreateUsers_def create_user_def minio_user_secret_def mem_admin_def
        io_bind_def io_ret_def Let_def)
  have svc: "x_GetService server (cluster_namespace demo_cluster) ''minio'' (op_world (in_world user_world)) =
      Some (Ret \<lparr>svc_ClusterIP = ''10.1.2.3''\<rparr>, op_world (in_world user_world))"
    and sec: "x_GetSecret server (cluster_namespace demo_cluster) (MinioNewUserName demo_cluster)
      (op_world (in_world user_world)) = Some (Ret ?sec, op_world (in_world user_world))"
    by (simp_all add: user_world_def in_world_def answer_def io_ret_def)
  show ?thesis
    using operator_user_known [OF laws server_credentials refl svc sec run] by blast
qed

end
